(* ===== verification/Xpro_Prelude.thy ===== *)
theory Xpro_Prelude
  imports Complex_Main "HOL-Library.List_Lexorder" "HOL-Library.Char_ord"
begin

text \<open>
  What the component theories share: the exceptions of the program as a datatype, programs that
  read and write a state and may raise (an exception keeps the state reached so far, a
  transaction block restores the state it began with), the rules that carry an invariant through
  such programs, and the list functions of Python that the code uses everywhere.
\<close>

named_theorems prog_defs
named_theorems keeps_intros

section \<open>Exceptions\<close>

text \<open>
  One constructor per exception class the modelled code raises or catches. A validation error
  carries the key of its dictionary (the empty string for a plain message) and its message; the
  object errors carry the model's name.
\<close>

datatype exn =
    ValidationError string string
  | DoesNotExist string
  | MultipleObjectsReturned string
  | IntegrityError string
  | EcommerceException string
  | ParseException string
  | KeyError string
  | ValueError string
  | TypeErr string
  | AttributeError string
  | IndexError
  | StopIteration
  | EdxEnrollError
  | EdxUnknownEnrollError
  | NoEdxApiAuthError
  | OpenEdXOAuth2Error
  | HTTPError
  | RequestsConnectionError
  | EdxEnrollmentCreateError string
  | CoursewareUserCreateError string
  | UserNameUpdateFailed
  | EdxRegistrationValidation
  | ImproperlyConfigured string
  | AssertionError string
  | CommandError string
  | Http404
  | PermissionDenied
  | SheetRowParsingException string
  | SheetValidationException string
  | CouponAssignmentError string
  | GoogleHttpError nat string
  | MultiEmailValidationError "string list"
  | PlainException string

text \<open>\<open>str(exc)\<close>, where the exception carries a text.\<close>

definition exn_message :: "exn \<Rightarrow> string" where
  "exn_message e =
     (case e of
        ValidationError _ m \<Rightarrow> m | DoesNotExist m \<Rightarrow> m @ '' matching query does not exist.'' | MultipleObjectsReturned m \<Rightarrow> m
      | IntegrityError m \<Rightarrow> m | EcommerceException m \<Rightarrow> m | ParseException m \<Rightarrow> m | KeyError m \<Rightarrow> m | ValueError m \<Rightarrow> m
      | TypeErr m \<Rightarrow> m | AttributeError m \<Rightarrow> m | IndexError \<Rightarrow> ''list index out of range''
      | EdxEnrollmentCreateError m \<Rightarrow> m | CoursewareUserCreateError m \<Rightarrow> m | ImproperlyConfigured m \<Rightarrow> m
      | AssertionError m \<Rightarrow> m | CommandError m \<Rightarrow> m | SheetRowParsingException m \<Rightarrow> m | SheetValidationException m \<Rightarrow> m
      | CouponAssignmentError m \<Rightarrow> m | GoogleHttpError _ m \<Rightarrow> m | PlainException m \<Rightarrow> m | _ \<Rightarrow> [])"

text \<open>\<open>except\<close> clauses: which class an exception belongs to.\<close>

definition is_does_not_exist :: "exn \<Rightarrow> bool" where
  "is_does_not_exist e = (case e of DoesNotExist _ \<Rightarrow> True | _ \<Rightarrow> False)"

lemma is_does_not_exist_iff: "is_does_not_exist e \<longleftrightarrow> (\<exists>m. e = DoesNotExist m)"
  by (cases e) (simp_all add: is_does_not_exist_def)

lemma is_does_not_exist_simps [simp]: "is_does_not_exist (DoesNotExist m)"
  by (simp add: is_does_not_exist_def)

definition is_multiple_objects :: "exn \<Rightarrow> bool" where
  "is_multiple_objects e = (case e of MultipleObjectsReturned _ \<Rightarrow> True | _ \<Rightarrow> False)"

lemma is_multiple_objects_iff: "is_multiple_objects e \<longleftrightarrow> (\<exists>m. e = MultipleObjectsReturned m)"
  by (cases e) (simp_all add: is_multiple_objects_def)

lemma is_multiple_objects_simps [simp]: "is_multiple_objects (MultipleObjectsReturned m)"
  by (simp add: is_multiple_objects_def)

definition is_validation_error :: "exn \<Rightarrow> bool" where
  "is_validation_error e = (case e of ValidationError _ _ \<Rightarrow> True | _ \<Rightarrow> False)"

lemma is_validation_error_iff: "is_validation_error e \<longleftrightarrow> (\<exists>k m. e = ValidationError k m)"
  by (cases e) (simp_all add: is_validation_error_def)

lemma is_validation_error_simps [simp]: "is_validation_error (ValidationError k m)"
  by (simp add: is_validation_error_def)

definition is_value_error :: "exn \<Rightarrow> bool" where
  "is_value_error e = (case e of ValueError _ \<Rightarrow> True | _ \<Rightarrow> False)"

lemma is_value_error_iff: "is_value_error e \<longleftrightarrow> (\<exists>m. e = ValueError m)"
  by (cases e) (simp_all add: is_value_error_def)

lemma is_value_error_simps [simp]: "is_value_error (ValueError m)"
  by (simp add: is_value_error_def)

definition is_type_error :: "exn \<Rightarrow> bool" where
  "is_type_error e = (case e of TypeErr _ \<Rightarrow> True | _ \<Rightarrow> False)"

lemma is_type_error_iff: "is_type_error e \<longleftrightarrow> (\<exists>m. e = TypeErr m)"
  by (cases e) (simp_all add: is_type_error_def)

lemma is_type_error_simps [simp]: "is_type_error (TypeErr m)"
  by (simp add: is_type_error_def)

definition is_integrity_error :: "exn \<Rightarrow> bool" where
  "is_integrity_error e = (case e of IntegrityError _ \<Rightarrow> True | _ \<Rightarrow> False)"

lemma is_integrity_error_iff: "is_integrity_error e \<longleftrightarrow> (\<exists>m. e = IntegrityError m)"
  by (cases e) (simp_all add: is_integrity_error_def)

lemma is_integrity_error_simps [simp]: "is_integrity_error (IntegrityError m)"
  by (simp add: is_integrity_error_def)

section \<open>Effects on the outside world\<close>

text \<open>
  Mail, HubSpot synchronisation, queued tasks and log lines are recorded in the order they are sent:
  a name, the keys of the objects they concern, and text.
\<close>

datatype effect =
    SendMail string "nat list" "string list"
  | HubspotSync string nat
  | QueueTask string "nat list"
  | LogLine string "nat list"
  | EdxCall string "string list"
  | GoogleCall string string "string list list"
  | SheetRowsEnrolled "(string \<times> (string \<times> string) list) list"
  | HttpPost string "string list"

section \<open>Programs over a state\<close>

type_synonym ('s, 'a) prog = "'s \<Rightarrow> (exn + 'a) \<times> 's"

definition ret :: "'a \<Rightarrow> ('s, 'a) prog" where [prog_defs]:
  "ret a = (\<lambda>s. (Inr a, s))"

definition raise :: "exn \<Rightarrow> ('s, 'a) prog" where [prog_defs]:
  "raise e = (\<lambda>s. (Inl e, s))"

definition bindp :: "('s, 'a) prog \<Rightarrow> ('a \<Rightarrow> ('s, 'b) prog) \<Rightarrow> ('s, 'b) prog" where
  "bindp m f = (\<lambda>s. case m s of (Inl e, s') \<Rightarrow> (Inl e, s') | (Inr a, s') \<Rightarrow> f a s')"

definition thenp :: "('s, 'a) prog \<Rightarrow> ('s, 'b) prog \<Rightarrow> ('s, 'b) prog" where
  "thenp m n = bindp m (\<lambda>_. n)"

definition asks :: "('s \<Rightarrow> 'a) \<Rightarrow> ('s, 'a) prog" where [prog_defs]:
  "asks f = (\<lambda>s. (Inr (f s), s))"

definition modify :: "('s \<Rightarrow> 's) \<Rightarrow> ('s, unit) prog" where [prog_defs]:
  "modify f = (\<lambda>s. (Inr (), f s))"

definition lift_result :: "exn + 'a \<Rightarrow> ('s, 'a) prog" where [prog_defs]:
  "lift_result r = (\<lambda>s. (r, s))"

definition whenp :: "bool \<Rightarrow> ('s, unit) prog \<Rightarrow> ('s, unit) prog" where [prog_defs]:
  "whenp b m = (if b then m else ret ())"

text \<open>\<open>transaction.atomic()\<close>: an exception leaving the block undoes everything done in it.\<close>

definition atomic :: "('s, 'a) prog \<Rightarrow> ('s, 'a) prog" where
  "atomic m = (\<lambda>s. case m s of (Inl e, _) \<Rightarrow> (Inl e, s) | (Inr a, s') \<Rightarrow> (Inr a, s'))"

text \<open>\<open>try: m / except e: h e\<close>; the handler starts from the state the exception left.\<close>

definition try_catch :: "('s, 'a) prog \<Rightarrow> (exn \<Rightarrow> ('s, 'a) prog) \<Rightarrow> ('s, 'a) prog" where
  "try_catch m h = (\<lambda>s. case m s of (Inl e, s') \<Rightarrow> h e s' | (Inr a, s') \<Rightarrow> (Inr a, s'))"

text \<open>A \<open>for\<close> loop whose body may raise.\<close>

fun for_each :: "'a list \<Rightarrow> ('a \<Rightarrow> ('s, unit) prog) \<Rightarrow> ('s, unit) prog" where
  "for_each [] f = ret ()"
| "for_each (x # xs) f = thenp (f x) (for_each xs f)"

text \<open>A loop that collects a value from every round, as a list comprehension does.\<close>

fun collect_each :: "'a list \<Rightarrow> ('a \<Rightarrow> ('s, 'b) prog) \<Rightarrow> ('s, 'b list) prog" where
  "collect_each [] f = ret []"
| "collect_each (x # xs) f =
     bindp (f x) (\<lambda>y. bindp (collect_each xs f) (\<lambda>ys. ret (y # ys)))"

text \<open>A result passed on to what follows, unless it is an exception.\<close>

definition rbind :: "exn + 'a \<Rightarrow> ('a \<Rightarrow> exn + 'b) \<Rightarrow> exn + 'b" where
  "rbind r f = (case r of Inl e \<Rightarrow> Inl e | Inr a \<Rightarrow> f a)"

lemma rbind_simps [simp]: "rbind (Inl e) f = Inl e" "rbind (Inr a) f = f a"
  by (simp_all add: rbind_def)

lemma rbind_InrE:
  assumes "rbind r f = Inr b"
  obtains a where "r = Inr a" and "f a = Inr b"
  using assms by (cases r) auto

lemma ret_run [simp]: "ret a s = (Inr a, s)"
  by (simp add: ret_def)

lemma raise_run [simp]: "raise e s = (Inl e, s)"
  by (simp add: raise_def)

lemma asks_run [simp]: "asks f s = (Inr (f s), s)"
  by (simp add: asks_def)

lemma modify_run [simp]: "modify f s = (Inr (), f s)"
  by (simp add: modify_def)

lemma lift_result_run [simp]: "lift_result r s = (r, s)"
  by (simp add: lift_result_def)

lemma bindp_run: "bindp m f s = (case m s of (Inl e, s') \<Rightarrow> (Inl e, s') | (Inr a, s') \<Rightarrow> f a s')"
  by (simp add: bindp_def)

lemma thenp_run: "thenp m n s = (case m s of (Inl e, s') \<Rightarrow> (Inl e, s') | (Inr a, s') \<Rightarrow> n s')"
  by (simp add: thenp_def bindp_def)

lemma bindp_ok [simp]: "m s = (Inr a, s') \<Longrightarrow> bindp m f s = f a s'"
  by (simp add: bindp_def)

lemma bindp_err [simp]: "m s = (Inl e, s') \<Longrightarrow> bindp m f s = (Inl e, s')"
  by (simp add: bindp_def)

lemma thenp_ok [simp]: "m s = (Inr a, s') \<Longrightarrow> thenp m n s = n s'"
  by (simp add: thenp_def)

lemma thenp_err [simp]: "m s = (Inl e, s') \<Longrightarrow> thenp m n s = (Inl e, s')"
  by (simp add: thenp_def)

lemma whenp_run [simp]: "whenp b m s = (if b then m s else (Inr (), s))"
  by (simp add: whenp_def)

lemma atomic_run:
  "atomic m s = (case m s of (Inl e, _) \<Rightarrow> (Inl e, s) | (Inr a, s') \<Rightarrow> (Inr a, s'))"
  by (simp add: atomic_def)

lemma atomic_ok [simp]: "m s = (Inr a, s') \<Longrightarrow> atomic m s = (Inr a, s')"
  by (simp add: atomic_def)

lemma atomic_err [simp]: "m s = (Inl e, s') \<Longrightarrow> atomic m s = (Inl e, s)"
  by (simp add: atomic_def)

text \<open>A transaction that raises has no effect at all.\<close>

lemma atomic_all_or_nothing: "atomic m s = (Inl e, s') \<Longrightarrow> s' = s"
  by (auto simp: atomic_def split: prod.splits sum.splits)

lemma try_ok [simp]: "m s = (Inr a, s') \<Longrightarrow> try_catch m h s = (Inr a, s')"
  by (simp add: try_catch_def)

lemma try_err [simp]: "m s = (Inl e, s') \<Longrightarrow> try_catch m h s = h e s'"
  by (simp add: try_catch_def)

lemma bindp_ret [simp]: "bindp (ret a) f = f a"
  by (simp add: fun_eq_iff bindp_def)

lemma bindp_raise [simp]: "bindp (raise e) f = raise e"
  by (simp add: fun_eq_iff bindp_def)

lemma bindp_assoc: "bindp (bindp m f) g = bindp m (\<lambda>a. bindp (f a) g)"
  by (auto simp: fun_eq_iff bindp_def split: prod.splits sum.splits)

subsection \<open>Invariants of programs\<close>

text \<open>
  \<open>keeps I m\<close>: whatever \<open>m\<close> does, returning or raising, a state with \<open>I\<close> is left with \<open>I\<close>.
\<close>

definition keeps :: "('s \<Rightarrow> bool) \<Rightarrow> ('s, 'a) prog \<Rightarrow> bool" where
  "keeps I m \<longleftrightarrow> (\<forall>s. I s \<longrightarrow> I (snd (m s)))"

lemma keepsI: "(\<And>s. I s \<Longrightarrow> I (snd (m s))) \<Longrightarrow> keeps I m"
  by (simp add: keeps_def)

lemma keepsD: "keeps I m \<Longrightarrow> m s = (r, s') \<Longrightarrow> I s \<Longrightarrow> I s'"
  unfolding keeps_def by (metis snd_conv)

lemma keeps_ret [keeps_intros]: "keeps I (ret a)"
  and keeps_raise [keeps_intros]: "keeps I (raise e)"
  and keeps_asks [keeps_intros]: "keeps I (asks f)"
  and keeps_lift_result [keeps_intros]: "keeps I (lift_result r)"
  by (simp_all add: keeps_def)

lemma keeps_modify [keeps_intros]: "(\<And>s. I s \<Longrightarrow> I (f s)) \<Longrightarrow> keeps I (modify f)"
  by (simp add: keeps_def)

lemma keeps_bindp [keeps_intros]:
  "keeps I m \<Longrightarrow> (\<And>a. keeps I (f a)) \<Longrightarrow> keeps I (bindp m f)"
  by (fastforce simp: keeps_def bindp_def split: prod.splits sum.splits)

lemma keeps_thenp [keeps_intros]: "keeps I m \<Longrightarrow> keeps I n \<Longrightarrow> keeps I (thenp m n)"
  by (simp add: thenp_def keeps_bindp)

lemma keeps_whenp [keeps_intros]: "keeps I m \<Longrightarrow> keeps I (whenp b m)"
  by (simp add: keeps_def)

lemma keeps_atomic [keeps_intros]: "keeps I m \<Longrightarrow> keeps I (atomic m)"
  by (fastforce simp: keeps_def atomic_def split: prod.splits sum.splits)

lemma keeps_try_catch [keeps_intros]:
  "keeps I m \<Longrightarrow> (\<And>e. keeps I (h e)) \<Longrightarrow> keeps I (try_catch m h)"
  by (fastforce simp: keeps_def try_catch_def split: prod.splits sum.splits)

lemma keeps_for_each [keeps_intros]: "(\<And>x. keeps I (f x)) \<Longrightarrow> keeps I (for_each xs f)"
  by (induction xs) (auto intro: keeps_ret keeps_thenp)

lemma keeps_collect_each [keeps_intros]: "(\<And>x. keeps I (f x)) \<Longrightarrow> keeps I (collect_each xs f)"
  by (induction xs) (auto intro!: keeps_ret keeps_bindp)

lemma keeps_if [keeps_intros]: "keeps I m \<Longrightarrow> keeps I n \<Longrightarrow> keeps I (if b then m else n)"
  by simp

lemma keeps_case_option [keeps_intros]:
  "keeps I m \<Longrightarrow> (\<And>x. keeps I (f x)) \<Longrightarrow> keeps I (case v of None \<Rightarrow> m | Some x \<Rightarrow> f x)"
  by (simp split: option.split)

lemma keeps_case_prod [keeps_intros]:
  "(\<And>x y. keeps I (f x y)) \<Longrightarrow> keeps I (case p of (x, y) \<Rightarrow> f x y)"
  by (simp split: prod.split)

lemma keeps_case_prod_app [keeps_intros]:
  "(\<And>x y. keeps I (f x y z)) \<Longrightarrow> keeps I ((case p of (x, y) \<Rightarrow> f x y) z)"
  by (simp split: prod.split)

lemma keeps_case_list [keeps_intros]:
  "keeps I m \<Longrightarrow> (\<And>x xs. keeps I (f x xs)) \<Longrightarrow> keeps I (case v of [] \<Rightarrow> m | x # xs \<Rightarrow> f x xs)"
  by (simp split: list.split)

subsection \<open>Triples\<close>

text \<open>
  \<open>triple P m Q\<close>: from a state with \<open>P\<close>, if \<open>m\<close> returns, what it returns and the state it leaves satisfy \<open>Q\<close>.
\<close>

definition triple :: "('s \<Rightarrow> bool) \<Rightarrow> ('s, 'a) prog \<Rightarrow> ('a \<Rightarrow> 's \<Rightarrow> bool) \<Rightarrow> bool" where
  "triple P m Q \<longleftrightarrow> (\<forall>s a s'. P s \<longrightarrow> m s = (Inr a, s') \<longrightarrow> Q a s')"

lemma tripleI: "(\<And>s a s'. P s \<Longrightarrow> m s = (Inr a, s') \<Longrightarrow> Q a s') \<Longrightarrow> triple P m Q"
  by (simp add: triple_def)

lemma tripleD: "triple P m Q \<Longrightarrow> m s = (Inr a, s') \<Longrightarrow> P s \<Longrightarrow> Q a s'"
  by (simp add: triple_def)

lemma triple_bindp: "triple P m R \<Longrightarrow> (\<And>a. triple (R a) (f a) Q) \<Longrightarrow> triple P (bindp m f) Q"
  by (fastforce simp: triple_def bindp_def split: prod.splits sum.splits)

lemma triple_thenp: "triple P m (\<lambda>_. R) \<Longrightarrow> triple R n Q \<Longrightarrow> triple P (thenp m n) Q"
  unfolding thenp_def by (rule triple_bindp)

lemma triple_pre: "triple P m Q \<Longrightarrow> (\<And>s. P' s \<Longrightarrow> P s) \<Longrightarrow> triple P' m Q"
  by (auto simp: triple_def)

lemma triple_post: "triple P m Q \<Longrightarrow> (\<And>a s. Q a s \<Longrightarrow> Q' a s) \<Longrightarrow> triple P m Q'"
  by (auto simp: triple_def)

lemma triple_atomic: "triple P m Q \<Longrightarrow> triple P (atomic m) Q"
  by (fastforce simp: triple_def atomic_def split: prod.splits sum.splits)

text \<open>A fact that a program keeps may be added to both sides.\<close>

lemma triple_frame: "triple P m Q \<Longrightarrow> keeps I m \<Longrightarrow> triple (\<lambda>s. P s \<and> I s) m (\<lambda>a s. Q a s \<and> I s)"
  unfolding triple_def keeps_def by (metis snd_conv)

text \<open>Taking apart a program that returned.\<close>

lemma bindp_InrE:
  assumes "bindp m f s = (Inr b, s')"
  obtains a t where "m s = (Inr a, t)" and "f a t = (Inr b, s')"
  using assms by (auto simp: bindp_def split: prod.splits sum.splits)

lemma thenp_InrE:
  assumes "thenp m n s = (Inr b, s')"
  obtains a t where "m s = (Inr a, t)" and "n t = (Inr b, s')"
  using assms unfolding thenp_def by (rule bindp_InrE)

lemma atomic_InrE:
  assumes "atomic m s = (Inr a, s')"
  obtains "m s = (Inr a, s')"
  using assms by (auto simp: atomic_def split: prod.splits sum.splits)

lemma whenp_InrE:
  assumes "whenp b m s = (Inr u, s')"
  obtains (yes) "b" and "m s = (Inr u, s')" | (no) "\<not> b" and "s' = s"
  using assms by (cases b) (auto simp: whenp_def)

section \<open>Lists\<close>

fun first_of :: "'a list \<Rightarrow> 'a option" where
  "first_of [] = None"
| "first_of (x # xs) = Some x"

lemma first_of_None [simp]: "first_of xs = None \<longleftrightarrow> xs = []"
  by (cases xs) auto

lemma first_of_in_set: "first_of xs = Some x \<Longrightarrow> x \<in> set xs"
  by (cases xs) auto

text \<open>
  \<open>order_by("-f")\<close>: stable, largest first. The order of rows with equal keys is not fixed by the
  database; here they keep the order they had.
\<close>

definition order_by_desc :: "('a \<Rightarrow> 'k::linordered_ab_group_add) \<Rightarrow> 'a list \<Rightarrow> 'a list" where
  "order_by_desc f xs = sort_key (\<lambda>x. - f x) xs"

lemma set_order_by_desc [simp]: "set (order_by_desc f xs) = set xs"
  by (simp add: order_by_desc_def)

lemma length_order_by_desc [simp]: "length (order_by_desc f xs) = length xs"
  by (simp add: order_by_desc_def)

lemma order_by_desc_Nil [simp]: "order_by_desc f xs = [] \<longleftrightarrow> xs = []"
  by (metis length_0_conv length_order_by_desc)

lemma sorted_order_by_desc: "sorted_wrt (\<lambda>x y. f y \<le> f x) (order_by_desc f xs)"
proof -
  have "sorted (map (\<lambda>x. - f x) (order_by_desc f xs))"
    by (simp add: order_by_desc_def)
  then show ?thesis
    by (simp add: sorted_wrt_map)
qed

lemma first_order_by_desc_max:
  assumes "first_of (order_by_desc f xs) = Some x" and "y \<in> set xs"
  shows "f y \<le> f x"
proof -
  from assms(1) obtain ys where eq: "order_by_desc f xs = x # ys"
    by (cases "order_by_desc f xs") auto
  from assms(2) have "y \<in> set (x # ys)"
    using set_order_by_desc [of f xs] by (simp add: eq)
  with sorted_order_by_desc [of f xs] show ?thesis
    by (auto simp: eq)
qed

lemma first_order_by_desc_in: "first_of (order_by_desc f xs) = Some x \<Longrightarrow> x \<in> set xs"
  using first_of_in_set by fastforce

end
