(* ===== verification/Py_Values.thy ===== *)
theory Py_Values
  imports Xpro_Prelude
begin

text \<open>
  The values of Python's standard library the program computes with: strings over ASCII
  characters, the parsing and printing of integers, and \<open>decimal.Decimal\<close> as exact rational
  numbers with the two rounding rules the code selects. Decimal results stay exact as long as they
  fit the 28 digits of Python's default context, which holds for every product of a price and a
  discount or tax rate below \<open>10 ^ 17\<close> dollars.
\<close>

section \<open>Strings\<close>

definition lower_char :: "char \<Rightarrow> char" where
  "lower_char c = (let n = of_char c :: nat in if 65 \<le> n \<and> n \<le> 90 then char_of (n + 32) else c)"

definition py_lower :: "string \<Rightarrow> string" where
  "py_lower s = map lower_char s"

fun starts_with :: "string \<Rightarrow> string \<Rightarrow> bool" where
  "starts_with s [] = True"
| "starts_with [] (p # ps) = False"
| "starts_with (c # cs) (p # ps) = (c = p \<and> starts_with cs ps)"

definition ends_with :: "string \<Rightarrow> string \<Rightarrow> bool" where
  "ends_with s p = starts_with (rev s) (rev p)"

definition is_space :: "char \<Rightarrow> bool" where
  "is_space c = (let n = of_char c :: nat in n = 32 \<or> (9 \<le> n \<and> n \<le> 13) \<or> (28 \<le> n \<and> n \<le> 31))"

definition py_strip :: "string \<Rightarrow> string" where
  "py_strip s = rev (dropWhile is_space (rev (dropWhile is_space s)))"

text \<open>\<open>sep.join(parts)\<close> and \<open>s.split(sep)\<close> for a separator of one character.\<close>

fun py_join :: "string \<Rightarrow> string list \<Rightarrow> string" where
  "py_join sep [] = []"
| "py_join sep [s] = s"
| "py_join sep (s # t # ts) = s @ sep @ py_join sep (t # ts)"

fun py_split :: "char \<Rightarrow> string \<Rightarrow> string list" where
  "py_split c [] = [[]]"
| "py_split c (x # xs) =
     (if x = c then [] # py_split c xs
      else (case py_split c xs of [] \<Rightarrow> [[x]] | s # ss \<Rightarrow> (x # s) # ss))"

lemma starts_with_iff: "starts_with s p \<longleftrightarrow> take (length p) s = p"
  by (induction s p rule: starts_with.induct) auto

lemma starts_with_append [simp]: "starts_with (p @ s) p"
  by (simp add: starts_with_iff)

lemma starts_with_Ex: "starts_with s p \<longleftrightarrow> (\<exists>r. s = p @ r)"
  unfolding starts_with_iff by (metis append_eq_conv_conj append_take_drop_id)

lemma py_split_neq_Nil [simp]: "py_split c s \<noteq> []"
  by (induction s) (auto split: list.splits)

lemma py_split_no_sep: "c \<notin> set s \<Longrightarrow> py_split c s = [s]"
  by (induction s) auto

lemma py_split_append: "c \<notin> set s \<Longrightarrow> py_split c (s @ c # t) = s # py_split c t"
  by (induction s) auto

text \<open>Joining strings free of the separator and splitting again gives the strings back.\<close>

lemma py_split_join:
  assumes "ss \<noteq> []" and "\<And>s. s \<in> set ss \<Longrightarrow> c \<notin> set s"
  shows "py_split c (py_join [c] ss) = ss"
  using assms
proof (induction "[c]" ss rule: py_join.induct)
  case (3 s t ts)
  then show ?case by (simp add: py_split_append)
qed (simp_all add: py_split_no_sep)

section \<open>Integers as text\<close>

definition digit_chars :: string where
  "digit_chars = ''0123456789''"

definition digit_val :: "char \<Rightarrow> nat option" where
  "digit_val c = (let n = of_char c :: nat in if 48 \<le> n \<and> n \<le> 57 then Some (n - 48) else None)"

fun nat_str :: "nat \<Rightarrow> string" where
  "nat_str n =
     (if n < 10 then [digit_chars ! n] else nat_str (n div 10) @ [digit_chars ! (n mod 10)])"

declare nat_str.simps [simp del]

definition int_str :: "int \<Rightarrow> string" where
  "int_str i = (if i < 0 then CHR ''-'' # nat_str (nat (- i)) else nat_str (nat i))"

text \<open>
  \<open>int(s)\<close>: surrounding white space, an optional sign, and digits between which single
  underscores may stand. The flag says whether the previous character was a digit.
\<close>

fun int_digits :: "nat \<Rightarrow> bool \<Rightarrow> string \<Rightarrow> nat option" where
  "int_digits acc d [] = (if d then Some acc else None)"
| "int_digits acc d (c # cs) =
     (if c = CHR ''_'' then (if d then int_digits acc False cs else None)
      else (case digit_val c of None \<Rightarrow> None | Some v \<Rightarrow> int_digits (10 * acc + v) True cs))"

definition py_int :: "string \<Rightarrow> exn + int" where
  "py_int s =
     (let t = py_strip s;
          (neg, u) = (case t of [] \<Rightarrow> (False, [])
                      | c # cs \<Rightarrow> if c = CHR ''-'' then (True, cs)
                                 else if c = CHR ''+'' then (False, cs) else (False, t))
      in case int_digits 0 False u of
           None \<Rightarrow> Inl (ValueError ''invalid literal for int()'')
         | Some n \<Rightarrow> Inr (if neg then - int n else int n))"

definition is_digit_string :: "string \<Rightarrow> bool" where
  "is_digit_string s \<longleftrightarrow> s \<noteq> [] \<and> list_all (\<lambda>c. digit_val c \<noteq> None) s"

lemma digit_cases: "d < (10::nat) \<Longrightarrow> d \<in> {0,1,2,3,4,5,6,7,8,9}"
  by auto

lemma digit_val_digit_chars: "d < 10 \<Longrightarrow> digit_val (digit_chars ! d) = Some d"
  by (drule digit_cases) (auto simp: digit_chars_def digit_val_def)

lemma digit_not_space: "digit_val c = Some v \<Longrightarrow> \<not> is_space c"
  by (auto simp: digit_val_def is_space_def Let_def split: if_splits)

lemma digit_not_sign: "digit_val c = Some v \<Longrightarrow> c \<noteq> CHR ''-'' \<and> c \<noteq> CHR ''+'' \<and> c \<noteq> CHR ''_''"
  by (auto simp: digit_val_def Let_def split: if_splits)

lemma nat_str_digits: "c \<in> set (nat_str n) \<Longrightarrow> \<exists>v. digit_val c = Some v"
proof (induction n rule: nat_str.induct)
  case (1 n)
  then show ?case
    by (subst (asm) (2) nat_str.simps) (auto simp: digit_val_digit_chars split: if_splits)
qed

lemma nat_str_neq_Nil [simp]: "nat_str n \<noteq> []"
  by (subst nat_str.simps) simp

lemma int_digits_append:
  "(\<And>c. c \<in> set xs \<Longrightarrow> \<exists>v. digit_val c = Some v) \<Longrightarrow> xs \<noteq> [] \<Longrightarrow>
   int_digits acc d (xs @ ys) = int_digits (the (int_digits acc True xs)) True ys"
proof (induction xs arbitrary: acc d)
  case (Cons c cs)
  from Cons.prems(1) [of c] obtain v where v: "digit_val c = Some v" by auto
  with digit_not_sign have "c \<noteq> CHR ''_''" by blast
  with v Cons show ?case by (cases cs) auto
qed simp

lemma int_digits_nat_str: "int_digits 0 d (nat_str n) = Some n"
proof (induction n arbitrary: d rule: nat_str.induct)
  case (1 n)
  show ?case
  proof (cases "n < 10")
    case True
    with digit_val_digit_chars [OF True] digit_not_sign show ?thesis
      by (subst nat_str.simps) auto
  next
    case False
    have last: "digit_val (digit_chars ! (n mod 10)) = Some (n mod 10)"
      by (rule digit_val_digit_chars) simp
    from False have "int_digits 0 d (nat_str n) = int_digits (n div 10) True [digit_chars ! (n mod 10)]"
      by (subst nat_str.simps) (simp add: int_digits_append nat_str_digits "1.IH" del: int_digits.simps)
    with last digit_not_sign [OF last] show ?thesis by simp
  qed
qed

lemma py_strip_no_space: "(\<And>c. c \<in> set s \<Longrightarrow> \<not> is_space c) \<Longrightarrow> py_strip s = s"
proof -
  assume ns: "\<And>c. c \<in> set s \<Longrightarrow> \<not> is_space c"
  then have "dropWhile is_space s = s" and "dropWhile is_space (rev s) = rev s"
    by (auto simp: dropWhile_eq_self_iff hd_in_set) (metis hd_in_set set_rev rev_is_Nil_conv)
  then show ?thesis by (simp add: py_strip_def)
qed

text \<open>Printing a number and parsing it again gives the number.\<close>

lemma py_int_nat_str [simp]: "py_int (nat_str n) = Inr (int n)"
proof -
  have strip: "py_strip (nat_str n) = nat_str n"
    by (rule py_strip_no_space) (use nat_str_digits digit_not_space in blast)
  obtain c cs where cs: "nat_str n = c # cs"
    by (cases "nat_str n") auto
  then have "c \<noteq> CHR ''-'' \<and> c \<noteq> CHR ''+''"
    using nat_str_digits [of c n] digit_not_sign by fastforce
  with strip cs int_digits_nat_str [of False n] show ?thesis
    by (simp add: py_int_def del: int_digits.simps)
qed

lemma nat_str_inject [simp]: "nat_str m = nat_str n \<longleftrightarrow> m = n"
  by (metis int_digits_nat_str option.inject)

section \<open>Decimals\<close>

type_synonym decimal = rat

definition is_cents :: "decimal \<Rightarrow> bool" where
  "is_cents x \<longleftrightarrow> of_int \<lfloor>x * 100\<rfloor> = x * 100"

definition round_cents_half_up :: "decimal \<Rightarrow> decimal" where
  "round_cents_half_up x = sgn x * of_int \<lfloor>\<bar>x\<bar> * 100 + 1 / 2\<rfloor> / 100"

definition round_half_even_int :: "rat \<Rightarrow> int" where
  "round_half_even_int y =
     (let f = \<lfloor>y\<rfloor>; d = y - of_int f
      in if d < 1 / 2 then f else if 1 / 2 < d then f + 1 else if even f then f else f + 1)"

definition round_cents_half_even :: "decimal \<Rightarrow> decimal" where
  "round_cents_half_even x = of_int (round_half_even_int (x * 100)) / 100"

text \<open>\<open>str\<close> of a decimal with two decimal places.\<close>

definition cents_str :: "decimal \<Rightarrow> string" where
  "cents_str x =
     (let n = \<lfloor>x * 100\<rfloor>; m = nat \<bar>n\<bar>
      in (if n < 0 then ''-'' else []) @ nat_str (m div 100) @ ''.'' @
         [digit_chars ! (m mod 100 div 10), digit_chars ! (m mod 10)])"

lemma is_centsI: "x * 100 = of_int n \<Longrightarrow> is_cents x"
  by (simp add: is_cents_def)

lemma is_cents_iff: "is_cents x \<longleftrightarrow> (\<exists>n::int. x = of_int n / 100)"
proof
  assume "is_cents x"
  then have "x * 100 / 100 = of_int \<lfloor>x * 100\<rfloor> / 100" by (simp only: is_cents_def)
  moreover have "x * 100 / 100 = x" by simp
  ultimately show "\<exists>n::int. x = of_int n / 100" by metis
next
  assume "\<exists>n::int. x = of_int n / 100"
  then obtain n :: int where "x = of_int n / 100" by blast
  then show "is_cents x" by (simp add: is_cents_def)
qed

lemma is_cents_0 [simp]: "is_cents 0"
  by (simp add: is_cents_def)

lemma is_cents_diff: "is_cents x \<Longrightarrow> is_cents y \<Longrightarrow> is_cents (x - y)"
  unfolding is_cents_iff by (metis diff_divide_distrib of_int_diff)

lemma is_cents_add: "is_cents x \<Longrightarrow> is_cents y \<Longrightarrow> is_cents (x + y)"
  unfolding is_cents_iff by (metis add_divide_distrib of_int_add)

lemma is_cents_mult_nat: "is_cents x \<Longrightarrow> is_cents (x * of_nat n)"
  unfolding is_cents_iff by (metis of_int_mult of_int_of_nat_eq times_divide_eq_left)

lemma is_cents_half_up [simp]: "is_cents (round_cents_half_up x)"
proof -
  have "round_cents_half_up x * 100 = of_int (\<lfloor>sgn x\<rfloor> * \<lfloor>\<bar>x\<bar> * 100 + 1 / 2\<rfloor>)"
    by (cases x "0::rat" rule: linorder_cases) (simp_all add: round_cents_half_up_def)
  then show ?thesis by (rule is_centsI)
qed

lemma is_cents_half_even [simp]: "is_cents (round_cents_half_even x)"
  by (rule is_centsI) (simp add: round_cents_half_even_def)

lemma floor_half: "\<lfloor>1 / 2 :: rat\<rfloor> = 0"
  by linarith

lemma half_up_pos_eq: "0 \<le> x \<Longrightarrow> round_cents_half_up x = of_int \<lfloor>x * 100 + 1 / 2\<rfloor> / 100"
  by (cases "x = 0") (simp_all add: round_cents_half_up_def floor_half)

lemma half_up_nonneg: "0 \<le> x \<Longrightarrow> 0 \<le> round_cents_half_up x"
  by (simp add: half_up_pos_eq)

lemma half_up_mono: "0 \<le> x \<Longrightarrow> x \<le> y \<Longrightarrow> round_cents_half_up x \<le> round_cents_half_up y"
  by (simp add: half_up_pos_eq floor_mono divide_right_mono)

lemma half_up_cents: "0 \<le> x \<Longrightarrow> is_cents x \<Longrightarrow> round_cents_half_up x = x"
proof -
  assume x: "0 \<le> x" and c: "is_cents x"
  from c obtain n :: int where n: "x * 100 = of_int n" by (auto simp: is_cents_iff)
  have "\<lfloor>of_int n + 1 / 2 :: rat\<rfloor> = n" by linarith
  with x n show ?thesis by (simp add: half_up_pos_eq field_simps)
qed

lemma half_up_of_cents: "is_cents x \<Longrightarrow> round_cents_half_up x = x"
proof (cases "0 \<le> x")
  case False
  assume "is_cents x"
  then have "is_cents (- x)" using is_cents_diff [OF is_cents_0, of x] by simp
  with False have "round_cents_half_up (- x) = - x" by (intro half_up_cents) simp_all
  moreover have "round_cents_half_up (- x) = - round_cents_half_up x"
    by (simp add: round_cents_half_up_def)
  ultimately show ?thesis by simp
qed (rule half_up_cents)

text \<open>Rounding never passes an amount in whole cents that bounded the number from above.\<close>

lemma half_up_le_cents: "0 \<le> x \<Longrightarrow> x \<le> c \<Longrightarrow> is_cents c \<Longrightarrow> round_cents_half_up x \<le> c"
  using half_up_mono [of x c] half_up_cents [of c] by simp

lemma half_up_error: "0 \<le> x \<Longrightarrow> \<bar>round_cents_half_up x - x\<bar> \<le> 1 / 200"
proof -
  assume "0 \<le> x"
  then have eq: "round_cents_half_up x = of_int \<lfloor>x * 100 + 1 / 2\<rfloor> / 100" by (rule half_up_pos_eq)
  have "of_int \<lfloor>x * 100 + 1 / 2\<rfloor> \<le> x * 100 + 1 / 2" "x * 100 + 1 / 2 < of_int \<lfloor>x * 100 + 1 / 2\<rfloor> + 1"
    by (rule of_int_floor_le, rule floor_correct [THEN conjunct2, simplified])
  then have "\<bar>of_int \<lfloor>x * 100 + 1 / 2\<rfloor> - x * 100\<bar> \<le> 1 / 2" by linarith
  moreover have "\<bar>of_int \<lfloor>x * 100 + 1 / 2\<rfloor> / 100 - x\<bar> = \<bar>of_int \<lfloor>x * 100 + 1 / 2\<rfloor> - x * 100\<bar> / 100"
    by (simp add: abs_div_pos diff_divide_distrib)
  ultimately show ?thesis unfolding eq by linarith
qed

lemma half_even_bounds: "y - 1 / 2 \<le> of_int (round_half_even_int y) \<and> of_int (round_half_even_int y) \<le> y + 1 / 2"
proof -
  have f: "of_int \<lfloor>y\<rfloor> \<le> y" "y < of_int \<lfloor>y\<rfloor> + 1" by linarith+
  show ?thesis
    unfolding round_half_even_int_def Let_def using f by (simp split: if_split; linarith?)
qed

lemma half_even_int [simp]: "round_half_even_int (of_int n) = n"
  by (simp add: round_half_even_int_def Let_def)

lemma half_even_mono: "x \<le> y \<Longrightarrow> round_half_even_int x \<le> round_half_even_int y"
proof (cases "\<lfloor>x\<rfloor> = \<lfloor>y\<rfloor>")
  case True
  assume "x \<le> y"
  with True show ?thesis by (auto simp: round_half_even_int_def Let_def)
next
  case False
  assume "x \<le> y"
  with False have "\<lfloor>x\<rfloor> + 1 \<le> \<lfloor>y\<rfloor>" using floor_mono by fastforce
  then show ?thesis by (auto simp: round_half_even_int_def Let_def)
qed

lemma half_even_cents: "is_cents x \<Longrightarrow> round_cents_half_even x = x"
proof -
  assume "is_cents x"
  then obtain n :: int where "x * 100 = of_int n" by (auto simp: is_cents_iff)
  then show ?thesis by (simp add: round_cents_half_even_def)
qed

lemma half_even_nonneg: "0 \<le> x \<Longrightarrow> 0 \<le> round_cents_half_even x"
  using half_even_mono [of "0" "x * 100"] half_even_int [of 0]
  by (simp add: round_cents_half_even_def)

lemma half_even_cents_mono: "x \<le> y \<Longrightarrow> round_cents_half_even x \<le> round_cents_half_even y"
  by (simp add: round_cents_half_even_def divide_right_mono half_even_mono)

section \<open>URL query strings\<close>

text \<open>\<open>urllib.parse.quote_plus\<close> and \<open>urlencode\<close> on ASCII text.\<close>

definition unreserved :: "char \<Rightarrow> bool" where
  "unreserved c =
     (let n = of_char c :: nat
      in (48 \<le> n \<and> n \<le> 57) \<or> (65 \<le> n \<and> n \<le> 90) \<or> (97 \<le> n \<and> n \<le> 122) \<or> n \<in> {45, 46, 95, 126})"

definition hex_digit :: "nat \<Rightarrow> char" where
  "hex_digit n = (if n < 10 then char_of (48 + n) else char_of (55 + n))"

definition quote_char :: "char \<Rightarrow> string" where
  "quote_char c =
     (if c = CHR '' '' then ''+'' else if unreserved c then [c]
      else [CHR ''%'', hex_digit (of_char c div 16), hex_digit (of_char c mod 16)])"

definition quote_plus :: "string \<Rightarrow> string" where
  "quote_plus s = concat (map quote_char s)"

definition urlencode :: "(string \<times> string) list \<Rightarrow> string" where
  "urlencode kvs = py_join ''&'' (map (\<lambda>(k, v). quote_plus k @ ''='' @ quote_plus v) kvs)"

lemma quote_plus_safe: "c \<in> set (quote_plus s) \<Longrightarrow> c \<noteq> CHR ''&'' \<and> c \<noteq> CHR ''?'' \<and> c \<noteq> CHR ''=''"
proof -
  assume "c \<in> set (quote_plus s)"
  then obtain x where x: "c \<in> set (quote_char x)" by (auto simp: quote_plus_def)
  have hex: "hex_digit n \<notin> {CHR ''&'', CHR ''?'', CHR ''=''}" if n: "n < 16" for n
  proof -
    have "of_char (hex_digit n) = (if n < 10 then 48 + n else 55 + n)"
      using n by (simp add: hex_digit_def)
    then show ?thesis using n by (auto split: if_splits)
  qed
  have "of_char x div 16 < (16 :: nat)" using nat_of_char_less_256 [of x] by linarith
  with x hex [of "of_char x div 16"] hex [of "of_char x mod 16"] show ?thesis
    by (auto simp: quote_char_def unreserved_def Let_def split: if_splits)
qed

end
