(* ===== verification/Site_Utils.thy ===== *)
theory Site_Utils
  imports Py_Values
begin

text \<open>
  \<open>mitxpro/utils.py\<close>: the helpers the rest of the site is written with. Dictionaries are
  association lists in insertion order, iterables are lists, and a helper that may raise returns a
  sum. Times are integers (microseconds); \<open>now\<close> is an argument.
\<close>

section \<open>Strings and dictionaries\<close>

definition ensure_trailing_slash :: "string \<Rightarrow> string" where
  "ensure_trailing_slash url = (if ends_with url ''/'' then url else url @ ''/'')"

definition is_near_now :: "int \<Rightarrow> int \<Rightarrow> bool" where
  "is_near_now now time =
     (let five_seconds = 5000000 in now - five_seconds < time \<and> time < now + five_seconds)"

definition case_insensitive_equal :: "string \<Rightarrow> string \<Rightarrow> bool" where
  "case_insensitive_equal str1 str2 \<longleftrightarrow> py_lower str1 = py_lower str2"

definition dict_without_keys :: "('k \<times> 'v) list \<Rightarrow> 'k list \<Rightarrow> ('k \<times> 'v) list" where
  "dict_without_keys d omitkeys = filter (\<lambda>(k, v). k \<notin> set omitkeys) d"

definition filter_dict_by_key_set :: "('k \<times> 'v) list \<Rightarrow> 'k set \<Rightarrow> ('k \<times> 'v) list" where
  "filter_dict_by_key_set d key_set = filter (\<lambda>(k, v). k \<in> key_set) d"

definition has_all_keys :: "('k \<times> 'v) list \<Rightarrow> 'k list \<Rightarrow> bool" where
  "has_all_keys d keys = list_all (\<lambda>k. k \<in> fst ` set d) keys"

text \<open>An object is the list of its attributes; reading a missing one raises, which answers False.\<close>

fun has_equal_properties :: "('k \<times> 'v) list \<Rightarrow> ('k \<times> 'v) list \<Rightarrow> bool" where
  "has_equal_properties obj [] = True"
| "has_equal_properties obj ((field, value) # ps) =
     (case map_of obj field of
        None \<Rightarrow> False
      | Some v \<Rightarrow> if v \<noteq> value then False else has_equal_properties obj ps)"

fun find_object_with_matching_attr ::
  "('k \<times> 'v) list list \<Rightarrow> 'k \<Rightarrow> 'v \<Rightarrow> ('k \<times> 'v) list option" where
  "find_object_with_matching_attr [] attr_name value = None"
| "find_object_with_matching_attr (item # items) attr_name value =
     (if map_of item attr_name = Some value then Some item
      else find_object_with_matching_attr items attr_name value)"

section \<open>Iterables\<close>

definition first_matching_item :: "'a list \<Rightarrow> ('a \<Rightarrow> bool) \<Rightarrow> 'a option" where
  "first_matching_item iterable predicate = first_of (filter predicate iterable)"

fun matching_item_index :: "'a list \<Rightarrow> 'a \<Rightarrow> exn + nat" where
  "matching_item_index [] v = Inl StopIteration"
| "matching_item_index (x # xs) v =
     (if x = v then Inr 0
      else (case matching_item_index xs v of Inl e \<Rightarrow> Inl e | Inr i \<Rightarrow> Inr (Suc i)))"

definition first_or_none :: "'a list \<Rightarrow> 'a option" where
  "first_or_none iterable = first_of iterable"

definition partition_items :: "'a list \<Rightarrow> ('a \<Rightarrow> bool) \<Rightarrow> 'a list \<times> 'a list" where
  "partition_items items predicate =
     (let ab = map (\<lambda>item. (predicate item, item)) items
      in (map snd (filter (\<lambda>(pred, item). \<not> pred) ab), map snd (filter (\<lambda>(pred, item). pred) ab)))"

definition partition_to_lists :: "'a list \<Rightarrow> ('a \<Rightarrow> bool) \<Rightarrow> 'a list \<times> 'a list" where
  "partition_to_lists items predicate =
     (let (a, b) = partition_items items predicate in (a, b))"

text \<open>The generators \<open>unique\<close> and \<open>unique_ignore_case\<close>, with their set of values seen.\<close>

fun unique_from :: "'a set \<Rightarrow> 'a list \<Rightarrow> 'a list" where
  "unique_from seen [] = []"
| "unique_from seen (x # xs) =
     (if x \<in> seen then unique_from seen xs else x # unique_from (insert x seen) xs)"

definition unique :: "'a list \<Rightarrow> 'a list" where
  "unique iterable = unique_from {} iterable"

definition unique_ignore_case :: "string list \<Rightarrow> string list" where
  "unique_ignore_case strings = unique_from {} (map py_lower strings)"

definition item_at_index_or_none :: "'a list \<Rightarrow> int \<Rightarrow> 'a option" where
  "item_at_index_or_none xs index =
     (let n = int (length xs); j = (if index < 0 then n + index else index)
      in if 0 \<le> j \<and> j < n then Some (xs ! nat j) else None)"

definition item_at_index_or_blank :: "string list \<Rightarrow> int \<Rightarrow> string" where
  "item_at_index_or_blank xs index =
     (case item_at_index_or_none xs index of None \<Rightarrow> '''' | Some s \<Rightarrow> s)"

definition all_equal :: "'a list \<Rightarrow> bool" where
  "all_equal args \<longleftrightarrow> card (set args) \<le> 1"

definition all_unique :: "'a list \<Rightarrow> bool" where
  "all_unique iterable \<longleftrightarrow> card (set iterable) = length iterable"

function itertools_groupby :: "('a \<Rightarrow> 'k) \<Rightarrow> 'a list \<Rightarrow> ('k \<times> 'a list) list" where
  "itertools_groupby f [] = []"
| "itertools_groupby f (x # xs) =
     (f x, x # takeWhile (\<lambda>y. f y = f x) xs) # itertools_groupby f (dropWhile (\<lambda>y. f y = f x) xs)"
  by pat_completeness auto
termination
  by (relation "measure (\<lambda>(f, xs). length xs)") (auto simp: less_Suc_eq_le length_dropWhile_le)

text \<open>A dictionary display: a key that comes again replaces the value of the earlier one.\<close>

fun dict_set :: "('k \<times> 'v) list \<Rightarrow> 'k \<Rightarrow> 'v \<Rightarrow> ('k \<times> 'v) list" where
  "dict_set [] k v = [(k, v)]"
| "dict_set ((j, u) # d) k v = (if j = k then (k, v) # d else (j, u) # dict_set d k v)"

definition dict_of :: "('k \<times> 'v) list \<Rightarrow> ('k \<times> 'v) list" where
  "dict_of kvs = foldl (\<lambda>d (k, v). dict_set d k v) [] kvs"

definition group_into_dict :: "'a list \<Rightarrow> ('a \<Rightarrow> 'k::linorder) \<Rightarrow> ('k \<times> 'a list) list" where
  "group_into_dict items key_fn =
     (let sorted_items = sort_key key_fn items in dict_of (itertools_groupby key_fn sorted_items))"

section \<open>Formatting, URLs, retries\<close>

text \<open>Thousands separators, on the digits from the last to the first.\<close>

fun group3 :: "string \<Rightarrow> string" where
  "group3 (a # b # c # d # r) = a # b # c # CHR '','' # group3 (d # r)"
| "group3 s = s"

definition format_price :: "decimal \<Rightarrow> string" where
  "format_price amount =
     (let n = round_half_even_int (amount * 100); m = nat \<bar>n\<bar>
      in ''$'' @ (if n < 0 then ''-'' else []) @ rev (group3 (rev (nat_str (m div 100)))) @ ''.'' @
         [digit_chars ! (m mod 100 div 10), digit_chars ! (m mod 10)])"

text \<open>\<open>url.find(c)\<close>: the index of the first occurrence, or \<open>-1\<close>.\<close>

fun py_find :: "string \<Rightarrow> char \<Rightarrow> int" where
  "py_find [] c = - 1"
| "py_find (x # xs) c =
     (if x = c then 0 else (let i = py_find xs c in if i = - 1 then - 1 else i + 1))"

text \<open>\<open>s[:i]\<close>; a negative \<open>i\<close> counts from the end.\<close>

definition slice_to :: "'a list \<Rightarrow> int \<Rightarrow> 'a list" where
  "slice_to xs i = (if i < 0 then take (nat (int (length xs) + i)) xs else take (nat i) xs)"

definition clean_url :: "string \<Rightarrow> bool \<Rightarrow> string" where
  "clean_url url remove_query_params =
     (if url = [] then []
      else (let url = (if remove_query_params then slice_to url (py_find url CHR ''?'') else url)
            in filter (\<lambda>c. c \<noteq> CHR '' '') url))"

text \<open>
  The server's answers, one status code per request, come from outside. The loop counts the
  requests it makes and stops after \<open>retries\<close> of them; \<open>raise_for_status\<close> turns a status of
  400 or more into an exception. The result is the number of requests made and the outcome.
\<close>

function retry_loop :: "(nat \<Rightarrow> nat) \<Rightarrow> nat \<Rightarrow> nat \<Rightarrow> nat" where
  "retry_loop status retries tries =
     (if status tries = 504 \<and> tries < retries then retry_loop status retries (tries + 1) else tries)"
  by pat_completeness auto
termination
  by (relation "measure (\<lambda>(status, retries, tries). retries - tries)") auto

declare retry_loop.simps [simp del]

definition request_get_with_timeout_retry :: "(nat \<Rightarrow> nat) \<Rightarrow> nat \<Rightarrow> nat \<times> (exn + nat)" where
  "request_get_with_timeout_retry status retries =
     (let tries = retry_loop status retries 1
      in (tries, if 400 \<le> status tries then Inl HTTPError else Inr (status tries)))"

text \<open>The rows a CSV download consists of: the instructions, then the header, then the values.\<close>

definition make_csv_http_response :: "(string \<times> string) list list \<Rightarrow> string list \<Rightarrow> string list list" where
  "make_csv_http_response csv_rows instructions =
     map (\<lambda>i. [i]) instructions @
     (case csv_rows of [] \<Rightarrow> []
      | first_row # rest \<Rightarrow>
          (let fieldnames = map fst first_row
           in fieldnames #
              map (\<lambda>r. map (\<lambda>k. case map_of r k of None \<Rightarrow> '''' | Some v \<Rightarrow> v) fieldnames)
                (first_row # rest)))"

section \<open>Course run dates\<close>

definition ERROR_START_OR_ENROLLMENT_END_REQUIRED :: string where
  "ERROR_START_OR_ENROLLMENT_END_REQUIRED = ''start_date or enrollment_end must be provided.''"
definition ERROR_START_OR_ENROLLMENT_END_FUTURE :: string where
  "ERROR_START_OR_ENROLLMENT_END_FUTURE = ''start_date or enrollment_end must be in the future.''"
definition ERROR_END_AFTER_START :: string where
  "ERROR_END_AFTER_START = ''end_date must be later than start_date.''"
definition ERROR_ENROLLMENT_ORDER :: string where
  "ERROR_ENROLLMENT_ORDER = ''enrollment_end must be later than enrollment_start.''"
definition ERROR_END_IN_FUTURE :: string where
  "ERROR_END_IN_FUTURE = ''end_date must be in the future.''"
definition ERROR_EXPIRATION_AFTER_START :: string where
  "ERROR_EXPIRATION_AFTER_START = ''expiration_date must be later than start_date.''"
definition ERROR_EXPIRATION_AFTER_END :: string where
  "ERROR_EXPIRATION_AFTER_END = ''expiration_date must be later than end_date.''"

definition opt_lt :: "int option \<Rightarrow> int \<Rightarrow> bool" where
  "opt_lt d t = (case d of None \<Rightarrow> False | Some x \<Rightarrow> x < t)"

definition both_gt :: "int option \<Rightarrow> int option \<Rightarrow> bool" where
  "both_gt a b = (case (a, b) of (Some x, Some y) \<Rightarrow> x > y | _ \<Rightarrow> False)"

definition validate_courserun_dates ::
  "int \<Rightarrow> int option \<Rightarrow> int option \<Rightarrow> int option \<Rightarrow> int option \<Rightarrow> int option \<Rightarrow> bool \<times> string option" where
  "validate_courserun_dates now start_date end_date enrollment_end enrollment_start expiration_date =
     (let error_msg =
        (if \<not> (start_date \<noteq> None \<or> enrollment_end \<noteq> None)
         then Some ERROR_START_OR_ENROLLMENT_END_REQUIRED
         else if (start_date = None \<or> opt_lt start_date now) \<and>
                 (enrollment_end = None \<or> opt_lt enrollment_end now)
         then Some ERROR_START_OR_ENROLLMENT_END_FUTURE
         else if both_gt start_date end_date then Some ERROR_END_AFTER_START
         else if both_gt enrollment_start enrollment_end then Some ERROR_ENROLLMENT_ORDER
         else if opt_lt end_date now then Some ERROR_END_IN_FUTURE
         else if expiration_date \<noteq> None then
           (if both_gt start_date expiration_date then Some ERROR_EXPIRATION_AFTER_START
            else if both_gt end_date expiration_date then Some ERROR_EXPIRATION_AFTER_END
            else None)
         else None)
      in (error_msg = None, error_msg))"

section \<open>Lemmas\<close>

lemma partition_items_filters [simp]:
  "partition_items items P = (filter (\<lambda>x. \<not> P x) items, filter P items)"
  by (simp add: partition_items_def filter_map comp_def case_prod_unfold)

lemma partition_to_lists_filters [simp]:
  "partition_to_lists items P = (filter (\<lambda>x. \<not> P x) items, filter P items)"
  by (simp add: partition_to_lists_def)

lemma first_matching_item_Some:
  "first_matching_item xs P = Some x \<Longrightarrow> x \<in> set xs \<and> P x"
  unfolding first_matching_item_def by (drule first_of_in_set) simp

lemma matching_item_index_Inr:
  "matching_item_index xs v = Inr i \<Longrightarrow> i < length xs \<and> xs ! i = v \<and> v \<notin> set (take i xs)"
  by (induction xs arbitrary: i) (auto split: if_splits sum.splits)

lemma has_equal_properties_iff:
  "has_equal_properties obj ps \<longleftrightarrow> (\<forall>(f, v) \<in> set ps. map_of obj f = Some v)"
  by (induction obj ps rule: has_equal_properties.induct) (auto split: option.splits)

lemma set_unique_from: "set (unique_from seen xs) = set xs - seen"
  by (induction seen xs rule: unique_from.induct) auto

lemma distinct_unique_from: "distinct (unique_from seen xs)"
  by (induction seen xs rule: unique_from.induct) (auto simp: set_unique_from)

lemma unique_from_eq:
  "unique_from seen xs = rev (remdups (rev (filter (\<lambda>x. x \<notin> seen) xs)))"
proof (induction xs rule: rev_induct)
  case Nil
  then show ?case by simp
next
  case (snoc x xs)
  have "unique_from seen (xs @ [x]) =
      unique_from seen xs @ (if x \<in> seen \<union> set xs then [] else [x])"
    by (induction seen xs rule: unique_from.induct) auto
  with snoc show ?case by auto
qed

lemma all_unique_iff: "all_unique xs \<longleftrightarrow> distinct xs"
  unfolding all_unique_def by (metis card_distinct distinct_card)

lemma all_equal_iff: "all_equal xs \<longleftrightarrow> (\<forall>x \<in> set xs. \<forall>y \<in> set xs. x = y)"
  unfolding all_equal_def by (simp add: card_le_Suc0_iff_eq)

lemma map_of_dict_set: "map_of (dict_set d k v) = (map_of d)(k \<mapsto> v)"
  by (induction d k v rule: dict_set.induct) (auto simp: fun_eq_iff)

lemma keys_dict_set: "fst ` set (dict_set d k v) = insert k (fst ` set d)"
  by (induction d k v rule: dict_set.induct) auto

lemma dict_set_fresh: "k \<notin> fst ` set d \<Longrightarrow> dict_set d k v = d @ [(k, v)]"
  by (induction d k v rule: dict_set.induct) auto

text \<open>A dictionary display without repeated keys is the list of its entries.\<close>

lemma dict_of_distinct:
  assumes "distinct (map fst kvs)"
  shows "dict_of kvs = kvs"
  using assms
proof (induction kvs rule: rev_induct)
  case (snoc kv kvs)
  then show ?case
    by (cases kv) (auto simp: dict_of_def dict_set_fresh)
qed (simp add: dict_of_def)

lemma dropWhile_sorted_keys:
  assumes "sorted (map f (x # xs))"
  shows "\<forall>y \<in> set (dropWhile (\<lambda>y. f y = f x) xs). f x < f y"
  using assms
proof (induction xs)
  case (Cons z zs)
  show ?case
  proof (cases "f z = f x")
    case True
    with Cons show ?thesis by simp
  next
    case False
    with Cons.prems have lt: "f x < f z" and ge: "\<forall>y \<in> set zs. f z \<le> f y" by auto
    from False have "dropWhile (\<lambda>y. f y = f x) (z # zs) = z # zs" by simp
    with lt ge show ?thesis by fastforce
  qed
qed simp

lemma sorted_map_dropWhile: "sorted (map f xs) \<Longrightarrow> sorted (map f (dropWhile P xs))"
  by (metis dropWhile_eq_drop drop_map sorted_wrt_drop)

lemma groupby_sorted:
  assumes "sorted (map f xs)"
  shows "sorted_wrt (<) (map fst (itertools_groupby f xs)) \<and>
    fst ` set (itertools_groupby f xs) = f ` set xs \<and>
    (\<forall>(k, g) \<in> set (itertools_groupby f xs). g = filter (\<lambda>x. f x = k) xs)"
  using assms
proof (induction f xs rule: itertools_groupby.induct)
  case (1 f)
  then show ?case by simp
next
  case (2 f x xs)
  define T D where T_def: "T = takeWhile (\<lambda>y. f y = f x) xs" and D_def: "D = dropWhile (\<lambda>y. f y = f x) xs"
  have xs: "xs = T @ D" by (simp add: T_def D_def)
  have gt: "\<forall>y \<in> set D. f x < f y" unfolding D_def by (rule dropWhile_sorted_keys) fact
  have T: "\<forall>y \<in> set T. f y = f x" by (auto simp: T_def dest: set_takeWhileD)
  from "2.prems" have "sorted (map f D)" unfolding D_def by (intro sorted_map_dropWhile) simp
  with "2.IH" have IH: "sorted_wrt (<) (map fst (itertools_groupby f D))"
    "fst ` set (itertools_groupby f D) = f ` set D"
    "\<forall>(k, g) \<in> set (itertools_groupby f D). g = filter (\<lambda>x. f x = k) D" by (auto simp: D_def)
  have im: "f ` set (x # xs) = insert (f x) (f ` set D)"
    using T by (auto simp: xs)
  have grp: "filter (\<lambda>y. f y = f x) (x # xs) = x # T"
    using T gt by (auto simp: xs filter_id_conv filter_empty_conv)
  have rest: "filter (\<lambda>y. f y = k) (x # xs) = filter (\<lambda>y. f y = k) D" if "k \<in> f ` set D" for k
  proof -
    from that gt have "f x \<noteq> k" by auto
    with T show ?thesis by (auto simp: xs filter_empty_conv)
  qed
  have eq: "itertools_groupby f (x # xs) = (f x, x # T) # itertools_groupby f D"
    by (simp add: T_def D_def)
  have "\<forall>(k, g) \<in> set (itertools_groupby f D). g = filter (\<lambda>y. f y = k) (x # xs)"
  proof safe
    fix k g assume kg: "(k, g) \<in> set (itertools_groupby f D)"
    then have "k \<in> f ` set D" unfolding IH(2) [symmetric] by force
    with kg IH(3) rest show "g = filter (\<lambda>y. f y = k) (x # xs)" by auto
  qed
  with IH(1,2) gt im grp show ?case
    unfolding eq by (auto simp: image_iff)
qed

lemma retry_loop_spec:
  "tries \<le> retry_loop status retries tries \<and>
   retry_loop status retries tries \<le> max tries retries \<and>
   list_all (\<lambda>i. status i = 504) [tries ..< retry_loop status retries tries] \<and>
   (status (retry_loop status retries tries) \<noteq> 504 \<or> retries \<le> retry_loop status retries tries)"
proof (induction status retries tries rule: retry_loop.induct)
  case (1 status retries tries)
  show ?case
  proof (cases "status tries = 504 \<and> tries < retries")
    case True
    with "1.IH" have IH: "tries + 1 \<le> retry_loop status retries (tries + 1)"
      "list_all (\<lambda>i. status i = 504) [tries + 1 ..< retry_loop status retries (tries + 1)]" by auto
    from IH(1) have "[tries ..< retry_loop status retries (tries + 1)] =
        tries # [tries + 1 ..< retry_loop status retries (tries + 1)]"
      by (simp add: upt_conv_Cons)
    with True "1.IH" IH show ?thesis by (auto simp: retry_loop.simps [of status retries tries])
  next
    case False
    then show ?thesis by (auto simp: retry_loop.simps [of status retries tries])
  qed
qed

lemma py_find_none: "c \<notin> set s \<Longrightarrow> py_find s c = - 1"
  by (induction s) auto

lemma py_find_append: "c \<notin> set p \<Longrightarrow> py_find (p @ c # q) c = int (length p)"
  by (induction p) auto

section \<open>Properties\<close>

text \<open>
  \<open>group_into_dict\<close> returns a dictionary whose keys are exactly the keys the items produce,
  each once and in ascending order, and the list under a key holds all items with that key, in the
  order the caller gave them.
\<close>

theorem group_into_dict_groups:
  "sorted_wrt (<) (map fst (group_into_dict items key_fn)) \<and>
   fst ` set (group_into_dict items key_fn) = key_fn ` set items \<and>
   map_of (group_into_dict items key_fn) k =
     (if k \<in> key_fn ` set items then Some (filter (\<lambda>x. key_fn x = k) items) else None)"
proof -
  let ?g = "itertools_groupby key_fn (sort_key key_fn items)"
  have g: "sorted_wrt (<) (map fst ?g)" "fst ` set ?g = key_fn ` set items"
    "\<forall>(k, xs) \<in> set ?g. xs = filter (\<lambda>x. key_fn x = k) items"
    using groupby_sorted [of key_fn "sort_key key_fn items"] by (auto simp: sort_key_stable)
  then have "distinct (map fst ?g)" by (simp add: strict_sorted_iff)
  then have eq: "group_into_dict items key_fn = ?g"
    by (simp add: group_into_dict_def dict_of_distinct)
  have "map_of ?g k = (if k \<in> key_fn ` set items then Some (filter (\<lambda>x. key_fn x = k) items) else None)"
  proof (cases "map_of ?g k")
    case None
    with g(2) show ?thesis by (metis map_of_eq_None_iff)
  next
    case (Some xs)
    then have "(k, xs) \<in> set ?g" by (rule map_of_SomeD)
    with g Some show ?thesis by (auto simp: rev_image_eqI)
  qed
  with g eq show ?thesis by simp
qed

text \<open>
  \<open>validate_courserun_dates\<close> accepts the dates of a course run exactly when the start or the
  end of enrollment still lies ahead, no date comes before the one it has to follow, and the run
  has not ended; it then has no message. A start in the past is accepted with an end of enrollment
  in the future, although the documented rules ask for both dates to be in the future.
\<close>

theorem validate_courserun_dates_iff:
  "(fst (validate_courserun_dates now sd ed ee es xd) \<longleftrightarrow>
     ((\<exists>s. sd = Some s \<and> now \<le> s) \<or> (\<exists>e. ee = Some e \<and> now \<le> e)) \<and>
     \<not> (\<exists>s e. sd = Some s \<and> ed = Some e \<and> e < s) \<and>
     \<not> (\<exists>s e. es = Some s \<and> ee = Some e \<and> e < s) \<and>
     \<not> (\<exists>e. ed = Some e \<and> e < now) \<and>
     \<not> (\<exists>x s. xd = Some x \<and> sd = Some s \<and> x < s) \<and>
     \<not> (\<exists>x e. xd = Some x \<and> ed = Some e \<and> x < e)) \<and>
   (snd (validate_courserun_dates now sd ed ee es xd) = None \<longleftrightarrow>
     fst (validate_courserun_dates now sd ed ee es xd))"
  by (cases sd; cases ed; cases ee; cases es; cases xd)
     (auto simp: validate_courserun_dates_def opt_lt_def both_gt_def)

text \<open>
  \<open>request_get_with_timeout_retry\<close> stops: it makes at least one request and, beyond the first,
  at most \<open>retries\<close> in all; every request before the last one timed out, and the last one either
  did not time out or used up the retries. Its answer is the last response, raised when it is an
  error status.
\<close>

theorem request_get_with_timeout_retry_bounded:
  "1 \<le> fst (request_get_with_timeout_retry status retries) \<and>
   fst (request_get_with_timeout_retry status retries) \<le> max 1 retries \<and>
   list_all (\<lambda>i. status i = 504) [1 ..< fst (request_get_with_timeout_retry status retries)] \<and>
   (status (fst (request_get_with_timeout_retry status retries)) \<noteq> 504 \<or>
    retries \<le> fst (request_get_with_timeout_retry status retries)) \<and>
   snd (request_get_with_timeout_retry status retries) =
     (if 400 \<le> status (fst (request_get_with_timeout_retry status retries)) then Inl HTTPError
      else Inr (status (fst (request_get_with_timeout_retry status retries))))"
  using retry_loop_spec [of 1 status retries]
  by (simp add: request_get_with_timeout_retry_def Let_def)

lemma request_get_with_timeout_retry_bounded_witness:
  "fst (request_get_with_timeout_retry (\<lambda>_. 504) 3) \<le> 3"
  using request_get_with_timeout_retry_bounded [of "\<lambda>_. 504" 3] by simp

text \<open>
  \<open>clean_url\<close> with \<open>remove_query_params\<close> cuts a URL at its first question mark and drops the
  spaces; but a URL without a question mark loses its last character, because \<open>find\<close> answers
  \<open>-1\<close> there.
\<close>

theorem clean_url_remove_query:
  assumes "CHR ''?'' \<notin> set base"
  shows "clean_url (base @ CHR ''?'' # query) True = filter (\<lambda>c. c \<noteq> CHR '' '') base \<and>
    clean_url base True = filter (\<lambda>c. c \<noteq> CHR '' '') (butlast base)"
proof
  show "clean_url (base @ CHR ''?'' # query) True = filter (\<lambda>c. c \<noteq> CHR '' '') base"
    using assms by (simp add: clean_url_def py_find_append slice_to_def)
  have "py_find base CHR ''?'' = - 1"
    using assms by (rule py_find_none)
  moreover have "nat (int (length base) - 1) = length base - 1"
    by simp
  ultimately show "clean_url base True = filter (\<lambda>c. c \<noteq> CHR '' '') (butlast base)"
    by (cases "base = []")
      (simp_all add: clean_url_def slice_to_def butlast_conv_take)
qed

lemma clean_url_remove_query_witness:
  "clean_url ''https://x.edu/a?b=1'' True = ''https://x.edu/a'' \<and>
   clean_url ''https://x.edu/a'' True = ''https://x.edu/''"
  using clean_url_remove_query [of "''https://x.edu/a''" "''b=1''"] by simp

end
