(* ===== verification/Django_Orm.thy ===== *)
theory Django_Orm
  imports Xpro_Prelude
begin

text \<open>
  The part of Django's object-relational mapper the program uses: a table of rows under automatic
  primary keys, the querysets the code builds (\<open>filter\<close>, \<open>exists\<close>, \<open>first\<close>, \<open>get\<close>,
  \<open>create\<close>, \<open>bulk_create\<close>, \<open>get_or_create\<close>, \<open>update_or_create\<close>, \<open>update\<close>, \<open>delete\<close>),
  and the contract of such a store as a locale with an interpretation on the table itself. An
  object of the code is its primary key; its attributes are read through \<open>row\<close>. A query without an order
  answers in primary key order, which is the order \<open>first\<close> uses in Django.
\<close>

named_theorems orm_simps

section \<open>Tables\<close>

record 'r table =
  pks :: "nat list"
  row :: "nat \<Rightarrow> 'r"
  next_pk :: nat

definition wf_table :: "'r table \<Rightarrow> bool" where
  "wf_table t \<longleftrightarrow> sorted_wrt (<) (pks t) \<and> (\<forall>k \<in> set (pks t). k < next_pk t)"

definition matching :: "'r table \<Rightarrow> (nat \<Rightarrow> 'r \<Rightarrow> bool) \<Rightarrow> nat list" where
  "matching t P = filter (\<lambda>k. P k (row t k)) (pks t)"

definition t_exists :: "'r table \<Rightarrow> (nat \<Rightarrow> 'r \<Rightarrow> bool) \<Rightarrow> bool" where
  "t_exists t P = list_ex (\<lambda>k. P k (row t k)) (pks t)"

definition t_first :: "'r table \<Rightarrow> (nat \<Rightarrow> 'r \<Rightarrow> bool) \<Rightarrow> nat option" where
  "t_first t P = first_of (matching t P)"

definition t_last :: "'r table \<Rightarrow> (nat \<Rightarrow> 'r \<Rightarrow> bool) \<Rightarrow> nat option" where
  "t_last t P = first_of (rev (matching t P))"

definition the_only :: "string \<Rightarrow> nat list \<Rightarrow> exn + nat" where
  "the_only model ks =
     (case ks of [] \<Rightarrow> Inl (DoesNotExist model) | [k] \<Rightarrow> Inr k
      | _ \<Rightarrow> Inl (MultipleObjectsReturned model))"

definition t_get :: "string \<Rightarrow> 'r table \<Rightarrow> (nat \<Rightarrow> 'r \<Rightarrow> bool) \<Rightarrow> exn + nat" where
  "t_get model t P = the_only model (matching t P)"

definition t_create :: "'r table \<Rightarrow> 'r \<Rightarrow> nat \<times> 'r table" where
  "t_create t r =
     (next_pk t,
      t\<lparr>pks := pks t @ [next_pk t], row := (row t)(next_pk t := r), next_pk := Suc (next_pk t)\<rparr>)"

fun t_bulk_create :: "'r table \<Rightarrow> 'r list \<Rightarrow> nat list \<times> 'r table" where
  "t_bulk_create t [] = ([], t)"
| "t_bulk_create t (r # rs) =
     (let (k, t') = t_create t r; (ks, t'') = t_bulk_create t' rs in (k # ks, t''))"

definition t_save :: "'r table \<Rightarrow> nat \<Rightarrow> ('r \<Rightarrow> 'r) \<Rightarrow> 'r table" where
  "t_save t k f = t\<lparr>row := (row t)(k := f (row t k))\<rparr>"

definition t_update :: "'r table \<Rightarrow> (nat \<Rightarrow> 'r \<Rightarrow> bool) \<Rightarrow> ('r \<Rightarrow> 'r) \<Rightarrow> 'r table" where
  "t_update t P f =
     t\<lparr>row := (\<lambda>k. if k \<in> set (pks t) \<and> P k (row t k) then f (row t k) else row t k)\<rparr>"

definition t_delete :: "'r table \<Rightarrow> (nat \<Rightarrow> 'r \<Rightarrow> bool) \<Rightarrow> 'r table" where
  "t_delete t P = t\<lparr>pks := filter (\<lambda>k. \<not> P k (row t k)) (pks t)\<rparr>"

text \<open>\<open>get_or_create(P, defaults)\<close>: the row that matches, or a new row; the flag is \<open>created\<close>.\<close>

definition t_get_or_create ::
  "string \<Rightarrow> 'r table \<Rightarrow> (nat \<Rightarrow> 'r \<Rightarrow> bool) \<Rightarrow> 'r \<Rightarrow> (exn + nat \<times> bool) \<times> 'r table" where
  "t_get_or_create model t P r =
     (case matching t P of
        [] \<Rightarrow> (let (k, t') = t_create t r in (Inr (k, True), t'))
      | [k] \<Rightarrow> (Inr (k, False), t)
      | _ \<Rightarrow> (Inl (MultipleObjectsReturned model), t))"

text \<open>\<open>update_or_create(P, defaults)\<close>: \<open>f\<close> writes the defaults, \<open>r\<close> is the row created without a match.\<close>

definition t_update_or_create ::
  "string \<Rightarrow> 'r table \<Rightarrow> (nat \<Rightarrow> 'r \<Rightarrow> bool) \<Rightarrow> ('r \<Rightarrow> 'r) \<Rightarrow> 'r \<Rightarrow> (exn + nat \<times> bool) \<times> 'r table" where
  "t_update_or_create model t P f r =
     (case matching t P of
        [] \<Rightarrow> (let (k, t') = t_create t r in (Inr (k, True), t'))
      | [k] \<Rightarrow> (Inr (k, False), t_save t k f)
      | _ \<Rightarrow> (Inl (MultipleObjectsReturned model), t))"

definition empty_table :: "'r \<Rightarrow> 'r table" where
  "empty_table d = \<lparr>pks = [], row = (\<lambda>_. d), next_pk = 1\<rparr>"

text \<open>A table holding the given rows under the keys 1, 2, \<open>\<dots>\<close>: used for concrete inputs.\<close>

definition table_of :: "'r \<Rightarrow> 'r list \<Rightarrow> 'r table" where
  "table_of d rs =
     \<lparr>pks = [1..<Suc (length rs)],
      row = (\<lambda>k. if 0 < k \<and> k \<le> length rs then rs ! (k - 1) else d),
      next_pk = Suc (length rs)\<rparr>"

section \<open>Lemmas\<close>

lemma set_matching [simp]: "set (matching t P) = {k \<in> set (pks t). P k (row t k)}"
  by (simp add: matching_def)

lemma t_exists_iff: "t_exists t P \<longleftrightarrow> (\<exists>k \<in> set (pks t). P k (row t k))"
  by (simp add: t_exists_def list_ex_iff)

lemma t_exists_matching: "t_exists t P \<longleftrightarrow> matching t P \<noteq> []"
  by (auto simp: t_exists_iff matching_def filter_empty_conv)

lemma t_first_None: "t_first t P = None \<longleftrightarrow> \<not> t_exists t P"
  by (simp add: t_first_def t_exists_matching)

lemma t_first_SomeD: "t_first t P = Some k \<Longrightarrow> k \<in> set (pks t) \<and> P k (row t k)"
  unfolding t_first_def by (drule first_of_in_set) simp

lemma t_last_SomeD: "t_last t P = Some k \<Longrightarrow> k \<in> set (pks t) \<and> P k (row t k)"
  unfolding t_last_def by (drule first_of_in_set) simp

lemma the_only_Inr: "the_only model ks = Inr k \<longleftrightarrow> ks = [k]"
  by (auto simp: the_only_def split: list.splits)

lemma t_get_InrD: "t_get model t P = Inr k \<Longrightarrow> k \<in> set (pks t) \<and> P k (row t k)"
proof -
  assume "t_get model t P = Inr k"
  then have "k \<in> set (matching t P)"
    by (simp add: t_get_def the_only_Inr)
  then show ?thesis by simp
qed

lemma wf_table_distinct: "wf_table t \<Longrightarrow> distinct (pks t)"
  unfolding wf_table_def by (metis strict_sorted_iff)

lemma wf_table_fresh: "wf_table t \<Longrightarrow> next_pk t \<notin> set (pks t)"
  by (auto simp: wf_table_def)

lemma distinct_matching: "wf_table t \<Longrightarrow> distinct (matching t P)"
  by (simp add: matching_def wf_table_distinct)

lemma fst_t_create [simp]: "fst (t_create t r) = next_pk t"
  by (simp add: t_create_def)

lemma pks_t_create [simp]: "pks (snd (t_create t r)) = pks t @ [next_pk t]"
  by (simp add: t_create_def)

lemma row_t_create: "row (snd (t_create t r)) k = (if k = next_pk t then r else row t k)"
  by (simp add: t_create_def)

lemma next_pk_t_create [simp]: "next_pk (snd (t_create t r)) = Suc (next_pk t)"
  by (simp add: t_create_def)

lemma wf_t_create [simp]: "wf_table t \<Longrightarrow> wf_table (snd (t_create t r))"
  by (auto simp: wf_table_def t_create_def sorted_wrt_append less_Suc_eq)

lemma matching_t_create [orm_simps]:
  assumes "wf_table t"
  shows "matching (snd (t_create t r)) P =
    matching t P @ (if P (next_pk t) r then [next_pk t] else [])"
proof -
  have "filter (\<lambda>k. P k (row (snd (t_create t r)) k)) (pks t) = filter (\<lambda>k. P k (row t k)) (pks t)"
    using wf_table_fresh [OF assms] by (intro filter_cong) (auto simp: row_t_create)
  then show ?thesis
    by (simp add: matching_def row_t_create)
qed

lemma pks_t_save [simp]: "pks (t_save t k f) = pks t"
  and next_pk_t_save [simp]: "next_pk (t_save t k f) = next_pk t"
  and row_t_save: "row (t_save t k f) j = (if j = k then f (row t k) else row t j)"
  by (simp_all add: t_save_def)

lemma row_t_save_same [simp]: "row (t_save t k f) k = f (row t k)"
  and row_t_save_other [simp]: "j \<noteq> k \<Longrightarrow> row (t_save t k f) j = row t j"
  by (simp_all add: t_save_def)

text \<open>A column without repeated values (a unique constraint).\<close>

definition unique_on :: "'r table \<Rightarrow> ('r \<Rightarrow> 'a) \<Rightarrow> bool" where
  "unique_on t f \<longleftrightarrow> inj_on (\<lambda>k. f (row t k)) (set (pks t))"

lemma unique_on_create:
  "wf_table t \<Longrightarrow> unique_on t f \<Longrightarrow> \<forall>k \<in> set (pks t). f (row t k) \<noteq> f r \<Longrightarrow>
   unique_on (snd (t_create t r)) f"
  by (auto simp: unique_on_def inj_on_def row_t_create dest: wf_table_fresh)

lemma unique_on_t_save:
  assumes "unique_on t f" and "f (g (row t k)) = f (row t k)"
  shows "unique_on (t_save t k g) f"
proof -
  have "f (row (t_save t k g) j) = f (row t j)" for j
    using assms(2) by (simp add: t_save_def)
  with assms(1) show ?thesis by (simp add: unique_on_def)
qed

lemma wf_t_save [simp]: "wf_table (t_save t k f) = wf_table t"
  by (simp add: wf_table_def)

lemma matching_t_save [orm_simps]:
  assumes "P k (f (row t k)) = P k (row t k)"
  shows "matching (t_save t k f) P = matching t P"
  unfolding matching_def using assms by (auto intro!: filter_cong simp: row_t_save)

lemma pks_t_update [simp]: "pks (t_update t P f) = pks t"
  and next_pk_t_update [simp]: "next_pk (t_update t P f) = next_pk t"
  by (simp_all add: t_update_def)

lemma row_t_update:
  "row (t_update t P f) k = (if k \<in> set (pks t) \<and> P k (row t k) then f (row t k) else row t k)"
  by (simp add: t_update_def)

lemma wf_t_update [simp]: "wf_table (t_update t P f) = wf_table t"
  by (simp add: wf_table_def)

lemma pks_t_delete [simp]: "pks (t_delete t P) = filter (\<lambda>k. \<not> P k (row t k)) (pks t)"
  and row_t_delete [simp]: "row (t_delete t P) = row t"
  and next_pk_t_delete [simp]: "next_pk (t_delete t P) = next_pk t"
  by (simp_all add: t_delete_def)

lemma wf_t_delete [simp]: "wf_table t \<Longrightarrow> wf_table (t_delete t P)"
  by (simp add: wf_table_def sorted_wrt_filter)

lemma matching_t_delete [orm_simps]:
  "matching (t_delete t P) Q = filter (\<lambda>k. \<not> P k (row t k)) (matching t Q)"
  by (auto simp: matching_def intro: filter_cong)

lemma matching_t_delete_same [simp]: "matching (t_delete t P) P = []"
  by (simp add: matching_t_delete matching_def filter_empty_conv)

lemma t_bulk_create_Cons:
  "t_bulk_create t (r # rs) =
     (next_pk t # fst (t_bulk_create (snd (t_create t r)) rs),
      snd (t_bulk_create (snd (t_create t r)) rs))"
  by (simp add: t_create_def split: prod.split)

declare t_bulk_create.simps(2) [simp del]

lemma wf_t_bulk_create [simp]: "wf_table t \<Longrightarrow> wf_table (snd (t_bulk_create t rs))"
  by (induction rs arbitrary: t) (simp_all add: t_bulk_create_Cons)

lemma pks_t_bulk_create [simp]: "pks (snd (t_bulk_create t rs)) = pks t @ fst (t_bulk_create t rs)"
  by (induction rs arbitrary: t) (simp_all add: t_bulk_create_Cons)

lemma fst_t_bulk_create: "fst (t_bulk_create t rs) = [next_pk t ..< next_pk t + length rs]"
proof (induction rs arbitrary: t)
  case Nil
  then show ?case by simp
next
  case (Cons r rs)
  have "[next_pk t ..< next_pk t + length (r # rs)] =
      next_pk t # [Suc (next_pk t) ..< Suc (next_pk t) + length rs]"
    by (simp add: upt_conv_Cons del: upt_Suc)
  with Cons.IH [of "snd (t_create t r)"] show ?case
    by (simp add: t_bulk_create_Cons del: upt_Suc)
qed

lemma length_fst_t_bulk_create [simp]: "length (fst (t_bulk_create t rs)) = length rs"
  by (simp add: fst_t_bulk_create)

lemma row_t_bulk_create_old [simp]:
  "k < next_pk t \<Longrightarrow> row (snd (t_bulk_create t rs)) k = row t k"
  by (induction rs arbitrary: t) (simp_all add: t_bulk_create_Cons row_t_create)

lemma row_t_bulk_create_new:
  "i < length rs \<Longrightarrow> row (snd (t_bulk_create t rs)) (next_pk t + i) = rs ! i"
proof (induction rs arbitrary: t i)
  case Nil
  then show ?case by simp
next
  case (Cons r rs)
  show ?case
  proof (cases i)
    case 0
    then show ?thesis by (simp add: t_bulk_create_Cons row_t_create)
  next
    case (Suc j)
    with Cons.prems Cons.IH [of j "snd (t_create t r)"] show ?thesis
      by (simp add: t_bulk_create_Cons)
  qed
qed

lemma matching_t_bulk_create:
  assumes "wf_table t" and "\<And>k r. r \<in> set rs \<Longrightarrow> P k r"
  shows "matching (snd (t_bulk_create t rs)) P = matching t P @ fst (t_bulk_create t rs)"
  using assms
proof (induction rs arbitrary: t)
  case Nil
  then show ?case by simp
next
  case (Cons r rs)
  then have "matching (snd (t_bulk_create (snd (t_create t r)) rs)) P =
      matching (snd (t_create t r)) P @ fst (t_bulk_create (snd (t_create t r)) rs)"
    by (intro Cons.IH) auto
  with Cons.prems show ?case
    by (simp add: t_bulk_create_Cons matching_t_create)
qed

text \<open>The rows after a bulk creation: the old ones and the new ones, in order.\<close>

lemma map_row_bulk_create:
  assumes "wf_table t"
  shows "map (row (snd (t_bulk_create t rs))) (pks (snd (t_bulk_create t rs))) = map (row t) (pks t) @ rs"
proof -
  have "map (row (snd (t_bulk_create t rs))) (pks t) = map (row t) (pks t)"
    using assms by (auto simp: wf_table_def)
  moreover have "map (row (snd (t_bulk_create t rs))) [next_pk t ..< next_pk t + length rs] = rs"
  proof (rule nth_equalityI)
    fix i assume "i < length (map (row (snd (t_bulk_create t rs))) [next_pk t ..< next_pk t + length rs])"
    then show "map (row (snd (t_bulk_create t rs))) [next_pk t ..< next_pk t + length rs] ! i = rs ! i"
      by (simp add: row_t_bulk_create_new del: upt_Suc)
  qed simp
  ultimately show ?thesis by (simp add: fst_t_bulk_create)
qed

lemma map_row_matching:
  "map (row t) (matching t (\<lambda>_. P)) = filter P (map (row t) (pks t))"
  by (simp add: matching_def filter_map comp_def)

lemma length_matching_rows:
  "length (matching t (\<lambda>_. P)) = length (filter P (map (row t) (pks t)))"
  by (simp add: matching_def filter_map comp_def)

lemma unique_on_bulk_create:
  assumes "wf_table t" and "unique_on t f" and "distinct (map f rs)" and "\<forall>k \<in> set (pks t). f (row t k) \<notin> f ` set rs"
  shows "unique_on (snd (t_bulk_create t rs)) f"
  using assms
proof (induction rs arbitrary: t)
  case (Cons r rs)
  have "unique_on (snd (t_create t r)) f"
    by (rule unique_on_create) (use Cons.prems in auto)
  moreover have "\<forall>k \<in> set (pks (snd (t_create t r))). f (row (snd (t_create t r)) k) \<notin> f ` set rs"
    using Cons.prems by (auto simp: row_t_create)
  ultimately show ?case
    using Cons.prems Cons.IH [of "snd (t_create t r)"] by (simp add: t_bulk_create_Cons)
qed simp

lemma wf_empty_table [simp]: "wf_table (empty_table d)"
  by (simp add: wf_table_def empty_table_def)

lemma wf_table_of [simp]: "wf_table (table_of d rs)"
  by (simp add: wf_table_def table_of_def del: upt_Suc)

lemma t_get_or_create_wf:
  "t_get_or_create model t P r = (x, t') \<Longrightarrow> wf_table t \<Longrightarrow> wf_table t'"
  by (auto simp: t_get_or_create_def Let_def split: list.splits prod.splits) (metis snd_conv wf_t_create)

lemma t_update_or_create_wf:
  "t_update_or_create model t P f r = (x, t') \<Longrightarrow> wf_table t \<Longrightarrow> wf_table t'"
  by (auto simp: t_update_or_create_def Let_def split: list.splits prod.splits)
     (metis snd_conv wf_t_create)

text \<open>After a successful \<open>get_or_create\<close> the object is in the table.\<close>

lemma t_get_or_create_ok:
  assumes "t_get_or_create model t P r = (Inr (k, c), t')"
  shows "k \<in> set (pks t')" and "c \<longleftrightarrow> matching t P = []"
    and "row t' k = (if c then r else row t k)"
  using assms
  by (auto simp: t_get_or_create_def t_create_def Let_def split: list.splits)
     (metis list.set_intros(1) mem_Collect_eq set_matching)+

text \<open>
  \<open>update_or_create\<close> leaves exactly one match behind, if the row it creates and the row it
  updates match.
\<close>

lemma t_update_or_create_one:
  assumes "t_update_or_create model t P f r = (Inr (k, c), t')" and "wf_table t"
    and "P (next_pk t) r" and "\<And>k. P k (row t k) \<Longrightarrow> P k (f (row t k))"
  shows "matching t' P = [k]"
proof (cases "matching t P")
  case Nil
  with assms have "k = next_pk t" and "t' = snd (t_create t r)"
    by (auto simp: t_update_or_create_def t_create_def)
  with Nil assms(2,3) show ?thesis
    by (simp add: matching_t_create)
next
  case (Cons j js)
  with assms(1) have js: "js = []" and k: "k = j" and t': "t' = t_save t j f"
    by (auto simp: t_update_or_create_def split: list.splits)
  from Cons have "P j (row t j)"
    by (metis list.set_intros(1) mem_Collect_eq set_matching)
  with assms(4) have "P j (f (row t j)) = P j (row t j)"
    by blast
  with Cons js k t' show ?thesis
    by (simp add: matching_t_save)
qed

lemma t_update_or_create_row:
  "t_update_or_create model t P f r = (Inr (k, c), t') \<Longrightarrow> row t' k = (if c then r else f (row t k))"
  by (auto simp: t_update_or_create_def t_create_def split: list.splits)

section \<open>The contract of a store\<close>

text \<open>
  What client code relies on when it keeps objects in the database: a created object gets a key
  no live object has and is found under it, creating, saving and deleting objects does not
  disturb the others. The lemmas after it hold for every such store.
\<close>

locale object_store =
  fixes keys :: "'t \<Rightarrow> nat list"
    and fetch :: "'t \<Rightarrow> nat \<Rightarrow> 'r"
    and create :: "'t \<Rightarrow> 'r \<Rightarrow> nat \<times> 't"
    and save :: "'t \<Rightarrow> nat \<Rightarrow> ('r \<Rightarrow> 'r) \<Rightarrow> 't"
    and remove :: "'t \<Rightarrow> (nat \<Rightarrow> 'r \<Rightarrow> bool) \<Rightarrow> 't"
    and valid :: "'t \<Rightarrow> bool"
  assumes keys_distinct: "valid t \<Longrightarrow> distinct (keys t)"
    and create_fresh: "valid t \<Longrightarrow> fst (create t r) \<notin> set (keys t)"
    and create_keys: "valid t \<Longrightarrow> keys (snd (create t r)) = keys t @ [fst (create t r)]"
    and create_fetch: "valid t \<Longrightarrow> fetch (snd (create t r)) k = (if k = fst (create t r) then r else fetch t k)"
    and create_valid: "valid t \<Longrightarrow> valid (snd (create t r))"
    and save_keys: "keys (save t k f) = keys t"
    and save_fetch: "fetch (save t k f) j = (if j = k then f (fetch t k) else fetch t j)"
    and save_valid: "valid t \<Longrightarrow> valid (save t k f)"
    and remove_keys: "keys (remove t P) = filter (\<lambda>k. \<not> P k (fetch t k)) (keys t)"
    and remove_fetch: "fetch (remove t P) k = fetch t k"
    and remove_valid: "valid t \<Longrightarrow> valid (remove t P)"
begin

text \<open>A query after a creation: the old answer, and the new object if it matches.\<close>

lemma query_after_create:
  assumes "valid t"
  shows "filter (\<lambda>k. P k (fetch (snd (create t r)) k)) (keys (snd (create t r))) =
    filter (\<lambda>k. P k (fetch t k)) (keys t) @ (if P (fst (create t r)) r then [fst (create t r)] else [])"
proof -
  have "filter (\<lambda>k. P k (fetch (snd (create t r)) k)) (keys t) = filter (\<lambda>k. P k (fetch t k)) (keys t)"
    using create_fresh [OF assms, of r] by (intro filter_cong) (auto simp: create_fetch [OF assms])
  then show ?thesis
    using assms by (simp add: create_keys create_fetch)
qed

text \<open>Deleting what was just created gives back the objects there were.\<close>

lemma create_then_remove:
  assumes "valid t"
  shows "keys (remove (snd (create t r)) (\<lambda>k _. k = fst (create t r))) = keys t"
proof -
  have "filter (\<lambda>k. k \<noteq> fst (create t r)) (keys t) = keys t"
    using create_fresh [OF assms, of r] by (auto simp: filter_id_conv)
  then show ?thesis
    using assms by (simp add: remove_keys create_keys)
qed

lemma save_save: "fetch (save (save t k f) k g) j = fetch (save t k (g \<circ> f)) j"
  by (simp add: save_fetch)

lemma remove_twice: "keys (remove (remove t P) P) = keys (remove t P)"
  by (simp add: remove_keys remove_fetch filter_filter)

end

interpretation tb: object_store pks row t_create t_save t_delete wf_table
  by unfold_locales
     (auto simp: wf_table_distinct wf_table_fresh row_t_create row_t_save)

section \<open>Database operations as programs\<close>

text \<open>
  A database is a record of tables; an operation on one of them is given the table's reader and its
  update function.
\<close>

definition db_create ::
  "('s \<Rightarrow> 'r table) \<Rightarrow> (('r table \<Rightarrow> 'r table) \<Rightarrow> 's \<Rightarrow> 's) \<Rightarrow> 'r \<Rightarrow> ('s, nat) prog" where
  "db_create g u r = (\<lambda>s. (Inr (next_pk (g s)), u (\<lambda>_. snd (t_create (g s) r)) s))"

definition db_bulk_create ::
  "('s \<Rightarrow> 'r table) \<Rightarrow> (('r table \<Rightarrow> 'r table) \<Rightarrow> 's \<Rightarrow> 's) \<Rightarrow> 'r list \<Rightarrow> ('s, nat list) prog" where
  "db_bulk_create g u rs =
     (\<lambda>s. (Inr (fst (t_bulk_create (g s) rs)), u (\<lambda>_. snd (t_bulk_create (g s) rs)) s))"

definition db_save ::
  "('s \<Rightarrow> 'r table) \<Rightarrow> (('r table \<Rightarrow> 'r table) \<Rightarrow> 's \<Rightarrow> 's) \<Rightarrow> nat \<Rightarrow> ('r \<Rightarrow> 'r) \<Rightarrow> ('s, unit) prog" where
  "db_save g u k f = (\<lambda>s. (Inr (), u (\<lambda>_. t_save (g s) k f) s))"

definition db_update ::
  "('s \<Rightarrow> 'r table) \<Rightarrow> (('r table \<Rightarrow> 'r table) \<Rightarrow> 's \<Rightarrow> 's) \<Rightarrow> (nat \<Rightarrow> 'r \<Rightarrow> bool) \<Rightarrow> ('r \<Rightarrow> 'r) \<Rightarrow>
   ('s, unit) prog" where
  "db_update g u P f = (\<lambda>s. (Inr (), u (\<lambda>_. t_update (g s) P f) s))"

definition db_delete ::
  "('s \<Rightarrow> 'r table) \<Rightarrow> (('r table \<Rightarrow> 'r table) \<Rightarrow> 's \<Rightarrow> 's) \<Rightarrow> (nat \<Rightarrow> 'r \<Rightarrow> bool) \<Rightarrow> ('s, unit) prog" where
  "db_delete g u P = (\<lambda>s. (Inr (), u (\<lambda>_. t_delete (g s) P) s))"

definition db_get ::
  "string \<Rightarrow> ('s \<Rightarrow> 'r table) \<Rightarrow> (nat \<Rightarrow> 'r \<Rightarrow> bool) \<Rightarrow> ('s, nat) prog" where
  "db_get model g P = (\<lambda>s. (t_get model (g s) P, s))"

definition db_get_or_create ::
  "string \<Rightarrow> ('s \<Rightarrow> 'r table) \<Rightarrow> (('r table \<Rightarrow> 'r table) \<Rightarrow> 's \<Rightarrow> 's) \<Rightarrow>
   (nat \<Rightarrow> 'r \<Rightarrow> bool) \<Rightarrow> 'r \<Rightarrow> ('s, nat \<times> bool) prog" where
  "db_get_or_create model g u P r =
     (\<lambda>s. (fst (t_get_or_create model (g s) P r), u (\<lambda>_. snd (t_get_or_create model (g s) P r)) s))"

definition db_update_or_create ::
  "string \<Rightarrow> ('s \<Rightarrow> 'r table) \<Rightarrow> (('r table \<Rightarrow> 'r table) \<Rightarrow> 's \<Rightarrow> 's) \<Rightarrow>
   (nat \<Rightarrow> 'r \<Rightarrow> bool) \<Rightarrow> ('r \<Rightarrow> 'r) \<Rightarrow> 'r \<Rightarrow> ('s, nat \<times> bool) prog" where
  "db_update_or_create model g u P f r =
     (\<lambda>s. (fst (t_update_or_create model (g s) P f r), u (\<lambda>_. snd (t_update_or_create model (g s) P f r)) s))"

lemma db_create_run [simp]: "db_create g u r s = (Inr (next_pk (g s)), u (\<lambda>_. snd (t_create (g s) r)) s)"
  and db_bulk_create_run [simp]:
    "db_bulk_create g u rs s = (Inr (fst (t_bulk_create (g s) rs)), u (\<lambda>_. snd (t_bulk_create (g s) rs)) s)"
  and db_save_run [simp]: "db_save g u k f s = (Inr (), u (\<lambda>_. t_save (g s) k f) s)"
  and db_update_run [simp]: "db_update g u P f s = (Inr (), u (\<lambda>_. t_update (g s) P f) s)"
  and db_delete_run [simp]: "db_delete g u P s = (Inr (), u (\<lambda>_. t_delete (g s) P) s)"
  and db_get_run [simp]: "db_get model g P s = (t_get model (g s) P, s)"
  by (simp_all add: db_create_def db_bulk_create_def db_save_def db_update_def db_delete_def db_get_def)

lemma db_get_or_create_run:
  "db_get_or_create model g u P r s =
     (fst (t_get_or_create model (g s) P r), u (\<lambda>_. snd (t_get_or_create model (g s) P r)) s)"
  by (simp add: db_get_or_create_def)

lemma db_update_or_create_run:
  "db_update_or_create model g u P f r s =
     (fst (t_update_or_create model (g s) P f r), u (\<lambda>_. snd (t_update_or_create model (g s) P f r)) s)"
  by (simp add: db_update_or_create_def)

lemma wf_snd_t_get_or_create [simp]:
  "wf_table t \<Longrightarrow> wf_table (snd (t_get_or_create model t P r))"
  using t_get_or_create_wf by (metis prod.collapse)

lemma wf_snd_t_update_or_create [simp]:
  "wf_table t \<Longrightarrow> wf_table (snd (t_update_or_create model t P f r))"
  using t_update_or_create_wf by (metis prod.collapse)

lemma keeps_db_get [keeps_intros]: "keeps I (db_get model g P)"
  by (simp add: keeps_def)

text \<open>
  The contract between a database and one of its tables: what is written is read back, and
  nothing else about the table matters. Every table of the model satisfies it; the lemmas say what the
  operations above do to a well-formed table and that they keep every invariant that only speaks
  of other tables.
\<close>

locale db_table =
  fixes get :: "'s \<Rightarrow> 'r table"
    and upd :: "('r table \<Rightarrow> 'r table) \<Rightarrow> 's \<Rightarrow> 's"
  assumes get_upd: "get (upd f s) = f (get s)"
    and upd_upd: "upd f (upd h s) = upd (f \<circ> h) s"
    and upd_id: "upd (\<lambda>_. get s) s = s"
begin

lemma after_create:
  assumes "wf_table (get s)" and "db_create get upd r s = (x, s')"
  shows "matching (get s') P = matching (get s) P @ (if P (next_pk (get s)) r then [next_pk (get s)] else [])"
    and "wf_table (get s')" and "x = Inr (next_pk (get s))"
  using assms by (auto simp: get_upd matching_t_create)

lemma after_save_twice:
  "thenp (db_save get upd k f) (db_save get upd k h) s = db_save get upd k (h \<circ> f) s"
  by (simp add: get_upd upd_upd comp_def t_save_def)

lemma get_or_create_found:
  assumes "matching (get s) P = [k]"
  shows "db_get_or_create model get upd P r s = (Inr (k, False), s)"
  using assms by (simp add: db_get_or_create_run t_get_or_create_def upd_id)

lemma get_or_create_new:
  assumes "matching (get s) P = []"
  shows "db_get_or_create model get upd P r s =
    (Inr (next_pk (get s), True), upd (\<lambda>_. snd (t_create (get s) r)) s)"
  using assms by (simp add: db_get_or_create_run t_get_or_create_def t_create_def)

text \<open>A second \<open>get_or_create\<close> finds what the first one returned and creates nothing.\<close>

lemma get_or_create_twice:
  assumes "wf_table (get s)" and "P (next_pk (get s)) r"
    and "db_get_or_create model get upd P r s = (Inr (k, c), s')"
  shows "db_get_or_create model get upd P r' s' = (Inr (k, False), s')"
proof (rule get_or_create_found)
  show "matching (get s') P = [k]"
  proof (cases "matching (get s) P")
    case Nil
    with assms show ?thesis by (auto simp: get_or_create_new get_upd matching_t_create)
  next
    case (Cons j js)
    with assms(3) have "js = []" by (auto simp: db_get_or_create_run t_get_or_create_def split: list.splits)
    with Cons assms(3) show ?thesis by (auto simp: get_or_create_found)
  qed
qed

lemma keeps_wf_create: "keeps (\<lambda>s. wf_table (get s)) (db_create get upd r)"
  and keeps_wf_bulk_create: "keeps (\<lambda>s. wf_table (get s)) (db_bulk_create get upd rs)"
  and keeps_wf_save: "keeps (\<lambda>s. wf_table (get s)) (db_save get upd k f)"
  and keeps_wf_update: "keeps (\<lambda>s. wf_table (get s)) (db_update get upd P f)"
  and keeps_wf_delete: "keeps (\<lambda>s. wf_table (get s)) (db_delete get upd P)"
  and keeps_wf_get_or_create: "keeps (\<lambda>s. wf_table (get s)) (db_get_or_create model get upd P r)"
  and keeps_wf_update_or_create:
    "keeps (\<lambda>s. wf_table (get s)) (db_update_or_create model get upd P f r)"
  by (simp_all add: keeps_def get_upd db_get_or_create_run db_update_or_create_run)

end

end
