(* ===== verification/Users.thy ===== *)
theory Users
  imports Site_Utils Django_Orm
begin

text \<open>
  \<open>users/models.py\<close>, \<open>users/api.py\<close> and \<open>affiliate/\<close>: users with their legal address and profile,
  the creation of users, the search for users by id, email or user name, and the affiliate code
  that travels with a request. The tables of \<open>courseware/models.py\<close> belong to users and are
  declared here too. \<open>users_db\<close> is the first layer of the database; the later theories extend it.

  Django's \<open>normalize_email\<close>, \<open>validate_email\<close>, \<open>set_password\<close> and pycountry's tables are arguments.
\<close>

section \<open>Models\<close>

record user_row =
  user_username :: string
  user_email :: string
  user_name :: string
  user_is_staff :: bool
  user_is_active :: bool
  user_is_superuser :: bool
  user_password :: string
  user_created_on :: int

record legal_address_row =
  la_user :: nat
  la_first_name :: string
  la_last_name :: string
  la_street_address_1 :: string
  la_street_address_2 :: string
  la_street_address_3 :: string
  la_street_address_4 :: string
  la_street_address_5 :: string
  la_city :: string
  la_country :: string
  la_vat_id :: string
  la_state_or_territory :: string
  la_postal_code :: string

record profile_row =
  prof_user :: nat
  prof_gender :: string
  prof_birth_year :: "int option"
  prof_company :: string
  prof_job_title :: string
  prof_industry :: string
  prof_job_function :: string
  prof_company_size :: "int option"
  prof_years_experience :: "int option"
  prof_leadership_level :: string
  prof_highest_education :: string

record affiliate_row =
  aff_code :: string
  aff_name :: string

record referral_action_row =
  ref_affiliate :: nat
  ref_created_user :: "nat option"
  ref_created_order :: "nat option"

record courseware_user_row =
  cu_user :: nat
  cu_platform :: string
  cu_has_been_synced :: bool

record openedx_auth_row =
  auth_user :: nat
  auth_refresh_token :: string
  auth_access_token :: "string option"
  auth_access_token_expires_on :: "int option"

record users_db =
  users :: "user_row table"
  legal_addresses :: "legal_address_row table"
  profiles :: "profile_row table"
  affiliates :: "affiliate_row table"
  referral_actions :: "referral_action_row table"
  courseware_users :: "courseware_user_row table"
  openedx_auths :: "openedx_auth_row table"
  effects :: "effect list"

definition emit :: "effect \<Rightarrow> ('z users_db_scheme, unit) prog" where
  "emit e = modify (\<lambda>s. s\<lparr>effects := effects s @ [e]\<rparr>)"

lemma emit_run [simp]: "emit e s = (Inr (), s\<lparr>effects := effects s @ [e]\<rparr>)"
  by (simp add: emit_def)

interpretation users_tb: db_table users users_update
  by unfold_locales simp_all
interpretation legal_addresses_tb: db_table legal_addresses legal_addresses_update
  by unfold_locales simp_all
interpretation profiles_tb: db_table profiles profiles_update
  by unfold_locales simp_all
interpretation affiliates_tb: db_table affiliates affiliates_update
  by unfold_locales simp_all
interpretation referral_actions_tb: db_table referral_actions referral_actions_update
  by unfold_locales simp_all
interpretation courseware_users_tb: db_table courseware_users courseware_users_update
  by unfold_locales simp_all
interpretation openedx_auths_tb: db_table openedx_auths openedx_auths_update
  by unfold_locales simp_all

definition get_full_name :: "user_row \<Rightarrow> string" where
  "get_full_name u = user_name u"

definition user_str :: "user_row \<Rightarrow> string" where
  "user_str u = ''User username='' @ user_username u @ '' email='' @ user_email u"

definition validate_iso_3166_1_code :: "(string \<Rightarrow> bool) \<Rightarrow> string \<Rightarrow> exn + unit" where
  "validate_iso_3166_1_code known_country value =
     (if \<not> known_country value
      then Inl (ValidationError [] (value @ '' is not a valid ISO 3166-1 country code'')) else Inr ())"

definition validate_iso_3166_2_code :: "(string \<Rightarrow> bool) \<Rightarrow> string \<Rightarrow> exn + unit" where
  "validate_iso_3166_2_code known_subdivision value =
     (if \<not> known_subdivision value
      then Inl (ValidationError [] (value @ '' is not a valid ISO 3166-2 subdivision code''))
      else Inr ())"

definition street_address :: "legal_address_row \<Rightarrow> string list" where
  "street_address a =
     filter (\<lambda>line. line \<noteq> [])
       [la_street_address_1 a, la_street_address_2 a, la_street_address_3 a,
        la_street_address_4 a, la_street_address_5 a]"

definition profile_is_complete :: "profile_row \<Rightarrow> bool" where
  "profile_is_complete p \<longleftrightarrow>
     prof_gender p \<noteq> [] \<and> prof_birth_year p \<noteq> None \<and> prof_birth_year p \<noteq> Some 0 \<and>
     prof_company p \<noteq> [] \<and> prof_job_title p \<noteq> []"

definition blank_legal_address :: "nat \<Rightarrow> legal_address_row" where
  "blank_legal_address user =
     \<lparr>la_user = user, la_first_name = [], la_last_name = [], la_street_address_1 = [],
      la_street_address_2 = [], la_street_address_3 = [], la_street_address_4 = [],
      la_street_address_5 = [], la_city = [], la_country = [], la_vat_id = [],
      la_state_or_territory = [], la_postal_code = []\<rparr>"

definition blank_profile :: "nat \<Rightarrow> profile_row" where
  "blank_profile user =
     \<lparr>prof_user = user, prof_gender = [], prof_birth_year = None, prof_company = [],
      prof_job_title = [], prof_industry = [], prof_job_function = [], prof_company_size = None,
      prof_years_experience = None, prof_leadership_level = [], prof_highest_education = []\<rparr>"

section \<open>Creating users\<close>

text \<open>The optional keyword arguments of the manager's creation methods.\<close>

record extra_fields =
  ef_name :: "string option"
  ef_is_staff :: "bool option"
  ef_is_superuser :: "bool option"
  ef_is_active :: "bool option"
  ef_affiliate_id :: "nat option"

text \<open>Saving a new user; the user name and the email address are unique columns.\<close>

definition insert_user :: "user_row \<Rightarrow> ('z users_db_scheme, nat) prog" where
  "insert_user u =
     bindp (asks (\<lambda>s. t_exists (users s) (\<lambda>k r. user_username r = user_username u \<or> user_email r = user_email u)))
       (\<lambda>dup. if dup then raise (IntegrityError ''users_user'') else db_create users users_update u)"

definition post_create_user :: "nat \<Rightarrow> nat option \<Rightarrow> ('z users_db_scheme, unit) prog" where
  "post_create_user user affiliate_id =
     thenp (bindp (db_create legal_addresses legal_addresses_update (blank_legal_address user)) (\<lambda>_. ret ()))
    (thenp (bindp (db_create profiles profiles_update (blank_profile user)) (\<lambda>_. ret ()))
      (case affiliate_id of
         None \<Rightarrow> ret ()
       | Some a \<Rightarrow>
           bindp (asks (\<lambda>s. a \<in> set (pks (affiliates s))))
             (\<lambda>known. if \<not> known then raise (IntegrityError ''affiliate_id'')
              else bindp (db_create referral_actions referral_actions_update
                       \<lparr>ref_affiliate = a, ref_created_user = Some user, ref_created_order = None\<rparr>)
                     (\<lambda>_. ret ()))))"

definition new_user ::
  "(string \<Rightarrow> string) \<Rightarrow> (string \<Rightarrow> string) \<Rightarrow> int \<Rightarrow> string option \<Rightarrow> string \<Rightarrow> string \<Rightarrow> extra_fields \<Rightarrow>
   user_row" where
  "new_user normalize_email set_password now username email password extra =
     \<lparr>user_username = (case username of None \<Rightarrow> [] | Some u \<Rightarrow> u),
      user_email = normalize_email email,
      user_name = (case ef_name extra of None \<Rightarrow> [] | Some n \<Rightarrow> n),
      user_is_staff = (case ef_is_staff extra of None \<Rightarrow> False | Some b \<Rightarrow> b),
      user_is_active = (case ef_is_active extra of None \<Rightarrow> False | Some b \<Rightarrow> b),
      user_is_superuser = (case ef_is_superuser extra of None \<Rightarrow> False | Some b \<Rightarrow> b),
      user_password = set_password password,
      user_created_on = now\<rparr>"

definition create_user_priv ::
  "(string \<Rightarrow> string) \<Rightarrow> (string \<Rightarrow> string) \<Rightarrow> int \<Rightarrow> string option \<Rightarrow> string \<Rightarrow> string \<Rightarrow> extra_fields \<Rightarrow>
   ('z users_db_scheme, nat) prog" where
  "create_user_priv normalize_email set_password now username email password extra =
     atomic
       (bindp (insert_user (new_user normalize_email set_password now username email password extra))
         (\<lambda>user. thenp (post_create_user user (ef_affiliate_id extra)) (ret user)))"

definition setdefault :: "'a option \<Rightarrow> 'a \<Rightarrow> 'a option" where
  "setdefault v d = (case v of None \<Rightarrow> Some d | Some x \<Rightarrow> Some x)"

definition create_user ::
  "(string \<Rightarrow> string) \<Rightarrow> (string \<Rightarrow> string) \<Rightarrow> int \<Rightarrow> string option \<Rightarrow> string \<Rightarrow> string \<Rightarrow> extra_fields \<Rightarrow>
   ('z users_db_scheme, nat) prog" where
  "create_user normalize_email set_password now username email password extra =
     create_user_priv normalize_email set_password now username email password
       (extra\<lparr>ef_is_staff := setdefault (ef_is_staff extra) False,
              ef_is_superuser := setdefault (ef_is_superuser extra) False\<rparr>)"

definition create_superuser ::
  "(string \<Rightarrow> string) \<Rightarrow> (string \<Rightarrow> string) \<Rightarrow> int \<Rightarrow> string option \<Rightarrow> string \<Rightarrow> string \<Rightarrow> extra_fields \<Rightarrow>
   ('z users_db_scheme, nat) prog" where
  "create_superuser normalize_email set_password now username email password extra =
     (let extra = extra\<lparr>ef_is_staff := setdefault (ef_is_staff extra) True,
                        ef_is_superuser := setdefault (ef_is_superuser extra) True,
                        ef_is_active := setdefault (ef_is_active extra) True\<rparr>
      in if ef_is_staff extra \<noteq> Some True then raise (ValueError ''Superuser must have is_staff=True.'')
         else if ef_is_superuser extra \<noteq> Some True
         then raise (ValueError ''Superuser must have is_superuser=True.'')
         else create_user_priv normalize_email set_password now username email password extra)"

text \<open>The manager of active users that lack their courseware user or their edX credentials.\<close>

definition faulty_courseware_users :: "'z users_db_scheme \<Rightarrow> nat list" where
  "faulty_courseware_users s =
     matching (users s) (\<lambda>k u.
       (length (matching (courseware_users s) (\<lambda>_ c. cu_user c = k)) = 0 \<or>
        length (matching (openedx_auths s) (\<lambda>_ a. auth_user a = k)) = 0) \<and> user_is_active u)"

section \<open>Finding users\<close>

datatype filter_field = FieldId | FieldEmail | FieldUsername

definition is_case_insensitive_searchable :: "filter_field \<Rightarrow> bool" where
  "is_case_insensitive_searchable f \<longleftrightarrow> f = FieldEmail"

definition determine_filter_field :: "(string \<Rightarrow> bool) \<Rightarrow> string \<Rightarrow> filter_field" where
  "determine_filter_field is_email user_property =
     (if is_digit_string user_property then FieldId
      else if is_email user_property then FieldEmail else FieldUsername)"

text \<open>
  The value looked for comes as text (a command line argument or a cell of a sheet); an id is written
  in digits. \<open>field_matches\<close> is the lookup \<open>field=value\<close>, or \<open>field__iexact=value\<close>.
\<close>

definition field_matches :: "filter_field \<Rightarrow> bool \<Rightarrow> string \<Rightarrow> nat \<Rightarrow> user_row \<Rightarrow> bool" where
  "field_matches f ci v k u =
     (case f of
        FieldId \<Rightarrow> py_int v = Inr (int k)
      | FieldEmail \<Rightarrow> if ci then py_lower (user_email u) = py_lower v else user_email u = v
      | FieldUsername \<Rightarrow> user_username u = v)"

definition get_user_by_id :: "'z users_db_scheme \<Rightarrow> nat \<Rightarrow> exn + nat" where
  "get_user_by_id s user_id = t_get ''User'' (users s) (\<lambda>k _. k = user_id)"

definition fetch_user :: "(string \<Rightarrow> bool) \<Rightarrow> 'z users_db_scheme \<Rightarrow> string \<Rightarrow> bool \<Rightarrow> exn + nat" where
  "fetch_user is_email s filter_value ignore_case =
     (let filter_field = determine_filter_field is_email filter_value;
          ci = is_case_insensitive_searchable filter_field \<and> ignore_case
      in case t_get ''User'' (users s) (field_matches filter_field ci filter_value) of
           Inl e \<Rightarrow> Inl (if is_does_not_exist e then DoesNotExist ''Could not find User'' else e)
         | Inr k \<Rightarrow> Inr k)"

definition fetch_users ::
  "(string \<Rightarrow> bool) \<Rightarrow> 'z users_db_scheme \<Rightarrow> string list \<Rightarrow> bool \<Rightarrow> exn + nat list option" where
  "fetch_users is_email s filter_values ignore_case =
     (case first_or_none filter_values of
        None \<Rightarrow> Inr None
      | Some first_user_property \<Rightarrow>
          if first_user_property = [] then Inr None
          else
            (let filter_field = determine_filter_field is_email first_user_property;
                 ci = is_case_insensitive_searchable filter_field \<and> ignore_case;
                 unique_filter_values =
                   (if ci then unique_ignore_case filter_values else unique filter_values)
             in if length filter_values > card (set unique_filter_values)
                then Inl (ValidationError [] ''Duplicate values provided'')
                else if filter_field = FieldId \<and> list_ex (\<lambda>v. case py_int v of Inl _ \<Rightarrow> True | Inr _ \<Rightarrow> False) filter_values
                then Inl (ValueError ''id expected a number'')
                else
                  (let user_qset = matching (users s) (\<lambda>k u. list_ex (\<lambda>v. field_matches filter_field ci v k u) filter_values)
                   in if length user_qset \<noteq> length filter_values
                      then Inl (DoesNotExist ''Could not find Users'')
                      else Inr (Some user_qset))))"

text \<open>\<open>mail.api.validate_email_addresses\<close>; the check of one address is a parameter.\<close>

definition validate_email_addresses :: "(string \<Rightarrow> bool) \<Rightarrow> string list \<Rightarrow> exn + unit" where
  "validate_email_addresses valid email_addresses =
     (let invalid_emails = unique (filter (\<lambda>e. \<not> valid e) email_addresses)
      in if invalid_emails = [] then Inr () else Inl (MultiEmailValidationError invalid_emails))"

section \<open>Affiliates\<close>

text \<open>
  A request: its method, its query string, its session (the keys and values, if it has one), and the
  attribute the middleware sets.
\<close>

record affiliate_request =
  areq_method :: string
  areq_GET :: "string \<rightharpoonup> string"
  areq_session :: "(string \<rightharpoonup> string) option"
  areq_affiliate_code :: "string option"

definition AFFILIATE_QS_PARAM :: string where "AFFILIATE_QS_PARAM = ''aid''"
definition AFFILIATE_CODE_SESSION_KEY :: string where "AFFILIATE_CODE_SESSION_KEY = ''affiliate_code''"

definition get_affiliate_code_from_qstring :: "affiliate_request \<Rightarrow> string option" where
  "get_affiliate_code_from_qstring request =
     (if areq_method request = ''GET'' then areq_GET request AFFILIATE_QS_PARAM else None)"

definition get_affiliate_code_from_request :: "affiliate_request \<Rightarrow> string option" where
  "get_affiliate_code_from_request request = areq_affiliate_code request"

definition get_affiliate_id_from_code :: "'z users_db_scheme \<Rightarrow> string \<Rightarrow> nat option" where
  "get_affiliate_id_from_code s affiliate_code =
     first_or_none (matching (affiliates s) (\<lambda>_ a. aff_code a = affiliate_code))"

definition get_affiliate_id_from_request :: "'z users_db_scheme \<Rightarrow> affiliate_request \<Rightarrow> nat option" where
  "get_affiliate_id_from_request s request =
     (case get_affiliate_code_from_request request of
        Some affiliate_code \<Rightarrow> get_affiliate_id_from_code s affiliate_code
      | None \<Rightarrow> None)"

text \<open>\<open>AffiliateMiddleware.__call__\<close>: the request it hands on.\<close>

definition AffiliateMiddleware_call :: "affiliate_request \<Rightarrow> affiliate_request" where
  "AffiliateMiddleware_call request =
     (case areq_session request of
        None \<Rightarrow> request\<lparr>areq_affiliate_code := None\<rparr>
      | Some session \<Rightarrow>
          (let session' =
             (case get_affiliate_code_from_qstring request of
                Some qs_affiliate_code \<Rightarrow> session(AFFILIATE_CODE_SESSION_KEY \<mapsto> qs_affiliate_code)
              | None \<Rightarrow> session)
           in request\<lparr>areq_session := Some session',
                      areq_affiliate_code := session' AFFILIATE_CODE_SESSION_KEY\<rparr>))"

section \<open>The invariant of the users layer\<close>

definition users_inv :: "'z users_db_scheme \<Rightarrow> bool" where
  "users_inv s \<longleftrightarrow>
     wf_table (users s) \<and> wf_table (legal_addresses s) \<and> wf_table (profiles s) \<and>
     wf_table (referral_actions s) \<and>
     unique_on (users s) user_username \<and> unique_on (users s) user_email \<and>
     (\<forall>k. length (matching (legal_addresses s) (\<lambda>_ a. la_user a = k)) =
            (if k \<in> set (pks (users s)) then 1 else 0)) \<and>
     (\<forall>k. length (matching (profiles s) (\<lambda>_ p. prof_user p = k)) =
            (if k \<in> set (pks (users s)) then 1 else 0)) \<and>
     list_all (\<lambda>j. ref_affiliate (row (referral_actions s) j) \<in> set (pks (affiliates s)))
       (pks (referral_actions s))"

definition with_relations :: "nat \<Rightarrow> nat option \<Rightarrow> 'z users_db_scheme \<Rightarrow> 'z users_db_scheme" where
  "with_relations user aff s =
     s\<lparr>legal_addresses := snd (t_create (legal_addresses s) (blank_legal_address user)),
       profiles := snd (t_create (profiles s) (blank_profile user)),
       referral_actions :=
         (case aff of None \<Rightarrow> referral_actions s
          | Some a \<Rightarrow> snd (t_create (referral_actions s)
              \<lparr>ref_affiliate = a, ref_created_user = Some user, ref_created_order = None\<rparr>))\<rparr>"

definition unknown_affiliate :: "nat option \<Rightarrow> 'z users_db_scheme \<Rightarrow> bool" where
  "unknown_affiliate aff s \<longleftrightarrow> (\<exists>a. aff = Some a \<and> a \<notin> set (pks (affiliates s)))"

lemma insert_user_run:
  "insert_user u s =
     (if t_exists (users s) (\<lambda>k r. user_username r = user_username u \<or> user_email r = user_email u)
      then (Inl (IntegrityError ''users_user''), s)
      else (Inr (next_pk (users s)), s\<lparr>users := snd (t_create (users s) u)\<rparr>))"
  by (simp add: insert_user_def)

lemma post_create_user_err:
  "unknown_affiliate aff s \<Longrightarrow> \<exists>t. post_create_user user aff s = (Inl (IntegrityError ''affiliate_id''), t)"
  by (auto simp: post_create_user_def unknown_affiliate_def)

lemma post_create_user_ok:
  "\<not> unknown_affiliate aff s \<Longrightarrow> post_create_user user aff s = (Inr (), with_relations user aff s)"
  by (auto simp: post_create_user_def with_relations_def unknown_affiliate_def split: option.splits)

lemma create_user_priv_run:
  "create_user_priv ne sp now un em pw ex s =
     (let u = new_user ne sp now un em pw ex
      in if t_exists (users s) (\<lambda>k r. user_username r = user_username u \<or> user_email r = user_email u)
         then (Inl (IntegrityError ''users_user''), s)
         else if unknown_affiliate (ef_affiliate_id ex) s then (Inl (IntegrityError ''affiliate_id''), s)
         else (Inr (next_pk (users s)),
               with_relations (next_pk (users s)) (ef_affiliate_id ex) (s\<lparr>users := snd (t_create (users s) u)\<rparr>)))"
proof -
  let ?u = "new_user ne sp now un em pw ex" and ?a = "ef_affiliate_id ex"
  let ?s' = "s\<lparr>users := snd (t_create (users s) ?u)\<rparr>"
  have same: "unknown_affiliate ?a ?s' = unknown_affiliate ?a s"
    by (simp add: unknown_affiliate_def)
  show ?thesis
  proof (cases "unknown_affiliate ?a s")
    case True
    then obtain t where "post_create_user (next_pk (users s)) ?a ?s' = (Inl (IntegrityError ''affiliate_id''), t)"
      using post_create_user_err [of ?a ?s'] same by blast
    with True show ?thesis
      by (simp add: create_user_priv_def atomic_run bindp_run thenp_run insert_user_run Let_def)
  next
    case False
    then show ?thesis
      using post_create_user_ok [of ?a ?s' "next_pk (users s)"] same
      by (simp add: create_user_priv_def atomic_run bindp_run thenp_run insert_user_run Let_def)
  qed
qed

lemma matching_create_length:
  "wf_table t \<Longrightarrow> length (matching (snd (t_create t r)) P) = length (matching t P) + (if P (next_pk t) r then 1 else 0)"
  by (simp add: matching_t_create)

lemma users_inv_with_relations:
  assumes "users_inv s" and "\<not> unknown_affiliate aff s"
    and "\<not> t_exists (users s) (\<lambda>k r. user_username r = user_username u \<or> user_email r = user_email u)"
  shows "users_inv (with_relations (next_pk (users s)) aff (s\<lparr>users := snd (t_create (users s) u)\<rparr>))"
  using assms
  by (auto simp: users_inv_def with_relations_def unknown_affiliate_def t_exists_iff matching_create_length
        blank_legal_address_def blank_profile_def list_all_iff row_t_create wf_table_fresh
        intro!: unique_on_create split: option.splits)

lemma keeps_create_user_priv: "keeps users_inv (create_user_priv ne sp now un em pw ex)"
  by (rule keepsI) (simp add: create_user_priv_run Let_def users_inv_with_relations)

lemma exactly_one_each:
  assumes "finite V" and "\<And>v. v \<in> V \<Longrightarrow> finite (M v) \<and> card (M v) \<le> 1" and "card (\<Union>v \<in> V. M v) = card V"
    and "v \<in> V"
  shows "card (M v) = 1"
proof (rule ccontr)
  assume "card (M v) \<noteq> 1"
  with assms(2) [OF assms(4)] have "card (M v) = 0" by linarith
  then have "(\<Sum>w \<in> V. card (M w)) = (\<Sum>w \<in> V - {v}. card (M w))"
    using assms(1,4) by (simp add: sum.remove)
  also have "\<dots> \<le> card (V - {v})"
    using sum_bounded_above [of "V - {v}" "\<lambda>w. card (M w)" 1] assms(2) by simp
  finally have "(\<Sum>w \<in> V. card (M w)) \<le> card (V - {v})" .
  moreover have "card (\<Union>v \<in> V. M v) \<le> (\<Sum>w \<in> V. card (M w))"
    by (rule card_UN_le) (rule assms(1))
  moreover have "card (V - {v}) < card V"
    using assms(1,4) by (rule card_Diff1_less)
  ultimately show False using assms(3) by linarith
qed


definition lookup_unique :: "filter_field \<Rightarrow> bool \<Rightarrow> 'z users_db_scheme \<Rightarrow> bool" where
  "lookup_unique f ci s \<longleftrightarrow> (f = FieldEmail \<and> ci \<longrightarrow> unique_on (users s) (\<lambda>u. py_lower (user_email u)))"

lemma field_matches_unique:
  assumes "users_inv s" and "lookup_unique f ci s"
    and "j \<in> set (pks (users s))" "field_matches f ci v j (row (users s) j)"
    and "k \<in> set (pks (users s))" "field_matches f ci v k (row (users s) k)"
  shows "j = k"
proof (cases f)
  case FieldId
  with assms show ?thesis by (simp add: field_matches_def)
next
  case FieldEmail
  with assms show ?thesis
    by (cases ci) (auto simp: field_matches_def users_inv_def unique_on_def lookup_unique_def inj_on_def)
next
  case FieldUsername
  with assms show ?thesis
    by (auto simp: field_matches_def users_inv_def unique_on_def inj_on_def)
qed

lemma card_unique_filter_values:
  "length xs \<le> card (set (unique xs)) \<Longrightarrow> distinct xs"
  "length xs \<le> card (set (unique_ignore_case ss)) \<Longrightarrow> length xs = length ss \<Longrightarrow> distinct (map py_lower ss)"
proof -
  assume "length xs \<le> card (set (unique xs))"
  then have "card (set xs) = length xs"
    using card_length [of xs] by (simp add: unique_def set_unique_from)
  then show "distinct xs" by (rule card_distinct)
next
  assume "length xs \<le> card (set (unique_ignore_case ss))" "length xs = length ss"
  then have "card (set (map py_lower ss)) = length (map py_lower ss)"
    using card_length [of "map py_lower ss"] by (simp add: unique_ignore_case_def set_unique_from)
  then show "distinct (map py_lower ss)" by (rule card_distinct)
qed

lemma fetch_users_SomeD:
  assumes "fetch_users is_email s vs ic = Inr (Some ks)"
  defines "f \<equiv> determine_filter_field is_email (hd vs)"
  shows "distinct vs \<and> length ks = length vs \<and>
    ks = matching (users s) (\<lambda>k u. list_ex (\<lambda>v. field_matches f (f = FieldEmail \<and> ic) v k u) vs)"
proof (cases vs)
  case Nil
  with assms show ?thesis by (simp add: fetch_users_def first_or_none_def)
next
  case (Cons v ws)
  with assms(1) have *: "length vs \<le> card (set (if f = FieldEmail \<and> ic then unique_ignore_case vs else unique vs))"
    "length ks = length vs"
    "ks = matching (users s) (\<lambda>k u. list_ex (\<lambda>v. field_matches f (f = FieldEmail \<and> ic) v k u) vs)"
    unfolding f_def
    by (auto simp: fetch_users_def first_or_none_def is_case_insensitive_searchable_def Let_def not_less
        split: if_splits)
  moreover have "distinct vs"
    using * card_unique_filter_values [of vs] card_unique_filter_values(2) [of vs vs]
    by (auto split: if_splits simp: distinct_map)
  ultimately show ?thesis by blast
qed

text \<open>
  When no two users share an email address up to case (or the search is not by email, or
  respects case), \<open>fetch_users\<close> answers with exactly one user for every value it was given, and with
  no other user.
\<close>

theorem fetch_users_one_each:
  assumes "users_inv s" and "fetch_users is_email s vs ic = Inr (Some ks)"
    and "lookup_unique (determine_filter_field is_email (hd vs)) ic s" and "v \<in> set vs"
  shows "length ks = length vs \<and>
    length (filter (\<lambda>k. field_matches (determine_filter_field is_email (hd vs))
        (determine_filter_field is_email (hd vs) = FieldEmail \<and> ic) v k (row (users s) k)) ks) = 1"
proof -
  let ?f = "determine_filter_field is_email (hd vs)"
  let ?ci = "?f = FieldEmail \<and> ic"
  let ?M = "\<lambda>v. {k \<in> set ks. field_matches ?f ?ci v k (row (users s) k)}"
  have ks: "distinct vs" "length ks = length vs"
    "ks = matching (users s) (\<lambda>k u. list_ex (\<lambda>v. field_matches ?f ?ci v k u) vs)"
    using fetch_users_SomeD [OF assms(2)] by auto
  have d: "distinct ks"
    using assms(1) ks(3) distinct_matching by (auto simp: users_inv_def)
  have "set ks = (\<Union>v \<in> set vs. ?M v)"
    by (subst (1) ks(3)) (auto simp: ks(3) list_ex_iff)
  then have "card (\<Union>v \<in> set vs. ?M v) = card (set vs)"
    using ks(1,2) d by (simp add: distinct_card)
  moreover have "finite (?M w) \<and> card (?M w) \<le> 1" if "w \<in> set vs" for w
  proof -
    have "j = k" if "j \<in> ?M w" "k \<in> ?M w" for j k
      using that field_matches_unique [OF assms(1), of ?f ?ci j w k] assms(3)
      by (auto simp: ks(3) lookup_unique_def)
    then show ?thesis by (simp add: card_le_Suc0_iff_eq)
  qed
  ultimately have "card (?M v) = 1"
    using exactly_one_each [of "set vs" ?M v] assms(4) by simp
  moreover have "?M v = set (filter (\<lambda>k. field_matches ?f ?ci v k (row (users s) k)) ks)"
    by auto
  ultimately show ?thesis
    using d ks(2) by (metis (no_types, lifting) distinct_card distinct_filter)
qed

subsection \<open>A concrete database\<close>

definition example_user :: user_row where
  "example_user = \<lparr>user_username = ''ann'', user_email = ''ann@x.org'', user_name = ''Ann'',
    user_is_staff = False, user_is_active = True, user_is_superuser = False, user_password = [],
    user_created_on = 0\<rparr>"

definition example_users_db :: users_db where
  "example_users_db = \<lparr>users = table_of example_user [example_user],
    legal_addresses = table_of (blank_legal_address 1) [blank_legal_address 1],
    profiles = table_of (blank_profile 1) [blank_profile 1],
    affiliates = table_of \<lparr>aff_code = [], aff_name = []\<rparr> [\<lparr>aff_code = ''p1'', aff_name = ''Partner''\<rparr>],
    referral_actions = empty_table \<lparr>ref_affiliate = 0, ref_created_user = None, ref_created_order = None\<rparr>,
    courseware_users = empty_table \<lparr>cu_user = 0, cu_platform = [], cu_has_been_synced = False\<rparr>,
    openedx_auths = empty_table \<lparr>auth_user = 0, auth_refresh_token = [], auth_access_token = None,
      auth_access_token_expires_on = None\<rparr>, effects = []\<rparr>"

lemma example_users_inv: "users_inv example_users_db"
  by (simp add: users_inv_def example_users_db_def unique_on_def matching_def table_of_def
      empty_table_def wf_table_def blank_legal_address_def blank_profile_def)

lemma fetch_users_one_each_witness:
  "length (filter (\<lambda>k. field_matches (determine_filter_field (\<lambda>_. False) (hd [''ann'']))
        (determine_filter_field (\<lambda>_. False) (hd [''ann'']) = FieldEmail \<and> True) ''ann'' k
          (row (users example_users_db) k)) [1]) = 1"
proof -
  have f: "determine_filter_field (\<lambda>_. False) ''ann'' = FieldUsername"
    by (simp add: determine_filter_field_def is_digit_string_def digit_val_def)
  have r: "fetch_users (\<lambda>_. False) example_users_db [''ann''] True = Inr (Some [1])"
    by (simp add: fetch_users_def first_or_none_def f is_case_insensitive_searchable_def unique_def
        matching_def field_matches_def example_users_db_def example_user_def table_of_def)
  show ?thesis
    by (rule fetch_users_one_each [OF example_users_inv r, THEN conjunct2]) (simp_all add: f lookup_unique_def)
qed

text \<open>
  Without that condition the count the code compares is not enough: two users whose addresses
  differ only in case make up for a third address nobody has.
\<close>

theorem fetch_users_misses_user:
  assumes "users_inv s" and "pks (users s) = [1, 2]" and "is_email a" and "a \<noteq> []"
    and "\<not> is_digit_string a"
    and "py_lower (user_email (row (users s) 1)) = py_lower a"
    and "py_lower (user_email (row (users s) 2)) = py_lower a"
    and "py_lower b \<noteq> py_lower a"
  shows "fetch_users is_email s [a, b] True = Inr (Some [1, 2])"
  using assms
  by (simp add: fetch_users_def first_or_none_def determine_filter_field_def Let_def
      is_case_insensitive_searchable_def unique_ignore_case_def matching_def field_matches_def)

text \<open>
  Creating a user is all or nothing and keeps the invariant of the users tables: user names and
  email addresses stay unique, every user has exactly one legal address and one profile, referral
  actions point to existing affiliates. It succeeds exactly when the user name and the normalised
  email are new and the affiliate id (if one is given) exists; then the new user has the given email,
  is not staff unless asked to be, and is credited to the affiliate.
\<close>

theorem create_user_spec:
  assumes "users_inv s" and "create_user ne sp now un em pw ex s = (r, s')"
  shows "users_inv s' \<and> (\<forall>e. r = Inl e \<longrightarrow> s' = s) \<and>
    ((\<exists>e. r = Inl e) \<longleftrightarrow>
       t_exists (users s) (\<lambda>_ u. user_username u = (case un of None \<Rightarrow> [] | Some n \<Rightarrow> n) \<or> user_email u = ne em)
       \<or> (\<exists>a. ef_affiliate_id ex = Some a \<and> a \<notin> set (pks (affiliates s)))) \<and>
    (\<forall>k. r = Inr k \<longrightarrow> k \<notin> set (pks (users s)) \<and> pks (users s') = pks (users s) @ [k] \<and>
       user_email (row (users s') k) = ne em \<and>
       user_is_staff (row (users s') k) = (ef_is_staff ex = Some True) \<and>
       map (\<lambda>j. ref_affiliate (row (referral_actions s') j))
         (filter (\<lambda>j. j \<notin> set (pks (referral_actions s))) (pks (referral_actions s'))) =
       (case ef_affiliate_id ex of None \<Rightarrow> [] | Some a \<Rightarrow> [a]))"
proof -
  have "users_inv s'"
    using keepsD [OF keeps_create_user_priv] assms unfolding create_user_def by blast
  moreover have "filter (\<lambda>j. j \<notin> set (pks (referral_actions s))) (pks (referral_actions s)) = []"
    by (simp add: filter_empty_conv)
  moreover have "wf_table (users s)" "wf_table (referral_actions s)"
    using assms(1) by (auto simp: users_inv_def)
  ultimately show ?thesis
    using assms(2)
    by (auto simp: create_user_def create_user_priv_run Let_def new_user_def setdefault_def with_relations_def
        unknown_affiliate_def row_t_create wf_table_fresh split: if_splits option.splits)
qed

definition example_fields :: extra_fields where
  "example_fields = \<lparr>ef_name = None, ef_is_staff = None, ef_is_superuser = None, ef_is_active = None,
     ef_affiliate_id = Some 1\<rparr>"

lemma create_user_spec_witness:
  "fst (create_user (\<lambda>e. e) (\<lambda>p. p) 0 (Some ''bob'') ''b@x.org'' ''pw'' example_fields example_users_db) = Inr 2 \<and>
   users_inv (snd (create_user (\<lambda>e. e) (\<lambda>p. p) 0 (Some ''bob'') ''b@x.org'' ''pw'' example_fields example_users_db))"
proof
  show "fst (create_user (\<lambda>e. e) (\<lambda>p. p) 0 (Some ''bob'') ''b@x.org'' ''pw'' example_fields example_users_db) = Inr 2"
    by (simp add: create_user_def create_user_priv_run Let_def new_user_def example_fields_def example_users_db_def
        example_user_def table_of_def t_exists_def unknown_affiliate_def)
qed (rule create_user_spec [OF example_users_inv prod.collapse [symmetric], THEN conjunct1])

end
