(* ===== verification/Course_Models.thy ===== *)
theory Course_Models
  imports Users
begin

text \<open>
  \<open>courses/models.py\<close> and the audit trail of \<open>mitxpro/models.py\<close>: programs, courses, course runs,
  enrollments with their audit tables, grades and certificates, and the properties and methods of these models.
  \<open>xpro_db\<close> adds their tables to \<open>users_db\<close>. A model object is its primary key, \<open>now\<close> is the current
  time, and the pages of the content management system are given by a record of functions.
\<close>

section \<open>Records\<close>

record platform_row =
  plat_name :: string
  plat_enable_sync :: bool

record course_language_row =
  lang_name :: string
  lang_priority :: "nat option"
  lang_is_active :: bool

record program_row =
  prog_title :: string
  prog_readable_id :: string
  prog_live :: bool
  prog_is_external :: bool
  prog_platform :: nat

record program_run_row =
  prun_program :: nat
  prun_run_tag :: string
  prun_start_date :: "int option"
  prun_end_date :: "int option"

record topic_row =
  topic_name :: string
  topic_parent :: "nat option"

record course_row =
  course_program :: "nat option"
  course_position_in_program :: "nat option"
  course_title :: string
  course_readable_id :: string
  course_live :: bool
  course_is_external :: bool
  course_external_course_id :: string
  course_platform :: nat

record course_run_row =
  run_course :: nat
  run_title :: string
  run_courseware_id :: string
  run_run_tag :: string
  run_courseware_url_path :: "string option"
  run_external_course_run_id :: string
  run_start_date :: "int option"
  run_end_date :: "int option"
  run_enrollment_start :: "int option"
  run_enrollment_end :: "int option"
  run_expiration_date :: "int option"
  run_live :: bool

datatype change_status = Deferred | Transferred | Refunded

text \<open>\<open>EnrollmentModel\<close> is abstract: the two kinds of enrollments extend its fields.\<close>

record enrollment_row =
  enr_user :: nat
  enr_company :: "nat option"
  enr_order :: "nat option"
  enr_change_status :: "change_status option"
  enr_active :: bool
  enr_created_on :: int

record run_enrollment_row = enrollment_row +
  enr_run :: nat
  enr_edx_enrolled :: bool

record program_enrollment_row = enrollment_row +
  enr_program :: nat

record grade_row =
  grade_user :: nat
  grade_course_run :: nat
  grade_grade :: rat
  grade_letter_grade :: "string option"
  grade_passed :: bool
  grade_set_by_admin :: bool

record certificate_row =
  cert_user :: nat
  cert_uuid :: string
  cert_is_revoked :: bool
  cert_certificate_page_revision :: "nat option"

record run_certificate_row = certificate_row +
  cert_course_run :: nat

record program_certificate_row = certificate_row +
  cert_program :: nat

record company_row =
  company_name :: string

text \<open>An audit row: who acted, the object, and its serialization before and after.\<close>

record 'd audit_row =
  audit_acting_user :: "nat option"
  audit_object :: "nat option"
  audit_data_before :: "'d option"
  audit_data_after :: 'd

text \<open>What \<open>to_dict\<close> adds to the serialized fields of an enrollment.\<close>

record enrollment_extra =
  ed_username :: string
  ed_full_name :: string
  ed_email :: string
  ed_company_name :: "string option"
  ed_text_id :: string

record xpro_db = users_db +
  companies :: "company_row table"
  platforms :: "platform_row table"
  course_languages :: "course_language_row table"
  programs :: "program_row table"
  program_runs :: "program_run_row table"
  topics :: "topic_row table"
  courses :: "course_row table"
  course_runs :: "course_run_row table"
  run_enrollments :: "run_enrollment_row table"
  run_enrollment_audits :: "(run_enrollment_row \<times> enrollment_extra) audit_row table"
  program_enrollments :: "program_enrollment_row table"
  program_enrollment_audits :: "(program_enrollment_row \<times> enrollment_extra) audit_row table"
  grades :: "grade_row table"
  grade_audits :: "grade_row audit_row table"
  run_certificates :: "run_certificate_row table"
  program_certificates :: "program_certificate_row table"

interpretation companies_tb: db_table companies companies_update
  by unfold_locales simp_all
interpretation platforms_tb: db_table platforms platforms_update
  by unfold_locales simp_all
interpretation programs_tb: db_table programs programs_update
  by unfold_locales simp_all
interpretation courses_tb: db_table courses courses_update
  by unfold_locales simp_all
interpretation course_runs_tb: db_table course_runs course_runs_update
  by unfold_locales simp_all
interpretation run_enrollments_tb: db_table run_enrollments run_enrollments_update
  by unfold_locales simp_all
interpretation program_enrollments_tb: db_table program_enrollments program_enrollments_update
  by unfold_locales simp_all
interpretation grades_tb: db_table grades grades_update
  by unfold_locales simp_all
interpretation run_certificates_tb: db_table run_certificates run_certificates_update
  by unfold_locales simp_all
interpretation program_certificates_tb: db_table program_certificates program_certificates_update
  by unfold_locales simp_all

section \<open>Audit trail\<close>

text \<open>
  \<open>AuditableModel.save_and_log\<close>: the stored object before, the save of the changes \<open>f\<close> made to the
  object in memory, and a new audit row with both serializations, in one transaction.
\<close>

definition save_and_log ::
  "(('r table \<Rightarrow> 'r table) \<Rightarrow> 's \<Rightarrow> 's) \<Rightarrow> ('s \<Rightarrow> 'r table) \<Rightarrow>
   ('s \<Rightarrow> 'd audit_row table) \<Rightarrow> (('d audit_row table \<Rightarrow> 'd audit_row table) \<Rightarrow> 's \<Rightarrow> 's) \<Rightarrow>
   ('s \<Rightarrow> nat \<Rightarrow> 'd) \<Rightarrow> nat \<Rightarrow> ('r \<Rightarrow> 'r) \<Rightarrow> nat option \<Rightarrow> ('s, unit) prog" where
  "save_and_log upd get audit_get audit_upd to_dict k f acting_user =
     atomic
       (bindp (asks (\<lambda>s. if k \<in> set (pks (get s)) then Some (to_dict s k) else None)) (\<lambda>before_dict.
        thenp (db_save get upd k f)
       (bindp (asks (\<lambda>s. to_dict s k)) (\<lambda>after_dict.
        bindp (db_create audit_get audit_upd
            \<lparr>audit_acting_user = acting_user, audit_object = Some k,
             audit_data_before = before_dict, audit_data_after = after_dict\<rparr>)
          (\<lambda>_. ret ())))))"

section \<open>Course runs\<close>

definition is_past :: "int \<Rightarrow> course_run_row \<Rightarrow> bool" where
  "is_past now r = (case run_end_date r of None \<Rightarrow> False | Some d \<Rightarrow> d < now)"

definition is_not_beyond_enrollment :: "int \<Rightarrow> course_run_row \<Rightarrow> bool" where
  "is_not_beyond_enrollment now r \<longleftrightarrow>
     (case run_end_date r of None \<Rightarrow> True | Some d \<Rightarrow> d > now) \<and>
     (case run_enrollment_end r of None \<Rightarrow> True | Some d \<Rightarrow> d > now) \<and>
     (case run_enrollment_start r of None \<Rightarrow> True | Some d \<Rightarrow> d \<le> now)"

definition is_unexpired :: "int \<Rightarrow> course_run_row \<Rightarrow> bool" where
  "is_unexpired now r \<longleftrightarrow> \<not> is_past now r \<and> is_not_beyond_enrollment now r"

definition run_text_id :: "course_run_row \<Rightarrow> string" where
  "run_text_id r = run_courseware_id r"

definition runs_live :: "'z xpro_db_scheme \<Rightarrow> nat list \<Rightarrow> nat list" where
  "runs_live s ks = filter (\<lambda>k. run_live (row (course_runs s) k)) ks"

definition runs_available :: "int \<Rightarrow> 'z xpro_db_scheme \<Rightarrow> nat list \<Rightarrow> nat list" where
  "runs_available now s ks =
     filter (\<lambda>k. case run_end_date (row (course_runs s) k) of None \<Rightarrow> True | Some d \<Rightarrow> d > now) ks"

definition runs_enrollment_available :: "int \<Rightarrow> 'z xpro_db_scheme \<Rightarrow> nat list \<Rightarrow> nat list" where
  "runs_enrollment_available now s ks =
     filter (\<lambda>k. case run_enrollment_end (row (course_runs s) k) of None \<Rightarrow> True | Some d \<Rightarrow> d > now) ks"

definition runs_with_text_id :: "'z xpro_db_scheme \<Rightarrow> string \<Rightarrow> nat list" where
  "runs_with_text_id s text_id = matching (course_runs s) (\<lambda>_ r. run_courseware_id r = text_id)"

text \<open>\<open>CourseRun.clean\<close> and \<open>CourseRun.save\<close>; the unique columns of the table are checked by the save.\<close>

definition course_run_clean :: "int \<Rightarrow> course_run_row \<Rightarrow> exn + unit" where
  "course_run_clean now r =
     (case validate_courserun_dates now (run_start_date r) (run_end_date r) (run_enrollment_end r)
             (run_enrollment_start r) (run_expiration_date r) of
        (is_valid, error_msg) \<Rightarrow>
          if \<not> is_valid then Inl (ValidationError [] (case error_msg of None \<Rightarrow> [] | Some m \<Rightarrow> m)) else Inr ())"

definition course_run_unique :: "'z xpro_db_scheme \<Rightarrow> nat \<Rightarrow> course_run_row \<Rightarrow> exn + unit" where
  "course_run_unique s k r =
     (if t_exists (course_runs s) (\<lambda>j q. j \<noteq> k \<and> run_courseware_id q = run_courseware_id r)
      then Inl (ValidationError ''courseware_id'' ''Course run with this Courseware id already exists.'')
      else if t_exists (course_runs s) (\<lambda>j q. j \<noteq> k \<and> run_course q = run_course r \<and> run_run_tag q = run_run_tag r)
      then Inl (ValidationError ''__all__'' ''Course run with this Course and Run tag already exists.'')
      else Inr ())"

definition course_run_save :: "int \<Rightarrow> nat \<Rightarrow> (course_run_row \<Rightarrow> course_run_row) \<Rightarrow> ('z xpro_db_scheme, unit) prog" where
  "course_run_save now k f =
     bindp (asks (\<lambda>s. f (row (course_runs s) k))) (\<lambda>r.
       thenp (lift_result (course_run_clean now r))
      (bindp (asks (\<lambda>s. course_run_unique s k r)) (\<lambda>v.
       thenp (lift_result v) (db_save course_runs course_runs_update k f))))"

section \<open>Courses\<close>

definition course_runs_of :: "'z xpro_db_scheme \<Rightarrow> nat \<Rightarrow> nat list" where
  "course_runs_of s course = matching (course_runs s) (\<lambda>_ r. run_course r = course)"

definition min_date :: "int list \<Rightarrow> int option" where
  "min_date ds = (case ds of [] \<Rightarrow> None | d # ds \<Rightarrow> Some (foldl min d ds))"

definition the_list :: "'a option \<Rightarrow> 'a list" where
  "the_list v = (case v of None \<Rightarrow> [] | Some x \<Rightarrow> [x])"

definition course_next_run_date :: "int \<Rightarrow> 'z xpro_db_scheme \<Rightarrow> nat \<Rightarrow> int option" where
  "course_next_run_date now s course =
     min_date
       (concat (map (\<lambda>k. if run_live (row (course_runs s) k)
             then filter (\<lambda>d. d > now) (the_list (run_start_date (row (course_runs s) k))) else [])
          (course_runs_of s course)))"

definition course_is_catalog_visible :: "int \<Rightarrow> 'z xpro_db_scheme \<Rightarrow> nat \<Rightarrow> bool" where
  "course_is_catalog_visible now s course =
     list_ex (\<lambda>k. let r = row (course_runs s) k
        in run_live r \<and>
           ((case run_start_date r of None \<Rightarrow> False | Some d \<Rightarrow> d > now) \<or>
            (case run_enrollment_end r of None \<Rightarrow> False | Some d \<Rightarrow> d > now)))
       (course_runs_of s course)"

definition run_start_key :: "'z xpro_db_scheme \<Rightarrow> nat \<Rightarrow> int" where
  "run_start_key s k = (case run_start_date (row (course_runs s) k) of None \<Rightarrow> 0 | Some d \<Rightarrow> d)"

definition course_first_unexpired_run :: "int \<Rightarrow> 'z xpro_db_scheme \<Rightarrow> nat \<Rightarrow> nat option" where
  "course_first_unexpired_run now s course =
     (let eligible_course_runs =
        filter (\<lambda>k. let r = row (course_runs s) k
                    in run_live r \<and> run_start_date r \<noteq> None \<and> is_unexpired now r) (course_runs_of s course)
      in first_matching_item (sort_key (run_start_key s) eligible_course_runs) (\<lambda>_. True))"

definition course_unexpired_runs :: "int \<Rightarrow> 'z xpro_db_scheme \<Rightarrow> nat \<Rightarrow> nat list" where
  "course_unexpired_runs now s course =
     filter (\<lambda>k. is_unexpired now (row (course_runs s) k))
       (sort_key (run_start_key s)
          (filter (\<lambda>k. let r = row (course_runs s) k in run_live r \<and> run_start_date r \<noteq> None)
             (course_runs_of s course)))"

text \<open>The related manager uses the default manager of the enrollments, which sees active ones only.\<close>

definition active_run_enrollments :: "'z xpro_db_scheme \<Rightarrow> (run_enrollment_row \<Rightarrow> bool) \<Rightarrow> nat list" where
  "active_run_enrollments s P = matching (run_enrollments s) (\<lambda>_ e. enr_active e \<and> P e)"

definition active_program_enrollments :: "'z xpro_db_scheme \<Rightarrow> (program_enrollment_row \<Rightarrow> bool) \<Rightarrow> nat list" where
  "active_program_enrollments s P = matching (program_enrollments s) (\<lambda>_ e. enr_active e \<and> P e)"

definition course_available_runs :: "int \<Rightarrow> 'z xpro_db_scheme \<Rightarrow> nat \<Rightarrow> nat \<Rightarrow> nat list" where
  "course_available_runs now s course user =
     (let enrolled_runs =
        map (\<lambda>j. enr_run (row (run_enrollments s) j))
          (active_run_enrollments s
            (\<lambda>e. enr_user e = user \<and> run_course (row (course_runs s) (enr_run e)) = course))
      in filter (\<lambda>k. k \<notin> set enrolled_runs) (course_unexpired_runs now s course))"

definition truncated_str :: "string \<Rightarrow> string" where
  "truncated_str title = (if length title \<le> 100 then title else slice_to title 97 @ ''...'')"

definition course_str :: "course_row \<Rightarrow> string" where
  "course_str c = truncated_str (course_readable_id c @ '' | '' @ course_title c)"

definition run_str :: "course_run_row \<Rightarrow> string" where
  "run_str r = truncated_str (run_courseware_id r @ '' | '' @ run_title r)"

definition program_str :: "program_row \<Rightarrow> string" where
  "program_str p = truncated_str (prog_readable_id p @ '' | '' @ prog_title p)"

text \<open>
  The pages of the content management system: the page of a course or program (internal or external)
  with its certificate page, if any; the latest revision of a certificate page; the page a revision
  belongs to; and what stands above a certificate page in the page tree.
\<close>

datatype page_parent = CoursePageOf nat | ProgramPageOf nat | OtherPage

record cms_pages =
  course_page :: "nat \<Rightarrow> nat option option"
  program_page :: "nat \<Rightarrow> nat option option"
  course_page_internal :: "nat \<Rightarrow> bool"
  course_page_external :: "nat \<Rightarrow> bool"
  latest_revision :: "nat \<Rightarrow> nat"
  revision_page :: "nat \<Rightarrow> nat"
  page_parent_of :: "nat \<Rightarrow> page_parent option"

definition course_clean :: "cms_pages \<Rightarrow> 'z xpro_db_scheme \<Rightarrow> nat option \<Rightarrow> course_row \<Rightarrow> exn + unit" where
  "course_clean cms s pk c =
     (case pk of
        None \<Rightarrow> Inr ()
      | Some k \<Rightarrow>
          if k \<notin> set (pks (courses s)) then Inl (DoesNotExist ''Course'')
          else if course_is_external (row (courses s) k) = course_is_external c then Inr ()
          else if course_page_internal cms k \<and> course_is_external c
          then Inl (ValidationError ''is_external''
                 ''Course is associated with an internal CoursePage, cannot change is_external value'')
          else if course_page_external cms k \<and> \<not> course_is_external c
          then Inl (ValidationError ''is_external''
                 ''Course is associated with ExternalCoursePage, cannot change is_external value'')
          else Inr ())"

text \<open>
  \<open>Course.save\<close>. The last position is the first value of \<open>order_by("-position_in_program")\<close>, where
  the database puts rows without a position first. The save validates the object (\<open>full_clean\<close>),
  which includes the unique readable id, and then writes it.
\<close>

definition last_position :: "'z xpro_db_scheme \<Rightarrow> nat \<Rightarrow> nat option" where
  "last_position s program =
     (let ps = map (\<lambda>k. course_position_in_program (row (courses s) k))
                 (matching (courses s) (\<lambda>_ c. course_program c = Some program))
      in if ps = [] \<or> None \<in> set ps then None else Some (Max (set (concat (map the_list ps)))))"

definition course_with_position :: "'z xpro_db_scheme \<Rightarrow> course_row \<Rightarrow> course_row" where
  "course_with_position s c =
     (case course_program c of
        None \<Rightarrow> c
      | Some p \<Rightarrow>
          if course_position_in_program c = None \<or> course_position_in_program c = Some 0
          then c\<lparr>course_position_in_program :=
                   (case last_position s p of
                      None \<Rightarrow> Some 1
                    | Some n \<Rightarrow> if n = 0 then Some 1 else Some (n + 1))\<rparr>
          else c)"

definition course_save :: "cms_pages \<Rightarrow> nat option \<Rightarrow> course_row \<Rightarrow> ('z xpro_db_scheme, nat) prog" where
  "course_save cms pk c =
     bindp (asks (\<lambda>s. course_with_position s c)) (\<lambda>c.
     bindp (asks (\<lambda>s. course_clean cms s pk c)) (\<lambda>v.
     thenp (lift_result v)
    (bindp (asks (\<lambda>s. t_exists (courses s) (\<lambda>j q. Some j \<noteq> pk \<and> course_readable_id q = course_readable_id c))) (\<lambda>dup.
     if dup then raise (ValidationError ''readable_id'' ''Course with this Readable id already exists.'')
     else (case pk of
             None \<Rightarrow> db_create courses courses_update c
           | Some k \<Rightarrow> thenp (db_save courses courses_update k (\<lambda>_. c)) (ret k))))))"

section \<open>Programs\<close>

text \<open>\<open>program.courses\<close> in the default order of courses: by program, then by title.\<close>

definition program_courses :: "'z xpro_db_scheme \<Rightarrow> nat \<Rightarrow> nat list" where
  "program_courses s program =
     sort_key (\<lambda>k. course_title (row (courses s) k))
       (matching (courses s) (\<lambda>_ c. course_program c = Some program))"

definition program_num_courses :: "'z xpro_db_scheme \<Rightarrow> nat \<Rightarrow> nat" where
  "program_num_courses s program =
     length (filter (\<lambda>k. course_live (row (courses s) k)) (program_courses s program))"

definition program_first_course :: "'z xpro_db_scheme \<Rightarrow> nat \<Rightarrow> nat option" where
  "program_first_course s program =
     first_of (filter (\<lambda>k. let c = row (courses s) k in course_position_in_program c = Some 1 \<and> course_live c)
       (program_courses s program))"

definition program_next_run_date :: "int \<Rightarrow> 'z xpro_db_scheme \<Rightarrow> nat \<Rightarrow> int option" where
  "program_next_run_date now s program =
     (case program_first_course s program of
        Some first_course \<Rightarrow> course_next_run_date now s first_course | None \<Rightarrow> None)"

definition program_is_catalog_visible :: "int \<Rightarrow> 'z xpro_db_scheme \<Rightarrow> nat \<Rightarrow> bool" where
  "program_is_catalog_visible now s program =
     list_ex (course_is_catalog_visible now s) (program_courses s program)"

definition program_first_unexpired_run :: "int \<Rightarrow> 'z xpro_db_scheme \<Rightarrow> nat \<Rightarrow> nat option" where
  "program_first_unexpired_run now s program =
     (case program_first_course s program of
        Some first_course \<Rightarrow> course_first_unexpired_run now s first_course | None \<Rightarrow> None)"

definition program_first_course_unexpired_runs :: "int \<Rightarrow> 'z xpro_db_scheme \<Rightarrow> nat \<Rightarrow> nat list option" where
  "program_first_course_unexpired_runs now s program =
     (case program_first_course s program of
        Some first_course \<Rightarrow> Some (course_unexpired_runs now s first_course) | None \<Rightarrow> None)"

definition program_text_id :: "program_row \<Rightarrow> string" where
  "program_text_id p = prog_readable_id p"

definition program_course_runs :: "'z xpro_db_scheme \<Rightarrow> nat \<Rightarrow> nat list" where
  "program_course_runs s program = concat (map (course_runs_of s) (program_courses s program))"

definition ENROLLABLE_ITEM_ID_SEPARATOR :: string where "ENROLLABLE_ITEM_ID_SEPARATOR = ''+''"

definition program_run_full_readable_id :: "'z xpro_db_scheme \<Rightarrow> program_run_row \<Rightarrow> string" where
  "program_run_full_readable_id s r =
     py_join ENROLLABLE_ITEM_ID_SEPARATOR [prog_readable_id (row (programs s) (prun_program r)), prun_run_tag r]"

text \<open>\<open>Platform.validate_unique\<close> and \<open>Platform.save\<close>: names are unique up to case.\<close>

definition platform_validate_unique :: "'z xpro_db_scheme \<Rightarrow> nat option \<Rightarrow> platform_row \<Rightarrow> exn + unit" where
  "platform_validate_unique s pk p =
     (let found = matching (platforms s) (\<lambda>_ q. py_lower (plat_name q) = py_lower (plat_name p));
          e = Inl (ValidationError ''name'' ''A platform with this name already exists.'')
      in if pk = None \<and> found \<noteq> [] then e
         else if length found = 1 \<and> Some (found ! 0) \<noteq> pk then e
         else if t_exists (platforms s) (\<lambda>j q. Some j \<noteq> pk \<and> plat_name q = plat_name p) then e
         else Inr ())"

definition platform_save :: "nat option \<Rightarrow> platform_row \<Rightarrow> ('z xpro_db_scheme, nat) prog" where
  "platform_save pk p =
     bindp (asks (\<lambda>s. platform_validate_unique s pk p)) (\<lambda>v.
     thenp (lift_result v)
       (case pk of
          None \<Rightarrow> db_create platforms platforms_update p
        | Some k \<Rightarrow> thenp (db_save platforms platforms_update k (\<lambda>_. p)) (ret k)))"

text \<open>Topics; the annotated counts of courses come with the query.\<close>

definition parent_topics :: "'z xpro_db_scheme \<Rightarrow> nat list" where
  "parent_topics s =
     sort_key (\<lambda>k. topic_name (row (topics s) k)) (matching (topics s) (\<lambda>_ t. topic_parent t = None))"

definition parent_topic_names :: "'z xpro_db_scheme \<Rightarrow> string list" where
  "parent_topic_names s = map (\<lambda>k. topic_name (row (topics s) k)) (parent_topics s)"

definition topic_course_count :: "(nat \<Rightarrow> nat) \<Rightarrow> (nat \<Rightarrow> nat) \<Rightarrow> 'z xpro_db_scheme \<Rightarrow> nat \<Rightarrow> nat" where
  "topic_course_count internal_course_count external_course_count s topic =
     (let subtopics = matching (topics s) (\<lambda>_ t. topic_parent t = Some topic)
      in sum_list ([internal_course_count topic, external_course_count topic] @
           map internal_course_count subtopics @ map external_course_count subtopics))"

definition parent_topics_with_courses :: "(nat \<Rightarrow> nat) \<Rightarrow> (nat \<Rightarrow> nat) \<Rightarrow> 'z xpro_db_scheme \<Rightarrow> nat list" where
  "parent_topics_with_courses internal_course_count external_course_count s =
     filter (\<lambda>t. topic_course_count internal_course_count external_course_count s t > 0) (parent_topics s)"

section \<open>Enrollments\<close>

definition enrollment_extra_of :: "'z xpro_db_scheme \<Rightarrow> 'e enrollment_row_scheme \<Rightarrow> string \<Rightarrow> enrollment_extra" where
  "enrollment_extra_of s e text_id =
     (let u = row (users s) (enr_user e)
      in \<lparr>ed_username = user_username u, ed_full_name = user_name u, ed_email = user_email u,
          ed_company_name = (case enr_company e of None \<Rightarrow> None | Some c \<Rightarrow> Some (company_name (row (companies s) c))),
          ed_text_id = text_id\<rparr>)"

definition run_enrollment_to_dict :: "'z xpro_db_scheme \<Rightarrow> nat \<Rightarrow> run_enrollment_row \<times> enrollment_extra" where
  "run_enrollment_to_dict s k =
     (let e = row (run_enrollments s) k
      in (e, enrollment_extra_of s e (run_courseware_id (row (course_runs s) (enr_run e)))))"

definition program_enrollment_to_dict :: "'z xpro_db_scheme \<Rightarrow> nat \<Rightarrow> program_enrollment_row \<times> enrollment_extra" where
  "program_enrollment_to_dict s k =
     (let e = row (program_enrollments s) k
      in (e, enrollment_extra_of s e (prog_readable_id (row (programs s) (enr_program e)))))"

definition save_and_log_run_enrollment ::
  "nat \<Rightarrow> (run_enrollment_row \<Rightarrow> run_enrollment_row) \<Rightarrow> nat option \<Rightarrow> ('z xpro_db_scheme, unit) prog" where
  "save_and_log_run_enrollment =
     save_and_log run_enrollments_update run_enrollments run_enrollment_audits run_enrollment_audits_update
       run_enrollment_to_dict"

definition save_and_log_program_enrollment ::
  "nat \<Rightarrow> (program_enrollment_row \<Rightarrow> program_enrollment_row) \<Rightarrow> nat option \<Rightarrow> ('z xpro_db_scheme, unit) prog" where
  "save_and_log_program_enrollment =
     save_and_log program_enrollments_update program_enrollments program_enrollment_audits
       program_enrollment_audits_update program_enrollment_to_dict"

definition deactivated :: "change_status option \<Rightarrow> 'e enrollment_row_scheme \<Rightarrow> 'e enrollment_row_scheme" where
  "deactivated change_status e = e\<lparr>enr_active := False, enr_change_status := change_status\<rparr>"

definition reactivated :: "'e enrollment_row_scheme \<Rightarrow> 'e enrollment_row_scheme" where
  "reactivated e = e\<lparr>enr_active := True, enr_change_status := None\<rparr>"

definition deactivate_and_save_run :: "nat \<Rightarrow> change_status option \<Rightarrow> bool \<Rightarrow> ('z xpro_db_scheme, unit) prog" where
  "deactivate_and_save_run k change_status no_user =
     bindp (asks (\<lambda>s. if no_user then None else Some (enr_user (row (run_enrollments s) k))))
       (save_and_log_run_enrollment k (deactivated change_status))"

definition deactivate_and_save_program :: "nat \<Rightarrow> change_status option \<Rightarrow> bool \<Rightarrow> ('z xpro_db_scheme, unit) prog" where
  "deactivate_and_save_program k change_status no_user =
     bindp (asks (\<lambda>s. if no_user then None else Some (enr_user (row (program_enrollments s) k))))
       (save_and_log_program_enrollment k (deactivated change_status))"

definition reactivate_and_save_run :: "nat \<Rightarrow> bool \<Rightarrow> ('z xpro_db_scheme, unit) prog" where
  "reactivate_and_save_run k no_user =
     bindp (asks (\<lambda>s. if no_user then None else Some (enr_user (row (run_enrollments s) k))))
       (save_and_log_run_enrollment k reactivated)"

definition reactivate_and_save_program :: "nat \<Rightarrow> bool \<Rightarrow> ('z xpro_db_scheme, unit) prog" where
  "reactivate_and_save_program k no_user =
     bindp (asks (\<lambda>s. if no_user then None else Some (enr_user (row (program_enrollments s) k))))
       (save_and_log_program_enrollment k reactivated)"

definition run_enrollment_is_ended :: "int \<Rightarrow> 'z xpro_db_scheme \<Rightarrow> nat \<Rightarrow> bool" where
  "run_enrollment_is_ended now s k = is_past now (row (course_runs s) (enr_run (row (run_enrollments s) k)))"

definition get_program_run_enrollments :: "'z xpro_db_scheme \<Rightarrow> nat \<Rightarrow> nat \<Rightarrow> nat option \<Rightarrow> nat list" where
  "get_program_run_enrollments s user program order_id =
     active_run_enrollments s
       (\<lambda>e. enr_user e = user \<and>
            course_program (row (courses s) (run_course (row (course_runs s) (enr_run e)))) = Some program \<and>
            (case order_id of None \<Rightarrow> True | Some oid \<Rightarrow> enr_order e = Some oid))"

definition get_run_enrollments :: "'z xpro_db_scheme \<Rightarrow> nat \<Rightarrow> nat option \<Rightarrow> nat list" where
  "get_run_enrollments s k order_id =
     (let e = row (program_enrollments s) k in get_program_run_enrollments s (enr_user e) (enr_program e) order_id)"

definition program_enrollment_is_ended :: "int \<Rightarrow> 'z xpro_db_scheme \<Rightarrow> nat \<Rightarrow> bool" where
  "program_enrollment_is_ended now s k = list_all (run_enrollment_is_ended now s) (get_run_enrollments s k None)"

section \<open>Lemmas\<close>

lemma is_unexpired_iff:
  "is_unexpired now r \<longleftrightarrow> is_not_beyond_enrollment now r"
  by (auto simp: is_unexpired_def is_past_def is_not_beyond_enrollment_def split: option.splits)

lemma length_truncated_str: "length (truncated_str t) \<le> 100"
  by (simp add: truncated_str_def slice_to_def)

lemma save_and_log_run_enrollment_run:
  "save_and_log_run_enrollment k f acting s =
    (let s1 = s\<lparr>run_enrollments := t_save (run_enrollments s) k f\<rparr>
     in (Inr (), s1\<lparr>run_enrollment_audits := snd (t_create (run_enrollment_audits s)
       \<lparr>audit_acting_user = acting, audit_object = Some k,
        audit_data_before = (if k \<in> set (pks (run_enrollments s)) then Some (run_enrollment_to_dict s k) else None),
        audit_data_after = run_enrollment_to_dict s1 k\<rparr>)\<rparr>))"
  by (simp add: save_and_log_run_enrollment_def save_and_log_def atomic_run bindp_run thenp_run Let_def)

lemma save_and_log_program_enrollment_run:
  "save_and_log_program_enrollment k f acting s =
    (let s1 = s\<lparr>program_enrollments := t_save (program_enrollments s) k f\<rparr>
     in (Inr (), s1\<lparr>program_enrollment_audits := snd (t_create (program_enrollment_audits s)
       \<lparr>audit_acting_user = acting, audit_object = Some k,
        audit_data_before = (if k \<in> set (pks (program_enrollments s)) then Some (program_enrollment_to_dict s k) else None),
        audit_data_after = program_enrollment_to_dict s1 k\<rparr>)\<rparr>))"
  by (simp add: save_and_log_program_enrollment_def save_and_log_def atomic_run bindp_run thenp_run Let_def)

lemma deactivate_and_save_run_run:
  "deactivate_and_save_run k st nu s =
     save_and_log_run_enrollment k (deactivated st)
       (if nu then None else Some (enr_user (row (run_enrollments s) k))) s"
  by (simp add: deactivate_and_save_run_def)

lemma reactivate_and_save_run_run:
  "reactivate_and_save_run k nu s =
     save_and_log_run_enrollment k reactivated
       (if nu then None else Some (enr_user (row (run_enrollments s) k))) s"
  by (simp add: reactivate_and_save_run_def)

lemma deactivate_and_save_program_run:
  "deactivate_and_save_program k st nu s =
     save_and_log_program_enrollment k (deactivated st)
       (if nu then None else Some (enr_user (row (program_enrollments s) k))) s"
  by (simp add: deactivate_and_save_program_def)

lemma reactivate_and_save_program_run:
  "reactivate_and_save_program k nu s =
     save_and_log_program_enrollment k reactivated
       (if nu then None else Some (enr_user (row (program_enrollments s) k))) s"
  by (simp add: reactivate_and_save_program_def)

lemma run_enrollment_to_dict_fst [simp]: "fst (run_enrollment_to_dict s k) = row (run_enrollments s) k"
  by (simp add: run_enrollment_to_dict_def Let_def)

lemma run_enrollment_to_dict_eq:
  "(\<exists>b. run_enrollment_to_dict s k = (e, b)) \<longleftrightarrow> e = row (run_enrollments s) k"
  by (auto simp: run_enrollment_to_dict_def Let_def)

text \<open>
  Deactivating a course run enrollment and reactivating it again restores every field but the
  change status, which is cleared; each step writes exactly one audit row that names the enrollment's
  user and holds the fields before and after the step, and touches no other enrollment.
\<close>

theorem deactivate_reactivate_run:
  assumes "k \<in> set (pks (run_enrollments s))" and "wf_table (run_enrollment_audits s)"
    and "deactivate_and_save_run k (Some st) False s = (r, s')"
    and "reactivate_and_save_run k False s' = (r', s'')"
  shows "r = Inr () \<and> r' = Inr () \<and>
    \<not> enr_active (row (run_enrollments s') k) \<and> enr_change_status (row (run_enrollments s') k) = Some st \<and>
    row (run_enrollments s'') k = (row (run_enrollments s) k)\<lparr>enr_active := True, enr_change_status := None\<rparr> \<and>
    (\<forall>j. j \<noteq> k \<longrightarrow> row (run_enrollments s'') j = row (run_enrollments s) j) \<and>
    pks (run_enrollment_audits s'') = pks (run_enrollment_audits s) @
      [next_pk (run_enrollment_audits s), Suc (next_pk (run_enrollment_audits s))] \<and>
    (let a = row (run_enrollment_audits s'') (next_pk (run_enrollment_audits s));
         b = row (run_enrollment_audits s'') (Suc (next_pk (run_enrollment_audits s)))
     in audit_acting_user a = Some (enr_user (row (run_enrollments s) k)) \<and>
        map_option fst (audit_data_before a) = Some (row (run_enrollments s) k) \<and>
        fst (audit_data_after a) = row (run_enrollments s') k \<and>
        map_option fst (audit_data_before b) = Some (row (run_enrollments s') k) \<and>
        fst (audit_data_after b) = row (run_enrollments s'') k)"
proof -
  from assms(3) have 1: "s' = snd (deactivate_and_save_run k (Some st) False s)" and r: "r = Inr ()"
    by (simp_all add: deactivate_and_save_run_run save_and_log_run_enrollment_run Let_def)
  from assms(4) have 2: "s'' = snd (reactivate_and_save_run k False s')" and r': "r' = Inr ()"
    by (simp_all add: reactivate_and_save_run_run save_and_log_run_enrollment_run Let_def)
  show ?thesis
    unfolding r r' 2 unfolding 1 using assms(1,2)
    by (simp add: deactivate_and_save_run_run reactivate_and_save_run_run save_and_log_run_enrollment_run
        Let_def row_t_create run_enrollment_to_dict_eq)
       (simp_all add: deactivated_def reactivated_def)
qed

lemma unexpired_runs_eq:
  "course_unexpired_runs now s course =
     sort_key (run_start_key s)
       (filter (\<lambda>k. let r = row (course_runs s) k
                    in run_live r \<and> run_start_date r \<noteq> None \<and> is_unexpired now r) (course_runs_of s course))"
  by (simp add: course_unexpired_runs_def filter_sort conj_assoc Let_def)

text \<open>
  The two ways the code looks for the unexpired runs of a course agree: the first unexpired run is the
  head of the list of unexpired runs, and it is live, has a start date, is open for
  enrollment, and starts no later than any other run of that list.
\<close>

theorem first_unexpired_run_is_head:
  "course_first_unexpired_run now s course = first_of (course_unexpired_runs now s course) \<and>
   list_all (\<lambda>k. run_course (row (course_runs s) k) = course \<and> run_live (row (course_runs s) k) \<and>
       is_not_beyond_enrollment now (row (course_runs s) k) \<and>
       (\<exists>d0 d. course_first_unexpired_run now s course \<noteq> None \<and>
          run_start_date (row (course_runs s) (the (course_first_unexpired_run now s course))) = Some d0 \<and>
          run_start_date (row (course_runs s) k) = Some d \<and> d0 \<le> d))
     (course_unexpired_runs now s course)"
proof -
  let ?L = "course_unexpired_runs now s course"
  have eq: "course_first_unexpired_run now s course = first_of ?L"
    by (simp add: course_first_unexpired_run_def unexpired_runs_eq first_matching_item_def Let_def)
  have sorted: "sorted (map (run_start_key s) ?L)"
    by (simp add: unexpired_runs_eq)
  have in_L: "run_course (row (course_runs s) k) = course \<and> run_live (row (course_runs s) k) \<and>
      is_not_beyond_enrollment now (row (course_runs s) k) \<and> run_start_date (row (course_runs s) k) \<noteq> None"
    if "k \<in> set ?L" for k
    using that by (simp add: unexpired_runs_eq Let_def course_runs_of_def is_unexpired_iff)
  show ?thesis
  proof (cases ?L)
    case Nil
    then show ?thesis by (simp add: eq)
  next
    case (Cons a L)
    have "\<exists>d0 d. run_start_date (row (course_runs s) a) = Some d0 \<and>
        run_start_date (row (course_runs s) k) = Some d \<and> d0 \<le> d" if k: "k \<in> set ?L" for k
    proof -
      have "run_start_key s a \<le> run_start_key s k"
        using sorted k by (auto simp: Cons)
      then show ?thesis
        using in_L [of a] in_L [OF k] by (auto simp: run_start_key_def Cons)
    qed
    moreover have "first_of ?L = Some a" by (simp add: Cons)
    ultimately show ?thesis
      using in_L by (simp add: eq list_all_iff)
  qed
qed

text \<open>The positions of the courses in a program: every course of a program has one, from 1 on.\<close>

definition positions_inv :: "'z xpro_db_scheme \<Rightarrow> bool" where
  "positions_inv s \<longleftrightarrow> wf_table (courses s) \<and>
     list_all (\<lambda>k. course_program (row (courses s) k) = None \<or>
        (\<exists>n. course_position_in_program (row (courses s) k) = Some n \<and> 0 < n)) (pks (courses s))"

lemma last_position_bound:
  assumes "positions_inv s" and "k \<in> set (pks (courses s))" and "course_program (row (courses s) k) = Some p"
  shows "\<exists>n m. course_position_in_program (row (courses s) k) = Some n \<and> last_position s p = Some m \<and> n \<le> m"
proof -
  let ?ks = "matching (courses s) (\<lambda>_ c. course_program c = Some p)"
  let ?ps = "map (\<lambda>k. course_position_in_program (row (courses s) k)) ?ks"
  have k: "k \<in> set ?ks" using assms by simp
  then have ne: "?ps \<noteq> []" by (metis empty_iff list.set(1) list.map_disc_iff)
  have nn: "None \<notin> set ?ps"
    using assms(1) by (auto simp: positions_inv_def list_all_iff)
  obtain n where n: "course_position_in_program (row (courses s) k) = Some n"
    using assms by (auto simp: positions_inv_def list_all_iff)
  have "n \<in> set (concat (map the_list ?ps))"
    using k n by (force simp: the_list_def simp del: set_matching)
  then have "n \<le> Max (set (concat (map the_list ?ps)))"
    by (intro Max_ge) simp_all
  with ne nn n show ?thesis by (simp add: last_position_def Let_def)
qed

lemma course_with_position_position:
  assumes "positions_inv s" and "course_program c = Some p"
    and "course_position_in_program c = None \<or> course_position_in_program c = Some 0"
  shows "\<exists>n. course_position_in_program (course_with_position s c) = Some n \<and> 0 < n \<and>
    (\<forall>k \<in> set (pks (courses s)). course_program (row (courses s) k) = Some p \<longrightarrow>
       (\<exists>m. course_position_in_program (row (courses s) k) = Some m \<and> m < n))"
proof (cases "last_position s p")
  case None
  then show ?thesis
    using assms last_position_bound [OF assms(1)] by (fastforce simp: course_with_position_def)
next
  case (Some m)
  then show ?thesis
    using assms last_position_bound [OF assms(1)]
    by (cases "m = 0") (fastforce simp: course_with_position_def positions_inv_def list_all_iff)+
qed

lemma course_with_position_program [simp]:
  "course_program (course_with_position s c) = course_program c"
  by (simp add: course_with_position_def split: option.splits)

lemma positions_inv_keeps: "keeps positions_inv (course_save cms pk c)"
proof (rule keepsI)
  fix s assume inv: "positions_inv s"
  let ?c = "course_with_position s c"
  have pos: "course_program ?c = None \<or> (\<exists>n. course_position_in_program ?c = Some n \<and> 0 < n)"
  proof (cases "course_program c")
    case (Some p)
    then show ?thesis
      using course_with_position_position [OF inv Some]
      by (cases "course_position_in_program c = None \<or> course_position_in_program c = Some 0")
         (auto simp: course_with_position_def)
  qed simp
  show "positions_inv (snd (course_save cms pk c s))"
    using inv pos
    by (auto simp: course_save_def bindp_run thenp_run positions_inv_def list_all_iff row_t_create
        row_t_save dest: wf_table_fresh split: sum.splits option.splits)
qed

text \<open>
  A course added to a program without a position is put behind all courses of that program:
  when the save succeeds, its position is positive and greater than every position the program
  had. Saving a course, with or without a position, keeps every course of a program positioned.
\<close>

theorem course_save_position:
  assumes "positions_inv s" and "course_program c = Some p"
    and "course_position_in_program c = None \<or> course_position_in_program c = Some 0"
    and "course_save cms None c s = (Inr k, s')"
  shows "positions_inv s' \<and> k \<notin> set (pks (courses s)) \<and> course_program (row (courses s') k) = Some p \<and>
    (\<exists>n. course_position_in_program (row (courses s') k) = Some n \<and> 0 < n \<and>
       list_all (\<lambda>j. course_program (row (courses s) j) = Some p \<longrightarrow>
          (\<exists>m. course_position_in_program (row (courses s) j) = Some m \<and> m < n)) (pks (courses s)))"
proof -
  have inv': "positions_inv s'"
    by (rule keepsD [OF positions_inv_keeps assms(4,1)])
  have k: "k = next_pk (courses s)" and s': "s' = s\<lparr>courses := snd (t_create (courses s) (course_with_position s c))\<rparr>"
    using assms(4) by (auto simp: course_save_def bindp_run thenp_run course_clean_def split: if_splits)
  have "next_pk (courses s) \<notin> set (pks (courses s))"
    using assms(1) by (auto simp: positions_inv_def dest: wf_table_fresh)
  with inv' course_with_position_position [OF assms(1-3)] show ?thesis
    unfolding k s' by (auto simp: row_t_create assms(2) list_all_iff)
qed

subsection \<open>A concrete database\<close>

text \<open>
  Two companies' worth of courses: a program of two courses, each with an open run; a user enrolled in the
  first run. The last component is left for the layers above.
\<close>

definition example_course :: "string \<Rightarrow> nat option \<Rightarrow> nat option \<Rightarrow> course_row" where
  "example_course t p n =
     \<lparr>course_program = p, course_position_in_program = n, course_title = t, course_readable_id = t,
      course_live = True, course_is_external = False, course_external_course_id = [], course_platform = 1\<rparr>"

definition example_run :: "nat \<Rightarrow> string \<Rightarrow> string \<Rightarrow> course_run_row" where
  "example_run c t tag =
     \<lparr>run_course = c, run_title = t, run_courseware_id = t, run_run_tag = tag,
      run_courseware_url_path = None, run_external_course_run_id = [], run_start_date = Some 200,
      run_end_date = Some 300, run_enrollment_start = None, run_enrollment_end = None,
      run_expiration_date = None, run_live = True\<rparr>"

definition example_run_enrollment :: run_enrollment_row where
  "example_run_enrollment =
     \<lparr>enr_user = 1, enr_company = None, enr_order = None, enr_change_status = None, enr_active = True,
      enr_created_on = 0, enr_run = 1, enr_edx_enrolled = True\<rparr>"

definition example_program_enrollment :: program_enrollment_row where
  "example_program_enrollment =
     \<lparr>enr_user = 1, enr_company = None, enr_order = None, enr_change_status = None, enr_active = True,
      enr_created_on = 0, enr_program = 1\<rparr>"

definition example_extra :: enrollment_extra where
  "example_extra = \<lparr>ed_username = [], ed_full_name = [], ed_email = [], ed_company_name = None, ed_text_id = []\<rparr>"

definition example_grade :: grade_row where
  "example_grade = \<lparr>grade_user = 1, grade_course_run = 1, grade_grade = 1, grade_letter_grade = None,
     grade_passed = True, grade_set_by_admin = False\<rparr>"

definition no_audits :: "'d \<Rightarrow> 'd audit_row table" where
  "no_audits d = empty_table \<lparr>audit_acting_user = None, audit_object = None, audit_data_before = None, audit_data_after = d\<rparr>"

definition example_xpro :: "'z \<Rightarrow> 'z xpro_db_scheme" where
  "example_xpro ext =
     \<lparr>users = users example_users_db, legal_addresses = legal_addresses example_users_db,
      profiles = profiles example_users_db, affiliates = affiliates example_users_db,
      referral_actions = referral_actions example_users_db,
      courseware_users = courseware_users example_users_db, openedx_auths = openedx_auths example_users_db,
      effects = [],
      companies = table_of \<lparr>company_name = ''Acme''\<rparr> [\<lparr>company_name = ''Acme''\<rparr>],
      platforms = table_of \<lparr>plat_name = [], plat_enable_sync = False\<rparr> [\<lparr>plat_name = ''xPRO'', plat_enable_sync = False\<rparr>],
      course_languages = empty_table \<lparr>lang_name = [], lang_priority = None, lang_is_active = True\<rparr>,
      programs = table_of \<lparr>prog_title = [], prog_readable_id = [], prog_live = True, prog_is_external = False, prog_platform = 1\<rparr>
        [\<lparr>prog_title = ''P'', prog_readable_id = ''program-v1:P'', prog_live = True, prog_is_external = False, prog_platform = 1\<rparr>],
      program_runs = empty_table \<lparr>prun_program = 0, prun_run_tag = [], prun_start_date = None, prun_end_date = None\<rparr>,
      topics = empty_table \<lparr>topic_name = [], topic_parent = None\<rparr>,
      courses = table_of (example_course [] None None)
        [example_course ''c1'' (Some 1) (Some 1), example_course ''c2'' (Some 1) (Some 2)],
      course_runs = table_of (example_run 0 [] [])
        [example_run 1 ''c1-R1'' ''R1'', example_run 2 ''c2-R1'' ''R1'', example_run 1 ''c1-R2'' ''R2''],
      run_enrollments = table_of example_run_enrollment [example_run_enrollment],
      run_enrollment_audits = no_audits (example_run_enrollment, example_extra),
      program_enrollments = empty_table example_program_enrollment,
      program_enrollment_audits = no_audits (example_program_enrollment, example_extra),
      grades = empty_table example_grade, grade_audits = no_audits example_grade,
      run_certificates = empty_table \<lparr>cert_user = 0, cert_uuid = [], cert_is_revoked = False,
        cert_certificate_page_revision = None, cert_course_run = 0\<rparr>,
      program_certificates = empty_table \<lparr>cert_user = 0, cert_uuid = [], cert_is_revoked = False,
        cert_certificate_page_revision = None, cert_program = 0\<rparr>, \<dots> = ext\<rparr>"

definition no_cms_pages :: cms_pages where
  "no_cms_pages =
     \<lparr>course_page = (\<lambda>_. None), program_page = (\<lambda>_. None), course_page_internal = (\<lambda>_. False),
      course_page_external = (\<lambda>_. False), latest_revision = (\<lambda>_. 0), revision_page = (\<lambda>_. 0),
      page_parent_of = (\<lambda>_. None)\<rparr>"

lemma example_positions_inv: "positions_inv (example_xpro ext)"
  by (simp add: positions_inv_def example_xpro_def table_of_def example_course_def wf_table_def)

lemma deactivate_reactivate_run_witness:
  "\<not> enr_active (row (run_enrollments (snd (deactivate_and_save_run 1 (Some Refunded) False (example_xpro ())))) 1)"
  using deactivate_reactivate_run [OF _ _ prod.collapse [symmetric] prod.collapse [symmetric],
      of 1 "example_xpro ()" Refunded]
  by (simp add: example_xpro_def table_of_def no_audits_def)

lemma course_save_position_witness:
  "course_position_in_program (row (courses (snd (course_save no_cms_pages None
      (example_course ''c3'' (Some 1) None) (example_xpro ())))) 3) \<noteq> Some 0"
proof -
  let ?r = "course_save no_cms_pages None (example_course ''c3'' (Some 1) None) (example_xpro ())"
  have r: "?r = (Inr 3, snd ?r)"
    by (simp add: course_save_def bindp_run thenp_run course_clean_def example_xpro_def table_of_def
        example_course_def t_exists_def course_with_position_def)
  have p: "course_program (example_course ''c3'' (Some 1) None) = Some 1"
    and n: "course_position_in_program (example_course ''c3'' (Some 1) None) = None
      \<or> course_position_in_program (example_course ''c3'' (Some 1) None) = Some 0"
    by (simp_all add: example_course_def)
  show ?thesis
    using course_save_position [OF example_positions_inv p n r] by auto
qed

end
