(* ===== verification/Shop_Models.thy ===== *)
theory Shop_Models
  imports Course_Models
begin

text \<open>
  \<open>ecommerce/models.py\<close>, the tables of \<open>b2b_ecommerce/models.py\<close> and \<open>voucher/models.py\<close>, and
  \<open>ecommerce/utils.py\<close>: products and their versions, baskets, orders with their lines, coupons with
  their payments and versions, receipts, data consent, assignments and tax rates. \<open>shop_db\<close> adds
  their tables to \<open>xpro_db\<close>. Prices and rates are exact decimals; the rows of the version tables are
  append-only in the database, so no operation of the model changes one.
\<close>

section \<open>Records\<close>

text \<open>What a product sells: the content type of the generic foreign key with the object's id.\<close>

datatype content =
    CourseRunContent nat
  | ProgramContent nat
  | CourseContent nat
  | OtherContent string nat

record product_row =
  prod_content :: content
  prod_is_active :: bool
  prod_is_private :: bool

record product_version_row =
  pv_product :: nat
  pv_price :: decimal
  pv_description :: string
  pv_text_id :: "string option"
  pv_requires_enrollment_code :: bool
  pv_created_on :: int

record basket_row =
  basket_user :: nat
  basket_updated_on :: int

record basket_item_row =
  bi_product :: nat
  bi_basket :: nat
  bi_quantity :: nat
  bi_program_run :: "nat option"

datatype order_status = OrderCreated | OrderFulfilled | OrderFailed | OrderRefunded

record order_abstract_row =
  ord_status :: order_status
  ord_created_on :: int

record order_row = order_abstract_row +
  ord_purchaser :: nat
  ord_total_price_paid :: decimal
  ord_tax_country_code :: "string option"
  ord_tax_rate :: "decimal option"
  ord_tax_rate_name :: "string option"

record line_row =
  line_order :: nat
  line_product_version :: nat
  line_quantity :: nat

record line_run_selection_row =
  lrs_line :: nat
  lrs_run :: nat

record program_run_line_row =
  prl_line :: nat
  prl_program_run :: nat

record coupon_payment_row =
  cp_name :: string

datatype coupon_type = PROMO | SINGLE_USE
datatype discount_type = PercentOff | DollarsOff | OtherDiscount string

record coupon_payment_version_row =
  cpv_tag :: "string option"
  cpv_payment :: nat
  cpv_automatic :: bool
  cpv_coupon_type :: coupon_type
  cpv_discount_type :: discount_type
  cpv_num_coupon_codes :: nat
  cpv_max_redemptions :: nat
  cpv_max_redemptions_per_user :: nat
  cpv_amount :: decimal
  cpv_activation_date :: "int option"
  cpv_expiration_date :: "int option"
  cpv_company :: "nat option"
  cpv_payment_type :: "string option"
  cpv_payment_transaction :: "string option"
  cpv_created_on :: int

record coupon_row =
  coupon_code :: string
  coupon_payment :: nat
  coupon_is_global :: bool
  coupon_enabled :: bool
  coupon_include_future_runs :: bool

record coupon_version_row =
  cv_coupon :: nat
  cv_payment_version :: nat
  cv_created_on :: int

record coupon_eligibility_row =
  ce_coupon :: nat
  ce_product :: nat
  ce_program_run :: "nat option"

record coupon_selection_row =
  csel_coupon :: nat
  csel_basket :: nat

record coupon_redemption_row =
  cred_coupon_version :: nat
  cred_order :: nat

type_synonym payload = "(string \<times> string) list"

record receipt_row =
  receipt_order :: "nat option"
  receipt_data :: payload

record course_run_selection_row =
  crs_basket :: nat
  crs_run :: nat

record data_consent_agreement_row =
  dca_content :: string
  dca_company :: nat
  dca_is_global :: bool
  dca_courses :: "nat list"

record data_consent_user_row =
  dcu_user :: nat
  dcu_agreement :: nat
  dcu_coupon :: nat
  dcu_consent_date :: "int option"

record bulk_assignment_row =
  bulk_assignment_sheet_id :: "string option"
  bulk_sheet_last_modified_date :: "int option"
  bulk_last_assignment_date :: "int option"
  bulk_assignments_started_date :: "int option"
  bulk_message_delivery_completed_date :: "int option"

record product_coupon_assignment_row =
  pca_email :: string
  pca_original_email :: "string option"
  pca_product_coupon :: nat
  pca_redeemed :: bool
  pca_message_status :: "string option"
  pca_message_status_date :: "int option"
  pca_bulk_assignment :: "nat option"

record tax_rate_row =
  tax_country_code :: string
  tax_tax_rate :: decimal
  tax_tax_rate_name :: "string option"
  tax_active :: bool

record voucher_row =
  voucher_voucher_id :: "string option"
  voucher_employee_id :: string
  voucher_employee_name :: string
  voucher_course_start_date_input :: int
  voucher_course_id_input :: string
  voucher_course_title_input :: string
  voucher_uploaded :: int
  voucher_user :: nat
  voucher_coupon :: "nat option"
  voucher_product :: "nat option"
  voucher_enrollment :: "nat option"

record b2b_coupon_row =
  bc_name :: string
  bc_coupon_code :: string
  bc_discount_percent :: decimal
  bc_product :: "nat option"
  bc_reusable :: bool
  bc_enabled :: bool
  bc_company :: "nat option"
  bc_activation_date :: "int option"
  bc_expiration_date :: "int option"

record b2b_order_row = order_abstract_row +
  bo_num_seats :: nat
  bo_email :: string
  bo_product_version :: nat
  bo_per_item_price :: decimal
  bo_total_price :: decimal
  bo_unique_id :: string
  bo_coupon_payment_version :: "nat option"
  bo_coupon :: "nat option"
  bo_discount :: "decimal option"
  bo_contract_number :: "string option"
  bo_program_run :: "nat option"

record b2b_receipt_row =
  br_order :: "nat option"
  br_data :: payload

record b2b_coupon_redemption_row =
  bcr_coupon :: nat
  bcr_order :: nat

text \<open>The serialization of an order with its lines, coupons, enrollments and receipts.\<close>

record order_dict =
  od_fields :: order_row
  od_purchaser_email :: string
  od_lines :: "(line_row \<times> product_version_row \<times> product_row) list"
  od_coupons :: "(coupon_row \<times> coupon_version_row \<times> coupon_payment_version_row) list"
  od_run_enrollments :: "string list"
  od_total_price :: "decimal option"
  od_total_tax :: "decimal option"
  od_receipts :: "payload list"

record b2b_order_dict =
  bod_fields :: b2b_order_row
  bod_product_version :: "product_version_row \<times> product_row"
  bod_receipts :: "payload list"

record shop_db = xpro_db +
  products :: "product_row table"
  product_versions :: "product_version_row table"
  baskets :: "basket_row table"
  basket_items :: "basket_item_row table"
  orders :: "order_row table"
  order_audits :: "order_dict audit_row table"
  lines :: "line_row table"
  line_run_selections :: "line_run_selection_row table"
  program_run_lines :: "program_run_line_row table"
  coupon_payments :: "coupon_payment_row table"
  coupon_payment_versions :: "coupon_payment_version_row table"
  coupons :: "coupon_row table"
  coupon_versions :: "coupon_version_row table"
  coupon_eligibilities :: "coupon_eligibility_row table"
  coupon_selections :: "coupon_selection_row table"
  coupon_redemptions :: "coupon_redemption_row table"
  receipts :: "receipt_row table"
  course_run_selections :: "course_run_selection_row table"
  data_consent_agreements :: "data_consent_agreement_row table"
  data_consent_users :: "data_consent_user_row table"
  bulk_assignments :: "bulk_assignment_row table"
  product_coupon_assignments :: "product_coupon_assignment_row table"
  tax_rates :: "tax_rate_row table"
  vouchers :: "voucher_row table"
  b2b_coupons :: "b2b_coupon_row table"
  b2b_orders :: "b2b_order_row table"
  b2b_order_audits :: "b2b_order_dict audit_row table"
  b2b_receipts :: "b2b_receipt_row table"
  b2b_coupon_redemptions :: "b2b_coupon_redemption_row table"

interpretation products_tb: db_table products products_update
  by unfold_locales simp_all
interpretation product_versions_tb: db_table product_versions product_versions_update
  by unfold_locales simp_all
interpretation baskets_tb: db_table baskets baskets_update
  by unfold_locales simp_all
interpretation basket_items_tb: db_table basket_items basket_items_update
  by unfold_locales simp_all
interpretation orders_tb: db_table orders orders_update
  by unfold_locales simp_all
interpretation lines_tb: db_table lines lines_update
  by unfold_locales simp_all
interpretation coupon_redemptions_tb: db_table coupon_redemptions coupon_redemptions_update
  by unfold_locales simp_all
interpretation coupon_selections_tb: db_table coupon_selections coupon_selections_update
  by unfold_locales simp_all
interpretation coupons_tb: db_table coupons coupons_update
  by unfold_locales simp_all
interpretation receipts_tb: db_table receipts receipts_update
  by unfold_locales simp_all
interpretation data_consent_users_tb: db_table data_consent_users data_consent_users_update
  by unfold_locales simp_all
interpretation b2b_orders_tb: db_table b2b_orders b2b_orders_update
  by unfold_locales simp_all
interpretation b2b_receipts_tb: db_table b2b_receipts b2b_receipts_update
  by unfold_locales simp_all

section \<open>Products\<close>

definition content_exists :: "'z xpro_db_scheme \<Rightarrow> content \<Rightarrow> bool" where
  "content_exists s c =
     (case c of
        CourseRunContent k \<Rightarrow> k \<in> set (pks (course_runs s))
      | ProgramContent k \<Rightarrow> k \<in> set (pks (programs s))
      | CourseContent k \<Rightarrow> k \<in> set (pks (courses s))
      | OtherContent _ _ \<Rightarrow> False)"

definition content_id :: "content \<Rightarrow> nat" where
  "content_id c =
     (case c of CourseRunContent k \<Rightarrow> k | ProgramContent k \<Rightarrow> k | CourseContent k \<Rightarrow> k | OtherContent _ k \<Rightarrow> k)"

definition product_clean :: "'z shop_db_scheme \<Rightarrow> product_row \<Rightarrow> exn + unit" where
  "product_clean s p =
     (if content_id (prod_content p) \<noteq> 0 \<and> \<not> content_exists s (prod_content p)
      then Inl (ValidationError [] ''Object Id is invalid.'')
      else if content_exists s (prod_content p) \<and>
              (case prod_content p of CourseRunContent _ \<Rightarrow> False | ProgramContent _ \<Rightarrow> False | _ \<Rightarrow> True)
      then Inl (ValidationError [] ''Content object is invalid. Allowed objects are CourseRun and Program.'')
      else Inr ())"

definition product_save :: "product_row \<Rightarrow> ('z shop_db_scheme, nat) prog" where
  "product_save p =
     bindp (asks (\<lambda>s. product_clean s p)) (\<lambda>v.
     thenp (lift_result v)
    (bindp (asks (\<lambda>s. t_exists (products s) (\<lambda>_ q. prod_content q = prod_content p))) (\<lambda>dup.
     if dup then raise (IntegrityError ''content_type, object_id'')
     else db_create products products_update p)))"

definition active_products :: "'z shop_db_scheme \<Rightarrow> (product_row \<Rightarrow> bool) \<Rightarrow> nat list" where
  "active_products s P = matching (products s) (\<lambda>_ p. prod_is_active p \<and> P p)"

definition ordered_versions :: "'z shop_db_scheme \<Rightarrow> nat \<Rightarrow> nat list" where
  "ordered_versions s product =
     order_by_desc (\<lambda>k. pv_created_on (row (product_versions s) k))
       (matching (product_versions s) (\<lambda>_ v. pv_product v = product))"

definition latest_version :: "'z shop_db_scheme \<Rightarrow> nat \<Rightarrow> nat option" where
  "latest_version s product = first_or_none (ordered_versions s product)"

definition product_run_queryset :: "'z shop_db_scheme \<Rightarrow> nat \<Rightarrow> exn + nat list" where
  "product_run_queryset s product =
     (case prod_content (row (products s) product) of
        CourseRunContent k \<Rightarrow> Inr (matching (course_runs s) (\<lambda>j _. j = k))
      | ProgramContent k \<Rightarrow>
          Inr (matching (course_runs s) (\<lambda>_ r. course_program (row (courses s) (run_course r)) = Some k))
      | _ \<Rightarrow> Inl (ValueError ''Unexpected content type''))"

definition product_type_string :: "product_row \<Rightarrow> string" where
  "product_type_string p =
     (case prod_content p of
        CourseRunContent _ \<Rightarrow> ''courserun'' | ProgramContent _ \<Rightarrow> ''program''
      | CourseContent _ \<Rightarrow> ''course'' | OtherContent m _ \<Rightarrow> m)"

definition product_title :: "'z shop_db_scheme \<Rightarrow> nat \<Rightarrow> exn + string" where
  "product_title s product =
     (case prod_content (row (products s) product) of
        ProgramContent k \<Rightarrow> Inr (prog_title (row (programs s) k))
      | CourseRunContent k \<Rightarrow> Inr (course_title (row (courses s) (run_course (row (course_runs s) k))))
      | _ \<Rightarrow> Inl (ValueError ''Unexpected content type''))"

definition product_start_date :: "int \<Rightarrow> 'z shop_db_scheme \<Rightarrow> nat \<Rightarrow> exn + int option" where
  "product_start_date now s product =
     (case prod_content (row (products s) product) of
        ProgramContent k \<Rightarrow> Inr (program_next_run_date now s k)
      | CourseRunContent k \<Rightarrow> Inr (course_next_run_date now s (run_course (row (course_runs s) k)))
      | _ \<Rightarrow> Inl (ValueError ''Unexpected product''))"

definition product_price :: "'z shop_db_scheme \<Rightarrow> nat \<Rightarrow> decimal option" where
  "product_price s product =
     (case latest_version s product of
        None \<Rightarrow> None | Some v \<Rightarrow> Some (pv_price (row (product_versions s) v)))"

definition content_current_price :: "'z shop_db_scheme \<Rightarrow> content \<Rightarrow> decimal option" where
  "content_current_price s c =
     (case active_products s (\<lambda>p. prod_content p = c) of
        [] \<Rightarrow> None
      | product # _ \<Rightarrow>
          (case latest_version s product of
             None \<Rightarrow> None | Some v \<Rightarrow> Some (pv_price (row (product_versions s) v))))"

definition run_current_price :: "'z shop_db_scheme \<Rightarrow> nat \<Rightarrow> decimal option" where
  "run_current_price s run = content_current_price s (CourseRunContent run)"

definition program_current_price :: "'z shop_db_scheme \<Rightarrow> nat \<Rightarrow> decimal option" where
  "program_current_price s program = content_current_price s (ProgramContent program)"

definition course_current_price :: "int \<Rightarrow> 'z shop_db_scheme \<Rightarrow> nat \<Rightarrow> decimal option" where
  "course_current_price now s course =
     (case course_first_unexpired_run now s course of
        None \<Rightarrow> None | Some run \<Rightarrow> run_current_price s run)"

definition content_text_id :: "'z shop_db_scheme \<Rightarrow> content \<Rightarrow> exn + string" where
  "content_text_id s c =
     (case c of
        CourseRunContent k \<Rightarrow> Inr (run_text_id (row (course_runs s) k))
      | ProgramContent k \<Rightarrow> Inr (program_text_id (row (programs s) k))
      | _ \<Rightarrow> Inl (AttributeError ''text_id''))"

definition product_version_save :: "int \<Rightarrow> product_version_row \<Rightarrow> ('z shop_db_scheme, nat) prog" where
  "product_version_save now v =
     bindp (asks (\<lambda>s. content_text_id s (prod_content (row (products s) (pv_product v))))) (\<lambda>r.
     bindp (lift_result r) (\<lambda>text_id.
     if pv_description v = [] then raise (ValidationError [] ''Description is a required field.'')
     else db_create product_versions product_versions_update
            (v\<lparr>pv_text_id := Some text_id, pv_created_on := now\<rparr>)))"

section \<open>Amounts\<close>

definition validate_amount :: "discount_type \<Rightarrow> decimal \<Rightarrow> string option" where
  "validate_amount dt amount =
     (if amount \<le> 0 then Some ''The amount is invalid, please specify a value greater than 0.''
      else if dt = PercentOff \<and> amount > 1
      then Some ''The amount should be between (0 - 1) when discount type is percent-off.''
      else None)"

definition positive_or_zero :: "decimal \<Rightarrow> decimal" where
  "positive_or_zero number = (if number < 0 then 0 else number)"

definition round_half_up :: "decimal \<Rightarrow> decimal" where
  "round_half_up number = round_cents_half_up number"

definition coupon_payment_version_clean :: "coupon_payment_version_row \<Rightarrow> exn + unit" where
  "coupon_payment_version_clean v =
     (case validate_amount (cpv_discount_type v) (cpv_amount v) of
        Some error_message \<Rightarrow> Inl (ValidationError ''amount'' error_message)
      | None \<Rightarrow> Inr ())"

text \<open>\<open>price or (product_version.price if product_version else None)\<close>\<close>

definition given_price :: "product_version_row option \<Rightarrow> decimal option \<Rightarrow> decimal option" where
  "given_price product_version price =
     (if price \<noteq> None \<and> price \<noteq> Some 0 then price
      else (case product_version of None \<Rightarrow> None | Some v \<Rightarrow> Some (pv_price v)))"

definition calculate_discount_amount ::
  "coupon_payment_version_row \<Rightarrow> product_version_row option \<Rightarrow> decimal option \<Rightarrow> decimal" where
  "calculate_discount_amount v product_version price =
     (case given_price product_version price of
        None \<Rightarrow> 0
      | Some price \<Rightarrow>
          if price = 0 then 0
          else (case cpv_discount_type v of
                  PercentOff \<Rightarrow> round_half_up (cpv_amount v * price)
                | DollarsOff \<Rightarrow> round_half_up (cpv_amount v)
                | OtherDiscount _ \<Rightarrow> 0))"

definition calculate_discount_percent ::
  "coupon_payment_version_row \<Rightarrow> product_version_row option \<Rightarrow> decimal option \<Rightarrow> decimal" where
  "calculate_discount_percent v product_version price =
     (case given_price product_version price of
        None \<Rightarrow> 0
      | Some price \<Rightarrow>
          if price = 0 then 0
          else (case cpv_discount_type v of
                  PercentOff \<Rightarrow> round_half_up (cpv_amount v * 100)
                | DollarsOff \<Rightarrow> round_half_up ((cpv_amount v / price) * 100)
                | OtherDiscount _ \<Rightarrow> 0))"

text \<open>\<open>ecommerce/api.py\<close>: the price of a product version under a coupon version, and its tax.\<close>

definition product_version_discount :: "'z shop_db_scheme \<Rightarrow> nat option \<Rightarrow> nat \<Rightarrow> decimal" where
  "product_version_discount s coupon_version product_version =
     (let pv = row (product_versions s) product_version
      in case coupon_version of
           None \<Rightarrow> 0
         | Some v \<Rightarrow>
             (let cv = row (coupon_versions s) v
              in if coupon_is_global (row (coupons s) (cv_coupon cv)) \<or>
                    t_exists (coupon_eligibilities s)
                      (\<lambda>_ e. ce_coupon e = cv_coupon cv \<and> ce_product e = pv_product pv)
                 then calculate_discount_amount (row (coupon_payment_versions s) (cv_payment_version cv))
                        None (Some (pv_price pv))
                 else 0))"

definition get_product_version_price_with_discount ::
  "'z shop_db_scheme \<Rightarrow> nat option \<Rightarrow> nat \<Rightarrow> decimal" where
  "get_product_version_price_with_discount s coupon_version product_version =
     positive_or_zero (pv_price (row (product_versions s) product_version) -
       product_version_discount s coupon_version product_version)"

record price_with_tax =
  pt_price :: decimal
  pt_tax_assessed :: decimal

definition get_product_version_price_with_discount_tax ::
  "'z shop_db_scheme \<Rightarrow> nat option \<Rightarrow> nat \<Rightarrow> decimal option \<Rightarrow> price_with_tax" where
  "get_product_version_price_with_discount_tax s coupon_version product_version tax_rate =
     (let product_version_price = get_product_version_price_with_discount s coupon_version product_version
      in \<lparr>pt_price = product_version_price,
          pt_tax_assessed =
            (if tax_rate = None \<or> tax_rate = Some 0 then 0
             else product_version_price * (the tax_rate / 100))\<rparr>)"

section \<open>Orders\<close>

definition order_lines :: "'z shop_db_scheme \<Rightarrow> nat \<Rightarrow> nat list" where
  "order_lines s order = matching (lines s) (\<lambda>_ l. line_order l = order)"

definition order_redemptions :: "'z shop_db_scheme \<Rightarrow> nat \<Rightarrow> nat list" where
  "order_redemptions s order = matching (coupon_redemptions s) (\<lambda>_ r. cred_order r = order)"

definition order_to_dict :: "'z shop_db_scheme \<Rightarrow> nat \<Rightarrow> order_dict" where
  "order_to_dict s k =
     (let o_row = row (orders s) k;
          coupon_redemption = first_of (order_redemptions s k);
          line = first_of (order_lines s k);
          price_with_tax =
            map_option (\<lambda>l. get_product_version_price_with_discount_tax s
                (map_option (\<lambda>r. cred_coupon_version (row (coupon_redemptions s) r)) coupon_redemption)
                (line_product_version (row (lines s) l)) (ord_tax_rate o_row)) line
      in \<lparr>od_fields = o_row,
          od_purchaser_email = user_email (row (users s) (ord_purchaser o_row)),
          od_lines =
            map (\<lambda>l. let lr = row (lines s) l; pv = row (product_versions s) (line_product_version lr)
                     in (lr, pv, row (products s) (pv_product pv))) (order_lines s k),
          od_coupons =
            map (\<lambda>r. let cv = row (coupon_versions s) (cred_coupon_version (row (coupon_redemptions s) r))
                     in (row (coupons s) (cv_coupon cv), cv, row (coupon_payment_versions s) (cv_payment_version cv)))
              (order_redemptions s k),
          od_run_enrollments =
            map (\<lambda>e. run_courseware_id (row (course_runs s) (enr_run (row (run_enrollments s) e))))
              (active_run_enrollments s (\<lambda>e. enr_order e = Some k)),
          od_total_price = map_option pt_price price_with_tax,
          od_total_tax = map_option pt_tax_assessed price_with_tax,
          od_receipts =
            map (\<lambda>r. receipt_data (row (receipts s) r)) (matching (receipts s) (\<lambda>_ r. receipt_order r = Some k))\<rparr>)"

definition save_and_log_order ::
  "nat \<Rightarrow> (order_row \<Rightarrow> order_row) \<Rightarrow> nat option \<Rightarrow> ('z shop_db_scheme, unit) prog" where
  "save_and_log_order = save_and_log orders_update orders order_audits order_audits_update order_to_dict"

definition b2b_order_to_dict :: "'z shop_db_scheme \<Rightarrow> nat \<Rightarrow> b2b_order_dict" where
  "b2b_order_to_dict s k =
     (let o_row = row (b2b_orders s) k; pv = row (product_versions s) (bo_product_version o_row)
      in \<lparr>bod_fields = o_row, bod_product_version = (pv, row (products s) (pv_product pv)),
          bod_receipts =
            map (\<lambda>r. br_data (row (b2b_receipts s) r)) (matching (b2b_receipts s) (\<lambda>_ r. br_order r = Some k))\<rparr>)"

definition save_and_log_b2b_order ::
  "nat \<Rightarrow> (b2b_order_row \<Rightarrow> b2b_order_row) \<Rightarrow> nat option \<Rightarrow> ('z shop_db_scheme, unit) prog" where
  "save_and_log_b2b_order =
     save_and_log b2b_orders_update b2b_orders b2b_order_audits b2b_order_audits_update b2b_order_to_dict"

definition REFERENCE_NUMBER_PREFIX :: string where "REFERENCE_NUMBER_PREFIX = ''xpro-b2c-''"
definition B2B_REFERENCE_NUMBER_PREFIX :: string where "B2B_REFERENCE_NUMBER_PREFIX = ''xpro-bulk-''"
definition B2B_INTEGRATION_PREFIX :: string where "B2B_INTEGRATION_PREFIX = ''B2B-''"

definition order_reference_number_prefix :: "string \<Rightarrow> string" where
  "order_reference_number_prefix environment = REFERENCE_NUMBER_PREFIX @ environment"

definition b2b_order_reference_number_prefix :: "string \<Rightarrow> string" where
  "b2b_order_reference_number_prefix environment = B2B_REFERENCE_NUMBER_PREFIX @ environment"

definition reference_number :: "string \<Rightarrow> nat \<Rightarrow> string" where
  "reference_number prefix order_id = prefix @ ''-'' @ nat_str order_id"

definition b2b_integration_id :: "nat \<Rightarrow> string" where
  "b2b_integration_id order_id = B2B_INTEGRATION_PREFIX @ nat_str order_id"

definition get_order_id_by_reference_number :: "string \<Rightarrow> string \<Rightarrow> exn + int" where
  "get_order_id_by_reference_number ref_number prefix =
     (let prefix_with_dash = prefix @ ''-''
      in if \<not> starts_with ref_number prefix_with_dash
         then Inl (ParseException (''Reference number must start with '' @ prefix_with_dash))
         else (case py_int (drop (length prefix_with_dash) ref_number) of
                 Inl e \<Rightarrow> Inl (if is_value_error e then ParseException ''Unable to parse order number'' else e)
               | Inr order_id \<Rightarrow> Inr order_id))"

text \<open>\<open>OrderManager.get_by_reference_number\<close>, for both kinds of orders.\<close>

definition get_by_reference_number :: "string \<Rightarrow> string \<Rightarrow> 'r table \<Rightarrow> string \<Rightarrow> exn + nat" where
  "get_by_reference_number model prefix t ref_number =
     (case get_order_id_by_reference_number ref_number prefix of
        Inl e \<Rightarrow> Inl e
      | Inr order_id \<Rightarrow> t_get model t (\<lambda>k _. int k = order_id))"

definition order_str :: "nat \<Rightarrow> order_row \<Rightarrow> string" where
  "order_str k r =
     ''Order #'' @ nat_str k @ '', status='' @
     (case ord_status r of OrderCreated \<Rightarrow> ''created'' | OrderFulfilled \<Rightarrow> ''fulfilled''
      | OrderFailed \<Rightarrow> ''failed'' | OrderRefunded \<Rightarrow> ''refunded'')"

text \<open>\<open>ecommerce/utils.py\<close>: the address of the check-out page.\<close>

definition make_checkout_url ::
  "string \<Rightarrow> string option \<Rightarrow> string option \<Rightarrow> string option \<Rightarrow> bool \<Rightarrow> string" where
  "make_checkout_url base_checkout_url product_id code run_tag is_voucher_applied =
     (if product_id = None \<and> code = None then base_checkout_url
      else base_checkout_url @ ''?'' @
        urlencode
          ([(''is_voucher_applied'', if is_voucher_applied then ''True'' else ''False'')] @
           (case product_id of
              None \<Rightarrow> []
            | Some p \<Rightarrow>
                [(''product'', case run_tag of None \<Rightarrow> p | Some t \<Rightarrow> p @ ENROLLABLE_ITEM_ID_SEPARATOR @ t)]) @
           (case code of None \<Rightarrow> [] | Some c \<Rightarrow> [(''code'', c)])))"

section \<open>Coupons\<close>

definition coupon_payment_latest_version :: "'z shop_db_scheme \<Rightarrow> nat \<Rightarrow> nat option" where
  "coupon_payment_latest_version s payment =
     first_of (order_by_desc (\<lambda>k. cpv_created_on (row (coupon_payment_versions s) k))
       (matching (coupon_payment_versions s) (\<lambda>_ v. cpv_payment v = payment)))"

definition is_existing_coupon_code :: "'z shop_db_scheme \<Rightarrow> string \<Rightarrow> bool" where
  "is_existing_coupon_code s code \<longleftrightarrow>
     t_exists (coupons s) (\<lambda>_ c. coupon_code c = code) \<or>
     t_exists (b2b_coupons s) (\<lambda>_ c. bc_coupon_code c = code)"

datatype coupon_instance = NoInstance | UnsavedInstance | SavedCoupon nat | SavedB2BCoupon nat

definition validate_unique_coupon_code :: "'z shop_db_scheme \<Rightarrow> string \<Rightarrow> coupon_instance \<Rightarrow> exn + unit" where
  "validate_unique_coupon_code s code inst =
     (let exists_msg = ''Coupon code already exists in the platform.''
      in case inst of
           SavedCoupon k \<Rightarrow>
             if k \<notin> set (pks (coupons s)) then Inl (DoesNotExist ''Coupon'')
             else if coupon_code (row (coupons s) k) \<noteq> code \<and> is_existing_coupon_code s code
             then Inl (ValidationError ''coupon_code'' exists_msg) else Inr ()
         | SavedB2BCoupon k \<Rightarrow>
             if k \<notin> set (pks (b2b_coupons s)) then Inl (DoesNotExist ''B2BCoupon'')
             else if bc_coupon_code (row (b2b_coupons s) k) \<noteq> code \<and> is_existing_coupon_code s code
             then Inl (ValidationError ''coupon_code'' exists_msg) else Inr ()
         | UnsavedInstance \<Rightarrow>
             if is_existing_coupon_code s code then Inl (ValidationError ''coupon_code'' exists_msg) else Inr ()
         | NoInstance \<Rightarrow>
             if is_existing_coupon_code s code then Inl (ValidationError [] exists_msg) else Inr ())"

definition coupon_clean :: "'z shop_db_scheme \<Rightarrow> nat option \<Rightarrow> coupon_row \<Rightarrow> exn + unit" where
  "coupon_clean s pk c =
     (if coupon_code c \<noteq> []
      then validate_unique_coupon_code s (coupon_code c)
             (case pk of None \<Rightarrow> UnsavedInstance | Some k \<Rightarrow> SavedCoupon k)
      else Inr ())"

definition b2b_coupon_clean :: "'z shop_db_scheme \<Rightarrow> nat option \<Rightarrow> b2b_coupon_row \<Rightarrow> exn + unit" where
  "b2b_coupon_clean s pk c =
     (if bc_coupon_code c \<noteq> []
      then validate_unique_coupon_code s (bc_coupon_code c)
             (case pk of None \<Rightarrow> UnsavedInstance | Some k \<Rightarrow> SavedB2BCoupon k)
      else Inr ())"

text \<open>
  \<open>deactivate_coupons\<close>: the flags are written in one bulk update; every deactivation by a known user is
  logged. The result is the set of codes and payment names.
\<close>

definition deactivate_coupons :: "nat list \<Rightarrow> nat option \<Rightarrow> ('z shop_db_scheme, string set) prog" where
  "deactivate_coupons ks user_id =
     bindp (asks (\<lambda>s. (\<Union>k \<in> set ks. {coupon_code (row (coupons s) k),
              cp_name (row (coupon_payments s) (coupon_payment (row (coupons s) k)))}))) (\<lambda>deactivated.
     thenp (db_update coupons coupons_update (\<lambda>k _. k \<in> set ks) (\<lambda>c. c\<lparr>coupon_enabled := False\<rparr>))
    (thenp (case user_id of
              None \<Rightarrow> ret ()
            | Some u \<Rightarrow>
                if u = 0 then ret ()
                else for_each ks (\<lambda>k. emit (LogLine ''Deactivated coupon'' [u, k])))
       (ret deactivated)))"

text \<open>\<open>Voucher.is_redeemed\<close>\<close>

definition voucher_is_redeemed :: "'z shop_db_scheme \<Rightarrow> nat \<Rightarrow> bool" where
  "voucher_is_redeemed s k =
     (case voucher_coupon (row (vouchers s) k) of
        None \<Rightarrow> False
      | Some c \<Rightarrow>
          (case t_last (coupon_versions s) (\<lambda>_ v. cv_coupon v = c) of
             None \<Rightarrow> False
           | Some v \<Rightarrow> t_exists (coupon_redemptions s) (\<lambda>_ r. cred_coupon_version r = v)))"

section \<open>Lemmas\<close>

lemma save_and_log_order_run:
  "save_and_log_order k f acting s =
    (let s1 = s\<lparr>orders := t_save (orders s) k f\<rparr>
     in (Inr (), s1\<lparr>order_audits := snd (t_create (order_audits s)
       \<lparr>audit_acting_user = acting, audit_object = Some k,
        audit_data_before = (if k \<in> set (pks (orders s)) then Some (order_to_dict s k) else None),
        audit_data_after = order_to_dict s1 k\<rparr>)\<rparr>))"
  by (simp add: save_and_log_order_def save_and_log_def atomic_run bindp_run thenp_run Let_def)

lemma save_and_log_b2b_order_run:
  "save_and_log_b2b_order k f acting s =
    (let s1 = s\<lparr>b2b_orders := t_save (b2b_orders s) k f\<rparr>
     in (Inr (), s1\<lparr>b2b_order_audits := snd (t_create (b2b_order_audits s)
       \<lparr>audit_acting_user = acting, audit_object = Some k,
        audit_data_before = (if k \<in> set (pks (b2b_orders s)) then Some (b2b_order_to_dict s k) else None),
        audit_data_after = b2b_order_to_dict s1 k\<rparr>)\<rparr>))"
  by (simp add: save_and_log_b2b_order_def save_and_log_def atomic_run bindp_run thenp_run Let_def)

lemma latest_version_in:
  "latest_version s p = Some v \<Longrightarrow> v \<in> set (pks (product_versions s)) \<and> pv_product (row (product_versions s) v) = p"
  by (auto simp: latest_version_def ordered_versions_def first_or_none_def dest: first_order_by_desc_in)

lemma latest_version_newest:
  "latest_version s p = Some v \<Longrightarrow> w \<in> set (pks (product_versions s)) \<Longrightarrow> pv_product (row (product_versions s) w) = p \<Longrightarrow>
   pv_created_on (row (product_versions s) w) \<le> pv_created_on (row (product_versions s) v)"
  unfolding latest_version_def ordered_versions_def first_or_none_def
  by (erule first_order_by_desc_max) simp

lemma coupon_payment_version_clean_iff:
  "coupon_payment_version_clean v = Inr () \<longleftrightarrow>
     0 < cpv_amount v \<and> (cpv_discount_type v = PercentOff \<longrightarrow> cpv_amount v \<le> 1)"
  by (auto simp: coupon_payment_version_clean_def validate_amount_def split: option.splits)

lemma discount_amount_cents: "is_cents (calculate_discount_amount v pv p)"
  by (auto simp: calculate_discount_amount_def round_half_up_def split: option.splits discount_type.splits)

lemma discount_amount_nonneg:
  "0 \<le> cpv_amount v \<Longrightarrow> 0 \<le> p \<Longrightarrow> 0 \<le> calculate_discount_amount v None (Some p)"
  by (auto simp: calculate_discount_amount_def given_price_def round_half_up_def half_up_nonneg
      split: option.splits discount_type.splits)

lemma discount_amount_percent:
  "cpv_discount_type v = PercentOff \<Longrightarrow> calculate_discount_amount v None (Some p) = round_half_up (cpv_amount v * p)"
  by (simp add: calculate_discount_amount_def given_price_def round_half_up_def round_cents_half_up_def)

lemma price_with_discount_cases:
  fixes s :: "'z shop_db_scheme"
  defines "pr \<equiv> \<lambda>pv. pv_price (row (product_versions s) pv)"
  shows "get_product_version_price_with_discount s cvo pv = positive_or_zero (pr pv) \<or>
    (\<exists>cv. cvo = Some cv \<and> get_product_version_price_with_discount s cvo pv =
       positive_or_zero (pr pv - calculate_discount_amount
         (row (coupon_payment_versions s) (cv_payment_version (row (coupon_versions s) cv))) None (Some (pr pv))))"
  by (cases cvo) (auto simp: get_product_version_price_with_discount_def product_version_discount_def pr_def Let_def)

lemma price_with_discount_bounds_aux:
  assumes "0 \<le> pv_price (row (product_versions s) pv)" and "is_cents (pv_price (row (product_versions s) pv))"
    and "\<And>cv. cvo = Some cv \<Longrightarrow> 0 \<le> cpv_amount (row (coupon_payment_versions s) (cv_payment_version (row (coupon_versions s) cv)))"
  shows "0 \<le> get_product_version_price_with_discount s cvo pv \<and>
    get_product_version_price_with_discount s cvo pv \<le> pv_price (row (product_versions s) pv) \<and>
    is_cents (get_product_version_price_with_discount s cvo pv)"
  using price_with_discount_cases [of s cvo pv]
proof (elim disjE exE conjE)
  assume "get_product_version_price_with_discount s cvo pv = positive_or_zero (pv_price (row (product_versions s) pv))"
  with assms(1,2) show ?thesis by (simp add: positive_or_zero_def)
next
  fix cv
  let ?d = "calculate_discount_amount
    (row (coupon_payment_versions s) (cv_payment_version (row (coupon_versions s) cv))) None
    (Some (pv_price (row (product_versions s) pv)))"
  assume cv: "cvo = Some cv" and eq: "get_product_version_price_with_discount s cvo pv =
    positive_or_zero (pv_price (row (product_versions s) pv) - ?d)"
  have "0 \<le> ?d" and "is_cents ?d"
    using discount_amount_nonneg assms(1) assms(3) [OF cv] discount_amount_cents by blast+
  then show ?thesis
    using assms(1,2) by (auto simp: eq positive_or_zero_def is_cents_diff)
qed

text \<open>
  The price under a coupon whose amount passed validation is never negative, never above the price
  of the product version, and in whole cents; a percent-off coupon that applies to the product
  charges the rest of the price up to half a cent, and one of 100 percent makes it free.
\<close>

theorem discounted_price_bounds:
  assumes "0 \<le> pv_price (row (product_versions s) pv)" and "is_cents (pv_price (row (product_versions s) pv))"
    and "coupon_payment_version_clean (row (coupon_payment_versions s) (cv_payment_version (row (coupon_versions s) cv))) = Inr ()"
    and "t_exists (coupon_eligibilities s) (\<lambda>_ e. ce_coupon e = cv_coupon (row (coupon_versions s) cv) \<and>
      ce_product e = pv_product (row (product_versions s) pv))"
    and "cpv_discount_type (row (coupon_payment_versions s) (cv_payment_version (row (coupon_versions s) cv))) = PercentOff"
  shows "0 \<le> get_product_version_price_with_discount s (Some cv) pv \<and>
    get_product_version_price_with_discount s (Some cv) pv \<le> pv_price (row (product_versions s) pv) \<and>
    is_cents (get_product_version_price_with_discount s (Some cv) pv) \<and>
    \<bar>get_product_version_price_with_discount s (Some cv) pv -
       pv_price (row (product_versions s) pv) *
         (1 - cpv_amount (row (coupon_payment_versions s) (cv_payment_version (row (coupon_versions s) cv))))\<bar> \<le> 1 / 200 \<and>
    (cpv_amount (row (coupon_payment_versions s) (cv_payment_version (row (coupon_versions s) cv))) = 1 \<longrightarrow>
       get_product_version_price_with_discount s (Some cv) pv = 0)"
proof -
  let ?p = "pv_price (row (product_versions s) pv)"
  let ?v = "row (coupon_payment_versions s) (cv_payment_version (row (coupon_versions s) cv))"
  let ?a = "cpv_amount ?v"
  have a: "0 < ?a" "?a \<le> 1"
    using assms(3,5) by (simp_all add: coupon_payment_version_clean_iff)
  have ap: "0 \<le> ?a * ?p" "?a * ?p \<le> ?p"
    using a assms(1) by (simp_all add: mult_left_le_one_le)
  have price: "get_product_version_price_with_discount s (Some cv) pv = positive_or_zero (?p - round_half_up (?a * ?p))"
    using assms(4,5) by (simp add: get_product_version_price_with_discount_def product_version_discount_def Let_def discount_amount_percent)
  moreover have "round_half_up (?a * ?p) \<le> ?p"
    using half_up_le_cents [OF ap] assms(2) by (simp add: round_half_up_def)
  ultimately have eq: "get_product_version_price_with_discount s (Some cv) pv = ?p - round_half_up (?a * ?p)"
    by (simp add: positive_or_zero_def)
  have "\<bar>round_half_up (?a * ?p) - ?a * ?p\<bar> \<le> 1 / 200"
    using half_up_error [OF ap(1)] by (simp add: round_half_up_def)
  moreover have "?p - round_half_up (?a * ?p) - ?p * (1 - ?a) = - (round_half_up (?a * ?p) - ?a * ?p)"
    by (simp add: algebra_simps)
  ultimately have "\<bar>?p - round_half_up (?a * ?p) - ?p * (1 - ?a)\<bar> \<le> 1 / 200"
    by (simp only: abs_minus_cancel)
  moreover have "?a = 1 \<longrightarrow> ?p - round_half_up (?a * ?p) = 0"
    using assms(1,2) by (simp add: round_half_up_def half_up_cents)
  moreover have "\<And>c. Some cv = Some c \<Longrightarrow> 0 \<le> cpv_amount (row (coupon_payment_versions s) (cv_payment_version (row (coupon_versions s) c)))"
    using a by simp
  ultimately show ?thesis
    using price_with_discount_bounds_aux [OF assms(1,2), of "Some cv"] by (simp only: eq)
qed

lemma order_id_of_reference_number:
  "get_order_id_by_reference_number (reference_number prefix k) prefix = Inr (int k)"
proof -
  have "starts_with (prefix @ CHR ''-'' # nat_str k) (prefix @ ''-'')"
    using starts_with_append [of "prefix @ ''-''" "nat_str k"] by simp
  then show ?thesis
    by (simp add: get_order_id_by_reference_number_def reference_number_def Let_def)
qed

text \<open>
  C24: The reference number sent to the payment service names exactly one order: reading it back
  gives the id of the order it was made from, and the reference number of a business order is
  refused as a reference number of a learner's order and the other way round.
\<close>

theorem reference_number_roundtrip:
  "get_order_id_by_reference_number (reference_number prefix k) prefix = Inr (int k) \<and>
   get_order_id_by_reference_number (reference_number (b2b_order_reference_number_prefix env) k)
       (order_reference_number_prefix env) =
     Inl (ParseException (''Reference number must start with '' @ order_reference_number_prefix env @ ''-'')) \<and>
   get_order_id_by_reference_number (reference_number (order_reference_number_prefix env) k)
       (b2b_order_reference_number_prefix env) =
     Inl (ParseException (''Reference number must start with '' @ b2b_order_reference_number_prefix env @ ''-''))"
proof -
  have id: "get_order_id_by_reference_number (reference_number prefix k) prefix = Inr (int k)"
    by (rule order_id_of_reference_number)
  show ?thesis
    unfolding id
    by (simp add: get_order_id_by_reference_number_def reference_number_def Let_def
        b2b_order_reference_number_prefix_def order_reference_number_prefix_def
        REFERENCE_NUMBER_PREFIX_def B2B_REFERENCE_NUMBER_PREFIX_def)
qed

subsection \<open>A concrete shop\<close>

text \<open>
  On top of the example courses: the second run and the program are for sale; the user's basket holds the second run
  with its date selected and the coupon \<open>HALF\<close>, which takes half off.
\<close>

definition example_cpv :: coupon_payment_version_row where
  "example_cpv =
     \<lparr>cpv_tag = None, cpv_payment = 1, cpv_automatic = False, cpv_coupon_type = PROMO,
      cpv_discount_type = PercentOff, cpv_num_coupon_codes = 1, cpv_max_redemptions = 10,
      cpv_max_redemptions_per_user = 1, cpv_amount = 1 / 2, cpv_activation_date = None,
      cpv_expiration_date = None, cpv_company = None, cpv_payment_type = None,
      cpv_payment_transaction = None, cpv_created_on = 5\<rparr>"

definition example_pv :: "nat \<Rightarrow> decimal \<Rightarrow> product_version_row" where
  "example_pv p price =
     \<lparr>pv_product = p, pv_price = price, pv_description = ''course'', pv_text_id = None,
      pv_requires_enrollment_code = False, pv_created_on = 5\<rparr>"

definition example_product :: "content \<Rightarrow> product_row" where
  "example_product c = \<lparr>prod_content = c, prod_is_active = True, prod_is_private = False\<rparr>"

definition example_order :: order_row where
  "example_order = \<lparr>ord_status = OrderCreated, ord_created_on = 5, ord_purchaser = 1,
     ord_total_price_paid = 50, ord_tax_country_code = None, ord_tax_rate = Some 0, ord_tax_rate_name = None\<rparr>"

definition example_order_dict :: order_dict where
  "example_order_dict = \<lparr>od_fields = example_order, od_purchaser_email = [], od_lines = [], od_coupons = [],
     od_run_enrollments = [], od_total_price = None, od_total_tax = None, od_receipts = []\<rparr>"

definition example_b2b_order :: b2b_order_row where
  "example_b2b_order = \<lparr>ord_status = OrderCreated, ord_created_on = 5, bo_num_seats = 2, bo_email = ''b@x.org'',
     bo_product_version = 1, bo_per_item_price = 100, bo_total_price = 200, bo_unique_id = [],
     bo_coupon_payment_version = None, bo_coupon = None, bo_discount = None, bo_contract_number = None,
     bo_program_run = None\<rparr>"

definition example_voucher :: voucher_row where
  "example_voucher = \<lparr>voucher_voucher_id = None, voucher_employee_id = [], voucher_employee_name = [],
     voucher_course_start_date_input = 0, voucher_course_id_input = [], voucher_course_title_input = [],
     voucher_uploaded = 0, voucher_user = 0, voucher_coupon = None, voucher_product = None, voucher_enrollment = None\<rparr>"

definition example_shop :: shop_db where
  "example_shop = example_xpro
     \<lparr>products = table_of (example_product (OtherContent [] 0))
        [example_product (CourseRunContent 2), example_product (ProgramContent 1)],
      product_versions = table_of (example_pv 0 0) [example_pv 1 100, example_pv 2 150],
      baskets = table_of \<lparr>basket_user = 0, basket_updated_on = 0\<rparr> [\<lparr>basket_user = 1, basket_updated_on = 7\<rparr>],
      basket_items = table_of \<lparr>bi_product = 0, bi_basket = 0, bi_quantity = 0, bi_program_run = None\<rparr>
        [\<lparr>bi_product = 1, bi_basket = 1, bi_quantity = 1, bi_program_run = None\<rparr>],
      orders = empty_table example_order, order_audits = no_audits example_order_dict,
      lines = empty_table \<lparr>line_order = 0, line_product_version = 0, line_quantity = 0\<rparr>,
      line_run_selections = empty_table \<lparr>lrs_line = 0, lrs_run = 0\<rparr>,
      program_run_lines = empty_table \<lparr>prl_line = 0, prl_program_run = 0\<rparr>,
      coupon_payments = table_of \<lparr>cp_name = []\<rparr> [\<lparr>cp_name = ''launch''\<rparr>],
      coupon_payment_versions = table_of example_cpv [example_cpv],
      coupons = table_of \<lparr>coupon_code = [], coupon_payment = 0, coupon_is_global = False, coupon_enabled = False,
          coupon_include_future_runs = False\<rparr>
        [\<lparr>coupon_code = ''HALF'', coupon_payment = 1, coupon_is_global = False, coupon_enabled = True,
          coupon_include_future_runs = False\<rparr>],
      coupon_versions = table_of \<lparr>cv_coupon = 0, cv_payment_version = 0, cv_created_on = 0\<rparr>
        [\<lparr>cv_coupon = 1, cv_payment_version = 1, cv_created_on = 5\<rparr>],
      coupon_eligibilities = table_of \<lparr>ce_coupon = 0, ce_product = 0, ce_program_run = None\<rparr>
        [\<lparr>ce_coupon = 1, ce_product = 1, ce_program_run = None\<rparr>],
      coupon_selections = table_of \<lparr>csel_coupon = 0, csel_basket = 0\<rparr> [\<lparr>csel_coupon = 1, csel_basket = 1\<rparr>],
      coupon_redemptions = empty_table \<lparr>cred_coupon_version = 0, cred_order = 0\<rparr>,
      receipts = empty_table \<lparr>receipt_order = None, receipt_data = []\<rparr>,
      course_run_selections = table_of \<lparr>crs_basket = 0, crs_run = 0\<rparr> [\<lparr>crs_basket = 1, crs_run = 2\<rparr>],
      data_consent_agreements = empty_table \<lparr>dca_content = [], dca_company = 0, dca_is_global = False, dca_courses = []\<rparr>,
      data_consent_users = empty_table \<lparr>dcu_user = 0, dcu_agreement = 0, dcu_coupon = 0, dcu_consent_date = None\<rparr>,
      bulk_assignments = empty_table \<lparr>bulk_assignment_sheet_id = None, bulk_sheet_last_modified_date = None,
        bulk_last_assignment_date = None, bulk_assignments_started_date = None, bulk_message_delivery_completed_date = None\<rparr>,
      product_coupon_assignments = empty_table \<lparr>pca_email = [], pca_original_email = None, pca_product_coupon = 0,
        pca_redeemed = False, pca_message_status = None, pca_message_status_date = None, pca_bulk_assignment = None\<rparr>,
      tax_rates = table_of \<lparr>tax_country_code = [], tax_tax_rate = 0, tax_tax_rate_name = Some ''VAT'', tax_active = True\<rparr>
        [\<lparr>tax_country_code = ''GB'', tax_tax_rate = 20, tax_tax_rate_name = Some ''VAT'', tax_active = True\<rparr>],
      vouchers = empty_table example_voucher,
      b2b_coupons = empty_table \<lparr>bc_name = [], bc_coupon_code = [], bc_discount_percent = 0, bc_product = None,
        bc_reusable = False, bc_enabled = False, bc_company = None, bc_activation_date = None, bc_expiration_date = None\<rparr>,
      b2b_orders = empty_table example_b2b_order,
      b2b_order_audits = no_audits \<lparr>bod_fields = example_b2b_order,
        bod_product_version = (example_pv 0 0, example_product (OtherContent [] 0)), bod_receipts = []\<rparr>,
      b2b_receipts = empty_table \<lparr>br_order = None, br_data = []\<rparr>,
      b2b_coupon_redemptions = empty_table \<lparr>bcr_coupon = 0, bcr_order = 0\<rparr>\<rparr>"

text \<open>The tables of the shop, so that concrete evaluations do not unfold all of it.\<close>

lemma example_tables:
  "users example_shop = users example_users_db"
  "legal_addresses example_shop = legal_addresses example_users_db"
  "profiles example_shop = profiles example_users_db"
  "affiliates example_shop = affiliates example_users_db"
  "referral_actions example_shop = referral_actions example_users_db"
  "courseware_users example_shop = courseware_users example_users_db"
  "openedx_auths example_shop = openedx_auths example_users_db"
  "effects example_shop = []"
  "companies example_shop = table_of \<lparr>company_name = ''Acme''\<rparr> [\<lparr>company_name = ''Acme''\<rparr>]"
  "platforms example_shop = table_of \<lparr>plat_name = [], plat_enable_sync = False\<rparr> [\<lparr>plat_name = ''xPRO'', plat_enable_sync = False\<rparr>]"
  "course_languages example_shop = empty_table \<lparr>lang_name = [], lang_priority = None, lang_is_active = True\<rparr>"
  "programs example_shop = table_of \<lparr>prog_title = [], prog_readable_id = [], prog_live = True, prog_is_external = False, prog_platform = 1\<rparr> [\<lparr>prog_title = ''P'', prog_readable_id = ''program-v1:P'', prog_live = True, prog_is_external = False, prog_platform = 1\<rparr>]"
  "program_runs example_shop = empty_table \<lparr>prun_program = 0, prun_run_tag = [], prun_start_date = None, prun_end_date = None\<rparr>"
  "topics example_shop = empty_table \<lparr>topic_name = [], topic_parent = None\<rparr>"
  "courses example_shop = table_of (example_course [] None None) [example_course ''c1'' (Some 1) (Some 1), example_course ''c2'' (Some 1) (Some 2)]"
  "course_runs example_shop = table_of (example_run 0 [] []) [example_run 1 ''c1-R1'' ''R1'', example_run 2 ''c2-R1'' ''R1'', example_run 1 ''c1-R2'' ''R2'']"
  "run_enrollments example_shop = table_of example_run_enrollment [example_run_enrollment]"
  "run_enrollment_audits example_shop = no_audits (example_run_enrollment, example_extra)"
  "program_enrollments example_shop = empty_table example_program_enrollment"
  "program_enrollment_audits example_shop = no_audits (example_program_enrollment, example_extra)"
  "grades example_shop = empty_table example_grade"
  "grade_audits example_shop = no_audits example_grade"
  "run_certificates example_shop = empty_table \<lparr>cert_user = 0, cert_uuid = [], cert_is_revoked = False, cert_certificate_page_revision = None, cert_course_run = 0\<rparr>"
  "program_certificates example_shop = empty_table \<lparr>cert_user = 0, cert_uuid = [], cert_is_revoked = False, cert_certificate_page_revision = None, cert_program = 0\<rparr>"
  "products example_shop = table_of (example_product (OtherContent [] 0)) [example_product (CourseRunContent 2), example_product (ProgramContent 1)]"
  "product_versions example_shop = table_of (example_pv 0 0) [example_pv 1 100, example_pv 2 150]"
  "baskets example_shop = table_of \<lparr>basket_user = 0, basket_updated_on = 0\<rparr> [\<lparr>basket_user = 1, basket_updated_on = 7\<rparr>]"
  "basket_items example_shop = table_of \<lparr>bi_product = 0, bi_basket = 0, bi_quantity = 0, bi_program_run = None\<rparr> [\<lparr>bi_product = 1, bi_basket = 1, bi_quantity = 1, bi_program_run = None\<rparr>]"
  "orders example_shop = empty_table example_order"
  "order_audits example_shop = no_audits example_order_dict"
  "lines example_shop = empty_table \<lparr>line_order = 0, line_product_version = 0, line_quantity = 0\<rparr>"
  "line_run_selections example_shop = empty_table \<lparr>lrs_line = 0, lrs_run = 0\<rparr>"
  "program_run_lines example_shop = empty_table \<lparr>prl_line = 0, prl_program_run = 0\<rparr>"
  "coupon_payments example_shop = table_of \<lparr>cp_name = []\<rparr> [\<lparr>cp_name = ''launch''\<rparr>]"
  "coupon_payment_versions example_shop = table_of example_cpv [example_cpv]"
  "coupons example_shop = table_of \<lparr>coupon_code = [], coupon_payment = 0, coupon_is_global = False, coupon_enabled = False, coupon_include_future_runs = False\<rparr> [\<lparr>coupon_code = ''HALF'', coupon_payment = 1, coupon_is_global = False, coupon_enabled = True, coupon_include_future_runs = False\<rparr>]"
  "coupon_versions example_shop = table_of \<lparr>cv_coupon = 0, cv_payment_version = 0, cv_created_on = 0\<rparr> [\<lparr>cv_coupon = 1, cv_payment_version = 1, cv_created_on = 5\<rparr>]"
  "coupon_eligibilities example_shop = table_of \<lparr>ce_coupon = 0, ce_product = 0, ce_program_run = None\<rparr> [\<lparr>ce_coupon = 1, ce_product = 1, ce_program_run = None\<rparr>]"
  "coupon_selections example_shop = table_of \<lparr>csel_coupon = 0, csel_basket = 0\<rparr> [\<lparr>csel_coupon = 1, csel_basket = 1\<rparr>]"
  "coupon_redemptions example_shop = empty_table \<lparr>cred_coupon_version = 0, cred_order = 0\<rparr>"
  "receipts example_shop = empty_table \<lparr>receipt_order = None, receipt_data = []\<rparr>"
  "course_run_selections example_shop = table_of \<lparr>crs_basket = 0, crs_run = 0\<rparr> [\<lparr>crs_basket = 1, crs_run = 2\<rparr>]"
  "data_consent_agreements example_shop = empty_table \<lparr>dca_content = [], dca_company = 0, dca_is_global = False, dca_courses = []\<rparr>"
  "data_consent_users example_shop = empty_table \<lparr>dcu_user = 0, dcu_agreement = 0, dcu_coupon = 0, dcu_consent_date = None\<rparr>"
  "bulk_assignments example_shop = empty_table \<lparr>bulk_assignment_sheet_id = None, bulk_sheet_last_modified_date = None, bulk_last_assignment_date = None, bulk_assignments_started_date = None, bulk_message_delivery_completed_date = None\<rparr>"
  "product_coupon_assignments example_shop = empty_table \<lparr>pca_email = [], pca_original_email = None, pca_product_coupon = 0, pca_redeemed = False, pca_message_status = None, pca_message_status_date = None, pca_bulk_assignment = None\<rparr>"
  "tax_rates example_shop = table_of \<lparr>tax_country_code = [], tax_tax_rate = 0, tax_tax_rate_name = Some ''VAT'', tax_active = True\<rparr> [\<lparr>tax_country_code = ''GB'', tax_tax_rate = 20, tax_tax_rate_name = Some ''VAT'', tax_active = True\<rparr>]"
  "vouchers example_shop = empty_table example_voucher"
  "b2b_coupons example_shop = empty_table \<lparr>bc_name = [], bc_coupon_code = [], bc_discount_percent = 0, bc_product = None, bc_reusable = False, bc_enabled = False, bc_company = None, bc_activation_date = None, bc_expiration_date = None\<rparr>"
  "b2b_orders example_shop = empty_table example_b2b_order"
  "b2b_order_audits example_shop = no_audits \<lparr>bod_fields = example_b2b_order, bod_product_version = (example_pv 0 0, example_product (OtherContent [] 0)), bod_receipts = []\<rparr>"
  "b2b_receipts example_shop = empty_table \<lparr>br_order = None, br_data = []\<rparr>"
  "b2b_coupon_redemptions example_shop = empty_table \<lparr>bcr_coupon = 0, bcr_order = 0\<rparr>"
  by (simp_all add: example_shop_def example_xpro_def)

lemmas example_defs =
  example_tables example_users_db_def table_of_def empty_table_def no_audits_def
  example_cpv_def example_pv_def example_product_def example_run_def example_course_def
  example_run_enrollment_def example_program_enrollment_def

lemma discounted_price_bounds_witness:
  "get_product_version_price_with_discount example_shop (Some 1) 1 \<le> 100"
proof -
  have "pv_price (row (product_versions example_shop) 1) = 100" "pv_product (row (product_versions example_shop) 1) = 1"
    "cv_payment_version (row (coupon_versions example_shop) 1) = 1" "cv_coupon (row (coupon_versions example_shop) 1) = 1"
    "row (coupon_payment_versions example_shop) 1 = example_cpv"
    by (simp_all add: example_defs)
  moreover have "is_cents 100" by (simp add: is_cents_def)
  moreover have "coupon_payment_version_clean example_cpv = Inr ()" "cpv_discount_type example_cpv = PercentOff"
    by (simp_all add: coupon_payment_version_clean_iff example_cpv_def)
  moreover have "t_exists (coupon_eligibilities example_shop) (\<lambda>_ e. ce_coupon e = 1 \<and> ce_product e = 1)"
    by (simp add: example_defs t_exists_def)
  ultimately show ?thesis
    using discounted_price_bounds [of example_shop 1 1] by simp
qed

end
