(* ===== verification/Geo_Tax.thy ===== *)
theory Geo_Tax
  imports Shop_Models
begin

text \<open>
  \<open>maxmind/api.py\<close> and \<open>maxmind/models.py\<close>: the import of the MaxMind files and the lookup of the
  country of an address; and the part of \<open>ecommerce/api.py\<close> that decides which country a visitor is
  taxed in and adds the tax. The addresses and networks of Python's \<open>ipaddress\<close> module are parsed as it
  does (without scope ids and without netmasks in dotted form).
\<close>

section \<open>IP addresses\<close>

definition octet :: "string \<Rightarrow> nat option" where
  "octet s =
     (if s = [] \<or> length s > 3 \<or> \<not> is_digit_string s \<or> (length s > 1 \<and> hd s = CHR ''0'') then None
      else (case int_digits 0 False s of None \<Rightarrow> None | Some n \<Rightarrow> if n > 255 then None else Some n))"

fun all_some :: "'a option list \<Rightarrow> 'a list option" where
  "all_some [] = Some []"
| "all_some (None # xs) = None"
| "all_some (Some x # xs) = map_option ((#) x) (all_some xs)"

definition from_base :: "nat \<Rightarrow> nat list \<Rightarrow> nat" where
  "from_base b ds = foldl (\<lambda>acc d. acc * b + d) 0 ds"

definition ipv4_address :: "string \<Rightarrow> nat option" where
  "ipv4_address s =
     (let parts = py_split CHR ''.'' s
      in if length parts \<noteq> 4 then None else map_option (from_base 256) (all_some (map octet parts)))"

definition hex_val :: "char \<Rightarrow> nat option" where
  "hex_val c =
     (let n = of_char (lower_char c) :: nat
      in if 48 \<le> n \<and> n \<le> 57 then Some (n - 48) else if 97 \<le> n \<and> n \<le> 102 then Some (n - 87) else None)"

definition hextet :: "string \<Rightarrow> nat option" where
  "hextet s = (if s = [] \<or> length s > 4 then None else map_option (from_base 16) (all_some (map hex_val s)))"

text \<open>An embedded IPv4 address in the last part counts as two groups.\<close>

definition ipv6_parts :: "string \<Rightarrow> string list option" where
  "ipv6_parts s =
     (let parts = py_split CHR '':'' s
      in if length parts < 3 then None
         else if CHR ''.'' \<in> set (last parts) then
           map_option (\<lambda>n. butlast parts @
               [map hex_digit [n div 65536 div 4096, n div 65536 div 256 mod 16, n div 65536 div 16 mod 16, n div 65536 mod 16],
                map hex_digit [n mod 65536 div 4096, n mod 65536 div 256 mod 16, n mod 65536 div 16 mod 16, n mod 65536 mod 16]])
             (ipv4_address (last parts))
         else Some parts)"

definition ipv6_groups :: "string list \<Rightarrow> nat list option" where
  "ipv6_groups parts =
     (let inner = butlast (tl parts); gaps = length (filter (\<lambda>p. p = []) inner)
      in if length parts > 9 then None
         else if gaps = 0 then
           (if length parts \<noteq> 8 \<or> hd parts = [] \<or> last parts = [] then None else all_some (map hextet parts))
         else if gaps = 1 then
           (let before = takeWhile (\<lambda>p. p \<noteq> []) inner;
                after = tl (dropWhile (\<lambda>p. p \<noteq> []) inner);
                hi = (if hd parts = [] then before else hd parts # before);
                lo = (if last parts = [] then after else after @ [last parts])
            in if (hd parts = [] \<and> hi \<noteq> []) \<or> (last parts = [] \<and> lo \<noteq> []) \<or> length hi + length lo > 7 then None
               else (case (all_some (map hextet hi), all_some (map hextet lo)) of
                   (Some h, Some l) \<Rightarrow> Some (h @ replicate (8 - (length h + length l)) 0 @ l)
                 | _ \<Rightarrow> None))
         else None)"

definition ipv6_address :: "string \<Rightarrow> nat option" where
  "ipv6_address s =
     (case ipv6_parts s of
        None \<Rightarrow> None | Some parts \<Rightarrow> map_option (from_base 65536) (ipv6_groups parts))"

text \<open>\<open>ipaddress.ip_address\<close>; anything else, \<open>None\<close> included, is a \<open>ValueError\<close>.\<close>

definition ip_address :: "string option \<Rightarrow> exn + nat" where
  "ip_address a =
     (case a of
        None \<Rightarrow> Inl (ValueError ''does not appear to be an IPv4 or IPv6 address'')
      | Some s \<Rightarrow>
          (case ipv4_address s of
             Some n \<Rightarrow> Inr n
           | None \<Rightarrow>
               (case ipv6_address s of
                  Some n \<Rightarrow> Inr n
                | None \<Rightarrow> Inl (ValueError ''does not appear to be an IPv4 or IPv6 address''))))"

text \<open>A network as its first and last address; the host bits have to be zero.\<close>

definition ip_network :: "(string \<Rightarrow> nat option) \<Rightarrow> nat \<Rightarrow> string \<Rightarrow> exn + nat \<times> nat" where
  "ip_network address bits s =
     (let e = Inl (ValueError ''not a valid network'');
          (a, p) = (case py_split CHR ''/'' s of
                      [a] \<Rightarrow> (Some a, Some bits)
                    | [a, p] \<Rightarrow> (Some a, if is_digit_string p then int_digits 0 False p else None)
                    | _ \<Rightarrow> (None, None))
      in case (a, p) of
           (Some a, Some p) \<Rightarrow>
             (case address a of
                None \<Rightarrow> e
              | Some n \<Rightarrow>
                  if p > bits \<or> n mod 2 ^ (bits - p) \<noteq> 0 then e else Inr (n, n + 2 ^ (bits - p) - 1))
         | _ \<Rightarrow> e)"

section \<open>MaxMind tables\<close>

record geoname_row =
  geo_geoname_id :: int
  geo_locale_code :: string
  geo_continent_code :: string
  geo_continent_name :: string
  geo_country_iso_code :: string
  geo_country_name :: string
  geo_subdivision_1_iso_code :: "string option"
  geo_subdivision_1_name :: "string option"
  geo_subdivision_2_iso_code :: "string option"
  geo_subdivision_2_name :: "string option"
  geo_city_name :: "string option"
  geo_metro_code :: "string option"
  geo_time_zone :: "string option"
  geo_is_in_european_union :: "string option"

record netblock_row =
  nb_is_ipv6 :: bool
  nb_decimal_ip_start :: nat
  nb_decimal_ip_end :: nat
  nb_network :: string
  nb_geoname_id :: "int option"
  nb_registered_country_geoname_id :: "int option"
  nb_represented_country_geoname_id :: "int option"
  nb_is_anonymous_proxy :: "string option"
  nb_is_satellite_provider :: "string option"
  nb_postal_code :: "string option"
  nb_latitude :: "string option"
  nb_longitude :: "string option"
  nb_accuracy_radius :: "string option"

record geo_db =
  geonames :: "geoname_row table"
  netblocks :: "netblock_row table"

interpretation geonames_tb: db_table geonames geonames_update
  by unfold_locales simp_all
interpretation netblocks_tb: db_table netblocks netblocks_update
  by unfold_locales simp_all

type_synonym csv_row = "(string \<times> string) list"

definition column :: "csv_row \<Rightarrow> string \<Rightarrow> exn + string" where
  "column r k = (case map_of r k of None \<Rightarrow> Inl (KeyError k) | Some v \<Rightarrow> Inr v)"

definition id_column :: "csv_row \<Rightarrow> string \<Rightarrow> exn + int option" where
  "id_column r k =
     (case map_of r k of
        None \<Rightarrow> Inr None
      | Some v \<Rightarrow> if v = [] then Inr None
                  else (case py_int v of Inl e \<Rightarrow> Inl e | Inr n \<Rightarrow> Inr (Some n)))"

definition geoname_of :: "csv_row \<Rightarrow> exn + geoname_row" where
  "geoname_of r =
     (case (column r ''geoname_id'', column r ''locale_code'', column r ''continent_code'',
            column r ''continent_name'', column r ''country_iso_code'', column r ''country_name'') of
        (Inr g, Inr l, Inr cc, Inr cn, Inr ic, Inr n) \<Rightarrow>
          (case py_int g of
             Inl e \<Rightarrow> Inl e
           | Inr g \<Rightarrow>
               Inr \<lparr>geo_geoname_id = g, geo_locale_code = l, geo_continent_code = cc, geo_continent_name = cn,
                    geo_country_iso_code = ic, geo_country_name = n,
                    geo_subdivision_1_iso_code = map_of r ''subdivision_1_iso_code'',
                    geo_subdivision_1_name = map_of r ''subdivision_1_name'',
                    geo_subdivision_2_iso_code = map_of r ''subdivision_2_iso_code'',
                    geo_subdivision_2_name = map_of r ''subdivision_2_name'',
                    geo_city_name = map_of r ''city_name'', geo_metro_code = map_of r ''metro_code'',
                    geo_time_zone = map_of r ''time_zone'',
                    geo_is_in_european_union = map_of r ''is_in_european_union''\<rparr>)
      | _ \<Rightarrow> Inl (KeyError ''geoname''))"

definition netblock_of :: "bool \<Rightarrow> csv_row \<Rightarrow> exn + netblock_row" where
  "netblock_of is_ipv6 r =
     (case (case column r ''geoname_id'' of Inl e \<Rightarrow> Inl e | Inr _ \<Rightarrow> column r ''network'') of
        Inl e \<Rightarrow> Inl e
      | Inr network \<Rightarrow>
          (case (if is_ipv6 then ip_network ipv6_address 128 network else ip_network ipv4_address 32 network) of
             Inl e \<Rightarrow> Inl e
           | Inr (ip_start, ip_end) \<Rightarrow>
               (case (id_column r ''geoname_id'', id_column r ''registered_country_geoname_id'',
                      id_column r ''represented_country_geoname_id'') of
                  (Inr g, Inr rg, Inr pg) \<Rightarrow>
                    Inr \<lparr>nb_is_ipv6 = is_ipv6, nb_decimal_ip_start = ip_start, nb_decimal_ip_end = ip_end,
                         nb_network = network, nb_geoname_id = g, nb_registered_country_geoname_id = rg,
                         nb_represented_country_geoname_id = pg,
                         nb_is_anonymous_proxy = map_of r ''is_anonymous_proxy'',
                         nb_is_satellite_provider = map_of r ''is_satellite_provider'',
                         nb_postal_code = map_of r ''postal_code'', nb_latitude = map_of r ''latitude'',
                         nb_longitude = map_of r ''longitude'', nb_accuracy_radius = map_of r ''accuracy_radius''\<rparr>
                | _ \<Rightarrow> Inl (ValueError ''invalid geoname id''))))"

datatype maxmind_csv_type = CountryLocations | CountryBlocksIpv4 | CountryBlocksIpv6 | OtherCsv string

fun sequence :: "(exn + 'a) list \<Rightarrow> exn + 'a list" where
  "sequence [] = Inr []"
| "sequence (Inl e # rs) = Inl e"
| "sequence (Inr x # rs) = (case sequence rs of Inl e \<Rightarrow> Inl e | Inr xs \<Rightarrow> Inr (x # xs))"

text \<open>The rows with an empty geoname id are left out of the blocks.\<close>

definition block_rows :: "bool \<Rightarrow> csv_row list \<Rightarrow> exn + netblock_row list" where
  "block_rows is_ipv6 rs =
     sequence (map (netblock_of is_ipv6) (filter (\<lambda>r. map_of r ''geoname_id'' \<noteq> Some []) rs))"

definition import_maxmind_database :: "maxmind_csv_type \<Rightarrow> csv_row list \<Rightarrow> ('g geo_db_scheme, unit) prog" where
  "import_maxmind_database import_type file_rows =
     (case import_type of
        OtherCsv t \<Rightarrow> raise (PlainException (''Invalid database type '' @ t))
      | CountryLocations \<Rightarrow>
          bindp (lift_result (sequence (map geoname_of file_rows))) (\<lambda>rs.
          if rs = [] then raise (PlainException ''No rows to process - file format invalid?'')
          else atomic
            (thenp (db_delete geonames geonames_update (\<lambda>_ _. True))
            (bindp (asks (\<lambda>_. distinct (map (\<lambda>r. (geo_geoname_id r, geo_locale_code r)) rs))) (\<lambda>uniq.
             if \<not> uniq then raise (IntegrityError ''unique_geoname_id_locale'')
             else bindp (db_bulk_create geonames geonames_update rs) (\<lambda>_. ret ())))))
      | _ \<Rightarrow>
          bindp (lift_result (block_rows (import_type = CountryBlocksIpv6) file_rows)) (\<lambda>rs.
          if rs = [] then raise (PlainException ''No rows to process - file format invalid?'')
          else atomic
            (thenp (db_delete netblocks netblocks_update (\<lambda>_ b. nb_is_ipv6 b = False))
               (bindp (db_bulk_create netblocks netblocks_update rs) (\<lambda>_. ret ())))))"

definition ip_to_country_code :: "'g geo_db_scheme \<Rightarrow> string option \<Rightarrow> string \<Rightarrow> exn + string option" where
  "ip_to_country_code g ip locale =
     (case ip_address ip of
        Inl e \<Rightarrow> Inl e
      | Inr netaddr \<Rightarrow>
          (let in_block = (\<lambda>_ b. nb_decimal_ip_start b \<le> netaddr \<and> nb_decimal_ip_end b \<ge> netaddr)
           in if \<not> t_exists (netblocks g) in_block then Inr None
              else (case t_get ''NetBlock'' (netblocks g) in_block of
                  Inl e \<Rightarrow> Inl e
                | Inr k \<Rightarrow>
                    (let netblock = row (netblocks g) k
                     in case t_first (geonames g) (\<lambda>_ l. geo_locale_code l = locale \<and>
                              (nb_geoname_id netblock = Some (geo_geoname_id l) \<or>
                               nb_registered_country_geoname_id netblock = Some (geo_geoname_id l) \<or>
                               nb_represented_country_geoname_id netblock = Some (geo_geoname_id l))) of
                          None \<Rightarrow> Inl (AttributeError ''country_iso_code'')
                        | Some l \<Rightarrow> Inr (Some (geo_country_iso_code (row (geonames g) l)))))))"

section \<open>Tax\<close>

text \<open>What the code reads of a request: its authenticated user and the address \<open>get_client_ip\<close> finds.\<close>

record web_request =
  req_user :: "nat option"
  req_client_ip :: "string option"

definition user_country :: "'z users_db_scheme \<Rightarrow> nat \<Rightarrow> exn + string" where
  "user_country s u =
     (case matching (legal_addresses s) (\<lambda>_ a. la_user a = u) of
        [] \<Rightarrow> Inl (DoesNotExist ''LegalAddress'') | k # _ \<Rightarrow> Inr (la_country (row (legal_addresses s) k)))"

definition country_taxed :: "'z shop_db_scheme \<Rightarrow> string option \<Rightarrow> bool" where
  "country_taxed s country =
     (case country of
        None \<Rightarrow> False
      | Some c \<Rightarrow> t_exists (tax_rates s) (\<lambda>_ r. tax_active r \<and> tax_country_code r = c))"

definition determine_visitor_country ::
  "bool \<Rightarrow> 'g geo_db_scheme \<Rightarrow> 'z shop_db_scheme \<Rightarrow> web_request option \<Rightarrow> exn + string option" where
  "determine_visitor_country force_profile_country g s request =
     (case request of
        None \<Rightarrow> Inr None
      | Some request \<Rightarrow>
          (case req_user request of
             None \<Rightarrow> Inr None
           | Some user \<Rightarrow>
               (case user_country s user of
                  Inl e \<Rightarrow> Inl e
                | Inr profile_country_code \<Rightarrow>
                    if force_profile_country then Inr (Some profile_country_code)
                    else (case ip_to_country_code g (req_client_ip request) ''en'' of
                        Inl e \<Rightarrow> if is_type_error e then Inr (Some profile_country_code) else Inl e
                      | Inr ip_country_code \<Rightarrow>
                          if country_taxed s ip_country_code then Inr ip_country_code
                          else Inr (Some profile_country_code)))))"

definition calculate_tax ::
  "bool \<Rightarrow> 'g geo_db_scheme \<Rightarrow> 'z shop_db_scheme \<Rightarrow> web_request option \<Rightarrow> decimal \<Rightarrow>
   exn + decimal \<times> string \<times> decimal" where
  "calculate_tax force_profile_country g s request item_price =
     (case determine_visitor_country force_profile_country g s request of
        Inl e \<Rightarrow> Inl e
      | Inr None \<Rightarrow> Inr (0, [], item_price)
      | Inr (Some country) \<Rightarrow>
          (case t_get ''TaxRate'' (tax_rates s)
                  (\<lambda>_ r. tax_active r \<and> py_lower (tax_country_code r) = py_lower country) of
             Inl e \<Rightarrow> if is_does_not_exist e then Inr (0, [], item_price) else Inl e
           | Inr k \<Rightarrow>
               (let rate = tax_tax_rate (row (tax_rates s) k)
                in Inr (rate, country, item_price + item_price * (rate / 100)))))"

definition is_tax_applicable ::
  "bool \<Rightarrow> 'g geo_db_scheme \<Rightarrow> 'z shop_db_scheme \<Rightarrow> web_request option \<Rightarrow> exn + bool" where
  "is_tax_applicable force_profile_country g s request =
     (case determine_visitor_country force_profile_country g s request of
        Inl e \<Rightarrow> Inl e | Inr visitor_country \<Rightarrow> Inr (country_taxed s visitor_country))"

definition tax_rate_to_dict :: "tax_rate_row \<Rightarrow> string \<times> decimal \<times> string option \<times> bool" where
  "tax_rate_to_dict r = (tax_country_code r, tax_tax_rate r, tax_tax_rate_name r, tax_active r)"

section \<open>Lemmas\<close>

lemma sequence_InrD: "sequence rs = Inr xs \<Longrightarrow> map Inr xs = rs"
  by (induction rs arbitrary: xs rule: sequence.induct) (auto split: sum.splits)

lemma netblock_of_is_ipv6: "netblock_of v r = Inr b \<Longrightarrow> nb_is_ipv6 b = v"
  by (auto simp: netblock_of_def split: sum.splits prod.splits)

lemma block_rows_is_ipv6:
  assumes "block_rows v rs = Inr bs" and "b \<in> set bs"
  shows "nb_is_ipv6 b = v"
proof -
  have "map Inr bs = map (netblock_of v) (filter (\<lambda>r. map_of r ''geoname_id'' \<noteq> Some []) rs)"
    using assms(1) sequence_InrD unfolding block_rows_def by blast
  then have "Inr b \<in> set (map (netblock_of v) (filter (\<lambda>r. map_of r ''geoname_id'' \<noteq> Some []) rs))"
    using assms(2) by (metis imageI list.set_map)
  then show ?thesis by (auto dest: netblock_of_is_ipv6 [OF sym])
qed

lemma import_blocks_run:
  assumes "block_rows (t = CountryBlocksIpv6) rs = Inr bs" and "bs \<noteq> []"
    and "t = CountryBlocksIpv4 \<or> t = CountryBlocksIpv6"
  shows "import_maxmind_database t rs g =
    (Inr (), g\<lparr>netblocks := snd (t_bulk_create (t_delete (netblocks g) (\<lambda>_ b. nb_is_ipv6 b = False)) bs)\<rparr>)"
  using assms by (auto simp: import_maxmind_database_def bindp_run thenp_run atomic_run)

definition block_list :: "'g geo_db_scheme \<Rightarrow> netblock_row list" where
  "block_list g = map (row (netblocks g)) (pks (netblocks g))"

lemma import_blocks_list:
  assumes "wf_table (netblocks g)" and "block_rows (t = CountryBlocksIpv6) rs = Inr bs" and "bs \<noteq> []"
    and "t = CountryBlocksIpv4 \<or> t = CountryBlocksIpv6"
  shows "block_list (snd (import_maxmind_database t rs g)) = filter nb_is_ipv6 (block_list g) @ bs"
proof -
  have "map (row (netblocks g)) (filter (\<lambda>k. nb_is_ipv6 (row (netblocks g) k)) (pks (netblocks g))) =
      filter nb_is_ipv6 (map (row (netblocks g)) (pks (netblocks g)))"
    by (simp add: filter_map comp_def)
  then show ?thesis
    using map_row_bulk_create [of "t_delete (netblocks g) (\<lambda>_ b. nb_is_ipv6 b = False)" bs] assms(1)
    by (simp add: import_blocks_run [OF assms(2-4)] block_list_def)
qed

lemma import_blocks_wf:
  assumes "wf_table (netblocks g)" and "block_rows (t = CountryBlocksIpv6) rs = Inr bs" and "bs \<noteq> []"
    and "t = CountryBlocksIpv4 \<or> t = CountryBlocksIpv6"
  shows "wf_table (netblocks (snd (import_maxmind_database t rs g)))"
  using assms(1) by (simp add: import_blocks_run [OF assms(2-4)])

text \<open>
  Importing the IPv4 blocks replaces exactly the IPv4 blocks and keeps the IPv6 ones; but
  importing the IPv6 blocks also throws the IPv4 blocks away, and adds the new blocks to the old
  IPv6 blocks instead of replacing them.
\<close>

theorem import_blocks_effect:
  assumes "wf_table (netblocks g)" and "block_rows v rs = Inr bs" and "bs \<noteq> []"
    and "import_maxmind_database (if v then CountryBlocksIpv6 else CountryBlocksIpv4) rs g = (r, g')"
  shows "r = Inr () \<and> filter nb_is_ipv6 (block_list g') = filter nb_is_ipv6 (block_list g) @ (if v then bs else []) \<and>
    filter (\<lambda>b. \<not> nb_is_ipv6 b) (block_list g') = (if v then [] else bs)"
proof -
  let ?t = "if v then CountryBlocksIpv6 else CountryBlocksIpv4"
  have bs: "block_rows (?t = CountryBlocksIpv6) rs = Inr bs" and t: "?t = CountryBlocksIpv4 \<or> ?t = CountryBlocksIpv6"
    using assms(2) by (cases v; simp)+
  have "list_all (\<lambda>b. nb_is_ipv6 b = v) bs"
    using block_rows_is_ipv6 [OF assms(2)] by (simp add: list_all_iff)
  moreover have "block_list g' = filter nb_is_ipv6 (block_list g) @ bs"
    using import_blocks_list [OF assms(1) bs assms(3) t] assms(4) by simp
  moreover have "r = Inr ()"
    using import_blocks_run [OF bs assms(3) t, of g] assms(4) by simp
  ultimately show ?thesis
    by (cases v) (auto simp: list_all_iff filter_id_conv filter_empty_conv)
qed

lemma the_only_many: "length ks \<ge> 2 \<Longrightarrow> the_only m ks = Inl (MultipleObjectsReturned m)"
  by (cases ks; cases "tl ks") (auto simp: the_only_def split: list.splits)

text \<open>
  After the IPv6 file has been imported a second time, no address inside its blocks can be
  located any more: the lookup finds two blocks and raises.
\<close>

theorem ipv6_reimport_breaks_lookup:
  assumes "wf_table (netblocks g)" and "block_rows True rs = Inr bs" and "b \<in> set bs"
    and "import_maxmind_database CountryBlocksIpv6 rs g = (r1, g1)"
    and "import_maxmind_database CountryBlocksIpv6 rs g1 = (r2, g2)"
    and "ip_address ip = Inr a" and "nb_decimal_ip_start b \<le> a" and "a \<le> nb_decimal_ip_end b"
  shows "ip_to_country_code g2 ip locale = Inl (MultipleObjectsReturned ''NetBlock'')"
proof -
  let ?P = "\<lambda>b. nb_decimal_ip_start b \<le> a \<and> nb_decimal_ip_end b \<ge> a"
  have bs: "block_rows (CountryBlocksIpv6 = CountryBlocksIpv6) rs = Inr bs" and ne: "bs \<noteq> []"
    using assms(2,3) by auto
  have "filter nb_is_ipv6 bs = bs"
    using block_rows_is_ipv6 [OF assms(2)] by (simp add: filter_id_conv)
  moreover have "wf_table (netblocks g1)"
    using import_blocks_wf [OF assms(1) bs ne] assms(4) by (metis snd_conv)
  ultimately have "block_list g2 = filter nb_is_ipv6 (block_list g) @ bs @ bs"
    using import_blocks_list [OF assms(1) bs ne] import_blocks_list [OF _ bs ne, of g1] assms(4,5) by simp
  moreover have "b \<in> set (filter ?P bs)"
    using assms(3,7,8) by simp
  then have "1 \<le> length (filter ?P bs)"
    by (cases "filter ?P bs") auto
  ultimately have many: "2 \<le> length (matching (netblocks g2) (\<lambda>_. ?P))"
    by (simp add: length_matching_rows block_list_def)
  then have "t_exists (netblocks g2) (\<lambda>_. ?P)"
    by (auto simp: t_exists_matching)
  with many show ?thesis
    by (simp add: ip_to_country_code_def assms(6) t_get_def the_only_many Let_def)
qed

lemma ip_to_country_code_no_type_error: "ip_to_country_code g ip l = Inl e \<Longrightarrow> \<not> is_type_error e"
  by (auto simp: ip_to_country_code_def ip_address_def t_get_def the_only_def Let_def is_type_error_def
      split: option.splits sum.splits list.splits if_splits)

text \<open>
  Which tax is charged: a visitor whose address lies in a country with an active tax rate is taxed
  there whatever the profile says, any other visitor by the profile's country; a rate other than zero is always
  that of an active tax rate of the country returned, and the amount is the price plus that percentage.
\<close>

theorem calculate_tax_spec:
  assumes "calculate_tax False g s (Some r) price = Inr (rate, c, amount)"
    and "req_user r = Some u" and "user_country s u = Inr pc"
  shows "amount = price + price * (rate / 100) \<and>
    (\<exists>ipc. ip_to_country_code g (req_client_ip r) ''en'' = Inr ipc \<and>
       (c = [] \<or> Some c = (if country_taxed s ipc then ipc else Some pc))) \<and>
    (rate = 0 \<or> t_exists (tax_rates s) (\<lambda>_ t. tax_active t \<and> tax_tax_rate t = rate \<and>
       py_lower (tax_country_code t) = py_lower c))"
proof -
  obtain ipc where ipc: "ip_to_country_code g (req_client_ip r) ''en'' = Inr ipc"
    using assms ip_to_country_code_no_type_error [of g "req_client_ip r" "''en''"]
    by (auto simp: calculate_tax_def determine_visitor_country_def split: sum.splits if_splits)
  have d: "determine_visitor_country False g s (Some r) = Inr (if country_taxed s ipc then ipc else Some pc)"
    by (simp add: determine_visitor_country_def assms(2,3) ipc)
  show ?thesis
  proof (cases "if country_taxed s ipc then ipc else Some pc")
    case None
    with assms(1) d ipc show ?thesis by (simp add: calculate_tax_def)
  next
    case (Some country)
    note some = this
    show ?thesis
    proof (cases "t_get ''TaxRate'' (tax_rates s)
        (\<lambda>_ r. tax_active r \<and> py_lower (tax_country_code r) = py_lower country)")
      case (Inl e)
      with some assms(1) d ipc show ?thesis by (auto simp: calculate_tax_def split: if_splits)
    next
      case (Inr k)
      with t_get_InrD [OF Inr] some assms(1) d ipc show ?thesis
        by (auto simp: calculate_tax_def Let_def t_exists_iff)
    qed
  qed
qed

text \<open>
  A signed-in visitor whose address cannot be determined is not taxed by profile: the lookup of no
  address raises a \<open>ValueError\<close>, which the handler for \<open>TypeError\<close> lets through.
\<close>

theorem visitor_without_address_fails:
  assumes "req_user r = Some u" and "user_country s u = Inr pc" and "req_client_ip r = None"
  shows "\<exists>m. determine_visitor_country False g s (Some r) = Inl (ValueError m) \<and>
    calculate_tax False g s (Some r) price = Inl (ValueError m)"
  using assms by (simp add: calculate_tax_def determine_visitor_country_def ip_to_country_code_def ip_address_def is_type_error_def)

subsection \<open>Concrete inputs\<close>

definition example_block_csv :: csv_row where
  "example_block_csv = [(''network'', ''::1/128''), (''geoname_id'', ''12'')]"

definition example_netblock :: netblock_row where
  "example_netblock = \<lparr>nb_is_ipv6 = True, nb_decimal_ip_start = 1, nb_decimal_ip_end = 1, nb_network = ''::1/128'',
     nb_geoname_id = Some 12, nb_registered_country_geoname_id = None, nb_represented_country_geoname_id = None,
     nb_is_anonymous_proxy = None, nb_is_satellite_provider = None, nb_postal_code = None,
     nb_latitude = None, nb_longitude = None, nb_accuracy_radius = None\<rparr>"

definition example_geoname :: geoname_row where
  "example_geoname = \<lparr>geo_geoname_id = 12, geo_locale_code = ''en'', geo_continent_code = ''EU'',
     geo_continent_name = ''Europe'', geo_country_iso_code = ''GB'', geo_country_name = ''United Kingdom'',
     geo_subdivision_1_iso_code = None, geo_subdivision_1_name = None, geo_subdivision_2_iso_code = None,
     geo_subdivision_2_name = None, geo_city_name = None, geo_metro_code = None, geo_time_zone = None,
     geo_is_in_european_union = None\<rparr>"

definition example_geo :: geo_db where
  "example_geo = \<lparr>geonames = table_of example_geoname [example_geoname],
     netblocks = table_of example_netblock [example_netblock\<lparr>nb_is_ipv6 := False\<rparr>]\<rparr>"

lemma replicate_7: "replicate 7 x = [x, x, x, x, x, x, x]"
  by (simp add: numeral_eq_Suc)

lemma example_ipv6: "ipv6_address ''::1'' = Some 1"
proof -
  have "hextet ''1'' = Some 1"
    by (simp add: hextet_def hex_val_def lower_char_def from_base_def)
  then have "ipv6_groups [[], [], ''1''] = Some [0, 0, 0, 0, 0, 0, 0, 1]"
    by (simp add: ipv6_groups_def Let_def replicate_7)
  then show ?thesis
    by (simp add: ipv6_address_def ipv6_parts_def from_base_def)
qed

lemma example_ip: "ip_address (Some ''::1'') = Inr 1"
  by (simp add: ip_address_def ipv4_address_def example_ipv6)

lemma example_block_rows: "block_rows True [example_block_csv] = Inr [example_netblock]"
proof -
  have "ip_network ipv6_address 128 ''::1/128'' = Inr (1, 1)"
    by (simp add: ip_network_def example_ipv6 [unfolded One_nat_def] is_digit_string_def digit_val_def)
  moreover have "py_int ''12'' = Inr 12"
    by (simp add: py_int_def py_strip_def is_space_def digit_val_def)
  ultimately show ?thesis
    by (simp add: block_rows_def netblock_of_def example_block_csv_def column_def id_column_def
        example_netblock_def)
qed

lemma import_blocks_effect_witness:
  "filter (\<lambda>b. \<not> nb_is_ipv6 b) (block_list (snd (import_maxmind_database CountryBlocksIpv6 [example_block_csv] example_geo))) = []"
  using import_blocks_effect [of example_geo True, OF _ example_block_rows _ prod.collapse [symmetric]]
  by (simp add: example_geo_def)

lemma ipv6_reimport_breaks_lookup_witness:
  "ip_to_country_code
     (snd (import_maxmind_database CountryBlocksIpv6 [example_block_csv]
       (snd (import_maxmind_database CountryBlocksIpv6 [example_block_csv] example_geo))))
     (Some ''::1'') ''en'' = Inl (MultipleObjectsReturned ''NetBlock'')"
  by (rule ipv6_reimport_breaks_lookup
        [OF _ example_block_rows _ prod.collapse [symmetric] prod.collapse [symmetric] example_ip, of _ example_netblock])
     (simp_all add: example_geo_def example_netblock_def)

definition example_request :: web_request where
  "example_request = \<lparr>req_user = Some 1, req_client_ip = Some ''::1''\<rparr>"

lemma example_user_country: "user_country example_shop 1 = Inr []"
  by (simp add: user_country_def example_defs blank_legal_address_def matching_def)

lemma example_country: "ip_to_country_code example_geo (Some ''::1'') ''en'' = Inr (Some ''GB'')"
  by (simp add: ip_to_country_code_def example_ip example_geo_def example_netblock_def example_geoname_def
      table_of_def t_exists_def t_get_def the_only_def matching_def t_first_def)

lemma calculate_tax_spec_witness:
  "calculate_tax False example_geo example_shop (Some example_request) 100 = Inr (20, ''GB'', 120) \<and>
   (120 :: decimal) = 100 + 100 * (20 / 100)"
proof
  show r: "calculate_tax False example_geo example_shop (Some example_request) 100 = Inr (20, ''GB'', 120)"
    by (simp add: calculate_tax_def determine_visitor_country_def example_request_def
        example_user_country [unfolded One_nat_def] example_country country_taxed_def example_tables table_of_def t_exists_def t_get_def the_only_def matching_def)
  show "(120 :: decimal) = 100 + 100 * (20 / 100)"
    using calculate_tax_spec [OF r _ example_user_country] by (simp add: example_request_def)
qed

lemma visitor_without_address_fails_witness:
  "\<exists>m. determine_visitor_country False example_geo example_shop
     (Some (example_request\<lparr>req_client_ip := None\<rparr>)) = Inl (ValueError m)"
  using visitor_without_address_fails [OF _ example_user_country, of "example_request\<lparr>req_client_ip := None\<rparr>"]
  by (auto simp: example_request_def)

end
