(* ===== verification/Coupons.thy ===== *)
theory Coupons
  imports Shop_Models
begin

text \<open>
  The coupons of \<open>ecommerce/api.py\<close>: which coupon versions are valid for a product and a user, the best of
  them, the creation of coupons for a payment, their redemption by an order, and the assignments of
  coupons to email addresses. The random codes come from a stream of unique identifiers.
\<close>

section \<open>Valid coupon versions\<close>

definition latest_coupon_version :: "'z shop_db_scheme \<Rightarrow> nat \<Rightarrow> nat option" where
  "latest_coupon_version s coupon =
     first_of (order_by_desc (\<lambda>k. cv_created_on (row (coupon_versions s) k))
       (matching (coupon_versions s) (\<lambda>_ v. cv_coupon v = coupon)))"

definition latest_product_version :: "'z shop_db_scheme \<Rightarrow> nat \<Rightarrow> nat option" where
  "latest_product_version s product =
     first_of (order_by_desc (\<lambda>k. pv_created_on (row (product_versions s) k))
       (matching (product_versions s) (\<lambda>_ v. pv_product v = product)))"

definition get_product_price :: "'z shop_db_scheme \<Rightarrow> nat \<Rightarrow> exn + decimal" where
  "get_product_price s product =
     (case latest_product_version s product of
        None \<Rightarrow> Inl (AttributeError ''price'') | Some v \<Rightarrow> Inr (pv_price (row (product_versions s) v)))"

definition payment_version_of :: "'z shop_db_scheme \<Rightarrow> coupon_version_row \<Rightarrow> coupon_payment_version_row" where
  "payment_version_of s v = row (coupon_payment_versions s) (cv_payment_version v)"

text \<open>\<open>order_by("coupon", "-created_on").distinct("coupon")\<close>: the newest of the given versions of each coupon.\<close>

definition distinct_on_coupon :: "'z shop_db_scheme \<Rightarrow> nat list \<Rightarrow> nat list" where
  "distinct_on_coupon s ks =
     concat (map (\<lambda>c. the_list (first_of (order_by_desc (\<lambda>k. cv_created_on (row (coupon_versions s) k))
                   (filter (\<lambda>k. cv_coupon (row (coupon_versions s) k) = c) ks))))
       (sort (remdups (map (\<lambda>k. cv_coupon (row (coupon_versions s) k)) ks))))"

definition full_discount_filter :: "'z shop_db_scheme \<Rightarrow> nat option \<Rightarrow> coupon_payment_version_row \<Rightarrow> bool" where
  "full_discount_filter s product p =
     (case product of
        None \<Rightarrow> cpv_amount p = 1
      | Some product \<Rightarrow>
          (case latest_product_version s product of
             None \<Rightarrow> cpv_amount p = 1
           | Some pv \<Rightarrow>
               (cpv_discount_type p = PercentOff \<and> cpv_amount p = 1) \<or>
               (cpv_discount_type p = DollarsOff \<and> cpv_amount p \<ge> pv_price (row (product_versions s) pv))))"

definition redemption_count :: "'z shop_db_scheme \<Rightarrow> nat \<Rightarrow> (order_row \<Rightarrow> bool) \<Rightarrow> nat" where
  "redemption_count s version P =
     length (matching (coupon_redemptions s)
       (\<lambda>_ r. cred_coupon_version r = version \<and>
          (let o_row = row (orders s) (cred_order r)
           in P o_row \<and> (ord_status o_row = OrderFulfilled \<or> ord_status o_row = OrderRefunded))))"

definition within_dates :: "int \<Rightarrow> coupon_payment_version_row \<Rightarrow> bool" where
  "within_dates now p \<longleftrightarrow>
     (case cpv_expiration_date p of None \<Rightarrow> True | Some d \<Rightarrow> d \<ge> now) \<and>
     (case cpv_activation_date p of None \<Rightarrow> True | Some d \<Rightarrow> d \<le> now)"

definition get_valid_coupon_versions ::
  "int \<Rightarrow> 'z shop_db_scheme \<Rightarrow> nat option \<Rightarrow> nat \<Rightarrow> bool \<Rightarrow> string option \<Rightarrow> bool \<Rightarrow> nat option \<Rightarrow> nat list" where
  "get_valid_coupon_versions now s product user auto_only code full_discount company =
     (let has_code = (\<lambda>c. case code of None \<Rightarrow> True | Some t \<Rightarrow> t = [] \<or> coupon_code (row (coupons s) c) = t);
          product_coupons =
            map (\<lambda>e. ce_coupon (row (coupon_eligibilities s) e))
              (matching (coupon_eligibilities s)
                (\<lambda>_ e. product = Some (ce_product e) \<and> coupon_enabled (row (coupons s) (ce_coupon e)) \<and> has_code (ce_coupon e)));
          global_coupons = matching (coupons s) (\<lambda>k c. coupon_is_global c \<and> coupon_enabled c \<and> has_code k);
          requires_code =
            (case product of
               None \<Rightarrow> False
             | Some p \<Rightarrow>
                 (case latest_product_version s p of
                    None \<Rightarrow> False | Some pv \<Rightarrow> pv_requires_enrollment_code (row (product_versions s) pv)));
          common = (\<lambda>p. (full_discount \<longrightarrow> full_discount_filter s product p) \<and> (auto_only \<longrightarrow> cpv_automatic p) \<and>
                     (company \<noteq> None \<longrightarrow> cpv_company p = company));
          coupon_version_subquery =
            matching (coupon_versions s) (\<lambda>_ v. cv_coupon v \<in> set product_coupons \<and> common (payment_version_of s v));
          global_coupon_version_subquery =
            matching (coupon_versions s)
              (\<lambda>_ v. cv_coupon v \<in> set global_coupons \<and>
                 (requires_code \<longrightarrow> cpv_coupon_type (payment_version_of s v) \<noteq> PROMO) \<and>
                 common (payment_version_of s v));
          combined_coupon_versions_list =
            distinct_on_coupon s coupon_version_subquery @ distinct_on_coupon s global_coupon_version_subquery;
          query =
            matching (coupon_versions s)
              (\<lambda>k v. k \<in> set combined_coupon_versions_list \<and> within_dates now (payment_version_of s v) \<and>
                 \<not> redemption_count s k (\<lambda>r. ord_purchaser r = user) \<ge> cpv_max_redemptions_per_user (payment_version_of s v) \<and>
                 \<not> redemption_count s k (\<lambda>_. True) \<ge> cpv_max_redemptions (payment_version_of s v))
      in order_by_desc (\<lambda>k. cpv_amount (payment_version_of s (row (coupon_versions s) k))) query)"

text \<open>The loop of \<open>best_coupon_for_product\<close>: the cheapest so far and its price.\<close>

fun best_coupon_loop :: "(nat \<Rightarrow> decimal) \<Rightarrow> decimal \<Rightarrow> nat \<Rightarrow> nat list \<Rightarrow> nat" where
  "best_coupon_loop price best_price best_coupon [] = best_coupon"
| "best_coupon_loop price best_price best_coupon (v # vs) =
     (if price v < best_price then best_coupon_loop price (price v) v vs
      else best_coupon_loop price best_price best_coupon vs)"

definition best_coupon_for_product ::
  "int \<Rightarrow> 'z shop_db_scheme \<Rightarrow> nat \<Rightarrow> nat \<Rightarrow> bool \<Rightarrow> string option \<Rightarrow> exn + nat option" where
  "best_coupon_for_product now s product user auto_only code =
     (case get_valid_coupon_versions now s (Some product) user auto_only code False None of
        [] \<Rightarrow> Inr None
      | v # vs \<Rightarrow>
          (case latest_product_version s product of
             None \<Rightarrow> Inl (AttributeError ''price'')
           | Some pv \<Rightarrow>
               Inr (Some (best_coupon_loop
                 (\<lambda>v. get_product_version_price_with_discount s (Some v) pv)
                 (pv_price (row (product_versions s) pv)) v (v # vs)))))"

section \<open>Redemption\<close>

definition redeem_coupon :: "nat \<Rightarrow> nat \<Rightarrow> ('z shop_db_scheme, nat) prog" where
  "redeem_coupon coupon_version order =
     bindp (db_update_or_create ''CouponRedemption'' coupon_redemptions coupon_redemptions_update
         (\<lambda>_ r. cred_order r = order) (\<lambda>r. r\<lparr>cred_coupon_version := coupon_version\<rparr>)
         \<lparr>cred_coupon_version = coupon_version, cred_order = order\<rparr>)
       (\<lambda>(k, _). ret k)"

definition redeemed_assignment :: "string \<Rightarrow> product_coupon_assignment_row \<Rightarrow> product_coupon_assignment_row" where
  "redeemed_assignment redeemed_email a =
     (let a' = a\<lparr>pca_redeemed := True\<rparr>
      in if \<not> case_insensitive_equal redeemed_email (pca_email a)
         then a'\<lparr>pca_original_email := Some (pca_email a), pca_email := redeemed_email\<rparr> else a')"

definition assignment_coupon :: "'z shop_db_scheme \<Rightarrow> product_coupon_assignment_row \<Rightarrow> nat" where
  "assignment_coupon s a = ce_coupon (row (coupon_eligibilities s) (pca_product_coupon a))"

definition assignment_sheet :: "'z shop_db_scheme \<Rightarrow> product_coupon_assignment_row \<Rightarrow> string option" where
  "assignment_sheet s a =
     (case pca_bulk_assignment a of
        None \<Rightarrow> None
      | Some b \<Rightarrow>
          (case bulk_assignment_sheet_id (row (bulk_assignments s) b) of
             None \<Rightarrow> None | Some i \<Rightarrow> if i = [] then None else Some i))"

text \<open>The dictionary \<open>sheet_update_map\<close>: for every sheet the emails under the coupon codes.\<close>

definition sheet_update_map ::
  "'z shop_db_scheme \<Rightarrow> nat list \<Rightarrow> (string \<times> (string \<times> string) list) list" where
  "sheet_update_map s ks =
     foldl (\<lambda>m k. let a = row (product_coupon_assignments s) k
              in case assignment_sheet s a of
                   None \<Rightarrow> m
                 | Some sheet \<Rightarrow>
                     dict_set m sheet
                       (dict_set (case map_of m sheet of None \<Rightarrow> [] | Some d \<Rightarrow> d)
                         (coupon_code (row (coupons s) (assignment_coupon s a))) (pca_email a)))
       [] ks"

definition set_coupons_to_redeemed :: "string \<Rightarrow> nat list \<Rightarrow> ('z shop_db_scheme, unit) prog" where
  "set_coupons_to_redeemed redeemed_email coupon_ids =
     bindp (asks (\<lambda>s. matching (product_coupon_assignments s)
                   (\<lambda>_ a. assignment_coupon s a \<in> set coupon_ids \<and> \<not> pca_redeemed a))) (\<lambda>updated_assignments.
     thenp (atomic (for_each updated_assignments
              (\<lambda>k. db_save product_coupon_assignments product_coupon_assignments_update k
                     (redeemed_assignment redeemed_email))))
       (bindp (asks (\<lambda>s. filter (\<lambda>k. assignment_sheet s (row (product_coupon_assignments s) k) \<noteq> None)
                           updated_assignments)) (\<lambda>in_bulk.
        if in_bulk = [] then ret ()
        else bindp (asks (\<lambda>s. sheet_update_map s in_bulk)) (\<lambda>m. emit (SheetRowsEnrolled m)))))"

definition bulk_assign_product_coupons ::
  "(string \<times> nat) list \<Rightarrow> nat option \<Rightarrow> ('z shop_db_scheme, nat \<times> nat list) prog" where
  "bulk_assign_product_coupons desired_assignments bulk_assignment =
     bindp (case bulk_assignment of
              Some b \<Rightarrow> ret b
            | None \<Rightarrow> db_create bulk_assignments bulk_assignments_update
                \<lparr>bulk_assignment_sheet_id = None, bulk_sheet_last_modified_date = None,
                 bulk_last_assignment_date = None, bulk_assignments_started_date = None,
                 bulk_message_delivery_completed_date = None\<rparr>) (\<lambda>b.
     bindp (db_bulk_create product_coupon_assignments product_coupon_assignments_update
              (map (\<lambda>(email, product_coupon_id).
                  \<lparr>pca_email = email, pca_original_email = None, pca_product_coupon = product_coupon_id,
                   pca_redeemed = False, pca_message_status = None, pca_message_status_date = None,
                   pca_bulk_assignment = Some b\<rparr>) desired_assignments)) (\<lambda>ks.
     ret (b, ks)))"

section \<open>Creating coupons\<close>

record coupon_params =
  cpar_name :: string
  cpar_product_ids :: "nat list"
  cpar_amount :: decimal
  cpar_num_coupon_codes :: nat
  cpar_coupon_type :: coupon_type
  cpar_max_redemptions :: nat
  cpar_max_redemptions_per_user :: nat
  cpar_tag :: "string option"
  cpar_company_id :: "nat option"
  cpar_automatic :: bool
  cpar_is_global :: bool
  cpar_activation_date :: "int option"
  cpar_expiration_date :: "int option"
  cpar_payment_type :: "string option"
  cpar_discount_type :: discount_type
  cpar_payment_transaction :: "string option"
  cpar_coupon_code :: "string option"
  cpar_product_program_run_map :: "nat \<rightharpoonup> nat"
  cpar_include_future_runs :: bool

text \<open>Inserting coupons: their codes are a unique column.\<close>

definition bulk_create_coupons :: "coupon_row list \<Rightarrow> ('z shop_db_scheme, nat list) prog" where
  "bulk_create_coupons cs =
     bindp (asks (\<lambda>s. distinct (map coupon_code cs) \<and>
                      \<not> t_exists (coupons s) (\<lambda>_ c. coupon_code c \<in> coupon_code ` set cs))) (\<lambda>ok.
     if ok then db_bulk_create coupons coupons_update cs else raise (IntegrityError ''coupon_code''))"

text \<open>The fall-back gives every coupon whose code is taken the next unique identifier.\<close>

fun replace_taken_codes :: "(nat \<Rightarrow> string) \<Rightarrow> nat \<Rightarrow> (string \<Rightarrow> bool) \<Rightarrow> coupon_row list \<Rightarrow> coupon_row list" where
  "replace_taken_codes uuids i taken [] = []"
| "replace_taken_codes uuids i taken (c # cs) =
     (if taken (coupon_code c)
      then c\<lparr>coupon_code := uuids i\<rparr> # replace_taken_codes uuids (Suc i) taken cs
      else c # replace_taken_codes uuids i taken cs)"

definition new_coupons :: "(nat \<Rightarrow> string) \<Rightarrow> coupon_params \<Rightarrow> nat \<Rightarrow> coupon_row list" where
  "new_coupons uuids p payment =
     map (\<lambda>i. \<lparr>coupon_code = (case cpar_coupon_code p of None \<Rightarrow> uuids i | Some c \<Rightarrow> if c = [] then uuids i else c),
              coupon_payment = payment, coupon_is_global = cpar_is_global p, coupon_enabled = True,
              coupon_include_future_runs = cpar_include_future_runs p\<rparr>)
       [0..<cpar_num_coupon_codes p]"

definition new_payment_version :: "int \<Rightarrow> coupon_params \<Rightarrow> nat \<Rightarrow> coupon_payment_version_row" where
  "new_payment_version now p payment =
     \<lparr>cpv_tag = cpar_tag p, cpv_payment = payment, cpv_automatic = cpar_automatic p,
      cpv_coupon_type = cpar_coupon_type p, cpv_discount_type = cpar_discount_type p,
      cpv_num_coupon_codes = cpar_num_coupon_codes p, cpv_max_redemptions = cpar_max_redemptions p,
      cpv_max_redemptions_per_user = cpar_max_redemptions_per_user p, cpv_amount = cpar_amount p,
      cpv_activation_date = cpar_activation_date p, cpv_expiration_date = cpar_expiration_date p,
      cpv_company = (case cpar_company_id p of None \<Rightarrow> None | Some c \<Rightarrow> if c = 0 then None else Some c),
      cpv_payment_type = cpar_payment_type p, cpv_payment_transaction = cpar_payment_transaction p,
      cpv_created_on = now\<rparr>"

definition create_coupons :: "(nat \<Rightarrow> string) \<Rightarrow> int \<Rightarrow> coupon_params \<Rightarrow> ('z shop_db_scheme, nat) prog" where
  "create_coupons uuids now p =
     bindp (asks (\<lambda>s. case cpar_company_id p of
                None \<Rightarrow> True | Some c \<Rightarrow> c = 0 \<or> c \<in> set (pks (companies s)))) (\<lambda>company_ok.
     if \<not> company_ok then raise (DoesNotExist ''Company'')
     else bindp (asks (\<lambda>s. t_exists (coupon_payments s) (\<lambda>_ q. cp_name q = cpar_name p))) (\<lambda>name_taken.
     if name_taken then raise (IntegrityError ''ecommerce_couponpayment_name_key'')
     else bindp (db_create coupon_payments coupon_payments_update \<lparr>cp_name = cpar_name p\<rparr>) (\<lambda>payment.
     bindp (db_create coupon_payment_versions coupon_payment_versions_update (new_payment_version now p payment))
       (\<lambda>payment_version.
     bindp (try_catch (atomic (bulk_create_coupons (new_coupons uuids p payment)))
         (\<lambda>e. if is_integrity_error e
              then bindp (asks (\<lambda>s. \<lambda>code. t_exists (coupons s) (\<lambda>_ c. coupon_code c = code))) (\<lambda>taken.
                   bulk_create_coupons
                     (replace_taken_codes uuids (cpar_num_coupon_codes p) taken (new_coupons uuids p payment)))
              else raise e)) (\<lambda>coupon_objs.
     thenp (bindp (db_bulk_create coupon_versions coupon_versions_update
              (map (\<lambda>c. \<lparr>cv_coupon = c, cv_payment_version = payment_version, cv_created_on = now\<rparr>) coupon_objs))
              (\<lambda>_. ret ()))
    (bindp (asks (\<lambda>s. coupon_objs = [] \<or>
                (distinct (cpar_product_ids p) \<and> set (cpar_product_ids p) \<subseteq> set (pks (products s))))) (\<lambda>ok.
     if \<not> ok then raise (IntegrityError ''ecommerce_couponeligibility'')
     else thenp (bindp (db_bulk_create coupon_eligibilities coupon_eligibilities_update
              (concat (map (\<lambda>c. map (\<lambda>product_id. \<lparr>ce_coupon = c, ce_product = product_id,
                   ce_program_run = cpar_product_program_run_map p product_id\<rparr>) (cpar_product_ids p)) coupon_objs)))
              (\<lambda>_. ret ()))
       (ret payment_version))))))))"

section \<open>Lemmas\<close>

lemma set_distinct_on_coupon:
  "k \<in> set (distinct_on_coupon s ks) \<Longrightarrow> k \<in> set ks \<and>
     (\<forall>j \<in> set ks. cv_coupon (row (coupon_versions s) j) = cv_coupon (row (coupon_versions s) k) \<longrightarrow>
        cv_created_on (row (coupon_versions s) j) \<le> cv_created_on (row (coupon_versions s) k))"
proof -
  assume "k \<in> set (distinct_on_coupon s ks)"
  then obtain c where c: "first_of (order_by_desc (\<lambda>k. cv_created_on (row (coupon_versions s) k))
      (filter (\<lambda>k. cv_coupon (row (coupon_versions s) k) = c) ks)) = Some k"
    by (auto simp: distinct_on_coupon_def the_list_def split: option.splits)
  then have "k \<in> set (filter (\<lambda>k. cv_coupon (row (coupon_versions s) k) = c) ks)"
    by (rule first_order_by_desc_in)
  with first_order_by_desc_max [OF c] show ?thesis by auto
qed

lemma distinct_on_coupon_in: "k \<in> set (distinct_on_coupon s ks) \<Longrightarrow> k \<in> set ks"
  using set_distinct_on_coupon by blast

definition has_code :: "'z shop_db_scheme \<Rightarrow> string option \<Rightarrow> nat \<Rightarrow> bool" where
  "has_code s code c = (case code of None \<Rightarrow> True | Some t \<Rightarrow> t = [] \<or> coupon_code (row (coupons s) c) = t)"

definition restrictions ::
  "'z shop_db_scheme \<Rightarrow> nat option \<Rightarrow> bool \<Rightarrow> bool \<Rightarrow> nat option \<Rightarrow> coupon_payment_version_row \<Rightarrow> bool" where
  "restrictions s product full_discount auto_only company p \<longleftrightarrow>
     (full_discount \<longrightarrow> full_discount_filter s product p) \<and> (auto_only \<longrightarrow> cpv_automatic p) \<and>
     (company \<noteq> None \<longrightarrow> cpv_company p = company)"

definition asks_for_code :: "'z shop_db_scheme \<Rightarrow> nat option \<Rightarrow> bool" where
  "asks_for_code s product =
     (case product of
        None \<Rightarrow> False
      | Some p \<Rightarrow>
          (case latest_product_version s p of
             None \<Rightarrow> False | Some pv \<Rightarrow> pv_requires_enrollment_code (row (product_versions s) pv)))"

definition eligible_versions ::
  "'z shop_db_scheme \<Rightarrow> nat option \<Rightarrow> bool \<Rightarrow> string option \<Rightarrow> bool \<Rightarrow> nat option \<Rightarrow> nat list" where
  "eligible_versions s product auto_only code full company =
     matching (coupon_versions s)
       (\<lambda>_ v. cv_coupon v \<in> set (map (\<lambda>e. ce_coupon (row (coupon_eligibilities s) e))
                (matching (coupon_eligibilities s) (\<lambda>_ e. product = Some (ce_product e) \<and>
                   coupon_enabled (row (coupons s) (ce_coupon e)) \<and> has_code s code (ce_coupon e)))) \<and>
              restrictions s product full auto_only company (payment_version_of s v))"

definition global_versions ::
  "'z shop_db_scheme \<Rightarrow> nat option \<Rightarrow> bool \<Rightarrow> string option \<Rightarrow> bool \<Rightarrow> nat option \<Rightarrow> nat list" where
  "global_versions s product auto_only code full company =
     matching (coupon_versions s)
       (\<lambda>_ v. cv_coupon v \<in> set (matching (coupons s) (\<lambda>k c. coupon_is_global c \<and> coupon_enabled c \<and> has_code s code k)) \<and>
              (asks_for_code s product \<longrightarrow> cpv_coupon_type (payment_version_of s v) \<noteq> PROMO) \<and>
              restrictions s product full auto_only company (payment_version_of s v))"

lemma get_valid_coupon_versions_eq:
  "get_valid_coupon_versions now s product user auto_only code full company =
     order_by_desc (\<lambda>k. cpv_amount (payment_version_of s (row (coupon_versions s) k)))
       (matching (coupon_versions s)
         (\<lambda>k v. k \<in> set (distinct_on_coupon s (eligible_versions s product auto_only code full company) @
                         distinct_on_coupon s (global_versions s product auto_only code full company)) \<and>
            within_dates now (payment_version_of s v) \<and>
            redemption_count s k (\<lambda>r. ord_purchaser r = user) < cpv_max_redemptions_per_user (payment_version_of s v) \<and>
            redemption_count s k (\<lambda>_. True) < cpv_max_redemptions (payment_version_of s v)))"
  unfolding get_valid_coupon_versions_def eligible_versions_def global_versions_def restrictions_def
    has_code_def asks_for_code_def Let_def not_le ..

lemma valid_coupon_versions_in:
  "v \<in> set (get_valid_coupon_versions now s product user auto_only code full company) \<Longrightarrow>
   v \<in> set (pks (coupon_versions s))"
  by (simp add: get_valid_coupon_versions_eq)

lemma valid_coupon_versionsD:
  "v \<in> set (get_valid_coupon_versions now s product user auto_only code full company) \<Longrightarrow>
   (v \<in> set (distinct_on_coupon s (eligible_versions s product auto_only code full company)) \<or>
    v \<in> set (distinct_on_coupon s (global_versions s product auto_only code full company))) \<and>
   within_dates now (payment_version_of s (row (coupon_versions s) v)) \<and>
   redemption_count s v (\<lambda>r. ord_purchaser r = user)
      < cpv_max_redemptions_per_user (payment_version_of s (row (coupon_versions s) v)) \<and>
   redemption_count s v (\<lambda>_. True) < cpv_max_redemptions (payment_version_of s (row (coupon_versions s) v))"
  by (simp add: get_valid_coupon_versions_eq)

text \<open>
  Every coupon version that \<open>get_valid_coupon_versions\<close> returns may be used now: its coupon is enabled and
  carries the code asked for, it is global or eligible for the product, its payment version is within its dates,
  the user and all users together are below their limits of redemptions, and the restrictions asked for
  hold. The answer comes largest amount first.
\<close>

theorem valid_coupon_versions_sound:
  assumes "v \<in> set (get_valid_coupon_versions now s product user auto_only code full company)"
  shows "v \<in> set (pks (coupon_versions s)) \<and>
    coupon_enabled (row (coupons s) (cv_coupon (row (coupon_versions s) v))) \<and>
    (\<forall>t. code = Some t \<and> t \<noteq> [] \<longrightarrow> coupon_code (row (coupons s) (cv_coupon (row (coupon_versions s) v))) = t) \<and>
    (coupon_is_global (row (coupons s) (cv_coupon (row (coupon_versions s) v))) \<or>
     t_exists (coupon_eligibilities s)
       (\<lambda>_ e. ce_coupon e = cv_coupon (row (coupon_versions s) v) \<and> Some (ce_product e) = product)) \<and>
    within_dates now (payment_version_of s (row (coupon_versions s) v)) \<and>
    redemption_count s v (\<lambda>r. ord_purchaser r = user)
      < cpv_max_redemptions_per_user (payment_version_of s (row (coupon_versions s) v)) \<and>
    redemption_count s v (\<lambda>_. True) < cpv_max_redemptions (payment_version_of s (row (coupon_versions s) v)) \<and>
    (auto_only \<longrightarrow> cpv_automatic (payment_version_of s (row (coupon_versions s) v))) \<and>
    (company \<noteq> None \<longrightarrow> cpv_company (payment_version_of s (row (coupon_versions s) v)) = company) \<and>
    (full \<longrightarrow> full_discount_filter s product (payment_version_of s (row (coupon_versions s) v))) \<and>
    sorted_wrt (\<lambda>x y. cpv_amount (payment_version_of s (row (coupon_versions s) y))
        \<le> cpv_amount (payment_version_of s (row (coupon_versions s) x)))
      (get_valid_coupon_versions now s product user auto_only code full company)"
proof -
  let ?c = "cv_coupon (row (coupon_versions s) v)" and ?p = "payment_version_of s (row (coupon_versions s) v)"
  have sorted: "sorted_wrt (\<lambda>x y. cpv_amount (payment_version_of s (row (coupon_versions s) y))
        \<le> cpv_amount (payment_version_of s (row (coupon_versions s) x)))
      (get_valid_coupon_versions now s product user auto_only code full company)"
    unfolding get_valid_coupon_versions_eq by (rule sorted_order_by_desc)
  have "v \<in> set (eligible_versions s product auto_only code full company) \<or>
      v \<in> set (global_versions s product auto_only code full company)"
    using valid_coupon_versionsD [OF assms] distinct_on_coupon_in by blast
  then have "coupon_enabled (row (coupons s) ?c) \<and> has_code s code ?c \<and> restrictions s product full auto_only company ?p \<and>
      (coupon_is_global (row (coupons s) ?c) \<or>
       t_exists (coupon_eligibilities s) (\<lambda>_ e. ce_coupon e = ?c \<and> Some (ce_product e) = product))"
    by (auto simp: eligible_versions_def global_versions_def t_exists_iff)
  with sorted valid_coupon_versions_in [OF assms] valid_coupon_versionsD [OF assms] show ?thesis
    by (cases code) (auto simp add: restrictions_def has_code_def)
qed

text \<open>
  A product that asks for no enrollment code, searched without the restrictions to automatic
  coupons, full discounts or a company, is offered the newest version of each coupon only.
\<close>

theorem unrestricted_versions_are_latest:
  assumes "v \<in> set (get_valid_coupon_versions now s (Some p) user False code False None)"
    and "\<And>pv. latest_product_version s p = Some pv \<Longrightarrow> \<not> pv_requires_enrollment_code (row (product_versions s) pv)"
    and "w \<in> set (pks (coupon_versions s))"
    and "cv_coupon (row (coupon_versions s) w) = cv_coupon (row (coupon_versions s) v)"
  shows "cv_created_on (row (coupon_versions s) w) \<le> cv_created_on (row (coupon_versions s) v)"
proof -
  have code: "\<not> asks_for_code s (Some p)"
    using assms(2) by (auto simp: asks_for_code_def split: option.splits)
  have "w \<in> set (eligible_versions s (Some p) False code False None)"
    if "v \<in> set (eligible_versions s (Some p) False code False None)"
    using that assms(3,4) by (auto simp: eligible_versions_def restrictions_def)
  moreover have "w \<in> set (global_versions s (Some p) False code False None)"
    if "v \<in> set (global_versions s (Some p) False code False None)"
    using that assms(3,4) code by (auto simp: global_versions_def restrictions_def)
  ultimately show ?thesis
    using valid_coupon_versionsD [OF assms(1)] set_distinct_on_coupon assms(4) by metis
qed

lemma best_coupon_loop_min:
  "price (best_coupon_loop price bp bc vs) \<le> bp \<or> best_coupon_loop price bp bc vs = bc"
  "(best_coupon_loop price bp bc vs = bc \<and> (\<forall>v \<in> set vs. bp \<le> price v)) \<or>
   (best_coupon_loop price bp bc vs \<in> set vs \<and> price (best_coupon_loop price bp bc vs) < bp \<and>
    (\<forall>v \<in> set vs. price (best_coupon_loop price bp bc vs) \<le> price v))"
proof -
  show *: "(best_coupon_loop price bp bc vs = bc \<and> (\<forall>v \<in> set vs. bp \<le> price v)) \<or>
   (best_coupon_loop price bp bc vs \<in> set vs \<and> price (best_coupon_loop price bp bc vs) < bp \<and>
    (\<forall>v \<in> set vs. price (best_coupon_loop price bp bc vs) \<le> price v))" for bp bc
  proof (induction vs arbitrary: bp bc)
    case (Cons v vs)
    show ?case
    proof (cases "price v < bp")
      case True
      with Cons.IH [of "price v" v] show ?thesis by auto
    next
      case False
      with Cons.IH [of bp bc] show ?thesis by auto
    qed
  qed simp
  from * [of bp bc] show "price (best_coupon_loop price bp bc vs) \<le> bp \<or> best_coupon_loop price bp bc vs = bc"
    by auto
qed

text \<open>Amounts as the validation of payment versions leaves them, prices in whole cents.\<close>

definition amounts_ok :: "'z shop_db_scheme \<Rightarrow> bool" where
  "amounts_ok s \<longleftrightarrow>
     list_all (\<lambda>k. coupon_payment_version_clean (payment_version_of s (row (coupon_versions s) k)) = Inr ())
       (pks (coupon_versions s)) \<and>
     list_all (\<lambda>k. 0 \<le> pv_price (row (product_versions s) k) \<and> is_cents (pv_price (row (product_versions s) k)))
       (pks (product_versions s))"

lemma latest_product_version_in:
  "latest_product_version s p = Some pv \<Longrightarrow> pv \<in> set (pks (product_versions s)) \<and> pv_product (row (product_versions s) pv) = p"
  unfolding latest_product_version_def by (drule first_order_by_desc_in) simp

lemma amounts_ok_price:
  assumes "amounts_ok s" and "v \<in> set (pks (coupon_versions s))" and "pv \<in> set (pks (product_versions s))"
  shows "get_product_version_price_with_discount s (Some v) pv \<le> pv_price (row (product_versions s) pv)"
  using assms price_with_discount_bounds_aux [of s pv "Some v"]
  by (auto simp: amounts_ok_def list_all_iff payment_version_of_def coupon_payment_version_clean_iff)

text \<open>
  C23: \<open>best_coupon_for_product\<close> returns one of the valid coupon versions, and no valid one makes the
  latest version of the product cheaper; it returns nothing exactly when no version is valid.
\<close>

theorem best_coupon_is_cheapest:
  assumes "amounts_ok s" and "best_coupon_for_product now s p user auto code = Inr r"
  shows "(r = None \<longleftrightarrow> get_valid_coupon_versions now s (Some p) user auto code False None = []) \<and>
    (\<forall>b. r = Some b \<longrightarrow>
       b \<in> set (get_valid_coupon_versions now s (Some p) user auto code False None) \<and>
       (\<exists>pv. latest_product_version s p = Some pv \<and>
         list_all (\<lambda>v. get_product_version_price_with_discount s (Some b) pv
                       \<le> get_product_version_price_with_discount s (Some v) pv)
           (get_valid_coupon_versions now s (Some p) user auto code False None)))"
proof (cases "get_valid_coupon_versions now s (Some p) user auto code False None")
  case Nil
  with assms(2) show ?thesis by (simp add: best_coupon_for_product_def)
next
  case (Cons v vs)
  note cons = this
  show ?thesis
  proof (cases "latest_product_version s p")
    case None
    with Cons assms(2) show ?thesis by (simp add: best_coupon_for_product_def)
  next
    case (Some pv)
    let ?price = "\<lambda>v. get_product_version_price_with_discount s (Some v) pv"
    let ?p0 = "pv_price (row (product_versions s) pv)"
    let ?b = "best_coupon_loop ?price ?p0 v (v # vs)"
    have r: "r = Some ?b"
      using assms(2) cons Some by (simp add: best_coupon_for_product_def)
    have le: "?price w \<le> ?p0" if "w \<in> set (v # vs)" for w
    proof (rule amounts_ok_price [OF assms(1)])
      show "w \<in> set (pks (coupon_versions s))"
        using that valid_coupon_versions_in [of w now s "Some p" user auto code False None] cons by simp
      show "pv \<in> set (pks (product_versions s))"
        using latest_product_version_in [OF Some] by simp
    qed
    have "?b \<in> set (v # vs) \<and> (\<forall>w \<in> set (v # vs). ?price ?b \<le> ?price w)"
      using best_coupon_loop_min(2) [of ?price ?p0 v "v # vs"]
    proof (elim disjE conjE)
      assume b: "?b = v" and ge: "\<forall>w \<in> set (v # vs). ?p0 \<le> ?price w"
      have "?price v \<le> ?price w" if "w \<in> set (v # vs)" for w
        using le [of v] ge that by (meson list.set_intros(1) order_trans)
      with b show ?thesis by simp
    qed blast
    with r Some cons show ?thesis by (simp add: list_all_iff)
  qed
qed

subsection \<open>Redemption\<close>

lemma redeem_coupon_one:
  assumes "wf_table (coupon_redemptions s)" and "redeem_coupon cv ord s = (Inr k, s')"
  shows "matching (coupon_redemptions s') (\<lambda>_ r. cred_order r = ord) = [k] \<and>
    cred_coupon_version (row (coupon_redemptions s') k) = cv"
proof -
  obtain c where c: "t_update_or_create ''CouponRedemption'' (coupon_redemptions s) (\<lambda>_ r. cred_order r = ord)
      (\<lambda>r. r\<lparr>cred_coupon_version := cv\<rparr>) \<lparr>cred_coupon_version = cv, cred_order = ord\<rparr> =
      (Inr (k, c), coupon_redemptions s')"
    using assms(2)
    by (auto simp: redeem_coupon_def bindp_run db_update_or_create_run prod_eq_iff split: sum.splits prod.splits)
  have one: "matching (coupon_redemptions s') (\<lambda>_ r. cred_order r = ord) = [k]"
    by (rule t_update_or_create_one [OF c assms(1)]) simp_all
  have "cred_coupon_version (row (coupon_redemptions s') k) = cv"
    by (simp add: t_update_or_create_row [OF c])
  with one show ?thesis by simp
qed

lemma for_each_save_assignments:
  assumes "distinct ks"
  shows "for_each ks (\<lambda>k. db_save product_coupon_assignments product_coupon_assignments_update k f) s =
    (Inr (), s\<lparr>product_coupon_assignments :=
       (product_coupon_assignments s)\<lparr>row := (\<lambda>k. if k \<in> set ks then f (row (product_coupon_assignments s) k)
           else row (product_coupon_assignments s) k)\<rparr>\<rparr>)"
  using assms
proof (induction ks arbitrary: s)
  case (Cons k ks)
  have "(\<lambda>j. if j \<in> set ks then f (row (t_save (product_coupon_assignments s) k f) j)
         else row (t_save (product_coupon_assignments s) k f) j) =
      (\<lambda>j. if j \<in> set (k # ks) then f (row (product_coupon_assignments s) j) else row (product_coupon_assignments s) j)"
    using Cons.prems by (auto simp: fun_eq_iff row_t_save)
  with Cons show ?case by (simp add: t_save_def cong: if_cong)
qed simp

text \<open>
  \<open>set_coupons_to_redeemed\<close> marks every assignment of the given coupons redeemed; one that was not redeemed
  before gets the redeeming email (up to case) and remembers the email it was assigned to if that is another one;
  assignments redeemed before and assignments of other coupons stay as they were.
\<close>

theorem set_coupons_to_redeemed_spec:
  assumes "wf_table (product_coupon_assignments s)"
    and "set_coupons_to_redeemed email coupon_ids s = (r, s')"
    and "k \<in> set (pks (product_coupon_assignments s))"
  shows "r = Inr () \<and>
    (let a = row (product_coupon_assignments s) k; b = row (product_coupon_assignments s') k
     in if assignment_coupon s a \<in> set coupon_ids \<and> \<not> pca_redeemed a
        then pca_redeemed b \<and> case_insensitive_equal email (pca_email b) \<and>
             (if case_insensitive_equal email (pca_email a)
              then pca_email b = pca_email a \<and> pca_original_email b = pca_original_email a
              else pca_original_email b = Some (pca_email a))
        else b = a)"
proof -
  let ?P = "\<lambda>_ a. assignment_coupon s a \<in> set coupon_ids \<and> \<not> pca_redeemed a"
  have d: "distinct (matching (product_coupon_assignments s) ?P)"
    by (rule distinct_matching) (rule assms(1))
  have "r = Inr () \<and> row (product_coupon_assignments s') k =
      (if ?P k (row (product_coupon_assignments s) k) then redeemed_assignment email (row (product_coupon_assignments s) k)
       else row (product_coupon_assignments s) k)"
    using assms(2,3)
    by (auto simp: set_coupons_to_redeemed_def bindp_run thenp_run atomic_run for_each_save_assignments [OF d]
        split: if_splits)
  then show ?thesis
    by (auto simp: Let_def redeemed_assignment_def case_insensitive_equal_def split: if_splits)
qed

subsection \<open>Creation\<close>

lemma bulk_create_coupons_run:
  "bulk_create_coupons cs s =
     (if distinct (map coupon_code cs) \<and> \<not> t_exists (coupons s) (\<lambda>_ c. coupon_code c \<in> coupon_code ` set cs)
      then (Inr (fst (t_bulk_create (coupons s) cs)), s\<lparr>coupons := snd (t_bulk_create (coupons s) cs)\<rparr>)
      else (Inl (IntegrityError ''coupon_code''), s))"
  by (simp add: bulk_create_coupons_def)

lemma length_replace_taken_codes [simp]: "length (replace_taken_codes uuids i taken cs) = length cs"
  by (induction uuids i taken cs rule: replace_taken_codes.induct) auto

lemma replace_taken_codes_fields:
  "c \<in> set (replace_taken_codes uuids i taken cs) \<Longrightarrow>
   \<exists>d \<in> set cs. c = d \<or> (\<exists>j. c = d\<lparr>coupon_code := uuids j\<rparr>)"
  by (induction uuids i taken cs rule: replace_taken_codes.induct) (auto split: if_splits)

text \<open>The coupons a call makes: those with the codes asked for, or the replacements.\<close>

definition made_coupons :: "(nat \<Rightarrow> string) \<Rightarrow> coupon_params \<Rightarrow> 'z shop_db_scheme \<Rightarrow> coupon_row list" where
  "made_coupons uuids p s =
     (let cs = new_coupons uuids p (next_pk (coupon_payments s))
      in if distinct (map coupon_code cs) \<and> \<not> t_exists (coupons s) (\<lambda>_ c. coupon_code c \<in> coupon_code ` set cs) then cs
         else replace_taken_codes uuids (cpar_num_coupon_codes p)
                (\<lambda>code. t_exists (coupons s) (\<lambda>_ c. coupon_code c = code)) cs)"

lemma made_coupons_props:
  "length (made_coupons uuids p s) = cpar_num_coupon_codes p"
  "c \<in> set (made_coupons uuids p s) \<Longrightarrow> coupon_payment c = next_pk (coupon_payments s) \<and> coupon_enabled c \<and>
     coupon_is_global c = cpar_is_global p"
  by (auto simp: made_coupons_def new_coupons_def Let_def dest!: replace_taken_codes_fields split: if_splits)

lemma create_coupons_okD:
  assumes "create_coupons uuids now p s = (Inr pv, s')"
  defines "cs \<equiv> made_coupons uuids p s"
  defines "ks \<equiv> [next_pk (coupons s) ..< next_pk (coupons s) + cpar_num_coupon_codes p]"
  shows "pv = next_pk (coupon_payment_versions s)"
    and "\<not> t_exists (coupon_payments s) (\<lambda>_ q. cp_name q = cpar_name p)"
    and "distinct (map coupon_code cs)" and "\<not> t_exists (coupons s) (\<lambda>_ c. coupon_code c \<in> coupon_code ` set cs)"
    and "coupons s' = snd (t_bulk_create (coupons s) cs)"
    and "coupon_payment_versions s' = snd (t_create (coupon_payment_versions s)
           (new_payment_version now p (next_pk (coupon_payments s))))"
    and "coupon_versions s' = snd (t_bulk_create (coupon_versions s)
           (map (\<lambda>c. \<lparr>cv_coupon = c, cv_payment_version = pv, cv_created_on = now\<rparr>) ks))"
    and "coupon_eligibilities s' = snd (t_bulk_create (coupon_eligibilities s)
           (concat (map (\<lambda>c. map (\<lambda>product_id. \<lparr>ce_coupon = c, ce_product = product_id,
              ce_program_run = cpar_product_program_run_map p product_id\<rparr>) (cpar_product_ids p)) ks)))"
    and "products s' = products s"
  using assms(1) unfolding cs_def ks_def made_coupons_def Let_def
  by (auto simp: create_coupons_def bindp_run thenp_run try_catch_def atomic_run bulk_create_coupons_run
      fst_t_bulk_create new_coupons_def is_integrity_error_iff simp del: upt_Suc split: if_splits sum.splits prod.splits)

definition coupon_keys_ok :: "'z shop_db_scheme \<Rightarrow> bool" where
  "coupon_keys_ok s \<longleftrightarrow>
     wf_table (coupons s) \<and> wf_table (coupon_versions s) \<and> wf_table (coupon_eligibilities s) \<and>
     wf_table (coupon_payment_versions s) \<and> unique_on (coupons s) coupon_code \<and>
     list_all (\<lambda>k. cv_coupon (row (coupon_versions s) k) \<in> set (pks (coupons s))) (pks (coupon_versions s)) \<and>
     list_all (\<lambda>k. ce_coupon (row (coupon_eligibilities s) k) \<in> set (pks (coupons s))) (pks (coupon_eligibilities s))"

lemma filter_blocks:
  assumes "distinct ks" and "k \<in> set ks"
  shows "filter (\<lambda>e. ce_coupon e = k) (concat (map (\<lambda>c. map (\<lambda>i. \<lparr>ce_coupon = c, ce_product = i, ce_program_run = m i\<rparr>) ps) ks))
    = map (\<lambda>i. \<lparr>ce_coupon = k, ce_product = i, ce_program_run = m i\<rparr>) ps"
  using assms
proof (induction ks)
  case (Cons c ks)
  show ?case
  proof (cases "k = c")
    case True
    with Cons.prems have "filter (\<lambda>e. ce_coupon e = k)
        (concat (map (\<lambda>c. map (\<lambda>i. \<lparr>ce_coupon = c, ce_product = i, ce_program_run = m i\<rparr>) ps) ks)) = []"
      by (auto simp: filter_empty_conv)
    with True show ?thesis by simp
  next
    case False
    with Cons show ?thesis by simp
  qed
qed simp

lemma filter_versions:
  "distinct ks \<Longrightarrow> k \<in> set ks \<Longrightarrow>
   filter (\<lambda>v. cv_coupon v = k) (map (\<lambda>c. \<lparr>cv_coupon = c, cv_payment_version = pv, cv_created_on = now\<rparr>) ks) =
   [\<lparr>cv_coupon = k, cv_payment_version = pv, cv_created_on = now\<rparr>]"
proof (induction ks)
  case (Cons c ks)
  then show ?case by (cases "k = c") (auto simp: filter_empty_conv)
qed simp

text \<open>What a successful creation leaves in the tables.\<close>

lemma create_coupons_effect:
  assumes "coupon_keys_ok s" and "create_coupons uuids now p s = (Inr pv, s')"
  shows "row (coupon_payment_versions s') pv = new_payment_version now p (next_pk (coupon_payments s)) \<and>
    unique_on (coupons s') coupon_code \<and>
    (\<exists>ks. length ks = cpar_num_coupon_codes p \<and> pks (coupons s') = pks (coupons s) @ ks \<and>
      list_all (\<lambda>k. coupon_enabled (row (coupons s') k) \<and> coupon_is_global (row (coupons s') k) = cpar_is_global p \<and>
         map cv_payment_version (map (row (coupon_versions s')) (matching (coupon_versions s') (\<lambda>_ v. cv_coupon v = k))) = [pv] \<and>
         map ce_product (map (row (coupon_eligibilities s')) (matching (coupon_eligibilities s') (\<lambda>_ e. ce_coupon e = k)))
           = cpar_product_ids p) ks)"
proof -
  let ?n = "next_pk (coupons s)"
  let ?cs = "made_coupons uuids p s" and ?ks = "[?n ..< ?n + cpar_num_coupon_codes p]"
  note D = create_coupons_okD [OF assms(2)]
  have wf: "wf_table (coupons s)" "wf_table (coupon_versions s)" "wf_table (coupon_eligibilities s)"
    and u: "unique_on (coupons s) coupon_code"
    using assms(1) by (simp_all add: coupon_keys_ok_def)
  have pv: "row (coupon_payment_versions s') pv = new_payment_version now p (next_pk (coupon_payments s))"
    by (simp add: D(1,6) row_t_create)
  have keys: "pks (coupons s') = pks (coupons s) @ ?ks"
    by (simp add: D(5) fst_t_bulk_create made_coupons_props(1) del: upt_Suc)
  have "\<forall>k \<in> set (pks (coupons s)). coupon_code (row (coupons s) k) \<notin> coupon_code ` set ?cs"
    using D(4) by (auto simp: t_exists_iff)
  then have uniq: "unique_on (coupons s') coupon_code"
    unfolding D(5) by (rule unique_on_bulk_create [OF wf(1) u D(3)])
  have new: "row (coupons s') k \<in> set ?cs" if k: "k \<in> set ?ks" for k
  proof -
    have "k = ?n + (k - ?n)" and "k - ?n < length ?cs"
      using k by (auto simp: made_coupons_props(1))
    then show ?thesis
      using row_t_bulk_create_new [of "k - ?n" ?cs "coupons s"] by (simp add: D(5))
  qed
  have old: "j \<noteq> k" if "j \<in> set (pks (coupons s))" "k \<in> set ?ks" for j k
    using that wf(1) by (auto simp: wf_table_def)
  have "coupon_enabled (row (coupons s') k) \<and> coupon_is_global (row (coupons s') k) = cpar_is_global p \<and>
      map cv_payment_version (map (row (coupon_versions s')) (matching (coupon_versions s') (\<lambda>_ v. cv_coupon v = k))) = [pv] \<and>
      map ce_product (map (row (coupon_eligibilities s')) (matching (coupon_eligibilities s') (\<lambda>_ e. ce_coupon e = k)))
        = cpar_product_ids p" if k: "k \<in> set ?ks" for k
  proof -
    have "filter (\<lambda>v. cv_coupon v = k) (map (row (coupon_versions s)) (pks (coupon_versions s))) = []"
      using assms(1) old [OF _ k] by (auto simp: coupon_keys_ok_def list_all_iff filter_empty_conv)
    then have "map (row (coupon_versions s')) (matching (coupon_versions s') (\<lambda>_ v. cv_coupon v = k)) =
        [\<lparr>cv_coupon = k, cv_payment_version = pv, cv_created_on = now\<rparr>]"
      unfolding map_row_matching D(7) map_row_bulk_create [OF wf(2)] filter_append
      by (simp only: filter_versions [OF distinct_upt k] append_Nil)
    moreover have "filter (\<lambda>e. ce_coupon e = k) (map (row (coupon_eligibilities s)) (pks (coupon_eligibilities s))) = []"
      using assms(1) old [OF _ k] by (auto simp: coupon_keys_ok_def list_all_iff filter_empty_conv)
    then have "map (row (coupon_eligibilities s')) (matching (coupon_eligibilities s') (\<lambda>_ e. ce_coupon e = k)) =
        map (\<lambda>i. \<lparr>ce_coupon = k, ce_product = i, ce_program_run = cpar_product_program_run_map p i\<rparr>) (cpar_product_ids p)"
      unfolding map_row_matching D(8) map_row_bulk_create [OF wf(3)] filter_append
      by (simp only: filter_blocks [OF distinct_upt k] append_Nil)
    ultimately show ?thesis
      using made_coupons_props(2) [OF new [OF k]] by (simp add: comp_def)
  qed
  then show ?thesis
    using pv uniq keys by (intro conjI exI [of _ ?ks]) (simp_all add: list_all_iff del: upt_Suc)
qed

text \<open>
  C22: When \<open>create_coupons\<close> succeeds it has made exactly the number of coupons asked for, with codes no
  other coupon has, all enabled; every one of them has a single version, which carries the new payment
  version with the amount, type and limits asked for, and is eligible for exactly the products asked for.
\<close>

theorem create_coupons_spec:
  assumes "coupon_keys_ok s" and "create_coupons uuids now p s = (Inr pv, s')"
  shows "row (coupon_payment_versions s') pv = new_payment_version now p (next_pk (coupon_payments s)) \<and>
    unique_on (coupons s') coupon_code \<and>
    (\<exists>ks. length ks = cpar_num_coupon_codes p \<and> pks (coupons s') = pks (coupons s) @ ks \<and>
      list_all (\<lambda>k. coupon_enabled (row (coupons s') k) \<and> coupon_is_global (row (coupons s') k) = cpar_is_global p \<and>
         map cv_payment_version (map (row (coupon_versions s')) (matching (coupon_versions s') (\<lambda>_ v. cv_coupon v = k))) = [pv] \<and>
         map ce_product (map (row (coupon_eligibilities s')) (matching (coupon_eligibilities s') (\<lambda>_ e. ce_coupon e = k)))
           = cpar_product_ids p) ks)"
  by (rule create_coupons_effect [OF assms])

subsection \<open>Concrete inputs\<close>

lemmas example_eval =
  example_tables table_of_def empty_table_def matching_def t_exists_def t_first_def t_get_def the_only_def

lemma example_valid: "get_valid_coupon_versions 10 example_shop (Some 1) 1 False (Some ''HALF'') False None = [1]"
  by (simp add: get_valid_coupon_versions_def Let_def example_eval distinct_on_coupon_def the_list_def
      order_by_desc_def within_dates_def redemption_count_def payment_version_of_def example_cpv_def
      latest_product_version_def example_pv_def)

lemma valid_coupon_versions_sound_witness:
  "redemption_count example_shop 1 (\<lambda>_. True)
     < cpv_max_redemptions (payment_version_of example_shop (row (coupon_versions example_shop) 1))"
  using valid_coupon_versions_sound [of 1 10 example_shop "Some 1" 1 False "Some ''HALF''" False None] example_valid
  by simp

lemma unrestricted_versions_are_latest_witness:
  "cv_created_on (row (coupon_versions example_shop) 1) \<le> cv_created_on (row (coupon_versions example_shop) 1)"
  by (rule unrestricted_versions_are_latest [of 1 10 example_shop 1 1 "Some ''HALF''"])
     (simp_all only: example_valid,
      simp_all add: example_eval latest_product_version_def order_by_desc_def example_pv_def)

lemma example_amounts_ok: "amounts_ok example_shop"
  by (simp add: amounts_ok_def example_eval payment_version_of_def coupon_payment_version_clean_iff example_cpv_def
      example_pv_def is_cents_def)

lemma best_coupon_is_cheapest_witness:
  "best_coupon_for_product 10 example_shop 1 1 False (Some ''HALF'') = Inr (Some 1) \<and>
   1 \<in> set (get_valid_coupon_versions 10 example_shop (Some 1) 1 False (Some ''HALF'') False None)"
proof
  have pv: "latest_product_version example_shop 1 = Some 1"
    by (simp add: latest_product_version_def example_eval order_by_desc_def example_pv_def)
  show r: "best_coupon_for_product 10 example_shop 1 1 False (Some ''HALF'') = Inr (Some 1)"
    by (simp add: best_coupon_for_product_def example_valid [unfolded One_nat_def] pv [unfolded One_nat_def])
  show "1 \<in> set (get_valid_coupon_versions 10 example_shop (Some 1) 1 False (Some ''HALF'') False None)"
    using best_coupon_is_cheapest [OF example_amounts_ok r] by blast
qed

definition example_assignment :: product_coupon_assignment_row where
  "example_assignment = \<lparr>pca_email = ''bob@x.org'', pca_original_email = None, pca_product_coupon = 1,
     pca_redeemed = False, pca_message_status = None, pca_message_status_date = None, pca_bulk_assignment = None\<rparr>"

lemma set_coupons_to_redeemed_spec_witness:
  "pca_original_email (row (product_coupon_assignments (snd (set_coupons_to_redeemed ''ann@x.org'' [1]
      (example_shop\<lparr>product_coupon_assignments := table_of example_assignment [example_assignment]\<rparr>)))) 1)
   = Some ''bob@x.org''"
proof -
  let ?s = "example_shop\<lparr>product_coupon_assignments := table_of example_assignment [example_assignment]\<rparr>"
  have wf: "wf_table (product_coupon_assignments ?s)" and m: "1 \<in> set (pks (product_coupon_assignments ?s))"
    and a: "row (product_coupon_assignments ?s) 1 = example_assignment"
    by (simp_all add: table_of_def wf_table_def)
  have c: "assignment_coupon ?s example_assignment = 1"
    by (simp add: assignment_coupon_def example_assignment_def example_tables table_of_def)
  have e: "\<not> case_insensitive_equal ''ann@x.org'' (pca_email example_assignment)"
    by (simp add: example_assignment_def case_insensitive_equal_def py_lower_def lower_char_def)
  have n: "pca_email example_assignment = ''bob@x.org''" "\<not> pca_redeemed example_assignment"
    by (simp_all add: example_assignment_def)
  show ?thesis
    using set_coupons_to_redeemed_spec [OF wf prod.collapse [symmetric] m, of "''ann@x.org''" "[1]"]
    unfolding a c Let_def using e n by simp
qed

definition example_params :: coupon_params where
  "example_params = \<lparr>cpar_name = ''bulk'', cpar_product_ids = [1, 2], cpar_amount = 1, cpar_num_coupon_codes = 2,
     cpar_coupon_type = SINGLE_USE, cpar_max_redemptions = 1, cpar_max_redemptions_per_user = 1, cpar_tag = None,
     cpar_company_id = None, cpar_automatic = False, cpar_is_global = False, cpar_activation_date = None,
     cpar_expiration_date = None, cpar_payment_type = None, cpar_discount_type = PercentOff,
     cpar_payment_transaction = None, cpar_coupon_code = None, cpar_product_program_run_map = Map.empty,
     cpar_include_future_runs = False\<rparr>"

lemma example_coupon_keys: "coupon_keys_ok example_shop"
  by (simp add: coupon_keys_ok_def example_eval unique_on_def wf_table_def)

lemma create_coupons_spec_witness:
  "unique_on (coupons (snd (create_coupons (\<lambda>i. ''u'' @ nat_str i) 10 example_params example_shop))) coupon_code"
proof -
  have "create_coupons (\<lambda>i. ''u'' @ nat_str i) 10 example_params example_shop =
      (Inr 2, snd (create_coupons (\<lambda>i. ''u'' @ nat_str i) 10 example_params example_shop))"
    by (simp add: create_coupons_def bindp_run thenp_run try_catch_def atomic_run bulk_create_coupons_run
        example_params_def new_coupons_def example_eval fst_t_bulk_create numeral_2_eq_2)
  then show ?thesis
    using create_coupons_spec [OF example_coupon_keys] by blast
qed

end
