(* ===== verification/Cybersource.thy ===== *)
theory Cybersource
  imports Geo_Tax
begin

text \<open>
  The exchange with the payment service: the signed payload that \<open>ecommerce/api.py\<close> and
  \<open>b2b_ecommerce/api.py\<close> send to it, and the check of the signature of its answer in
  \<open>ecommerce/permissions.py\<close>. The keyed digest with its base 64 encoding (HMAC with SHA-256) is an
  argument; nothing but its being a function of key and message is used.
\<close>

section \<open>Payloads\<close>

text \<open>The values of a payload, and how an f-string prints them.\<close>

datatype field = FText string | FNum nat | FNone

definition field_str :: "field \<Rightarrow> string" where
  "field_str f = (case f of FText t \<Rightarrow> t | FNum n \<Rightarrow> nat_str n | FNone \<Rightarrow> ''None'')"

definition signed_message :: "(string \<times> field) list \<Rightarrow> string list \<Rightarrow> string" where
  "signed_message payload keys =
     py_join '','' (map (\<lambda>k. k @ ''='' @ field_str (the (map_of payload k))) keys)"

definition generate_cybersource_sa_signature ::
  "(string \<Rightarrow> string \<Rightarrow> string) \<Rightarrow> string \<Rightarrow> (string \<times> field) list \<Rightarrow> exn + string" where
  "generate_cybersource_sa_signature hmac_b64 security_key payload =
     (case map_of payload ''signed_field_names'' of
        None \<Rightarrow> Inl (KeyError ''signed_field_names'')
      | Some (FText names) \<Rightarrow>
          (let keys = py_split CHR '','' names
           in case first_of (filter (\<lambda>k. map_of payload k = None) keys) of
                Some k \<Rightarrow> Inl (KeyError k)
              | None \<Rightarrow> Inr (hmac_b64 security_key (signed_message payload keys)))
      | Some _ \<Rightarrow> Inl (AttributeError ''split''))"

definition sign_cybersource_payload ::
  "(string \<Rightarrow> string \<Rightarrow> string) \<Rightarrow> string \<Rightarrow> (string \<times> field) list \<Rightarrow> exn + (string \<times> field) list" where
  "sign_cybersource_payload hmac_b64 security_key payload =
     (let field_names = sort (map fst payload @ [''signed_field_names'']);
          payload = dict_set payload ''signed_field_names'' (FText (py_join '','' field_names))
      in case generate_cybersource_sa_signature hmac_b64 security_key payload of
           Inl e \<Rightarrow> Inl e
         | Inr sig \<Rightarrow> Inr (dict_set payload ''signature'' (FText sig)))"

text \<open>\<open>IsSignedByCyberSource.has_permission\<close>; the data of a request are strings.\<close>

definition is_signed_by_cybersource ::
  "(string \<Rightarrow> string \<Rightarrow> string) \<Rightarrow> string \<Rightarrow> payload \<Rightarrow> exn + bool" where
  "is_signed_by_cybersource hmac_b64 security_key request_data =
     (case generate_cybersource_sa_signature hmac_b64 security_key (map (\<lambda>(k, v). (k, FText v)) request_data) of
        Inl e \<Rightarrow> Inl e
      | Inr sig \<Rightarrow>
          (case map_of request_data ''signature'' of
             None \<Rightarrow> Inl (KeyError ''signature'')
           | Some given \<Rightarrow> Inr (given = sig)))"

section \<open>URLs and ids\<close>

text \<open>
  \<open>urljoin(base, p)\<close> for a path \<open>p\<close> from the root: the scheme and the host of the base, then the path.
\<close>

fun scheme_and_rest :: "string \<Rightarrow> (string \<times> string) option" where
  "scheme_and_rest [] = None"
| "scheme_and_rest (c # cs) =
     (if starts_with (c # cs) ''://'' then Some (''://'', drop 3 (c # cs))
      else map_option (\<lambda>(scheme, rest). (c # scheme, rest)) (scheme_and_rest cs))"

definition url_origin :: "string \<Rightarrow> string" where
  "url_origin base =
     (case scheme_and_rest base of
        None \<Rightarrow> []
      | Some (scheme, rest) \<Rightarrow> scheme @ takeWhile (\<lambda>c. c \<notin> {CHR ''/'', CHR ''?'', CHR ''#''}) rest)"

definition make_receipt_url :: "string \<Rightarrow> string \<Rightarrow> string" where
  "make_receipt_url base_url readable_id =
     url_origin base_url @ ''/dashboard/'' @ ''?status=purchased&purchased='' @ quote_plus readable_id"

definition get_readable_id :: "'z shop_db_scheme \<Rightarrow> content \<Rightarrow> exn + string" where
  "get_readable_id s run_or_program =
     (case run_or_program of
        CourseRunContent k \<Rightarrow> Inr (run_courseware_id (row (course_runs s) k))
      | ProgramContent k \<Rightarrow> Inr (prog_readable_id (row (programs s) k))
      | _ \<Rightarrow> Inl (PlainException ''Unexpected object''))"

section \<open>The payload of an order\<close>

text \<open>
  What the payload takes from the settings and the surroundings: the keys, the label of content types
  other than those of the course catalog, the current time and a fresh unique id as text.
\<close>

record cybersource_settings =
  cs_access_key :: string
  cs_profile_id :: string
  cs_security_key :: string
  cs_content_type_label :: "string \<Rightarrow> string"
  cs_signed_date_time :: string
  cs_transaction_uuid :: string

definition content_missing :: "'z shop_db_scheme \<Rightarrow> content \<Rightarrow> bool" where
  "content_missing s c = (case c of OtherContent _ _ \<Rightarrow> False | _ \<Rightarrow> \<not> content_exists s c)"

definition content_type_string :: "cybersource_settings \<Rightarrow> content \<Rightarrow> string" where
  "content_type_string cfg c =
     (case c of
        CourseRunContent _ \<Rightarrow> ''courses | course run'' | ProgramContent _ \<Rightarrow> ''courses | program''
      | CourseContent _ \<Rightarrow> ''courses | course'' | OtherContent m _ \<Rightarrow> cs_content_type_label cfg m)"

text \<open>\<open>str\<close> of a price: \<open>positive_or_zero\<close> answers with the integer zero for a negative price.\<close>

definition unit_price_str :: "'z shop_db_scheme \<Rightarrow> nat option \<Rightarrow> nat \<Rightarrow> string" where
  "unit_price_str s coupon_version product_version =
     (if pv_price (row (product_versions s) product_version) < product_version_discount s coupon_version product_version
      then ''0''
      else cents_str (get_product_version_price_with_discount s coupon_version product_version))"

definition line_item_fields ::
  "cybersource_settings \<Rightarrow> 'z shop_db_scheme \<Rightarrow> nat option \<Rightarrow> decimal option \<Rightarrow> nat \<times> nat \<Rightarrow> (string \<times> field) list" where
  "line_item_fields cfg s coupon_version tax_rate il =
     (let (i, line) = il; lr = row (lines s) line; pvk = line_product_version lr;
          pv = row (product_versions s) pvk; c = prod_content (row (products s) (pv_product pv));
          product_price_dict = get_product_version_price_with_discount_tax s coupon_version pvk tax_rate;
          item = ''item_'' @ nat_str i
      in [(item @ ''_code'', FText (content_type_string cfg c)),
          (item @ ''_name'', FText (take 254 (pv_description pv))),
          (item @ ''_quantity'', FNum (line_quantity lr)),
          (item @ ''_sku'', FNum (content_id c)),
          (item @ ''_tax_amount'', FText (cents_str (round_cents_half_even (pt_tax_assessed product_price_dict)))),
          (item @ ''_unit_price'', FText (unit_price_str s coupon_version pvk))])"

definition merchant_fields ::
  "cybersource_settings \<Rightarrow> 'z shop_db_scheme \<Rightarrow> nat option \<Rightarrow> content \<Rightarrow> string \<Rightarrow> (string \<times> field) list" where
  "merchant_fields cfg s coupon_version c readable_id =
     [(''merchant_defined_data1'', FText (content_type_string cfg c)),
      (''merchant_defined_data2'', FText readable_id),
      (''merchant_defined_data3'', FText ''1'')] @
     (case coupon_version of
        None \<Rightarrow> []
      | Some v \<Rightarrow>
          (let cv = row (coupon_versions s) v; cpv = row (coupon_payment_versions s) (cv_payment_version cv);
               or_blank = (\<lambda>t. case t of None \<Rightarrow> [] | Some x \<Rightarrow> x)
           in [(''merchant_defined_data4'', FText (coupon_code (row (coupons s) (cv_coupon cv)))),
               (''merchant_defined_data5'',
                  FText (case cpv_company cpv of None \<Rightarrow> [] | Some k \<Rightarrow> company_name (row (companies s) k))),
               (''merchant_defined_data6'', FText (or_blank (cpv_payment_transaction cpv))),
               (''merchant_defined_data7'', FText (or_blank (cpv_payment_type cpv)))]))"

text \<open>\<open>_generate_cybersource_sa_payload\<close>\<close>

definition unsigned_cybersource_payload ::
  "cybersource_settings \<Rightarrow> string \<Rightarrow> 'z shop_db_scheme \<Rightarrow> nat \<Rightarrow> string \<Rightarrow> string \<Rightarrow> string option \<Rightarrow>
   exn + (string \<times> field) list" where
  "unsigned_cybersource_payload cfg environment s order receipt_url cancel_url customer_ip =
     (let o_row = row (orders s) order;
          coupon_version =
            map_option (\<lambda>r. cred_coupon_version (row (coupon_redemptions s) r)) (first_of (order_redemptions s order));
          ls = order_lines s order;
          content_of = (\<lambda>l. prod_content (row (products s) (pv_product (row (product_versions s)
                              (line_product_version (row (lines s) l))))));
          prices = map (\<lambda>l. get_product_version_price_with_discount_tax s coupon_version
                              (line_product_version (row (lines s) l)) (ord_tax_rate o_row)) ls;
          total = sum_list (map pt_price prices);
          total_tax_assessed = sum_list (map pt_tax_assessed prices)
      in if list_ex (\<lambda>l. content_missing s (content_of l)) ls
         then Inl (AttributeError ''id'')
         else case first_of ls of
                None \<Rightarrow> Inl (AttributeError ''product_version'')
              | Some line \<Rightarrow>
                  (case get_readable_id s (content_of line) of
                     Inl e \<Rightarrow> Inl e
                   | Inr readable_id \<Rightarrow>
                       Inr ([(''access_key'', FText (cs_access_key cfg)),
                             (''amount'', FText (cents_str (round_cents_half_even (total + total_tax_assessed)))),
                             (''tax_amount'', FText (cents_str (round_cents_half_even total_tax_assessed))),
                             (''consumer_id'', FText (user_username (row (users s) (ord_purchaser o_row)))),
                             (''currency'', FText ''USD''),
                             (''locale'', FText ''en-us'')] @
                            concat (map (line_item_fields cfg s coupon_version (ord_tax_rate o_row))
                                      (enumerate 0 ls)) @
                            [(''line_item_count'', FNum (length ls))] @
                            merchant_fields cfg s coupon_version (content_of line) readable_id @
                            [(''reference_number'',
                                FText (reference_number (order_reference_number_prefix environment) order)),
                             (''profile_id'', FText (cs_profile_id cfg)),
                             (''signed_date_time'', FText (cs_signed_date_time cfg)),
                             (''override_custom_receipt_page'', FText receipt_url),
                             (''override_custom_cancel_page'', FText cancel_url),
                             (''transaction_type'', FText ''sale''),
                             (''transaction_uuid'', FText (cs_transaction_uuid cfg)),
                             (''unsigned_field_names'', FText []),
                             (''customer_ip_address'',
                                case customer_ip of None \<Rightarrow> FNone | Some a \<Rightarrow> if a = [] then FNone else FText a)])))"

definition generate_cybersource_sa_payload ::
  "(string \<Rightarrow> string \<Rightarrow> string) \<Rightarrow> cybersource_settings \<Rightarrow> string \<Rightarrow> 'z shop_db_scheme \<Rightarrow> nat \<Rightarrow> string \<Rightarrow> string \<Rightarrow>
   string option \<Rightarrow> exn + (string \<times> field) list" where
  "generate_cybersource_sa_payload hmac_b64 cfg environment s order receipt_url cancel_url customer_ip =
     (case unsigned_cybersource_payload cfg environment s order receipt_url cancel_url customer_ip of
        Inl e \<Rightarrow> Inl e
      | Inr payload \<Rightarrow> sign_cybersource_payload hmac_b64 (cs_security_key cfg) payload)"

section \<open>The payload of a business order\<close>

definition unsigned_b2b_cybersource_payload ::
  "cybersource_settings \<Rightarrow> string \<Rightarrow> 'z shop_db_scheme \<Rightarrow> nat \<Rightarrow> string \<Rightarrow> string \<Rightarrow> exn + (string \<times> field) list" where
  "unsigned_b2b_cybersource_payload cfg environment s order receipt_url cancel_url =
     (let o_row = row (b2b_orders s) order; pv = row (product_versions s) (bo_product_version o_row);
          c = prod_content (row (products s) (pv_product pv));
          content_type = content_type_string cfg c; price = bo_total_price o_row
      in if content_missing s c then Inl (AttributeError ''id'')
         else Inr [(''access_key'', FText (cs_access_key cfg)),
                   (''amount'', FText (cents_str price)),
                   (''currency'', FText ''USD''),
                   (''locale'', FText ''en-us''),
                   (''item_0_code'', FText ''enrollment_code''),
                   (''item_0_name'', FText (take 254 (''Enrollment codes for '' @ pv_description pv))),
                   (''item_0_quantity'', FNum (bo_num_seats o_row)),
                   (''item_0_sku'',
                      FText (take 254 (''enrollment_code-'' @ content_type @ ''-'' @ nat_str (content_id c)))),
                   (''item_0_tax_amount'', FText ''0''),
                   (''item_0_unit_price'', FText (cents_str price)),
                   (''line_item_count'', FNum 1),
                   (''reference_number'',
                      FText (reference_number (b2b_order_reference_number_prefix environment) order)),
                   (''profile_id'', FText (cs_profile_id cfg)),
                   (''signed_date_time'', FText (cs_signed_date_time cfg)),
                   (''override_custom_receipt_page'', FText receipt_url),
                   (''override_custom_cancel_page'', FText cancel_url),
                   (''transaction_type'', FText ''sale''),
                   (''transaction_uuid'', FText (cs_transaction_uuid cfg)),
                   (''unsigned_field_names'', FText []),
                   (''merchant_defined_data1'',
                      FText (case bo_contract_number o_row of None \<Rightarrow> [] | Some n \<Rightarrow> n))])"

definition generate_b2b_cybersource_sa_payload ::
  "(string \<Rightarrow> string \<Rightarrow> string) \<Rightarrow> cybersource_settings \<Rightarrow> string \<Rightarrow> 'z shop_db_scheme \<Rightarrow> nat \<Rightarrow> string \<Rightarrow> string \<Rightarrow>
   exn + (string \<times> field) list" where
  "generate_b2b_cybersource_sa_payload hmac_b64 cfg environment s order receipt_url cancel_url =
     (case unsigned_b2b_cybersource_payload cfg environment s order receipt_url cancel_url of
        Inl e \<Rightarrow> Inl e
      | Inr payload \<Rightarrow> sign_cybersource_payload hmac_b64 (cs_security_key cfg) payload)"

section \<open>Signing and checking\<close>

text \<open>What the payload looks like when it comes back in a request.\<close>

definition posted :: "(string \<times> field) list \<Rightarrow> payload" where
  "posted d = map (\<lambda>(k, f). (k, field_str f)) d"

lemma map_of_posted: "map_of (posted d) k = map_option field_str (map_of d k)"
  by (induction d) (auto simp: posted_def)

lemma map_of_as_text: "map_of (map (\<lambda>(k, v). (k, FText v)) d) k = map_option FText (map_of d k)"
  by (induction d) auto

lemma fst_set_posted [simp]: "fst ` set (posted d) = fst ` set d"
  by (force simp: posted_def)

text \<open>The names that are signed, read back from the payload.\<close>

lemma split_field_names:
  assumes "\<And>k. k \<in> fst ` set p \<Longrightarrow> CHR '','' \<notin> set k"
  shows "py_split CHR '','' (py_join '','' (sort (map fst p @ [''signed_field_names'']))) =
    sort (map fst p @ [''signed_field_names''])"
proof (rule py_split_join)
  show "sort (map fst p @ [''signed_field_names'']) \<noteq> []"
    by (simp add: length_0_conv [symmetric] del: length_0_conv)
qed (use assms in \<open>auto simp: image_iff\<close>)

lemma sign_ok:
  assumes "\<And>k. k \<in> fst ` set p \<Longrightarrow> CHR '','' \<notin> set k"
  shows "sign_cybersource_payload hmac_b64 key p =
    (let names = sort (map fst p @ [''signed_field_names'']);
         p' = dict_set p ''signed_field_names'' (FText (py_join '','' names))
     in Inr (dict_set p' ''signature'' (FText (hmac_b64 key (signed_message p' names)))))"
proof -
  let ?names = "sort (map fst p @ [''signed_field_names''])"
  let ?p = "dict_set p ''signed_field_names'' (FText (py_join '','' ?names))"
  have "map_of ?p k \<noteq> None" if "k \<in> set ?names" for k
  proof -
    from that have "k \<in> fst ` set ?p" by (auto simp: keys_dict_set)
    then show ?thesis by (simp add: map_of_eq_None_iff)
  qed
  then have none: "filter (\<lambda>k. map_of ?p k = None) ?names = []"
    by (simp only: filter_empty_conv) blast
  have "map_of ?p ''signed_field_names'' = Some (FText (py_join '','' ?names))"
    by (simp add: map_of_dict_set)
  with none have "generate_cybersource_sa_signature hmac_b64 key ?p = Inr (hmac_b64 key (signed_message ?p ?names))"
    unfolding generate_cybersource_sa_signature_def
    by (simp only: option.case field.case split_field_names [OF assms] Let_def first_of.simps)
  then show ?thesis
    by (simp only: sign_cybersource_payload_def Let_def sum.case)
qed

lemma signed_message_cong:
  "(\<And>k. k \<in> set keys \<Longrightarrow> field_str (the (map_of d k)) = field_str (the (map_of e k))) \<Longrightarrow>
   signed_message d keys = signed_message e keys"
  by (simp add: signed_message_def cong: map_cong)

lemma signed_payload_accepted:
  assumes comma: "\<And>k. k \<in> fst ` set p \<Longrightarrow> CHR '','' \<notin> set k"
    and sig: "''signature'' \<notin> fst ` set p" and ok: "sign_cybersource_payload hmac_b64 key p = Inr q"
  shows "is_signed_by_cybersource hmac_b64 key (posted q @ extra) = Inr True"
proof -
  let ?names = "sort (map fst p @ [''signed_field_names''])"
  let ?p = "dict_set p ''signed_field_names'' (FText (py_join '','' ?names))"
  let ?sig = "hmac_b64 key (signed_message ?p ?names)"
  let ?data = "map (\<lambda>(k, v). (k, FText v)) (posted q @ extra)"
  have q: "q = dict_set ?p ''signature'' (FText ?sig)"
    using ok by (simp add: sign_ok [OF comma] Let_def)
  have val: "map_of ?data k = Some (FText (field_str (the (map_of q k))))" if "k \<in> fst ` set q" for k
  proof -
    from that obtain f where "map_of q k = Some f"
      by (metis map_of_eq_None_iff not_None_eq)
    then show ?thesis by (simp add: map_of_as_text map_of_posted map_add_Some_iff del: map_append)
  qed
  have keys: "fst ` set q = insert ''signature'' (set ?names)"
    by (auto simp: q keys_dict_set)
  have q_old: "map_of q k = map_of ?p k" if "k \<in> set ?names" for k
  proof -
    from that sig have "k \<noteq> ''signature''" by auto
    then show ?thesis by (simp add: q map_of_dict_set)
  qed
  have "signed_message ?data ?names = signed_message ?p ?names"
  proof (rule signed_message_cong)
    fix k assume k: "k \<in> set ?names"
    then have "map_of ?data k = Some (FText (field_str (the (map_of q k))))"
      by (intro val) (simp add: keys)
    with q_old [OF k] show "field_str (the (map_of ?data k)) = field_str (the (map_of ?p k))"
      by (simp add: field_str_def)
  qed
  moreover have "map_of ?data ''signed_field_names'' = Some (FText (py_join '','' ?names))"
    using val [of "''signed_field_names''"] q_old [of "''signed_field_names''"]
    by (simp add: keys map_of_dict_set field_str_def del: map_append)
  moreover have "filter (\<lambda>k. map_of ?data k = None) ?names = []"
    using val keys by (simp only: filter_empty_conv) auto
  ultimately have "generate_cybersource_sa_signature hmac_b64 key ?data = Inr ?sig"
    by (simp add: generate_cybersource_sa_signature_def split_field_names [OF comma] Let_def del: map_append)
  moreover have "map_of (posted q @ extra) ''signature'' = Some ?sig"
    by (simp add: map_of_posted q map_of_dict_set field_str_def map_add_Some_iff)
  ultimately show ?thesis
    by (simp add: is_signed_by_cybersource_def del: map_append)
qed

text \<open>
  Signing and checking fit together: a payload whose field names have no comma and do not include the
  signature itself can always be signed, and the payload, sent back as text, passes the check of the
  signature, whatever further fields come with it.
\<close>

theorem signed_payload_roundtrip:
  assumes "list_all (\<lambda>k. CHR '','' \<notin> set k \<and> k \<noteq> ''signature'') (map fst p)"
  shows "\<exists>q. sign_cybersource_payload hmac_b64 key p = Inr q \<and>
    map_of q ''signature'' = Some (FText (hmac_b64 key
      (signed_message q (py_split CHR '','' (field_str (the (map_of q ''signed_field_names''))))))) \<and>
    (\<forall>extra. is_signed_by_cybersource hmac_b64 key (posted q @ extra) = Inr True)"
proof -
  have comma: "\<And>k. k \<in> fst ` set p \<Longrightarrow> CHR '','' \<notin> set k" and sig: "''signature'' \<notin> fst ` set p"
    using assms by (auto simp: list_all_iff)
  let ?names = "sort (map fst p @ [''signed_field_names''])"
  let ?p = "dict_set p ''signed_field_names'' (FText (py_join '','' ?names))"
  let ?q = "dict_set ?p ''signature'' (FText (hmac_b64 key (signed_message ?p ?names)))"
  have q: "sign_cybersource_payload hmac_b64 key p = Inr ?q"
    by (simp add: sign_ok [OF comma] Let_def)
  have "signed_message ?q ?names = signed_message ?p ?names"
    using sig by (intro signed_message_cong) (auto simp: map_of_dict_set)
  then have "map_of ?q ''signature'' = Some (FText (hmac_b64 key
      (signed_message ?q (py_split CHR '','' (field_str (the (map_of ?q ''signed_field_names'')))))))"
    by (simp add: map_of_dict_set field_str_def split_field_names [OF comma])
  with q signed_payload_accepted [OF comma sig q] show ?thesis by blast
qed

lemma signed_payload_roundtrip_witness:
  "\<exists>q. sign_cybersource_payload (\<lambda>k m. k @ m) ''key'' [(''amount'', FText ''50.00''), (''n'', FNum 1)] = Inr q \<and>
     is_signed_by_cybersource (\<lambda>k m. k @ m) ''key'' (posted q @ [(''x'', ''1'')]) = Inr True"
  using signed_payload_roundtrip [of "[(''amount'', FText ''50.00''), (''n'', FNum 1)]" "\<lambda>k m. k @ m" "''key''"]
  by fastforce

text \<open>A joined list whose parts have no separator is determined by its parts.\<close>

lemma py_join_inject:
  assumes "py_join [c] xs = py_join [c] ys" and "length xs = length ys"
    and "\<And>x. x \<in> set xs \<union> set ys \<Longrightarrow> c \<notin> set x"
  shows "xs = ys"
proof (cases "xs = []")
  case False
  with assms have "ys \<noteq> []" by auto
  with False assms py_split_join [of xs c] py_split_join [of ys c] show ?thesis by (metis UnCI)
qed (use assms(2) in simp)

text \<open>
  The signed text fixes the signed fields: if two payloads give the same text for the same names, and
  neither the names nor the values under them have a comma, then the payloads agree on every
  one of these fields. (With commas in the values they need not.)
\<close>

theorem signed_message_fixes_fields:
  assumes "signed_message d keys = signed_message e keys" and "k \<in> set keys"
    and "list_all (\<lambda>k. CHR '','' \<notin> set k \<and> CHR '','' \<notin> set (field_str (the (map_of d k))) \<and>
                      CHR '','' \<notin> set (field_str (the (map_of e k)))) keys"
  shows "field_str (the (map_of d k)) = field_str (the (map_of e k))"
proof -
  let ?item = "\<lambda>d k. k @ ''='' @ field_str (the (map_of d k))"
  have "map (?item d) keys = map (?item e) keys"
    by (rule py_join_inject) (use assms in \<open>auto simp: signed_message_def list_all_iff\<close>)
  with assms(2) show ?thesis by simp
qed

lemma signed_message_fixes_fields_witness:
  "field_str (the (map_of [(''n'', FNum 1)] ''n'')) = field_str (the (map_of [(''n'', FText (nat_str 1))] ''n''))"
  by (rule signed_message_fixes_fields [of _ "[''n'']"])
     (simp_all add: signed_message_def field_str_def digit_chars_def nat_str.simps)

section \<open>Payloads accepted as notifications\<close>

lemma keys_signed:
  assumes "\<And>k. k \<in> fst ` set p \<Longrightarrow> CHR '','' \<notin> set k" and "sign_cybersource_payload hmac_b64 key p = Inr q"
  shows "fst ` set q = insert ''signature'' (insert ''signed_field_names'' (fst ` set p))"
proof -
  have "\<exists>v w. sign_cybersource_payload hmac_b64 key p = Inr (dict_set (dict_set p ''signed_field_names'' v) ''signature'' w)"
    unfolding sign_ok [where p = p, OF assms(1), simplified] Let_def by blast
  then obtain v w where "q = dict_set (dict_set p ''signed_field_names'' v) ''signature'' w"
    using assms(2) by auto
  then show ?thesis
    by (simp only: keys_dict_set)
qed

definition clean_key :: "string \<Rightarrow> bool" where
  "clean_key k \<longleftrightarrow> CHR '','' \<notin> set k \<and> k \<noteq> ''signature'' \<and> k \<noteq> ''req_reference_number'' \<and> k \<noteq> ''decision''"

lemma item_keys_clean:
  "list_all (\<lambda>kf. clean_key (fst kf)) (concat (map (line_item_fields cfg s cv tr) ils))"
proof -
  have "CHR '','' \<notin> set (nat_str i)" for i
    using nat_str_digits [of "CHR '',''" i] by (auto simp: digit_val_def Let_def)
  then have "list_all (\<lambda>kf. clean_key (fst kf)) (line_item_fields cfg s cv tr (i, l))" for i l
    by (simp add: line_item_fields_def Let_def clean_key_def)
  then show ?thesis
    by (induction ils) auto
qed

lemma merchant_keys_clean: "list_all (\<lambda>kf. clean_key (fst kf)) (merchant_fields cfg s cv c rid)"
  by (simp add: merchant_fields_def Let_def clean_key_def split: option.split)

lemma fixed_keys_clean:
  "clean_key ''access_key''" "clean_key ''amount''" "clean_key ''tax_amount''" "clean_key ''consumer_id''"
  "clean_key ''currency''" "clean_key ''locale''" "clean_key ''line_item_count''" "clean_key ''reference_number''"
  "clean_key ''profile_id''" "clean_key ''signed_date_time''" "clean_key ''override_custom_receipt_page''"
  "clean_key ''override_custom_cancel_page''" "clean_key ''transaction_type''" "clean_key ''transaction_uuid''"
  "clean_key ''unsigned_field_names''" "clean_key ''customer_ip_address''"
  by (simp_all add: clean_key_def)

lemma unsigned_keys_clean:
  assumes "unsigned_cybersource_payload cfg env s k receipt_url cancel_url ip = Inr p" and "j \<in> fst ` set p"
  shows "clean_key j"
proof -
  have "list_all (\<lambda>kf. clean_key (fst kf)) p"
    using assms(1)
    by (auto simp: unsigned_cybersource_payload_def Let_def fixed_keys_clean item_keys_clean merchant_keys_clean
        split: if_split_asm option.split_asm sum.split_asm)
  with assms(2) show ?thesis
    by (auto simp: list_all_iff)
qed

lemma checkout_payload_accepted:
  assumes "generate_cybersource_sa_payload hmac_b64 cfg env s k receipt_url cancel_url ip = Inr q"
  shows "let request_data = posted q @ [(''req_reference_number'', ref), (''decision'', ''ACCEPT'')]
    in is_signed_by_cybersource hmac_b64 (cs_security_key cfg) request_data = Inr True \<and>
       map_of request_data ''req_reference_number'' = Some ref \<and> map_of request_data ''decision'' = Some ''ACCEPT''"
proof -
  from assms obtain p where p: "unsigned_cybersource_payload cfg env s k receipt_url cancel_url ip = Inr p"
    and q: "sign_cybersource_payload hmac_b64 (cs_security_key cfg) p = Inr q"
    by (auto simp: generate_cybersource_sa_payload_def split: sum.splits)
  note clean = unsigned_keys_clean [OF p]
  have comma: "\<And>k. k \<in> fst ` set p \<Longrightarrow> CHR '','' \<notin> set k" and sig: "''signature'' \<notin> fst ` set p"
    and no: "''req_reference_number'' \<notin> fst ` set p" "''decision'' \<notin> fst ` set p"
    using clean unfolding clean_key_def by blast+
  have "fst ` set q = insert ''signature'' (insert ''signed_field_names'' (fst ` set p))"
    by (rule keys_signed [OF comma q])
  with no have "''req_reference_number'' \<notin> fst ` set q" "''decision'' \<notin> fst ` set q"
    by simp_all
  then have "map_of q ''req_reference_number'' = None" "map_of q ''decision'' = None"
    by (simp_all add: map_of_eq_None_iff)
  then have "map_of (posted q @ [(''req_reference_number'', ref), (''decision'', ''ACCEPT'')]) ''req_reference_number'' = Some ref"
    "map_of (posted q @ [(''req_reference_number'', ref), (''decision'', ''ACCEPT'')]) ''decision'' = Some ''ACCEPT''"
    by (simp_all add: map_add_def map_of_posted)
  with signed_payload_accepted [OF comma sig q] show ?thesis
    by (simp only: Let_def simp_thms)
qed

text \<open>
  The payload that the check-out page hands to the browser of a learner, who has not paid yet, passes the
  check of the notifications of the payment service, together with a reference number and the decision
  \<open>ACCEPT\<close> added by whoever sends it: only the fields named in the payload are signed, and the notification
  is read from others.
\<close>

theorem checkout_payload_passes_as_notification:
  assumes "generate_cybersource_sa_payload hmac_b64 cfg env s k receipt_url cancel_url ip = Inr q"
  shows "let request_data = posted q @ [(''req_reference_number'', ref), (''decision'', ''ACCEPT'')]
    in is_signed_by_cybersource hmac_b64 (cs_security_key cfg) request_data = Inr True \<and>
       map_of request_data ''req_reference_number'' = Some ref \<and> map_of request_data ''decision'' = Some ''ACCEPT''"
  by (rule checkout_payload_accepted [OF assms])

definition example_settings :: cybersource_settings where
  "example_settings = \<lparr>cs_access_key = ''ak'', cs_profile_id = ''p'', cs_security_key = ''key'',
     cs_content_type_label = (\<lambda>m. m), cs_signed_date_time = ''2025-01-01T00:00:00Z'', cs_transaction_uuid = ''u''\<rparr>"

text \<open>The example shop after a check-out: an open order of half the price for the second run.\<close>

definition example_checked_out :: shop_db where
  "example_checked_out = example_shop
     \<lparr>orders := table_of example_order [example_order],
      lines := table_of \<lparr>line_order = 0, line_product_version = 0, line_quantity = 0\<rparr>
        [\<lparr>line_order = 1, line_product_version = 1, line_quantity = 1\<rparr>],
      line_run_selections := table_of \<lparr>lrs_line = 0, lrs_run = 0\<rparr> [\<lparr>lrs_line = 1, lrs_run = 2\<rparr>],
      coupon_redemptions := table_of \<lparr>cred_coupon_version = 0, cred_order = 0\<rparr>
        [\<lparr>cred_coupon_version = 1, cred_order = 1\<rparr>]\<rparr>"

lemma example_payload_exists:
  "\<exists>p. unsigned_cybersource_payload example_settings ''ci'' example_checked_out 1 ru cu ip = Inr p"
  by (simp add: unsigned_cybersource_payload_def Let_def order_lines_def matching_def example_checked_out_def
      example_defs content_missing_def content_exists_def get_readable_id_def)

lemma checkout_payload_passes_as_notification_witness:
  "\<exists>q. generate_cybersource_sa_payload (\<lambda>k m. k @ m) example_settings ''ci'' example_checked_out 1 ''r'' ''c'' None = Inr q \<and>
     is_signed_by_cybersource (\<lambda>k m. k @ m) ''key''
       (posted q @ [(''req_reference_number'', ''xpro-b2c-ci-1''), (''decision'', ''ACCEPT'')]) = Inr True"
proof -
  obtain p where p: "unsigned_cybersource_payload example_settings ''ci'' example_checked_out 1 ''r'' ''c'' None = Inr p"
    using example_payload_exists by blast
  have comma: "\<And>k. k \<in> fst ` set p \<Longrightarrow> CHR '','' \<notin> set k"
    using unsigned_keys_clean [OF p] by (simp add: clean_key_def)
  obtain q where "sign_cybersource_payload (\<lambda>k m. k @ m) ''key'' p = Inr q"
    using sign_ok [where p = p, OF comma] by (simp add: Let_def)
  with p have q: "generate_cybersource_sa_payload (\<lambda>k m. k @ m) example_settings ''ci'' example_checked_out 1 ''r'' ''c'' None = Inr q"
    by (simp add: generate_cybersource_sa_payload_def example_settings_def)
  have key: "cs_security_key example_settings = ''key''"
    by (simp add: example_settings_def)
  show ?thesis
    using checkout_payload_passes_as_notification [OF q, of "''xpro-b2c-ci-1''"] q by (simp only: Let_def key) blast
qed

end
