(* ===== verification/Courseware.thy ===== *)
theory Courseware
  imports Geo_Tax
begin

text \<open>
  \<open>courseware/api.py\<close>: how users are created, authorized and enrolled in the external courseware (Open
  edX). The service itself is a record of functions from everything sent so far to its next reply, so that it
  may answer the same request differently at different times; what is sent is recorded in the list of effects. Times
  are in seconds.
\<close>

section \<open>The service\<close>

text \<open>
  The reply to an API call: a result, an HTTP error with the message of its JSON body (if it has one),
  or another exception.
\<close>

datatype 'a reply = Reply 'a | HttpError "string option" | OtherError exn

record edx_token =
  tok_refresh_token :: string
  tok_access_token :: string
  tok_expires_in :: int

record edx_service =
  sv_token_set :: bool
  sv_application_exists :: bool
  sv_redirect_uri :: string
  sv_enroll :: "effect list \<Rightarrow> string \<Rightarrow> string \<Rightarrow> string \<Rightarrow> bool \<Rightarrow> unit reply"
  sv_deactivate :: "effect list \<Rightarrow> string \<Rightarrow> string \<Rightarrow> unit reply"
  sv_enrollment_of :: "effect list \<Rightarrow> string option \<Rightarrow> string \<Rightarrow> exn + (bool \<times> string) option"
  sv_update_name :: "effect list \<Rightarrow> string option \<Rightarrow> string \<Rightarrow> string \<Rightarrow> unit reply"
  sv_validate_name :: "effect list \<Rightarrow> string \<Rightarrow> string reply"
  sv_register :: "effect list \<Rightarrow> nat \<Rightarrow> exn + nat"
  sv_accounts :: "effect list \<Rightarrow> string \<Rightarrow> exn + nat \<times> string option list option"
  sv_social_login :: "effect list \<Rightarrow> nat \<Rightarrow> exn + unit"
  sv_authorize :: "effect list \<Rightarrow> nat \<Rightarrow> exn + string"
  sv_access_token :: "effect list \<Rightarrow> (string \<times> string) list \<Rightarrow> exn + edx_token option"

text \<open>
  A transaction that raises is rolled back, but what was sent to the outside world stays sent.
\<close>

definition transaction :: "('z users_db_scheme, 'a) prog \<Rightarrow> ('z users_db_scheme, 'a) prog" where
  "transaction m =
     (\<lambda>s. case m s of (Inl e, s') \<Rightarrow> (Inl e, s\<lparr>effects := effects s'\<rparr>) | (Inr a, s') \<Rightarrow> (Inr a, s'))"

text \<open>A call: the reply depends on what was sent before, and the call is recorded.\<close>

definition call_edx ::
  "(effect list \<Rightarrow> 'a) \<Rightarrow> string \<Rightarrow> string list \<Rightarrow> ('z users_db_scheme, 'a) prog" where
  "call_edx answer name args =
     bindp (asks (\<lambda>s. answer (effects s))) (\<lambda>r. thenp (emit (EdxCall name args)) (ret r))"

definition PLATFORM_EDX :: string where "PLATFORM_EDX = ''edx''"
definition EDX_ENROLLMENT_PRO_MODE :: string where "EDX_ENROLLMENT_PRO_MODE = ''no-id-professional''"
definition EDX_ENROLLMENT_AUDIT_MODE :: string where "EDX_ENROLLMENT_AUDIT_MODE = ''audit''"

definition PRO_ENROLL_MODE_ERROR_TEXTS :: "string list" where
  "PRO_ENROLL_MODE_ERROR_TEXTS =
     [''The ['' @ EDX_ENROLLMENT_PRO_MODE @ ''] course mode is expired or otherwise unavailable for course run'',
      ''Specified course mode '' @ [CHR 0x27] @ EDX_ENROLLMENT_PRO_MODE @ [CHR 0x27] @ '' unavailable for course'']"

definition COURSEWARE_REPAIR_GRACE_PERIOD_MINS :: int where "COURSEWARE_REPAIR_GRACE_PERIOD_MINS = 5"
definition OPENEDX_AUTH_DEFAULT_TTL_IN_SECONDS :: int where "OPENEDX_AUTH_DEFAULT_TTL_IN_SECONDS = 60"
definition OPENEDX_AUTH_MAX_TTL_IN_SECONDS :: int where "OPENEDX_AUTH_MAX_TTL_IN_SECONDS = 60 * 60"
definition OPENEDX_OAUTH2_ACCESS_TOKEN_EXPIRY_MARGIN_SECONDS :: int where
  "OPENEDX_OAUTH2_ACCESS_TOKEN_EXPIRY_MARGIN_SECONDS = 10"

text \<open>\<open>sub in s\<close>\<close>

fun contains :: "string \<Rightarrow> string \<Rightarrow> bool" where
  "contains [] sub = (sub = [])"
| "contains (c # cs) sub = (starts_with (c # cs) sub \<or> contains cs sub)"

section \<open>Query strings\<close>

text \<open>\<open>parse_qs(urlparse(url).query)[name]\<close>: blank values are dropped.\<close>

fun unquote_plus :: "string \<Rightarrow> string" where
  "unquote_plus (c # a # b # cs) =
     (if c = CHR ''%'' then
        (case (hex_val a, hex_val b) of
           (Some x, Some y) \<Rightarrow> char_of (16 * x + y) # unquote_plus cs
         | _ \<Rightarrow> c # unquote_plus (a # b # cs))
      else (if c = CHR ''+'' then CHR '' '' else c) # unquote_plus (a # b # cs))"
| "unquote_plus (c # cs) = (if c = CHR ''+'' then CHR '' '' else c) # unquote_plus cs"
| "unquote_plus [] = []"

definition url_query :: "string \<Rightarrow> string" where
  "url_query url =
     (let no_fragment = takeWhile (\<lambda>c. c \<noteq> CHR ''#'') url
      in drop 1 (dropWhile (\<lambda>c. c \<noteq> CHR ''?'') no_fragment))"

definition query_values :: "string \<Rightarrow> string \<Rightarrow> string list" where
  "query_values url name =
     concat (map (\<lambda>part.
         let k = takeWhile (\<lambda>c. c \<noteq> CHR ''='') part; v = drop 1 (dropWhile (\<lambda>c. c \<noteq> CHR ''='') part)
         in if unquote_plus k = name \<and> v \<noteq> [] then [unquote_plus v] else [])
       (py_split CHR ''&'' (url_query url)))"

section \<open>Tokens\<close>

definition create_tokens_and_update_auth ::
  "edx_service \<Rightarrow> int \<Rightarrow> nat \<Rightarrow> (string \<times> string) list \<Rightarrow> ('z users_db_scheme, nat option) prog" where
  "create_tokens_and_update_auth sv now auth params =
     bindp (call_edx (\<lambda>h. sv_access_token sv h params) ''access_token'' (map snd params)) (\<lambda>r.
     bindp (lift_result r) (\<lambda>resp.
     case resp of
       None \<Rightarrow> thenp (db_delete openedx_auths openedx_auths_update (\<lambda>k _. k = auth)) (ret None)
     | Some result \<Rightarrow>
         (let expires_in = tok_expires_in result - OPENEDX_OAUTH2_ACCESS_TOKEN_EXPIRY_MARGIN_SECONDS
          in thenp (db_save openedx_auths openedx_auths_update auth
                (\<lambda>a. a\<lparr>auth_refresh_token := tok_refresh_token result,
                      auth_access_token := Some (tok_access_token result),
                      auth_access_token_expires_on := Some (now + expires_in)\<rparr>))
              (ret (Some auth)))))"

definition create_edx_auth_token :: "edx_service \<Rightarrow> int \<Rightarrow> nat \<Rightarrow> ('z users_db_scheme, nat option) prog" where
  "create_edx_auth_token sv now user =
     transaction
       (bindp (db_get_or_create ''OpenEdxApiAuth'' openedx_auths openedx_auths_update (\<lambda>_ a. auth_user a = user)
            \<lparr>auth_user = user, auth_refresh_token = [], auth_access_token = None,
             auth_access_token_expires_on = None\<rparr>) (\<lambda>(auth, _).
        bindp (asks (\<lambda>s. row (openedx_auths s) auth)) (\<lambda>a.
        if auth_refresh_token a \<noteq> [] \<and> auth_access_token a \<noteq> None \<and> auth_access_token a \<noteq> Some []
        then ret (Some auth)
        else
          bindp (call_edx (\<lambda>h. sv_social_login sv h user) ''social_login'' []) (\<lambda>r.
          thenp (lift_result r)
         (bindp (call_edx (\<lambda>h. sv_authorize sv h user) ''authorize'' []) (\<lambda>r.
          bindp (lift_result r) (\<lambda>resp_url.
          if \<not> starts_with resp_url (sv_redirect_uri sv) then raise OpenEdXOAuth2Error
          else (case query_values resp_url ''code'' of
                  [] \<Rightarrow> raise OpenEdXOAuth2Error
                | code # _ \<Rightarrow>
                    create_tokens_and_update_auth sv now auth
                      [(''code'', code), (''grant_type'', ''authorization_code'')]))))))))"

definition is_valid_auth :: "'z users_db_scheme \<Rightarrow> nat option \<Rightarrow> int \<Rightarrow> exn + bool" where
  "is_valid_auth s auth expires_after =
     (case auth of
        None \<Rightarrow> Inr False
      | Some k \<Rightarrow>
          (case auth_access_token_expires_on (row (openedx_auths s) k) of
             None \<Rightarrow> Inl (TypeErr ''NoneType > datetime'')
           | Some d \<Rightarrow> Inr (d > expires_after)))"

definition refresh_edx_api_auth ::
  "edx_service \<Rightarrow> int \<Rightarrow> nat option \<Rightarrow> ('z users_db_scheme, nat option) prog" where
  "refresh_edx_api_auth sv now auth =
     (case auth of
        None \<Rightarrow> raise (AttributeError ''refresh_token'')
      | Some k \<Rightarrow>
          bindp (asks (\<lambda>s. auth_refresh_token (row (openedx_auths s) k))) (\<lambda>refresh_token.
            create_tokens_and_update_auth sv now k
              [(''refresh_token'', refresh_token), (''grant_type'', ''refresh_token'')]))"

definition get_valid_edx_api_auth ::
  "edx_service \<Rightarrow> int \<Rightarrow> nat \<Rightarrow> int \<Rightarrow> ('z users_db_scheme, nat option) prog" where
  "get_valid_edx_api_auth sv now user ttl_in_seconds =
     (if \<not> ttl_in_seconds < OPENEDX_AUTH_MAX_TTL_IN_SECONDS
      then raise (AssertionError ''ttl_in_seconds'')
      else
        (let expires_after = now + ttl_in_seconds
         in bindp (asks (\<lambda>s. t_first (openedx_auths s)
                (\<lambda>_ a. auth_user a = user \<and>
                   (case auth_access_token_expires_on a of None \<Rightarrow> False | Some d \<Rightarrow> d > expires_after)))) (\<lambda>auth.
            case auth of
              Some k \<Rightarrow> ret (Some k)
            | None \<Rightarrow>
                transaction
                  (bindp (asks (\<lambda>s. t_first (openedx_auths s) (\<lambda>_ a. auth_user a = user))) (\<lambda>found.
                   bindp (case found of Some k \<Rightarrow> ret (Some k) | None \<Rightarrow> create_edx_auth_token sv now user) (\<lambda>auth.
                   bindp (asks (\<lambda>s. is_valid_auth s auth expires_after)) (\<lambda>v.
                   bindp (lift_result v) (\<lambda>valid.
                   if valid then ret auth
                   else bindp (refresh_edx_api_auth sv now auth) (\<lambda>refreshed.
                        case refreshed of
                          Some k \<Rightarrow> ret (Some k) | None \<Rightarrow> create_edx_auth_token sv now user)))))))))"

text \<open>The client is its access token.\<close>

definition get_edx_api_client :: "edx_service \<Rightarrow> int \<Rightarrow> nat \<Rightarrow> ('z users_db_scheme, string option) prog" where
  "get_edx_api_client sv now user =
     bindp (try_catch (get_valid_edx_api_auth sv now user OPENEDX_AUTH_DEFAULT_TTL_IN_SECONDS)
              (\<lambda>e. if e = DoesNotExist ''OpenEdxApiAuth'' then raise NoEdxApiAuthError else raise e)) (\<lambda>auth.
     case auth of
       None \<Rightarrow> raise (AttributeError ''access_token'')
     | Some k \<Rightarrow> asks (\<lambda>s. auth_access_token (row (openedx_auths s) k)))"

definition get_edx_api_service_client :: "edx_service \<Rightarrow> ('z users_db_scheme, unit) prog" where
  "get_edx_api_service_client sv =
     (if \<not> sv_token_set sv then raise (ImproperlyConfigured ''OPENEDX_SERVICE_WORKER_API_TOKEN is not set'')
      else ret ())"

section \<open>Users of the courseware\<close>

text \<open>The user names of the accounts found come as they are in the JSON, where they may be missing.\<close>

definition get_existing_openedx_user ::
  "edx_service \<Rightarrow> nat \<Rightarrow> ('z users_db_scheme, string option option) prog" where
  "get_existing_openedx_user sv user =
     thenp (get_edx_api_service_client sv)
       (bindp (asks (\<lambda>s. user_email (row (users s) user))) (\<lambda>email.
        bindp (call_edx (\<lambda>h. sv_accounts sv h email) ''accounts'' [email]) (\<lambda>r.
        bindp (lift_result r) (\<lambda>(status, users_data).
        ret (if status = 200
             then (case users_data of Some (u # _) \<Rightarrow> Some u | _ \<Rightarrow> None) else None)))))"

definition update_xpro_user_username :: "nat \<Rightarrow> string \<Rightarrow> ('z users_db_scheme, bool) prog" where
  "update_xpro_user_username user username =
     bindp (asks (\<lambda>s. t_exists (users s) (\<lambda>j u. j \<noteq> user \<and> user_username u = username))) (\<lambda>taken.
     if taken then ret False
     else thenp (db_save users users_update user (\<lambda>u. u\<lparr>user_username := username\<rparr>)) (ret True))"

definition create_edx_user :: "edx_service \<Rightarrow> nat \<Rightarrow> ('z users_db_scheme, unit) prog" where
  "create_edx_user sv user =
     (if \<not> sv_application_exists sv then raise (DoesNotExist ''Application'')
      else
        thenp (emit (LogLine ''AccessToken'' [user]))
          (transaction
            (bindp (db_get_or_create ''CoursewareUser'' courseware_users courseware_users_update
                 (\<lambda>_ c. cu_user c = user \<and> cu_platform c = PLATFORM_EDX)
                 \<lparr>cu_user = user, cu_platform = PLATFORM_EDX, cu_has_been_synced = True\<rparr>) (\<lambda>(_, created).
             if \<not> created then ret ()
             else
               bindp (call_edx (\<lambda>h. sv_register sv h user) ''register'' []) (\<lambda>r.
               bindp (lift_result r) (\<lambda>status.
               if status = 200 then ret ()
               else
                 bindp (get_existing_openedx_user sv user) (\<lambda>openedx_user.
                 case openedx_user of
                   None \<Rightarrow> raise (CoursewareUserCreateError ''Error creating Open edX user.'')
                 | Some edx_username \<Rightarrow>
                     bindp (asks (\<lambda>s. Some (user_username (row (users s) user)) = edx_username)) (\<lambda>is_match.
                     if is_match then ret ()
                     else (case edx_username of
                             None \<Rightarrow> raise (KeyError ''username'')
                           | Some username \<Rightarrow>
                               bindp (update_xpro_user_username user username) (\<lambda>updated.
                               if updated then ret ()
                               else raise (CoursewareUserCreateError ''Error creating Open edX user.'')))))))))))"

definition create_courseware_user :: "edx_service \<Rightarrow> int \<Rightarrow> nat \<Rightarrow> ('z users_db_scheme, unit) prog" where
  "create_courseware_user sv now user =
     thenp (create_edx_user sv user) (bindp (create_edx_auth_token sv now user) (\<lambda>_. ret ()))"

definition repair_faulty_edx_user :: "edx_service \<Rightarrow> int \<Rightarrow> nat \<Rightarrow> ('z users_db_scheme, bool \<times> bool) prog" where
  "repair_faulty_edx_user sv now user =
     bindp (asks (\<lambda>s. \<not> t_exists (courseware_users s) (\<lambda>_ c. cu_user c = user \<and> cu_platform c = PLATFORM_EDX)))
       (\<lambda>created_user.
     thenp (whenp created_user (create_edx_user sv user))
    (bindp (asks (\<lambda>s. \<not> t_exists (openedx_auths s) (\<lambda>_ a. auth_user a = user))) (\<lambda>missing_auth.
     if \<not> missing_auth then ret (created_user, False)
     else bindp (create_edx_auth_token sv now user) (\<lambda>auth. ret (created_user, auth \<noteq> None)))))"

definition repair_faulty_courseware_users :: "edx_service \<Rightarrow> int \<Rightarrow> ('z users_db_scheme, nat list) prog" where
  "repair_faulty_courseware_users sv now =
     bindp (asks (\<lambda>s. filter (\<lambda>k. user_created_on (row (users s) k) < now - COURSEWARE_REPAIR_GRACE_PERIOD_MINS * 60)
                (faulty_courseware_users s))) (\<lambda>faulty.
     bindp (collect_each faulty (\<lambda>user.
              try_catch
                (bindp (repair_faulty_edx_user sv now user) (\<lambda>(created_user, created_auth_token).
                 ret (if created_user \<or> created_auth_token then [user] else [])))
                (\<lambda>_. ret []))) (\<lambda>repaired.
     ret (concat repaired)))"

definition update_edx_user_name :: "edx_service \<Rightarrow> int \<Rightarrow> nat \<Rightarrow> ('z users_db_scheme, unit) prog" where
  "update_edx_user_name sv now user =
     bindp (get_edx_api_client sv now user) (\<lambda>token.
     bindp (asks (\<lambda>s. row (users s) user)) (\<lambda>u.
     bindp (call_edx (\<lambda>h. sv_update_name sv h token (user_username u) (user_name u))
              ''update_user_name'' [user_username u, user_name u]) (\<lambda>r.
     case r of Reply _ \<Rightarrow> ret () | _ \<Rightarrow> raise UserNameUpdateFailed)))"

text \<open>An exception other than an HTTP error has no \<open>response\<close> to read.\<close>

definition validate_name_with_edx :: "edx_service \<Rightarrow> string \<Rightarrow> ('z users_db_scheme, string) prog" where
  "validate_name_with_edx sv name =
     bindp (call_edx (\<lambda>h. sv_validate_name sv h name) ''validate_name'' [name]) (\<lambda>r.
     case r of
       Reply message \<Rightarrow> ret message
     | OtherError e \<Rightarrow>
         if e = RequestsConnectionError then ret [] else raise (AttributeError ''response'')
     | HttpError _ \<Rightarrow> raise EdxRegistrationValidation)"

section \<open>Enrollments in the courseware\<close>

definition create_student_enrollment ::
  "edx_service \<Rightarrow> string \<Rightarrow> string \<Rightarrow> string \<Rightarrow> bool \<Rightarrow> ('z users_db_scheme, unit reply) prog" where
  "create_student_enrollment sv courseware_id mode username force_enrollment =
     call_edx (\<lambda>h. sv_enroll sv h courseware_id mode username force_enrollment)
       ''create_student_enrollment'' [courseware_id, mode, username]"

text \<open>
  One round of the loop of \<open>enroll_in_edx_course_runs\<close>: the preferred mode, and the audit mode if
  the error message says that the mode was the problem. The result names the run and the mode.
\<close>

definition enroll_in_edx_course_run ::
  "edx_service \<Rightarrow> string \<Rightarrow> bool \<Rightarrow> nat \<Rightarrow> ('z xpro_db_scheme, string \<times> string) prog" where
  "enroll_in_edx_course_run sv username force_enrollment course_run =
     bindp (asks (\<lambda>s. run_courseware_id (row (course_runs s) course_run))) (\<lambda>courseware_id.
     bindp (create_student_enrollment sv courseware_id EDX_ENROLLMENT_PRO_MODE username force_enrollment) (\<lambda>r.
     case r of
       Reply _ \<Rightarrow> ret (courseware_id, EDX_ENROLLMENT_PRO_MODE)
     | OtherError _ \<Rightarrow> raise EdxUnknownEnrollError
     | HttpError None \<Rightarrow> raise EdxEnrollError
     | HttpError (Some error_msg) \<Rightarrow>
         if \<not> list_ex (contains error_msg) PRO_ENROLL_MODE_ERROR_TEXTS then raise EdxEnrollError
         else
           bindp (create_student_enrollment sv courseware_id EDX_ENROLLMENT_AUDIT_MODE username force_enrollment)
             (\<lambda>r. case r of
                Reply _ \<Rightarrow> ret (courseware_id, EDX_ENROLLMENT_AUDIT_MODE)
              | HttpError _ \<Rightarrow> raise EdxEnrollError
              | OtherError _ \<Rightarrow> raise EdxUnknownEnrollError)))"

definition enroll_in_edx_course_runs ::
  "edx_service \<Rightarrow> nat \<Rightarrow> nat list \<Rightarrow> bool \<Rightarrow> ('z xpro_db_scheme, (string \<times> string) list) prog" where
  "enroll_in_edx_course_runs sv user runs force_enrollment =
     thenp (get_edx_api_service_client sv)
       (bindp (asks (\<lambda>s. user_username (row (users s) user))) (\<lambda>username.
        collect_each runs (enroll_in_edx_course_run sv username force_enrollment)))"

definition get_enrollment ::
  "edx_service \<Rightarrow> int \<Rightarrow> nat \<Rightarrow> nat \<Rightarrow> ('z xpro_db_scheme, (bool \<times> string) option) prog" where
  "get_enrollment sv now user course_run =
     bindp (get_edx_api_client sv now user) (\<lambda>token.
     bindp (asks (\<lambda>s. run_courseware_id (row (course_runs s) course_run))) (\<lambda>courseware_id.
     bindp (call_edx (\<lambda>h. sv_enrollment_of sv h token courseware_id) ''get_student_enrollments'' [courseware_id])
       lift_result))"

text \<open>
  \<open>retry_failed_edx_enrollments\<close>, one round: the handler for \<open>EdxApiEnrollErrorException\<close> asks the
  service whether the user is enrolled already, and what that raises leaves the loop.
\<close>

definition retry_enrollment :: "edx_service \<Rightarrow> int \<Rightarrow> nat \<Rightarrow> ('z xpro_db_scheme, nat list) prog" where
  "retry_enrollment sv now k =
     bindp (asks (\<lambda>s. (enr_user (row (run_enrollments s) k), enr_run (row (run_enrollments s) k)))) (\<lambda>(user, course_run).
     bindp (try_catch (bindp (enroll_in_edx_course_runs sv user [course_run] True) (\<lambda>_. ret True))
        (\<lambda>e. if e = EdxEnrollError
             then bindp (get_enrollment sv now user course_run) (\<lambda>edx_enrollment.
                  ret (case edx_enrollment of
                         None \<Rightarrow> False
                       | Some (is_active, mode) \<Rightarrow>
                           is_active \<and> mode \<in> {EDX_ENROLLMENT_PRO_MODE, EDX_ENROLLMENT_AUDIT_MODE}))
             else ret False)) (\<lambda>enrolled.
     if \<not> enrolled then ret []
     else thenp (save_and_log_run_enrollment k (\<lambda>e. e\<lparr>enr_edx_enrolled := True\<rparr>) None) (ret [k])))"

definition failed_run_enrollments :: "int \<Rightarrow> 'z xpro_db_scheme \<Rightarrow> nat list" where
  "failed_run_enrollments now s =
     active_run_enrollments s (\<lambda>e. user_is_active (row (users s) (enr_user e)) \<and> \<not> enr_edx_enrolled e \<and>
       enr_created_on e < now - COURSEWARE_REPAIR_GRACE_PERIOD_MINS * 60 \<and> run_live (row (course_runs s) (enr_run e)))"

definition retry_failed_edx_enrollments :: "edx_service \<Rightarrow> int \<Rightarrow> ('z xpro_db_scheme, nat list) prog" where
  "retry_failed_edx_enrollments sv now =
     bindp (asks (failed_run_enrollments now)) (\<lambda>failed.
     bindp (collect_each failed (retry_enrollment sv now)) (\<lambda>succeeded.
     ret (concat succeeded)))"

definition unenroll_edx_course_run :: "edx_service \<Rightarrow> nat \<Rightarrow> ('z xpro_db_scheme, unit) prog" where
  "unenroll_edx_course_run sv run_enrollment =
     thenp (get_edx_api_service_client sv)
       (bindp (asks (\<lambda>s. let e = row (run_enrollments s) run_enrollment
           in (run_courseware_id (row (course_runs s) (enr_run e)), user_username (row (users s) (enr_user e)))))
          (\<lambda>(courseware_id, username).
        bindp (call_edx (\<lambda>h. sv_deactivate sv h courseware_id username) ''deactivate_enrollment'' [courseware_id, username])
          (\<lambda>r. case r of
             Reply _ \<Rightarrow> ret () | HttpError _ \<Rightarrow> raise EdxEnrollError | OtherError _ \<Rightarrow> raise EdxUnknownEnrollError)))"

text \<open>
  \<open>get_edx_grades_with_users\<close> for a whole run: the grades of the service whose user is known here.
\<close>

definition get_edx_grades_with_users ::
  "'z users_db_scheme \<Rightarrow> (string \<times> 'g) list \<Rightarrow> (exn + (('g \<times> nat) list))" where
  "get_edx_grades_with_users s all_grades =
     foldr (\<lambda>(username, grade) r.
         case t_get ''User'' (users s) (\<lambda>_ u. user_username u = username) of
           Inr k \<Rightarrow> map_sum id ((#) (grade, k)) r
         | Inl e \<Rightarrow> if is_does_not_exist e then r else Inl e)
       all_grades (Inr [])"

section \<open>Lemmas\<close>

named_theorems sends_intros

text \<open>Programs that only send something and leave every table alone.\<close>

definition only_sends :: "('z users_db_scheme, 'a) prog \<Rightarrow> bool" where
  "only_sends m \<longleftrightarrow> (\<forall>s. \<exists>calls. snd (m s) = s\<lparr>effects := effects s @ calls\<rparr>)"

lemma only_sendsD: "only_sends m \<Longrightarrow> m s = (r, s') \<Longrightarrow> \<exists>calls. s' = s\<lparr>effects := effects s @ calls\<rparr>"
  unfolding only_sends_def by (metis snd_conv)

lemma only_sends_ret [sends_intros]: "only_sends (ret a)"
  and only_sends_raise [sends_intros]: "only_sends (raise e)"
  and only_sends_asks [sends_intros]: "only_sends (asks f)"
  and only_sends_lift_result [sends_intros]: "only_sends (lift_result r)"
  by (auto simp: only_sends_def intro: exI [of _ "[]"])

lemma only_sends_emit [sends_intros]: "only_sends (emit e)"
  by (auto simp: only_sends_def)

lemma only_sends_bindp [sends_intros]:
  assumes "only_sends m" and "\<And>a. only_sends (f a)"
  shows "only_sends (bindp m f)"
  unfolding only_sends_def
proof
  fix s
  obtain r s1 where m: "m s = (r, s1)" by fastforce
  then obtain c1 where c1: "s1 = s\<lparr>effects := effects s @ c1\<rparr>"
    using only_sendsD [OF assms(1)] by blast
  show "\<exists>calls. snd (bindp m f s) = s\<lparr>effects := effects s @ calls\<rparr>"
  proof (cases r)
    case (Inl e)
    with m c1 show ?thesis by (simp add: bindp_run) blast
  next
    case (Inr a)
    from assms(2) [of a] obtain c2 where "snd (f a s1) = s1\<lparr>effects := effects s1 @ c2\<rparr>"
      by (auto simp: only_sends_def)
    with Inr m c1 show ?thesis by (simp add: bindp_run) (metis append_assoc)
  qed
qed

lemma only_sends_thenp [sends_intros]: "only_sends m \<Longrightarrow> only_sends n \<Longrightarrow> only_sends (thenp m n)"
  by (simp add: thenp_def only_sends_bindp)

lemma only_sends_call [sends_intros]: "only_sends (call_edx answer name args)"
  by (simp add: call_edx_def sends_intros)

lemma only_sends_collect [sends_intros]: "(\<And>x. only_sends (f x)) \<Longrightarrow> only_sends (collect_each xs f)"
  by (induction xs) (auto intro!: sends_intros)

lemma only_sends_service_client [sends_intros]: "only_sends (get_edx_api_service_client sv)"
  by (simp add: get_edx_api_service_client_def sends_intros)

lemma only_sends_enroll_run [sends_intros]: "only_sends (enroll_in_edx_course_run sv u f k)"
  unfolding enroll_in_edx_course_run_def create_student_enrollment_def
  by (intro sends_intros) (auto split: reply.split option.split intro!: sends_intros)

lemma only_sends_enroll_runs [sends_intros]: "only_sends (enroll_in_edx_course_runs sv u ks f)"
  unfolding enroll_in_edx_course_runs_def by (intro sends_intros)

lemma only_sends_unenroll [sends_intros]: "only_sends (unenroll_edx_course_run sv k)"
  unfolding unenroll_edx_course_run_def
  by (auto split: reply.split prod.split intro!: sends_intros)

lemma call_edx_run [simp]:
  "call_edx answer name args s = (Inr (answer (effects s)), s\<lparr>effects := effects s @ [EdxCall name args]\<rparr>)"
  by (simp add: call_edx_def bindp_run thenp_run)

lemma transaction_run:
  "transaction m s = (case m s of (Inl e, s') \<Rightarrow> (Inl e, s\<lparr>effects := effects s'\<rparr>) | (Inr a, s') \<Rightarrow> (Inr a, s'))"
  by (simp add: transaction_def)

lemma keeps_emit: "(\<And>s es. I (s\<lparr>effects := es\<rparr>) = I s) \<Longrightarrow> keeps I (emit e)"
  by (simp add: keeps_def)

lemma keeps_call_edx: "(\<And>s es. I (s\<lparr>effects := es\<rparr>) = I s) \<Longrightarrow> keeps I (call_edx answer name args)"
  by (simp add: keeps_def)

lemma keeps_transaction:
  "(\<And>s es. I (s\<lparr>effects := es\<rparr>) = I s) \<Longrightarrow> keeps I m \<Longrightarrow> keeps I (transaction m)"
  by (fastforce simp: keeps_def transaction_def split: prod.splits sum.splits)

lemma keeps_only_sends:
  assumes "\<And>s es. I (s\<lparr>effects := es\<rparr>) = I s" and "only_sends m"
  shows "keeps I m"
proof (rule keepsI)
  fix s assume "I s"
  moreover obtain c where "snd (m s) = s\<lparr>effects := effects s @ c\<rparr>"
    using assms(2) by (auto simp: only_sends_def)
  ultimately show "I (snd (m s))" using assms(1) by simp
qed

text \<open>What one round of the enrollment loop returns.\<close>

lemma enroll_run_cases:
  assumes "enroll_in_edx_course_run sv username force k s = (r, s')"
  shows "case r of
      Inl e \<Rightarrow> e \<in> {EdxEnrollError, EdxUnknownEnrollError}
    | Inr (c, mode) \<Rightarrow> c = run_courseware_id (row (course_runs s) k) \<and>
        mode \<in> {EDX_ENROLLMENT_PRO_MODE, EDX_ENROLLMENT_AUDIT_MODE} \<and>
        (\<exists>h. sv_enroll sv h c mode username force = Reply ()) \<and>
        EdxCall ''create_student_enrollment'' [c, mode, username] \<in> set (effects s')"
  using assms
  by (auto simp: enroll_in_edx_course_run_def create_student_enrollment_def bindp_run
      split: reply.splits option.splits if_splits)

lemma collect_each_Inr:
  assumes "collect_each xs f s = (Inr ys, s')" and sends: "\<And>x. only_sends (f x)"
    and "I s" and eff: "\<And>s es. I (s\<lparr>effects := es\<rparr>) = I s"
    and step: "\<And>x s r s'. f x s = (Inr r, s') \<Longrightarrow> I s \<Longrightarrow> P x r \<and> Q r (set (effects s'))"
    and mono: "\<And>r A B. Q r A \<Longrightarrow> A \<subseteq> B \<Longrightarrow> Q r B"
  shows "list_all2 (\<lambda>x r. P x r \<and> Q r (set (effects s'))) xs ys"
  using assms(1,3)
proof (induction xs arbitrary: s ys)
  case (Cons x xs)
  from Cons.prems(1) obtain y s1 ys1 where f: "f x s = (Inr y, s1)"
    and rest: "collect_each xs f s1 = (Inr ys1, s')" and ys: "ys = y # ys1"
    by (auto simp: bindp_run split: prod.splits sum.splits)
  have "only_sends (collect_each xs f)" by (rule only_sends_collect) (rule sends)
  with rest obtain c where c: "s' = s1\<lparr>effects := effects s1 @ c\<rparr>"
    using only_sendsD by blast
  then have sub: "set (effects s1) \<subseteq> set (effects s')" by simp
  have "P x y \<and> Q y (set (effects s1))"
    by (rule step [OF f Cons.prems(2)])
  then have 1: "P x y \<and> Q y (set (effects s'))"
    using mono [OF _ sub] by blast
  obtain c1 where "s1 = s\<lparr>effects := effects s @ c1\<rparr>"
    using only_sendsD [OF sends f] by blast
  with Cons.prems(2) have "I s1" by (simp add: eff)
  from Cons.IH [OF rest this] 1 show ?case by (simp add: ys)
qed simp

lemma collect_each_Inl:
  assumes "collect_each xs f s = (Inl e, s')" and step: "\<And>x s s' e. f x s = (Inl e, s') \<Longrightarrow> E e"
  shows "E e"
  using assms(1)
proof (induction xs arbitrary: s)
  case (Cons x xs)
  then show ?case by (auto simp: bindp_run dest: step split: prod.splits sum.splits)
qed simp

text \<open>
  Enrolling a user in course runs changes no table. When it succeeds there is one result per
  run, in order, each with a mode in which the service accepted the user for exactly that run; when it fails, it fails with
  one of the two enrollment errors or because the service token is not configured.
\<close>

theorem enroll_in_edx_course_runs_spec:
  assumes "enroll_in_edx_course_runs sv user runs force s = (r, s')"
  shows "(\<exists>calls. s' = s\<lparr>effects := effects s @ calls\<rparr>) \<and>
    (case r of
       Inl e \<Rightarrow> e = ImproperlyConfigured ''OPENEDX_SERVICE_WORKER_API_TOKEN is not set'' \<or>
              e = EdxEnrollError \<or> e = EdxUnknownEnrollError
     | Inr results \<Rightarrow>
         list_all2 (\<lambda>k (c, mode). c = run_courseware_id (row (course_runs s) k) \<and>
             mode \<in> {EDX_ENROLLMENT_PRO_MODE, EDX_ENROLLMENT_AUDIT_MODE} \<and>
             (\<exists>h. sv_enroll sv h c mode (user_username (row (users s) user)) force = Reply ()) \<and>
             EdxCall ''create_student_enrollment'' [c, mode, user_username (row (users s) user)] \<in> set (effects s'))
           runs results)"
proof
  show "\<exists>calls. s' = s\<lparr>effects := effects s @ calls\<rparr>"
    using only_sendsD [OF only_sends_enroll_runs assms] .
  let ?u = "user_username (row (users s) user)"
  show "case r of
       Inl e \<Rightarrow> e = ImproperlyConfigured ''OPENEDX_SERVICE_WORKER_API_TOKEN is not set'' \<or>
              e = EdxEnrollError \<or> e = EdxUnknownEnrollError
     | Inr results \<Rightarrow>
         list_all2 (\<lambda>k (c, mode). c = run_courseware_id (row (course_runs s) k) \<and>
             mode \<in> {EDX_ENROLLMENT_PRO_MODE, EDX_ENROLLMENT_AUDIT_MODE} \<and>
             (\<exists>h. sv_enroll sv h c mode ?u force = Reply ()) \<and>
             EdxCall ''create_student_enrollment'' [c, mode, ?u] \<in> set (effects s')) runs results"
  proof (cases "sv_token_set sv")
    case False
    with assms show ?thesis
      by (auto simp: enroll_in_edx_course_runs_def get_edx_api_service_client_def)
  next
    case True
    with assms have c: "collect_each runs (enroll_in_edx_course_run sv ?u force) s = (r, s')"
      by (simp add: enroll_in_edx_course_runs_def get_edx_api_service_client_def thenp_run bindp_run)
    show ?thesis
    proof (cases r)
      case (Inl e)
      have "e = EdxEnrollError \<or> e = EdxUnknownEnrollError"
        by (rule collect_each_Inl [OF c [unfolded Inl]]) (auto dest: enroll_run_cases)
      with Inl show ?thesis by auto
    next
      case (Inr results)
      have "list_all2 (\<lambda>k y. (fst y = run_courseware_id (row (course_runs s) k) \<and>
             snd y \<in> {EDX_ENROLLMENT_PRO_MODE, EDX_ENROLLMENT_AUDIT_MODE} \<and>
             (\<exists>h. sv_enroll sv h (fst y) (snd y) ?u force = Reply ())) \<and>
             EdxCall ''create_student_enrollment'' [fst y, snd y, ?u] \<in> set (effects s')) runs results"
        by (rule collect_each_Inr [OF c [unfolded Inr] only_sends_enroll_run,
              where I = "\<lambda>t. course_runs t = course_runs s"
                and Q = "\<lambda>y A. EdxCall ''create_student_enrollment'' [fst y, snd y, ?u] \<in> A"])
           (auto dest!: enroll_run_cases)
      then show ?thesis by (simp add: Inr split_def)
    qed
  qed
qed

text \<open>A service that accepts everyone, and one that refuses everything.\<close>

definition open_service :: edx_service where
  "open_service =
     \<lparr>sv_token_set = True, sv_application_exists = True, sv_redirect_uri = ''https://x/complete'',
      sv_enroll = (\<lambda>_ _ _ _ _. Reply ()), sv_deactivate = (\<lambda>_ _ _. Reply ()),
      sv_enrollment_of = (\<lambda>_ _ _. Inr None), sv_update_name = (\<lambda>_ _ _ _. Reply ()),
      sv_validate_name = (\<lambda>_ _. Reply []), sv_register = (\<lambda>_ _. Inr 200),
      sv_accounts = (\<lambda>_ _. Inr (200, Some [])), sv_social_login = (\<lambda>_ _. Inr ()),
      sv_authorize = (\<lambda>_ _. Inr ''https://x/complete?code=abc''),
      sv_access_token = (\<lambda>_ _. Inr (Some \<lparr>tok_refresh_token = ''r'', tok_access_token = ''a'', tok_expires_in = 3600\<rparr>))\<rparr>"

definition closed_service :: edx_service where
  "closed_service = open_service
     \<lparr>sv_enroll := \<lambda>_ _ _ _ _. HttpError None, sv_deactivate := \<lambda>_ _ _. HttpError None,
      sv_register := \<lambda>_ _. Inr 400, sv_social_login := \<lambda>_ _. Inl HTTPError\<rparr>"


lemma enroll_in_edx_course_runs_spec_witness:
  "EdxCall ''create_student_enrollment'' [''c2-R1'', EDX_ENROLLMENT_PRO_MODE, ''ann'']
     \<in> set (effects (snd (enroll_in_edx_course_runs open_service 1 [2] True example_shop)))"
proof -
  have u: "user_username (row (users example_shop) 1) = ''ann''" "run_courseware_id (row (course_runs example_shop) 2) = ''c2-R1''"
    by (simp_all add: example_defs example_user_def)
  have e: "enroll_in_edx_course_runs open_service 1 [2] True example_shop =
      (Inr [(''c2-R1'', EDX_ENROLLMENT_PRO_MODE)], snd (enroll_in_edx_course_runs open_service 1 [2] True example_shop))"
    by (simp add: enroll_in_edx_course_runs_def get_edx_api_service_client_def enroll_in_edx_course_run_def
        create_student_enrollment_def open_service_def bindp_run thenp_run u)
  show ?thesis
    using enroll_in_edx_course_runs_spec [OF e] by (simp add: u u [unfolded One_nat_def])
qed

section \<open>Retrying\<close>

lemma keeps_client:
  assumes "\<And>s es. I (s\<lparr>effects := es\<rparr>) = I s" and "\<And>s t. I (s\<lparr>openedx_auths := t\<rparr>) = I s"
  shows "keeps I (get_edx_api_client sv now user)"
proof -
  have upd: "I (openedx_auths_update f s) = I s" for f s
  proof -
    have "openedx_auths_update f s = s\<lparr>openedx_auths := f (openedx_auths s)\<rparr>" by simp
    then show ?thesis by (simp only: assms(2))
  qed
  have tok: "keeps I (create_tokens_and_update_auth sv now k ps)" for k ps
    unfolding create_tokens_and_update_auth_def Let_def
    by (intro keeps_intros keeps_call_edx assms(1))
       (auto simp: keeps_def upd intro!: keeps_intros split: option.split)
  have new: "keeps I (create_edx_auth_token sv now user)"
    unfolding create_edx_auth_token_def
    by (intro keeps_intros keeps_transaction keeps_call_edx assms(1) tok)
       (simp add: keeps_def db_get_or_create_run upd)
  have refresh: "keeps I (refresh_edx_api_auth sv now a)" for a
    unfolding refresh_edx_api_auth_def by (intro keeps_intros tok)
  show ?thesis
    unfolding get_edx_api_client_def get_valid_edx_api_auth_def Let_def
    by (intro keeps_intros keeps_transaction new refresh assms(1))
qed

lemma keeps_get_enrollment:
  assumes "\<And>s es. I (s\<lparr>effects := es\<rparr>) = I s" and "\<And>s t. I (s\<lparr>openedx_auths := t\<rparr>) = I s"
  shows "keeps I (get_enrollment sv now user k)"
  unfolding get_enrollment_def
  by (intro keeps_intros keeps_call_edx keeps_client assms)

lemma retry_one:
  assumes "retry_enrollment sv now k s = (r, s')"
  shows "(r = Inr [k] \<and> run_enrollments s' = t_save (run_enrollments s) k (\<lambda>e. e\<lparr>enr_edx_enrolled := True\<rparr>)) \<or>
    ((r = Inr [] \<or> (\<exists>e. r = Inl e)) \<and> run_enrollments s' = run_enrollments s)"
proof -
  let ?e = "row (run_enrollments s) k"
  let ?check = "try_catch (bindp (enroll_in_edx_course_runs sv (enr_user ?e) [enr_run ?e] True) (\<lambda>_. ret True))
        (\<lambda>e. if e = EdxEnrollError
             then bindp (get_enrollment sv now (enr_user ?e) (enr_run ?e)) (\<lambda>edx_enrollment.
                  ret (case edx_enrollment of
                         None \<Rightarrow> False
                       | Some (is_active, mode) \<Rightarrow>
                           is_active \<and> mode \<in> {EDX_ENROLLMENT_PRO_MODE, EDX_ENROLLMENT_AUDIT_MODE}))
             else ret False)"
  obtain b s1 where b: "?check s = (b, s1)" by fastforce
  have "keeps (\<lambda>t. run_enrollments t = run_enrollments s) ?check"
    by (intro keeps_intros keeps_get_enrollment keeps_only_sends only_sends_enroll_runs) simp_all
  from keepsD [OF this b] have s1: "run_enrollments s1 = run_enrollments s" by simp
  show ?thesis
  proof (cases b)
    case (Inl e)
    with assms b s1 show ?thesis by (auto simp: retry_enrollment_def)
  next
    case (Inr ok)
    show ?thesis
    proof (cases ok)
      case True
      with Inr assms b s1 show ?thesis
        by (auto simp: retry_enrollment_def save_and_log_run_enrollment_run thenp_run Let_def)
    next
      case False
      with Inr assms b s1 show ?thesis by (simp add: retry_enrollment_def)
    qed
  qed
qed

lemma retry_loop:
  assumes "collect_each ks (retry_enrollment sv now) s = (r, s')"
  shows "\<exists>D. set D \<subseteq> set ks \<and> pks (run_enrollments s') = pks (run_enrollments s) \<and>
    (\<forall>j. row (run_enrollments s') j =
       (if j \<in> set D then (row (run_enrollments s) j)\<lparr>enr_edx_enrolled := True\<rparr> else row (run_enrollments s) j)) \<and>
    (\<forall>rs. r = Inr rs \<longrightarrow> D = concat rs)"
  using assms
proof (induction ks arbitrary: s r s')
  case Nil
  then show ?case by (intro exI [of _ "[]"]) auto
next
  case (Cons k ks)
  obtain r1 s1 where one: "retry_enrollment sv now k s = (r1, s1)" by fastforce
  show ?case
  proof (cases r1)
    case (Inl e)
    with Cons.prems one retry_one [OF one] show ?thesis
      by (intro exI [of _ "[]"]) (auto simp: bindp_run)
  next
    case (Inr ys)
    obtain r2 s2 where rest: "collect_each ks (retry_enrollment sv now) s1 = (r2, s2)" by fastforce
    from Cons.IH [OF rest] obtain D where D: "set D \<subseteq> set ks" "pks (run_enrollments s2) = pks (run_enrollments s1)"
      "\<And>j. row (run_enrollments s2) j =
        (if j \<in> set D then (row (run_enrollments s1) j)\<lparr>enr_edx_enrolled := True\<rparr> else row (run_enrollments s1) j)"
      "\<And>rs. r2 = Inr rs \<Longrightarrow> D = concat rs" by blast
    have s': "s' = s2" and r: "r = (case r2 of Inl e \<Rightarrow> Inl e | Inr rs \<Rightarrow> Inr (ys # rs))"
      using Cons.prems one rest Inr by (auto simp: bindp_run split: sum.splits)
    have "set (ys @ D) \<subseteq> set (k # ks)"
      using retry_one [OF one] D(1) Inr by auto
    moreover have "pks (run_enrollments s') = pks (run_enrollments s) \<and>
      (\<forall>j. row (run_enrollments s') j = (if j \<in> set (ys @ D)
          then (row (run_enrollments s) j)\<lparr>enr_edx_enrolled := True\<rparr> else row (run_enrollments s) j))"
      using retry_one [OF one] D(2,3) Inr by (auto simp: s' row_t_save)
    moreover have "\<forall>rs. r = Inr rs \<longrightarrow> ys @ D = concat rs"
      using D(4) by (auto simp: r split: sum.splits)
    ultimately show ?thesis by blast
  qed
qed

text \<open>
  A retry marks only enrollments that were failed and due (active, of an active user, in a live run, older than the
  grace period), and those it reports as successful are exactly the ones it marked; no other
  field of any enrollment changes. This also holds for the rounds done before an exception.
\<close>

theorem retry_failed_edx_enrollments_spec:
  assumes "retry_failed_edx_enrollments sv now s = (r, s')"
  shows "\<exists>D. set D \<subseteq> set (failed_run_enrollments now s) \<and>
    pks (run_enrollments s') = pks (run_enrollments s) \<and>
    (\<forall>j. row (run_enrollments s') j =
       (if j \<in> set D then (row (run_enrollments s) j)\<lparr>enr_edx_enrolled := True\<rparr> else row (run_enrollments s) j)) \<and>
    (case r of Inl _ \<Rightarrow> True | Inr succeeded \<Rightarrow> succeeded = D)"
proof -
  obtain r1 s1 where c: "collect_each (failed_run_enrollments now s) (retry_enrollment sv now) s = (r1, s1)"
    by fastforce
  have "s' = s1" "r = (case r1 of Inl e \<Rightarrow> Inl e | Inr rs \<Rightarrow> Inr (concat rs))"
    using assms c by (auto simp: retry_failed_edx_enrollments_def bindp_run split: sum.splits)
  with retry_loop [OF c] show ?thesis
    by (auto split: sum.splits)
qed

text \<open>
  One user without usable tokens stops the whole retry: when the service refuses an enrollment and the
  question whether the user is already enrolled raises, the exception leaves the loop and no later
  enrollment is tried.
\<close>

theorem retry_stops_at_failed_lookup:
  assumes "failed_run_enrollments now s = k # later"
    and "enroll_in_edx_course_runs sv (enr_user (row (run_enrollments s) k)) [enr_run (row (run_enrollments s) k)] True s
      = (Inl EdxEnrollError, s1)"
    and "get_enrollment sv now (enr_user (row (run_enrollments s) k)) (enr_run (row (run_enrollments s) k)) s1 = (Inl e, s2)"
  shows "retry_failed_edx_enrollments sv now s = (Inl e, s2)"
  using assms
  by (simp add: retry_failed_edx_enrollments_def retry_enrollment_def bindp_run)

text \<open>The learner of the example is enrolled here but not in the courseware.\<close>

definition example_retry :: shop_db where
  "example_retry = example_shop
     \<lparr>run_enrollments := table_of (example_run_enrollment\<lparr>enr_edx_enrolled := False\<rparr>)
        [example_run_enrollment\<lparr>enr_edx_enrolled := False, enr_active := True\<rparr>]\<rparr>"

lemma example_retry_failed: "failed_run_enrollments 1000 example_retry = [1]"
  by (simp add: failed_run_enrollments_def active_run_enrollments_def matching_def example_retry_def example_defs
      example_user_def COURSEWARE_REPAIR_GRACE_PERIOD_MINS_def)

lemma retry_failed_edx_enrollments_spec_witness:
  "enr_active (row (run_enrollments (snd (retry_failed_edx_enrollments closed_service 1000 example_retry))) 1)"
proof -
  have "enr_active (row (run_enrollments example_retry) 1)"
    by (simp add: example_retry_def table_of_def)
  then show ?thesis
    using retry_failed_edx_enrollments_spec [OF prod.collapse [symmetric],
        where sv = closed_service and now = 1000 and s = example_retry]
    by (elim exE conjE allE [where x = 1]) (simp split: if_splits)
qed

lemma retry_stops_at_failed_lookup_witness:
  "fst (retry_failed_edx_enrollments closed_service 1000 example_retry) = Inl HTTPError"
proof -
  let ?e = "row (run_enrollments example_retry) 1"
  have e: "enroll_in_edx_course_runs closed_service (enr_user ?e) [enr_run ?e] True example_retry =
      (Inl EdxEnrollError, snd (enroll_in_edx_course_runs closed_service (enr_user ?e) [enr_run ?e] True example_retry))"
    by (simp add: enroll_in_edx_course_runs_def get_edx_api_service_client_def enroll_in_edx_course_run_def
        create_student_enrollment_def closed_service_def open_service_def bindp_run thenp_run)
  let ?s1 = "snd (enroll_in_edx_course_runs closed_service (enr_user ?e) [enr_run ?e] True example_retry)"
  obtain c where s1: "?s1 = example_retry\<lparr>effects := effects example_retry @ c\<rparr>"
    using only_sendsD [OF only_sends_enroll_runs e] by blast
  have "get_enrollment closed_service 1000 (enr_user ?e) (enr_run ?e) ?s1 =
      (Inl HTTPError, snd (get_enrollment closed_service 1000 (enr_user ?e) (enr_run ?e) ?s1))"
    unfolding s1
    by (simp add: get_enrollment_def get_edx_api_client_def get_valid_edx_api_auth_def bindp_run try_catch_def
        transaction_run thenp_run create_edx_auth_token_def db_get_or_create_run t_get_or_create_def t_first_def
        matching_def example_retry_def example_defs closed_service_def open_service_def t_create_def
        OPENEDX_AUTH_DEFAULT_TTL_IN_SECONDS_def OPENEDX_AUTH_MAX_TTL_IN_SECONDS_def)
  from retry_stops_at_failed_lookup [OF example_retry_failed e this] show ?thesis by simp
qed

end
