(* ===== verification/Enrollments.thy ===== *)
theory Enrollments
  imports Courseware "HOL-Library.Product_Lexorder" "HOL-Library.Multiset"
begin

text \<open>
  \<open>courses/api.py\<close>: creating and deactivating enrollments together with the courseware, deferring an
  enrollment to another run, and the overview of a user's enrollments.
\<close>

section \<open>Messages\<close>

text \<open>
  \<open>ecommerce/mail_api.py\<close>. The messages read the purchaser of the order, so the failure message raises when there
  is no order. The welcome message is sent when its feature is switched on.
\<close>

definition send_enrollment_failure_message :: "nat option \<Rightarrow> string \<Rightarrow> nat \<Rightarrow> ('z users_db_scheme, unit) prog" where
  "send_enrollment_failure_message order kind obj =
     (case order of
        None \<Rightarrow> raise (AttributeError ''purchaser'')
      | Some k \<Rightarrow> emit (SendMail ''MIT xPRO enrollment error'' [k, obj] [kind]))"

definition send_course_run_enrollment_welcome_email :: "bool \<Rightarrow> nat \<Rightarrow> ('z users_db_scheme, unit) prog" where
  "send_course_run_enrollment_welcome_email welcome_enabled enrollment =
     (if \<not> welcome_enabled then ret () else emit (SendMail ''welcome'' [enrollment] []))"

definition send_course_run_unenrollment_email :: "nat \<Rightarrow> ('z users_db_scheme, unit) prog" where
  "send_course_run_unenrollment_email enrollment = emit (SendMail ''unenrollment'' [enrollment] [])"

section \<open>Creating enrollments\<close>

text \<open>The exceptions that \<open>create_run_enrollments\<close> expects from the courseware.\<close>

definition is_edx_enrollment_failure :: "exn \<Rightarrow> bool" where
  "is_edx_enrollment_failure e \<longleftrightarrow>
     e \<in> {EdxEnrollError, EdxUnknownEnrollError, NoEdxApiAuthError, HTTPError, RequestsConnectionError, OpenEdXOAuth2Error}"

definition new_run_enrollment ::
  "int \<Rightarrow> nat \<Rightarrow> nat \<Rightarrow> nat option \<Rightarrow> nat option \<Rightarrow> bool \<Rightarrow> run_enrollment_row" where
  "new_run_enrollment now user run order company edx_enrolled =
     \<lparr>enr_user = user, enr_company = company, enr_order = order, enr_change_status = None, enr_active = True,
      enr_created_on = now, enr_run = run, enr_edx_enrolled = edx_enrolled\<rparr>"

text \<open>The round of the loop for one run: the \<open>try\<close> block, its handler, and its \<open>else\<close> block.\<close>

definition get_or_reactivate_run_enrollment ::
  "int \<Rightarrow> nat \<Rightarrow> nat option \<Rightarrow> nat option \<Rightarrow> bool \<Rightarrow> nat \<Rightarrow> ('z xpro_db_scheme, nat) prog" where
  "get_or_reactivate_run_enrollment now user order company edx_request_success run =
     bindp (db_get_or_create ''CourseRunEnrollment'' run_enrollments run_enrollments_update
        (\<lambda>_ e. enr_user e = user \<and> enr_run e = run \<and> enr_order e = order)
        (new_run_enrollment now user run order company edx_request_success)) (\<lambda>(k, created).
     bindp (asks (\<lambda>s. enr_active (row (run_enrollments s) k))) (\<lambda>active.
     if \<not> created \<and> \<not> active
     then thenp (save_and_log_run_enrollment k
                  (\<lambda>e. reactivated (e\<lparr>enr_edx_enrolled := edx_request_success\<rparr>)) (Some user))
            (ret k)
     else ret k))"

definition create_run_enrollment ::
  "bool \<Rightarrow> int \<Rightarrow> nat \<Rightarrow> nat option \<Rightarrow> nat option \<Rightarrow> bool \<Rightarrow> nat \<Rightarrow> ('z xpro_db_scheme, nat list) prog" where
  "create_run_enrollment welcome_enabled now user order company edx_request_success run =
     bindp (try_catch
         (bindp (get_or_reactivate_run_enrollment now user order company edx_request_success run) (\<lambda>k. ret (Some k)))
         (\<lambda>_. thenp (send_enrollment_failure_message order ''Run'' run) (ret None))) (\<lambda>made.
     case made of
       None \<Rightarrow> ret []
     | Some k \<Rightarrow>
         bindp (asks (\<lambda>s. enr_edx_enrolled (row (run_enrollments s) k))) (\<lambda>edx_enrolled.
         thenp (whenp edx_enrolled (send_course_run_enrollment_welcome_email welcome_enabled k)) (ret [k])))"

definition create_run_enrollments ::
  "edx_service \<Rightarrow> bool \<Rightarrow> int \<Rightarrow> nat \<Rightarrow> nat list \<Rightarrow> bool \<Rightarrow> nat option \<Rightarrow> nat option \<Rightarrow>
   ('z xpro_db_scheme, nat list \<times> bool) prog" where
  "create_run_enrollments sv welcome_enabled now user runs keep_failed_enrollments order company =
     bindp (try_catch (bindp (enroll_in_edx_course_runs sv user runs True) (\<lambda>_. ret True))
        (\<lambda>e. if \<not> is_edx_enrollment_failure e then raise e
             else if \<not> keep_failed_enrollments then raise (EdxEnrollmentCreateError ''edX enrollment failure'')
             else ret False)) (\<lambda>edx_request_success.
     bindp (collect_each runs (create_run_enrollment welcome_enabled now user order company edx_request_success))
       (\<lambda>successful_enrollments. ret (concat successful_enrollments, edx_request_success)))"

definition new_program_enrollment :: "int \<Rightarrow> nat \<Rightarrow> nat \<Rightarrow> nat option \<Rightarrow> nat option \<Rightarrow> program_enrollment_row" where
  "new_program_enrollment now user program order company =
     \<lparr>enr_user = user, enr_company = company, enr_order = order, enr_change_status = None, enr_active = True,
      enr_created_on = now, enr_program = program\<rparr>"

definition create_program_enrollment ::
  "int \<Rightarrow> nat \<Rightarrow> nat option \<Rightarrow> nat option \<Rightarrow> nat \<Rightarrow> ('z xpro_db_scheme, nat list) prog" where
  "create_program_enrollment now user order company program =
     try_catch
       (bindp (db_get_or_create ''ProgramEnrollment'' program_enrollments program_enrollments_update
          (\<lambda>_ e. enr_user e = user \<and> enr_program e = program \<and> enr_order e = order)
          (new_program_enrollment now user program order company)) (\<lambda>(k, created).
        bindp (asks (\<lambda>s. enr_active (row (program_enrollments s) k))) (\<lambda>active.
        if \<not> created \<and> \<not> active
        then thenp (save_and_log_program_enrollment k reactivated (Some user)) (ret [k])
        else ret [k])))
       (\<lambda>_. thenp (send_enrollment_failure_message order ''Program'' program) (ret []))"

definition create_program_enrollments ::
  "int \<Rightarrow> nat \<Rightarrow> nat list \<Rightarrow> nat option \<Rightarrow> nat option \<Rightarrow> ('z xpro_db_scheme, nat list) prog" where
  "create_program_enrollments now user program_ids order company =
     bindp (collect_each program_ids (create_program_enrollment now user order company)) (\<lambda>es. ret (concat es))"

section \<open>Deactivating enrollments\<close>

definition deactivate_run_enrollment ::
  "edx_service \<Rightarrow> nat \<Rightarrow> change_status option \<Rightarrow> bool \<Rightarrow> ('z xpro_db_scheme, nat option) prog" where
  "deactivate_run_enrollment sv k change_status keep_failed_enrollments =
     bindp (try_catch (thenp (unenroll_edx_course_run sv k) (ret True)) (\<lambda>_. ret False)) (\<lambda>edx_unenrolled.
     thenp (whenp edx_unenrolled (send_course_run_unenrollment_email k))
       (if \<not> edx_unenrolled \<and> \<not> keep_failed_enrollments then ret None
        else thenp (save_and_log_run_enrollment k
               (\<lambda>e. deactivated change_status (if edx_unenrolled then e\<lparr>enr_edx_enrolled := False\<rparr> else e)) None)
             (ret (Some k))))"

text \<open>The body of the loop over the run enrollments of a program: the enrollment, if it was deactivated.\<close>

definition deactivate_and_collect ::
  "edx_service \<Rightarrow> change_status option \<Rightarrow> bool \<Rightarrow> nat \<Rightarrow> ('z xpro_db_scheme, nat list) prog" where
  "deactivate_and_collect sv change_status keep_failed_enrollments e =
     bindp (deactivate_run_enrollment sv e change_status keep_failed_enrollments)
       (\<lambda>d. ret (case d of None \<Rightarrow> [] | Some _ \<Rightarrow> [e]))"

definition deactivate_program_enrollment ::
  "edx_service \<Rightarrow> nat \<Rightarrow> change_status option \<Rightarrow> bool \<Rightarrow> bool \<Rightarrow>
   ('z xpro_db_scheme, (nat \<times> nat list) option) prog" where
  "deactivate_program_enrollment sv k change_status keep_failed_enrollments limit_to_order =
     bindp (asks (\<lambda>s. let order_id = enr_order (row (program_enrollments s) k)
         in get_run_enrollments s k
              (if limit_to_order \<and> order_id \<noteq> None \<and> order_id \<noteq> Some 0 then order_id else None)))
       (\<lambda>program_run_enrollments.
     bindp (collect_each program_run_enrollments
              (deactivate_and_collect sv change_status keep_failed_enrollments)) (\<lambda>ds.
     let deactivated_course_runs = concat ds
     in if deactivated_course_runs = [] then ret None
        else thenp (deactivate_and_save_program k change_status True) (ret (Some (k, deactivated_course_runs)))))"

section \<open>Deferral\<close>

definition defer_enrollment ::
  "edx_service \<Rightarrow> bool \<Rightarrow> int \<Rightarrow> nat \<Rightarrow> string \<Rightarrow> string \<Rightarrow> bool \<Rightarrow> bool \<Rightarrow>
   ('z xpro_db_scheme, nat option \<times> nat option) prog" where
  "defer_enrollment sv welcome_enabled now user from_courseware_id to_courseware_id keep_failed_enrollments force =
     bindp (asks (\<lambda>s. first_of (order_by_desc (\<lambda>k. enr_created_on (row (run_enrollments s) k))
         (matching (run_enrollments s) (\<lambda>_ e. enr_user e = user \<and>
            run_courseware_id (row (course_runs s) (enr_run e)) = from_courseware_id))))) (\<lambda>found.
     case found of
       None \<Rightarrow> raise (ValidationError [] ''User is not enrolled in course run'')
     | Some from_enrollment \<Rightarrow>
         bindp (asks (\<lambda>s. row (run_enrollments s) from_enrollment)) (\<lambda>fe.
         if \<not> force \<and> \<not> enr_active fe
         then raise (ValidationError [] ''Cannot defer from inactive enrollment'')
         else
           bindp (db_get ''CourseRun'' course_runs (\<lambda>_ r. run_courseware_id r = to_courseware_id)) (\<lambda>to_run.
           if enr_run fe = to_run
           then raise (ValidationError [] ''Cannot defer to the same course run'')
           else
             bindp (asks (\<lambda>s. (row (course_runs s) to_run, run_course (row (course_runs s) (enr_run fe)))))
               (\<lambda>(tr, from_course).
             if \<not> force \<and> \<not> is_not_beyond_enrollment now tr
             then raise (ValidationError [] ''Cannot defer to a course run that is outside of its enrollment period'')
             else if \<not> force \<and> from_course \<noteq> run_course tr
             then raise (ValidationError [] ''Cannot defer to a course run of a different course'')
             else
               bindp (create_run_enrollments sv welcome_enabled now user [to_run] keep_failed_enrollments
                        (enr_order fe) (enr_company fe)) (\<lambda>(to_enrollments, _).
               bindp (if to_enrollments \<noteq> []
                      then deactivate_run_enrollment sv from_enrollment (Some Deferred) keep_failed_enrollments
                      else ret (Some from_enrollment)) (\<lambda>from_enrollment.
               ret (from_enrollment, first_or_none to_enrollments)))))))"

section \<open>Overview\<close>

record user_enrollments =
  ue_programs :: "nat list"
  ue_past_programs :: "nat list"
  ue_program_runs :: "nat list"
  ue_non_program_runs :: "nat list"
  ue_past_non_program_runs :: "nat list"

text \<open>Ascending order puts enrollments in runs without a start date last.\<close>

definition start_date_key :: "'z xpro_db_scheme \<Rightarrow> nat \<Rightarrow> bool \<times> int" where
  "start_date_key s k =
     (case run_start_date (row (course_runs s) (enr_run (row (run_enrollments s) k))) of
        None \<Rightarrow> (True, 0) | Some d \<Rightarrow> (False, d))"

definition get_user_enrollments :: "int \<Rightarrow> 'z xpro_db_scheme \<Rightarrow> nat \<Rightarrow> user_enrollments" where
  "get_user_enrollments now s user =
     (let program_enrs = active_program_enrollments s (\<lambda>e. enr_user e = user);
          program_course_ids =
            concat (map (\<lambda>k. program_courses s (enr_program (row (program_enrollments s) k))) program_enrs);
          course_run_enrollments = sort_key (start_date_key s) (active_run_enrollments s (\<lambda>e. enr_user e = user));
          (non_program_run_enrollments, program_run_enrollments) =
            partition_items course_run_enrollments
              (\<lambda>k. run_course (row (course_runs s) (enr_run (row (run_enrollments s) k))) \<in> set program_course_ids);
          (current_programs, past_programs) = partition_items program_enrs (program_enrollment_is_ended now s);
          (non_program, past_non_program) =
            partition_items non_program_run_enrollments (run_enrollment_is_ended now s)
      in \<lparr>ue_programs = current_programs, ue_past_programs = past_programs, ue_program_runs = program_run_enrollments,
          ue_non_program_runs = non_program, ue_past_non_program_runs = past_non_program\<rparr>)"

definition generate_course_readable_id :: "string \<Rightarrow> exn + string" where
  "generate_course_readable_id course_tag =
     (if course_tag = []
      then Inl (ValidationError [] ''course_tag is required to generate a valid readable ID for a course.'')
      else Inr (''course-v1:xPRO+'' @ course_tag))"

section \<open>Creating run enrollments\<close>

text \<open>The table has no two enrollments of a user in a run under the same order.\<close>

definition enrollment_key :: "run_enrollment_row \<Rightarrow> nat \<times> nat \<times> nat option" where
  "enrollment_key e = (enr_user e, enr_run e, enr_order e)"

definition run_enrollments_ok :: "'z xpro_db_scheme \<Rightarrow> bool" where
  "run_enrollments_ok s \<longleftrightarrow> wf_table (run_enrollments s) \<and> unique_on (run_enrollments s) enrollment_key"

definition enrolled_in :: "nat \<Rightarrow> nat \<Rightarrow> nat option \<Rightarrow> run_enrollment_row \<Rightarrow> bool" where
  "enrolled_in user run order e \<longleftrightarrow> enrollment_key e = (user, run, order) \<and> enr_active e"

lemma unique_matching:
  assumes "wf_table t" and "unique_on t f" and "\<And>k r. P k r \<longleftrightarrow> f r = v"
  shows "matching t P = [] \<or> (\<exists>k. matching t P = [k] \<and> k \<in> set (pks t) \<and> f (row t k) = v)"
proof (cases "matching t P")
  case (Cons k ks)
  have "set (matching t P) \<subseteq> {k}"
  proof
    fix j assume "j \<in> set (matching t P)"
    then have "j \<in> set (pks t)" "f (row t j) = v" by (simp_all add: assms(3))
    moreover have "k \<in> set (matching t P)" using Cons by simp
    then have "k \<in> set (pks t)" "f (row t k) = v" by (simp_all add: assms(3))
    ultimately show "j \<in> {k}" using assms(2) by (auto simp: unique_on_def inj_on_def)
  qed
  with Cons distinct_matching [OF assms(1), of P] have "ks = []"
    by (cases ks) auto
  moreover have "k \<in> set (matching t P)" using Cons by simp
  then have "k \<in> set (pks t) \<and> f (row t k) = v" by (simp add: assms(3))
  ultimately show ?thesis using Cons by simp
qed simp

text \<open>What one round of the loop does.\<close>

lemma get_or_reactivate_run:
  assumes ok: "run_enrollments_ok s"
    and "get_or_reactivate_run_enrollment now user order company success run s = (r, s')"
  shows "\<exists>k. r = Inr k \<and> run_enrollments_ok s' \<and> k \<in> set (pks (run_enrollments s')) \<and>
    enrolled_in user run order (row (run_enrollments s') k) \<and>
    (\<forall>j. j \<noteq> k \<longrightarrow> (j \<in> set (pks (run_enrollments s')) \<longleftrightarrow> j \<in> set (pks (run_enrollments s)))
           \<and> row (run_enrollments s') j = row (run_enrollments s) j) \<and>
    (k \<in> set (pks (run_enrollments s)) \<and> enr_active (row (run_enrollments s) k) \<longrightarrow>
       row (run_enrollments s') k = row (run_enrollments s) k) \<and>
    (\<not> (k \<in> set (pks (run_enrollments s)) \<and> enr_active (row (run_enrollments s) k)) \<longrightarrow>
       enr_edx_enrolled (row (run_enrollments s') k) = success) \<and>
    (\<forall>j \<in> set (pks (run_enrollments s)). enrollment_key (row (run_enrollments s') j) = enrollment_key (row (run_enrollments s) j))"
proof -
  let ?t = "run_enrollments s"
  let ?P = "\<lambda>_ e. enr_user e = user \<and> enr_run e = run \<and> enr_order e = order"
  let ?new = "new_run_enrollment now user run order company success"
  have wf: "wf_table ?t" and u: "unique_on ?t enrollment_key"
    using ok by (simp_all add: run_enrollments_ok_def)
  have P: "?P k e \<longleftrightarrow> enrollment_key e = (user, run, order)" for k e
    by (auto simp: enrollment_key_def)
  have g: "get_or_reactivate_run_enrollment now user order company success run s = (r, s')" by (rule assms(2))
  from unique_matching [OF wf u P] show ?thesis
  proof (elim disjE exE conjE)
    assume none: "matching ?t ?P = []"
    let ?t' = "snd (t_create ?t ?new)"
    have s': "s' = s\<lparr>run_enrollments := ?t'\<rparr>" "r = Inr (next_pk ?t)"
      using g by (auto simp: get_or_reactivate_run_enrollment_def run_enrollments_tb.get_or_create_new [OF none]
          bindp_run new_run_enrollment_def row_t_create)
    have "\<forall>k \<in> set (pks ?t). enrollment_key (row ?t k) \<noteq> enrollment_key ?new"
    proof
      fix k assume "k \<in> set (pks ?t)"
      with none P have "enrollment_key (row ?t k) \<noteq> (user, run, order)"
        by (auto simp: matching_def filter_empty_conv)
      then show "enrollment_key (row ?t k) \<noteq> enrollment_key ?new"
        by (simp add: enrollment_key_def new_run_enrollment_def)
    qed
    then have "unique_on ?t' enrollment_key" by (rule unique_on_create [OF wf u])
    moreover have "enrolled_in user run order ?new" "enr_edx_enrolled ?new = success"
      by (simp_all add: enrolled_in_def enrollment_key_def new_run_enrollment_def)
    ultimately show ?thesis
      using wf wf_table_fresh [OF wf] by (auto simp: s' run_enrollments_ok_def row_t_create)
  next
    fix k assume one: "matching ?t ?P = [k]" and k: "k \<in> set (pks ?t)" and key: "enrollment_key (row ?t k) = (user, run, order)"
    show ?thesis
    proof (cases "enr_active (row ?t k)")
      case True
      then have "s' = s" "r = Inr k"
        using g by (auto simp: get_or_reactivate_run_enrollment_def run_enrollments_tb.get_or_create_found [OF one] bindp_run)
      with True k key ok show ?thesis by (auto simp: enrolled_in_def)
    next
      case False
      let ?f = "\<lambda>e. reactivated (e\<lparr>enr_edx_enrolled := success\<rparr>)"
      have s': "run_enrollments s' = t_save ?t k ?f" "r = Inr k"
        using g False by (auto simp: get_or_reactivate_run_enrollment_def
            run_enrollments_tb.get_or_create_found [OF one] bindp_run thenp_run save_and_log_run_enrollment_run Let_def)
      have f: "enrollment_key (?f e) = enrollment_key e" "enr_active (?f e)" "enr_edx_enrolled (?f e) = success" for e
        by (simp_all add: enrollment_key_def reactivated_def)
      have "unique_on (t_save ?t k ?f) enrollment_key"
        by (rule unique_on_t_save [OF u]) (simp add: f)
      with False k key wf f show ?thesis
        by (auto simp: s' run_enrollments_ok_def enrolled_in_def row_t_save)
    qed
  qed
qed

lemma create_run_enrollment_one:
  assumes "run_enrollments_ok s" and "create_run_enrollment w now user order company success run s = (r, s')"
  shows "\<exists>k. r = Inr [k] \<and> run_enrollments_ok s' \<and> k \<in> set (pks (run_enrollments s')) \<and>
    enrolled_in user run order (row (run_enrollments s') k) \<and>
    (\<forall>j. j \<noteq> k \<longrightarrow> (j \<in> set (pks (run_enrollments s')) \<longleftrightarrow> j \<in> set (pks (run_enrollments s)))
           \<and> row (run_enrollments s') j = row (run_enrollments s) j) \<and>
    (k \<in> set (pks (run_enrollments s)) \<and> enr_active (row (run_enrollments s) k) \<longrightarrow>
       row (run_enrollments s') k = row (run_enrollments s) k) \<and>
    (\<forall>j \<in> set (pks (run_enrollments s)). enrollment_key (row (run_enrollments s') j) = enrollment_key (row (run_enrollments s) j))"
proof -
  obtain r1 s1 where g: "get_or_reactivate_run_enrollment now user order company success run s = (r1, s1)"
    by fastforce
  from get_or_reactivate_run [OF assms(1) g] obtain k where k: "r1 = Inr k" "run_enrollments_ok s1"
    "k \<in> set (pks (run_enrollments s1))" "enrolled_in user run order (row (run_enrollments s1) k)"
    "\<forall>j. j \<noteq> k \<longrightarrow> (j \<in> set (pks (run_enrollments s1)) \<longleftrightarrow> j \<in> set (pks (run_enrollments s)))
           \<and> row (run_enrollments s1) j = row (run_enrollments s) j"
    "k \<in> set (pks (run_enrollments s)) \<and> enr_active (row (run_enrollments s) k) \<longrightarrow>
       row (run_enrollments s1) k = row (run_enrollments s) k"
    "\<forall>j \<in> set (pks (run_enrollments s)). enrollment_key (row (run_enrollments s1) j) = enrollment_key (row (run_enrollments s) j)" by blast
  have "r = Inr [k] \<and> run_enrollments s' = run_enrollments s1"
    using assms(2) g k(1)
    by (auto simp: create_run_enrollment_def bindp_run try_catch_def thenp_run
        send_course_run_enrollment_welcome_email_def split: if_splits)
  with k show ?thesis by (auto simp: run_enrollments_ok_def)
qed


lemma create_run_enrollment_loop:
  assumes "run_enrollments_ok s"
    and "collect_each ks (create_run_enrollment w now user order company success) s = (r, s')"
  shows "\<exists>es. r = Inr (map (\<lambda>k. [k]) es) \<and> run_enrollments_ok s' \<and>
    list_all2 (\<lambda>run k. k \<in> set (pks (run_enrollments s')) \<and> enrolled_in user run order (row (run_enrollments s') k)) ks es \<and>
    (\<forall>j. j \<notin> set es \<longrightarrow> (j \<in> set (pks (run_enrollments s')) \<longleftrightarrow> j \<in> set (pks (run_enrollments s)))
           \<and> row (run_enrollments s') j = row (run_enrollments s) j) \<and>
    (\<forall>j. j \<in> set (pks (run_enrollments s)) \<and> enr_active (row (run_enrollments s) j) \<longrightarrow>
       j \<in> set (pks (run_enrollments s')) \<and> row (run_enrollments s') j = row (run_enrollments s) j) \<and>
    (\<forall>j \<in> set (pks (run_enrollments s)). j \<in> set (pks (run_enrollments s')) \<and>
       enrollment_key (row (run_enrollments s') j) = enrollment_key (row (run_enrollments s) j))"
  using assms
proof (induction ks arbitrary: s r s')
  case Nil
  then show ?case by (intro exI [of _ "[]"]) auto
next
  case (Cons run ks)
  obtain r1 s1 where one: "create_run_enrollment w now user order company success run s = (r1, s1)" by fastforce
  obtain k where k: "r1 = Inr [k]" "run_enrollments_ok s1" "k \<in> set (pks (run_enrollments s1))"
    "enrolled_in user run order (row (run_enrollments s1) k)"
    "\<forall>j. j \<noteq> k \<longrightarrow> (j \<in> set (pks (run_enrollments s1)) \<longleftrightarrow> j \<in> set (pks (run_enrollments s)))
           \<and> row (run_enrollments s1) j = row (run_enrollments s) j"
    "k \<in> set (pks (run_enrollments s)) \<and> enr_active (row (run_enrollments s) k) \<longrightarrow>
       row (run_enrollments s1) k = row (run_enrollments s) k"
    "\<forall>j \<in> set (pks (run_enrollments s)). enrollment_key (row (run_enrollments s1) j) = enrollment_key (row (run_enrollments s) j)"
    using create_run_enrollment_one [OF Cons.prems(1) one] by blast
  obtain r2 s2 where rest: "collect_each ks (create_run_enrollment w now user order company success) s1 = (r2, s2)"
    by fastforce
  from Cons.IH [OF k(2) rest] obtain es where es: "r2 = Inr (map (\<lambda>k. [k]) es)" "run_enrollments_ok s2"
    "list_all2 (\<lambda>run k. k \<in> set (pks (run_enrollments s2)) \<and> enrolled_in user run order (row (run_enrollments s2) k)) ks es"
    "\<forall>j. j \<notin> set es \<longrightarrow> (j \<in> set (pks (run_enrollments s2)) \<longleftrightarrow> j \<in> set (pks (run_enrollments s1)))
           \<and> row (run_enrollments s2) j = row (run_enrollments s1) j"
    "\<forall>j. j \<in> set (pks (run_enrollments s1)) \<and> enr_active (row (run_enrollments s1) j) \<longrightarrow>
       j \<in> set (pks (run_enrollments s2)) \<and> row (run_enrollments s2) j = row (run_enrollments s1) j"
    "\<forall>j \<in> set (pks (run_enrollments s1)). j \<in> set (pks (run_enrollments s2)) \<and>
       enrollment_key (row (run_enrollments s2) j) = enrollment_key (row (run_enrollments s1) j)" by blast
  have r: "r = Inr (map (\<lambda>k. [k]) (k # es))" "s' = s2"
    using Cons.prems(2) one rest k(1) es(1) by (auto simp: bindp_run)
  have "k \<in> set (pks (run_enrollments s2)) \<and> row (run_enrollments s2) k = row (run_enrollments s1) k"
    using es(5) k(3,4) by (simp add: enrolled_in_def)
  then have 1: "k \<in> set (pks (run_enrollments s2)) \<and> enrolled_in user run order (row (run_enrollments s2) k)"
    using k(4) by simp
  have 2: "j \<in> set (pks (run_enrollments s2)) \<and> row (run_enrollments s2) j = row (run_enrollments s) j"
    if "j \<in> set (pks (run_enrollments s))" "enr_active (row (run_enrollments s) j)" for j
    using that k(3,5,6) es(5) by (cases "j = k") (metis (no_types))+
  have 3: "(j \<in> set (pks (run_enrollments s2)) \<longleftrightarrow> j \<in> set (pks (run_enrollments s)))
           \<and> row (run_enrollments s2) j = row (run_enrollments s) j" if "j \<notin> set (k # es)" for j
    using that k(5) es(4) by simp
  have 4: "j \<in> set (pks (run_enrollments s2)) \<and> enrollment_key (row (run_enrollments s2) j) = enrollment_key (row (run_enrollments s) j)"
    if "j \<in> set (pks (run_enrollments s))" for j
    using that k(3,5,7) es(6) by metis
  show ?case
    unfolding r using 1 2 3 4 es(2,3) by (intro exI [of _ "k # es"]) simp
qed

lemma create_run_enrollments_cases:
  assumes "run_enrollments_ok s"
    and "create_run_enrollments sv w now user ks keep order company s = (r, s')"
  shows "(\<exists>e c. r = Inl e \<and> s' = s\<lparr>effects := effects s @ c\<rparr> \<and> \<not> (keep \<and> sv_token_set sv)) \<or>
    (\<exists>es success. r = Inr (es, success) \<and> run_enrollments_ok s' \<and>
      list_all2 (\<lambda>run k. k \<in> set (pks (run_enrollments s')) \<and> enrolled_in user run order (row (run_enrollments s') k)) ks es \<and>
      (\<forall>j. j \<notin> set es \<longrightarrow> (j \<in> set (pks (run_enrollments s')) \<longleftrightarrow> j \<in> set (pks (run_enrollments s)))
             \<and> row (run_enrollments s') j = row (run_enrollments s) j) \<and>
      (\<forall>j. j \<in> set (pks (run_enrollments s)) \<and> enr_active (row (run_enrollments s) j) \<longrightarrow>
         row (run_enrollments s') j = row (run_enrollments s) j) \<and>
      (\<forall>j \<in> set (pks (run_enrollments s)). enrollment_key (row (run_enrollments s') j) = enrollment_key (row (run_enrollments s) j)))"
    (is "?failed \<or> ?enrolled")
proof -
  obtain x s1 where e: "enroll_in_edx_course_runs sv user ks True s = (x, s1)" by fastforce
  from only_sendsD [OF only_sends_enroll_runs e] obtain c where s1: "s1 = s\<lparr>effects := effects s @ c\<rparr>" by blast
  let ?loop = "\<lambda>success. case collect_each ks (create_run_enrollment w now user order company success) s1 of
         (Inl e, s2) \<Rightarrow> (Inl e, s2) | (Inr es, s2) \<Rightarrow> (Inr (concat es, success), s2)"
  have "?failed \<or> (\<exists>success. (r, s') = ?loop success)"
  proof (cases x)
    case (Inl err)
    show ?thesis
    proof (cases "is_edx_enrollment_failure err \<and> keep")
      case True
      with assms(2) have "(r, s') = ?loop False"
        by (auto simp: create_run_enrollments_def bindp_run try_catch_def e Inl split: prod.splits sum.splits)
      then show ?thesis by blast
    next
      case False
      have "is_edx_enrollment_failure err" if "sv_token_set sv"
        using e that by (auto simp: Inl enroll_in_edx_course_runs_def get_edx_api_service_client_def thenp_run bindp_run
            is_edx_enrollment_failure_def
            dest!: collect_each_Inl [where E = "\<lambda>e. e = EdxEnrollError \<or> e = EdxUnknownEnrollError"] enroll_run_cases)
      with False have "\<not> (keep \<and> sv_token_set sv)" by blast
      moreover have "s' = s1" and "\<exists>e. r = Inl e"
        using False assms(2) by (auto simp: create_run_enrollments_def bindp_run try_catch_def e Inl split: if_splits)
      ultimately show ?thesis using s1 by blast
    qed
  next
    case (Inr y)
    with assms(2) have "(r, s') = ?loop True"
      by (auto simp: create_run_enrollments_def bindp_run try_catch_def e split: prod.splits sum.splits)
    then show ?thesis by blast
  qed
  then show ?thesis
  proof (elim disjE exE)
    fix success assume run: "(r, s') = ?loop success"
    obtain r2 s2 where c2: "collect_each ks (create_run_enrollment w now user order company success) s1 = (r2, s2)"
      by fastforce
    have "run_enrollments_ok s1" using assms(1) by (simp add: s1 run_enrollments_ok_def)
    from create_run_enrollment_loop [OF this c2] obtain es where es: "r2 = Inr (map (\<lambda>k. [k]) es)" "run_enrollments_ok s2"
      "list_all2 (\<lambda>run k. k \<in> set (pks (run_enrollments s2)) \<and> enrolled_in user run order (row (run_enrollments s2) k)) ks es"
      "\<forall>j. j \<notin> set es \<longrightarrow> (j \<in> set (pks (run_enrollments s2)) \<longleftrightarrow> j \<in> set (pks (run_enrollments s1)))
             \<and> row (run_enrollments s2) j = row (run_enrollments s1) j"
      "\<forall>j. j \<in> set (pks (run_enrollments s1)) \<and> enr_active (row (run_enrollments s1) j) \<longrightarrow>
         j \<in> set (pks (run_enrollments s2)) \<and> row (run_enrollments s2) j = row (run_enrollments s1) j"
      "\<forall>j \<in> set (pks (run_enrollments s1)). j \<in> set (pks (run_enrollments s2)) \<and>
         enrollment_key (row (run_enrollments s2) j) = enrollment_key (row (run_enrollments s1) j)" by blast
    have "r = Inr (es, success)" "s' = s2"
      using run c2 es(1) by simp_all
    with es show ?thesis by (intro disjI2) (auto simp: s1)
  qed blast
qed

lemma create_run_enrollments_unconfigured:
  assumes "\<not> sv_token_set sv" and "create_run_enrollments sv w now user ks keep order company s = (r, s')"
  shows "r = Inl (ImproperlyConfigured ''OPENEDX_SERVICE_WORKER_API_TOKEN is not set'') \<and> s' = s"
  using assms
  by (simp add: create_run_enrollments_def enroll_in_edx_course_runs_def get_edx_api_service_client_def bindp_run thenp_run
      try_catch_def is_edx_enrollment_failure_def)

text \<open>
  C17: Enrolling a user for an order (or for no order), failed enrollments being kept, either fails because the service
  worker's token is not configured, and then nobody is enrolled and nothing is stored or sent, or leaves the user with
  exactly the enrollments asked for, even when the courseware refuses: the enrollment of every run is reported, in order,
  it is active and carries the order; enrollments that were active stay as they were, other enrollments are not
  touched, and no duplicate arises.
\<close>

theorem create_run_enrollments_spec:
  assumes "run_enrollments_ok s"
    and "create_run_enrollments sv w now user ks True order company s = (r, s')"
  shows "if sv_token_set sv
    then \<exists>es success. r = Inr (es, success) \<and> run_enrollments_ok s' \<and>
      list_all2 (\<lambda>run k. k \<in> set (pks (run_enrollments s')) \<and> enrolled_in user run order (row (run_enrollments s') k)) ks es \<and>
      (\<forall>j. j \<notin> set es \<longrightarrow> (j \<in> set (pks (run_enrollments s')) \<longleftrightarrow> j \<in> set (pks (run_enrollments s)))
             \<and> row (run_enrollments s') j = row (run_enrollments s) j) \<and>
      (\<forall>j. j \<in> set (pks (run_enrollments s)) \<and> enr_active (row (run_enrollments s) j) \<longrightarrow>
         row (run_enrollments s') j = row (run_enrollments s) j)
    else r = Inl (ImproperlyConfigured ''OPENEDX_SERVICE_WORKER_API_TOKEN is not set'') \<and> s' = s"
proof (cases "sv_token_set sv")
  case True
  with create_run_enrollments_cases [OF assms] show ?thesis by (simp only: if_True) blast
next
  case False
  with create_run_enrollments_unconfigured [OF False assms(2)] show ?thesis by simp
qed

lemma create_run_enrollments_spec_witness:
  "\<exists>k. k \<in> set (pks (run_enrollments (snd (create_run_enrollments closed_service False 7 1 [2, 3] True (Some 5) None example_shop)))) \<and>
     enrolled_in 1 3 (Some 5)
       (row (run_enrollments (snd (create_run_enrollments closed_service False 7 1 [2, 3] True (Some 5) None example_shop))) k)"
proof -
  have ok: "run_enrollments_ok example_shop" and token: "sv_token_set closed_service"
    by (simp_all add: run_enrollments_ok_def unique_on_def example_tables closed_service_def open_service_def)
      (simp add: table_of_def)
  from create_run_enrollments_spec [OF ok prod.collapse [symmetric], of closed_service False 7 1 "[2, 3]" "Some 5" None]
  show ?thesis by (auto simp: token list_all2_Cons1)
qed

section \<open>Deactivating and deferring\<close>

lemma deactivate_run_cases:
  assumes "deactivate_run_enrollment sv k cs keep s = (r, s')"
  shows "(r = Inr (Some k) \<and> pks (run_enrollments s') = pks (run_enrollments s) \<and>
      \<not> enr_active (row (run_enrollments s') k) \<and> enr_change_status (row (run_enrollments s') k) = cs \<and>
      (\<forall>j. j \<noteq> k \<longrightarrow> row (run_enrollments s') j = row (run_enrollments s) j)) \<or>
    (r = Inr None \<and> \<not> keep \<and> run_enrollments s' = run_enrollments s)"
proof -
  obtain x s1 where u: "unenroll_edx_course_run sv k s = (x, s1)" by fastforce
  from only_sendsD [OF only_sends_unenroll u] have s1: "run_enrollments s1 = run_enrollments s" by auto
  show ?thesis
    using assms s1
    by (cases x)
       (auto simp: deactivate_run_enrollment_def bindp_run thenp_run try_catch_def u
          send_course_run_unenrollment_email_def save_and_log_run_enrollment_run Let_def deactivated_def
          split: if_splits)
qed

text \<open>
  C18: A deferral that returns has moved a user to another run of (unless forced) the same course, still
  open for enrollment: the user has an active enrollment in the new run under the order of the old one. The
  old enrollment is inactive with the status deferred - or, when the courseware would not unenroll the user
  and failures are not kept, it is reported as missing and stays as it was, so that the user is then enrolled in
  both runs.
\<close>

theorem defer_enrollment_spec:
  assumes "run_enrollments_ok s"
    and "defer_enrollment sv w now user from_id to_id keep force s = (Inr (from', to'), s')"
  shows "\<exists>k to_run t. k \<in> set (pks (run_enrollments s)) \<and> enr_user (row (run_enrollments s) k) = user \<and>
    run_courseware_id (row (course_runs s) (enr_run (row (run_enrollments s) k))) = from_id \<and>
    run_courseware_id (row (course_runs s) to_run) = to_id \<and> to_run \<noteq> enr_run (row (run_enrollments s) k) \<and>
    (force \<or> enr_active (row (run_enrollments s) k) \<and> is_not_beyond_enrollment now (row (course_runs s) to_run) \<and>
       run_course (row (course_runs s) (enr_run (row (run_enrollments s) k))) = run_course (row (course_runs s) to_run)) \<and>
    to' = Some t \<and> enrolled_in user to_run (enr_order (row (run_enrollments s) k)) (row (run_enrollments s') t) \<and>
    (case from' of
       Some j \<Rightarrow> j = k \<and> \<not> enr_active (row (run_enrollments s') k) \<and>
         enr_change_status (row (run_enrollments s') k) = Some Deferred
     | None \<Rightarrow> \<not> keep \<and> row (run_enrollments s') k = row (run_enrollments s) k)"
proof -
  let ?found = "first_of (order_by_desc (\<lambda>k. enr_created_on (row (run_enrollments s) k))
         (matching (run_enrollments s) (\<lambda>_ e. enr_user e = user \<and>
            run_courseware_id (row (course_runs s) (enr_run e)) = from_id)))"
  from assms(2) obtain k where found: "?found = Some k"
    by (cases ?found) (auto simp: defer_enrollment_def bindp_run)
  from first_order_by_desc_in [OF found] have k: "k \<in> set (pks (run_enrollments s))" "enr_user (row (run_enrollments s) k) = user"
    "run_courseware_id (row (course_runs s) (enr_run (row (run_enrollments s) k))) = from_id" by simp_all
  let ?fe = "row (run_enrollments s) k"
  from assms(2) found obtain to_run where to: "t_get ''CourseRun'' (course_runs s) (\<lambda>_ r. run_courseware_id r = to_id) = Inr to_run"
    by (cases "t_get ''CourseRun'' (course_runs s) (\<lambda>_ r. run_courseware_id r = to_id)")
       (auto simp: defer_enrollment_def bindp_run split: if_splits)
  from t_get_InrD [OF to] have to_id: "run_courseware_id (row (course_runs s) to_run) = to_id" by simp
  obtain r1 s1 where c: "create_run_enrollments sv w now user [to_run] keep (enr_order ?fe) (enr_company ?fe) s = (r1, s1)"
    by fastforce
  have checks: "to_run \<noteq> enr_run ?fe" "force \<or> enr_active ?fe \<and> is_not_beyond_enrollment now (row (course_runs s) to_run) \<and>
      run_course (row (course_runs s) (enr_run ?fe)) = run_course (row (course_runs s) to_run)"
    and rest: "(case r1 of Inl e \<Rightarrow> (Inl e, s1) | Inr (es, _) \<Rightarrow>
        bindp (if es \<noteq> [] then deactivate_run_enrollment sv k (Some Deferred) keep else ret (Some k))
          (\<lambda>from_enrollment. ret (from_enrollment, first_or_none es)) s1) = (Inr (from', to'), s')"
    using assms(2) found to c
    by (auto simp: defer_enrollment_def bindp_run split: if_splits sum.splits prod.splits)
  from rest create_run_enrollments_cases [OF assms(1) c] obtain t success where r1: "r1 = Inr ([t], success)"
    and t: "t \<in> set (pks (run_enrollments s1))" "enrolled_in user to_run (enr_order ?fe) (row (run_enrollments s1) t)"
    and other: "\<forall>j. j \<noteq> t \<longrightarrow> row (run_enrollments s1) j = row (run_enrollments s) j"
    by (auto simp: list_all2_Cons1)
  have "enrollment_key (row (run_enrollments s1) k) = enrollment_key ?fe"
    using create_run_enrollments_cases [OF assms(1) c] k(1) r1 by auto
  with checks(1) t(2) have neq: "t \<noteq> k"
    by (auto simp: enrolled_in_def enrollment_key_def)
  obtain r2 s2 where d: "deactivate_run_enrollment sv k (Some Deferred) keep s1 = (r2, s2)" by fastforce
  from rest r1 d have out: "s' = s2" "r2 = Inr from'" "to' = Some t"
    by (auto simp: bindp_run first_or_none_def split: sum.splits)
  from deactivate_run_cases [OF d] out(2) have "case from' of
       Some j \<Rightarrow> j = k \<and> \<not> enr_active (row (run_enrollments s2) k) \<and>
         enr_change_status (row (run_enrollments s2) k) = Some Deferred
     | None \<Rightarrow> \<not> keep \<and> row (run_enrollments s2) k = row (run_enrollments s) k"
    using other neq by (auto split: option.splits)
  moreover have "enrolled_in user to_run (enr_order ?fe) (row (run_enrollments s2) t)"
    using deactivate_run_cases [OF d] neq t(2) by auto
  ultimately show ?thesis
    using k to_id checks out(1,3) by blast
qed

lemma example_ok: "run_enrollments_ok example_shop"
  by (simp add: run_enrollments_ok_def unique_on_def example_tables) (simp add: table_of_def)

lemma open_service_simps: "sv_token_set open_service" "sv_deactivate open_service h c u = Reply ()"
  by (simp_all add: open_service_def)

lemma example_defer:
  "fst (defer_enrollment open_service False 7 1 ''c1-R1'' ''c1-R2'' False True example_shop) = Inr (Some 1, Some 2)"
proof -
  have enroll: "enroll_in_edx_course_runs open_service 1 [3] True example_shop =
      (Inr [(''c1-R2'', EDX_ENROLLMENT_PRO_MODE)],
       example_shop\<lparr>effects := [EdxCall ''create_student_enrollment'' [''c1-R2'', EDX_ENROLLMENT_PRO_MODE, ''ann'']]\<rparr>)"
    by (simp add: enroll_in_edx_course_runs_def get_edx_api_service_client_def enroll_in_edx_course_run_def
        create_student_enrollment_def open_service_def bindp_run thenp_run example_defs example_user_def)
  show ?thesis
    by (simp add: defer_enrollment_def bindp_run matching_def t_get_def the_only_def example_tables table_of_def
        example_run_enrollment_def example_run_def create_run_enrollments_def try_catch_def
        enroll [unfolded One_nat_def] enroll [unfolded One_nat_def numeral_3_eq_3] create_run_enrollment_def get_or_reactivate_run_enrollment_def db_get_or_create_run t_get_or_create_def
        t_create_def new_run_enrollment_def thenp_run send_course_run_enrollment_welcome_email_def
        deactivate_run_enrollment_def unenroll_edx_course_run_def get_edx_api_service_client_def open_service_simps
        send_course_run_unenrollment_email_def save_and_log_run_enrollment_run Let_def order_by_desc_def first_or_none_def)
qed

lemma defer_enrollment_spec_witness:
  "enr_change_status (row (run_enrollments (snd
     (defer_enrollment open_service False 7 1 ''c1-R1'' ''c1-R2'' False True example_shop))) 1) = Some Deferred"
proof -
  let ?d = "defer_enrollment open_service False 7 1 ''c1-R1'' ''c1-R2'' False True example_shop"
  have "?d = (Inr (Some 1, Some 2), snd ?d)"
    using example_defer by (simp add: prod_eq_iff)
  from defer_enrollment_spec [OF example_ok this] show ?thesis by auto
qed

section \<open>Programs\<close>

lemma deactivate_run_loop:
  assumes "collect_each ks (deactivate_and_collect sv cs keep) s = (r, s')"
  shows "\<exists>ds. r = Inr ds \<and> set (concat ds) \<subseteq> set ks \<and> (keep \<longrightarrow> set (concat ds) = set ks) \<and>
    (\<forall>j \<in> set (concat ds). \<not> enr_active (row (run_enrollments s') j) \<and>
       enr_change_status (row (run_enrollments s') j) = cs) \<and>
    (\<forall>j. j \<notin> set (concat ds) \<longrightarrow> row (run_enrollments s') j = row (run_enrollments s) j)"
  using assms
proof (induction ks arbitrary: s r s')
  case (Cons k ks)
  obtain r1 s1 where one: "deactivate_run_enrollment sv k cs keep s = (r1, s1)" by fastforce
  obtain r2 s2 where rest: "collect_each ks (deactivate_and_collect sv cs keep) s1 = (r2, s2)" by fastforce
  from Cons.IH [OF rest] obtain ds where ds: "r2 = Inr ds" "set (concat ds) \<subseteq> set ks" "keep \<longrightarrow> set (concat ds) = set ks"
    "\<forall>j \<in> set (concat ds). \<not> enr_active (row (run_enrollments s2) j) \<and> enr_change_status (row (run_enrollments s2) j) = cs"
    "\<forall>j. j \<notin> set (concat ds) \<longrightarrow> row (run_enrollments s2) j = row (run_enrollments s1) j" by blast
  let ?d = "case r1 of Inr (Some _) \<Rightarrow> [k] | _ \<Rightarrow> []"
  have body: "deactivate_and_collect sv cs keep k s = (Inr ?d, s1)"
    using deactivate_run_cases [OF one] by (auto simp: deactivate_and_collect_def bindp_run one)
  have r: "r = Inr (?d # ds)" "s' = s2"
    using Cons.prems rest [unfolded ds(1)] by (simp_all add: body)
  have "set (concat (?d # ds)) \<subseteq> set (k # ks)" "keep \<longrightarrow> set (concat (?d # ds)) = set (k # ks)"
    using deactivate_run_cases [OF one] ds(2,3) by auto
  moreover have "\<forall>j \<in> set (concat (?d # ds)). \<not> enr_active (row (run_enrollments s2) j) \<and>
      enr_change_status (row (run_enrollments s2) j) = cs"
    using deactivate_run_cases [OF one] ds(4,5) by (auto split: sum.splits option.splits) (metis UN_I set_concat)+
  moreover have "\<forall>j. j \<notin> set (concat (?d # ds)) \<longrightarrow> row (run_enrollments s2) j = row (run_enrollments s) j"
    using deactivate_run_cases [OF one] ds(5) by (auto split: sum.splits option.splits)
  ultimately show ?case unfolding r by blast
qed auto

text \<open>
  Deactivating a program enrollment never raises. It deactivates a part of the user's active run enrollments in
  the program (all of them when failures are kept) with the given status, reports exactly those, and
  deactivates the program enrollment if and only if there is at least one.
\<close>

theorem deactivate_program_enrollment_spec:
  assumes "deactivate_program_enrollment sv k cs keep limit_to_order s = (r, s')"
  shows "\<exists>ds. r = Inr (if ds = [] then None else Some (k, ds)) \<and>
    set ds \<subseteq> set (get_run_enrollments s k None) \<and>
    (\<forall>j \<in> set ds. \<not> enr_active (row (run_enrollments s') j) \<and> enr_change_status (row (run_enrollments s') j) = cs) \<and>
    (\<forall>j. j \<notin> set ds \<longrightarrow> row (run_enrollments s') j = row (run_enrollments s) j) \<and>
    (keep \<and> \<not> limit_to_order \<longrightarrow> set ds = set (get_run_enrollments s k None)) \<and>
    (ds \<noteq> [] \<longrightarrow> \<not> enr_active (row (program_enrollments s') k) \<and> enr_change_status (row (program_enrollments s') k) = cs)"
proof -
  let ?oid = "enr_order (row (program_enrollments s) k)"
  let ?lim = "if limit_to_order \<and> ?oid \<noteq> None \<and> ?oid \<noteq> Some 0 then ?oid else None"
  obtain r1 s1 where c: "collect_each (get_run_enrollments s k ?lim) (deactivate_and_collect sv cs keep) s = (r1, s1)" by fastforce
  from deactivate_run_loop [OF c] obtain ds D where ds: "r1 = Inr ds" and D: "concat ds = D"
    "set D \<subseteq> set (get_run_enrollments s k ?lim)" "keep \<longrightarrow> set D = set (get_run_enrollments s k ?lim)"
    "\<forall>j \<in> set D. \<not> enr_active (row (run_enrollments s1) j) \<and> enr_change_status (row (run_enrollments s1) j) = cs"
    "\<forall>j. j \<notin> set D \<longrightarrow> row (run_enrollments s1) j = row (run_enrollments s) j" by blast
  have sub: "set (get_run_enrollments s k oid) \<subseteq> set (get_run_enrollments s k None)" for oid
    by (auto simp: get_run_enrollments_def get_program_run_enrollments_def active_run_enrollments_def Let_def)
  have "(r, s') = (if D = [] then (Inr None, s1)
      else thenp (deactivate_and_save_program k cs True) (ret (Some (k, D))) s1)"
    using assms c [unfolded ds] unfolding deactivate_program_enrollment_def
    by (simp add: bindp_run Let_def D(1) del: concat_eq_Nil_conv split: if_splits)
  then have "r = Inr (if D = [] then None else Some (k, D)) \<and> run_enrollments s' = run_enrollments s1 \<and>
      (D \<noteq> [] \<longrightarrow> \<not> enr_active (row (program_enrollments s') k) \<and> enr_change_status (row (program_enrollments s') k) = cs)"
    by (auto simp: deactivate_and_save_program_def bindp_run thenp_run save_and_log_program_enrollment_run Let_def deactivated_def
        split: if_splits)
  with D(2-5) sub [of ?lim] show ?thesis by (intro exI [of _ D]) auto
qed

lemma deactivate_program_enrollment_spec_witness:
  "fst (deactivate_program_enrollment closed_service 1 (Some Refunded) False True
     (example_shop\<lparr>run_enrollments := empty_table example_run_enrollment\<rparr>)) = Inr None"
proof -
  let ?p = "deactivate_program_enrollment closed_service 1 (Some Refunded) False True
     (example_shop\<lparr>run_enrollments := empty_table example_run_enrollment\<rparr>)"
  let ?s = "example_shop\<lparr>run_enrollments := empty_table example_run_enrollment\<rparr>"
  from deactivate_program_enrollment_spec [OF prod.collapse [symmetric],
      where sv = closed_service and k = 1 and cs = "Some Refunded" and keep = False and limit_to_order = True and s = ?s]
  obtain ds where ds: "fst ?p = Inr (if ds = [] then None else Some (1, ds))" "set ds \<subseteq> set (get_run_enrollments ?s 1 None)"
    by blast
  moreover have "get_run_enrollments ?s 1 None = []"
    by (simp add: get_run_enrollments_def get_program_run_enrollments_def active_run_enrollments_def matching_def
        empty_table_def Let_def)
  ultimately show ?thesis by simp
qed

section \<open>Overview\<close>

lemma mset_filter_split: "mset (filter P xs) + mset (filter (\<lambda>x. \<not> P x) xs) = mset xs"
  by (simp add: multiset_partition [symmetric])

text \<open>
  The overview shows every active enrollment of the user exactly once: each active program enrollment is
  among the current or the past programs, and each active run enrollment is among the runs of
  these programs, the other current runs or the other past runs.
\<close>

theorem get_user_enrollments_complete:
  "mset (ue_programs (get_user_enrollments now s user) @ ue_past_programs (get_user_enrollments now s user)) =
     mset (active_program_enrollments s (\<lambda>e. enr_user e = user)) \<and>
   mset (ue_program_runs (get_user_enrollments now s user) @ ue_non_program_runs (get_user_enrollments now s user) @
       ue_past_non_program_runs (get_user_enrollments now s user)) =
     mset (active_run_enrollments s (\<lambda>e. enr_user e = user))"
proof -
  let ?P = "\<lambda>k. run_course (row (course_runs s) (enr_run (row (run_enrollments s) k))) \<in>
    set (concat (map (\<lambda>k. program_courses s (enr_program (row (program_enrollments s) k)))
      (active_program_enrollments s (\<lambda>e. enr_user e = user))))"
  let ?xs = "sort_key (start_date_key s) (active_run_enrollments s (\<lambda>e. enr_user e = user))"
  let ?ys = "filter (\<lambda>x. \<not> ?P x) ?xs"
  have "mset (filter ?P ?xs) + (mset (filter (\<lambda>x. \<not> run_enrollment_is_ended now s x) ?ys) +
      mset (filter (run_enrollment_is_ended now s) ?ys)) = mset (active_run_enrollments s (\<lambda>e. enr_user e = user))"
    using mset_filter_split [of "run_enrollment_is_ended now s" ?ys] mset_filter_split [of ?P ?xs]
    by (simp add: add.commute)
  moreover have "mset (filter (\<lambda>x. \<not> program_enrollment_is_ended now s x) (active_program_enrollments s (\<lambda>e. enr_user e = user))) +
      mset (filter (program_enrollment_is_ended now s) (active_program_enrollments s (\<lambda>e. enr_user e = user))) =
      mset (active_program_enrollments s (\<lambda>e. enr_user e = user))"
    using mset_filter_split by (simp add: add.commute)
  ultimately show ?thesis
    by (simp add: get_user_enrollments_def Let_def)
qed

end
