(* ===== verification/Basket.thy ===== *)
theory Basket
  imports Enrollments Coupons Cybersource
begin

text \<open>
  Baskets at check-out, from \<open>ecommerce/api.py\<close>: the products a query string or a text id names, the
  validation of a basket with its runs, coupon and data consents, and the deletion of baskets.
  The validation only reads the database, except that it creates the consents still to be given.
\<close>

section \<open>Products by id\<close>

text \<open>
  \<open>re.match(PROGRAM_RUN_ID_PATTERN, text_id)\<close>: the program's text id and the run tag. The pattern's dot
  does not match a line break, and its dollar sign also matches before a final one.
\<close>

definition program_run_id_match :: "string \<Rightarrow> (string \<times> string) option" where
  "program_run_id_match text_id =
     (let t = (if text_id \<noteq> [] \<and> last text_id = CHR 0x0A then butlast text_id else text_id);
          run_tag = rev (takeWhile (\<lambda>c. c \<noteq> CHR ''+'') (rev t));
          text_id_base = take (length t - length run_tag - 1) t
      in if CHR 0x0A \<notin> set t \<and> CHR ''+'' \<in> set t \<and> starts_with text_id_base ''program-'' \<and>
            take 1 run_tag = ''R'' \<and> is_digit_string (drop 1 run_tag)
         then Some (text_id_base, run_tag) else None)"

definition is_program_text_id :: "string \<Rightarrow> bool" where
  "is_program_text_id item_text_id \<longleftrightarrow> starts_with item_text_id ''program-''"

text \<open>\<open>product.content_object\<close>\<close>

definition content_object :: "'z shop_db_scheme \<Rightarrow> content \<Rightarrow> content option" where
  "content_object s c = (if content_missing s c then None else Some c)"

text \<open>
  The rows of the query for a program with a run: programs joined with their runs, where a program
  without runs has one row without a run tag.
\<close>

definition program_run_rows :: "'z shop_db_scheme \<Rightarrow> string \<Rightarrow> string \<Rightarrow> string \<Rightarrow> (nat \<times> string option) list" where
  "program_run_rows s text_id_base run_tag text_id =
     concat (map (\<lambda>p.
       let runs = matching (program_runs s) (\<lambda>_ r. prun_program r = p);
           tags = (if runs = [] then [None] else map (\<lambda>r. Some (prun_run_tag (row (program_runs s) r))) runs);
           readable_id = prog_readable_id (row (programs s) p)
       in filter (\<lambda>(_, t). (readable_id = text_id_base \<and> t = Some run_tag) \<or> readable_id = text_id) (map (Pair p) tags))
       (pks (programs s)))"

text \<open>\<open>order_by("-programruns__run_tag")\<close>: the rows without a run tag come first.\<close>

definition order_by_run_tag_desc :: "(nat \<times> string option) list \<Rightarrow> (nat \<times> string option) list" where
  "order_by_run_tag_desc rs =
     rev (sort_key (\<lambda>(_, t). case t of None \<Rightarrow> (True, []) | Some t \<Rightarrow> (False, t)) (rev rs))"

definition product_of_content :: "'z shop_db_scheme \<Rightarrow> content \<Rightarrow> exn + nat" where
  "product_of_content s c =
     (case first_or_none (active_products s (\<lambda>p. prod_content p = c)) of
        None \<Rightarrow> Inl (DoesNotExist ''Product'') | Some product \<Rightarrow> Inr product)"

definition get_product_from_text_id ::
  "'z shop_db_scheme \<Rightarrow> string \<Rightarrow> exn + nat \<times> content option \<times> nat option" where
  "get_product_from_text_id s text_id =
     (case program_run_id_match text_id of
        Some (text_id_base, run_tag) \<Rightarrow>
          (case first_of (order_by_run_tag_desc (program_run_rows s text_id_base run_tag text_id)) of
             None \<Rightarrow> Inl (DoesNotExist ''Program'')
           | Some (program, _) \<Rightarrow>
               (case product_of_content s (ProgramContent program) of
                  Inl e \<Rightarrow> Inl e
                | Inr product \<Rightarrow>
                    Inr (product, Some (ProgramContent program),
                         t_first (program_runs s) (\<lambda>_ r. prun_program r = program \<and> prun_run_tag r = run_tag))))
      | None \<Rightarrow>
          (case (if is_program_text_id text_id
                 then (case t_first (programs s) (\<lambda>_ p. prog_readable_id p = text_id) of
                         None \<Rightarrow> Inl (DoesNotExist ''Program'') | Some k \<Rightarrow> Inr (ProgramContent k))
                 else (case t_first (course_runs s) (\<lambda>_ r. run_courseware_id r = text_id) of
                         None \<Rightarrow> Inl (DoesNotExist ''CourseRun'') | Some k \<Rightarrow> Inr (CourseRunContent k))) of
             Inl e \<Rightarrow> Inl e
           | Inr c \<Rightarrow>
               (case product_of_content s c of
                  Inl e \<Rightarrow> Inl e | Inr product \<Rightarrow> Inr (product, Some c, None))))"

text \<open>A product id of a query string or of a request body: a number or a text.\<close>

datatype product_ref = NumericId int | TextId string

definition product_by_number :: "'z shop_db_scheme \<Rightarrow> int \<Rightarrow> exn + nat \<times> content option \<times> nat option" where
  "product_by_number s n =
     (case t_get ''Product'' (products s) (\<lambda>k p. prod_is_active p \<and> int k = n) of
        Inl e \<Rightarrow> Inl e
      | Inr product \<Rightarrow> Inr (product, content_object s (prod_content (row (products s) product)), None))"

definition get_product_from_querystring_id ::
  "'z shop_db_scheme \<Rightarrow> product_ref \<Rightarrow> exn + nat \<times> content option \<times> nat option" where
  "get_product_from_querystring_id s qs_product_id =
     (case qs_product_id of
        NumericId n \<Rightarrow> product_by_number s n
      | TextId t \<Rightarrow>
          if is_digit_string t
          then (case py_int t of Inl e \<Rightarrow> Inl e | Inr n \<Rightarrow> product_by_number s n)
          else get_product_from_text_id s (map (\<lambda>c. if c = CHR '' '' then CHR ''+'' else c) t))"

section \<open>Validation\<close>

definition items_of :: "'z shop_db_scheme \<Rightarrow> nat \<Rightarrow> nat list" where
  "items_of s basket = matching (basket_items s) (\<lambda>_ i. bi_basket i = basket)"

definition run_selections_of :: "'z shop_db_scheme \<Rightarrow> nat \<Rightarrow> nat list" where
  "run_selections_of s basket = matching (course_run_selections s) (\<lambda>_ c. crs_basket c = basket)"

definition coupon_selections_of :: "'z shop_db_scheme \<Rightarrow> nat \<Rightarrow> nat list" where
  "coupon_selections_of s basket = matching (coupon_selections s) (\<lambda>_ c. csel_basket c = basket)"

definition content_live :: "'z shop_db_scheme \<Rightarrow> content \<Rightarrow> exn + bool" where
  "content_live s c =
     (if content_missing s c then Inl (AttributeError ''live'')
      else case c of
             CourseRunContent k \<Rightarrow> Inr (run_live (row (course_runs s) k))
           | ProgramContent k \<Rightarrow> Inr (prog_live (row (programs s) k))
           | CourseContent k \<Rightarrow> Inr (course_live (row (courses s) k))
           | OtherContent _ _ \<Rightarrow> Inl (AttributeError ''live''))"

text \<open>The refusal of a product that is not live; the log line reads the text id of its content.\<close>

definition not_purchasable :: "'z shop_db_scheme \<Rightarrow> content \<Rightarrow> exn" where
  "not_purchasable s c =
     (if content_missing s c then AttributeError ''text_id''
      else case content_text_id s c of
             Inl e \<Rightarrow> e
           | Inr _ \<Rightarrow> ValidationError ''items'' ''This item cannot be purchased. Please contact support.'')"

definition validate_basket_contents :: "'z shop_db_scheme \<Rightarrow> nat \<Rightarrow> exn + nat \<times> nat \<times> nat option" where
  "validate_basket_contents s basket =
     (case items_of s basket of
        [] \<Rightarrow> Inl (ValidationError ''items'' ''No items in basket. Cannot complete checkout.'')
      | [basket_item] \<Rightarrow>
          (let product = bi_product (row (basket_items s) basket_item);
               p = row (products s) product
           in if \<not> prod_is_active p then Inl (not_purchasable s (prod_content p))
              else case content_live s (prod_content p) of
                     Inl e \<Rightarrow> Inl e
                   | Inr live \<Rightarrow>
                       if \<not> live then Inl (not_purchasable s (prod_content p))
                       else Inr (basket_item, product, latest_product_version s product))
      | _ \<Rightarrow> Inl (ValidationError ''items''
               ''Something went wrong with the items being purchased. Please contact support.''))"

definition valid_course_ids :: "'z shop_db_scheme \<Rightarrow> content \<Rightarrow> exn + nat list" where
  "valid_course_ids s c =
     (case c of
        ProgramContent k \<Rightarrow> Inr (remdups (filter (\<lambda>j. course_live (row (courses s) j)) (program_courses s k)))
      | CourseRunContent k \<Rightarrow> Inr [run_course (row (course_runs s) k)]
      | _ \<Rightarrow> Inl (AttributeError ''course_id''))"

definition validate_basket_run_selections ::
  "int \<Rightarrow> 'z shop_db_scheme \<Rightarrow> nat \<Rightarrow> content \<Rightarrow> exn + nat list" where
  "validate_basket_run_selections now s basket c =
     (let sels = map (\<lambda>k. crs_run (row (course_run_selections s) k)) (run_selections_of s basket);
          run_of = row (course_runs s)
      in if sels = [] then Inl (ValidationError ''runs'' ''You must select a date for each course.'')
         else case valid_course_ids s c of
           Inl e \<Rightarrow> Inl e
         | Inr ids \<Rightarrow>
             if length sels < length ids
             then Inl (ValidationError ''runs'' ''You must select a date for each course.'')
             else if length sels > length ids \<or> \<not> list_all (\<lambda>r. run_course (run_of r) \<in> set ids) sels
             then Inl (ValidationError ''runs'' ''Some invalid courses were selected.'')
             else case first_of (filter (\<lambda>r. \<not> is_unexpired now (run_of r)) sels) of
               Some r \<Rightarrow>
                 Inl (ValidationError ''runs'' (''Course '' @ [CHR 0x27] @ run_title (run_of r) @ [CHR 0x27] @
                        '' is not accepting enrollments.''))
             | None \<Rightarrow>
                 if active_run_enrollments s
                      (\<lambda>e. enr_user e = basket_user (row (baskets s) basket) \<and> enr_run e \<in> set sels) \<noteq> []
                 then Inl (ValidationError ''runs'' ''You are already enrolled in one or more of these courses.'')
                 else Inr (remdups sels))"

definition validate_coupon_selection :: "int \<Rightarrow> 'z shop_db_scheme \<Rightarrow> nat \<Rightarrow> nat \<Rightarrow> exn + nat option" where
  "validate_coupon_selection now s basket product =
     (case coupon_selections_of s basket of
        [] \<Rightarrow> Inr None
      | [coupon_selection] \<Rightarrow>
          (case first_or_none (get_valid_coupon_versions now s (Some product) (basket_user (row (baskets s) basket)) False
                   (Some (coupon_code (row (coupons s) (csel_coupon (row (coupon_selections s) coupon_selection)))))
                   False None) of
             None \<Rightarrow> Inl (ValidationError ''coupons'' ''Coupon is not valid for product.'')
           | Some v \<Rightarrow> Inr (Some v))
      | _ \<Rightarrow> Inl (ValidationError ''coupons''
               ''Something went wrong with your coupon. Please clear it and try again.''))"

section \<open>Data consents\<close>

text \<open>
  The courses of a product: a missing course object is still a list entry, a product of another type has
  no list at all.
\<close>

definition get_product_courses :: "'z shop_db_scheme \<Rightarrow> nat \<Rightarrow> exn + nat option list option" where
  "get_product_courses s product =
     (let c = prod_content (row (products s) product)
      in case c of
           CourseRunContent k \<Rightarrow>
             if content_missing s c then Inl (AttributeError ''course'')
             else Inr (Some [Some (run_course (row (course_runs s) k))])
         | CourseContent k \<Rightarrow> Inr (Some [if content_missing s c then None else Some k])
         | ProgramContent k \<Rightarrow>
             if content_missing s c then Inl (AttributeError ''courses'')
             else Inr (Some (map Some (sort_key (\<lambda>j. case course_position_in_program (row (courses s) j) of
                          None \<Rightarrow> (True, 0) | Some p \<Rightarrow> (False, p))
                        (matching (courses s) (\<lambda>_ r. course_program r = Some k)))))
         | OtherContent _ _ \<Rightarrow> Inr None)"

definition basket_courses :: "'z shop_db_scheme \<Rightarrow> nat \<Rightarrow> exn + nat option list" where
  "basket_courses s basket =
     (case sequence (map (\<lambda>i. get_product_courses s (bi_product (row (basket_items s) i))) (items_of s basket)) of
        Inl e \<Rightarrow> Inl e
      | Inr courselists \<Rightarrow>
          if None \<in> set courselists then Inl (TypeErr ''NoneType'') else Inr (concat (map the courselists)))"

definition consent_agreements :: "'z shop_db_scheme \<Rightarrow> nat \<Rightarrow> nat option list \<Rightarrow> nat list" where
  "consent_agreements s company course_list =
     (let agreements = matching (data_consent_agreements s)
            (\<lambda>_ a. dca_company a = company \<and> list_ex (\<lambda>c. Some c \<in> set course_list) (dca_courses a));
          global_agreement = matching (data_consent_agreements s) (\<lambda>_ a. dca_company a = company \<and> dca_is_global a)
      in if agreements \<noteq> [] then agreements
         else if length global_agreement > 1 then [] else global_agreement)"

definition get_or_create_consent :: "nat \<Rightarrow> nat \<Rightarrow> nat \<Rightarrow> ('z shop_db_scheme, nat) prog" where
  "get_or_create_consent user coupon agreement =
     bindp (db_get_or_create ''DataConsentUser'' data_consent_users data_consent_users_update
         (\<lambda>_ d. dcu_user d = user \<and> dcu_agreement d = agreement \<and> dcu_coupon d = coupon)
         \<lparr>dcu_user = user, dcu_agreement = agreement, dcu_coupon = coupon, dcu_consent_date = None\<rparr>)
       (\<lambda>(k, _). ret k)"

definition consents_of_selection ::
  "nat \<Rightarrow> nat option list \<Rightarrow> nat \<Rightarrow> ('z shop_db_scheme, nat list) prog" where
  "consents_of_selection user course_list coupon_selection =
     bindp (asks (\<lambda>s. csel_coupon (row (coupon_selections s) coupon_selection))) (\<lambda>coupon.
     bindp (asks (\<lambda>s. latest_coupon_version s coupon)) (\<lambda>version.
     case version of
       None \<Rightarrow> raise (AttributeError ''payment_version'')
     | Some v \<Rightarrow>
         bindp (asks (\<lambda>s. cpv_company (payment_version_of s (row (coupon_versions s) v)))) (\<lambda>company.
         case company of
           None \<Rightarrow> ret []
         | Some c \<Rightarrow>
             bindp (asks (\<lambda>s. consent_agreements s c course_list)) (\<lambda>agreements.
             collect_each agreements (get_or_create_consent user coupon)))))"

definition get_or_create_data_consent_users :: "nat \<Rightarrow> ('z shop_db_scheme, nat list) prog" where
  "get_or_create_data_consent_users basket =
     bindp (asks (\<lambda>s. (coupon_selections_of s basket, basket_courses s basket, basket_user (row (baskets s) basket))))
       (\<lambda>(selections, courses_result, user).
     if selections = [] then ret []
     else bindp (lift_result courses_result) (\<lambda>course_list.
          bindp (collect_each selections (consents_of_selection user course_list)) (\<lambda>data_consents.
          ret (concat data_consents))))"

section \<open>The basket at check-out\<close>

record validated_basket =
  vb_basket :: nat
  vb_basket_item :: nat
  vb_product_version :: nat
  vb_coupon_version :: "nat option"
  vb_run_selection_ids :: "nat list"
  vb_data_consent_users :: "nat list"

definition validate_basket_for_checkout :: "int \<Rightarrow> nat \<Rightarrow> ('z shop_db_scheme, validated_basket) prog" where
  "validate_basket_for_checkout now user =
     bindp (db_get ''Basket'' baskets (\<lambda>_ b. basket_user b = user)) (\<lambda>basket.
     bindp (asks (\<lambda>s. validate_basket_contents s basket)) (\<lambda>contents.
     bindp (lift_result contents) (\<lambda>(basket_item, product, product_version).
     bindp (asks (\<lambda>s. validate_basket_run_selections now s basket (prod_content (row (products s) product)))) (\<lambda>sel.
     bindp (lift_result sel) (\<lambda>selected_course_run_ids.
     bindp (asks (\<lambda>s. validate_coupon_selection now s basket product)) (\<lambda>coupon.
     bindp (lift_result coupon) (\<lambda>coupon_version.
     case product_version of
       None \<Rightarrow> raise (AttributeError ''requires_enrollment_code'')
     | Some pv \<Rightarrow>
         bindp (asks (\<lambda>s. pv_requires_enrollment_code (row (product_versions s) pv))) (\<lambda>code_required.
         if code_required \<and> coupon_version = None
         then raise (ValidationError ''coupons'' ''Enrollment Code is required'')
         else
           bindp (get_or_create_data_consent_users basket) (\<lambda>data_consent_users'.
           bindp (asks (\<lambda>s. list_ex (\<lambda>d. dcu_consent_date (row (data_consent_users s) d) = None)
                              data_consent_users')) (\<lambda>consent_missing.
           if consent_missing
           then raise (ValidationError ''data_consents'' ''The data consent agreement has not yet been signed.'')
           else ret \<lparr>vb_basket = basket, vb_basket_item = basket_item, vb_product_version = pv,
                     vb_coupon_version = coupon_version, vb_run_selection_ids = selected_course_run_ids,
                     vb_data_consent_users = data_consent_users'\<rparr>))))))))))"

section \<open>Deleting baskets\<close>

definition delete_basket :: "nat \<Rightarrow> ('z shop_db_scheme, unit) prog" where
  "delete_basket basket =
     atomic
       (thenp (db_delete basket_items basket_items_update (\<lambda>_ i. bi_basket i = basket))
       (thenp (db_delete course_run_selections course_run_selections_update (\<lambda>_ c. crs_basket c = basket))
       (thenp (db_delete coupon_selections coupon_selections_update (\<lambda>_ c. csel_basket c = basket))
          (db_delete baskets baskets_update (\<lambda>k _. k = basket)))))"

definition clear_and_delete_baskets :: "int \<Rightarrow> int \<Rightarrow> nat option \<Rightarrow> ('z shop_db_scheme, unit) prog" where
  "clear_and_delete_baskets expiry_days now user =
     (let cutoff_date = now - expiry_days * 86400
      in atomic
           (bindp (asks (\<lambda>s. matching (baskets s) (\<lambda>_ b. case user of
                      Some u \<Rightarrow> basket_user b = u | None \<Rightarrow> basket_updated_on b \<le> cutoff_date)))
              (\<lambda>ks. for_each ks delete_basket)))"

section \<open>What validation guarantees\<close>

lemma consents_keep_rest:
  assumes "get_or_create_data_consent_users basket s = (r, s')"
  shows "s' = s\<lparr>data_consent_users := data_consent_users s'\<rparr>"
proof -
  let ?I = "\<lambda>t. \<exists>d. t = s\<lparr>data_consent_users := d\<rparr>"
  have one: "keeps ?I (get_or_create_consent u c a)" for u c a
    unfolding get_or_create_consent_def
    by (intro keeps_intros keepsI) (auto simp: db_get_or_create_run)
  have "keeps ?I (get_or_create_data_consent_users basket)"
    unfolding get_or_create_data_consent_users_def consents_of_selection_def
    by (intro keeps_intros one)
  moreover have "?I s" by (rule exI [of _ "data_consent_users s"]) simp
  ultimately have "?I s'" using keepsD [where I = ?I] assms by blast
  then show ?thesis by auto
qed

lemma validate_basket_contents_InrD:
  assumes "validate_basket_contents s basket = Inr (item, product, pv)"
  shows "items_of s basket = [item] \<and> product = bi_product (row (basket_items s) item) \<and>
    prod_is_active (row (products s) product) \<and> content_live s (prod_content (row (products s) product)) = Inr True \<and>
    pv = latest_product_version s product"
  using assms by (auto simp: validate_basket_contents_def Let_def split: list.splits if_splits sum.splits)

lemma validate_basket_run_selections_InrD:
  assumes "validate_basket_run_selections now s basket c = Inr ids"
  shows "set ids = (\<lambda>k. crs_run (row (course_run_selections s) k)) ` set (run_selections_of s basket)"
    and "distinct ids" and "run_selections_of s basket \<noteq> []"
    and "\<forall>r \<in> set ids. is_unexpired now (row (course_runs s) r)"
    and "\<forall>r \<in> set ids. active_run_enrollments s
           (\<lambda>e. enr_user e = basket_user (row (baskets s) basket) \<and> enr_run e = r) = []"
    and "\<exists>cs. valid_course_ids s c = Inr cs \<and> length (run_selections_of s basket) = length cs \<and>
           (\<lambda>r. run_course (row (course_runs s) r)) ` set ids \<subseteq> set cs"
  using assms
  by (auto simp: validate_basket_run_selections_def Let_def filter_empty_conv list_all_iff active_run_enrollments_def
        matching_def split: sum.splits if_splits option.splits)

lemma validate_coupon_selection_InrD:
  assumes "validate_coupon_selection now s basket product = Inr cv"
  shows "case coupon_selections_of s basket of
      [] \<Rightarrow> cv = None
    | [c] \<Rightarrow> \<exists>v. cv = Some v \<and> v \<in> set (get_valid_coupon_versions now s (Some product) (basket_user (row (baskets s) basket))
          False (Some (coupon_code (row (coupons s) (csel_coupon (row (coupon_selections s) c))))) False None)
    | _ \<Rightarrow> False"
  using assms
  by (auto simp: validate_coupon_selection_def first_or_none_def split: list.splits option.splits)
     (metis first_of_in_set)


text \<open>
  Which consents a basket needs: for each selected coupon whose latest version belongs to a company, the agreements of the
  company that cover a course of the basket, or else its only global agreement.
\<close>

definition covers_basket :: "'z shop_db_scheme \<Rightarrow> nat \<Rightarrow> nat \<Rightarrow> nat \<Rightarrow> bool" where
  "covers_basket s basket company a \<longleftrightarrow>
     a \<in> set (pks (data_consent_agreements s)) \<and> dca_company (row (data_consent_agreements s) a) = company \<and>
     (\<exists>c cs. c \<in> set (dca_courses (row (data_consent_agreements s) a)) \<and> basket_courses s basket = Inr cs \<and> Some c \<in> set cs)"

definition needs_consent :: "'z shop_db_scheme \<Rightarrow> nat \<Rightarrow> nat \<Rightarrow> nat \<Rightarrow> bool" where
  "needs_consent s basket coupon a \<longleftrightarrow>
     (\<exists>k v company. k \<in> set (coupon_selections_of s basket) \<and> csel_coupon (row (coupon_selections s) k) = coupon \<and>
        latest_coupon_version s coupon = Some v \<and> cpv_company (payment_version_of s (row (coupon_versions s) v)) = Some company \<and>
        (covers_basket s basket company a \<or>
         (\<forall>b. \<not> covers_basket s basket company b) \<and>
           matching (data_consent_agreements s) (\<lambda>_ x. dca_company x = company \<and> dca_is_global x) = [a]))"

definition consent_given :: "'z shop_db_scheme \<Rightarrow> nat \<Rightarrow> nat \<Rightarrow> nat \<Rightarrow> nat \<Rightarrow> bool" where
  "consent_given s user coupon a d \<longleftrightarrow>
     d \<in> set (pks (data_consent_users s)) \<and> dcu_user (row (data_consent_users s) d) = user \<and>
     dcu_coupon (row (data_consent_users s) d) = coupon \<and> dcu_agreement (row (data_consent_users s) d) = a"

text \<open>A consent that had to be stored first is missing, and stays so.\<close>

definition consent_missing :: "nat \<Rightarrow> 'z shop_db_scheme \<Rightarrow> bool" where
  "consent_missing d s \<longleftrightarrow> dcu_consent_date (row (data_consent_users s) d) = None \<and> d < next_pk (data_consent_users s)"

lemma keeps_consent_missing: "keeps (consent_missing d) (get_or_create_consent user coupon a)"
  unfolding get_or_create_consent_def
  by (intro keeps_intros keepsI)
     (auto simp: db_get_or_create_run t_get_or_create_def consent_missing_def case_prod_unfold row_t_create split: list.splits)

lemma get_or_create_consent_cases:
  assumes "get_or_create_consent user coupon a s = (Inr d, s')"
  shows "s' = s \<and> consent_given s user coupon a d \<or> consent_missing d s'"
proof -
  let ?P = "\<lambda>_ d. dcu_user d = user \<and> dcu_agreement d = a \<and> dcu_coupon d = coupon"
  consider (none) "matching (data_consent_users s) ?P = []" | (one) k where "matching (data_consent_users s) ?P = [k]"
    | (many) j k ks where "matching (data_consent_users s) ?P = j # k # ks"
    by (cases "matching (data_consent_users s) ?P" rule: remdups_adj.cases) auto
  then show ?thesis
  proof cases
    case one
    have "k \<in> {k \<in> set (pks (data_consent_users s)). ?P k (row (data_consent_users s) k)}"
      using arg_cong [OF one, of set] by auto
    with assms one show ?thesis
      by (auto simp: get_or_create_consent_def bindp_run db_get_or_create_run t_get_or_create_def consent_given_def)
  qed (use assms in \<open>auto simp: get_or_create_consent_def bindp_run db_get_or_create_run t_get_or_create_def consent_missing_def
      case_prod_unfold row_t_create\<close>)
qed

lemma collect_each_unless:
  assumes "\<And>x t d t'. f x t = (Inr d, t') \<Longrightarrow> t' = t \<and> R x t d \<or> (\<exists>j \<in> ids d. M j t')"
    and "\<And>x j. keeps (M j) (f x)"
    and "collect_each xs f t = (Inr ds, t')"
  shows "t' = t \<and> list_all2 (\<lambda>x d. R x t d) xs ds \<or> (\<exists>d \<in> set ds. \<exists>j \<in> ids d. M j t')"
  using assms(3)
proof (induction xs arbitrary: t ds)
  case (Cons x xs)
  then obtain d t1 ds' where f: "f x t = (Inr d, t1)" and rest: "collect_each xs f t1 = (Inr ds', t')" and ds: "ds = d # ds'"
    by (auto elim!: bindp_InrE)
  from assms(1) [OF f] show ?case
  proof
    assume "\<exists>j \<in> ids d. M j t1"
    then obtain j where "j \<in> ids d" "M j t1" by blast
    moreover from this(2) have "M j t'"
      using keepsD [where I = "M j", OF keeps_collect_each [OF assms(2)] rest] by blast
    ultimately show ?thesis using ds by auto
  qed (use Cons.IH [OF rest] ds in auto)
qed simp

lemma consents_of_selection_cases:
  assumes "consents_of_selection user cs k s = (Inr ds, s')"
  shows "s' = s \<and> (\<exists>v. latest_coupon_version s (csel_coupon (row (coupon_selections s) k)) = Some v \<and>
      list_all2 (consent_given s user (csel_coupon (row (coupon_selections s) k)))
        (case cpv_company (payment_version_of s (row (coupon_versions s) v)) of None \<Rightarrow> [] | Some c \<Rightarrow> consent_agreements s c cs) ds) \<or>
    (\<exists>d \<in> set ds. consent_missing d s')"
proof -
  let ?coupon = "csel_coupon (row (coupon_selections s) k)"
  from assms obtain v where v: "latest_coupon_version s ?coupon = Some v"
    by (cases "latest_coupon_version s ?coupon") (auto simp: consents_of_selection_def bindp_run)
  show ?thesis
  proof (cases "cpv_company (payment_version_of s (row (coupon_versions s) v))")
    case None
    with assms v show ?thesis by (auto simp: consents_of_selection_def bindp_run)
  next
    case (Some c)
    with assms v have "collect_each (consent_agreements s c cs) (get_or_create_consent user ?coupon) s = (Inr ds, s')"
      by (simp add: consents_of_selection_def bindp_run)
    from collect_each_unless [where R = "\<lambda>a t. consent_given t user ?coupon a" and ids = "\<lambda>d. {d}" and M = consent_missing, OF _ _ this]
    have "s' = s \<and> list_all2 (consent_given s user ?coupon) (consent_agreements s c cs) ds \<or> (\<exists>d \<in> set ds. consent_missing d s')"
      using get_or_create_consent_cases keeps_consent_missing by fastforce
    then show ?thesis using v Some by auto
  qed
qed

lemma set_consent_agreements:
  assumes "basket_courses s basket = Inr cs"
  shows "a \<in> set (consent_agreements s company cs) \<longleftrightarrow> covers_basket s basket company a \<or>
    (\<forall>b. \<not> covers_basket s basket company b) \<and> matching (data_consent_agreements s) (\<lambda>_ x. dca_company x = company \<and> dca_is_global x) = [a]"
proof -
  define A where "A = matching (data_consent_agreements s) (\<lambda>_ a. dca_company a = company \<and> list_ex (\<lambda>c. Some c \<in> set cs) (dca_courses a))"
  define G where "G = matching (data_consent_agreements s) (\<lambda>_ x. dca_company x = company \<and> dca_is_global x)"
  have A: "b \<in> set A \<longleftrightarrow> covers_basket s basket company b" for b
    using assms by (auto simp: A_def covers_basket_def list_ex_iff)
  then have none: "A = [] \<longleftrightarrow> (\<forall>b. \<not> covers_basket s basket company b)"
    by (metis ex_in_conv set_empty)
  have "consent_agreements s company cs = (if A \<noteq> [] then A else if length G > 1 then [] else G)"
    by (simp add: consent_agreements_def Let_def A_def G_def)
  moreover have "G = [] \<or> (\<exists>b. G = [b]) \<or> 1 < length G"
    by (cases G rule: remdups_adj.cases) auto
  ultimately show ?thesis
    using A none unfolding G_def [symmetric] by auto
qed

definition selection_consents :: "'z shop_db_scheme \<Rightarrow> nat \<Rightarrow> nat option list \<Rightarrow> nat \<Rightarrow> nat list \<Rightarrow> bool" where
  "selection_consents s user cs k ds \<longleftrightarrow>
     (\<exists>v. latest_coupon_version s (csel_coupon (row (coupon_selections s) k)) = Some v \<and>
       list_all2 (consent_given s user (csel_coupon (row (coupon_selections s) k)))
         (case cpv_company (payment_version_of s (row (coupon_versions s) v)) of None \<Rightarrow> [] | Some c \<Rightarrow> consent_agreements s c cs) ds)"

lemma data_consents_loop:
  assumes "get_or_create_data_consent_users basket s = (Inr ds, s')" and sels: "coupon_selections_of s basket \<noteq> []"
    and given: "\<forall>d \<in> set ds. dcu_consent_date (row (data_consent_users s') d) \<noteq> None"
  shows "\<exists>cs dss. basket_courses s basket = Inr cs \<and> s' = s \<and> ds = concat dss \<and>
    list_all2 (selection_consents s (basket_user (row (baskets s) basket)) cs) (coupon_selections_of s basket) dss"
proof -
  let ?user = "basket_user (row (baskets s) basket)"
  from assms(1) sels obtain cs where cs: "basket_courses s basket = Inr cs"
    by (cases "basket_courses s basket") (auto simp: get_or_create_data_consent_users_def bindp_run)
  with assms(1) sels have "bindp (collect_each (coupon_selections_of s basket) (consents_of_selection ?user cs)) (\<lambda>dss. ret (concat dss)) s = (Inr ds, s')"
    by (simp add: get_or_create_data_consent_users_def bindp_run)
  then obtain dss where loop: "collect_each (coupon_selections_of s basket) (consents_of_selection ?user cs) s = (Inr dss, s')"
    and ds: "ds = concat dss"
    by (auto elim!: bindp_InrE)
  have keep: "keeps (consent_missing j) (consents_of_selection ?user cs k)" for j k
    unfolding consents_of_selection_def by (intro keeps_intros keeps_consent_missing)
  have "s' = s \<and> list_all2 (selection_consents s ?user cs) (coupon_selections_of s basket) dss \<or> (\<exists>l \<in> set dss. \<exists>j \<in> set l. consent_missing j s')"
    by (rule collect_each_unless [where R = "\<lambda>k t. selection_consents t ?user cs k", OF _ keep loop])
      (unfold selection_consents_def, rule consents_of_selection_cases)
  moreover have "\<not> consent_missing j s'" if "l \<in> set dss" "j \<in> set l" for l j
    using given ds that by (auto simp: consent_missing_def dest!: bspec)
  ultimately have "s' = s \<and> list_all2 (selection_consents s ?user cs) (coupon_selections_of s basket) dss"
    by blast
  with cs ds show ?thesis by blast
qed

lemma selection_consents_iff:
  fixes s :: "'z shop_db_scheme"
  defines "coupon \<equiv> \<lambda>k. csel_coupon (row (coupon_selections s) k)"
  assumes sel: "selection_consents s user cs k ds" and cs: "basket_courses s basket = Inr cs" and k: "k \<in> set (coupon_selections_of s basket)"
  shows "d \<in> set ds \<Longrightarrow> \<exists>a. needs_consent s basket (coupon k) a \<and> consent_given s user (coupon k) a d"
    and "latest_coupon_version s (coupon k) = Some v \<Longrightarrow>
      cpv_company (payment_version_of s (row (coupon_versions s) v)) = Some c \<Longrightarrow> a \<in> set (consent_agreements s c cs) \<Longrightarrow>
      \<exists>d \<in> set ds. consent_given s user (coupon k) a d"
proof -
  from sel obtain w where w: "latest_coupon_version s (coupon k) = Some w" and all: "list_all2 (consent_given s user (coupon k))
      (case cpv_company (payment_version_of s (row (coupon_versions s) w)) of None \<Rightarrow> [] | Some c \<Rightarrow> consent_agreements s c cs) ds"
    unfolding selection_consents_def coupon_def by blast
  show "\<exists>a. needs_consent s basket (coupon k) a \<and> consent_given s user (coupon k) a d" if d: "d \<in> set ds"
  proof (cases "cpv_company (payment_version_of s (row (coupon_versions s) w))")
    case None
    with all d show ?thesis by simp
  next
    case (Some c)
    with all d have "list_all2 (consent_given s user (coupon k)) (consent_agreements s c cs) ds" by simp
    with d obtain a where a: "a \<in> set (consent_agreements s c cs)" "consent_given s user (coupon k) a d"
      unfolding list_all2_conv_all_nth by (metis in_set_conv_nth)
    have "needs_consent s basket (coupon k) a"
      using a(1) w Some k unfolding needs_consent_def set_consent_agreements [OF cs] coupon_def by blast
    with a(2) show ?thesis by blast
  qed
  show "\<exists>d \<in> set ds. consent_given s user (coupon k) a d"
    if "latest_coupon_version s (coupon k) = Some v" "cpv_company (payment_version_of s (row (coupon_versions s) v)) = Some c"
      "a \<in> set (consent_agreements s c cs)"
  proof -
    from all w that have "list_all2 (consent_given s user (coupon k)) (consent_agreements s c cs) ds" by simp
    with that(3) show ?thesis unfolding list_all2_conv_all_nth by (metis in_set_conv_nth)
  qed
qed

lemma data_consents_cases:
  assumes run: "get_or_create_data_consent_users basket s = (Inr ds, s')"
    and given: "\<forall>d \<in> set ds. dcu_consent_date (row (data_consent_users s') d) \<noteq> None"
  shows "s' = s" and "needs_consent s basket coupon a \<Longrightarrow> \<exists>d \<in> set ds. consent_given s (basket_user (row (baskets s) basket)) coupon a d"
    and "d \<in> set ds \<Longrightarrow> \<exists>coupon a. needs_consent s basket coupon a \<and> consent_given s (basket_user (row (baskets s) basket)) coupon a d"
proof -
  let ?user = "basket_user (row (baskets s) basket)" and ?sels = "coupon_selections_of s basket"
  have "s' = s \<and> (\<forall>coupon a. needs_consent s basket coupon a \<longrightarrow> (\<exists>d \<in> set ds. consent_given s ?user coupon a d)) \<and>
      (\<forall>d \<in> set ds. \<exists>coupon a. needs_consent s basket coupon a \<and> consent_given s ?user coupon a d)"
  proof (cases "?sels = []")
    case True
    with run show ?thesis
      by (auto simp: get_or_create_data_consent_users_def bindp_run needs_consent_def)
  next
    case False
    from data_consents_loop [OF run False given] obtain cs dss where cs: "basket_courses s basket = Inr cs" and "s' = s"
      and ds: "ds = concat dss" and all: "list_all2 (selection_consents s ?user cs) ?sels dss" by blast
    moreover have "\<exists>d \<in> set ds. consent_given s ?user coupon a d" if n: "needs_consent s basket coupon a" for coupon a
    proof -
      from n obtain k v c where k: "k \<in> set ?sels" "csel_coupon (row (coupon_selections s) k) = coupon"
        "latest_coupon_version s coupon = Some v" "cpv_company (payment_version_of s (row (coupon_versions s) v)) = Some c"
        "a \<in> set (consent_agreements s c cs)"
        unfolding needs_consent_def set_consent_agreements [OF cs] by blast
      moreover from all k(1) obtain l where "l \<in> set dss" "selection_consents s ?user cs k l"
        by (metis in_set_conv_nth list_all2_conv_all_nth)
      ultimately show ?thesis
        using selection_consents_iff(2) [OF _ cs k(1), of ?user l v c a] ds by auto
    qed
    moreover have "\<exists>coupon a. needs_consent s basket coupon a \<and> consent_given s ?user coupon a d" if d: "d \<in> set ds" for d
    proof -
      from d ds obtain l where l: "l \<in> set dss" "d \<in> set l" by auto
      with all obtain k where "k \<in> set ?sels" "selection_consents s ?user cs k l"
        by (metis in_set_conv_nth list_all2_conv_all_nth)
      with selection_consents_iff(1) [OF _ cs] l(2) show ?thesis by blast
    qed
    ultimately show ?thesis by blast
  qed
  then show "s' = s" "needs_consent s basket coupon a \<Longrightarrow> \<exists>d \<in> set ds. consent_given s ?user coupon a d"
    "d \<in> set ds \<Longrightarrow> \<exists>coupon a. needs_consent s basket coupon a \<and> consent_given s ?user coupon a d"
    by blast+
qed

text \<open>
  C12: A basket that validation lets through is the user's basket and has exactly one item: an active product whose course run or
  program is live, at its latest version. The runs it answers with are exactly those selected in the basket; each is still open for enrollment
  and the user is enrolled in none of them. A selected coupon has been replaced by a version that is valid
  for this product, user and code, and a product that asks for an enrollment code has one. The consents it answers with are those of
  the user for exactly the agreements that the selected coupons and the courses of the basket ask for, and all of them have been
  given. Nothing has changed: a consent that has to be stored first is missing.
\<close>

theorem validate_basket_for_checkout_spec:
  assumes "validate_basket_for_checkout now user s = (Inr v, s')"
  shows "basket_user (row (baskets s) (vb_basket v)) = user \<and> items_of s (vb_basket v) = [vb_basket_item v] \<and>
    (let product = bi_product (row (basket_items s) (vb_basket_item v))
     in prod_is_active (row (products s) product) \<and> content_live s (prod_content (row (products s) product)) = Inr True \<and>
        latest_product_version s product = Some (vb_product_version v) \<and>
        (case coupon_selections_of s (vb_basket v) of
           [] \<Rightarrow> vb_coupon_version v = None
         | [c] \<Rightarrow> \<exists>cv. vb_coupon_version v = Some cv \<and>
             cv \<in> set (get_valid_coupon_versions now s (Some product) user False
               (Some (coupon_code (row (coupons s) (csel_coupon (row (coupon_selections s) c))))) False None)
         | _ \<Rightarrow> False)) \<and>
    set (vb_run_selection_ids v) = (\<lambda>k. crs_run (row (course_run_selections s) k)) ` set (run_selections_of s (vb_basket v)) \<and>
    vb_run_selection_ids v \<noteq> [] \<and>
    (\<forall>r \<in> set (vb_run_selection_ids v). is_unexpired now (row (course_runs s) r) \<and>
       active_run_enrollments s (\<lambda>e. enr_user e = user \<and> enr_run e = r) = []) \<and>
    (pv_requires_enrollment_code (row (product_versions s) (vb_product_version v)) \<longrightarrow> vb_coupon_version v \<noteq> None) \<and>
    (\<forall>coupon a. needs_consent s (vb_basket v) coupon a \<longrightarrow>
       (\<exists>d \<in> set (vb_data_consent_users v). consent_given s user coupon a d)) \<and>
    (\<forall>d \<in> set (vb_data_consent_users v). dcu_consent_date (row (data_consent_users s) d) \<noteq> None \<and>
       (\<exists>coupon a. needs_consent s (vb_basket v) coupon a \<and> consent_given s user coupon a d)) \<and>
    s' = s"
proof -
  from assms obtain basket where basket: "t_get ''Basket'' (baskets s) (\<lambda>_ b. basket_user b = user) = Inr basket"
    by (cases "t_get ''Basket'' (baskets s) (\<lambda>_ b. basket_user b = user)") (auto simp: validate_basket_for_checkout_def bindp_run)
  have user: "basket_user (row (baskets s) basket) = user"
    using t_get_InrD [OF basket] by simp
  from assms basket obtain item product pv where
    contents: "validate_basket_contents s basket = Inr (item, product, Some pv)"
    by (cases "validate_basket_contents s basket")
       (auto simp: validate_basket_for_checkout_def bindp_run split: option.splits sum.splits)
  from assms basket contents obtain ids where
    ids: "validate_basket_run_selections now s basket (prod_content (row (products s) product)) = Inr ids"
    by (cases "validate_basket_run_selections now s basket (prod_content (row (products s) product))")
       (auto simp: validate_basket_for_checkout_def bindp_run)
  from assms basket contents ids obtain cv where cv: "validate_coupon_selection now s basket product = Inr cv"
    by (cases "validate_coupon_selection now s basket product") (auto simp: validate_basket_for_checkout_def bindp_run)
  obtain r t where consents: "get_or_create_data_consent_users basket s = (r, t)" by fastforce
  from assms basket contents ids cv consents obtain ds where r: "r = Inr ds"
    by (cases r) (auto simp: validate_basket_for_checkout_def bindp_run split: if_splits)
  have out: "s' = t" "v = \<lparr>vb_basket = basket, vb_basket_item = item, vb_product_version = pv, vb_coupon_version = cv,
      vb_run_selection_ids = ids, vb_data_consent_users = ds\<rparr>"
    "pv_requires_enrollment_code (row (product_versions s) pv) \<longrightarrow> cv \<noteq> None"
    "\<forall>d \<in> set ds. dcu_consent_date (row (data_consent_users t) d) \<noteq> None"
    using assms basket contents ids cv consents [unfolded r]
    by (auto simp: validate_basket_for_checkout_def bindp_run list_ex_iff split: if_splits)
  from validate_basket_run_selections_InrD [OF ids] have "ids \<noteq> []"
    by (cases "run_selections_of s basket") auto
  moreover note consents' = data_consents_cases [OF consents [unfolded r] out(4)]
  have "\<forall>coupon a. needs_consent s basket coupon a \<longrightarrow> (\<exists>d \<in> set ds. consent_given s user coupon a d)"
    "\<forall>d \<in> set ds. dcu_consent_date (row (data_consent_users s) d) \<noteq> None \<and>
       (\<exists>coupon a. needs_consent s basket coupon a \<and> consent_given s user coupon a d)"
    using consents'(2,3) out(4) unfolding consents'(1) user by blast+
  ultimately show ?thesis
    using validate_basket_contents_InrD [OF contents] validate_basket_run_selections_InrD(1,4,5) [OF ids]
      validate_coupon_selection_InrD [OF cv] consents'(1) out(1-3) user
    by (simp add: Let_def split: list.splits)
qed

text \<open>
  The number of selected runs is the number of courses to be taken, and each belongs to one of them. So if no
  two selected runs are of the same course, the selection has exactly one run for every live course of
  the program, or the one run of the course.
\<close>

theorem run_selection_covers_courses:
  assumes "validate_basket_run_selections now s basket c = Inr ids"
    and "wf_table (course_run_selections s)"
    and "distinct (map (\<lambda>k. run_course (row (course_runs s) (crs_run (row (course_run_selections s) k)))) (run_selections_of s basket))"
  shows "\<exists>cs. valid_course_ids s c = Inr cs \<and> bij_betw (\<lambda>r. run_course (row (course_runs s) r)) (set ids) (set cs)"
proof -
  let ?sel = "run_selections_of s basket" and ?run = "\<lambda>k. crs_run (row (course_run_selections s) k)"
    and ?course = "\<lambda>r. run_course (row (course_runs s) r)"
  from validate_basket_run_selections_InrD(6) [OF assms(1)] obtain cs where cs: "valid_course_ids s c = Inr cs"
    "length ?sel = length cs" "?course ` set ids \<subseteq> set cs" by blast
  have ids: "set ids = ?run ` set ?sel" by (rule validate_basket_run_selections_InrD(1) [OF assms(1)])
  have img: "?course ` set ids = set (map (\<lambda>k. ?course (?run k)) ?sel)" by (auto simp: ids)
  have "card (?course ` set ids) = length cs"
    unfolding img using assms(3) distinct_card [OF assms(3)] cs(2) by simp
  moreover have "card (set cs) \<le> length cs" by (rule card_length)
  ultimately have eq: "?course ` set ids = set cs"
    using cs(3) by (intro card_seteq) auto
  have "inj_on ?course (set ids)"
    using assms(3) unfolding ids distinct_map by (auto simp: inj_on_def)
  with eq cs(1) show ?thesis by (auto simp: bij_betw_def)
qed


section \<open>Deleting baskets\<close>

lemma t_delete_t_delete: "t_delete (t_delete t P) Q = t_delete t (\<lambda>k r. P k r \<or> Q k r)"
  by (simp add: t_delete_def conj_commute)

definition without_baskets :: "nat set \<Rightarrow> 'z shop_db_scheme \<Rightarrow> 'z shop_db_scheme" where
  "without_baskets D s =
     s\<lparr>basket_items := t_delete (basket_items s) (\<lambda>_ i. bi_basket i \<in> D),
       course_run_selections := t_delete (course_run_selections s) (\<lambda>_ c. crs_basket c \<in> D),
       coupon_selections := t_delete (coupon_selections s) (\<lambda>_ c. csel_basket c \<in> D),
       baskets := t_delete (baskets s) (\<lambda>k _. k \<in> D)\<rparr>"

lemma delete_basket_run: "delete_basket k s = (Inr (), without_baskets {k} s)"
  by (simp add: delete_basket_def without_baskets_def thenp_run)

lemma without_baskets_union: "without_baskets D (without_baskets {k} s) = without_baskets (insert k D) s"
  by (simp add: without_baskets_def t_delete_t_delete)

lemma delete_baskets_loop: "for_each ks delete_basket s = (Inr (), without_baskets (set ks) s)"
proof (induction ks arbitrary: s)
  case Nil
  have "t_delete t (\<lambda>_ _. False) = t" for t :: "'r table" by (simp add: t_delete_def)
  then show ?case by (simp add: without_baskets_def)
qed (simp add: delete_basket_run without_baskets_union)

text \<open>
  Clearing always succeeds. It removes the baskets of the given user, or without a user those not updated for
  the configured number of days, together with their items, run selections and coupon selections,
  and nothing else.
\<close>

theorem clear_and_delete_baskets_spec:
  "clear_and_delete_baskets expiry_days now user s =
     (Inr (), without_baskets {k \<in> set (pks (baskets s)). case user of
          Some u \<Rightarrow> basket_user (row (baskets s) k) = u
        | None \<Rightarrow> basket_updated_on (row (baskets s) k) \<le> now - expiry_days * 86400} s)"
  by (cases user) (simp_all add: clear_and_delete_baskets_def Let_def delete_baskets_loop)

section \<open>Products by id\<close>

lemma product_of_content_InrD:
  "product_of_content s c = Inr p \<Longrightarrow>
   p \<in> set (pks (products s)) \<and> prod_is_active (row (products s) p) \<and> prod_content (row (products s) p) = c"
  by (auto simp: product_of_content_def active_products_def first_or_none_def split: option.splits dest!: first_of_in_set)

lemma program_run_rows_in:
  "(p, t) \<in> set (program_run_rows s base tag text_id) \<Longrightarrow> p \<in> set (pks (programs s)) \<and>
     (prog_readable_id (row (programs s) p) = base \<and> t = Some tag \<and>
        (\<exists>r \<in> set (pks (program_runs s)). prun_program (row (program_runs s) r) = p \<and> prun_run_tag (row (program_runs s) r) = tag) \<or>
      prog_readable_id (row (programs s) p) = text_id)"
  by (auto simp: program_run_rows_def Let_def split: if_splits)

lemma get_product_from_text_id_sound:
  assumes "get_product_from_text_id s text_id = Inr (product, c, prun)"
  shows "product \<in> set (pks (products s)) \<and> prod_is_active (row (products s) product) \<and>
    c = Some (prod_content (row (products s) product)) \<and>
    (case prun of
       None \<Rightarrow> content_text_id s (the c) = Inr text_id
     | Some r \<Rightarrow> r \<in> set (pks (program_runs s)) \<and> c = Some (ProgramContent (prun_program (row (program_runs s) r))) \<and>
         (\<exists>base. program_run_id_match text_id = Some (base, prun_run_tag (row (program_runs s) r)) \<and>
            content_text_id s (the c) \<in> {Inr base, Inr text_id}))"
proof (cases "program_run_id_match text_id")
  case None
  with assms show ?thesis
    by (auto simp: get_product_from_text_id_def content_text_id_def program_text_id_def run_text_id_def
        split: sum.splits option.splits if_splits dest!: product_of_content_InrD t_first_SomeD)
next
  case (Some m)
  then obtain base tag where m: "program_run_id_match text_id = Some (base, tag)" by (cases m) auto
  with assms obtain p t where p: "first_of (order_by_run_tag_desc (program_run_rows s base tag text_id)) = Some (p, t)"
    and q: "product_of_content s (ProgramContent p) = Inr product" and c: "c = Some (ProgramContent p)"
    and prun: "prun = t_first (program_runs s) (\<lambda>_ r. prun_program r = p \<and> prun_run_tag r = tag)"
    by (auto simp: get_product_from_text_id_def split: option.splits sum.splits)
  from first_of_in_set [OF p] have "(p, t) \<in> set (program_run_rows s base tag text_id)"
    by (simp add: order_by_run_tag_desc_def)
  from program_run_rows_in [OF this] product_of_content_InrD [OF q] c prun m show ?thesis
    by (auto simp: content_text_id_def program_text_id_def t_first_None t_exists_iff split: option.splits dest: t_first_SomeD)
qed

text \<open>
  A product found by a query-string id is in the table and active, and the content returned with it is
  its own. A program run returned with it belongs to that program, and its tag is the suffix
  of the given text id; without one, a text id is the exact text id of the product's content.
\<close>

theorem get_product_from_querystring_id_sound:
  assumes "get_product_from_querystring_id s ref = Inr (product, c, prun)"
  shows "product \<in> set (pks (products s)) \<and> prod_is_active (row (products s) product) \<and>
    (\<forall>x. c = Some x \<longrightarrow> x = prod_content (row (products s) product)) \<and>
    (case prun of
       None \<Rightarrow> (case ref of TextId t \<Rightarrow> \<not> is_digit_string t \<longrightarrow>
            content_text_id s (the c) = Inr (map (\<lambda>c. if c = CHR '' '' then CHR ''+'' else c) t) | NumericId _ \<Rightarrow> True)
     | Some r \<Rightarrow> r \<in> set (pks (program_runs s)) \<and> c = Some (ProgramContent (prun_program (row (program_runs s) r))) \<and>
         (\<exists>t base. ref = TextId t \<and>
            program_run_id_match (map (\<lambda>c. if c = CHR '' '' then CHR ''+'' else c) t)
              = Some (base, prun_run_tag (row (program_runs s) r))))"
proof -
  have number: "product \<in> set (pks (products s)) \<and> prod_is_active (row (products s) product) \<and> prun = None \<and>
      (\<forall>x. c = Some x \<longrightarrow> x = prod_content (row (products s) product))" if "product_by_number s n = Inr (product, c, prun)" for n
    using that by (auto simp: product_by_number_def content_object_def split: sum.splits if_splits dest: t_get_InrD)
  show ?thesis
  proof (cases ref)
    case (NumericId n)
    with assms number [of n] show ?thesis by (simp add: get_product_from_querystring_id_def)
  next
    case (TextId t)
    show ?thesis
    proof (cases "is_digit_string t")
      case True
      with assms TextId obtain n where "product_by_number s n = Inr (product, c, prun)"
        by (auto simp: get_product_from_querystring_id_def split: sum.splits)
      with number [of n] True TextId show ?thesis by simp
    next
      case False
      with assms TextId
      have "get_product_from_text_id s (map (\<lambda>c. if c = CHR '' '' then CHR ''+'' else c) t) = Inr (product, c, prun)"
        by (simp add: get_product_from_querystring_id_def)
      from get_product_from_text_id_sound [OF this] False TextId show ?thesis
        by (auto split: option.splits)
    qed
  qed
qed

section \<open>Concrete baskets\<close>

lemma example_validated:
  "validate_basket_for_checkout 10 1 example_shop =
     (Inr \<lparr>vb_basket = 1, vb_basket_item = 1, vb_product_version = 1, vb_coupon_version = Some 1,
           vb_run_selection_ids = [2], vb_data_consent_users = []\<rparr>, example_shop)"
proof -
  have "t_get ''Basket'' (baskets example_shop) (\<lambda>_ b. basket_user b = 1) = Inr 1"
    by (simp add: t_get_def the_only_def matching_def example_defs)
  moreover have "validate_basket_contents example_shop 1 = Inr (1, 1, Some 1)"
    by (simp add: validate_basket_contents_def items_of_def matching_def content_live_def content_missing_def content_exists_def
        latest_product_version_def order_by_desc_def example_defs)
  moreover have "validate_basket_run_selections 10 example_shop 1 (CourseRunContent 2) = Inr [2]"
    by (simp add: validate_basket_run_selections_def run_selections_of_def matching_def valid_course_ids_def
        is_unexpired_def is_past_def is_not_beyond_enrollment_def active_run_enrollments_def example_defs)
  moreover have "validate_coupon_selection 10 example_shop 1 1 = Inr (Some 1)"
  proof -
    have "coupon_selections_of example_shop 1 = [1]" "csel_coupon (row (coupon_selections example_shop) 1) = 1"
      "coupon_code (row (coupons example_shop) 1) = ''HALF''" "basket_user (row (baskets example_shop) 1) = 1"
      by (simp_all add: coupon_selections_of_def matching_def example_defs)
    then show ?thesis
      by (simp add: validate_coupon_selection_def example_valid [unfolded One_nat_def] first_or_none_def)
  qed
  moreover have "get_or_create_data_consent_users 1 example_shop = (Inr [], example_shop)"
    by (simp add: get_or_create_data_consent_users_def bindp_run coupon_selections_of_def basket_courses_def items_of_def
        matching_def get_product_courses_def content_missing_def content_exists_def consents_of_selection_def
        latest_coupon_version_def order_by_desc_def payment_version_of_def example_defs Let_def)
  moreover have "prod_content (row (products example_shop) 1) = CourseRunContent 2"
    "\<not> pv_requires_enrollment_code (row (product_versions example_shop) 1)"
    by (simp_all add: example_defs)
  ultimately show ?thesis
    by (simp add: validate_basket_for_checkout_def bindp_run)
qed


lemma validate_basket_for_checkout_spec_witness:
  "prod_is_active (row (products example_shop) 1) \<and> is_unexpired 10 (row (course_runs example_shop) 2)"
proof -
  have "bi_product (row (basket_items example_shop) 1) = 1" by (simp add: example_defs)
  then show ?thesis
    using validate_basket_for_checkout_spec [OF example_validated] by (simp add: Let_def)
qed

lemma run_selection_covers_courses_witness:
  "\<exists>cs. valid_course_ids example_shop (CourseRunContent 2) = Inr cs \<and>
     bij_betw (\<lambda>r. run_course (row (course_runs example_shop) r)) (set [2]) (set cs)"
  by (rule run_selection_covers_courses [where now = 10 and basket = 1])
     (simp_all add: validate_basket_run_selections_def run_selections_of_def matching_def valid_course_ids_def
        is_unexpired_def is_past_def is_not_beyond_enrollment_def active_run_enrollments_def example_defs wf_table_def)

text \<open>The counts alone do not exclude two runs of one course of a program, with none of the other course.\<close>

definition example_same_course :: shop_db where
  "example_same_course = example_shop
     \<lparr>run_enrollments := empty_table example_run_enrollment,
      course_run_selections := table_of \<lparr>crs_basket = 0, crs_run = 0\<rparr> [\<lparr>crs_basket = 1, crs_run = 1\<rparr>, \<lparr>crs_basket = 1, crs_run = 3\<rparr>]\<rparr>"

lemma two_runs_of_one_course_pass:
  "validate_basket_run_selections 10 example_same_course 1 (ProgramContent 1) = Inr [1, 3] \<and>
   valid_course_ids example_same_course (ProgramContent 1) = Inr [1, 2] \<and>
   run_course (row (course_runs example_same_course) 1) = 1 \<and> run_course (row (course_runs example_same_course) 3) = 1"
  by (simp add: validate_basket_run_selections_def run_selections_of_def matching_def valid_course_ids_def program_courses_def
        is_unexpired_def is_past_def is_not_beyond_enrollment_def active_run_enrollments_def example_same_course_def
        example_defs)

text \<open>
  A program that has the full text id and no runs is found before the program that has the run, although the
  version with a matching run is to be preferred.
\<close>

definition example_run_tags :: shop_db where
  "example_run_tags = example_shop
     \<lparr>programs := table_of \<lparr>prog_title = [], prog_readable_id = [], prog_live = True, prog_is_external = False, prog_platform = 1\<rparr>
        [\<lparr>prog_title = ''P'', prog_readable_id = ''program-v1:P'', prog_live = True, prog_is_external = False, prog_platform = 1\<rparr>,
         \<lparr>prog_title = ''Q'', prog_readable_id = ''program-v1:P+R1'', prog_live = True, prog_is_external = False, prog_platform = 1\<rparr>],
      program_runs := table_of \<lparr>prun_program = 0, prun_run_tag = [], prun_start_date = None, prun_end_date = None\<rparr>
        [\<lparr>prun_program = 1, prun_run_tag = ''R1'', prun_start_date = None, prun_end_date = None\<rparr>],
      products := table_of (example_product (OtherContent [] 0))
        [example_product (ProgramContent 1), example_product (ProgramContent 2)]\<rparr>"

lemma program_with_run_not_preferred:
  "get_product_from_text_id example_run_tags ''program-v1:P+R1'' = Inr (2, Some (ProgramContent 2), None)"
proof -
  have m: "program_run_id_match ''program-v1:P+R1'' = Some (''program-v1:P'', ''R1'')"
    by (simp add: program_run_id_match_def Let_def is_digit_string_def digit_val_def digit_chars_def)
  have rows: "program_run_rows example_run_tags ''program-v1:P'' ''R1'' ''program-v1:P+R1'' = [(1, Some ''R1''), (2, None)]"
    by (simp add: program_run_rows_def example_run_tags_def matching_def Let_def table_of_def)
  have sorted: "order_by_run_tag_desc [(1, Some ''R1''), (2, None)] = [(2, None), (1, Some ''R1'')]"
    by (simp add: order_by_run_tag_desc_def)
  have "product_of_content example_run_tags (ProgramContent 2) = Inr 2"
    by (simp add: product_of_content_def active_products_def matching_def first_or_none_def example_run_tags_def table_of_def
        example_product_def)
  moreover have "t_first (program_runs example_run_tags) (\<lambda>_ r. prun_program r = 2 \<and> prun_run_tag r = ''R1'') = None"
    by (simp add: t_first_def matching_def example_run_tags_def table_of_def)
  ultimately show ?thesis
    by (simp only: get_product_from_text_id_def m rows sorted option.case prod.case first_of.simps sum.case)
qed

lemma get_product_from_querystring_id_sound_witness:
  "prod_is_active (row (products example_run_tags) 2)"
proof -
  have "map (\<lambda>c. if c = CHR '' '' then CHR ''+'' else c) ''program-v1:P R1'' = ''program-v1:P+R1''"
    by simp
  then have "get_product_from_querystring_id example_run_tags (TextId ''program-v1:P R1'') = Inr (2, Some (ProgramContent 2), None)"
    using program_with_run_not_preferred
    by (simp add: get_product_from_querystring_id_def is_digit_string_def digit_val_def digit_chars_def)
  from get_product_from_querystring_id_sound [OF this] show ?thesis by simp
qed

end
