(* ===== verification/Receipts.thy ===== *)
theory Receipts
  imports Basket
begin

text \<open>
  The receipt of an order: \<open>OrderReceiptSerializer\<close> of \<open>ecommerce/serializers.py\<close>, with the serializers of
  the product version and of the purchaser's address it uses, and the receipt message of
  \<open>ecommerce/mail_api.py\<close>. Prices are the decimals that the code prints.
\<close>

section \<open>Payment details\<close>

definition CYBERSOURCE_CARD_TYPES :: "(string \<times> string) list" where
  "CYBERSOURCE_CARD_TYPES =
     [(''001'', ''Visa''), (''002'', ''Mastercard''), (''003'', ''American Express''), (''004'', ''Discover''),
      (''005'', ''Diners Club''), (''006'', ''Carte Blanche''), (''007'', ''JCB''), (''014'', ''Enroute''),
      (''021'', ''JAL''), (''024'', ''Maestro (UK)''), (''031'', ''Delta''), (''033'', ''Visa Electron''),
      (''034'', ''Dankort''), (''036'', ''Carte Bancaires''), (''037'', ''Carta Si''), (''039'', ''EAN''),
      (''040'', ''UATP''), (''042'', ''Maestro (Intl)''), (''050'', ''Hipercard''), (''051'', ''Aura''),
      (''054'', ''Elo''), (''061'', ''RuPay''), (''062'', ''China UnionPay'')]"

record payment_details =
  pd_card_number :: "string option"
  pd_card_type :: "string option"
  pd_name :: "string option"
  pd_bill_to_email :: "string option"
  pd_payment_method :: "string option"

definition none_str :: "string option \<Rightarrow> string" where
  "none_str v = (case v of None \<Rightarrow> ''None'' | Some t \<Rightarrow> t)"

definition payment_details_of :: "payload \<Rightarrow> payment_details" where
  "payment_details_of d =
     \<lparr>pd_card_number = map_of d ''req_card_number'',
      pd_card_type = (case map_of d ''req_card_type'' of None \<Rightarrow> None | Some t \<Rightarrow> map_of CYBERSOURCE_CARD_TYPES t),
      pd_name =
        (if map_of d ''req_bill_to_forename'' \<noteq> None \<or> map_of d ''req_bill_to_surname'' \<noteq> None
         then Some (none_str (map_of d ''req_bill_to_forename'') @ '' '' @ none_str (map_of d ''req_bill_to_surname''))
         else None),
      pd_bill_to_email = map_of d ''req_bill_to_email'',
      pd_payment_method = map_of d ''req_payment_method''\<rparr>"

text \<open>The newest receipt of the order: receipts are stamped when they are created, in key order.\<close>

definition get_receipt :: "'z shop_db_scheme \<Rightarrow> nat \<Rightarrow> payment_details option" where
  "get_receipt s order =
     map_option (\<lambda>r. payment_details_of (receipt_data (row (receipts s) r)))
       (t_last (receipts s) (\<lambda>_ r. receipt_order r = Some order))"

section \<open>Lines\<close>

record version_summary =
  vs_price :: string
  vs_content_title :: string
  vs_readable_id :: string

definition content_title :: "'z shop_db_scheme \<Rightarrow> content \<Rightarrow> exn + string" where
  "content_title s c =
     (if content_missing s c then Inl (AttributeError ''title'')
      else case c of
             CourseRunContent k \<Rightarrow> Inr (run_title (row (course_runs s) k))
           | ProgramContent k \<Rightarrow> Inr (prog_title (row (programs s) k))
           | CourseContent k \<Rightarrow> Inr (course_title (row (courses s) k))
           | OtherContent _ _ \<Rightarrow> Inl (AttributeError ''title''))"

definition base_product_version :: "'z shop_db_scheme \<Rightarrow> nat \<Rightarrow> exn + version_summary" where
  "base_product_version s pv =
     (let v = row (product_versions s) pv; c = prod_content (row (products s) (pv_product v))
      in case content_title s c of
           Inl e \<Rightarrow> Inl e
         | Inr title \<Rightarrow>
             (case content_text_id s c of
                Inl e \<Rightarrow> Inl e
              | Inr text_id \<Rightarrow>
                  Inr \<lparr>vs_price = cents_str (pv_price v), vs_content_title = title, vs_readable_id = text_id\<rparr>))"

text \<open>
  A certificate page of the content management system: its credits and the overrides of the credits by
  text id. No credits are shown when they are zero.
\<close>

type_synonym certificate_credits = "decimal option \<times> (string \<times> decimal option) list"

definition shown_credits :: "certificate_credits \<Rightarrow> string option \<Rightarrow> decimal option" where
  "shown_credits page text_id =
     (let ceus = (case text_id of
              None \<Rightarrow> fst page
            | Some t \<Rightarrow> (case map_of (snd page) t of None \<Rightarrow> fst page | Some c \<Rightarrow> c))
      in if ceus = Some 0 then None else ceus)"

text \<open>The certificate page of the course or program a version sells; they are looked up by the text id of the version.\<close>

definition certificate_page_of :: "cms_pages \<Rightarrow> 'z shop_db_scheme \<Rightarrow> nat \<Rightarrow> exn + nat option" where
  "certificate_page_of cms s pv =
     (let v = row (product_versions s) pv; c = prod_content (row (products s) (pv_product v));
          page_of = (\<lambda>p. case p of None \<Rightarrow> None | Some certificate_page \<Rightarrow> certificate_page)
      in if content_missing s c then Inr None
         else case c of
           ProgramContent _ \<Rightarrow>
             (case t_get ''Program'' (programs s) (\<lambda>_ p. Some (prog_readable_id p) = pv_text_id v) of
                Inl e \<Rightarrow> Inl e | Inr k \<Rightarrow> Inr (page_of (program_page cms k)))
         | CourseRunContent _ \<Rightarrow>
             (case the_only ''Course'' (map (\<lambda>r. run_course (row (course_runs s) r))
                     (matching (course_runs s) (\<lambda>_ r. Some (run_courseware_id r) = pv_text_id v))) of
                Inl e \<Rightarrow> Inl e | Inr k \<Rightarrow> Inr (page_of (course_page cms k)))
         | _ \<Rightarrow> Inr None)"

record receipt_line =
  rl_quantity :: nat
  rl_total_paid :: decimal
  rl_tax_paid :: decimal
  rl_discount :: decimal
  rl_total_before_tax :: decimal
  rl_CEUs :: "decimal option"
  rl_version :: version_summary
  rl_start_date :: "int option"
  rl_end_date :: "int option"

definition max_date :: "int list \<Rightarrow> int option" where
  "max_date ds = (case ds of [] \<Rightarrow> None | d # ds \<Rightarrow> Some (foldl max d ds))"

definition get_line :: "cms_pages \<Rightarrow> (nat \<Rightarrow> certificate_credits) \<Rightarrow> 'z shop_db_scheme \<Rightarrow> nat \<Rightarrow> nat \<Rightarrow> exn + receipt_line" where
  "get_line cms credits s order line =
     (let lr = row (lines s) line; pv = line_product_version lr; quantity = of_nat (line_quantity lr);
          coupon_version =
            map_option (\<lambda>r. cred_coupon_version (row (coupon_redemptions s) r)) (first_of (order_redemptions s order));
          product_price_and_tax =
            get_product_version_price_with_discount_tax s coupon_version pv (ord_tax_rate (row (orders s) order));
          tax_paid = round_cents_half_even (pt_tax_assessed product_price_and_tax * quantity);
          total_price = pt_price product_price_and_tax * quantity;
          total_paid = round_cents_half_even (total_price + tax_paid);
          enrolled = map (\<lambda>e. row (course_runs s) (enr_run (row (run_enrollments s) e)))
            (active_run_enrollments s (\<lambda>e. enr_order e = Some order \<and> enr_change_status e = None))
      in case certificate_page_of cms s pv of
           Inl e \<Rightarrow> Inl e
         | Inr page \<Rightarrow>
             (case base_product_version s pv of
                Inl e \<Rightarrow> Inl e
              | Inr version \<Rightarrow>
                  Inr \<lparr>rl_quantity = line_quantity lr, rl_total_paid = total_paid, rl_tax_paid = tax_paid,
                       rl_discount = pv_price (row (product_versions s) pv) * quantity - total_price,
                       rl_total_before_tax = round_cents_half_even (total_paid - tax_paid),
                       rl_CEUs =
                         (case page of
                            None \<Rightarrow> None | Some p \<Rightarrow> shown_credits (credits p) (pv_text_id (row (product_versions s) pv))),
                       rl_version = version,
                       rl_start_date = min_date (concat (map (\<lambda>r. the_list (run_start_date r)) enrolled)),
                       rl_end_date = max_date (concat (map (\<lambda>r. the_list (run_end_date r)) enrolled))\<rparr>))"

definition get_lines ::
  "cms_pages \<Rightarrow> (nat \<Rightarrow> certificate_credits) \<Rightarrow> 'z shop_db_scheme \<Rightarrow> nat \<Rightarrow> exn + receipt_line list" where
  "get_lines cms credits s order = sequence (map (get_line cms credits s order) (order_lines s order))"

section \<open>The receipt\<close>

record order_summary =
  os_id :: nat
  os_created_on :: int
  os_reference_number :: string
  os_tax_rate :: "decimal option"
  os_tax_rate_name :: "string option"
  os_tax_country_code :: "string option"

definition get_order_summary :: "string \<Rightarrow> 'z shop_db_scheme \<Rightarrow> nat \<Rightarrow> order_summary" where
  "get_order_summary environment s order =
     (let r = row (orders s) order
      in \<lparr>os_id = order, os_created_on = ord_created_on r,
          os_reference_number = reference_number (order_reference_number_prefix environment) order,
          os_tax_rate = ord_tax_rate r, os_tax_rate_name = ord_tax_rate_name r,
          os_tax_country_code = ord_tax_country_code r\<rparr>)"

definition get_coupon_code :: "'z shop_db_scheme \<Rightarrow> nat \<Rightarrow> string option" where
  "get_coupon_code s order =
     map_option (\<lambda>r. coupon_code (row (coupons s) (cv_coupon (row (coupon_versions s)
         (cred_coupon_version (row (coupon_redemptions s) r))))))
       (first_of (order_redemptions s order))"

record purchaser_address =
  pa_address :: legal_address_row
  pa_street_address :: "string list"
  pa_email :: string
  pa_company :: string

definition extended_legal_address :: "'z users_db_scheme \<Rightarrow> nat \<Rightarrow> exn + purchaser_address" where
  "extended_legal_address s user =
     (case t_first (legal_addresses s) (\<lambda>_ a. la_user a = user) of
        None \<Rightarrow> Inl (DoesNotExist ''LegalAddress'')
      | Some a \<Rightarrow>
          (case t_first (profiles s) (\<lambda>_ p. prof_user p = user) of
             None \<Rightarrow> Inl (DoesNotExist ''Profile'')
           | Some p \<Rightarrow>
               (let address = row (legal_addresses s) a
                in Inr \<lparr>pa_address = address, pa_street_address = street_address address,
                        pa_email = user_email (row (users s) user), pa_company = prof_company (row (profiles s) p)\<rparr>)))"

record order_receipt =
  rec_purchaser :: purchaser_address
  rec_lines :: "receipt_line list"
  rec_coupon :: "string option"
  rec_order :: order_summary
  rec_receipt :: "payment_details option"

definition order_receipt_of ::
  "cms_pages \<Rightarrow> (nat \<Rightarrow> certificate_credits) \<Rightarrow> string \<Rightarrow> 'z shop_db_scheme \<Rightarrow> nat \<Rightarrow> exn + order_receipt" where
  "order_receipt_of cms credits environment s order =
     (case extended_legal_address s (ord_purchaser (row (orders s) order)) of
        Inl e \<Rightarrow> Inl e
      | Inr purchaser \<Rightarrow>
          (case get_lines cms credits s order of
             Inl e \<Rightarrow> Inl e
           | Inr ls \<Rightarrow>
               Inr \<lparr>rec_purchaser = purchaser, rec_lines = ls, rec_coupon = get_coupon_code s order,
                    rec_order = get_order_summary environment s order, rec_receipt = get_receipt s order\<rparr>))"

section \<open>The receipt message\<close>

text \<open>
  The message goes to the purchaser and to the address given to the payment service. Its text needs the tax
  rate; without one the error while the text is made is logged and nothing is sent.
\<close>

definition receipt_recipients :: "string \<Rightarrow> string option \<Rightarrow> string list" where
  "receipt_recipients email cyber_source_provided_email =
     email # (case cyber_source_provided_email of
                None \<Rightarrow> [] | Some b \<Rightarrow> if b = [] \<or> b = email then [] else [b])"

definition send_ecommerce_order_receipt ::
  "cms_pages \<Rightarrow> (nat \<Rightarrow> certificate_credits) \<Rightarrow> string \<Rightarrow> nat \<Rightarrow> string option \<Rightarrow> ('z shop_db_scheme, unit) prog" where
  "send_ecommerce_order_receipt cms credits environment order cyber_source_provided_email =
     bindp (asks (\<lambda>s. order_receipt_of cms credits environment s order)) (\<lambda>r.
     bindp (lift_result r) (\<lambda>data.
     if os_tax_rate (rec_order data) = None then ret ()
     else emit (SendMail ''product_order_receipt'' [order]
            (receipt_recipients (pa_email (rec_purchaser data)) cyber_source_provided_email))))"

end
