(* ===== verification/Orders.thy ===== *)
theory Orders
  imports Receipts
begin

text \<open>
  Orders, from \<open>ecommerce/api.py\<close>: the unfulfilled order that mirrors a basket, its completion with the
  enrollments, the change of its status by a payment notification, and the views of \<open>ecommerce/views.py\<close>
  for the check-out and for the notifications.
\<close>

section \<open>Surroundings\<close>

text \<open>
  What the operations take from the settings and from services: the environment's name, whether the HubSpot token and
  the welcome feature are set, the days after which a basket expires, whether the tax country is always that of the
  profile, the courseware service, the pages of the content management system, and the current time.
\<close>

record shop_config =
  sc_environment :: string
  sc_hubspot_token :: bool
  sc_welcome_enabled :: bool
  sc_basket_expiry_days :: int
  sc_force_profile_country :: bool
  sc_edx :: edx_service
  sc_cms :: cms_pages
  sc_credits :: "nat \<Rightarrow> certificate_credits"
  sc_now :: int

text \<open>\<open>hubspot_xpro/task_helpers.py\<close>\<close>

definition sync_hubspot_deal :: "shop_config \<Rightarrow> nat \<Rightarrow> ('z shop_db_scheme, unit) prog" where
  "sync_hubspot_deal cfg order =
     bindp (asks (\<lambda>s. sc_hubspot_token cfg \<and> order_lines s order \<noteq> [])) (\<lambda>b.
     whenp b (emit (HubspotSync ''deal'' order)))"

section \<open>The unfulfilled order of a basket\<close>

definition open_orders :: "'z shop_db_scheme \<Rightarrow> nat \<Rightarrow> nat \<Rightarrow> nat list" where
  "open_orders s user product =
     matching (orders s) (\<lambda>k r. ord_purchaser r = user \<and> ord_status r = OrderCreated \<and>
       list_ex (\<lambda>l. pv_product (row (product_versions s) (line_product_version (row (lines s) l))) = product)
         (order_lines s k))"

text \<open>The rate of the country, or the defaults of an unsaved \<open>TaxRate()\<close>.\<close>

definition tax_rate_info :: "'z shop_db_scheme \<Rightarrow> string option \<Rightarrow> decimal \<times> string option" where
  "tax_rate_info s country_code =
     (case t_get ''TaxRate'' (tax_rates s) (\<lambda>_ r. tax_active r \<and> Some (tax_country_code r) = country_code) of
        Inl _ \<Rightarrow> (0, Some ''VAT'')
      | Inr k \<Rightarrow> (tax_tax_rate (row (tax_rates s) k), tax_tax_rate_name (row (tax_rates s) k)))"

definition new_order :: "int \<Rightarrow> nat \<Rightarrow> order_row" where
  "new_order now user =
     \<lparr>ord_status = OrderCreated, ord_created_on = now, ord_purchaser = user, ord_total_price_paid = 0,
      ord_tax_country_code = None, ord_tax_rate = Some 0, ord_tax_rate_name = Some ''VAT''\<rparr>"

definition save_order :: "nat option \<Rightarrow> order_row \<Rightarrow> (order_row \<Rightarrow> order_row) \<Rightarrow> ('z shop_db_scheme, nat) prog" where
  "save_order existing r f =
     (case existing of
        None \<Rightarrow> db_create orders orders_update (f r)
      | Some k \<Rightarrow> thenp (db_save orders orders_update k f) (ret k))"

definition sync_line :: "nat \<Rightarrow> validated_basket \<Rightarrow> ('z shop_db_scheme, unit) prog" where
  "sync_line order vb =
     bindp (asks (\<lambda>s. row (basket_items s) (vb_basket_item vb))) (\<lambda>item.
     bindp (db_update_or_create ''Line'' lines lines_update (\<lambda>_ l. line_order l = order)
              (\<lambda>l. l\<lparr>line_product_version := vb_product_version vb, line_quantity := bi_quantity item\<rparr>)
              \<lparr>line_order = order, line_product_version = vb_product_version vb, line_quantity = bi_quantity item\<rparr>)
       (\<lambda>(line, _).
     thenp (db_delete program_run_lines program_run_lines_update (\<lambda>_ l. prl_line l = line))
    (thenp (db_delete line_run_selections line_run_selections_update (\<lambda>_ l. lrs_line l = line))
    (thenp (case bi_program_run item of
              None \<Rightarrow> ret ()
            | Some p \<Rightarrow> bindp (db_create program_run_lines program_run_lines_update
                \<lparr>prl_line = line, prl_program_run = p\<rparr>) (\<lambda>_. ret ()))
       (bindp (db_bulk_create line_run_selections line_run_selections_update
                (map (\<lambda>r. \<lparr>lrs_line = line, lrs_run = r\<rparr>) (vb_run_selection_ids vb))) (\<lambda>_. ret ()))))))"

definition sync_redemption :: "nat \<Rightarrow> validated_basket \<Rightarrow> ('z shop_db_scheme, unit) prog" where
  "sync_redemption order vb =
     (case vb_coupon_version vb of
        Some v \<Rightarrow> bindp (redeem_coupon v order) (\<lambda>_. ret ())
      | None \<Rightarrow> db_delete coupon_redemptions coupon_redemptions_update (\<lambda>_ r. cred_order r = order))"

definition sync_affiliate :: "nat \<Rightarrow> nat option \<Rightarrow> ('z shop_db_scheme, unit) prog" where
  "sync_affiliate order affiliate_id =
     (case affiliate_id of
        None \<Rightarrow> ret ()
      | Some a \<Rightarrow>
          bindp (db_get_or_create ''AffiliateReferralAction'' referral_actions referral_actions_update
             (\<lambda>_ r. ref_created_order r = Some order)
             \<lparr>ref_affiliate = a, ref_created_user = None, ref_created_order = Some order\<rparr>) (\<lambda>_. ret ()))"

definition mirror_basket :: "validated_basket \<Rightarrow> nat option \<Rightarrow> nat \<Rightarrow> ('z shop_db_scheme, nat) prog" where
  "mirror_basket vb affiliate_id order =
     thenp (sync_line order vb)
    (thenp (sync_redemption order vb)
    (thenp (sync_affiliate order affiliate_id)
       (ret order)))"

definition create_or_update_unfulfilled_order ::
  "shop_config \<Rightarrow> 'g geo_db_scheme \<Rightarrow> validated_basket \<Rightarrow> nat option \<Rightarrow> web_request option \<Rightarrow> ('z shop_db_scheme, nat) prog" where
  "create_or_update_unfulfilled_order cfg g vb affiliate_id request =
     atomic
       (bindp (asks (\<lambda>s. (get_product_version_price_with_discount s (vb_coupon_version vb) (vb_product_version vb),
                 determine_visitor_country (sc_force_profile_country cfg) g s request,
                 basket_user (row (baskets s) (vb_basket vb)),
                 pv_product (row (product_versions s) (vb_product_version vb)))))
         (\<lambda>(total_price_paid, country, user, product).
        bindp (lift_result country) (\<lambda>country_code.
        bindp (asks (\<lambda>s. (tax_rate_info s country_code,
                 first_of (order_by_desc (\<lambda>k. ord_created_on (row (orders s) k)) (open_orders s user product)))))
         (\<lambda>((tax_rate, tax_rate_name), existing).
        bindp (save_order existing (new_order (sc_now cfg) user)
                (\<lambda>r. r\<lparr>ord_total_price_paid := total_price_paid, ord_tax_country_code := country_code,
                       ord_tax_rate := Some tax_rate, ord_tax_rate_name := tax_rate_name\<rparr>)) (\<lambda>order.
        mirror_basket vb affiliate_id order)))))"

section \<open>Completing an order\<close>

definition get_company_affiliation :: "'z shop_db_scheme \<Rightarrow> nat \<Rightarrow> nat option" where
  "get_company_affiliation s order =
     (case t_last (coupon_redemptions s) (\<lambda>_ r. cred_order r = order) of
        None \<Rightarrow> None
      | Some redemption \<Rightarrow>
          cpv_company (payment_version_of s (row (coupon_versions s) (cred_coupon_version (row (coupon_redemptions s) redemption)))))"

definition get_order_programs :: "'z shop_db_scheme \<Rightarrow> nat \<Rightarrow> nat list" where
  "get_order_programs s order =
     concat (map (\<lambda>l. case prod_content (row (products s) (pv_product (row (product_versions s)
                              (line_product_version (row (lines s) l))))) of
                        ProgramContent k \<Rightarrow> [k] | _ \<Rightarrow> []) (order_lines s order))"

text \<open>
  The newest voucher of the purchaser for a product of the order, and its link to one of the new enrollments; an
  enrollment can belong to one voucher only.
\<close>

definition voucher_of_order :: "'z shop_db_scheme \<Rightarrow> nat \<Rightarrow> nat option" where
  "voucher_of_order s order =
     first_of (order_by_desc (\<lambda>k. voucher_uploaded (row (vouchers s) k))
       (matching (vouchers s) (\<lambda>_ v. voucher_user v = ord_purchaser (row (orders s) order) \<and>
          voucher_product v \<in> Some ` set (map (\<lambda>l. pv_product (row (product_versions s) (line_product_version (row (lines s) l))))
             (order_lines s order)))))"

definition voucher_target :: "'z shop_db_scheme \<Rightarrow> nat \<Rightarrow> content option" where
  "voucher_target s voucher =
     (let v = row (vouchers s) voucher
      in if voucher_is_redeemed s voucher \<and> voucher_enrollment v = None
         then map_option (\<lambda>p. prod_content (row (products s) p)) (voucher_product v) else None)"

definition link_voucher :: "nat \<Rightarrow> nat list \<Rightarrow> ('z shop_db_scheme, unit) prog" where
  "link_voucher order successful_run_enrollments =
     bindp (asks (\<lambda>s. voucher_of_order s order)) (\<lambda>voucher.
     case voucher of
       None \<Rightarrow> ret ()
     | Some v \<Rightarrow>
         bindp (asks (\<lambda>s. first_or_none (filter
             (\<lambda>e. voucher_target s v = Some (CourseRunContent (enr_run (row (run_enrollments s) e)))) successful_run_enrollments)))
           (\<lambda>enrollment.
         case enrollment of
           None \<Rightarrow> ret ()
         | Some e \<Rightarrow>
             bindp (asks (\<lambda>s. t_exists (vouchers s) (\<lambda>j r. j \<noteq> v \<and> voucher_enrollment r = Some e))) (\<lambda>taken.
             if taken then raise (IntegrityError ''voucher_voucher_enrollment_id_key'')
             else db_save vouchers vouchers_update v (\<lambda>r. r\<lparr>voucher_enrollment := Some e\<rparr>))))"

definition enroll_user_in_order_items :: "shop_config \<Rightarrow> nat \<Rightarrow> ('z shop_db_scheme, unit) prog" where
  "enroll_user_in_order_items cfg order =
     bindp (db_get ''Line'' lines (\<lambda>_ l. line_order l = order)) (\<lambda>order_line.
     bindp (asks (\<lambda>s. (map (\<lambda>k. lrs_run (row (line_run_selections s) k))
                  (matching (line_run_selections s) (\<lambda>_ l. lrs_line l = order_line)),
                get_order_programs s order, get_company_affiliation s order, ord_purchaser (row (orders s) order))))
       (\<lambda>(runs, order_programs, company, purchaser).
     bindp (if runs \<noteq> []
            then bindp (create_run_enrollments (sc_edx cfg) (sc_welcome_enabled cfg) (sc_now cfg) purchaser runs True
                          (Some order) company) (\<lambda>(es, _). ret es)
            else ret []) (\<lambda>successful_run_enrollments.
     thenp (link_voucher order successful_run_enrollments)
       (if order_programs \<noteq> []
        then bindp (create_program_enrollments (sc_now cfg) purchaser order_programs (Some order) company) (\<lambda>_. ret ())
        else ret ()))))"

definition complete_order :: "shop_config \<Rightarrow> nat \<Rightarrow> ('z shop_db_scheme, unit) prog" where
  "complete_order cfg order =
     thenp (enroll_user_in_order_items cfg order)
    (bindp (asks (\<lambda>s. (map (\<lambda>r. cv_coupon (row (coupon_versions s) (cred_coupon_version (row (coupon_redemptions s) r))))
                         (order_redemptions s order),
                       ord_purchaser (row (orders s) order),
                       user_email (row (users s) (ord_purchaser (row (orders s) order))))))
       (\<lambda>(order_coupon_ids, purchaser, email).
     thenp (if order_coupon_ids \<noteq> [] then set_coupons_to_redeemed email order_coupon_ids else ret ())
       (clear_and_delete_baskets (sc_basket_expiry_days cfg) (sc_now cfg) (Some purchaser))))"

section \<open>Payment notifications\<close>

definition CYBERSOURCE_DECISION_ACCEPT :: string where "CYBERSOURCE_DECISION_ACCEPT = ''ACCEPT''"
definition CYBERSOURCE_DECISION_CANCEL :: string where "CYBERSOURCE_DECISION_CANCEL = ''CANCEL''"

text \<open>For both kinds of orders; \<open>name\<close> is the text of the order in the error message.\<close>

definition determine_order_status_change :: "string \<Rightarrow> order_status \<Rightarrow> string \<Rightarrow> exn + order_status option" where
  "determine_order_status_change name status decision =
     (if status = OrderFailed \<and> decision = CYBERSOURCE_DECISION_CANCEL then Inr None
      else if status \<noteq> OrderCreated
      then Inl (EcommerceException (name @ '' is expected to have status '' @ [CHR 0x27] @ ''created'' @ [CHR 0x27]))
      else if decision \<noteq> CYBERSOURCE_DECISION_ACCEPT then Inr (Some OrderFailed)
      else Inr (Some OrderFulfilled))"

text \<open>The rest of \<open>fulfill_order\<close>, once the new status is known.\<close>

definition change_order_status ::
  "shop_config \<Rightarrow> nat \<Rightarrow> string option \<Rightarrow> order_status \<Rightarrow> ('z shop_db_scheme, unit) prog" where
  "change_order_status cfg order req_bill_to_email new_order_status =
     thenp (db_save orders orders_update order (\<lambda>r. r\<lparr>ord_status := new_order_status\<rparr>))
    (thenp (sync_hubspot_deal cfg order)
    (thenp (whenp (new_order_status = OrderFulfilled)
              (thenp (complete_order cfg order)
                 (send_ecommerce_order_receipt (sc_cms cfg) (sc_credits cfg) (sc_environment cfg) order req_bill_to_email)))
       (save_and_log_order order (\<lambda>r. r) None)))"

definition fulfill_order :: "shop_config \<Rightarrow> payload \<Rightarrow> ('z shop_db_scheme, unit) prog" where
  "fulfill_order cfg request_data =
     bindp (db_create receipts receipts_update \<lparr>receipt_order = None, receipt_data = request_data\<rparr>) (\<lambda>receipt.
     case map_of request_data ''req_reference_number'' of
       None \<Rightarrow> raise (KeyError ''req_reference_number'')
     | Some ref_number \<Rightarrow>
         bindp (asks (\<lambda>s. get_by_reference_number ''Order'' (order_reference_number_prefix (sc_environment cfg))
                            (orders s) ref_number)) (\<lambda>found.
         bindp (lift_result found) (\<lambda>order.
         thenp (db_save receipts receipts_update receipt (\<lambda>r. r\<lparr>receipt_order := Some order\<rparr>))
           (case map_of request_data ''decision'' of
              None \<Rightarrow> raise (KeyError ''decision'')
            | Some decision \<Rightarrow>
                bindp (asks (\<lambda>s. determine_order_status_change (order_str order (row (orders s) order))
                                   (ord_status (row (orders s) order)) decision)) (\<lambda>change.
                bindp (lift_result change) (\<lambda>new_order_status.
                case new_order_status of
                  None \<Rightarrow> ret ()
                | Some st \<Rightarrow> change_order_status cfg order (map_of request_data ''req_bill_to_email'') st))))))"

section \<open>The check-out view\<close>

record checkout_response =
  cr_payload :: "(string \<times> field) list"
  cr_url :: string
  cr_method :: string

definition free_order_payload :: "'z shop_db_scheme \<Rightarrow> nat \<Rightarrow> nat \<Rightarrow> string \<Rightarrow> (string \<times> field) list" where
  "free_order_payload s order product text_id =
     [(''transaction_id'', FText (''T-'' @ nat_str order)), (''transaction_total'', FText ''0.0''),
      (''product_type'', FText (product_type_string (row (products s) product))),
      (''courseware_id'', FText text_id), (''reference_number'', FText (''REF-'' @ nat_str order))]"

text \<open>
  \<open>CheckoutView.post\<close> for a signed-in user. The requests of the view, of the affiliate middleware and of the tax
  look-up are the same HTTP request; \<open>base_url\<close> is its absolute root address.
\<close>

definition checkout_view ::
  "shop_config \<Rightarrow> cybersource_settings \<Rightarrow> (string \<Rightarrow> string \<Rightarrow> string) \<Rightarrow> string \<Rightarrow> 'g geo_db_scheme \<Rightarrow> string \<Rightarrow> nat \<Rightarrow>
   affiliate_request \<Rightarrow> string option \<Rightarrow> ('z shop_db_scheme, checkout_response) prog" where
  "checkout_view cfg cs hmac_b64 secure_acceptance_url g base_url user areq client_ip =
     bindp (validate_basket_for_checkout (sc_now cfg) user) (\<lambda>validated_basket.
     bindp (asks (\<lambda>s. get_affiliate_id_from_request s areq)) (\<lambda>affiliate_id.
     bindp (create_or_update_unfulfilled_order cfg g validated_basket affiliate_id
              (Some \<lparr>req_user = Some user, req_client_ip = client_ip\<rparr>)) (\<lambda>order.
     bindp (asks (\<lambda>s. pv_product (row (product_versions s) (vb_product_version validated_basket)))) (\<lambda>product.
     bindp (asks (\<lambda>s. content_text_id s (prod_content (row (products s) product)))) (\<lambda>text_id_result.
     bindp (lift_result text_id_result) (\<lambda>text_id.
     let receipt_url = make_receipt_url base_url text_id
     in bindp (asks (\<lambda>s. ord_total_price_paid (row (orders s) order))) (\<lambda>total_price_paid.
        if total_price_paid = 0
        then
          thenp (db_save orders orders_update order (\<lambda>r. r\<lparr>ord_status := OrderFulfilled\<rparr>))
         (thenp (sync_hubspot_deal cfg order)
         (thenp (complete_order cfg order)
         (thenp (save_and_log_order order (\<lambda>r. r) (Some user))
         (bindp (asks (\<lambda>s. free_order_payload s order product text_id)) (\<lambda>payload.
          thenp (send_ecommerce_order_receipt (sc_cms cfg) (sc_credits cfg) (sc_environment cfg) order None)
            (ret \<lparr>cr_payload = payload, cr_url = receipt_url, cr_method = ''GET''\<rparr>))))))
        else
          bindp (asks (\<lambda>s. generate_cybersource_sa_payload hmac_b64 cs (sc_environment cfg) s order receipt_url
                             (url_origin base_url @ ''/checkout/'') client_ip)) (\<lambda>result.
          bindp (lift_result result) (\<lambda>payload.
          ret \<lparr>cr_payload = payload, cr_url = secure_acceptance_url, cr_method = ''POST''\<rparr>)))))))))"

section \<open>What completing an order leaves alone\<close>

text \<open>
  The tables that completing an order writes. A property of the database that does not depend on any of them is kept
  by it; this is how the theorems below know that orders, lines and receipts stay as they are.
\<close>

locale sends_frame =
  fixes I :: "'z shop_db_scheme \<Rightarrow> bool"
  assumes frame_effects: "I s \<Longrightarrow> I (effects_update f s)"
begin

lemma keeps_sends: "only_sends m \<Longrightarrow> keeps I m"
proof (rule keepsI)
  fix s assume "only_sends m" and I: "I s"
  then obtain c where "snd (m s) = s\<lparr>effects := effects s @ c\<rparr>" by (auto simp: only_sends_def)
  with frame_effects [OF I, of "\<lambda>_. effects s @ c"] show "I (snd (m s))" by simp
qed

lemma keeps_effect: "keeps I (emit e)"
  by (rule keeps_sends) (rule only_sends_emit)

lemma keeps_failure_message: "keeps I (send_enrollment_failure_message n t m)"
  unfolding send_enrollment_failure_message_def by (intro keeps_intros keeps_effect)

lemma keeps_receipt_message: "keeps I (send_ecommerce_order_receipt cms cr env n b)"
  unfolding send_ecommerce_order_receipt_def by (intro keeps_intros keeps_effect)

end

text \<open>The enrollments in the selected runs come first.\<close>

locale run_enrollment_frame = sends_frame +
  assumes frame_run_enrollments: "I s \<Longrightarrow> I (run_enrollments_update a s)"
    and frame_run_enrollment_audits: "I s \<Longrightarrow> I (run_enrollment_audits_update b s)"
begin

lemma keeps_log_run: "keeps I (save_and_log_run_enrollment n f u)"
  by (rule keepsI) (simp add: save_and_log_run_enrollment_run Let_def frame_run_enrollments frame_run_enrollment_audits)

lemma keeps_create_run_enrollments: "keeps I (create_run_enrollments sv w now u runs keep n c)"
proof -
  have goc: "keeps I (db_get_or_create m run_enrollments run_enrollments_update P r)" for m P r
    by (rule keepsI) (simp add: db_get_or_create_run frame_run_enrollments)
  show ?thesis
    unfolding create_run_enrollments_def create_run_enrollment_def get_or_reactivate_run_enrollment_def
      send_course_run_enrollment_welcome_email_def
    by (intro keeps_intros keeps_effect keeps_log_run keeps_failure_message goc keeps_sends [OF only_sends_enroll_runs])
qed

end

text \<open>Then come the voucher, the enrollments in programs, the coupons and the basket.\<close>

locale after_enrollment_frame = sends_frame +
  assumes frame_program_enrollments: "I s \<Longrightarrow> I (program_enrollments_update c s)"
    and frame_program_enrollment_audits: "I s \<Longrightarrow> I (program_enrollment_audits_update d s)"
    and frame_vouchers: "I s \<Longrightarrow> I (vouchers_update g s)"
    and frame_assignments: "I s \<Longrightarrow> I (product_coupon_assignments_update h s)"
    and frame_basket_items: "I s \<Longrightarrow> I (basket_items_update i s)"
    and frame_course_run_selections: "I s \<Longrightarrow> I (course_run_selections_update j s)"
    and frame_coupon_selections: "I s \<Longrightarrow> I (coupon_selections_update k s)"
    and frame_baskets: "I s \<Longrightarrow> I (baskets_update l s)"
begin

lemma keeps_log_program: "keeps I (save_and_log_program_enrollment n f u)"
  by (rule keepsI) (simp add: save_and_log_program_enrollment_run Let_def frame_program_enrollments frame_program_enrollment_audits)

lemma keeps_create_program_enrollments: "keeps I (create_program_enrollments now u ps n c)"
proof -
  have goc: "keeps I (db_get_or_create m program_enrollments program_enrollments_update P r)" for m P r
    by (rule keepsI) (simp add: db_get_or_create_run frame_program_enrollments)
  show ?thesis
    unfolding create_program_enrollments_def create_program_enrollment_def
    by (intro keeps_intros keeps_effect keeps_log_program keeps_failure_message goc)
qed

lemma keeps_set_coupons_to_redeemed: "keeps I (set_coupons_to_redeemed e cs)"
proof -
  have "keeps I (db_save product_coupon_assignments product_coupon_assignments_update n f)" for n f
    by (rule keepsI) (simp add: frame_assignments)
  then show ?thesis
    unfolding set_coupons_to_redeemed_def by (intro keeps_intros keeps_effect)
qed

lemma keeps_clear_baskets: "keeps I (clear_and_delete_baskets n m u)"
proof -
  have "keeps I (delete_basket b)" for b
    by (rule keepsI) (simp add: delete_basket_run without_baskets_def frame_basket_items frame_course_run_selections
        frame_coupon_selections frame_baskets)
  then show ?thesis
    unfolding clear_and_delete_baskets_def Let_def by (intro keeps_intros)
qed

lemma keeps_link_voucher: "keeps I (link_voucher n es)"
proof -
  have "keeps I (db_save vouchers vouchers_update m f)" for m f
    by (rule keepsI) (simp add: frame_vouchers)
  then show ?thesis
    unfolding link_voucher_def by (intro keeps_intros)
qed

end

locale completion_frame = run_enrollment_frame + after_enrollment_frame
begin

lemma keeps_enroll: "keeps I (enroll_user_in_order_items cfg n)"
  unfolding enroll_user_in_order_items_def
  by (intro keeps_intros keeps_link_voucher keeps_create_run_enrollments keeps_create_program_enrollments)

lemma keeps_complete_order: "keeps I (complete_order cfg n)"
  unfolding complete_order_def
  by (intro keeps_intros keeps_enroll keeps_set_coupons_to_redeemed keeps_clear_baskets)

end

definition order_core ::
  "'z shop_db_scheme \<Rightarrow> order_row table \<times> order_dict audit_row table \<times> line_row table \<times> line_run_selection_row table \<times>
     program_run_line_row table \<times> coupon_redemption_row table \<times> receipt_row table \<times> product_version_row table" where
  "order_core s = (orders s, order_audits s, lines s, line_run_selections s, program_run_lines s, coupon_redemptions s,
     receipts s, product_versions s)"

interpretation core: completion_frame "\<lambda>s. order_core s = T" for T
  by unfold_locales (simp_all add: order_core_def)

lemma complete_order_core: "complete_order cfg k s = (r, s') \<Longrightarrow> order_core s' = order_core s"
  using keepsD [OF core.keeps_complete_order] by blast

lemma receipt_message_core: "send_ecommerce_order_receipt cms cr env k b s = (r, s') \<Longrightarrow> order_core s' = order_core (s :: shop_db)"
  using keepsD [OF core.keeps_receipt_message] by blast

lemma hubspot_core: "sync_hubspot_deal cfg k s = (r, s') \<Longrightarrow> order_core s' = order_core (s :: shop_db) \<and> r = Inr ()"
  by (auto simp: sync_hubspot_deal_def order_core_def bindp_run split: if_splits)

section \<open>Payment notifications\<close>

lemma t_save_id [simp]: "t_save t k (\<lambda>r. r) = t"
  by (simp add: t_save_def)

lemma t_save_new: "t_save (snd (t_create t r)) (next_pk t) f = snd (t_create t (f r))"
  by (simp add: t_save_def t_create_def)

lemma change_order_status_cases:
  assumes "change_order_status cfg k b st s = (r, s')"
  shows "orders s' = t_save (orders s) k (\<lambda>x. x\<lparr>ord_status := st\<rparr>) \<and> receipts s' = receipts s \<and> lines s' = lines s \<and>
    coupon_redemptions s' = coupon_redemptions (s :: shop_db)"
proof -
  let ?s1 = "s\<lparr>orders := t_save (orders s) k (\<lambda>x. x\<lparr>ord_status := st\<rparr>)\<rparr>"
  let ?work = "whenp (st = OrderFulfilled) (thenp (complete_order cfg k)
      (send_ecommerce_order_receipt (sc_cms cfg) (sc_credits cfg) (sc_environment cfg) k b))"
  obtain r2 s2 where h: "sync_hubspot_deal cfg k ?s1 = (r2, s2)" by fastforce
  obtain r3 s3 where w: "?work s2 = (r3, s3)" by fastforce
  have "keeps (\<lambda>s. order_core s = T) ?work" for T
    by (intro keeps_intros core.keeps_complete_order core.keeps_receipt_message)
  from keepsD [OF this w] hubspot_core [OF h] have core: "order_core s3 = order_core ?s1" by auto
  have "(r, s') = (case r3 of Inl e \<Rightarrow> (Inl e, s3) | Inr _ \<Rightarrow> save_and_log_order k (\<lambda>r. r) None s3)"
    using assms h w hubspot_core [OF h]
    by (auto simp: change_order_status_def thenp_run split: sum.splits)
  then have "orders s' = orders s3 \<and> receipts s' = receipts s3 \<and> lines s' = lines s3 \<and> coupon_redemptions s' = coupon_redemptions s3"
    by (auto simp: save_and_log_order_run Let_def split: sum.splits)
  with core show ?thesis by (simp add: order_core_def)
qed

definition notified_order :: "shop_config \<Rightarrow> shop_db \<Rightarrow> payload \<Rightarrow> nat option" where
  "notified_order cfg s data =
     (case map_of data ''req_reference_number'' of
        None \<Rightarrow> None
      | Some ref_number \<Rightarrow>
          (case get_by_reference_number ''Order'' (order_reference_number_prefix (sc_environment cfg)) (orders s) ref_number of
             Inl _ \<Rightarrow> None | Inr k \<Rightarrow> Some k))"

lemma fulfill_order_effect:
  assumes "fulfill_order cfg data s = (r, s')"
  shows "receipts s' = snd (t_create (receipts s) \<lparr>receipt_order = notified_order cfg s data, receipt_data = data\<rparr>) \<and>
    (case notified_order cfg s data of
       None \<Rightarrow> orders s' = orders s \<and> (\<exists>e. r = Inl e)
     | Some k \<Rightarrow>
         (case map_of data ''decision'' of
            None \<Rightarrow> orders s' = orders s \<and> r = Inl (KeyError ''decision'')
          | Some decision \<Rightarrow>
              if ord_status (row (orders s) k) = OrderCreated
              then orders s' = t_save (orders s) k (\<lambda>x. x\<lparr>ord_status :=
                     (if decision = ''ACCEPT'' then OrderFulfilled else OrderFailed)\<rparr>)
              else orders s' = orders s \<and>
                (if ord_status (row (orders s) k) = OrderFailed \<and> decision = ''CANCEL'' then r = Inr ()
                 else \<exists>m. r = Inl (EcommerceException m))))"
proof -
  let ?s1 = "s\<lparr>receipts := snd (t_create (receipts s) \<lparr>receipt_order = None, receipt_data = data\<rparr>)\<rparr>"
  show ?thesis
  proof (cases "notified_order cfg s data")
    case None
    with assms show ?thesis
      by (auto simp: fulfill_order_def notified_order_def bindp_run split: option.splits sum.splits)
  next
    case (Some k)
    let ?s2 = "s\<lparr>receipts := snd (t_create (receipts s) \<lparr>receipt_order = Some k, receipt_data = data\<rparr>)\<rparr>"
    have tail: "(case map_of data ''decision'' of
          None \<Rightarrow> raise (KeyError ''decision'')
        | Some decision \<Rightarrow>
            bindp (asks (\<lambda>s. determine_order_status_change (order_str k (row (orders s) k))
                               (ord_status (row (orders s) k)) decision)) (\<lambda>change.
            bindp (lift_result change) (\<lambda>new_order_status.
            case new_order_status of
              None \<Rightarrow> ret ()
            | Some st \<Rightarrow> change_order_status cfg k (map_of data ''req_bill_to_email'') st))) ?s2 = (r, s')"
      using assms Some
      by (auto simp: fulfill_order_def notified_order_def bindp_run thenp_run t_save_new split: option.splits sum.splits)
    then show ?thesis
      unfolding Some
      by (auto simp: bindp_run determine_order_status_change_def CYBERSOURCE_DECISION_ACCEPT_def CYBERSOURCE_DECISION_CANCEL_def
          split: option.splits sum.splits if_splits dest!: change_order_status_cases)
  qed
qed

text \<open>
  C5: Every notification is stored as a receipt, whatever happens then. Without a reference number that names an
  order it raises and no order changes. Otherwise the receipt is linked to the order, and the order's
  status changes if and only if it is created: to fulfilled when the decision is ACCEPT, else to failed. A
  cancellation of a failed order is ignored; any other notification for a processed order is refused.
  No other order changes, even if the completion of the order raises.
\<close>

theorem fulfill_order_spec:
  assumes "fulfill_order cfg data s = (r, s')"
  shows "receipts s' = snd (t_create (receipts s) \<lparr>receipt_order = notified_order cfg s data, receipt_data = data\<rparr>) \<and>
    (case notified_order cfg s data of
       None \<Rightarrow> orders s' = orders s \<and> (\<exists>e. r = Inl e)
     | Some k \<Rightarrow>
         (case map_of data ''decision'' of
            None \<Rightarrow> orders s' = orders s \<and> r = Inl (KeyError ''decision'')
          | Some decision \<Rightarrow>
              if ord_status (row (orders s) k) = OrderCreated
              then orders s' = t_save (orders s) k (\<lambda>x. x\<lparr>ord_status :=
                     (if decision = ''ACCEPT'' then OrderFulfilled else OrderFailed)\<rparr>)
              else orders s' = orders s \<and>
                (if ord_status (row (orders s) k) = OrderFailed \<and> decision = ''CANCEL'' then r = Inr ()
                 else \<exists>m. r = Inl (EcommerceException m))))"
  by (rule fulfill_order_effect [OF assms])

lemma notified_order_pks:
  assumes "pks (orders t) = pks (orders s)"
  shows "notified_order cfg t data = notified_order cfg s data"
proof -
  have "get_by_reference_number m p (orders t) n = get_by_reference_number m p (orders s) n" for m p n
    using assms by (cases "get_order_id_by_reference_number n p")
      (simp_all add: get_by_reference_number_def t_get_def matching_def)
  then show ?thesis by (simp only: notified_order_def)
qed

text \<open>
  C6: An order is processed at most once. After a notification that found it created, every further
  notification leaves all orders as they are, and it is refused unless it is the cancellation of a failed
  order. This holds even if the first notification raised while it enrolled the user: then the order is
  fulfilled, but repeating the notification cannot repair the missing enrollments.
\<close>

theorem notification_processed_once:
  assumes first: "fulfill_order cfg data s = (r1, s1)" and k: "notified_order cfg s data = Some k"
    and created: "ord_status (row (orders s) k) = OrderCreated" and decision: "map_of data ''decision'' = Some d"
    and second: "fulfill_order cfg data' s1 = (r2, s2)" and same: "notified_order cfg s data' = Some k"
  shows "ord_status (row (orders s1) k) = (if d = ''ACCEPT'' then OrderFulfilled else OrderFailed) \<and>
    orders s2 = orders s1 \<and> (r2 = Inr () \<longrightarrow> d \<noteq> ''ACCEPT'' \<and> map_of data' ''decision'' = Some ''CANCEL'')"
proof -
  from fulfill_order_effect [OF first] k created decision
  have o1: "orders s1 = t_save (orders s) k (\<lambda>x. x\<lparr>ord_status := (if d = ''ACCEPT'' then OrderFulfilled else OrderFailed)\<rparr>)"
    by simp
  then have st: "ord_status (row (orders s1) k) = (if d = ''ACCEPT'' then OrderFulfilled else OrderFailed)" by simp
  then have "ord_status (row (orders s1) k) \<noteq> OrderCreated" by simp
  moreover have "notified_order cfg s1 data' = Some k"
    using same notified_order_pks [of s1 s] o1 by simp
  ultimately have "orders s2 = orders s1 \<and> (r2 = Inr () \<longrightarrow>
      map_of data' ''decision'' = Some ''CANCEL'' \<and> ord_status (row (orders s1) k) = OrderFailed)"
    using fulfill_order_effect [OF second] by (auto split: option.splits if_splits)
  with st show ?thesis by auto
qed

subsection \<open>A concrete notification\<close>

definition example_config :: shop_config where
  "example_config = \<lparr>sc_environment = ''ci'', sc_hubspot_token = True, sc_welcome_enabled = False,
     sc_basket_expiry_days = 15, sc_force_profile_country = False, sc_edx = open_service, sc_cms = no_cms_pages,
     sc_credits = (\<lambda>_. (None, [])), sc_now = 10\<rparr>"

definition example_notification :: payload where
  "example_notification = [(''req_reference_number'', ''xpro-b2c-ci-1''), (''decision'', ''ACCEPT'')]"

lemma example_notified: "notified_order example_config example_checked_out example_notification = Some 1"
proof -
  have one: "nat_str 1 = ''1''"
    by (subst nat_str.simps) (simp add: digit_chars_def)
  have ref: "''xpro-b2c-ci-1'' = reference_number (order_reference_number_prefix ''ci'') 1"
    by (simp add: reference_number_def order_reference_number_prefix_def REFERENCE_NUMBER_PREFIX_def one [unfolded One_nat_def])
  have "get_by_reference_number ''Order'' (order_reference_number_prefix ''ci'') (orders example_checked_out) ''xpro-b2c-ci-1'' = Inr 1"
    unfolding ref get_by_reference_number_def using order_id_of_reference_number [of "order_reference_number_prefix ''ci''" 1]
    by (simp add: t_get_def matching_def example_checked_out_def table_of_def the_only_def)
  then show ?thesis
    by (simp add: notified_order_def example_notification_def example_config_def)
qed

lemma example_created: "ord_status (row (orders example_checked_out) 1) = OrderCreated"
  by (simp add: example_checked_out_def table_of_def example_order_def)

lemma fulfill_order_spec_witness:
  "ord_status (row (orders (snd (fulfill_order example_config example_notification example_checked_out))) 1) = OrderFulfilled"
  using fulfill_order_spec [OF prod.collapse [symmetric], of example_config example_notification example_checked_out]
    example_notified example_created
  by (simp add: example_notification_def)

lemma notification_processed_once_witness:
  "orders (snd (fulfill_order example_config example_notification
      (snd (fulfill_order example_config example_notification example_checked_out)))) =
   orders (snd (fulfill_order example_config example_notification example_checked_out))"
  using notification_processed_once [OF prod.collapse [symmetric] example_notified example_created _
      prod.collapse [symmetric] example_notified, where d = "''ACCEPT''"]
  by (simp add: example_notification_def)

section \<open>The order that mirrors a basket\<close>

lemma t_update_or_create_cases:
  "(matching t P = [] \<and> t_update_or_create m t P f r = (Inr (next_pk t, True), snd (t_create t r))) \<or>
   (\<exists>k. matching t P = [k] \<and> t_update_or_create m t P f r = (Inr (k, False), t_save t k f)) \<or>
   (1 < length (matching t P) \<and> t_update_or_create m t P f r = (Inl (MultipleObjectsReturned m), t))"
  by (cases "matching t P" rule: remdups_adj.cases) (auto simp: t_update_or_create_def t_create_def)

definition orders_ok :: "shop_db \<Rightarrow> bool" where
  "orders_ok s \<longleftrightarrow> wf_table (orders s) \<and> wf_table (lines s) \<and> wf_table (line_run_selections s) \<and>
     wf_table (coupon_redemptions s) \<and>
     (\<forall>l \<in> set (pks (lines s)). line_order (row (lines s) l) \<in> set (pks (orders s))) \<and>
     (\<forall>o1 \<in> set (pks (orders s)). length (order_lines s o1) \<le> 1) \<and>
     (\<forall>u p. length (open_orders s u p) \<le> 1)"

definition synced_line :: "nat \<Rightarrow> shop_db \<Rightarrow> validated_basket \<Rightarrow> line_row" where
  "synced_line order s vb = \<lparr>line_order = order, line_product_version = vb_product_version vb,
     line_quantity = bi_quantity (row (basket_items s) (vb_basket_item vb))\<rparr>"

text \<open>What happens to the lines: the order's line is overwritten, or a new one made.\<close>

lemma sync_line_cases:
  assumes "sync_line order vb s = (r, s')" and "wf_table (lines s)" and "wf_table (line_run_selections s)"
  shows "(1 < length (order_lines s order) \<and> (\<exists>e. r = Inl e)) \<or>
    (\<exists>line. r = Inr () \<and>
      (order_lines s order = [line] \<and> lines s' = t_save (lines s) line (\<lambda>_. synced_line order s vb) \<or>
       order_lines s order = [] \<and> line = next_pk (lines s) \<and> lines s' = snd (t_create (lines s) (synced_line order s vb))) \<and>
      wf_table (line_run_selections s') \<and>
      map (\<lambda>k. lrs_run (row (line_run_selections s') k)) (matching (line_run_selections s') (\<lambda>_ l. lrs_line l = line)) =
        vb_run_selection_ids vb \<and>
      s' = s\<lparr>lines := lines s', program_run_lines := program_run_lines s', line_run_selections := line_run_selections s'\<rparr>)"
proof -
  let ?item = "row (basket_items s) (vb_basket_item vb)" and ?new = "synced_line order s vb"
  let ?P = "\<lambda>_ l. line_order l = order"
    and ?f = "\<lambda>l. l\<lparr>line_product_version := vb_product_version vb, line_quantity := bi_quantity ?item\<rparr>"
  let ?sel = "\<lambda>line. map (\<lambda>r. \<lparr>lrs_line = line, lrs_run = r\<rparr>) (vb_run_selection_ids vb)"
  let ?runs = "\<lambda>line. snd (t_bulk_create (t_delete (line_run_selections s) (\<lambda>_ l. lrs_line l = line)) (?sel line))"
  have run: "(\<exists>line. r = Inr () \<and> line_run_selections s' = ?runs line \<and> lines s' = T \<and>
      s' = s\<lparr>lines := lines s', program_run_lines := program_run_lines s', line_run_selections := line_run_selections s'\<rparr> \<and> line = k)"
    if "t_update_or_create ''Line'' (lines s) ?P ?f ?new = (Inr (k, c), T)" for k c T
    using assms(1) that
    by (auto simp: sync_line_def synced_line_def bindp_run thenp_run db_update_or_create_run split: option.splits)
  have runs_ok: "wf_table (?runs line) \<and>
      map (\<lambda>k. lrs_run (row (?runs line) k)) (matching (?runs line) (\<lambda>_ l. lrs_line l = line)) = vb_run_selection_ids vb" for line
  proof -
    let ?t = "t_delete (line_run_selections s) (\<lambda>_ l. lrs_line l = line)"
    have wf: "wf_table ?t" using assms(3) by simp
    have "matching (?runs line) (\<lambda>_ l. lrs_line l = line) = [next_pk ?t ..< next_pk ?t + length (?sel line)]"
      by (subst matching_t_bulk_create [OF wf]) (auto simp: fst_t_bulk_create)
    moreover have "map (\<lambda>k. lrs_run (row (?runs line) k)) [next_pk ?t ..< next_pk ?t + length (?sel line)] = vb_run_selection_ids vb"
      by (rule nth_equalityI) (use row_t_bulk_create_new [of _ "?sel line" ?t] in auto)
    ultimately show ?thesis using wf by simp
  qed
  have line_of: "order_lines s order = matching (lines s) ?P" by (simp add: order_lines_def)
  consider (none) "order_lines s order = []" "t_update_or_create ''Line'' (lines s) ?P ?f ?new = (Inr (next_pk (lines s), True), snd (t_create (lines s) ?new))"
    | (one) k where "order_lines s order = [k]" "t_update_or_create ''Line'' (lines s) ?P ?f ?new = (Inr (k, False), t_save (lines s) k ?f)"
    | (many) "1 < length (order_lines s order)" "t_update_or_create ''Line'' (lines s) ?P ?f ?new = (Inl (MultipleObjectsReturned ''Line''), lines s)"
    using t_update_or_create_cases [of "lines s" ?P "''Line''" ?f ?new] unfolding line_of by blast
  then show ?thesis
  proof cases
    case none
    from run [OF none(2)] runs_ok none(1) show ?thesis by auto
  next
    case (one k)
    then have "k \<in> set (matching (lines s) ?P)" using line_of by simp
    then have "?f (row (lines s) k) = ?new"
      by (cases "row (lines s) k") (simp add: synced_line_def)
    then have "t_save (lines s) k ?f = t_save (lines s) k (\<lambda>_. ?new)"
      by (simp add: t_save_def)
    with run [OF one(2)] runs_ok one(1) show ?thesis by auto
  next
    case many
    have "\<exists>e. r = Inl e"
      using assms(1) many(2) by (auto simp: sync_line_def synced_line_def bindp_run db_update_or_create_run)
    with many(1) show ?thesis by blast
  qed
qed


lemma sync_redemption_cases:
  assumes "sync_redemption order vb s = (r, s')" and "wf_table (coupon_redemptions s)"
  shows "(\<exists>e. r = Inl e) \<or>
    (r = Inr () \<and> wf_table (coupon_redemptions s') \<and>
     map (\<lambda>k. cred_coupon_version (row (coupon_redemptions s') k)) (order_redemptions s' order) = the_list (vb_coupon_version vb) \<and>
     s' = s\<lparr>coupon_redemptions := coupon_redemptions s'\<rparr>)"
proof (cases "vb_coupon_version vb")
  case None
  with assms show ?thesis
    by (auto simp: sync_redemption_def order_redemptions_def the_list_def)
next
  case (Some v)
  let ?P = "\<lambda>_ r. cred_order r = order" and ?f = "\<lambda>r. r\<lparr>cred_coupon_version := v\<rparr>"
    and ?new = "\<lparr>cred_coupon_version = v, cred_order = order\<rparr>"
  show ?thesis
    using t_update_or_create_cases [of "coupon_redemptions s" ?P "''CouponRedemption''" ?f ?new]
  proof (elim disjE conjE exE)
    assume "matching (coupon_redemptions s) ?P = []"
      and "t_update_or_create ''CouponRedemption'' (coupon_redemptions s) ?P ?f ?new =
        (Inr (next_pk (coupon_redemptions s), True), snd (t_create (coupon_redemptions s) ?new))"
    with assms Some show ?thesis
      by (auto simp: sync_redemption_def redeem_coupon_def bindp_run db_update_or_create_run order_redemptions_def
          the_list_def matching_t_create row_t_create)
  next
    fix k assume k: "matching (coupon_redemptions s) ?P = [k]"
      and "t_update_or_create ''CouponRedemption'' (coupon_redemptions s) ?P ?f ?new = (Inr (k, False), t_save (coupon_redemptions s) k ?f)"
    moreover have "matching (t_save (coupon_redemptions s) k ?f) ?P = [k]"
      using k by (subst matching_t_save) auto
    ultimately show ?thesis
      using assms Some by (auto simp: sync_redemption_def redeem_coupon_def bindp_run db_update_or_create_run order_redemptions_def the_list_def)
  next
    assume "t_update_or_create ''CouponRedemption'' (coupon_redemptions s) ?P ?f ?new =
        (Inl (MultipleObjectsReturned ''CouponRedemption''), coupon_redemptions s)"
    with assms Some show ?thesis
      by (auto simp: sync_redemption_def redeem_coupon_def bindp_run db_update_or_create_run)
  qed
qed

lemma sync_affiliate_cases:
  "sync_affiliate order a s = (r, s') \<Longrightarrow> s' = (s :: shop_db)\<lparr>referral_actions := referral_actions s'\<rparr>"
  by (auto simp: sync_affiliate_def bindp_run db_get_or_create_run split: option.splits sum.splits)


definition product_of_version :: "shop_db \<Rightarrow> nat \<Rightarrow> nat" where
  "product_of_version s pv = pv_product (row (product_versions s) pv)"

definition mirrored_order :: "shop_config \<Rightarrow> 'g geo_db_scheme \<Rightarrow> shop_db \<Rightarrow> validated_basket \<Rightarrow> web_request option \<Rightarrow> order_row \<Rightarrow> order_row option" where
  "mirrored_order cfg g s vb request r =
     (case determine_visitor_country (sc_force_profile_country cfg) g s request of
        Inl _ \<Rightarrow> None
      | Inr country_code \<Rightarrow>
          Some (r\<lparr>ord_total_price_paid := get_product_version_price_with_discount s (vb_coupon_version vb) (vb_product_version vb),
                  ord_tax_country_code := country_code, ord_tax_rate := Some (fst (tax_rate_info s country_code)),
                  ord_tax_rate_name := snd (tax_rate_info s country_code)\<rparr>))"


lemma create_or_update_run: "create_or_update_unfulfilled_order cfg g vb a request s =
   (case determine_visitor_country (sc_force_profile_country cfg) g s request of Inl e \<Rightarrow> (Inl e, s)
    | Inr country \<Rightarrow> atomic (bindp (save_order
        (first_of (order_by_desc (\<lambda>k. ord_created_on (row (orders s) k)) (open_orders s (basket_user (row (baskets s) (vb_basket vb))) (pv_product (row (product_versions s) (vb_product_version vb))))))
        (new_order (sc_now cfg) (basket_user (row (baskets s) (vb_basket vb))))
        (\<lambda>r. r\<lparr>ord_total_price_paid := get_product_version_price_with_discount s (vb_coupon_version vb) (vb_product_version vb),
      ord_tax_country_code := country, ord_tax_rate := Some (fst (tax_rate_info s country)),
      ord_tax_rate_name := snd (tax_rate_info s country)\<rparr>)) (mirror_basket vb a)) s)"
  unfolding create_or_update_unfulfilled_order_def
  by (simp add: atomic_def bindp_def asks_def lift_result_def case_prod_beta split: sum.split)

text \<open>The two ways the order is saved, and what the rest of the block does to the other tables.\<close>

lemma create_or_update_cases:
  assumes ok: "orders_ok s" and run: "create_or_update_unfulfilled_order cfg g vb a request s = (r, s')"
    and user: "user = basket_user (row (baskets s) (vb_basket vb))" and product: "product = product_of_version s (vb_product_version vb)"
  shows "(\<exists>e. r = Inl e \<and> s' = s) \<or>
    (\<exists>k line o_row. r = Inr k \<and>
      (open_orders s user product = [k] \<and> mirrored_order cfg g s vb request (row (orders s) k) = Some o_row \<and>
         orders s' = t_save (orders s) k (\<lambda>_. o_row) \<and> order_lines s k = [line] \<and>
         lines s' = t_save (lines s) line (\<lambda>_. synced_line k s vb) \<or>
       open_orders s user product = [] \<and> mirrored_order cfg g s vb request (new_order (sc_now cfg) user) = Some o_row \<and>
         k = next_pk (orders s) \<and> orders s' = snd (t_create (orders s) o_row) \<and> line = next_pk (lines s) \<and>
         lines s' = snd (t_create (lines s) (synced_line k s vb))) \<and>
      wf_table (line_run_selections s') \<and> wf_table (coupon_redemptions s') \<and>
      map (\<lambda>k. lrs_run (row (line_run_selections s') k)) (matching (line_run_selections s') (\<lambda>_ l. lrs_line l = line)) =
        vb_run_selection_ids vb \<and>
      map (\<lambda>k. cred_coupon_version (row (coupon_redemptions s') k)) (order_redemptions s' k) = the_list (vb_coupon_version vb) \<and>
      s' = s\<lparr>orders := orders s', lines := lines s', program_run_lines := program_run_lines s',
             line_run_selections := line_run_selections s', coupon_redemptions := coupon_redemptions s',
             referral_actions := referral_actions s'\<rparr>)"
proof (cases r)
  case (Inl e)
  from atomic_all_or_nothing [OF run [unfolded create_or_update_unfulfilled_order_def Inl]] have "s' = s" .
  with Inl show ?thesis by simp
next
  case (Inr k)
  let ?existing = "first_of (order_by_desc (\<lambda>k. ord_created_on (row (orders s) k)) (open_orders s user product))"
  note run' = run [unfolded create_or_update_run product [unfolded product_of_version_def, symmetric] user [symmetric] Inr]
  then obtain country where country: "determine_visitor_country (sc_force_profile_country cfg) g s request = Inr country"
    by (cases "determine_visitor_country (sc_force_profile_country cfg) g s request") simp_all
  let ?f = "\<lambda>r. r\<lparr>ord_total_price_paid := get_product_version_price_with_discount s (vb_coupon_version vb) (vb_product_version vb),
      ord_tax_country_code := country, ord_tax_rate := Some (fst (tax_rate_info s country)),
      ord_tax_rate_name := snd (tax_rate_info s country)\<rparr>"
  have mirrored: "mirrored_order cfg g s vb request r = Some (?f r)" for r
    by (simp add: mirrored_order_def country)
  obtain x s1 where s1: "save_order ?existing (new_order (sc_now cfg) user) ?f s = (x, s1)" by fastforce
  then obtain k1 where k1: "x = Inr k1" by (auto simp: save_order_def thenp_run split: option.splits)
  from run' country s1 k1 have rest: "mirror_basket vb a k1 s1 = (Inr k, s')"
    by (simp add: atomic_run bindp_run split: prod.splits sum.splits)
  have le1: "length (open_orders s user product) \<le> 1" using ok by (simp add: orders_ok_def)
  have wf: "wf_table (orders s)" "wf_table (lines s)" "wf_table (line_run_selections s)" "wf_table (coupon_redemptions s)"
    using ok by (simp_all add: orders_ok_def)
  have s1': "s1 = s\<lparr>orders := orders s1\<rparr>" and wf1: "wf_table (line_run_selections s1)" "wf_table (lines s1)" "wf_table (coupon_redemptions s1)"
    and saved: "(open_orders s user product = [k1] \<and> orders s1 = t_save (orders s) k1 ?f) \<or>
      (open_orders s user product = [] \<and> k1 = next_pk (orders s) \<and> orders s1 = snd (t_create (orders s) (?f (new_order (sc_now cfg) user))))"
    using s1 k1 le1 wf by (cases "open_orders s user product"; auto simp: save_order_def thenp_run order_by_desc_def)+
  obtain r2 s2 where line: "sync_line k1 vb s1 = (r2, s2)" by fastforce
  with rest obtain u where r2: "r2 = Inr u" by (cases r2) (auto simp: mirror_basket_def thenp_run)
  obtain r3 s3 where red: "sync_redemption k1 vb s2 = (r3, s3)" by fastforce
  with rest line r2 obtain u' where r3: "r3 = Inr u'" by (cases r3) (auto simp: mirror_basket_def thenp_run)
  obtain r4 s4 where aff: "sync_affiliate k1 a s3 = (r4, s4)" by fastforce
  with rest line r2 red r3 have s4: "s' = s4" "k = k1"
    by (cases r4; auto simp: mirror_basket_def thenp_run)+
  obtain O1 where O1: "s1 = s\<lparr>orders := O1\<rparr>" using s1' by blast
  have lines1: "order_lines s1 k1 = order_lines s k1" "lines s1 = lines s" "basket_items s1 = basket_items s" "orders s1 = O1"
    by (simp_all add: O1 order_lines_def)
  from sync_line_cases [OF line wf1(2,1)] r2 obtain ln where
    ln: "order_lines s k1 = [ln] \<and> lines s2 = t_save (lines s) ln (\<lambda>_. synced_line k1 s vb) \<or>
         order_lines s k1 = [] \<and> ln = next_pk (lines s) \<and> lines s2 = snd (t_create (lines s) (synced_line k1 s vb))"
    and sel: "wf_table (line_run_selections s2)"
      "map (\<lambda>k. lrs_run (row (line_run_selections s2) k)) (matching (line_run_selections s2) (\<lambda>_ l. lrs_line l = ln)) = vb_run_selection_ids vb"
    and s2: "s2 = s1\<lparr>lines := lines s2, program_run_lines := program_run_lines s2, line_run_selections := line_run_selections s2\<rparr>"
    using lines1 by (auto simp: synced_line_def)
  obtain L P R where s2': "s2 = s\<lparr>orders := O1, lines := L, program_run_lines := P, line_run_selections := R\<rparr>"
    using s2 unfolding O1 by blast
  have "wf_table (coupon_redemptions s2)" using wf(4) by (simp add: s2')
  from sync_redemption_cases [OF red this] r3 obtain C where
    s3: "s3 = s2\<lparr>coupon_redemptions := C\<rparr>" and C: "wf_table (coupon_redemptions s3)"
      "map (\<lambda>k. cred_coupon_version (row (coupon_redemptions s3) k)) (order_redemptions s3 k1) = the_list (vb_coupon_version vb)"
    by auto
  obtain A where s4': "s4 = s3\<lparr>referral_actions := A\<rparr>"
    using sync_affiliate_cases [OF aff] by blast
  have s': "s' = s\<lparr>orders := O1, lines := L, program_run_lines := P, line_run_selections := R, coupon_redemptions := C, referral_actions := A\<rparr>"
    by (simp add: s4 s4' s3 s2')
  have fresh: "order_lines s (next_pk (orders s)) = []"
  proof -
    have "l \<in> set (pks (lines s)) \<Longrightarrow> line_order (row (lines s) l) \<noteq> next_pk (orders s)" for l
      using ok wf_table_fresh [OF wf(1)] by (auto simp: orders_ok_def)
    then show ?thesis by (auto simp: order_lines_def matching_def filter_empty_conv)
  qed
  have nonempty: "open_orders s user product = [k1] \<Longrightarrow> order_lines s k1 \<noteq> []"
  proof -
    assume "open_orders s user product = [k1]"
    then have "k1 \<in> set (open_orders s user product)" by simp
    then show ?thesis by (auto simp: open_orders_def)
  qed
  have sel': "map (\<lambda>k. lrs_run (row (line_run_selections s') k)) (matching (line_run_selections s') (\<lambda>_ l. lrs_line l = ln)) = vb_run_selection_ids vb"
    "wf_table (line_run_selections s')" "wf_table (coupon_redemptions s')"
    "map (\<lambda>k. cred_coupon_version (row (coupon_redemptions s') k)) (order_redemptions s' k1) = the_list (vb_coupon_version vb)"
    using sel C by (simp_all add: s2' s' s3 order_redemptions_def)
  have L: "lines s2 = L" "lines s' = L" "orders s' = O1" by (simp_all add: s2' s')
  from saved show ?thesis
  proof (elim disjE conjE)
    assume open1: "open_orders s user product = [k1]" and O: "orders s1 = t_save (orders s) k1 ?f"
    from O have "O1 = t_save (orders s) k1 (\<lambda>_. ?f (row (orders s) k1))" by (simp add: lines1 t_save_def)
    with open1 ln nonempty [OF open1] sel' s' L mirrored show ?thesis
      unfolding Inr s4(2) by (intro disjI2 exI [of _ k1] exI [of _ ln] exI [of _ "?f (row (orders s) k1)"]) simp
  next
    assume open0: "open_orders s user product = []" and k0: "k1 = next_pk (orders s)"
      and O: "orders s1 = snd (t_create (orders s) (?f (new_order (sc_now cfg) user)))"
    with ln fresh sel' s' L mirrored lines1 show ?thesis
      unfolding Inr s4(2)
      by (intro disjI2 exI [of _ k1] exI [of _ ln] exI [of _ "?f (new_order (sc_now cfg) user)"]) simp
  qed
qed

lemma mirrored_order_fields:
  "mirrored_order cfg g s vb request r = Some o_row \<Longrightarrow>
     ord_status o_row = ord_status r \<and> ord_purchaser o_row = ord_purchaser r \<and> ord_created_on o_row = ord_created_on r \<and>
     ord_total_price_paid o_row = get_product_version_price_with_discount s (vb_coupon_version vb) (vb_product_version vb)"
  by (auto simp: mirrored_order_def split: sum.splits)

text \<open>Which orders are open for a user and a product, as a property of one order.\<close>

definition is_open :: "shop_db \<Rightarrow> nat \<Rightarrow> nat \<Rightarrow> nat \<Rightarrow> bool" where
  "is_open s u p k \<longleftrightarrow> ord_purchaser (row (orders s) k) = u \<and> ord_status (row (orders s) k) = OrderCreated \<and>
     (\<exists>l \<in> set (order_lines s k). product_of_version s (line_product_version (row (lines s) l)) = p)"

lemma open_orders_filter: "open_orders s u p = filter (is_open s u p) (pks (orders s))"
  by (auto simp: open_orders_def matching_def is_open_def list_ex_iff product_of_version_def intro!: filter_cong)

lemma order_lines_in: "l \<in> set (order_lines s k) \<Longrightarrow> line_order (row (lines s) l) = k"
  by (simp add: order_lines_def)

lemma reused_order_effect:
  fixes s s' :: shop_db
  assumes ok: "orders_ok s" and k: "open_orders s user product = [k]" and lne: "order_lines s k = [lne]"
    and m: "mirrored_order cfg g s vb request (row (orders s) k) = Some o_row"
    and product: "product = product_of_version s (vb_product_version vb)"
    and o': "orders s' = t_save (orders s) k (\<lambda>_. o_row)" and l': "lines s' = t_save (lines s) lne (\<lambda>_. synced_line k s vb)"
    and pv: "product_versions s' = product_versions s"
  shows "order_lines s' j = order_lines s j" and "open_orders s' u p = open_orders s u p"
proof -
  have lk: "line_order (row (lines s) lne) = k" using order_lines_in [of lne s k] lne by simp
  show lines_eq: "order_lines s' j = order_lines s j" for j
    unfolding order_lines_def l' by (rule matching_t_save) (simp add: lk synced_line_def)
  have "k \<in> set (open_orders s user product)" using k by simp
  then have kopen: "is_open s user product k" by (simp add: open_orders_filter)
  have "is_open s' u p j = is_open s u p j" for j
  proof (cases "j = k")
    case True
    with kopen product lne lines_eq [of k] mirrored_order_fields [OF m] show ?thesis
      by (auto simp: is_open_def o' l' pv product_of_version_def synced_line_def)
  next
    case False
    then have "lne \<notin> set (order_lines s j)" using order_lines_in lk by blast
    then have "\<forall>l \<in> set (order_lines s j). row (lines s') l = row (lines s) l" by (auto simp: l' row_t_save)
    with False show ?thesis by (simp add: is_open_def o' lines_eq pv product_of_version_def)
  qed
  then have "is_open s' u p = is_open s u p" by (simp add: fun_eq_iff)
  then show "open_orders s' u p = open_orders s u p"
    unfolding open_orders_filter o' by simp
qed

lemma new_order_effect:
  fixes s s' :: shop_db
  assumes ok: "orders_ok s" and k: "k = next_pk (orders s)"
    and m: "mirrored_order cfg g s vb request (new_order now user) = Some o_row"
    and product: "product = product_of_version s (vb_product_version vb)"
    and o': "orders s' = snd (t_create (orders s) o_row)" and l': "lines s' = snd (t_create (lines s) (synced_line k s vb))"
    and pv: "product_versions s' = product_versions s"
  shows "order_lines s' j = order_lines s j @ (if j = k then [next_pk (lines s)] else [])"
    and "order_lines s k = []"
    and "open_orders s' u p = open_orders s u p @ (if u = user \<and> p = product then [k] else [])"
proof -
  have wf: "wf_table (orders s)" "wf_table (lines s)" using ok by (simp_all add: orders_ok_def)
  have fresh: "next_pk (lines s) \<notin> set (pks (lines s))" "k \<notin> set (pks (orders s))"
    using wf wf_table_fresh k by simp_all
  show lines_eq: "order_lines s' j = order_lines s j @ (if j = k then [next_pk (lines s)] else [])" for j
    unfolding order_lines_def l' by (simp add: matching_t_create [OF wf(2)] synced_line_def)
  have "l \<in> set (pks (lines s)) \<Longrightarrow> line_order (row (lines s) l) \<noteq> k" for l
    using ok fresh(2) by (auto simp: orders_ok_def)
  then show none: "order_lines s k = []"
    by (auto simp: order_lines_def matching_def filter_empty_conv)
  have "is_open s' u p j = is_open s u p j" if "j \<in> set (pks (orders s))" for j
  proof -
    from that fresh have jk: "j \<noteq> k" by auto
    have "\<forall>l \<in> set (order_lines s j). row (lines s') l = row (lines s) l"
      using fresh(1) by (auto simp: l' row_t_create order_lines_def)
    with jk k show ?thesis by (simp add: is_open_def o' lines_eq pv product_of_version_def row_t_create)
  qed
  moreover have "order_lines s' (next_pk (orders s)) = [next_pk (lines s)]" using none lines_eq [of k] k by simp
  then have "is_open s' u p k \<longleftrightarrow> u = user \<and> p = product"
    using mirrored_order_fields [OF m] product k
    by (auto simp: is_open_def o' l' pv product_of_version_def row_t_create synced_line_def new_order_def)
  ultimately show "open_orders s' u p = open_orders s u p @ (if u = user \<and> p = product then [k] else [])"
    unfolding open_orders_filter o' using k by (auto cong: filter_cong)
qed


text \<open>
  C10: A successful synchronisation leaves one open order for the user and the product, with the discounted price of the
  basket's coupon, one line with the version and quantity of the basket, exactly the selected runs, and the
  redemption of exactly the basket's coupon version, if any. It is the order that was open before, if there
  was one. Other orders and their lines stay as they are.
\<close>

theorem create_or_update_unfulfilled_order_spec:
  assumes "orders_ok s" and "create_or_update_unfulfilled_order cfg g vb a request s = (Inr k, s')"
  shows "let user = basket_user (row (baskets s) (vb_basket vb)); product = product_of_version s (vb_product_version vb)
    in open_orders s' user product = [k] \<and> open_orders s user product \<in> {[], [k]} \<and>
       ord_total_price_paid (row (orders s') k) =
         get_product_version_price_with_discount s (vb_coupon_version vb) (vb_product_version vb) \<and>
       (\<exists>line. order_lines s' k = [line] \<and> row (lines s') line = synced_line k s vb \<and>
          map (\<lambda>j. lrs_run (row (line_run_selections s') j)) (matching (line_run_selections s') (\<lambda>_ l. lrs_line l = line)) =
            vb_run_selection_ids vb) \<and>
       map (\<lambda>j. cred_coupon_version (row (coupon_redemptions s') j)) (order_redemptions s' k) = the_list (vb_coupon_version vb) \<and>
       (\<forall>j \<in> set (pks (orders s)). j \<noteq> k \<longrightarrow> j \<in> set (pks (orders s')) \<and> row (orders s') j = row (orders s) j \<and>
          order_lines s' j = order_lines s j)"
proof -
  let ?u = "basket_user (row (baskets s) (vb_basket vb))" and ?p = "product_of_version s (vb_product_version vb)"
  from create_or_update_cases [OF assms refl refl] obtain line o_row where
    cases: "open_orders s ?u ?p = [k] \<and> mirrored_order cfg g s vb request (row (orders s) k) = Some o_row \<and>
         orders s' = t_save (orders s) k (\<lambda>_. o_row) \<and> order_lines s k = [line] \<and>
         lines s' = t_save (lines s) line (\<lambda>_. synced_line k s vb) \<or>
       open_orders s ?u ?p = [] \<and> mirrored_order cfg g s vb request (new_order (sc_now cfg) ?u) = Some o_row \<and>
         k = next_pk (orders s) \<and> orders s' = snd (t_create (orders s) o_row) \<and> line = next_pk (lines s) \<and>
         lines s' = snd (t_create (lines s) (synced_line k s vb))"
    and rest: "map (\<lambda>k. lrs_run (row (line_run_selections s') k)) (matching (line_run_selections s') (\<lambda>_ l. lrs_line l = line)) =
        vb_run_selection_ids vb"
      "map (\<lambda>k. cred_coupon_version (row (coupon_redemptions s') k)) (order_redemptions s' k) = the_list (vb_coupon_version vb)"
    and s': "s' = s\<lparr>orders := orders s', lines := lines s', program_run_lines := program_run_lines s',
             line_run_selections := line_run_selections s', coupon_redemptions := coupon_redemptions s',
             referral_actions := referral_actions s'\<rparr>"
    by auto
  have pv: "product_versions s' = product_versions s" by (subst s') simp
  from cases show ?thesis
  proof (elim disjE conjE)
    assume c: "open_orders s ?u ?p = [k]" "mirrored_order cfg g s vb request (row (orders s) k) = Some o_row"
      "orders s' = t_save (orders s) k (\<lambda>_. o_row)" "order_lines s k = [line]"
      "lines s' = t_save (lines s) line (\<lambda>_. synced_line k s vb)"
    note eff = reused_order_effect [OF assms(1) c(1,4,2) refl c(3,5) pv]
    with c rest mirrored_order_fields [OF c(2)] show ?thesis by (auto simp: Let_def)
  next
    assume c: "open_orders s ?u ?p = []" "mirrored_order cfg g s vb request (new_order (sc_now cfg) ?u) = Some o_row"
      "k = next_pk (orders s)" "orders s' = snd (t_create (orders s) o_row)" "line = next_pk (lines s)"
      "lines s' = snd (t_create (lines s) (synced_line k s vb))"
    note eff = new_order_effect [OF assms(1) c(3,2) refl c(4,6) pv]
    with c rest mirrored_order_fields [OF c(2)] show ?thesis
      by (auto simp: Let_def row_t_create)
  qed
qed


lemma create_or_update_orders_ok:
  assumes "orders_ok s" and "create_or_update_unfulfilled_order cfg g vb a request s = (r, s')"
  shows "orders_ok s'"
proof -
  let ?u = "basket_user (row (baskets s) (vb_basket vb))" and ?p = "product_of_version s (vb_product_version vb)"
  from create_or_update_cases [OF assms refl refl] show ?thesis
  proof (elim disjE exE conjE)
    assume "s' = s" with assms(1) show ?thesis by simp
  next
    fix k line o_row
    assume c: "open_orders s ?u ?p = [k]" "mirrored_order cfg g s vb request (row (orders s) k) = Some o_row"
         "orders s' = t_save (orders s) k (\<lambda>_. o_row)" "order_lines s k = [line]"
         "lines s' = t_save (lines s) line (\<lambda>_. synced_line k s vb)"
         "wf_table (line_run_selections s')" "wf_table (coupon_redemptions s')"
      and s': "s' = s\<lparr>orders := orders s', lines := lines s', program_run_lines := program_run_lines s',
             line_run_selections := line_run_selections s', coupon_redemptions := coupon_redemptions s',
             referral_actions := referral_actions s'\<rparr>"
    have pv: "product_versions s' = product_versions s" by (subst s') simp
    note eff = reused_order_effect [OF assms(1) c(1,4,2) refl c(3,5) pv]
    have "k \<in> set (open_orders s ?u ?p)" using c(1) by simp
    then have "k \<in> set (pks (orders s))" by (simp add: open_orders_filter)
    with assms(1) c(3,5-7) eff show ?thesis
      by (auto simp: orders_ok_def row_t_save synced_line_def)
  next
    fix k line o_row
    assume c: "open_orders s ?u ?p = []" "mirrored_order cfg g s vb request (new_order (sc_now cfg) ?u) = Some o_row"
         "k = next_pk (orders s)" "orders s' = snd (t_create (orders s) o_row)" "line = next_pk (lines s)"
         "lines s' = snd (t_create (lines s) (synced_line k s vb))"
         "wf_table (line_run_selections s')" "wf_table (coupon_redemptions s')"
      and s': "s' = s\<lparr>orders := orders s', lines := lines s', program_run_lines := program_run_lines s',
             line_run_selections := line_run_selections s', coupon_redemptions := coupon_redemptions s',
             referral_actions := referral_actions s'\<rparr>"
    have pv: "product_versions s' = product_versions s" by (subst s') simp
    note eff = new_order_effect [OF assms(1) c(3,2) refl c(4,6) pv]
    from assms(1) c(1,3-8) eff show ?thesis
      by (auto simp: orders_ok_def row_t_create synced_line_def)
  qed
qed


lemma create_or_update_open:
  assumes "orders_ok s" and "create_or_update_unfulfilled_order cfg g vb a request s = (Inr k, s')"
    and u: "u = basket_user (row (baskets s) (vb_basket vb))" and p: "p = product_of_version s (vb_product_version vb)"
  shows "open_orders s' u p = [k]" and "open_orders s u p = [] \<or> open_orders s u p = [k] \<and> pks (orders s') = pks (orders s)"
    and "baskets s' = baskets s" and "product_versions s' = product_versions s"
proof -
  from create_or_update_cases [OF assms(1,2) u p] obtain line o_row where
    cases: "open_orders s u p = [k] \<and> mirrored_order cfg g s vb request (row (orders s) k) = Some o_row \<and>
         orders s' = t_save (orders s) k (\<lambda>_. o_row) \<and> order_lines s k = [line] \<and>
         lines s' = t_save (lines s) line (\<lambda>_. synced_line k s vb) \<or>
       open_orders s u p = [] \<and> mirrored_order cfg g s vb request (new_order (sc_now cfg) u) = Some o_row \<and>
         k = next_pk (orders s) \<and> orders s' = snd (t_create (orders s) o_row) \<and> line = next_pk (lines s) \<and>
         lines s' = snd (t_create (lines s) (synced_line k s vb))"
    and s': "s' = s\<lparr>orders := orders s', lines := lines s', program_run_lines := program_run_lines s',
             line_run_selections := line_run_selections s', coupon_redemptions := coupon_redemptions s',
             referral_actions := referral_actions s'\<rparr>"
    by auto
  show pv: "product_versions s' = product_versions s" by (subst s') simp
  show "baskets s' = baskets s" by (subst s') simp
  from cases show "open_orders s u p = [] \<or> open_orders s u p = [k] \<and> pks (orders s') = pks (orders s)" by auto
  from cases show "open_orders s' u p = [k]"
  proof (elim disjE conjE)
    assume c: "open_orders s u p = [k]" "mirrored_order cfg g s vb request (row (orders s) k) = Some o_row"
      "orders s' = t_save (orders s) k (\<lambda>_. o_row)" "order_lines s k = [line]"
      "lines s' = t_save (lines s) line (\<lambda>_. synced_line k s vb)"
    from reused_order_effect [OF assms(1) c(1,4,2) p c(3,5) pv] c(1) show ?thesis by simp
  next
    assume c: "open_orders s u p = []" "mirrored_order cfg g s vb request (new_order (sc_now cfg) u) = Some o_row"
      "k = next_pk (orders s)" "orders s' = snd (t_create (orders s) o_row)" "line = next_pk (lines s)"
      "lines s' = snd (t_create (lines s) (synced_line k s vb))"
    from new_order_effect [OF assms(1) c(3,2) p c(4,6) pv] c(1) show ?thesis by simp
  qed
qed

text \<open>
  C11: Synchronising is idempotent per user and product: a second synchronisation of a basket of the same user with the same
  product, whatever has become of its runs, its coupon and the request, answers with the same
  order and creates none. Both keep the tables of orders consistent, with at most one open order per user and product
  and at most one line per order.
\<close>

theorem create_or_update_idempotent:
  assumes ok: "orders_ok s" and first: "create_or_update_unfulfilled_order cfg g vb a request s = (Inr k, s1)"
    and second: "create_or_update_unfulfilled_order cfg' g' vb' a' request' s1 = (Inr k', s2)"
    and user: "basket_user (row (baskets s) (vb_basket vb')) = basket_user (row (baskets s) (vb_basket vb))"
    and product: "product_of_version s (vb_product_version vb') = product_of_version s (vb_product_version vb)"
  shows "k' = k \<and> pks (orders s2) = pks (orders s1) \<and> orders_ok s1 \<and> orders_ok s2"
proof -
  note one = create_or_update_open [OF ok first refl refl]
  have ok1: "orders_ok s1" by (rule create_or_update_orders_ok [OF ok first])
  have "open_orders s1 (basket_user (row (baskets s1) (vb_basket vb'))) (product_of_version s1 (vb_product_version vb')) = [k]"
    using one user product by (simp add: product_of_version_def)
  with create_or_update_open(2) [OF ok1 second refl refl] create_or_update_orders_ok [OF ok1 second] ok1
  show ?thesis by auto
qed

subsection \<open>A concrete order\<close>

lemma example_orders_ok: "orders_ok example_shop"
  by (simp add: orders_ok_def example_tables open_orders_def order_lines_def matching_def) (simp add: empty_table_def)

definition example_validated_basket :: validated_basket where
  "example_validated_basket = \<lparr>vb_basket = 1, vb_basket_item = 1, vb_product_version = 1, vb_coupon_version = Some 1,
     vb_run_selection_ids = [2], vb_data_consent_users = []\<rparr>"

lemma example_create_order:
  "\<exists>t. create_or_update_unfulfilled_order example_config example_geo example_validated_basket None None example_shop = (Inr 1, t)"
proof -
  have "open_orders example_shop u p = []" for u p
    by (simp add: open_orders_def matching_def example_tables empty_table_def)
  then show ?thesis
    by (simp add: create_or_update_run determine_visitor_country_def atomic_run bindp_run save_order_def order_by_desc_def
        mirror_basket_def thenp_run sync_line_def sync_redemption_def sync_affiliate_def redeem_coupon_def
        db_update_or_create_run t_update_or_create_def matching_def t_create_def example_tables empty_table_def
        example_validated_basket_def table_of_def)
qed


lemma example_sync_again:
  "fst (create_or_update_unfulfilled_order example_config example_geo example_validated_basket None None
     (snd (create_or_update_unfulfilled_order example_config example_geo example_validated_basket None None example_shop))) = Inr 1"
proof -
  have none: "open_orders example_shop u p = []" for u p
    by (simp add: open_orders_def matching_def example_tables empty_table_def)
  show ?thesis
    by (simp add: create_or_update_run determine_visitor_country_def atomic_run bindp_run save_order_def order_by_desc_def
        mirror_basket_def thenp_run sync_line_def sync_redemption_def sync_affiliate_def redeem_coupon_def
        db_update_or_create_run t_update_or_create_def matching_def t_create_def example_tables empty_table_def none
        open_orders_def order_lines_def new_order_def
        example_validated_basket_def table_of_def example_pv_def t_save_def)
qed

lemma create_or_update_unfulfilled_order_spec_witness:
  "ord_total_price_paid (row (orders (snd (create_or_update_unfulfilled_order example_config example_geo
     example_validated_basket None None example_shop))) 1) = get_product_version_price_with_discount example_shop (Some 1) 1"
proof -
  obtain t where t: "create_or_update_unfulfilled_order example_config example_geo example_validated_basket None None example_shop = (Inr 1, t)"
    using example_create_order by blast
  from create_or_update_unfulfilled_order_spec [OF example_orders_ok t] t show ?thesis
    by (simp add: Let_def example_validated_basket_def)
qed

lemma create_or_update_idempotent_witness:
  "orders_ok (snd (create_or_update_unfulfilled_order example_config example_geo example_validated_basket None None
     (snd (create_or_update_unfulfilled_order example_config example_geo example_validated_basket None None example_shop))))"
proof -
  obtain t where t: "create_or_update_unfulfilled_order example_config example_geo example_validated_basket None None example_shop = (Inr 1, t)"
    using example_create_order by blast
  obtain t2 where t2: "create_or_update_unfulfilled_order example_config example_geo example_validated_basket None None t = (Inr 1, t2)"
    using example_sync_again unfolding t by (metis prod.collapse snd_conv)
  from create_or_update_idempotent [OF example_orders_ok t t2 refl refl] t t2 show ?thesis by simp
qed

end
