(* ===== verification/Fulfilment.thy ===== *)
theory Fulfilment
  imports Orders
begin

text \<open>
  What an accepted payment leads to: completing an order never raises under stated conditions, and then the purchaser is
  enrolled in everything the order holds.
\<close>

section \<open>Programs that always return\<close>

definition returns :: "('s, 'a) prog \<Rightarrow> bool" where
  "returns m \<longleftrightarrow> (\<forall>s. \<exists>a. fst (m s) = Inr a)"

named_theorems returns_intros

lemma returnsD: "returns m \<Longrightarrow> m s = (r, s') \<Longrightarrow> \<exists>a. r = Inr a"
  unfolding returns_def by (metis fst_conv)

lemma returns_basic [returns_intros]:
  "returns (ret a)" and returns_asks [returns_intros]: "returns (asks q)" and returns_create [returns_intros]: "returns (db_create g u r)"
  and returns_save [returns_intros]: "returns (db_save g u k f)" and returns_delete [returns_intros]: "returns (db_delete g u P)"
  and returns_bulk_create [returns_intros]: "returns (db_bulk_create g u rs)" and returns_emit [returns_intros]: "returns (emit e)"
  by (simp_all add: returns_def)

lemma returns_bindp [returns_intros]: "returns m \<Longrightarrow> (\<And>a. returns (f a)) \<Longrightarrow> returns (bindp m f)"
  unfolding returns_def bindp_def by (auto split: prod.split sum.split) (metis Inl_Inr_False fst_conv)

lemma returns_thenp [returns_intros]: "returns m \<Longrightarrow> returns n \<Longrightarrow> returns (thenp m n)"
  by (simp add: thenp_def returns_bindp)

lemma returns_whenp [returns_intros]: "returns m \<Longrightarrow> returns (whenp b m)"
  by (simp add: returns_def)

lemma returns_atomic [returns_intros]: "returns m \<Longrightarrow> returns (atomic m)"
  unfolding returns_def atomic_def by (auto split: prod.split sum.split) (metis Inl_Inr_False fst_conv)

lemma returns_try_catch [returns_intros]: "(\<And>e. returns (h e)) \<Longrightarrow> returns (try_catch m h)"
  unfolding returns_def try_catch_def by (auto split: prod.split sum.split)

lemma returns_for_each [returns_intros]: "(\<And>x. returns (f x)) \<Longrightarrow> returns (for_each xs f)"
  by (induction xs) (auto intro: returns_intros)

lemma returns_collect_each [returns_intros]: "(\<And>x. returns (f x)) \<Longrightarrow> returns (collect_each xs f)"
  by (induction xs) (auto intro!: returns_intros)

lemma returns_if [returns_intros]: "returns m \<Longrightarrow> returns n \<Longrightarrow> returns (if b then m else n)"
  by simp

lemma returns_case_prod [returns_intros]: "(\<And>x y. returns (f x y)) \<Longrightarrow> returns (case p of (x, y) \<Rightarrow> f x y)"
  by (simp split: prod.split)

lemma returns_program_enrollments: "returns (create_program_enrollments now u ps (Some k) c)"
  unfolding create_program_enrollments_def create_program_enrollment_def send_enrollment_failure_message_def option.case
  by (intro returns_intros)

lemma returns_set_coupons: "returns (set_coupons_to_redeemed e cs)"
  unfolding set_coupons_to_redeemed_def by (intro returns_intros)

lemma returns_clear_baskets: "returns (clear_and_delete_baskets d now u)"
  unfolding clear_and_delete_baskets_def Let_def delete_basket_def by (intro returns_intros)

section \<open>An accepted order is enrolled\<close>

interpretation run_enrollments_kept: after_enrollment_frame "\<lambda>s. run_enrollments s = T" for T
  by unfold_locales simp_all

interpretation vouchers_kept: run_enrollment_frame "\<lambda>s. (vouchers s, order_core s) = T" for T
  by unfold_locales (simp_all add: order_core_def)

definition order_runs :: "shop_db \<Rightarrow> nat \<Rightarrow> nat list" where
  "order_runs s line =
     map (\<lambda>k. lrs_run (row (line_run_selections s) k)) (matching (line_run_selections s) (\<lambda>_ l. lrs_line l = line))"

lemma enroll_user_in_order_items_ok:
  assumes line: "order_lines s k = [line]" and ok: "run_enrollments_ok s" and token: "sv_token_set (sc_edx cfg)"
    and voucher: "voucher_of_order s k = None" and run: "enroll_user_in_order_items cfg k s = (r, s')"
  shows "r = Inr () \<and> (\<forall>x \<in> set (order_runs s line). \<exists>e \<in> set (pks (run_enrollments s')).
     enrolled_in (ord_purchaser (row (orders s) k)) x (Some k) (row (run_enrollments s') e))"
proof -
  let ?u = "ord_purchaser (row (orders s) k)"
  let ?create = "create_run_enrollments (sc_edx cfg) (sc_welcome_enabled cfg) (sc_now cfg) ?u (order_runs s line) True
      (Some k) (get_company_affiliation s k)"
  let ?progs = "if get_order_programs s k \<noteq> []
      then bindp (create_program_enrollments (sc_now cfg) ?u (get_order_programs s k) (Some k) (get_company_affiliation s k)) (\<lambda>_. ret ())
      else ret ()"
  have get: "t_get ''Line'' (lines s) (\<lambda>_ l. line_order l = k) = Inr line"
    using line by (simp add: t_get_def order_lines_def the_only_def)
  obtain es s1 where es: "(if order_runs s line \<noteq> [] then bindp ?create (\<lambda>(es, _). ret es) else ret []) s = (Inr es, s1)"
    and enrolled: "\<forall>x \<in> set (order_runs s line). \<exists>e \<in> set (pks (run_enrollments s1)). enrolled_in ?u x (Some k) (row (run_enrollments s1) e)"
  proof (cases "order_runs s line = []")
    case False
    obtain x s1 where c: "?create s = (x, s1)" by fastforce
    from create_run_enrollments_cases [OF ok c] token obtain es b where
      "x = Inr (es, b)" "list_all2 (\<lambda>run e. e \<in> set (pks (run_enrollments s1)) \<and> enrolled_in ?u run (Some k) (row (run_enrollments s1) e))
         (order_runs s line) es" by blast
    moreover from this(2) have "\<forall>x \<in> set (order_runs s line). \<exists>e \<in> set (pks (run_enrollments s1)).
        enrolled_in ?u x (Some k) (row (run_enrollments s1) e)"
      by (induction rule: list_all2_induct) auto
    ultimately show thesis using False c by (intro that [of es s1]) (simp_all add: bindp_run)
  qed (simp add: that)
  have "keeps (\<lambda>t. (vouchers t, order_core t) = T) (if order_runs s line \<noteq> [] then bindp ?create (\<lambda>(es, _). ret es) else ret [])" for T
    by (intro keeps_intros vouchers_kept.keeps_create_run_enrollments)
  from keepsD [OF this es] have same: "vouchers s1 = vouchers s" "order_core s1 = order_core s" by auto
  then have "voucher_of_order s1 k = None"
    using voucher by (simp add: voucher_of_order_def order_core_def order_lines_def)
  then have rest: "thenp (link_voucher k es) ?progs s1 = (r, s')"
    using run get es [unfolded order_runs_def] by (simp add: enroll_user_in_order_items_def bindp_run order_runs_def)
  have returns: "returns ?progs"
    by (intro returns_intros returns_program_enrollments)
  have link: "link_voucher k es s1 = (Inr (), s1)"
    using \<open>voucher_of_order s1 k = None\<close> by (simp add: link_voucher_def bindp_run)
  have "?progs s1 = (r, s')"
    using rest by (simp only: thenp_def bindp_run link sum.case prod.case)
  from returnsD [OF returns this] have "r = Inr ()" by simp
  moreover have "run_enrollments s' = run_enrollments s1"
  proof -
    have "keeps (\<lambda>t :: shop_db. run_enrollments t = run_enrollments s1) (thenp (link_voucher k es) ?progs)"
      by (intro keeps_intros run_enrollments_kept.keeps_link_voucher run_enrollments_kept.keeps_create_program_enrollments)
    from keepsD [OF this rest] show ?thesis by simp
  qed
  ultimately show ?thesis using enrolled by simp
qed


lemma complete_order_ok:
  assumes line: "order_lines s k = [line]" and ok: "run_enrollments_ok s" and token: "sv_token_set (sc_edx cfg)"
    and voucher: "voucher_of_order s k = None" and run: "complete_order cfg k s = (r, s')"
  shows "r = Inr () \<and> (\<forall>x \<in> set (order_runs s line). \<exists>e \<in> set (pks (run_enrollments s')).
     enrolled_in (ord_purchaser (row (orders s) k)) x (Some k) (row (run_enrollments s') e)) \<and>
     matching (baskets s') (\<lambda>_ b. basket_user b = ord_purchaser (row (orders s) k)) = []"
proof -
  let ?u = "ord_purchaser (row (orders s) k)"
  obtain r1 s1 where e: "enroll_user_in_order_items cfg k s = (r1, s1)" by fastforce
  from enroll_user_in_order_items_ok [OF line ok token voucher e] have r1: "r1 = Inr ()"
    and enrolled: "\<forall>x \<in> set (order_runs s line). \<exists>e \<in> set (pks (run_enrollments s1)). enrolled_in ?u x (Some k) (row (run_enrollments s1) e)"
    by auto
  have u1: "ord_purchaser (row (orders s1) k) = ?u"
    using keepsD [OF core.keeps_enroll e] by (simp add: order_core_def)
  let ?ids = "map (\<lambda>r. cv_coupon (row (coupon_versions s1) (cred_coupon_version (row (coupon_redemptions s1) r)))) (order_redemptions s1 k)"
  let ?coupons = "if ?ids \<noteq> [] then set_coupons_to_redeemed (user_email (row (users s1) ?u)) ?ids else ret ()"
  have tail: "thenp ?coupons (clear_and_delete_baskets (sc_basket_expiry_days cfg) (sc_now cfg) (Some ?u)) s1 = (r, s')"
    using run unfolding complete_order_def by (simp only: thenp_def bindp_run e r1 u1 asks_run sum.case prod.case)
  have "returns (thenp ?coupons (clear_and_delete_baskets (sc_basket_expiry_days cfg) (sc_now cfg) (Some ?u)))"
    by (intro returns_intros returns_set_coupons returns_clear_baskets)
  from returnsD [OF this tail] have r: "r = Inr ()" by simp
  have "keeps (\<lambda>t :: shop_db. run_enrollments t = run_enrollments s1)
      (thenp ?coupons (clear_and_delete_baskets (sc_basket_expiry_days cfg) (sc_now cfg) (Some ?u)))"
    by (intro keeps_intros run_enrollments_kept.keeps_set_coupons_to_redeemed run_enrollments_kept.keeps_clear_baskets)
  from keepsD [OF this tail] have kept: "run_enrollments s' = run_enrollments s1" by simp
  obtain r2 s2 where c: "?coupons s1 = (r2, s2)" by fastforce
  have "returns ?coupons" by (intro returns_intros returns_set_coupons)
  from returnsD [OF this c] have r2: "r2 = Inr ()" by simp
  have "clear_and_delete_baskets (sc_basket_expiry_days cfg) (sc_now cfg) (Some ?u) s2 = (r, s')"
    using tail c r2 by (simp add: thenp_run)
  then have "matching (baskets s') (\<lambda>_ b. basket_user b = ?u) = []"
    by (auto simp: clear_and_delete_baskets_def Let_def bindp_run atomic_run delete_baskets_loop without_baskets_def
        matching_t_delete filter_empty_conv)
  with r kept enrolled show ?thesis by simp
qed


definition receipt_tables ::
  "shop_db \<Rightarrow> legal_address_row table \<times> profile_row table \<times> line_row table \<times> product_row table \<times>
     product_version_row table \<times> program_row table \<times> course_row table \<times> course_run_row table" where
  "receipt_tables s = (legal_addresses s, profiles s, lines s, products s, product_versions s, programs s, courses s, course_runs s)"

interpretation receipt_kept: completion_frame "\<lambda>s. receipt_tables s = T" for T
  by unfold_locales (simp_all add: receipt_tables_def)

lemma sequence_Inr_iff: "(\<exists>xs. sequence rs = Inr xs) \<longleftrightarrow> (\<forall>r \<in> set rs. \<exists>x. r = Inr x)"
  by (induction rs rule: sequence.induct) (auto split: sum.splits)

text \<open>Whether a receipt can be made does not depend on the enrollments, the receipts or the status of the order.\<close>

lemma receipt_transfer:
  assumes s: "order_receipt_of cms cr env s k = Inr rc" and same: "receipt_tables t = receipt_tables s"
    and user: "ord_purchaser (row (orders t) k) = ord_purchaser (row (orders s) k)"
  shows "\<exists>rc'. order_receipt_of cms cr env t k = Inr rc'"
proof -
  have tables: "legal_addresses t = legal_addresses s" "profiles t = profiles s" "lines t = lines s" "products t = products s"
    "product_versions t = product_versions s" "programs t = programs s" "courses t = courses s" "course_runs t = course_runs s"
    using same by (simp_all add: receipt_tables_def)
  from s obtain p ls where p: "extended_legal_address s (ord_purchaser (row (orders s) k)) = Inr p"
    and ls: "get_lines cms cr s k = Inr ls"
    by (auto simp: order_receipt_of_def split: sum.splits)
  have p': "\<exists>p. extended_legal_address t (ord_purchaser (row (orders t) k)) = Inr p"
    using p unfolding user by (auto simp: extended_legal_address_def tables Let_def split: option.splits)
  have exists: "content_exists t c = content_exists s c" for c
    by (simp add: content_exists_def tables split: content.split)
  have missing: "content_missing t c = content_missing s c" for c
    by (simp add: content_missing_def exists split: content.split)
  have page: "certificate_page_of cms t pv = certificate_page_of cms s pv" for pv
    unfolding certificate_page_of_def tables missing ..
  have version: "base_product_version t pv = base_product_version s pv" for pv
    unfolding base_product_version_def content_title_def content_text_id_def tables missing ..
  have line: "(\<exists>x. get_line cms cr u k l = Inr x) \<longleftrightarrow>
      (\<exists>a. certificate_page_of cms u (line_product_version (row (lines u) l)) = Inr a) \<and>
      (\<exists>b. base_product_version u (line_product_version (row (lines u) l)) = Inr b)" for u :: shop_db and l
    by (simp add: get_line_def Let_def split: sum.split)
  have "\<forall>l \<in> set (order_lines s k). \<exists>x. get_line cms cr s k l = Inr x"
    using ls sequence_Inr_iff [of "map (get_line cms cr s k) (order_lines s k)"] by (auto simp: get_lines_def)
  then have "\<forall>l \<in> set (order_lines t k). \<exists>x. get_line cms cr t k l = Inr x"
    by (simp add: line page version tables order_lines_def)
  then have "\<exists>ls. get_lines cms cr t k = Inr ls"
    using sequence_Inr_iff [of "map (get_line cms cr t k) (order_lines t k)"] by (auto simp: get_lines_def)
  with p' show ?thesis by (auto simp: order_receipt_of_def)
qed

lemma change_to_fulfilled_ok:
  assumes line: "order_lines s k = [line]" and ok: "run_enrollments_ok s" and token: "sv_token_set (sc_edx cfg)"
    and voucher: "voucher_of_order s k = None"
    and receipt: "order_receipt_of (sc_cms cfg) (sc_credits cfg) (sc_environment cfg) s k = Inr rc"
    and run: "change_order_status cfg k b OrderFulfilled s = (r, s')"
  shows "r = Inr () \<and> (\<forall>x \<in> set (order_runs s line). \<exists>e \<in> set (pks (run_enrollments s')).
     enrolled_in (ord_purchaser (row (orders s) k)) x (Some k) (row (run_enrollments s') e)) \<and>
     matching (baskets s') (\<lambda>_ b. basket_user b = ord_purchaser (row (orders s) k)) = []"
proof -
  let ?s1 = "s\<lparr>orders := t_save (orders s) k (\<lambda>x. x\<lparr>ord_status := OrderFulfilled\<rparr>)\<rparr>"
  obtain r2 s2 where h: "sync_hubspot_deal cfg k ?s1 = (r2, s2)" by fastforce
  have "r2 = Inr () \<and> s2 = ?s1\<lparr>effects := effects s2\<rparr>"
    using h by (auto simp: sync_hubspot_deal_def bindp_run split: if_splits)
  then obtain c where s2: "r2 = Inr ()" "s2 = ?s1\<lparr>effects := c\<rparr>" by blast
  obtain r3 s3 where c3: "complete_order cfg k s2 = (r3, s3)" by fastforce
  have at_s2: "order_lines s2 k = [line]" "run_enrollments_ok s2" "voucher_of_order s2 k = None" "order_runs s2 line = order_runs s line"
    "ord_purchaser (row (orders s2) k) = ord_purchaser (row (orders s) k)" "receipt_tables s2 = receipt_tables s"
    using line ok voucher
    by (simp_all add: s2 order_lines_def run_enrollments_ok_def voucher_of_order_def order_runs_def receipt_tables_def)
  from complete_order_ok [OF at_s2(1,2) token at_s2(3) c3] have s3: "r3 = Inr ()"
    "\<forall>x \<in> set (order_runs s line). \<exists>e \<in> set (pks (run_enrollments s3)).
       enrolled_in (ord_purchaser (row (orders s) k)) x (Some k) (row (run_enrollments s3) e)"
    "matching (baskets s3) (\<lambda>_ b. basket_user b = ord_purchaser (row (orders s) k)) = []"
    using at_s2 by auto
  have "receipt_tables s3 = receipt_tables s"
    using keepsD [OF receipt_kept.keeps_complete_order c3] at_s2(6) by simp
  moreover have "ord_purchaser (row (orders s3) k) = ord_purchaser (row (orders s) k)"
    using complete_order_core [OF c3] at_s2(5) by (simp add: order_core_def)
  ultimately obtain rc' where rc': "order_receipt_of (sc_cms cfg) (sc_credits cfg) (sc_environment cfg) s3 k = Inr rc'"
    using receipt_transfer [OF receipt] by blast
  obtain r4 s4 where m: "send_ecommerce_order_receipt (sc_cms cfg) (sc_credits cfg) (sc_environment cfg) k b s3 = (r4, s4)" by fastforce
  then have m4: "r4 = Inr ()" "s4 = s3\<lparr>effects := effects s4\<rparr>"
    by (auto simp: send_ecommerce_order_receipt_def bindp_run rc' split: if_splits)
  then obtain c4 where c4: "s4 = s3\<lparr>effects := c4\<rparr>" by blast
  have s4: "send_ecommerce_order_receipt (sc_cms cfg) (sc_credits cfg) (sc_environment cfg) k b s3 = (Inr (), s3\<lparr>effects := c4\<rparr>)"
    using m m4(1) c4 by simp
  have "(r, s') = save_and_log_order k (\<lambda>r. r) None (s3\<lparr>effects := c4\<rparr>)"
    using run h c3 s4 s2(1) s3(1) by (simp add: change_order_status_def thenp_run)
  then have "r = Inr ()" "run_enrollments s' = run_enrollments s3" "baskets s' = baskets s3"
    by (simp_all add: save_and_log_order_run Let_def)
  with s3 show ?thesis by simp
qed


text \<open>
  C4: An accepted payment leads to the enrollments. If the order is open with one line, the courseware token is configured, the
  purchaser has no voucher for the product and the receipt can be made, then the accepting notification is
  answered without an error, the order is fulfilled, the purchaser is actively enrolled under this order in every
  selected run, even if the courseware refuses, and has no basket any more.
\<close>

theorem accepted_notification_enrolls:
  assumes k: "notified_order cfg s data = Some k" and accept: "map_of data ''decision'' = Some ''ACCEPT''"
    and created: "ord_status (row (orders s) k) = OrderCreated" and line: "order_lines s k = [line]"
    and ok: "run_enrollments_ok s" and token: "sv_token_set (sc_edx cfg)" and voucher: "voucher_of_order s k = None"
    and receipt: "order_receipt_of (sc_cms cfg) (sc_credits cfg) (sc_environment cfg) s k = Inr rc"
    and run: "fulfill_order cfg data s = (r, s')"
  shows "r = Inr () \<and> ord_status (row (orders s') k) = OrderFulfilled \<and>
    (\<forall>x \<in> set (order_runs s line). \<exists>e \<in> set (pks (run_enrollments s')).
       enrolled_in (ord_purchaser (row (orders s) k)) x (Some k) (row (run_enrollments s') e)) \<and>
    matching (baskets s') (\<lambda>_ b. basket_user b = ord_purchaser (row (orders s) k)) = []"
proof -
  let ?s2 = "s\<lparr>receipts := snd (t_create (receipts s) \<lparr>receipt_order = Some k, receipt_data = data\<rparr>)\<rparr>"
  have tail: "change_order_status cfg k (map_of data ''req_bill_to_email'') OrderFulfilled ?s2 = (r, s')"
    using run k accept created
    by (auto simp: fulfill_order_def notified_order_def bindp_run thenp_run t_save_new determine_order_status_change_def
        CYBERSOURCE_DECISION_ACCEPT_def split: option.splits sum.splits)
  have at_s2: "order_lines ?s2 k = [line]" "run_enrollments_ok ?s2" "voucher_of_order ?s2 k = None" "order_runs ?s2 line = order_runs s line"
    "ord_purchaser (row (orders ?s2) k) = ord_purchaser (row (orders s) k)" "receipt_tables ?s2 = receipt_tables s"
    using line ok voucher
    by (simp_all add: order_lines_def run_enrollments_ok_def voucher_of_order_def order_runs_def receipt_tables_def)
  from receipt_transfer [OF receipt at_s2(6,5)] obtain rc'
    where "order_receipt_of (sc_cms cfg) (sc_credits cfg) (sc_environment cfg) ?s2 k = Inr rc'" by blast
  from change_to_fulfilled_ok [OF at_s2(1,2) token at_s2(3) this tail] change_order_status_cases [OF tail] at_s2(4)
  show ?thesis by simp
qed


text \<open>The open order of the example, with the text id stored in the product version.\<close>

definition example_paid :: shop_db where
  "example_paid = example_checked_out
     \<lparr>product_versions := table_of (example_pv 0 0) [(example_pv 1 100)\<lparr>pv_text_id := Some ''c2-R1''\<rparr>, example_pv 2 150]\<rparr>"

lemma example_receipt: "\<exists>rc. order_receipt_of no_cms_pages (\<lambda>_. (None, [])) ''ci'' example_paid 1 = Inr rc"
proof -
  have "\<exists>p. extended_legal_address example_paid 1 = Inr p"
    by (simp add: extended_legal_address_def example_paid_def example_checked_out_def example_tables example_users_db_def
        t_first_def matching_def table_of_def blank_legal_address_def blank_profile_def Let_def)
  moreover have lines: "order_lines example_paid 1 = [1]"
    by (simp add: order_lines_def matching_def example_paid_def example_checked_out_def table_of_def)
  moreover have "\<exists>x. get_line no_cms_pages (\<lambda>_. (None, [])) example_paid 1 1 = Inr x"
  proof -
    have "certificate_page_of no_cms_pages example_paid 1 = Inr None"
      by (simp add: certificate_page_of_def example_paid_def example_checked_out_def example_defs content_missing_def
          content_exists_def matching_def the_only_def no_cms_pages_def Let_def)
    moreover have "\<exists>v. base_product_version example_paid 1 = Inr v"
      by (simp add: base_product_version_def content_title_def content_text_id_def example_paid_def example_checked_out_def
          example_defs content_missing_def content_exists_def Let_def)
    moreover have "line_product_version (row (lines example_paid) 1) = 1"
      by (simp add: example_paid_def example_checked_out_def table_of_def)
    ultimately show ?thesis
      by (auto simp: get_line_def Let_def)
  qed
  moreover have "ord_purchaser (row (orders example_paid) 1) = 1"
    by (simp add: example_paid_def example_checked_out_def table_of_def example_order_def)
  ultimately show ?thesis
    by (auto simp: order_receipt_of_def get_lines_def)
qed

lemma example_notified_paid: "notified_order example_config example_paid example_notification = Some 1"
  using example_notified notified_order_pks [of example_paid example_checked_out] by (simp add: example_paid_def)

lemma accepted_notification_enrolls_witness:
  "fst (fulfill_order example_config example_notification example_paid) = Inr () \<and>
   matching (baskets (snd (fulfill_order example_config example_notification example_paid))) (\<lambda>_ b. basket_user b = 1) = []"
proof -
  have line: "order_lines example_paid 1 = [1]"
    by (simp add: order_lines_def matching_def example_paid_def example_checked_out_def table_of_def)
  have row1: "ord_status (row (orders example_paid) 1) = OrderCreated" "ord_purchaser (row (orders example_paid) 1) = 1"
    by (simp_all add: example_paid_def example_checked_out_def table_of_def example_order_def)
  have "run_enrollments example_paid = run_enrollments example_shop"
    by (simp add: example_paid_def example_checked_out_def)
  then have ok: "run_enrollments_ok example_paid"
    using example_ok by (simp add: run_enrollments_ok_def)
  have voucher: "voucher_of_order example_paid 1 = None"
    by (simp add: voucher_of_order_def example_paid_def example_checked_out_def example_tables matching_def empty_table_def
        order_by_desc_def)
  have cfg: "sc_cms example_config = no_cms_pages" "sc_credits example_config = (\<lambda>_. (None, []))" "sc_environment example_config = ''ci''"
    "sv_token_set (sc_edx example_config)" "map_of example_notification ''decision'' = Some ''ACCEPT''"
    by (simp_all add: example_config_def open_service_simps example_notification_def)
  obtain rc where rc: "order_receipt_of no_cms_pages (\<lambda>_. (None, [])) ''ci'' example_paid 1 = Inr rc"
    using example_receipt by blast
  from accepted_notification_enrolls [OF example_notified_paid cfg(5) row1(1) line ok cfg(4) voucher _ prod.collapse [symmetric]]
  show ?thesis using rc row1(2) by (simp add: cfg)
qed

end
