(* ===== verification/B2b.thy ===== *)
theory B2b
  imports Fulfilment
begin

text \<open>
  Bulk orders of enrollment codes, from \<open>b2b_ecommerce/api.py\<close>, \<open>b2b_ecommerce/models.py\<close> and
  \<open>b2b_ecommerce/views.py\<close>: the coupon for a bulk order and its price, the check-out, the
  creation of the enrollment codes, and the payment notification.
\<close>

section \<open>Coupons for bulk orders\<close>

definition get_unexpired_coupon :: "int \<Rightarrow> 'z shop_db_scheme \<Rightarrow> string \<Rightarrow> int \<Rightarrow> exn + nat" where
  "get_unexpired_coupon now s code product_id =
     (case t_get ''B2BCoupon'' (b2b_coupons s) (\<lambda>_ c. bc_coupon_code c = code \<and> bc_enabled c \<and>
             (bc_product c = None \<or> map_option int (bc_product c) = Some product_id) \<and>
             (case bc_activation_date c of None \<Rightarrow> True | Some d \<Rightarrow> d < now) \<and>
             (case bc_expiration_date c of None \<Rightarrow> True | Some d \<Rightarrow> d > now)) of
        Inl e \<Rightarrow> Inl e
      | Inr coupon \<Rightarrow>
          if \<not> bc_reusable (row (b2b_coupons s) coupon) \<and>
             t_exists (b2b_coupon_redemptions s) (\<lambda>_ r. bcr_coupon r = coupon \<and>
               (ord_status (row (b2b_orders s) (bcr_order r)) = OrderFulfilled \<or>
                ord_status (row (b2b_orders s) (bcr_order r)) = OrderRefunded))
          then Inl (DoesNotExist ''B2BCoupon'') else Inr coupon)"

definition determine_price_and_discount ::
  "int \<Rightarrow> 'z shop_db_scheme \<Rightarrow> nat \<Rightarrow> string option \<Rightarrow> int \<Rightarrow> exn + decimal \<times> nat option \<times> decimal option" where
  "determine_price_and_discount now s product_version discount_code num_seats =
     (let pv = row (product_versions s) product_version; total_price = pv_price pv * of_int num_seats
      in case discount_code of
           None \<Rightarrow> Inr (total_price, None, None)
         | Some code \<Rightarrow>
             if code = [] then Inr (total_price, None, None)
             else case get_unexpired_coupon now s code (int (pv_product pv)) of
               Inl e \<Rightarrow> Inl (if is_does_not_exist e then ValidationError [] ''Invalid coupon code'' else e)
             | Inr coupon \<Rightarrow>
                 (let discount = round_cents_half_even (bc_discount_percent (row (b2b_coupons s) coupon) * total_price)
                  in Inr (total_price - discount, Some coupon, Some discount)))"

section \<open>Completing a bulk order\<close>

definition or_none :: "string option \<Rightarrow> string option" where
  "or_none v = (case v of None \<Rightarrow> None | Some t \<Rightarrow> if t = [] then None else Some t)"

definition b2b_payment_name :: "'z shop_db_scheme \<Rightarrow> nat \<Rightarrow> string" where
  "b2b_payment_name s order =
     (let r = row (b2b_orders s) order;
          code = map_option (\<lambda>c. bc_coupon_code (row (b2b_coupons s) c)) (bo_coupon r)
      in case (code, or_none (bo_contract_number r)) of
           (Some c, Some n) \<Rightarrow> ''order_'' @ nat_str order @ '' '' @ n @ '' '' @ c
         | (None, Some n) \<Rightarrow> n
         | (Some c, None) \<Rightarrow> ''order_'' @ nat_str order @ '' '' @ c
         | (None, None) \<Rightarrow> ''CouponPayment for order #'' @ nat_str order)"

definition b2b_coupon_params :: "string \<Rightarrow> 'z shop_db_scheme \<Rightarrow> nat \<Rightarrow> coupon_params" where
  "b2b_coupon_params environment s order =
     (let r = row (b2b_orders s) order
      in \<lparr>cpar_name = b2b_payment_name s order,
          cpar_product_ids = [pv_product (row (product_versions s) (bo_product_version r))],
          cpar_amount = 1, cpar_num_coupon_codes = bo_num_seats r, cpar_coupon_type = SINGLE_USE,
          cpar_max_redemptions = 1, cpar_max_redemptions_per_user = 1, cpar_tag = None, cpar_company_id = None,
          cpar_automatic = False, cpar_is_global = False, cpar_activation_date = None, cpar_expiration_date = None,
          cpar_payment_type = Some ''sales'', cpar_discount_type = PercentOff,
          cpar_payment_transaction =
            Some (case or_none (bo_contract_number r) of
                    Some n \<Rightarrow> n
                  | None \<Rightarrow> reference_number (b2b_order_reference_number_prefix environment) order),
          cpar_coupon_code = None, cpar_product_program_run_map = Map.empty, cpar_include_future_runs = False\<rparr>)"

text \<open>\<open>send_b2b_receipt_email\<close> of \<open>ecommerce/mail_api.py\<close>: the title is read before the \<open>try\<close> block.\<close>

definition send_b2b_receipt_email :: "nat \<Rightarrow> ('z shop_db_scheme, unit) prog" where
  "send_b2b_receipt_email order =
     bindp (asks (\<lambda>s. prod_content (row (products s) (pv_product (row (product_versions s)
                   (bo_product_version (row (b2b_orders s) order))))))) (\<lambda>c.
     bindp (asks (\<lambda>s. content_title s c)) (\<lambda>title.
     thenp (bindp (lift_result title) (\<lambda>_. ret ()))
    (bindp (asks (\<lambda>s. get_readable_id s c)) (\<lambda>readable_id.
     case readable_id of
       Inl _ \<Rightarrow> ret ()
     | Inr _ \<Rightarrow>
         bindp (asks (\<lambda>s. bo_email (row (b2b_orders s) order))) (\<lambda>email.
         emit (SendMail ''b2b_receipt'' [order] [email]))))))"

text \<open>
  \<open>complete_b2b_order\<close>: the order object it is given is fulfilled already, so its \<open>save\<close> stores that status
  together with the new payment version.
\<close>

definition complete_b2b_order :: "shop_config \<Rightarrow> (nat \<Rightarrow> string) \<Rightarrow> nat \<Rightarrow> ('z shop_db_scheme, unit) prog" where
  "complete_b2b_order cfg uuids order =
     thenp (atomic
       (bindp (asks (\<lambda>s. b2b_coupon_params (sc_environment cfg) s order)) (\<lambda>p.
        bindp (create_coupons uuids (sc_now cfg) p) (\<lambda>payment_version.
        db_save b2b_orders b2b_orders_update order
          (\<lambda>r. r\<lparr>ord_status := OrderFulfilled, bo_coupon_payment_version := Some payment_version\<rparr>)))))
       (send_b2b_receipt_email order)"

definition sync_hubspot_b2b_deal :: "shop_config \<Rightarrow> nat \<Rightarrow> ('z shop_db_scheme, unit) prog" where
  "sync_hubspot_b2b_deal cfg order = whenp (sc_hubspot_token cfg) (emit (HubspotSync ''b2b_deal'' order))"

definition b2b_order_str :: "nat \<Rightarrow> b2b_order_row \<Rightarrow> string" where
  "b2b_order_str k r =
     ''B2BOrder #'' @ nat_str k @ '', status='' @
     (case ord_status r of OrderCreated \<Rightarrow> ''created'' | OrderFulfilled \<Rightarrow> ''fulfilled''
      | OrderFailed \<Rightarrow> ''failed'' | OrderRefunded \<Rightarrow> ''refunded'')"

section \<open>Payment notifications\<close>

definition change_b2b_order_status ::
  "shop_config \<Rightarrow> (nat \<Rightarrow> string) \<Rightarrow> nat \<Rightarrow> order_status \<Rightarrow> ('z shop_db_scheme, unit) prog" where
  "change_b2b_order_status cfg uuids order new_order_status =
     thenp (whenp (new_order_status = OrderFulfilled) (complete_b2b_order cfg uuids order))
    (thenp (save_and_log_b2b_order order (\<lambda>r. r\<lparr>ord_status := new_order_status\<rparr>) None)
       (sync_hubspot_b2b_deal cfg order))"

definition fulfill_b2b_order :: "shop_config \<Rightarrow> (nat \<Rightarrow> string) \<Rightarrow> payload \<Rightarrow> ('z shop_db_scheme, unit) prog" where
  "fulfill_b2b_order cfg uuids request_data =
     bindp (db_create b2b_receipts b2b_receipts_update \<lparr>br_order = None, br_data = request_data\<rparr>) (\<lambda>receipt.
     case map_of request_data ''req_reference_number'' of
       None \<Rightarrow> raise (KeyError ''req_reference_number'')
     | Some ref_number \<Rightarrow>
         bindp (asks (\<lambda>s. get_by_reference_number ''B2BOrder'' (b2b_order_reference_number_prefix (sc_environment cfg))
                            (b2b_orders s) ref_number)) (\<lambda>found.
         bindp (lift_result found) (\<lambda>order.
         thenp (db_save b2b_receipts b2b_receipts_update receipt (\<lambda>r. r\<lparr>br_order := Some order\<rparr>))
           (case map_of request_data ''decision'' of
              None \<Rightarrow> raise (KeyError ''decision'')
            | Some decision \<Rightarrow>
                bindp (asks (\<lambda>s. determine_order_status_change (b2b_order_str order (row (b2b_orders s) order))
                                   (ord_status (row (b2b_orders s) order)) decision)) (\<lambda>change.
                bindp (lift_result change) (\<lambda>new_order_status.
                case new_order_status of
                  None \<Rightarrow> ret ()
                | Some st \<Rightarrow> change_b2b_order_status cfg uuids order st))))))"

section \<open>The check-out of a bulk order\<close>

text \<open>The data of the request: a missing key, \<open>null\<close>, or a text.\<close>

type_synonym b2b_request = "(string \<times> string option) list"

record b2b_parameters =
  bp_num_seats :: "string option"
  bp_email :: "string option"
  bp_product_version_id :: "string option"
  bp_discount_code :: "string option"
  bp_contract_number :: "string option"
  bp_run_id :: "string option"

definition b2b_parameters_of :: "b2b_request \<Rightarrow> exn + b2b_parameters" where
  "b2b_parameters_of d =
     (let optional = (\<lambda>k. case map_of d k of None \<Rightarrow> None | Some v \<Rightarrow> v)
      in case first_of (filter (\<lambda>k. map_of d k = None) [''num_seats'', ''email'', ''product_version_id'', ''discount_code'']) of
           Some k \<Rightarrow> Inl (ValidationError [] (''Missing parameter '' @ k))
         | None \<Rightarrow>
             Inr \<lparr>bp_num_seats = optional ''num_seats'', bp_email = optional ''email'',
                  bp_product_version_id = optional ''product_version_id'', bp_discount_code = optional ''discount_code'',
                  bp_contract_number = optional ''contract_number'', bp_run_id = optional ''run_id''\<rparr>)"

definition b2b_num_seats :: "string option \<Rightarrow> exn + int" where
  "b2b_num_seats v =
     (case v of
        None \<Rightarrow> Inl (TypeErr ''int'')
      | Some t \<Rightarrow>
          (case py_int t of
             Inl e \<Rightarrow> Inl (if is_value_error e then ValidationError ''num_seats'' ''num_seats must be a number'' else e)
           | Inr n \<Rightarrow> Inr n))"

definition contract_number_used :: "'z shop_db_scheme \<Rightarrow> string option \<Rightarrow> bool" where
  "contract_number_used s contract_number =
     (case or_none contract_number of
        None \<Rightarrow> False
      | Some n \<Rightarrow>
          t_exists (b2b_orders s) (\<lambda>_ r. ord_status r = OrderFulfilled \<and>
            (case bo_contract_number r of None \<Rightarrow> False | Some m \<Rightarrow> case_insensitive_equal n m)))"

definition product_version_or_404 :: "'z shop_db_scheme \<Rightarrow> string option \<Rightarrow> exn + nat" where
  "product_version_or_404 s v =
     (case v of
        None \<Rightarrow> Inl Http404
      | Some t \<Rightarrow>
          (case py_int t of
             Inl _ \<Rightarrow> Inl Http404
           | Inr n \<Rightarrow>
               (case t_get ''ProductVersion'' (product_versions s) (\<lambda>k _. int k = n) of
                  Inl _ \<Rightarrow> Inl Http404 | Inr k \<Rightarrow> Inr k)))"

definition program_run_by_id :: "'z shop_db_scheme \<Rightarrow> string option \<Rightarrow> exn + nat option" where
  "program_run_by_id s v =
     (case or_none v of
        None \<Rightarrow> Inr None
      | Some t \<Rightarrow>
          (case py_int t of Inl e \<Rightarrow> Inl e | Inr n \<Rightarrow> Inr (t_first (program_runs s) (\<lambda>k _. int k = n))))"

definition create_b2b_order ::
  "shop_config \<Rightarrow> string \<Rightarrow> b2b_parameters \<Rightarrow> int \<Rightarrow> ('z shop_db_scheme, nat \<times> decimal) prog" where
  "create_b2b_order cfg unique_id p num_seats =
     atomic
       (bindp (asks (\<lambda>s. product_version_or_404 s (bp_product_version_id p))) (\<lambda>pv_result.
        bindp (lift_result pv_result) (\<lambda>product_version.
        bindp (asks (\<lambda>s. determine_price_and_discount (sc_now cfg) s product_version (bp_discount_code p) num_seats)) (\<lambda>price.
        bindp (lift_result price) (\<lambda>(total_price, coupon, discount).
        bindp (asks (\<lambda>s. program_run_by_id s (bp_run_id p))) (\<lambda>run_result.
        bindp (lift_result run_result) (\<lambda>program_run.
        if num_seats < 0 then raise (IntegrityError ''b2b_ecommerce_b2border_num_seats_check'')
        else
          bindp (asks (\<lambda>s. pv_price (row (product_versions s) product_version))) (\<lambda>per_item_price.
          bindp (db_create b2b_orders b2b_orders_update
             \<lparr>ord_status = OrderCreated, ord_created_on = sc_now cfg, bo_num_seats = nat num_seats,
              bo_email = (case bp_email p of None \<Rightarrow> [] | Some e \<Rightarrow> e), bo_product_version = product_version,
              bo_per_item_price = per_item_price, bo_total_price = total_price, bo_unique_id = unique_id,
              bo_coupon_payment_version = None, bo_coupon = coupon, bo_discount = discount,
              bo_contract_number = bp_contract_number p, bo_program_run = program_run\<rparr>) (\<lambda>order.
          thenp (save_and_log_b2b_order order (\<lambda>r. r) None)
         (thenp (case coupon of
                   None \<Rightarrow> ret ()
                 | Some c \<Rightarrow> bindp (db_create b2b_coupon_redemptions b2b_coupon_redemptions_update
                     \<lparr>bcr_coupon = c, bcr_order = order\<rparr>) (\<lambda>_. ret ()))
            (ret (order, total_price))))))))))))"

definition b2b_receipt_url :: "string \<Rightarrow> string \<Rightarrow> string" where
  "b2b_receipt_url base_url unique_id =
     url_origin base_url @ ''/ecommerce/bulk/receipt/'' @ ''?'' @ urlencode [(''hash'', unique_id)]"

definition b2b_checkout_view ::
  "shop_config \<Rightarrow> cybersource_settings \<Rightarrow> (string \<Rightarrow> string \<Rightarrow> string) \<Rightarrow> string \<Rightarrow> (string \<Rightarrow> bool) \<Rightarrow> (nat \<Rightarrow> string) \<Rightarrow> string \<Rightarrow>
   string \<Rightarrow> b2b_request \<Rightarrow> ('z shop_db_scheme, checkout_response) prog" where
  "b2b_checkout_view cfg cs hmac_b64 secure_acceptance_url valid_email uuids unique_id base_url request_data =
     bindp (lift_result (b2b_parameters_of request_data)) (\<lambda>p.
     if \<not> (case bp_email p of None \<Rightarrow> False | Some e \<Rightarrow> valid_email e)
     then raise (ValidationError ''email'' ''Invalid email'')
     else
       bindp (lift_result (b2b_num_seats (bp_num_seats p))) (\<lambda>num_seats.
       bindp (asks (\<lambda>s. contract_number_used s (bp_contract_number p))) (\<lambda>used.
       if used then raise (ValidationError ''contract_number'' ''This contract number has already been used'')
       else
         bindp (create_b2b_order cfg unique_id p num_seats) (\<lambda>(order, total_price).
         let receipt_url = b2b_receipt_url base_url unique_id
         in bindp
              (if total_price = 0
               then
                 thenp (db_save b2b_orders b2b_orders_update order (\<lambda>r. r\<lparr>ord_status := OrderFulfilled\<rparr>))
                (thenp (complete_b2b_order cfg uuids order)
                (thenp (save_and_log_b2b_order order (\<lambda>r. r) None)
                   (ret \<lparr>cr_payload = [], cr_url = receipt_url, cr_method = ''GET''\<rparr>)))
               else
                 bindp (asks (\<lambda>s. generate_b2b_cybersource_sa_payload hmac_b64 cs (sc_environment cfg) s order receipt_url
                                    (url_origin base_url @ ''/ecommerce/bulk/''))) (\<lambda>result.
                 bindp (lift_result result) (\<lambda>payload.
                 ret \<lparr>cr_payload = payload, cr_url = secure_acceptance_url, cr_method = ''POST''\<rparr>))) (\<lambda>response.
            thenp (sync_hubspot_b2b_deal cfg order) (ret response))))))"

section \<open>Other views\<close>

text \<open>\<open>B2BEnrollmentCodesView\<close>: the address for every enrollment code of the order.\<close>

definition enrollment_code_urls :: "string \<Rightarrow> 'z shop_db_scheme \<Rightarrow> nat \<Rightarrow> string list" where
  "enrollment_code_urls base_checkout_url s order =
     (let r = row (b2b_orders s) order;
          run_tag = map_option (\<lambda>k. prun_run_tag (row (program_runs s) k)) (bo_program_run r);
          codes = concat (map (\<lambda>c. map (\<lambda>_. coupon_code (row (coupons s) c))
            (matching (coupon_versions s) (\<lambda>_ v. cv_coupon v = c \<and> bo_coupon_payment_version r = Some (cv_payment_version v))))
            (pks (coupons s)))
      in map (\<lambda>code. make_checkout_url base_checkout_url (pv_text_id (row (product_versions s) (bo_product_version r)))
                (Some code) run_tag False) codes)"

text \<open>The customer's name in \<open>B2BOrderStatusView\<close>: of the user with the order's email, or of the newest receipt.\<close>

definition b2b_customer_name :: "'z shop_db_scheme \<Rightarrow> nat \<Rightarrow> exn + string" where
  "b2b_customer_name s order =
     (let name = (case t_first (users s) (\<lambda>_ u. user_email u = bo_email (row (b2b_orders s) order)) of
            None \<Rightarrow> [] | Some u \<Rightarrow> user_name (row (users s) u))
      in case t_last (b2b_receipts s) (\<lambda>_ r. br_order r = Some order) of
           None \<Rightarrow> Inr (py_strip name)
         | Some receipt \<Rightarrow>
             if name \<noteq> [] then Inr (py_strip name)
             else (let d = br_data (row (b2b_receipts s) receipt)
                   in case (map_of d ''req_bill_to_forename'', map_of d ''req_bill_to_surname'') of
                        (Some f, Some l) \<Rightarrow> Inr (py_strip (f @ '' '' @ l))
                      | _ \<Rightarrow> Inl (TypeErr ''NoneType'')))"

text \<open>\<open>B2BCouponView\<close>: a numeric product id is not looked up.\<close>

definition b2b_coupon_view ::
  "int \<Rightarrow> 'z shop_db_scheme \<Rightarrow> string option \<Rightarrow> string option \<Rightarrow> exn + string \<times> int \<times> decimal" where
  "b2b_coupon_view now s code product_id =
     (case (code, product_id) of
        (None, _) \<Rightarrow> Inl (ValidationError [] ''Missing parameter code'')
      | (_, None) \<Rightarrow> Inl (ValidationError [] ''Missing parameter product_id'')
      | (Some c, Some p) \<Rightarrow>
          (case (case py_int p of
                   Inr n \<Rightarrow> Inr n
                 | Inl _ \<Rightarrow> (case get_product_from_text_id s p of Inl e \<Rightarrow> Inl e | Inr (product, _) \<Rightarrow> Inr (int product))) of
             Inl e \<Rightarrow> Inl e
           | Inr product_id \<Rightarrow>
               (case get_unexpired_coupon now s c product_id of
                  Inl e \<Rightarrow> Inl (if is_does_not_exist e then Http404 else e)
                | Inr coupon \<Rightarrow> Inr (c, product_id, bc_discount_percent (row (b2b_coupons s) coupon)))))"

section \<open>Lemmas\<close>

text \<open>What \<open>create_coupons\<close> leaves alone.\<close>

definition b2b_core :: "shop_db \<Rightarrow> b2b_order_row table \<times> b2b_receipt_row table \<times> order_row table \<times> b2b_coupon_row table" where
  "b2b_core s = (b2b_orders s, b2b_receipts s, orders s, b2b_coupons s)"

lemma create_coupons_core: "create_coupons uuids now p s = (r, t) \<Longrightarrow> b2b_core t = b2b_core s"
proof -
  have "keeps (\<lambda>t. b2b_core t = b2b_core s) (bulk_create_coupons cs)" for cs
    by (simp add: keeps_def bulk_create_coupons_run b2b_core_def)
  then have "keeps (\<lambda>t. b2b_core t = b2b_core s) (create_coupons uuids now p)"
    unfolding create_coupons_def by (intro keeps_intros) (simp_all add: keeps_def b2b_core_def)
  then show "create_coupons uuids now p s = (r, t) \<Longrightarrow> b2b_core t = b2b_core s"
    by (auto dest: keepsD)
qed

lemma send_b2b_receipt_email_effects: "send_b2b_receipt_email k s = (r, s') \<Longrightarrow> \<exists>fx. s' = s\<lparr>effects := fx\<rparr>" for s :: shop_db
  by (auto simp: send_b2b_receipt_email_def bindp_run thenp_run split: sum.splits intro: exI [of _ "effects s"])

text \<open>The enrollment codes of a bulk order: as many coupons as seats, each for the ordered product only, free of charge.\<close>

definition has_codes :: "shop_db \<Rightarrow> nat \<Rightarrow> nat \<Rightarrow> shop_db \<Rightarrow> bool" where
  "has_codes s k pv s' \<longleftrightarrow>
     (\<exists>ks. length ks = bo_num_seats (row (b2b_orders s) k) \<and> pks (coupons s') = pks (coupons s) @ ks \<and>
        unique_on (coupons s') coupon_code \<and>
        list_all (\<lambda>c. coupon_enabled (row (coupons s') c) \<and> \<not> coupon_is_global (row (coupons s') c) \<and>
          map cv_payment_version (map (row (coupon_versions s')) (matching (coupon_versions s') (\<lambda>_ v. cv_coupon v = c))) = [pv] \<and>
          map ce_product (map (row (coupon_eligibilities s')) (matching (coupon_eligibilities s') (\<lambda>_ e. ce_coupon e = c)))
            = [pv_product (row (product_versions s) (bo_product_version (row (b2b_orders s) k)))]) ks) \<and>
     (let v = row (coupon_payment_versions s') pv
      in cpv_amount v = 1 \<and> cpv_discount_type v = PercentOff \<and> cpv_coupon_type v = SINGLE_USE \<and> cpv_max_redemptions v = 1 \<and>
         cpv_num_coupon_codes v = bo_num_seats (row (b2b_orders s) k))"

text \<open>The tables a failed completion must not change.\<close>

definition same_codes :: "shop_db \<Rightarrow> shop_db \<Rightarrow> bool" where
  "same_codes s s' \<longleftrightarrow> coupons s' = coupons s \<and> coupon_payments s' = coupon_payments s \<and>
     coupon_payment_versions s' = coupon_payment_versions s \<and> coupon_versions s' = coupon_versions s \<and>
     coupon_eligibilities s' = coupon_eligibilities s"

lemma complete_b2b_order_cases:
  assumes run: "complete_b2b_order cfg uuids k s = (r, s')"
  shows "(\<exists>e. r = Inl e) \<and> s' = s \<or>
    (\<exists>pv. b2b_orders s' = t_save (b2b_orders s) k (\<lambda>r. r\<lparr>ord_status := OrderFulfilled, bo_coupon_payment_version := Some pv\<rparr>) \<and>
       (coupon_keys_ok s \<longrightarrow> has_codes s k pv s') \<and> b2b_receipts s' = b2b_receipts s \<and> orders s' = orders s)"
proof -
  let ?p = "b2b_coupon_params (sc_environment cfg) s k"
  obtain r1 t where c: "create_coupons uuids (sc_now cfg) ?p s = (r1, t)" by fastforce
  show ?thesis
  proof (cases r1)
    case (Inl e)
    with c run show ?thesis by (auto simp: complete_b2b_order_def thenp_run atomic_run bindp_run)
  next
    case (Inr pv)
    let ?f = "\<lambda>r. r\<lparr>ord_status := OrderFulfilled, bo_coupon_payment_version := Some pv\<rparr>"
    let ?t = "t\<lparr>b2b_orders := t_save (b2b_orders t) k ?f\<rparr>"
    from run c Inr have "send_b2b_receipt_email k ?t = (r, s')"
      by (simp add: complete_b2b_order_def thenp_run atomic_run bindp_run)
    from send_b2b_receipt_email_effects [OF this] obtain fx where s': "s' = ?t\<lparr>effects := fx\<rparr>" by blast
    from create_coupons_core [OF c] have core: "b2b_orders t = b2b_orders s" "b2b_receipts t = b2b_receipts s" "orders t = orders s"
      by (simp_all add: b2b_core_def)
    from create_coupons_effect [OF _ c [unfolded Inr]] have "coupon_keys_ok s \<longrightarrow> has_codes s k pv s'"
      by (auto simp: s' has_codes_def Let_def b2b_coupon_params_def new_payment_version_def)
    with core show ?thesis by (intro disjI2 exI [of _ pv]) (simp add: s')
  qed
qed

lemma b2b_save_run: "save_and_log_b2b_order k f a s = (Inr (), s') \<Longrightarrow> b2b_orders s' = t_save (b2b_orders s) k f \<and>
    same_codes s s' \<and> b2b_receipts s' = b2b_receipts s \<and> orders s' = orders s" for s :: shop_db
  by (auto simp: save_and_log_b2b_order_run Let_def same_codes_def)

lemma sync_b2b_deal_run: "\<exists>fx. sync_hubspot_b2b_deal cfg k s = (Inr (), s\<lparr>effects := fx\<rparr>)" for s :: shop_db
  by (auto simp: sync_hubspot_b2b_deal_def intro: exI [of _ "effects s"])

lemma change_b2b_order_status_cases:
  assumes run: "change_b2b_order_status cfg uuids k st s = (r, s')"
  shows "if st = OrderFulfilled
    then (\<exists>e. r = Inl e) \<and> s' = s \<or>
      (\<exists>pv. b2b_orders s' = t_save (b2b_orders s) k (\<lambda>r. r\<lparr>ord_status := OrderFulfilled, bo_coupon_payment_version := Some pv\<rparr>) \<and>
         (coupon_keys_ok s \<longrightarrow> has_codes s k pv s') \<and> b2b_receipts s' = b2b_receipts s)
    else r = Inr () \<and> b2b_orders s' = t_save (b2b_orders s) k (\<lambda>r. r\<lparr>ord_status := st\<rparr>) \<and> same_codes s s' \<and>
      b2b_receipts s' = b2b_receipts s"
proof -
  have rest: "b2b_orders u' = t_save (b2b_orders u) k (\<lambda>r. r\<lparr>ord_status := st\<rparr>) \<and> same_codes u u' \<and> b2b_receipts u' = b2b_receipts u \<and> x = Inr ()"
    if "thenp (save_and_log_b2b_order k (\<lambda>r. r\<lparr>ord_status := st\<rparr>) None) (sync_hubspot_b2b_deal cfg k) u = (x, u')" for u u' :: shop_db and x
  proof -
    obtain v y where v: "save_and_log_b2b_order k (\<lambda>r. r\<lparr>ord_status := st\<rparr>) None u = (y, v)" by fastforce
    then have y: "y = Inr ()" by (auto simp: save_and_log_b2b_order_run Let_def)
    from sync_b2b_deal_run obtain fx where "sync_hubspot_b2b_deal cfg k v = (Inr (), v\<lparr>effects := fx\<rparr>)" by blast
    with that v y b2b_save_run [of k _ None u v] show ?thesis by (auto simp: thenp_run same_codes_def)
  qed
  show ?thesis
  proof (cases "st = OrderFulfilled")
    case False
    with run rest [of s r s'] show ?thesis by (simp add: change_b2b_order_status_def thenp_run)
  next
    case True
    obtain r1 t where c: "complete_b2b_order cfg uuids k s = (r1, t)" by fastforce
    from complete_b2b_order_cases [OF c] show ?thesis
    proof (elim disjE exE conjE)
      fix e assume "r1 = Inl e" "t = s"
      with run c True show ?thesis by (auto simp: change_b2b_order_status_def thenp_run)
    next
      fix pv
      assume t: "b2b_orders t = t_save (b2b_orders s) k (\<lambda>r. r\<lparr>ord_status := OrderFulfilled, bo_coupon_payment_version := Some pv\<rparr>)"
        "coupon_keys_ok s \<longrightarrow> has_codes s k pv t" "b2b_receipts t = b2b_receipts s" "orders t = orders s"
      show ?thesis
      proof (cases r1)
        case (Inl e)
        with run c True t show ?thesis by (simp add: change_b2b_order_status_def thenp_run) blast
      next
        case (Inr a)
        with run c True have "thenp (save_and_log_b2b_order k (\<lambda>r. r\<lparr>ord_status := st\<rparr>) None) (sync_hubspot_b2b_deal cfg k) t = (r, s')"
          by (simp add: change_b2b_order_status_def thenp_run)
        from rest [OF this] have u: "b2b_orders s' = t_save (b2b_orders t) k (\<lambda>r. r\<lparr>ord_status := st\<rparr>)" "same_codes t s'"
          "b2b_receipts s' = b2b_receipts t" by auto
        have "b2b_orders s' = t_save (b2b_orders s) k (\<lambda>r. r\<lparr>ord_status := OrderFulfilled, bo_coupon_payment_version := Some pv\<rparr>)"
          unfolding u(1) t(1) True by (simp add: t_save_def fun_eq_iff)
        moreover have "coupon_keys_ok s \<longrightarrow> has_codes s k pv s'"
          using t(2) u(2) by (simp add: has_codes_def same_codes_def)
        ultimately show ?thesis using True t(3) u(3) by (auto simp: Let_def)
      qed
    qed
  qed
qed


definition notified_b2b_order :: "shop_config \<Rightarrow> shop_db \<Rightarrow> payload \<Rightarrow> nat option" where
  "notified_b2b_order cfg s data =
     (case map_of data ''req_reference_number'' of
        None \<Rightarrow> None
      | Some ref \<Rightarrow>
          (case get_by_reference_number ''B2BOrder'' (b2b_order_reference_number_prefix (sc_environment cfg)) (b2b_orders s) ref of
             Inl _ \<Rightarrow> None | Inr k \<Rightarrow> Some k))"

text \<open>
  C7: A payment notification that names a bulk order stores one receipt, linked to the order. An accepted payment of a
  created order either raises and leaves the order and all coupons as they were, or leaves it fulfilled together
  with its payment version and exactly as many new, single-use, full-discount codes for the
  ordered product as seats. A declined or cancelled payment stores that status; any other notification changes neither.
\<close>

theorem fulfill_b2b_order_spec:
  assumes ok: "coupon_keys_ok s" and "notified_b2b_order cfg s data = Some k" and "map_of data ''decision'' = Some decision"
    and run: "fulfill_b2b_order cfg uuids data s = (r, s')"
  shows "b2b_receipts s' = snd (t_create (b2b_receipts s) \<lparr>br_order = Some k, br_data = data\<rparr>) \<and>
    (case determine_order_status_change (b2b_order_str k (row (b2b_orders s) k)) (ord_status (row (b2b_orders s) k)) decision of
       Inl e \<Rightarrow> r = Inl e \<and> b2b_orders s' = b2b_orders s \<and> same_codes s s'
     | Inr None \<Rightarrow> r = Inr () \<and> b2b_orders s' = b2b_orders s \<and> same_codes s s'
     | Inr (Some st) \<Rightarrow>
         if st = OrderFulfilled
         then (\<exists>e. r = Inl e) \<and> b2b_orders s' = b2b_orders s \<and> same_codes s s' \<or>
           (\<exists>pv. b2b_orders s' = t_save (b2b_orders s) k (\<lambda>r. r\<lparr>ord_status := OrderFulfilled, bo_coupon_payment_version := Some pv\<rparr>) \<and>
              has_codes s k pv s')
         else r = Inr () \<and> b2b_orders s' = t_save (b2b_orders s) k (\<lambda>r. r\<lparr>ord_status := st\<rparr>) \<and> same_codes s s')"
proof -
  let ?t = "s\<lparr>b2b_receipts := snd (t_create (b2b_receipts s) \<lparr>br_order = Some k, br_data = data\<rparr>)\<rparr>"
  obtain ref where ref: "map_of data ''req_reference_number'' = Some ref"
    "get_by_reference_number ''B2BOrder'' (b2b_order_reference_number_prefix (sc_environment cfg)) (b2b_orders s) ref = Inr k"
    using assms(2) by (auto simp: notified_b2b_order_def split: option.splits sum.splits)
  have codes: "has_codes ?t k pv t \<longleftrightarrow> has_codes s k pv t" "same_codes ?t t \<longleftrightarrow> same_codes s t" "coupon_keys_ok ?t" for pv t
    using ok by (simp_all add: has_codes_def same_codes_def coupon_keys_ok_def)
  let ?d = "determine_order_status_change (b2b_order_str k (row (b2b_orders s) k)) (ord_status (row (b2b_orders s) k)) decision"
  have body: "(r, s') = (case ?d of Inl e \<Rightarrow> (Inl e, ?t) | Inr None \<Rightarrow> (Inr (), ?t)
      | Inr (Some st) \<Rightarrow> change_b2b_order_status cfg uuids k st ?t)"
    using run ref assms(3)
    by (simp add: fulfill_b2b_order_def bindp_run thenp_run t_save_new split: sum.splits option.splits)
  show ?thesis
  proof (cases ?d)
    case (Inl e)
    with body show ?thesis by (simp add: same_codes_def)
  next
    case (Inr change)
    show ?thesis
    proof (cases change)
      case None
      with body Inr show ?thesis by (simp add: same_codes_def)
    next
      case (Some st)
      with body Inr have "change_b2b_order_status cfg uuids k st ?t = (r, s')" by simp
      from change_b2b_order_status_cases [OF this] codes(3) Inr Some show ?thesis
        by (auto simp: codes split: if_splits) (auto simp: same_codes_def)
    qed
  qed
qed

definition example_b2b_shop :: shop_db where
  "example_b2b_shop = example_shop\<lparr>b2b_orders := table_of example_b2b_order [example_b2b_order]\<rparr>"

definition example_b2b_notification :: payload where
  "example_b2b_notification = [(''req_reference_number'', ''xpro-bulk-ci-1''), (''decision'', ''ACCEPT'')]"

lemma example_b2b_notified: "notified_b2b_order example_config example_b2b_shop example_b2b_notification = Some 1"
proof -
  have one: "nat_str 1 = ''1''"
    by (subst nat_str.simps) (simp add: digit_chars_def)
  have ref: "''xpro-bulk-ci-1'' = reference_number (b2b_order_reference_number_prefix ''ci'') 1"
    by (simp add: reference_number_def b2b_order_reference_number_prefix_def B2B_REFERENCE_NUMBER_PREFIX_def one [unfolded One_nat_def])
  have "get_by_reference_number ''B2BOrder'' (b2b_order_reference_number_prefix ''ci'') (b2b_orders example_b2b_shop) ''xpro-bulk-ci-1'' = Inr 1"
    unfolding ref get_by_reference_number_def using order_id_of_reference_number [of "b2b_order_reference_number_prefix ''ci''" 1]
    by (simp add: t_get_def matching_def example_b2b_shop_def table_of_def the_only_def)
  then show ?thesis
    by (simp add: notified_b2b_order_def example_b2b_notification_def example_config_def)
qed

lemma example_b2b_keys: "coupon_keys_ok example_b2b_shop"
  using example_coupon_keys by (simp add: coupon_keys_ok_def example_b2b_shop_def)

abbreviation example_codes :: "nat \<Rightarrow> string" where
  "example_codes \<equiv> (\<lambda>i. ''u'' @ nat_str i)"

lemma example_b2b_status: "ord_status (row (b2b_orders example_b2b_shop) 1) = OrderCreated"
  by (simp add: example_b2b_shop_def example_b2b_order_def table_of_def)

lemma change_b2b_returns:
  fixes s t :: shop_db
  assumes c: "create_coupons uuids (sc_now cfg) (b2b_coupon_params (sc_environment cfg) s k) s = (Inr pv, t)"
    and title: "content_title t (prod_content (row (products t) (pv_product (row (product_versions t)
                   (bo_product_version (row (b2b_orders t) k)))))) = Inr x"
  shows "fst (change_b2b_order_status cfg uuids k OrderFulfilled s) = Inr ()"
proof -
  let ?u = "t\<lparr>b2b_orders := t_save (b2b_orders t) k (\<lambda>r. r\<lparr>ord_status := OrderFulfilled, bo_coupon_payment_version := Some pv\<rparr>)\<rparr>"
  have complete: "complete_b2b_order cfg uuids k s = send_b2b_receipt_email k ?u"
    using c by (simp add: complete_b2b_order_def thenp_run atomic_run bindp_run)
  have title': "content_title ?u c = content_title t c" for c
    by (simp add: content_title_def content_missing_def content_exists_def split: content.split)
  have "\<exists>v. send_b2b_receipt_email k ?u = (Inr (), v)"
    using title by (auto simp: send_b2b_receipt_email_def bindp_run thenp_run title' split: sum.split)
  then obtain v where v: "send_b2b_receipt_email k ?u = (Inr (), v)" by blast
  from sync_b2b_deal_run have "fst (sync_hubspot_b2b_deal cfg k w) = Inr ()" for w :: shop_db by (metis fst_conv)
  then show ?thesis
    by (simp add: change_b2b_order_status_def thenp_run complete v save_and_log_b2b_order_run Let_def)
qed

lemma example_b2b_accepted: "fst (fulfill_b2b_order example_config example_codes example_b2b_notification example_b2b_shop) = Inr ()"
proof -
  obtain ref where ref: "map_of example_b2b_notification ''req_reference_number'' = Some ref"
    "get_by_reference_number ''B2BOrder'' (b2b_order_reference_number_prefix ''ci'') (b2b_orders example_b2b_shop) ref = Inr 1"
    using example_b2b_notified by (auto simp: notified_b2b_order_def example_config_def split: option.splits sum.splits)
  have d: "map_of example_b2b_notification ''decision'' = Some CYBERSOURCE_DECISION_ACCEPT"
    by (simp add: example_b2b_notification_def CYBERSOURCE_DECISION_ACCEPT_def)
  have cfg: "sc_environment example_config = ''ci''" "sc_now example_config = 10"
    by (simp_all add: example_config_def)
  let ?t = "example_b2b_shop\<lparr>b2b_receipts := snd (t_create (b2b_receipts example_b2b_shop) \<lparr>br_order = Some 1, br_data = example_b2b_notification\<rparr>)\<rparr>"
  have "\<exists>u. create_coupons example_codes 10 (b2b_coupon_params ''ci'' ?t 1) ?t = (Inr 2, u) \<and>
      (\<exists>x. content_title u (prod_content (row (products u) (pv_product (row (product_versions u)
                   (bo_product_version (row (b2b_orders u) 1)))))) = Inr x)"
    by (simp add: create_coupons_def bindp_run thenp_run try_catch_def atomic_run bulk_create_coupons_run b2b_coupon_params_def b2b_payment_name_def
        new_coupons_def example_eval fst_t_bulk_create numeral_2_eq_2 example_b2b_shop_def example_b2b_order_def or_none_def example_pv_def
        content_title_def content_missing_def content_exists_def example_product_def)
  then obtain u x where u: "create_coupons example_codes (sc_now example_config) (b2b_coupon_params (sc_environment example_config) ?t 1) ?t = (Inr 2, u)"
    "content_title u (prod_content (row (products u) (pv_product (row (product_versions u)
                   (bo_product_version (row (b2b_orders u) 1)))))) = Inr x" unfolding cfg by blast
  show ?thesis
    using ref d change_b2b_returns [OF u] example_b2b_status
    by (simp add: fulfill_b2b_order_def bindp_run thenp_run cfg determine_order_status_change_def t_save_new)
qed

lemma fulfill_b2b_order_spec_witness:
  "\<exists>pv. has_codes example_b2b_shop 1 pv (snd (fulfill_b2b_order example_config example_codes example_b2b_notification example_b2b_shop))"
proof -
  have d: "map_of example_b2b_notification ''decision'' = Some CYBERSOURCE_DECISION_ACCEPT"
    by (simp add: example_b2b_notification_def CYBERSOURCE_DECISION_ACCEPT_def)
  from fulfill_b2b_order_spec [OF example_b2b_keys example_b2b_notified d prod.collapse [symmetric], of example_codes]
    example_b2b_accepted example_b2b_status
  show ?thesis by (auto simp: determine_order_status_change_def)
qed

text \<open>
  C9: The price of a bulk order. With non-negative prices in whole cents and coupons of at most 100 percent, price and
  discount add up to the price of the seats, both are non-negative and in whole cents, and the discount is that of
  a coupon with this code that is enabled, already active and not yet expired, for this product or for all, and not used up, rounded to cents.
\<close>

theorem determine_price_and_discount_spec:
  fixes s :: shop_db
  assumes price: "0 \<le> pv_price (row (product_versions s) pv)" "is_cents (pv_price (row (product_versions s) pv))"
    and seats: "0 \<le> num_seats"
    and coupons: "\<forall>c \<in> set (pks (b2b_coupons s)). 0 \<le> bc_discount_percent (row (b2b_coupons s) c) \<and> bc_discount_percent (row (b2b_coupons s) c) \<le> 1"
    and run: "determine_price_and_discount now s pv code num_seats = Inr (cost, coupon, discount)"
  shows "let full = pv_price (row (product_versions s) pv) * of_int num_seats; d = (case discount of None \<Rightarrow> 0 | Some d \<Rightarrow> d)
    in cost + d = full \<and> 0 \<le> cost \<and> 0 \<le> d \<and> is_cents cost \<and>
       (case coupon of
          None \<Rightarrow> discount = None \<and> (code = None \<or> code = Some [])
        | Some c \<Rightarrow> discount = Some (round_cents_half_even (bc_discount_percent (row (b2b_coupons s) c) * full)) \<and>
            Some (bc_coupon_code (row (b2b_coupons s) c)) = code \<and> bc_enabled (row (b2b_coupons s) c) \<and>
            bc_product (row (b2b_coupons s) c) \<in> {None, Some (pv_product (row (product_versions s) pv))} \<and>
            (\<forall>d. bc_activation_date (row (b2b_coupons s) c) = Some d \<longrightarrow> d < now) \<and>
            (\<forall>d. bc_expiration_date (row (b2b_coupons s) c) = Some d \<longrightarrow> now < d) \<and>
            (bc_reusable (row (b2b_coupons s) c) \<or> \<not> t_exists (b2b_coupon_redemptions s) (\<lambda>_ r. bcr_coupon r = c \<and>
               (ord_status (row (b2b_orders s) (bcr_order r)) = OrderFulfilled \<or>
                ord_status (row (b2b_orders s) (bcr_order r)) = OrderRefunded))))"
proof -
  let ?full = "pv_price (row (product_versions s) pv) * of_int num_seats"
  have full: "0 \<le> ?full" "is_cents ?full"
    using price seats is_cents_mult_nat [OF price(2), of "nat num_seats"] by simp_all
  show ?thesis
  proof (cases coupon)
    case None
    with run full show ?thesis
      by (auto simp: determine_price_and_discount_def Let_def split: option.splits if_splits sum.splits)
  next
    case (Some c)
    with run obtain t where t: "code = Some t" "get_unexpired_coupon now s t (int (pv_product (row (product_versions s) pv))) = Inr c"
      and d: "discount = Some (round_cents_half_even (bc_discount_percent (row (b2b_coupons s) c) * ?full))"
      and cost: "cost = ?full - round_cents_half_even (bc_discount_percent (row (b2b_coupons s) c) * ?full)"
      by (auto simp: determine_price_and_discount_def Let_def split: option.splits if_splits sum.splits)
    from t(2) have c: "c \<in> set (pks (b2b_coupons s))" "bc_coupon_code (row (b2b_coupons s) c) = t" "bc_enabled (row (b2b_coupons s) c)"
      "bc_product (row (b2b_coupons s) c) \<in> {None, Some (pv_product (row (product_versions s) pv))}"
      "\<forall>d. bc_activation_date (row (b2b_coupons s) c) = Some d \<longrightarrow> d < now"
      "\<forall>d. bc_expiration_date (row (b2b_coupons s) c) = Some d \<longrightarrow> now < d"
      "bc_reusable (row (b2b_coupons s) c) \<or> \<not> t_exists (b2b_coupon_redemptions s) (\<lambda>_ r. bcr_coupon r = c \<and>
               (ord_status (row (b2b_orders s) (bcr_order r)) = OrderFulfilled \<or>
                ord_status (row (b2b_orders s) (bcr_order r)) = OrderRefunded))"
      by (auto simp: get_unexpired_coupon_def split: sum.splits if_splits option.splits dest!: t_get_InrD)
    let ?q = "bc_discount_percent (row (b2b_coupons s) c)"
    have q: "0 \<le> ?q" "?q \<le> 1" using coupons c(1) by auto
    have "0 \<le> ?q * ?full" "?q * ?full \<le> ?full"
      using q full(1) by (simp_all add: mult_left_le_one_le)
    then have "0 \<le> round_cents_half_even (?q * ?full)" "round_cents_half_even (?q * ?full) \<le> ?full"
      using half_even_nonneg half_even_cents_mono [of "?q * ?full" ?full] half_even_cents [OF full(2)] by auto
    with d cost Some t(1) c full(2) show ?thesis by (simp add: Let_def is_cents_diff)
  qed
qed

definition example_b2b_coupon :: b2b_coupon_row where
  "example_b2b_coupon = \<lparr>bc_name = ''ten'', bc_coupon_code = ''TEN'', bc_discount_percent = 1 / 10, bc_product = Some 1,
     bc_reusable = False, bc_enabled = True, bc_company = None, bc_activation_date = None, bc_expiration_date = None\<rparr>"

lemma determine_price_and_discount_spec_witness:
  "\<exists>cost coupon discount. determine_price_and_discount 10 (example_b2b_shop\<lparr>b2b_coupons := table_of example_b2b_coupon [example_b2b_coupon]\<rparr>)
     1 (Some ''TEN'') 3 = Inr (cost, coupon, discount) \<and> 0 \<le> cost \<and> coupon = Some 1"
proof -
  let ?s = "example_b2b_shop\<lparr>b2b_coupons := table_of example_b2b_coupon [example_b2b_coupon]\<rparr>"
  have "get_unexpired_coupon 10 ?s ''TEN'' 1 = Inr 1"
    by (simp add: get_unexpired_coupon_def example_b2b_shop_def example_eval example_b2b_coupon_def)
  then obtain cost discount where run: "determine_price_and_discount 10 ?s 1 (Some ''TEN'') 3 = Inr (cost, Some 1, discount)"
    by (simp add: determine_price_and_discount_def Let_def example_b2b_shop_def example_eval example_pv_def)
  have "0 \<le> cost"
    using determine_price_and_discount_spec [OF _ _ _ _ run]
    by (simp add: Let_def example_b2b_shop_def example_eval example_pv_def example_b2b_coupon_def is_cents_def)
  with run show ?thesis by blast
qed

section \<open>The check-out of a free bulk order\<close>

lemma create_b2b_order_okD:
  fixes s s' :: shop_db
  assumes "create_b2b_order cfg uid p n s = (Inr (k, price), s')"
  shows "k = next_pk (b2b_orders s)" and "ord_status (row (b2b_orders s') k) = OrderCreated"
    and "bo_coupon_payment_version (row (b2b_orders s') k) = None" and "same_codes s s'"
    and "bo_total_price (row (b2b_orders s') k) = price" and "bo_num_seats (row (b2b_orders s') k) = nat n"
    and "products s' = products s" and "companies s' = companies s"
  using assms
  by (auto simp: create_b2b_order_def atomic_run bindp_run thenp_run save_and_log_b2b_order_run Let_def same_codes_def row_t_create
      split: sum.splits prod.splits if_splits option.splits)

lemma create_coupons_name_taken:
  "cpar_company_id p = None \<Longrightarrow> t_exists (coupon_payments s) (\<lambda>_ q. cp_name q = cpar_name p) \<Longrightarrow>
   create_coupons uuids now p s = (Inl (IntegrityError ''ecommerce_couponpayment_name_key''), s)"
  by (simp add: create_coupons_def bindp_run)

text \<open>
  C8: A bulk order that costs nothing is saved as fulfilled before its codes are made and outside of a transaction: when the
  name of its payment, such as the contract number, is already that of a coupon payment, the check-out fails and the order
  stays fulfilled without any codes.
\<close>

theorem free_b2b_order_without_codes:
  fixes s s1 :: shop_db
  assumes request: "b2b_parameters_of d = Inr p" "bp_email p = Some email" "valid_email email" "b2b_num_seats (bp_num_seats p) = Inr n"
      "\<not> contract_number_used s (bp_contract_number p)"
    and create: "create_b2b_order cfg uid p n s = (Inr (k, 0), s1)"
    and taken: "t_exists (coupon_payments s) (\<lambda>_ q. cp_name q = b2b_payment_name s1 k)"
    and run: "b2b_checkout_view cfg cs hmac url valid_email uuids uid base d s = (r, s')"
  shows "r = Inl (IntegrityError ''ecommerce_couponpayment_name_key'') \<and>
    ord_status (row (b2b_orders s') k) = OrderFulfilled \<and> bo_coupon_payment_version (row (b2b_orders s') k) = None \<and> same_codes s s'"
proof -
  note D = create_b2b_order_okD [OF create]
  let ?u = "s1\<lparr>b2b_orders := t_save (b2b_orders s1) k (\<lambda>r. r\<lparr>ord_status := OrderFulfilled\<rparr>)\<rparr>"
  have name: "b2b_payment_name ?u k = b2b_payment_name s1 k"
    by (simp add: b2b_payment_name_def Let_def split: option.split)
  have "create_coupons uuids (sc_now cfg) (b2b_coupon_params (sc_environment cfg) ?u k) ?u =
      (Inl (IntegrityError ''ecommerce_couponpayment_name_key''), ?u)"
    using taken D(4) by (intro create_coupons_name_taken) (simp_all add: b2b_coupon_params_def Let_def name same_codes_def)
  then have "complete_b2b_order cfg uuids k ?u = (Inl (IntegrityError ''ecommerce_couponpayment_name_key''), ?u)"
    by (simp add: complete_b2b_order_def thenp_run atomic_run bindp_run)
  with run request create have "r = Inl (IntegrityError ''ecommerce_couponpayment_name_key'')" "s' = ?u"
    by (simp_all add: b2b_checkout_view_def bindp_run thenp_run Let_def)
  with D show ?thesis by (simp add: same_codes_def)
qed

definition example_b2b_request :: b2b_request where
  "example_b2b_request = [(''num_seats'', Some ''0''), (''email'', Some ''b@x.org''), (''product_version_id'', Some ''1''),
     (''discount_code'', Some ''''), (''contract_number'', Some ''launch'')]"

lemma free_b2b_order_without_codes_witness:
  "ord_status (row (b2b_orders (snd (b2b_checkout_view example_config example_settings (\<lambda>k m. k @ m) ''url'' (\<lambda>_. True) example_codes ''id'' ''https://x.org/''
     example_b2b_request example_shop))) 1) = OrderFulfilled"
proof -
  have "\<exists>p. b2b_parameters_of example_b2b_request = Inr p \<and> bp_email p = Some ''b@x.org'' \<and> bp_num_seats p = Some ''0'' \<and> bp_contract_number p = Some ''launch'' \<and> bp_product_version_id p = Some ''1'' \<and> bp_discount_code p = Some '''' \<and> bp_run_id p = None"
    unfolding b2b_parameters_of_def example_b2b_request_def Let_def by simp
  then obtain p where p: "b2b_parameters_of example_b2b_request = Inr p" "bp_email p = Some ''b@x.org''" "bp_num_seats p = Some ''0''" "bp_contract_number p = Some ''launch''"
    "bp_product_version_id p = Some ''1''" "bp_discount_code p = Some ''''" "bp_run_id p = None"
    by blast
  have "py_int ''0'' = Inr 0" "py_int ''1'' = Inr 1" by code_simp+
  note int = this
  have "\<exists>s1. create_b2b_order example_config ''id'' p 0 example_shop = (Inr (1, 0), s1) \<and> b2b_payment_name s1 1 = ''launch''"
    by (simp add: create_b2b_order_def p product_version_or_404_def int example_eval atomic_run bindp_run determine_price_and_discount_def
       Let_def program_run_by_id_def or_none_def thenp_run save_and_log_b2b_order_run example_config_def b2b_payment_name_def row_t_create)
  then obtain s1 where s1: "create_b2b_order example_config ''id'' p 0 example_shop = (Inr (1, 0), s1)" "b2b_payment_name s1 1 = ''launch''"
    by blast
  have seats: "b2b_num_seats (bp_num_seats p) = Inr 0"
    by (simp add: b2b_num_seats_def p int)
  have unused: "\<not> contract_number_used example_shop (bp_contract_number p)"
    by (simp add: contract_number_used_def p or_none_def example_eval)
  have taken: "t_exists (coupon_payments example_shop) (\<lambda>_ q. cp_name q = b2b_payment_name s1 1)"
    unfolding s1(2) by (simp add: example_eval)
  show ?thesis
    using free_b2b_order_without_codes [OF p(1,2) TrueI seats unused s1(1) taken prod.collapse [symmetric]] by simp
qed

end
