(* ===== verification/Basket_Update.thy ===== *)
theory Basket_Update
  imports Orders
begin

text \<open>
  \<open>BasketSerializer\<close> of \<open>ecommerce/serializers.py\<close> and \<open>BasketView\<close> of \<open>ecommerce/views.py\<close>: what a request may
  ask of a basket, how the request is validated, the product, runs and coupon that the basket holds afterwards, and
  the order that is kept in step with it.
\<close>

section \<open>Requests\<close>

text \<open>
  The body of a request: a field is missing (or \<open>null\<close>), or a list. A run id may be \<open>null\<close>; a coupon is a
  dictionary with its code, if any, or something else.
\<close>

record basket_item_request =
  bir_product_id :: "product_ref option"
  bir_run_ids :: "int option list"

datatype coupon_request = CouponDict "string option" | NotADict

record basket_request =
  breq_items :: "basket_item_request list option"
  breq_coupons :: "coupon_request list option"
  breq_data_consents :: "int list option"

definition validate_items :: "basket_item_request list option \<Rightarrow> exn + unit" where
  "validate_items items =
     (case items of
        Some (item # others) \<Rightarrow>
          if others \<noteq> [] then Inl (ValidationError [] ''Basket cannot contain more than one item'')
          else if bir_product_id item = None then Inl (ValidationError [] ''Invalid request'') else Inr ()
      | _ \<Rightarrow> Inr ())"

definition validate_data_consents :: "'z shop_db_scheme \<Rightarrow> int list option \<Rightarrow> exn + unit" where
  "validate_data_consents s data_consents =
     (case data_consents of
        None \<Rightarrow> Inr ()
      | Some ids \<Rightarrow>
          (let invalid = filter (\<lambda>i. i \<notin> int ` set (pks (data_consent_users s))) (remdups ids)
           in if invalid \<noteq> []
              then Inl (ValidationError [] (''Invalid data consent id '' @ py_join '','' (map int_str invalid))) else Inr ()))"

definition validate_coupons :: "coupon_request list option \<Rightarrow> exn + unit" where
  "validate_coupons requested =
     (case requested of
        Some (coupon # others) \<Rightarrow>
          if others \<noteq> [] then Inl (ValidationError ''coupons'' ''Basket cannot contain more than one coupon'')
          else (case coupon of
                  NotADict \<Rightarrow> Inl (ValidationError ''coupons'' ''Invalid request'')
                | CouponDict None \<Rightarrow> Inl (ValidationError ''coupons'' ''Invalid request'')
                | CouponDict (Some _) \<Rightarrow> Inr ())
      | _ \<Rightarrow> Inr ())"

section \<open>The product and the runs\<close>

definition validate_internal_product :: "'z shop_db_scheme \<Rightarrow> content option \<Rightarrow> exn + unit" where
  "validate_internal_product s product_content_obj =
     (let external = (\<lambda>b. if b then Inl (ValidationError []
                  ''We're sorry, This product cannot be purchased on this web site.'') else Inr ());
          of_course = (\<lambda>k. course_is_external (row (courses s) k));
          of_program = (\<lambda>k. prog_is_external (row (programs s) k))
      in case product_content_obj of
           Some (CourseRunContent k) \<Rightarrow> external (of_course (run_course (row (course_runs s) k)))
         | Some (CourseContent k) \<Rightarrow>
             (case course_program (row (courses s) k) of
                Some p \<Rightarrow> external (of_program p) | None \<Rightarrow> external (of_course k))
         | Some (ProgramContent k) \<Rightarrow> external (of_program k)
         | _ \<Rightarrow> Inl (AttributeError ''is_external''))"

definition fetch_and_validate_product ::
  "int \<Rightarrow> 'z shop_db_scheme \<Rightarrow> product_ref \<Rightarrow> exn + nat \<times> nat option" where
  "fetch_and_validate_product now s request_product_id =
     (let checked =
        (case get_product_from_querystring_id s request_product_id of
           Inl e \<Rightarrow> Inl e
         | Inr (product, product_content_obj, program_run) \<Rightarrow>
             (case validate_internal_product s product_content_obj of
                Inl e \<Rightarrow> Inl e
              | Inr _ \<Rightarrow>
                  (case product_content_obj of
                     Some (CourseRunContent k) \<Rightarrow>
                       (case run_end_date (row (course_runs s) k) of
                          Some d \<Rightarrow>
                            if d < now
                            then Inl (ValidationError []
                              ''We're sorry, this course or program is no longer available for enrollment.'')
                            else Inr (product, program_run)
                        | None \<Rightarrow> Inr (product, program_run))
                   | _ \<Rightarrow> Inr (product, program_run))))
      in case checked of
           Inl e \<Rightarrow> Inl (if is_does_not_exist e \<or> is_multiple_objects e then ValidationError ''items'' (''Invalid product id '' @ (case request_product_id of NumericId n \<Rightarrow> int_str n | TextId t \<Rightarrow> t)) else e)
         | Inr r \<Rightarrow> Inr r)"

text \<open>\<open>_validate_runs\<close>, for a set of ids given as a list without repetitions. The answer is the runs they name.\<close>

definition validate_runs :: "'z shop_db_scheme \<Rightarrow> nat \<Rightarrow> int option list \<Rightarrow> nat \<Rightarrow> exn + nat list" where
  "validate_runs s user run_ids product =
     (if None \<in> set run_ids then Inl (ValidationError ''runs'' ''Each course must have a course run selection'')
      else if run_ids \<noteq> [] \<and> active_run_enrollments s (\<lambda>e. enr_user e = user \<and> Some (int (enr_run e)) \<in> set run_ids) \<noteq> []
      then Inl (ValidationError ''runs'' ''User has already enrolled in one of the selected course runs'')
      else case product_run_queryset s product of
             Inl e \<Rightarrow> Inl e
           | Inr runs \<Rightarrow>
               (let found = filter (\<lambda>r. Some (int r) \<in> set run_ids) runs
                in if length found < length run_ids
                   then Inl (ValidationError ''runs'' ''Some invalid courses were selected.'')
                   else if card (set (map (\<lambda>r. run_course (row (course_runs s) r)) found)) < length run_ids
                   then Inl (ValidationError ''runs'' ''Only one run per course can be selected'')
                   else Inr found))"

definition validate_and_compare_runs ::
  "'z shop_db_scheme \<Rightarrow> nat \<Rightarrow> int option list \<Rightarrow> nat \<Rightarrow> exn + nat list option" where
  "validate_and_compare_runs s basket run_ids product =
     (case validate_runs s (basket_user (row (baskets s) basket)) (remdups run_ids) product of
        Inl e \<Rightarrow> Inl e
      | Inr found \<Rightarrow>
          (let existing_run_ids = map (\<lambda>k. crs_run (row (course_run_selections s) k)) (run_selections_of s basket)
           in Inr (if set found \<noteq> set existing_run_ids then Some found else None)))"

section \<open>The coupon\<close>

definition get_applicable_coupon_version ::
  "int \<Rightarrow> 'z shop_db_scheme \<Rightarrow> nat \<Rightarrow> nat \<Rightarrow> coupon_request list option \<Rightarrow> exn + nat option" where
  "get_applicable_coupon_version now s basket product requested =
     (case latest_version s product of
        None \<Rightarrow> Inl (AttributeError ''product'')
      | Some product_version \<Rightarrow>
          (let p = pv_product (row (product_versions s) product_version);
               user = basket_user (row (baskets s) basket)
           in case requested of
                Some (CouponDict requested_code # _) \<Rightarrow>
                  (case best_coupon_for_product now s p user False requested_code of
                     Inl e \<Rightarrow> Inl e
                   | Inr None \<Rightarrow>
                       Inl (ValidationError ''coupons''
                         (''Enrollment / Promotional Code '' @ [CHR 0x27] @
                          (case requested_code of None \<Rightarrow> ''None'' | Some c \<Rightarrow> c) @ [CHR 0x27] @ '' is invalid''))
                   | Inr (Some v) \<Rightarrow> Inr (Some v))
              | Some (NotADict # _) \<Rightarrow> Inl (AttributeError ''get'')
              | Some [] \<Rightarrow> best_coupon_for_product now s p user True None
              | None \<Rightarrow>
                  (let coupon_version =
                     (case first_of (coupon_selections_of s basket) of
                        None \<Rightarrow> None
                      | Some c \<Rightarrow> latest_coupon_version s (csel_coupon (row (coupon_selections s) c)));
                       valid_coupon_versions = get_valid_coupon_versions now s (Some p) user False None False None
                   in case coupon_version of
                        Some v \<Rightarrow>
                          if v \<in> set valid_coupon_versions then Inr (Some v)
                          else best_coupon_for_product now s p user True None
                      | None \<Rightarrow> best_coupon_for_product now s p user True None)))"

section \<open>Storing the basket\<close>

text \<open>
  The first run of each live course that the user is not enrolled in, or nothing if a course has none. The docstring of
  \<open>_autoselect_runs\<close>, and the comment where it is called, say that nothing is selected when the user is enrolled in one
  of the runs; the loop takes the course's next run instead, and so does the model.
\<close>

definition first_available_runs :: "int \<Rightarrow> 'z shop_db_scheme \<Rightarrow> nat \<Rightarrow> nat \<Rightarrow> nat list option" where
  "first_available_runs now s user program =
     (let enrolled_run_ids = map (\<lambda>e. enr_run (row (run_enrollments s) e)) (active_run_enrollments s (\<lambda>e. enr_user e = user));
          live_courses = filter (\<lambda>k. course_live (row (courses s) k)) (program_courses s program);
          picked = map (\<lambda>c. first_of (filter (\<lambda>r. r \<notin> set enrolled_run_ids) (course_unexpired_runs now s c))) live_courses
      in if None \<in> set picked then None else Some (map the picked))"

definition autoselect_runs :: "int \<Rightarrow> nat \<Rightarrow> nat \<Rightarrow> ('z shop_db_scheme, unit) prog" where
  "autoselect_runs now basket product =
     bindp (asks (\<lambda>s. (content_object s (prod_content (row (products s) product)), basket_user (row (baskets s) basket))))
       (\<lambda>(c, user).
     case c of
       Some (CourseRunContent run) \<Rightarrow>
         bindp (db_get_or_create ''CourseRunSelection'' course_run_selections course_run_selections_update
                  (\<lambda>_ r. crs_basket r = basket \<and> crs_run r = run) \<lparr>crs_basket = basket, crs_run = run\<rparr>) (\<lambda>_. ret ())
     | Some (ProgramContent program) \<Rightarrow>
         bindp (asks (\<lambda>s. first_available_runs now s user program)) (\<lambda>runs.
         case runs of
           None \<Rightarrow> ret ()
         | Some runs \<Rightarrow>
             bindp (db_bulk_create course_run_selections course_run_selections_update
                      (map (\<lambda>run. \<lparr>crs_basket = basket, crs_run = run\<rparr>) runs)) (\<lambda>_. ret ()))
     | _ \<Rightarrow> ret ())"

definition set_basket_item ::
  "nat \<Rightarrow> nat option \<Rightarrow> nat option \<Rightarrow> bool \<Rightarrow> ('z shop_db_scheme, unit) prog" where
  "set_basket_item basket updated_product program_run should_update_program_run =
     bindp (asks (\<lambda>s. items_of s basket)) (\<lambda>existing.
     if existing = [] \<and> updated_product = None then raise (IntegrityError ''product_id'')
     else bindp (db_update_or_create ''BasketItem'' basket_items basket_items_update (\<lambda>_ i. bi_basket i = basket)
         (\<lambda>i. i\<lparr>bi_quantity := 1,
                bi_product := (case updated_product of None \<Rightarrow> bi_product i | Some p \<Rightarrow> p),
                bi_program_run := (if should_update_program_run then program_run else bi_program_run i)\<rparr>)
         \<lparr>bi_product = (case updated_product of None \<Rightarrow> 0 | Some p \<Rightarrow> p), bi_basket = basket, bi_quantity = 1,
          bi_program_run = (if should_update_program_run then program_run else None)\<rparr>) (\<lambda>_. ret ()))"

record basket_change =
  bch_product :: "nat option"
  bch_run_ids :: "nat list option"
  bch_program_run :: "nat option"
  bch_update_program_run :: bool
  bch_coupon_version :: "nat option"
  bch_data_consents :: "int list option"
  bch_clear_all :: bool

definition update_basket_data :: "int \<Rightarrow> nat \<Rightarrow> basket_change \<Rightarrow> ('z shop_db_scheme, unit) prog" where
  "update_basket_data now basket c =
     atomic
       (bindp (db_get ''Basket'' baskets (\<lambda>k _. k = basket)) (\<lambda>basket.
        thenp (whenp (bch_clear_all c) (db_delete basket_items basket_items_update (\<lambda>_ i. bi_basket i = basket)))
       (thenp (whenp (bch_clear_all c \<or> bch_run_ids c \<noteq> None)
                 (db_delete course_run_selections course_run_selections_update (\<lambda>_ r. crs_basket r = basket)))
       (thenp (whenp (bch_clear_all c \<or> bch_coupon_version c = None)
                 (db_delete coupon_selections coupon_selections_update (\<lambda>_ r. csel_basket r = basket)))
       (thenp (whenp (bch_product c \<noteq> None \<or> bch_update_program_run c)
                 (set_basket_item basket (bch_product c) (bch_program_run c) (bch_update_program_run c)))
       (thenp (case bch_run_ids c of
                 None \<Rightarrow> ret ()
               | Some run_ids \<Rightarrow>
                   bindp (db_bulk_create course_run_selections course_run_selections_update
                            (map (\<lambda>run. \<lparr>crs_basket = basket, crs_run = run\<rparr>) run_ids)) (\<lambda>_. ret ()))
       (thenp (bindp (asks (\<lambda>s. (map (\<lambda>i. bi_product (row (basket_items s) i)) (items_of s basket), run_selections_of s basket)))
                 (\<lambda>(ps, selections).
                  case ps of
                    [] \<Rightarrow> ret ()
                  | product # _ \<Rightarrow> whenp (selections = []) (autoselect_runs now basket product)))
       (thenp (case bch_coupon_version c of
                 None \<Rightarrow> ret ()
               | Some v \<Rightarrow>
                   bindp (asks (\<lambda>s. cv_coupon (row (coupon_versions s) v))) (\<lambda>coupon.
                   bindp (db_update_or_create ''CouponSelection'' coupon_selections coupon_selections_update
                            (\<lambda>_ r. csel_basket r = basket) (\<lambda>r. r\<lparr>csel_coupon := coupon\<rparr>)
                            \<lparr>csel_coupon = coupon, csel_basket = basket\<rparr>) (\<lambda>_. ret ())))
          (case bch_data_consents c of
             None \<Rightarrow> ret ()
           | Some ids \<Rightarrow>
               bindp (asks (\<lambda>s. basket_user (row (baskets s) basket))) (\<lambda>user.
               db_update data_consent_users data_consent_users_update
                 (\<lambda>k d. int k \<in> set ids \<and> dcu_user d = user) (\<lambda>d. d\<lparr>dcu_consent_date := Some now\<rparr>)))))))))))"

section \<open>The order in step with the basket\<close>

definition sync_unfulfilled_order :: "shop_config \<Rightarrow> 'g geo_db_scheme \<Rightarrow> nat \<Rightarrow> ('z shop_db_scheme, unit) prog" where
  "sync_unfulfilled_order cfg g basket =
     bindp (asks (\<lambda>s. basket_user (row (baskets s) basket))) (\<lambda>user.
     bindp (try_catch (bindp (validate_basket_for_checkout (sc_now cfg) user) (\<lambda>vb. ret (Some vb)))
              (\<lambda>e. if is_validation_error e then ret None else raise e)) (\<lambda>validated_basket.
     case validated_basket of
       None \<Rightarrow> ret ()
     | Some vb \<Rightarrow>
         try_catch (bindp (create_or_update_unfulfilled_order cfg g vb None None) (\<lambda>order. sync_hubspot_deal cfg order))
           (\<lambda>_. ret ())))"

section \<open>Updating a basket\<close>

text \<open>What the request asks of the basket, or the error it is refused with; nothing is written.\<close>

definition basket_change_of ::
  "int \<Rightarrow> 'z shop_db_scheme \<Rightarrow> nat \<Rightarrow> basket_request \<Rightarrow> exn + basket_change" where
  "basket_change_of now s basket r =
     (let existing = first_of (items_of s basket);
          existing_product = map_option (\<lambda>i. bi_product (row (basket_items s) i)) existing;
          existing_program_run = (case existing of None \<Rightarrow> None | Some i \<Rightarrow> bi_program_run (row (basket_items s) i));
          wanted =
            (case breq_items r of
               Some (item # _) \<Rightarrow>
                 (case bir_product_id item of
                    None \<Rightarrow> Inl (ValidationError [] ''Invalid request'')
                  | Some request_product_id \<Rightarrow>
                      (case fetch_and_validate_product now s request_product_id of
                         Inl e \<Rightarrow> Inl e
                       | Inr (product, program_run) \<Rightarrow>
                           (case validate_and_compare_runs s basket (bir_run_ids item) product of
                              Inl e \<Rightarrow> Inl e
                            | Inr updated_run_ids \<Rightarrow>
                                Inr (if existing_product = Some product then None else Some product, updated_run_ids,
                                     program_run, program_run \<noteq> existing_program_run))))
             | _ \<Rightarrow> Inr (None, None, None, False))
      in case wanted of
           Inl e \<Rightarrow> Inl e
         | Inr (updated_product, updated_run_ids, program_run, should_update_program_run) \<Rightarrow>
             (case (case (if updated_product = None then existing_product else updated_product) of
                      None \<Rightarrow> Inr None
                    | Some product \<Rightarrow> get_applicable_coupon_version now s basket product (breq_coupons r)) of
                Inl e \<Rightarrow> Inl e
              | Inr coupon_version \<Rightarrow>
                  Inr \<lparr>bch_product = updated_product, bch_run_ids = updated_run_ids, bch_program_run = program_run,
                       bch_update_program_run = should_update_program_run, bch_coupon_version = coupon_version,
                       bch_data_consents = breq_data_consents r, bch_clear_all = False\<rparr>))"

definition clear_basket :: "int list option \<Rightarrow> basket_change" where
  "clear_basket data_consents =
     \<lparr>bch_product = None, bch_run_ids = None, bch_program_run = None, bch_update_program_run = False,
      bch_coupon_version = None, bch_data_consents = data_consents, bch_clear_all = True\<rparr>"

definition basket_update :: "shop_config \<Rightarrow> 'g geo_db_scheme \<Rightarrow> nat \<Rightarrow> basket_request \<Rightarrow> ('z shop_db_scheme, unit) prog" where
  "basket_update cfg g basket r =
     bindp (lift_result (validate_coupons (breq_coupons r))) (\<lambda>_.
     if breq_items r = None \<and> breq_coupons r = None \<and> breq_data_consents r = None
     then raise (ValidationError [] ''Invalid request'')
     else if breq_items r = Some []
     then update_basket_data (sc_now cfg) basket (clear_basket (breq_data_consents r))
     else
       bindp (asks (\<lambda>s. basket_change_of (sc_now cfg) s basket r)) (\<lambda>result.
       bindp (lift_result result) (\<lambda>c.
       thenp (update_basket_data (sc_now cfg) basket c)
         (sync_unfulfilled_order cfg g basket))))"

text \<open>
  \<open>BasketView\<close>: the basket of the user is created on demand; the fields are checked in their order, the basket is
  updated, and the data consents in the answer are created with it.
\<close>

definition get_basket :: "int \<Rightarrow> nat \<Rightarrow> ('z shop_db_scheme, nat) prog" where
  "get_basket now user =
     bindp (db_get_or_create ''Basket'' baskets baskets_update (\<lambda>_ b. basket_user b = user)
              \<lparr>basket_user = user, basket_updated_on = now\<rparr>) (\<lambda>(basket, _). ret basket)"

definition basket_tax_info :: "shop_config \<Rightarrow> 'g geo_db_scheme \<Rightarrow> 'z shop_db_scheme \<Rightarrow> web_request option \<Rightarrow> exn + tax_rate_row" where
  "basket_tax_info cfg g s request =
     (let unsaved = \<lparr>tax_country_code = [], tax_tax_rate = 0, tax_tax_rate_name = Some ''VAT'', tax_active = True\<rparr>
      in case request of
           None \<Rightarrow> Inr unsaved
         | Some _ \<Rightarrow>
             (case determine_visitor_country (sc_force_profile_country cfg) g s request of
                Inl e \<Rightarrow> Inl e
              | Inr None \<Rightarrow> Inr unsaved
              | Inr (Some country_code) \<Rightarrow>
                  (case t_get ''TaxRate'' (tax_rates s) (\<lambda>_ r. tax_active r \<and> tax_country_code r = country_code) of
                     Inl e \<Rightarrow> if is_does_not_exist e then Inr unsaved else Inl e
                   | Inr k \<Rightarrow> Inr (row (tax_rates s) k))))"

definition basket_view ::
  "shop_config \<Rightarrow> 'g geo_db_scheme \<Rightarrow> nat \<Rightarrow> basket_request \<Rightarrow> ('z shop_db_scheme, nat list) prog" where
  "basket_view cfg g user r =
     bindp (get_basket (sc_now cfg) user) (\<lambda>basket.
     bindp (lift_result (validate_items (breq_items r))) (\<lambda>_.
     bindp (asks (\<lambda>s. validate_data_consents s (breq_data_consents r))) (\<lambda>consents_ok.
     bindp (lift_result consents_ok) (\<lambda>_.
     thenp (basket_update cfg g basket r)
       (get_or_create_data_consent_users basket)))))"

section \<open>What an update stores\<close>

lemma set_basket_item_InrD:
  assumes run: "set_basket_item b p pr upd s = (Inr (), s')" and wf: "wf_table (basket_items s)"
  shows "\<exists>i. s' = s\<lparr>basket_items := basket_items s'\<rparr> \<and> wf_table (basket_items s') \<and> items_of s' b = [i] \<and>
    bi_quantity (row (basket_items s') i) = 1 \<and>
    bi_product (row (basket_items s') i) = (case p of None \<Rightarrow> bi_product (row (basket_items s) i) | Some p \<Rightarrow> p) \<and>
    (items_of s b = [i] \<or> items_of s b = [] \<and> p \<noteq> None) \<and>
    (upd \<longrightarrow> bi_program_run (row (basket_items s') i) = pr) \<and>
    (\<not> upd \<longrightarrow> bi_program_run (row (basket_items s') i) =
        (if items_of s b = [] then None else bi_program_run (row (basket_items s) i))) \<and>
    (\<forall>b'. b' \<noteq> b \<longrightarrow> map (row (basket_items s')) (items_of s' b') = map (row (basket_items s)) (items_of s b'))"
proof -
  let ?f = "\<lambda>i. i\<lparr>bi_quantity := 1, bi_product := (case p of None \<Rightarrow> bi_product i | Some p \<Rightarrow> p),
                bi_program_run := (if upd then pr else bi_program_run i)\<rparr>"
  let ?r = "\<lparr>bi_product = (case p of None \<Rightarrow> 0 | Some p \<Rightarrow> p), bi_basket = b, bi_quantity = 1,
          bi_program_run = (if upd then pr else None)\<rparr>"
  let ?t = "basket_items s"
  have nonempty: "items_of s b = [] \<longrightarrow> p \<noteq> None"
    and store: "bindp (db_update_or_create ''BasketItem'' basket_items basket_items_update (\<lambda>_ i. bi_basket i = b) ?f ?r) (\<lambda>_. ret ()) s = (Inr (), s')"
    using run unfolding set_basket_item_def bindp_run asks_run by (simp_all split: if_splits)
  from store obtain x where up: "fst (t_update_or_create ''BasketItem'' ?t (\<lambda>_ i. bi_basket i = b) ?f ?r) = Inr x"
    and s': "s' = s\<lparr>basket_items := snd (t_update_or_create ''BasketItem'' ?t (\<lambda>_ i. bi_basket i = b) ?f ?r)\<rparr>"
    by (auto elim!: bindp_InrE simp: db_update_or_create_run)
  from t_update_or_create_cases [of ?t "\<lambda>_ i. bi_basket i = b" "''BasketItem''" ?f ?r] up s'
  consider (new) "items_of s b = []" "s' = s\<lparr>basket_items := snd (t_create ?t ?r)\<rparr>"
    | (old) k where "items_of s b = [k]" "s' = s\<lparr>basket_items := t_save ?t k ?f\<rparr>"
    by (auto simp: items_of_def)
  then show ?thesis
  proof cases
    case new
    show ?thesis
      using wf new nonempty wf_table_fresh [OF wf] by (intro exI [of _ "next_pk ?t"]) (auto simp: items_of_def matching_t_create row_t_create split: option.split)
  next
    case (old k)
    have "matching (t_save ?t k ?f) (\<lambda>_ i. bi_basket i = b') = matching ?t (\<lambda>_ i. bi_basket i = b')" for b'
      by (simp add: matching_t_save)
    moreover have "map (row (t_save ?t k ?f)) (matching ?t (\<lambda>_ i. bi_basket i = b')) = map (row ?t) (matching ?t (\<lambda>_ i. bi_basket i = b'))"
      if "b' \<noteq> b" for b'
    proof -
      have "k \<in> set (items_of s b)" using old by simp
      with that show ?thesis by (auto simp: items_of_def row_t_save)
    qed
    ultimately show ?thesis
      using wf old by (intro exI [of _ k]) (simp add: items_of_def split: option.split)
  qed
qed


abbreviation runs_of :: "shop_db \<Rightarrow> nat \<Rightarrow> nat list" where
  "runs_of s b \<equiv> map (\<lambda>k. crs_run (row (course_run_selections s) k)) (run_selections_of s b)"

abbreviation coupons_of :: "shop_db \<Rightarrow> nat \<Rightarrow> nat list" where
  "coupons_of s b \<equiv> map (\<lambda>k. csel_coupon (row (coupon_selections s) k)) (coupon_selections_of s b)"

text \<open>New run selections of a basket come after those it has; those of other baskets stay.\<close>

lemma runs_of_append:
  assumes wf: "wf_table (course_run_selections s)"
    and s': "course_run_selections s' = snd (t_bulk_create (course_run_selections s) (map (\<lambda>run. \<lparr>crs_basket = b, crs_run = run\<rparr>) rs))"
  shows "runs_of s' b' = runs_of s b' @ (if b' = b then rs else [])"
proof -
  have "map crs_run (map (row (course_run_selections s')) (run_selections_of s' b')) =
      map crs_run (map (row (course_run_selections s)) (run_selections_of s b')) @ (if b' = b then rs else [])"
    unfolding run_selections_of_def s' map_row_matching map_row_bulk_create [OF wf]
    by (simp add: filter_map o_def)
  then show ?thesis by (simp add: o_def)
qed

lemma runs_of_delete:
  assumes "course_run_selections s' = t_delete (course_run_selections s) (\<lambda>_ r. crs_basket r = b)"
  shows "runs_of s' b' = (if b' = b then [] else runs_of s b')"
  using assms by (auto simp: run_selections_of_def matching_t_delete filter_empty_conv matching_def t_delete_def intro!: map_cong filter_cong)

text \<open>The runs that are selected for a product when none is.\<close>

definition runs_for :: "content option \<Rightarrow> (nat \<Rightarrow> nat list option) \<Rightarrow> nat list" where
  "runs_for c available =
     (case c of
        Some (CourseRunContent r) \<Rightarrow> [r]
      | Some (ProgramContent p) \<Rightarrow> (case available p of None \<Rightarrow> [] | Some rs \<Rightarrow> rs)
      | _ \<Rightarrow> [])"

definition autoselected :: "int \<Rightarrow> shop_db \<Rightarrow> nat \<Rightarrow> nat \<Rightarrow> nat list" where
  "autoselected now s user product =
     runs_for (content_object s (prod_content (row (products s) product))) (first_available_runs now s user)"

lemma autoselect_runs_InrD:
  fixes s s' :: shop_db
  assumes run: "autoselect_runs now b product s = (Inr (), s')" and wf: "wf_table (course_run_selections s)"
    and none: "run_selections_of s b = []"
  shows "s' = s\<lparr>course_run_selections := course_run_selections s'\<rparr> \<and> wf_table (course_run_selections s') \<and>
    runs_of s' b = autoselected now s (basket_user (row (baskets s) b)) product \<and> (\<forall>b'. b' \<noteq> b \<longrightarrow> runs_of s' b' = runs_of s b')"
proof -
  let ?auto = "autoselected now s (basket_user (row (baskets s) b)) product"
  have "matching (course_run_selections s) (\<lambda>_ r. crs_basket r = b \<and> crs_run r = x) = []" for x
    using none by (auto simp: run_selections_of_def matching_def filter_empty_conv)
  then have goc: "db_get_or_create m course_run_selections course_run_selections_update
      (\<lambda>_ r. crs_basket r = b \<and> crs_run r = x) \<lparr>crs_basket = b, crs_run = x\<rparr> s =
      (Inr (next_pk (course_run_selections s), True), s\<lparr>course_run_selections :=
         snd (t_bulk_create (course_run_selections s) (map (\<lambda>run. \<lparr>crs_basket = b, crs_run = run\<rparr>) [x]))\<rparr>)" for m x
    by (simp add: db_get_or_create_run t_get_or_create_def t_bulk_create_Cons t_create_def)
  have s': "s' = s\<lparr>course_run_selections :=
      snd (t_bulk_create (course_run_selections s) (map (\<lambda>run. \<lparr>crs_basket = b, crs_run = run\<rparr>) ?auto))\<rparr>"
  proof (cases "content_object s (prod_content (row (products s) product))")
    case None
    with run show ?thesis by (simp add: autoselect_runs_def bindp_run autoselected_def runs_for_def)
  next
    case (Some c)
    with run show ?thesis
      by (cases c) (simp_all add: autoselect_runs_def bindp_run autoselected_def runs_for_def goc split: option.splits)
  qed
  have "wf_table (course_run_selections s')" using wf by (simp add: s')
  moreover have "runs_of s' b' = runs_of s b' @ (if b' = b then ?auto else [])" for b'
    by (rule runs_of_append [OF wf]) (simp add: s')
  moreover have "runs_of s b = []" using none by simp
  ultimately show ?thesis using s' by simp
qed


definition basket_tables_wf :: "shop_db \<Rightarrow> bool" where
  "basket_tables_wf s \<longleftrightarrow> wf_table (basket_items s) \<and> wf_table (course_run_selections s) \<and> wf_table (coupon_selections s)"

lemma set_coupon_selection_InrD:
  fixes s s' :: shop_db
  assumes run: "bindp (db_update_or_create m coupon_selections coupon_selections_update (\<lambda>_ r. csel_basket r = b)
      (\<lambda>r. r\<lparr>csel_coupon := x\<rparr>) \<lparr>csel_coupon = x, csel_basket = b\<rparr>) (\<lambda>_. ret ()) s = (Inr (), s')"
    and wf: "wf_table (coupon_selections s)"
  shows "s' = s\<lparr>coupon_selections := coupon_selections s'\<rparr> \<and> wf_table (coupon_selections s') \<and>
    coupons_of s' b' = (if b' = b then [x] else coupons_of s b')"
proof -
  let ?t = "coupon_selections s" and ?f = "\<lambda>r. r\<lparr>csel_coupon := x\<rparr>" and ?r = "\<lparr>csel_coupon = x, csel_basket = b\<rparr>"
  from run obtain y where up: "fst (t_update_or_create m ?t (\<lambda>_ r. csel_basket r = b) ?f ?r) = Inr y"
    and s': "s' = s\<lparr>coupon_selections := snd (t_update_or_create m ?t (\<lambda>_ r. csel_basket r = b) ?f ?r)\<rparr>"
    by (auto elim!: bindp_InrE simp: db_update_or_create_run)
  from t_update_or_create_cases [of ?t "\<lambda>_ r. csel_basket r = b" m ?f ?r] up s'
  consider (new) "coupon_selections_of s b = []" "s' = s\<lparr>coupon_selections := snd (t_create ?t ?r)\<rparr>"
    | (old) k where "coupon_selections_of s b = [k]" "s' = s\<lparr>coupon_selections := t_save ?t k ?f\<rparr>"
    by (auto simp: coupon_selections_of_def)
  then show ?thesis
  proof cases
    case new
    show ?thesis
      using wf new wf_table_fresh [OF wf] by (auto simp: coupon_selections_of_def matching_t_create row_t_create)
  next
    case (old k)
    have "matching (t_save ?t k ?f) (\<lambda>_ r. csel_basket r = c) = matching ?t (\<lambda>_ r. csel_basket r = c)" for c
      by (simp add: matching_t_save)
    moreover have "k \<in> set (coupon_selections_of s b)" using old by simp
    ultimately show ?thesis using wf old by (auto simp: coupon_selections_of_def row_t_save)
  qed
qed

text \<open>What is left of the basket before its new item, runs and coupon are stored.\<close>

definition items_before :: "basket_change \<Rightarrow> shop_db \<Rightarrow> nat \<Rightarrow> basket_item_row list" where
  "items_before c s b = (if bch_clear_all c then [] else map (row (basket_items s)) (items_of s b))"

definition runs_before :: "basket_change \<Rightarrow> shop_db \<Rightarrow> nat \<Rightarrow> nat list" where
  "runs_before c s b = (case bch_run_ids c of None \<Rightarrow> if bch_clear_all c then [] else runs_of s b | Some ids \<Rightarrow> ids)"

lemma db_delete_InrD: "db_delete g u P s = (Inr x, s') \<Longrightarrow> s' = u (\<lambda>_. t_delete (g s) P) s"
  by simp

abbreviation item_rows :: "shop_db \<Rightarrow> nat \<Rightarrow> basket_item_row list" where
  "item_rows s b \<equiv> map (row (basket_items s)) (items_of s b)"

text \<open>The selection of runs reads none of the tables of the basket.\<close>

lemma run_start_key_frame:
  "run_start_key (s\<lparr>basket_items := t\<rparr>) = run_start_key s"
  "run_start_key (s\<lparr>course_run_selections := u\<rparr>) = run_start_key s"
  "run_start_key (s\<lparr>coupon_selections := v\<rparr>) = run_start_key s"
  by (simp_all add: fun_eq_iff run_start_key_def)

lemma first_available_runs_frame:
  "first_available_runs now (s\<lparr>basket_items := t\<rparr>) user = first_available_runs now s user"
  "first_available_runs now (s\<lparr>course_run_selections := u\<rparr>) user = first_available_runs now s user"
  "first_available_runs now (s\<lparr>coupon_selections := v\<rparr>) user = first_available_runs now s user"
  by (simp_all add: fun_eq_iff first_available_runs_def active_run_enrollments_def program_courses_def course_unexpired_runs_def
      course_runs_of_def run_start_key_frame)

lemma content_object_frame:
  "content_object (s\<lparr>basket_items := t\<rparr>) c = content_object s c"
  "content_object (s\<lparr>course_run_selections := u\<rparr>) c = content_object s c"
  "content_object (s\<lparr>coupon_selections := v\<rparr>) c = content_object s c"
  by (simp_all add: content_object_def content_missing_def content_exists_def split: content.split)

lemma autoselected_frame:
  "autoselected now (s\<lparr>basket_items := t\<rparr>) user p = autoselected now s user p"
  "autoselected now (s\<lparr>course_run_selections := u\<rparr>) user p = autoselected now s user p"
  "autoselected now (s\<lparr>coupon_selections := v\<rparr>) user p = autoselected now s user p"
  unfolding autoselected_def content_object_frame first_available_runs_frame by simp_all

text \<open>Clearing a table of the basket.\<close>

lemma row_delete_owner:
  fixes owner :: "'a \<Rightarrow> nat"
  shows "map (row (t_delete t (\<lambda>_ r. owner r = b))) (matching (t_delete t (\<lambda>_ r. owner r = b)) (\<lambda>_ r. owner r = b')) =
    (if b' = b then [] else map (row t) (matching t (\<lambda>_ r. owner r = b')))"
  by (auto simp: matching_t_delete filter_empty_conv matching_def t_delete_def intro!: map_cong filter_cong)

lemma clear_items:
  fixes s s' :: shop_db
  assumes "whenp d (db_delete basket_items basket_items_update (\<lambda>_ i. bi_basket i = b)) s = (Inr (), s')"
    and "wf_table (basket_items s)"
  obtains t where "s' = s\<lparr>basket_items := t\<rparr>" and "wf_table t"
    and "\<And>b'. item_rows s' b' = (if b' = b \<and> d then [] else item_rows s b')"
  using assms row_delete_owner [of "basket_items s" bi_basket b]
  by (cases d) (auto simp: items_of_def intro!: that [of "basket_items s'"])

lemma clear_runs:
  fixes s s' :: shop_db
  assumes "whenp d (db_delete course_run_selections course_run_selections_update (\<lambda>_ i. crs_basket i = b)) s = (Inr (), s')"
    and "wf_table (course_run_selections s)"
  obtains t where "s' = s\<lparr>course_run_selections := t\<rparr>" and "wf_table t"
    and "\<And>b'. runs_of s' b' = (if b' = b \<and> d then [] else runs_of s b')"
  using assms runs_of_delete [of s' s b]
  by (cases d) (auto intro!: that [of "course_run_selections s'"])

lemma clear_coupons:
  fixes s s' :: shop_db
  assumes "whenp d (db_delete coupon_selections coupon_selections_update (\<lambda>_ i. csel_basket i = b)) s = (Inr (), s')"
    and "wf_table (coupon_selections s)"
  obtains t where "s' = s\<lparr>coupon_selections := t\<rparr>" and "wf_table t"
    and "\<And>b'. coupons_of s' b' = (if b' = b \<and> d then [] else coupons_of s b')"
  using assms arg_cong [OF row_delete_owner [of "coupon_selections s" csel_basket b], of "map csel_coupon"]
  by (cases d) (auto simp: coupon_selections_of_def o_def intro!: that [of "coupon_selections s'"])

text \<open>The steps that fill it again.\<close>

lemma set_item:
  fixes s s' :: shop_db
  assumes "whenp d (set_basket_item b p pr upd) s = (Inr (), s')" and "wf_table (basket_items s)"
  obtains t where "s' = s\<lparr>basket_items := t\<rparr>" and "wf_table t"
    and "if d then \<exists>i. item_rows s' b = [i] \<and> bi_quantity i = 1 \<and> (\<forall>q. p = Some q \<longrightarrow> bi_product i = q) \<and>
           (p = None \<longrightarrow> (\<exists>j. item_rows s b = [j] \<and> bi_product i = bi_product j)) \<and>
           (upd \<longrightarrow> bi_program_run i = pr)
         else item_rows s' b = item_rows s b"
    and "d \<Longrightarrow> \<not> upd \<Longrightarrow> bi_program_run ` set (item_rows s' b) \<subseteq> insert None (bi_program_run ` set (item_rows s b))"
    and "\<And>b'. b' \<noteq> b \<Longrightarrow> item_rows s' b' = item_rows s b'"
proof (cases d)
  case True
  with assms set_basket_item_InrD [of b p pr upd s s'] show ?thesis
    by (intro that [of "basket_items s'"]) auto
next
  case False
  with assms show ?thesis by (intro that [of "basket_items s"]) auto
qed

lemma add_runs:
  fixes s s' :: shop_db
  assumes "(case ids of None \<Rightarrow> ret () | Some run_ids \<Rightarrow>
      bindp (db_bulk_create course_run_selections course_run_selections_update
        (map (\<lambda>run. \<lparr>crs_basket = b, crs_run = run\<rparr>) run_ids)) (\<lambda>_. ret ())) s = (Inr (), s')"
    and "wf_table (course_run_selections s)"
  obtains t where "s' = s\<lparr>course_run_selections := t\<rparr>" and "wf_table t"
    and "\<And>b'. runs_of s' b' = runs_of s b' @ (if b' = b then (case ids of None \<Rightarrow> [] | Some ids \<Rightarrow> ids) else [])"
proof (cases ids)
  case None
  with assms show ?thesis by (intro that [of "course_run_selections s"]) auto
next
  case (Some run_ids)
  with assms have "s' = s\<lparr>course_run_selections :=
      snd (t_bulk_create (course_run_selections s) (map (\<lambda>run. \<lparr>crs_basket = b, crs_run = run\<rparr>) run_ids))\<rparr>"
    by (simp add: bindp_run)
  with assms(2) Some runs_of_append [OF assms(2), of s' b run_ids] show ?thesis
    by (intro that [of "course_run_selections s'"]) auto
qed

lemma select_runs:
  fixes s s' :: shop_db
  assumes "bindp (asks (\<lambda>s. (map (\<lambda>i. bi_product (row (basket_items s) i)) (items_of s b), run_selections_of s b)))
      (\<lambda>(ps, selections). case ps of [] \<Rightarrow> ret ()
        | product # _ \<Rightarrow> whenp (selections = []) (autoselect_runs now b product)) s = (Inr (), s')"
    and wf: "wf_table (course_run_selections s)"
  obtains t where "s' = s\<lparr>course_run_selections := t\<rparr>" and "wf_table t"
    and "runs_of s' b = (if runs_of s b = [] \<and> item_rows s b \<noteq> []
      then autoselected now s (basket_user (row (baskets s) b)) (bi_product (hd (item_rows s b))) else runs_of s b)"
    and "\<And>b'. b' \<noteq> b \<Longrightarrow> runs_of s' b' = runs_of s b'"
proof (cases "items_of s b = [] \<or> run_selections_of s b \<noteq> []")
  case True
  with assms have "s' = s" by (auto simp: bindp_run split: list.splits)
  with True wf show ?thesis by (intro that [of "course_run_selections s"]) auto
next
  case False
  then obtain i ks where i: "items_of s b = i # ks" by (auto simp: neq_Nil_conv)
  from False i assms have "autoselect_runs now b (bi_product (row (basket_items s) i)) s = (Inr (), s')"
    by (simp add: bindp_run)
  from autoselect_runs_InrD [OF this wf] False i show ?thesis
    by (intro that [of "course_run_selections s'"]) auto
qed

lemma set_coupon:
  fixes s s' :: shop_db
  assumes "(case v of None \<Rightarrow> ret () | Some v \<Rightarrow>
      bindp (asks (\<lambda>s. cv_coupon (row (coupon_versions s) v))) (\<lambda>coupon.
      bindp (db_update_or_create m coupon_selections coupon_selections_update
        (\<lambda>_ r. csel_basket r = b) (\<lambda>r. r\<lparr>csel_coupon := coupon\<rparr>)
        \<lparr>csel_coupon = coupon, csel_basket = b\<rparr>) (\<lambda>_. ret ()))) s = (Inr (), s')"
    and wf: "wf_table (coupon_selections s)"
  obtains t where "s' = s\<lparr>coupon_selections := t\<rparr>" and "wf_table t"
    and "\<And>b'. coupons_of s' b' =
      (if b' = b then (case v of None \<Rightarrow> coupons_of s b | Some v \<Rightarrow> [cv_coupon (row (coupon_versions s) v)]) else coupons_of s b')"
proof (cases v)
  case None
  with assms show ?thesis by (intro that [of "coupon_selections s"]) auto
next
  case (Some x)
  with assms(1) have "bindp (db_update_or_create m coupon_selections coupon_selections_update
        (\<lambda>_ r. csel_basket r = b) (\<lambda>r. r\<lparr>csel_coupon := cv_coupon (row (coupon_versions s) x)\<rparr>)
        \<lparr>csel_coupon = cv_coupon (row (coupon_versions s) x), csel_basket = b\<rparr>) (\<lambda>_. ret ()) s = (Inr (), s')"
    by (simp add: bindp_run)
  from set_coupon_selection_InrD [OF this wf] Some show ?thesis
    by (intro that [of "coupon_selections s'"]) auto
qed

text \<open>
  The basket that an update leaves: its item, if it has one, is the product asked for, once; its runs are those asked
  for, or those selected for it when it has none; its coupon is the one that was found applicable, or none. The other
  baskets are left as they are, and nothing but the three tables and the dates of data consents changes.
\<close>

lemma update_basket_data_effect:
  fixes s s' :: shop_db
  assumes run: "update_basket_data now b c s = (Inr (), s')" and wf: "basket_tables_wf s"
  shows "s' = s\<lparr>basket_items := basket_items s', course_run_selections := course_run_selections s',
      coupon_selections := coupon_selections s', data_consent_users := data_consent_users s'\<rparr>" (is ?rest)
    and "basket_tables_wf s'"
    and "b \<in> set (pks (baskets s))"
    and "if bch_product c \<noteq> None \<or> bch_update_program_run c
      then \<exists>i. item_rows s' b = [i] \<and> bi_quantity i = 1 \<and> (\<forall>p. bch_product c = Some p \<longrightarrow> bi_product i = p) \<and>
        (bch_product c = None \<longrightarrow> (\<exists>j. items_before c s b = [j] \<and> bi_product i = bi_product j)) \<and>
        (bch_update_program_run c \<longrightarrow> bi_program_run i = bch_program_run c)
      else item_rows s' b = items_before c s b" (is ?items)
    and "runs_of s' b = (if runs_before c s b = [] \<and> item_rows s' b \<noteq> []
      then autoselected now s (basket_user (row (baskets s) b)) (bi_product (hd (item_rows s' b)))
      else runs_before c s b)" (is ?runs)
    and "coupons_of s' b = (case bch_coupon_version c of None \<Rightarrow> [] | Some v \<Rightarrow> [cv_coupon (row (coupon_versions s) v)])"
      (is ?coupons)
    and "\<forall>b'. b' \<noteq> b \<longrightarrow>
      item_rows s' b' = item_rows s b' \<and> runs_of s' b' = runs_of s b' \<and> coupons_of s' b' = coupons_of s b'" (is ?others)
    and "\<not> bch_update_program_run c \<longrightarrow>
      bi_program_run ` set (item_rows s' b) \<subseteq> insert None (bi_program_run ` set (items_before c s b))" (is ?program_runs)
proof -
  from run obtain x s0 s1 s2 s3 s4 s5 s6 s7 where
    get: "db_get ''Basket'' baskets (\<lambda>k _. k = b) s = (Inr x, s0)"
    and a: "whenp (bch_clear_all c) (db_delete basket_items basket_items_update (\<lambda>_ i. bi_basket i = x)) s0 = (Inr (), s1)"
    and rr: "whenp (bch_clear_all c \<or> bch_run_ids c \<noteq> None)
                 (db_delete course_run_selections course_run_selections_update (\<lambda>_ r. crs_basket r = x)) s1 = (Inr (), s2)"
    and cc: "whenp (bch_clear_all c \<or> bch_coupon_version c = None)
                 (db_delete coupon_selections coupon_selections_update (\<lambda>_ r. csel_basket r = x)) s2 = (Inr (), s3)"
    and ii: "whenp (bch_product c \<noteq> None \<or> bch_update_program_run c)
                 (set_basket_item x (bch_product c) (bch_program_run c) (bch_update_program_run c)) s3 = (Inr (), s4)"
    and rs: "(case bch_run_ids c of None \<Rightarrow> ret () | Some run_ids \<Rightarrow>
                   bindp (db_bulk_create course_run_selections course_run_selections_update
                            (map (\<lambda>run. \<lparr>crs_basket = x, crs_run = run\<rparr>) run_ids)) (\<lambda>_. ret ())) s4 = (Inr (), s5)"
    and auto: "bindp (asks (\<lambda>s. (map (\<lambda>i. bi_product (row (basket_items s) i)) (items_of s x), run_selections_of s x)))
                 (\<lambda>(ps, selections). case ps of [] \<Rightarrow> ret ()
                  | product # _ \<Rightarrow> whenp (selections = []) (autoselect_runs now x product)) s5 = (Inr (), s6)"
    and cp: "(case bch_coupon_version c of None \<Rightarrow> ret () | Some v \<Rightarrow>
                   bindp (asks (\<lambda>s. cv_coupon (row (coupon_versions s) v))) (\<lambda>coupon.
                   bindp (db_update_or_create ''CouponSelection'' coupon_selections coupon_selections_update
                            (\<lambda>_ r. csel_basket r = x) (\<lambda>r. r\<lparr>csel_coupon := coupon\<rparr>)
                            \<lparr>csel_coupon = coupon, csel_basket = x\<rparr>) (\<lambda>_. ret ()))) s6 = (Inr (), s7)"
    and dd: "(case bch_data_consents c of None \<Rightarrow> ret () | Some ids \<Rightarrow>
               bindp (asks (\<lambda>s. basket_user (row (baskets s) x))) (\<lambda>user.
               db_update data_consent_users data_consent_users_update
                 (\<lambda>k d. int k \<in> set ids \<and> dcu_user d = user) (\<lambda>d. d\<lparr>dcu_consent_date := Some now\<rparr>))) s7 = (Inr (), s')"
    unfolding update_basket_data_def
    by (elim atomic_InrE bindp_InrE [of "db_get ''Basket'' baskets (\<lambda>k _. k = b)"] thenp_InrE) (simp add: unit_eq)
  have [simp]: "x = b" "s0 = s" and b: "b \<in> set (pks (baskets s))"
    using get by (auto simp: db_get_run dest: t_get_InrD)
  show "b \<in> set (pks (baskets s))" by (rule b)
  note w = wf [unfolded basket_tables_wf_def]
  obtain t1 where s1: "s1 = s\<lparr>basket_items := t1\<rparr>" and w1: "wf_table t1"
    and i1: "\<And>b'. item_rows s1 b' = (if b' = b \<and> bch_clear_all c then [] else item_rows s b')"
    using clear_items [OF a [unfolded \<open>x = b\<close> \<open>s0 = s\<close>]] w by auto
  obtain t2 where s2: "s2 = s1\<lparr>course_run_selections := t2\<rparr>" and w2: "wf_table t2"
    and r2: "\<And>b'. runs_of s2 b' = (if b' = b \<and> (bch_clear_all c \<or> bch_run_ids c \<noteq> None) then [] else runs_of s1 b')"
    using clear_runs [OF rr [unfolded \<open>x = b\<close>]] w by (auto simp: s1)
  obtain t3 where s3: "s3 = s2\<lparr>coupon_selections := t3\<rparr>" and w3: "wf_table t3"
    and c3: "\<And>b'. coupons_of s3 b' =
      (if b' = b \<and> (bch_clear_all c \<or> bch_coupon_version c = None) then [] else coupons_of s2 b')"
    using clear_coupons [OF cc [unfolded \<open>x = b\<close>]] w by (auto simp: s1 s2)
  obtain t4 where s4: "s4 = s3\<lparr>basket_items := t4\<rparr>" and w4: "wf_table t4"
    and i4: "if bch_product c \<noteq> None \<or> bch_update_program_run c
      then \<exists>i. item_rows s4 b = [i] \<and> bi_quantity i = 1 \<and> (\<forall>p. bch_product c = Some p \<longrightarrow> bi_product i = p) \<and>
        (bch_product c = None \<longrightarrow> (\<exists>j. item_rows s3 b = [j] \<and> bi_product i = bi_product j)) \<and>
        (bch_update_program_run c \<longrightarrow> bi_program_run i = bch_program_run c)
      else item_rows s4 b = item_rows s3 b"
    and p4: "bch_product c \<noteq> None \<or> bch_update_program_run c \<Longrightarrow> \<not> bch_update_program_run c \<Longrightarrow>
      bi_program_run ` set (item_rows s4 b) \<subseteq> insert None (bi_program_run ` set (item_rows s3 b))"
    and o4: "\<And>b'. b' \<noteq> b \<Longrightarrow> item_rows s4 b' = item_rows s3 b'"
    by (rule set_item [OF ii [unfolded \<open>x = b\<close>]]) (use w1 in \<open>auto simp: s1 s2 s3\<close>)
  obtain t5 where s5: "s5 = s4\<lparr>course_run_selections := t5\<rparr>" and w5: "wf_table t5"
    and r5: "\<And>b'. runs_of s5 b' = runs_of s4 b' @ (if b' = b then (case bch_run_ids c of None \<Rightarrow> [] | Some ids \<Rightarrow> ids) else [])"
    by (rule add_runs [OF rs [unfolded \<open>x = b\<close>]]) (use w2 in \<open>auto simp: s1 s2 s3 s4\<close>)
  obtain t6 where s6: "s6 = s5\<lparr>course_run_selections := t6\<rparr>" and w6: "wf_table t6"
    and r6: "runs_of s6 b = (if runs_of s5 b = [] \<and> item_rows s5 b \<noteq> []
      then autoselected now s5 (basket_user (row (baskets s5) b)) (bi_product (hd (item_rows s5 b))) else runs_of s5 b)"
    and o6: "\<And>b'. b' \<noteq> b \<Longrightarrow> runs_of s6 b' = runs_of s5 b'"
    by (rule select_runs [OF auto [unfolded \<open>x = b\<close>]]) (use w5 in \<open>auto simp: s5\<close>)
  obtain t7 where s7: "s7 = s6\<lparr>coupon_selections := t7\<rparr>" and w7: "wf_table t7"
    and c7: "\<And>b'. coupons_of s7 b' = (if b' = b then
      (case bch_coupon_version c of None \<Rightarrow> coupons_of s6 b | Some v \<Rightarrow> [cv_coupon (row (coupon_versions s6) v)])
      else coupons_of s6 b')"
    by (rule set_coupon [OF cp [unfolded \<open>x = b\<close>]]) (use w3 in \<open>auto simp: s1 s2 s3 s4 s5 s6\<close>)
  obtain t8 where s': "s' = s7\<lparr>data_consent_users := t8\<rparr>"
    using dd by (cases "bch_data_consents c") (auto simp: bindp_run intro: that [of "data_consent_users s7"])
  show ?rest by (simp add: s1 s2 s3 s4 s5 s6 s7 s')
  show "basket_tables_wf s'" using w4 w6 w7
    by (simp add: basket_tables_wf_def s1 s2 s3 s4 s5 s6 s7 s')
  have items: "items_of s' = items_of s4" "items_of s5 = items_of s4" "items_of s3 = items_of s1" "basket_items s' = basket_items s4"
      "basket_items s5 = basket_items s4" "basket_items s3 = basket_items s1"
    by (simp_all add: fun_eq_iff items_of_def s2 s3 s5 s6 s7 s')
  have runs: "\<And>d. runs_of s' d = runs_of s6 d" "\<And>d. runs_of s4 d = runs_of s2 d" "\<And>d. runs_of s1 d = runs_of s d"
    by (simp_all add: run_selections_of_def s1 s3 s4 s7 s')
  have coupons: "\<And>d. coupons_of s' d = coupons_of s7 d" "\<And>d. coupons_of s6 d = coupons_of s3 d"
      "\<And>d. coupons_of s2 d = coupons_of s d"
    by (simp_all add: coupon_selections_of_def s1 s2 s4 s5 s6 s')
  have i3: "item_rows s3 b = items_before c s b" using i1 by (simp add: items items_before_def)
  show ?items using i4 unfolding items(1,4) i3 .
  show ?program_runs
  proof (cases "bch_product c \<noteq> None \<or> bch_update_program_run c")
    case True
    show ?thesis using p4 [OF True] unfolding items(1,4) i3 by simp
  next
    case False
    with i4 have "item_rows s' b = items_before c s b" unfolding items(1,4) i3 by simp
    then show ?thesis by (simp add: subset_insertI)
  qed
  have "runs_of s5 b = runs_before c s b"
    unfolding r5 runs r2 runs_before_def by (simp split: option.split)
  moreover have "autoselected now s5 = autoselected now s" "baskets s5 = baskets s"
    by (simp_all add: s1 s2 s3 s4 s5 fun_eq_iff autoselected_frame)
  ultimately show ?runs using r6 unfolding items(1,2,4,5) runs by simp
  have "coupon_versions s6 = coupon_versions s" by (simp add: s1 s2 s3 s4 s5 s6)
  then show ?coupons unfolding coupons c7 c3 by (simp split: option.split)
  have "item_rows s' d = item_rows s d" if "d \<noteq> b" for d using that o4 [OF that] i1 [of d] by (simp add: items)
  moreover have "runs_of s' d = runs_of s d" if "d \<noteq> b" for d
    unfolding runs o6 [OF that] r5 r2 using that by simp
  moreover have "coupons_of s' d = coupons_of s d" if "d \<noteq> b" for d
    unfolding coupons c7 c3 using that by simp
  ultimately show ?others by blast
qed

section \<open>Well-typed baskets\<close>

text \<open>
  The foreign keys of the tables of baskets are keys of objects, and a basket has at most one item and at most one
  coupon, which the schema does not enforce.
\<close>

definition optional_key :: "'r table \<Rightarrow> nat option set" where
  "optional_key t = insert None (Some ` set (pks t))"

lemma optional_key_iff [simp]: "x \<in> optional_key t \<longleftrightarrow> (\<forall>k. x = Some k \<longrightarrow> k \<in> set (pks t))"
  by (cases x) (auto simp: optional_key_def)

definition baskets_typed :: "shop_db \<Rightarrow> bool" where
  "baskets_typed s \<longleftrightarrow> basket_tables_wf s \<and>
     (\<forall>k \<in> set (pks (basket_items s)).
        bi_basket (row (basket_items s) k) \<in> set (pks (baskets s)) \<and>
        bi_product (row (basket_items s) k) \<in> set (pks (products s)) \<and>
        bi_program_run (row (basket_items s) k) \<in> optional_key (program_runs s)) \<and>
     (\<forall>k \<in> set (pks (course_run_selections s)).
        crs_basket (row (course_run_selections s) k) \<in> set (pks (baskets s)) \<and>
        crs_run (row (course_run_selections s) k) \<in> set (pks (course_runs s))) \<and>
     (\<forall>k \<in> set (pks (coupon_selections s)).
        csel_basket (row (coupon_selections s) k) \<in> set (pks (baskets s)) \<and>
        csel_coupon (row (coupon_selections s) k) \<in> set (pks (coupons s))) \<and>
     distinct (map (\<lambda>k. bi_basket (row (basket_items s) k)) (pks (basket_items s))) \<and>
     distinct (map (\<lambda>k. csel_basket (row (coupon_selections s) k)) (pks (coupon_selections s)))"

definition versions_typed :: "shop_db \<Rightarrow> bool" where
  "versions_typed s \<longleftrightarrow> (\<forall>v \<in> set (pks (coupon_versions s)). cv_coupon (row (coupon_versions s) v) \<in> set (pks (coupons s)))"

lemma distinct_map_iff: "distinct (map f xs) \<longleftrightarrow> (\<forall>b. length (filter (\<lambda>x. f x = b) xs) \<le> 1)"
proof (induction xs)
  case (Cons x xs)
  have new: "f x \<notin> f ` set xs \<longleftrightarrow> length (filter (\<lambda>y. f y = f x) xs) = 0"
    by (auto simp: filter_empty_conv) (metis imageI)
  show ?case (is "_ \<longleftrightarrow> ?one")
  proof
    assume "distinct (map f (x # xs))"
    with Cons new have "length (filter (\<lambda>y. f y = f x) xs) = 0" and "length (filter (\<lambda>y. f y = b) xs) \<le> 1" for b
      by simp_all
    then show ?one by simp
  next
    assume one: ?one
    have "length (filter (\<lambda>y. f y = b) xs) \<le> 1" for b
      using one [rule_format, of b] by (simp split: if_splits)
    moreover have "length (filter (\<lambda>y. f y = f x) xs) = 0"
      using one [rule_format, of "f x"] by simp
    ultimately show "distinct (map f (x # xs))" using Cons new by simp
  qed
qed simp

text \<open>The same, basket by basket.\<close>

lemma baskets_typed_iff:
  "baskets_typed s \<longleftrightarrow> basket_tables_wf s \<and>
     (\<forall>b. (item_rows s b \<noteq> [] \<or> runs_of s b \<noteq> [] \<or> coupons_of s b \<noteq> [] \<longrightarrow> b \<in> set (pks (baskets s))) \<and>
        length (item_rows s b) \<le> 1 \<and> bi_product ` set (item_rows s b) \<subseteq> set (pks (products s)) \<and>
        bi_program_run ` set (item_rows s b) \<subseteq> optional_key (program_runs s) \<and>
        set (runs_of s b) \<subseteq> set (pks (course_runs s)) \<and>
        length (coupons_of s b) \<le> 1 \<and> set (coupons_of s b) \<subseteq> set (pks (coupons s)))"
proof -
  have "item_rows s b \<noteq> [] \<longleftrightarrow> (\<exists>k \<in> set (pks (basket_items s)). bi_basket (row (basket_items s) k) = b)"
    and "bi_product ` set (item_rows s b) =
      (\<lambda>k. bi_product (row (basket_items s) k)) ` {k \<in> set (pks (basket_items s)). bi_basket (row (basket_items s) k) = b}"
    and "bi_program_run ` set (item_rows s b) =
      (\<lambda>k. bi_program_run (row (basket_items s) k)) ` {k \<in> set (pks (basket_items s)). bi_basket (row (basket_items s) k) = b}"
    and "runs_of s b \<noteq> [] \<longleftrightarrow> (\<exists>k \<in> set (pks (course_run_selections s)). crs_basket (row (course_run_selections s) k) = b)"
    and "coupons_of s b \<noteq> [] \<longleftrightarrow> (\<exists>k \<in> set (pks (coupon_selections s)). csel_basket (row (coupon_selections s) k) = b)"
    and "set (runs_of s b) = (\<lambda>k. crs_run (row (course_run_selections s) k)) `
      {k \<in> set (pks (course_run_selections s)). crs_basket (row (course_run_selections s) k) = b}"
    and "set (coupons_of s b) = (\<lambda>k. csel_coupon (row (coupon_selections s) k)) `
      {k \<in> set (pks (coupon_selections s)). csel_basket (row (coupon_selections s) k) = b}"
    and "length (item_rows s b) = length (filter (\<lambda>k. bi_basket (row (basket_items s) k) = b) (pks (basket_items s)))"
    and "length (coupons_of s b) =
      length (filter (\<lambda>k. csel_basket (row (coupon_selections s) k) = b) (pks (coupon_selections s)))" for b
    by (auto simp: items_of_def run_selections_of_def coupon_selections_of_def matching_def filter_empty_conv image_image)
  note eqs = this
  show ?thesis
    unfolding baskets_typed_def distinct_map_iff eqs all_conj_distrib by (simp only: image_subset_iff) blast
qed

lemma map_the_SomeD: "None \<notin> set xs \<Longrightarrow> r \<in> set (map the xs) \<Longrightarrow> Some r \<in> set xs"
proof -
  assume "None \<notin> set xs" and "r \<in> set (map the xs)"
  then obtain x where "x \<in> set xs" and "r = the x" by auto
  with \<open>None \<notin> set xs\<close> have "x \<noteq> None" by metis
  with \<open>x \<in> set xs\<close> \<open>r = the x\<close> show "Some r \<in> set xs" by auto
qed

lemma autoselected_in: "set (autoselected now s user p) \<subseteq> set (pks (course_runs s))"
proof -
  have "set (course_unexpired_runs now s c) \<subseteq> set (pks (course_runs s))" for c
    by (auto simp: course_unexpired_runs_def course_runs_of_def)
  then have picked: "first_of (filter P (course_unexpired_runs now s c)) = Some r \<Longrightarrow> r \<in> set (pks (course_runs s))" for P c r
    by (meson filter_is_subset first_of_in_set subsetD)
  have "set rs \<subseteq> set (pks (course_runs s))" if "first_available_runs now s user k = Some rs" for k rs
  proof
    fix r assume r: "r \<in> set rs"
    define f where "f c = first_of (filter (\<lambda>r. r \<notin> set (map (\<lambda>e. enr_run (row (run_enrollments s) e))
        (active_run_enrollments s (\<lambda>e. enr_user e = user)))) (course_unexpired_runs now s c))" for c
    define cs where "cs = filter (\<lambda>k. course_live (row (courses s) k)) (program_courses s k)"
    from that have "rs = map the (map f cs)" and "None \<notin> set (map f cs)"
      unfolding first_available_runs_def Let_def f_def [symmetric] cs_def [symmetric] by (simp_all split: if_splits)
    with r have "Some r \<in> set (map f cs)" by (intro map_the_SomeD) simp_all
    then obtain c where "f c = Some r" by auto
    then show "r \<in> set (pks (course_runs s))" unfolding f_def by (rule picked)
  qed
  moreover have "r \<in> set (pks (course_runs s))" if "content_object s c = Some (CourseRunContent r)" for c r
    using that by (auto simp: content_object_def content_missing_def content_exists_def split: if_splits)
  note ins = calculation this
  have "set (runs_for (content_object s c) (first_available_runs now s user)) \<subseteq> set (pks (course_runs s))" (is "?P c") for c
  proof (cases "content_object s c")
    case (Some x)
    with ins show "?P c"
    proof (cases x)
      case (ProgramContent k)
      with Some ins show ?thesis by (cases "first_available_runs now s user k") (simp_all add: runs_for_def)
    qed (simp_all add: runs_for_def)
  qed (simp add: runs_for_def)
  then show ?thesis unfolding autoselected_def .
qed

text \<open>A change that a request asks for names objects of the database.\<close>

lemma validate_runs_in: "validate_runs s user ids p = Inr found \<Longrightarrow> set found \<subseteq> set (pks (course_runs s))"
  by (auto simp: validate_runs_def product_run_queryset_def Let_def split: if_splits content.splits)

lemma best_coupon_in:
  assumes "best_coupon_for_product now s p user auto code = Inr (Some v)"
  shows "v \<in> set (pks (coupon_versions s))"
proof -
  have "best_coupon_loop price bp v0 vs \<in> insert v0 (set vs)" for price bp v0 vs
    by (induction price bp v0 vs rule: best_coupon_loop.induct) auto
  moreover obtain price bp v0 vs where "get_valid_coupon_versions now s (Some p) user auto code False None = v0 # vs"
    and "v = best_coupon_loop price bp v0 (v0 # vs)"
    using assms by (auto simp: best_coupon_for_product_def split: list.splits option.splits)
  ultimately have "v \<in> set (get_valid_coupon_versions now s (Some p) user auto code False None)"
    by (metis insert_absorb list.set_intros(1))
  then show ?thesis by (rule valid_coupon_versions_in)
qed

lemma applicable_version_in:
  assumes "get_applicable_coupon_version now s b p requested = Inr (Some v)"
  shows "v \<in> set (pks (coupon_versions s))"
proof -
  from assms obtain pv where pv: "latest_version s p = Some pv"
    by (auto simp: get_applicable_coupon_version_def split: option.splits)
  define q where "q = pv_product (row (product_versions s) pv)"
  define user where "user = basket_user (row (baskets s) b)"
  note run = assms [unfolded get_applicable_coupon_version_def pv option.case Let_def, folded q_def user_def]
  show ?thesis
  proof (cases requested)
    case None
    with run show ?thesis
      by (auto split: option.splits if_splits intro: best_coupon_in valid_coupon_versions_in)
  next
    case (Some rs)
    show ?thesis
    proof (cases rs)
      case Nil
      with run Some show ?thesis by (auto intro: best_coupon_in)
    next
      case (Cons r rest)
      with run Some show ?thesis
        by (cases r) (auto split: sum.splits option.splits intro: best_coupon_in)
    qed
  qed
qed

lemma querystring_product_in:
  "get_product_from_querystring_id s ref = Inr (p, c, prun) \<Longrightarrow>
   p \<in> set (pks (products s)) \<and> prun \<in> optional_key (program_runs s)"
  using get_product_from_text_id_sound [of s _ p c prun]
  by (auto simp: get_product_from_querystring_id_def product_by_number_def split: product_ref.splits sum.splits if_splits
      dest: t_get_InrD)

definition change_typed :: "shop_db \<Rightarrow> basket_change \<Rightarrow> bool" where
  "change_typed s c \<longleftrightarrow>
     (\<forall>p. bch_product c = Some p \<longrightarrow> p \<in> set (pks (products s))) \<and>
     bch_program_run c \<in> optional_key (program_runs s) \<and>
     (\<forall>ids. bch_run_ids c = Some ids \<longrightarrow> set ids \<subseteq> set (pks (course_runs s))) \<and>
     (\<forall>v. bch_coupon_version c = Some v \<longrightarrow> v \<in> set (pks (coupon_versions s)))"

lemma fetched_product_in:
  "fetch_and_validate_product now s ref = Inr (p, prun) \<Longrightarrow>
   p \<in> set (pks (products s)) \<and> prun \<in> optional_key (program_runs s)"
  using querystring_product_in
  by (fastforce simp: fetch_and_validate_product_def Let_def split: sum.splits option.splits content.splits if_splits)

lemma basket_change_typed:
  assumes "basket_change_of now s b r = Inr c"
  shows "change_typed s c"
  using assms
  by (auto simp: basket_change_of_def change_typed_def validate_and_compare_runs_def Let_def
      split: option.splits list.splits sum.splits prod.splits if_splits
      dest: fetched_product_in applicable_version_in subsetD [OF validate_runs_in])

lemma update_basket_data_typed:
  assumes run: "update_basket_data now b c s = (Inr (), s')" and typed: "baskets_typed s" "versions_typed s"
    and c: "change_typed s c"
  shows "baskets_typed s'"
proof -
  from typed(1) have wf: "basket_tables_wf s" and ty: "\<And>b. (item_rows s b \<noteq> [] \<or> runs_of s b \<noteq> [] \<or> coupons_of s b \<noteq> [] \<longrightarrow> b \<in> set (pks (baskets s))) \<and>
        length (item_rows s b) \<le> 1 \<and> bi_product ` set (item_rows s b) \<subseteq> set (pks (products s)) \<and>
        bi_program_run ` set (item_rows s b) \<subseteq> optional_key (program_runs s) \<and>
        set (runs_of s b) \<subseteq> set (pks (course_runs s)) \<and>
        length (coupons_of s b) \<le> 1 \<and> set (coupons_of s b) \<subseteq> set (pks (coupons s))"
    unfolding baskets_typed_iff by simp_all
  note eff = update_basket_data_effect [OF run wf]
  have same: "baskets s' = baskets s" "products s' = products s" "course_runs s' = course_runs s" "coupons s' = coupons s"
      "program_runs s' = program_runs s"
    by (subst eff(1), simp)+
  have before: "length (items_before c s b) \<le> 1" "bi_product ` set (items_before c s b) \<subseteq> set (pks (products s))"
      "bi_program_run ` set (items_before c s b) \<subseteq> optional_key (program_runs s)"
    using ty [of b] by (simp_all add: items_before_def)
  have "length (item_rows s' b) \<le> 1 \<and> bi_product ` set (item_rows s' b) \<subseteq> set (pks (products s))"
  proof (cases "bch_product c \<noteq> None \<or> bch_update_program_run c")
    case True
    with eff(4) obtain i where i: "item_rows s' b = [i]" "\<And>p. bch_product c = Some p \<Longrightarrow> bi_product i = p"
      "bch_product c = None \<Longrightarrow> \<exists>j. items_before c s b = [j] \<and> bi_product i = bi_product j" by auto
    then have "bi_product i \<in> set (pks (products s))"
      using c before(2) by (cases "bch_product c") (auto simp: change_typed_def)
    with i show ?thesis by simp
  next
    case False
    with eff(4) before show ?thesis by simp
  qed
  moreover have "bi_program_run ` set (item_rows s' b) \<subseteq> optional_key (program_runs s)"
  proof (cases "bch_update_program_run c")
    case True
    with eff(4) obtain i where "item_rows s' b = [i]" "bi_program_run i = bch_program_run c" by auto
    with c show ?thesis by (simp add: change_typed_def)
  next
    case False
    then have "bi_program_run ` set (item_rows s' b) \<subseteq> insert None (bi_program_run ` set (items_before c s b))"
      by (rule mp [OF eff(8)])
    moreover have "insert None (bi_program_run ` set (items_before c s b)) \<subseteq> optional_key (program_runs s)"
      using before(3) by (simp add: insert_subset)
    ultimately show ?thesis by (rule subset_trans)
  qed
  moreover have "set (runs_of s' b) \<subseteq> set (pks (course_runs s))"
  proof -
    have "set (runs_before c s b) \<subseteq> set (pks (course_runs s))"
      using c ty [of b] by (auto simp: runs_before_def change_typed_def split: option.split)
    then show ?thesis using eff(5) autoselected_in by (simp only: split: if_split) blast
  qed
  moreover have "length (coupons_of s' b) \<le> 1 \<and> set (coupons_of s' b) \<subseteq> set (pks (coupons s))"
    using eff(6) c typed(2) by (auto simp: change_typed_def versions_typed_def split: option.split)
  moreover have "item_rows s' d = item_rows s d \<and> runs_of s' d = runs_of s d \<and> coupons_of s' d = coupons_of s d" if "d \<noteq> b" for d
    using eff(7) that by blast
  ultimately show ?thesis
    unfolding baskets_typed_iff same using eff(2,3) ty by metis
qed

lemma update_basket_data_kept:
  assumes run: "update_basket_data now b c s = (Inr (), s')" and "baskets_typed s" and "versions_typed s" and "change_typed s c"
  shows "baskets_typed s' \<and> versions_typed s' \<and> baskets s' = baskets s"
proof -
  have wf: "basket_tables_wf s" using assms(2) by (simp add: baskets_typed_def)
  have "coupon_versions s' = coupon_versions s" "coupons s' = coupons s" "baskets s' = baskets s"
    by (subst update_basket_data_effect(1) [OF run wf], simp)+
  with update_basket_data_typed [OF assms] assms(3) show ?thesis by (simp add: versions_typed_def)
qed

text \<open>Keeping the order in step leaves what types the basket alone.\<close>

definition typing_tables where
  "typing_tables s = (basket_items s, course_run_selections s, coupon_selections s, baskets s, products s, course_runs s,
     program_runs s, coupons s, coupon_versions s)"

lemma baskets_typed_same: "typing_tables t = typing_tables s \<Longrightarrow> baskets_typed t = baskets_typed s \<and> versions_typed t = versions_typed s"
  by (simp add: typing_tables_def baskets_typed_def versions_typed_def basket_tables_wf_def)

lemma keeps_sync:
  fixes T :: "basket_item_row table \<times> course_run_selection_row table \<times> coupon_selection_row table \<times> basket_row table \<times>
    product_row table \<times> course_run_row table \<times> program_run_row table \<times> coupon_row table \<times> coupon_version_row table"
  shows "keeps (\<lambda>s :: shop_db. typing_tables s = T) (sync_unfulfilled_order cfg g b)"
proof -
  let ?I = "\<lambda>s :: shop_db. typing_tables s = T"
  have "keeps ?I (get_or_create_data_consent_users b)" for b
  proof (rule keepsI)
    fix s :: shop_db assume I: "typing_tables s = T"
    obtain r t where t: "get_or_create_data_consent_users b s = (r, t)" by fastforce
    from consents_keep_rest [OF t] obtain d where "t = s\<lparr>data_consent_users := d\<rparr>" by blast
    with t I show "typing_tables (snd (get_or_create_data_consent_users b s)) = T"
      by (simp add: typing_tables_def)
  qed
  moreover have "keeps ?I (sync_line k vb)" for k vb
    unfolding sync_line_def by (intro keeps_intros) (simp_all add: keeps_def typing_tables_def db_update_or_create_run db_get_or_create_run)
  moreover have "keeps ?I (sync_redemption k vb)" for k vb
    unfolding sync_redemption_def redeem_coupon_def by (intro keeps_intros) (simp_all add: keeps_def typing_tables_def db_update_or_create_run db_get_or_create_run)
  moreover have "keeps ?I (sync_affiliate k a)" for k a
    unfolding sync_affiliate_def by (intro keeps_intros) (simp_all add: keeps_def typing_tables_def db_update_or_create_run db_get_or_create_run)
  moreover have "keeps ?I (save_order e r f)" for e r f
    unfolding save_order_def by (intro keeps_intros) (simp_all add: keeps_def typing_tables_def db_update_or_create_run db_get_or_create_run)
  moreover have "keeps ?I (emit e)" for e
    by (simp add: keeps_def emit_def typing_tables_def)
  ultimately show ?thesis
    unfolding sync_unfulfilled_order_def validate_basket_for_checkout_def create_or_update_unfulfilled_order_def
      mirror_basket_def sync_hubspot_deal_def
    by (intro keeps_intros)
qed

section \<open>What a request does to a basket\<close>

lemma update_basket_data_Inl: "update_basket_data now b c s = (Inl e, t) \<Longrightarrow> t = s"
  by (simp add: update_basket_data_def atomic_def split: prod.splits sum.splits)

lemma basket_update_cases:
  fixes s t :: shop_db
  assumes run: "basket_update cfg g b r s = (x, t)"
  shows "(\<exists>e. x = Inl e \<and> t = s) \<or>
    (\<exists>c u. update_basket_data (sc_now cfg) b c s = (Inr (), u) \<and>
       (breq_items r = Some [] \<and> c = clear_basket (breq_data_consents r) \<and> x = Inr () \<and> t = u \<or>
        breq_items r \<noteq> Some [] \<and> basket_change_of (sc_now cfg) s b r = Inr c \<and> sync_unfulfilled_order cfg g b u = (x, t)))"
proof (cases "validate_coupons (breq_coupons r)")
  case (Inl e)
  with run have "x = Inl e \<and> t = s" by (simp add: basket_update_def bindp_run)
  then show ?thesis by simp
next
  case (Inr y)
  show ?thesis
  proof (cases "breq_items r = Some []")
    case True
    obtain y u where u: "update_basket_data (sc_now cfg) b (clear_basket (breq_data_consents r)) s = (y, u)" by fastforce
    with run Inr True have "x = y" "t = u" by (simp_all add: basket_update_def bindp_run)
    with u True update_basket_data_Inl [of "sc_now cfg" b _ s] show ?thesis by (cases y) auto
  next
    case False
    show ?thesis
    proof (cases "breq_items r = None \<and> breq_coupons r = None \<and> breq_data_consents r = None")
      case True
      with run Inr have "x = Inl (ValidationError [] ''Invalid request'') \<and> t = s" by (simp add: basket_update_def bindp_run)
      then show ?thesis by simp
    next
      case some: False
      show ?thesis
      proof (cases "basket_change_of (sc_now cfg) s b r")
        case (Inl e)
        with run Inr False some have "x = Inl e \<and> t = s" by (simp add: basket_update_def bindp_run)
        then show ?thesis by simp
      next
        case (Inr c)
        obtain y u where u: "update_basket_data (sc_now cfg) b c s = (y, u)" by fastforce
        with run \<open>validate_coupons (breq_coupons r) = Inr _\<close> Inr False some
        have "(x, t) = (case y of Inl e \<Rightarrow> (Inl e, u) | Inr _ \<Rightarrow> sync_unfulfilled_order cfg g b u)"
          by (auto simp: basket_update_def bindp_run thenp_def split: sum.splits)
        with u Inr False update_basket_data_Inl [of "sc_now cfg" b c s] show ?thesis by (cases y) auto
      qed
    qed
  qed
qed

text \<open>
  C14: However a request about a basket ends, the basket is either as it was, and then the request was refused, or
  as the change asked for leaves it: the change is stored as a whole, and a failure to keep the open order in step with
  it, which is attempted afterwards, neither undoes nor alters it.
\<close>

theorem basket_update_all_or_nothing:
  fixes s t :: shop_db
  assumes "basket_update cfg g b r s = (x, t)"
  shows "(\<exists>e. x = Inl e \<and> t = s) \<or>
    (\<exists>c u. update_basket_data (sc_now cfg) b c s = (Inr (), u) \<and> typing_tables t = typing_tables u \<and>
       (if breq_items r = Some [] then c = clear_basket (breq_data_consents r) \<and> t = u
        else basket_change_of (sc_now cfg) s b r = Inr c))"
  using basket_update_cases [OF assms] keepsD [OF keeps_sync _ refl] by fastforce

lemma keeps_basket_update:
  "keeps (\<lambda>s :: shop_db. baskets_typed s \<and> versions_typed s \<and> wf_table (baskets s)) (basket_update cfg g b r)"
proof (rule keepsI)
  fix s :: shop_db
  assume ok: "baskets_typed s \<and> versions_typed s \<and> wf_table (baskets s)"
  obtain x t where run: "basket_update cfg g b r s = (x, t)" by fastforce
  have "baskets_typed t \<and> versions_typed t \<and> wf_table (baskets t)"
    using basket_update_cases [OF run]
  proof (elim disjE exE conjE)
    fix e assume "t = s"
    with ok show ?thesis by simp
  next
    fix c u
    assume u: "update_basket_data (sc_now cfg) b c s = (Inr (), u)" and c: "c = clear_basket (breq_data_consents r)" and "t = u"
    have "change_typed s c" by (simp add: c change_typed_def clear_basket_def)
    with update_basket_data_kept [OF u] ok \<open>t = u\<close> show ?thesis by simp
  next
    fix c u
    assume u: "update_basket_data (sc_now cfg) b c s = (Inr (), u)" and c: "basket_change_of (sc_now cfg) s b r = Inr c"
      and sync: "sync_unfulfilled_order cfg g b u = (x, t)"
    have "typing_tables t = typing_tables u"
      by (rule keepsD [OF keeps_sync sync refl])
    with update_basket_data_kept [OF u] basket_change_typed [OF c] ok show ?thesis
      using baskets_typed_same [of t u] by (simp add: typing_tables_def)
  qed
  with run show "baskets_typed (snd (basket_update cfg g b r s)) \<and> versions_typed (snd (basket_update cfg g b r s)) \<and>
      wf_table (baskets (snd (basket_update cfg g b r s)))" by simp
qed

lemma keeps_basket_view:
  "keeps (\<lambda>s :: shop_db. baskets_typed s \<and> versions_typed s \<and> wf_table (baskets s)) (basket_view cfg g user r)"
proof -
  let ?I = "\<lambda>s :: shop_db. baskets_typed s \<and> versions_typed s \<and> wf_table (baskets s)"
  have "keeps ?I (get_basket now user)" for now
  proof (rule keepsI)
    fix s :: shop_db assume I: "?I s"
    let ?r = "t_get_or_create ''Basket'' (baskets s) (\<lambda>_ b. basket_user b = user) \<lparr>basket_user = user, basket_updated_on = now\<rparr>"
    have t: "snd (get_basket now user s) = s\<lparr>baskets := snd ?r\<rparr>"
      by (simp add: get_basket_def bindp_run db_get_or_create_run split: sum.split)
    have "set (pks (baskets s)) \<subseteq> set (pks (snd ?r))"
      by (auto simp: t_get_or_create_def Let_def t_create_def split: list.split)
    moreover have "wf_table (snd ?r)" using I t_get_or_create_wf by (metis prod.collapse)
    ultimately show "?I (snd (get_basket now user s))"
      using I unfolding t baskets_typed_def versions_typed_def basket_tables_wf_def by auto
  qed
  moreover have "keeps ?I (get_or_create_data_consent_users b)" for b
  proof (rule keepsI)
    fix s :: shop_db assume I: "?I s"
    obtain x t where run: "get_or_create_data_consent_users b s = (x, t)" by fastforce
    from consents_keep_rest [OF run] obtain d where "t = s\<lparr>data_consent_users := d\<rparr>" by blast
    with run I baskets_typed_same [of t s] show "?I (snd (get_or_create_data_consent_users b s))"
      by (simp add: typing_tables_def)
  qed
  ultimately show ?thesis
    unfolding basket_view_def by (intro keeps_intros keeps_basket_update)
qed

text \<open>
  C15: The tables of baskets stay well typed: whatever a request asks of the user's basket, and whether it is answered
  or refused, every item still refers to an existing basket and product and, if to any, to an existing program run,
  every run selection to an existing basket and course run, every coupon selection to an existing basket and coupon, and
  no basket has two items or two coupons.
\<close>

theorem baskets_stay_typed:
  fixes s t :: shop_db
  assumes "basket_view cfg g user r s = (x, t)" and "wf_table (baskets s)" and "baskets_typed s" and "versions_typed s"
  shows "baskets_typed t \<and> wf_table (baskets t)"
  using keepsD [OF keeps_basket_view assms(1)] assms(2-4) by blast

section \<open>Runs that are selected by themselves\<close>

lemma first_available_runs_SomeD:
  fixes s :: shop_db
  assumes "first_available_runs now s user p = Some rs"
  shows "map (\<lambda>r. run_course (row (course_runs s) r)) rs = filter (\<lambda>k. course_live (row (courses s) k)) (program_courses s p)"
    and "\<forall>r \<in> set rs. is_unexpired now (row (course_runs s) r) \<and> active_run_enrollments s (\<lambda>e. enr_user e = user \<and> enr_run e = r) = []"
proof -
  let ?enrolled = "map (\<lambda>e. enr_run (row (run_enrollments s) e)) (active_run_enrollments s (\<lambda>e. enr_user e = user))"
  define f where "f c = first_of (filter (\<lambda>r. r \<notin> set ?enrolled) (course_unexpired_runs now s c))" for c
  define cs where "cs = filter (\<lambda>k. course_live (row (courses s) k)) (program_courses s p)"
  from assms have rs: "rs = map the (map f cs)" and all: "None \<notin> set (map f cs)"
    unfolding first_available_runs_def Let_def f_def [symmetric] cs_def [symmetric] by (simp_all split: if_splits)
  have picked: "run_course (row (course_runs s) r) = c \<and> is_unexpired now (row (course_runs s) r) \<and> r \<notin> set ?enrolled"
    if "f c = Some r" for c r
    using first_of_in_set [OF that [unfolded f_def]] by (auto simp: course_unexpired_runs_def course_runs_of_def)
  have some: "f c = Some (the (f c))" if "c \<in> set cs" for c
    using that all by (metis image_eqI list.set_map option.exhaust_sel)
  have "run_course (row (course_runs s) (the (f c))) = c" if "c \<in> set cs" for c
    using picked [OF some [OF that]] by blast
  then show "map (\<lambda>r. run_course (row (course_runs s) r)) rs = filter (\<lambda>k. course_live (row (courses s) k)) (program_courses s p)"
    by (simp add: rs cs_def [symmetric] map_idI)
  show "\<forall>r \<in> set rs. is_unexpired now (row (course_runs s) r) \<and> active_run_enrollments s (\<lambda>e. enr_user e = user \<and> enr_run e = r) = []"
  proof
    fix r assume "r \<in> set rs"
    then obtain c where "c \<in> set cs" "r = the (f c)" by (auto simp: rs)
    with picked [OF some] have "is_unexpired now (row (course_runs s) r)" "r \<notin> set ?enrolled" by auto
    then show "is_unexpired now (row (course_runs s) r) \<and> active_run_enrollments s (\<lambda>e. enr_user e = user \<and> enr_run e = r) = []"
      by (auto simp: active_run_enrollments_def matching_def filter_empty_conv image_iff)
  qed
qed

text \<open>
  C16: Runs that an update selects by itself for a program are runs that check-out accepts: when a basket without runs
  gets a program each of whose live courses has a run that can be taken, the check of the run selection passes for the
  basket as it is left, with exactly those runs. This is what the loop does, and not what the docstring of
  \<open>_autoselect_runs\<close> says: there nothing is selected once the user is enrolled in a picked run, whereas here such a run
  is passed over and the course's next one taken.
\<close>

theorem autoselected_runs_pass_checkout:
  fixes s s' :: shop_db
  assumes "update_basket_data now b c s = (Inr (), s')" and "basket_tables_wf s" and "wf_table (courses s)"
    and "runs_before c s b = []" and "item_rows s' b = [i]"
    and "content_object s (prod_content (row (products s) (bi_product i))) = Some (ProgramContent p)"
    and "first_available_runs now s (basket_user (row (baskets s) b)) p = Some rs" and "rs \<noteq> []"
  shows "validate_basket_run_selections now s' b (ProgramContent p) = Inr rs"
proof -
  note eff = update_basket_data_effect [OF assms(1,2)]
  have runs: "runs_of s' b = rs"
    using eff(5) assms(4-7) by (simp add: autoselected_def runs_for_def)
  have same: "courses s' = courses s" "course_runs s' = course_runs s" "run_enrollments s' = run_enrollments s" "baskets s' = baskets s"
    by (subst eff(1), simp)+
  note D = first_available_runs_SomeD [OF assms(7)]
  have live: "distinct (filter (\<lambda>k. course_live (row (courses s) k)) (program_courses s p))"
    using wf_table_distinct [OF assms(3)] by (simp add: program_courses_def matching_def)
  have "valid_course_ids s' (ProgramContent p) = Inr (map (\<lambda>r. run_course (row (course_runs s) r)) rs)"
    using D(1) live by (simp add: valid_course_ids_def program_courses_def same distinct_remdups_id)
  moreover have "distinct rs" using live unfolding D(1) [symmetric] by (simp add: distinct_map)
  moreover have "filter (\<lambda>r. \<not> is_unexpired now (row (course_runs s) r)) rs = []"
    using D(2) by (simp add: filter_empty_conv)
  moreover have "active_run_enrollments s (\<lambda>e. enr_user e = basket_user (row (baskets s) b) \<and> enr_run e \<in> set rs) = []"
    using D(2) by (auto simp: active_run_enrollments_def matching_def filter_empty_conv)
  ultimately show ?thesis
    using assms(8) unfolding validate_basket_run_selections_def Let_def runs same
    by (simp add: list_all_iff active_run_enrollments_def same distinct_remdups_id)
qed

text \<open>
  C13: What an update leaves: an item, if any, that is the product asked for, once; the runs asked for, or, if there are
  none, those selected for the item; the coupon found applicable, or none. Other baskets stay as they are, and nothing
  but the three tables and the dates of data consents changes.
\<close>

theorem update_basket_data_spec:
  fixes s s' :: shop_db
  assumes "update_basket_data now b c s = (Inr (), s')" and "basket_tables_wf s"
  shows "s' = s\<lparr>basket_items := basket_items s', course_run_selections := course_run_selections s',
      coupon_selections := coupon_selections s', data_consent_users := data_consent_users s'\<rparr> \<and>
    (if bch_product c \<noteq> None \<or> bch_update_program_run c
      then \<exists>i. item_rows s' b = [i] \<and> bi_quantity i = 1 \<and> (\<forall>p. bch_product c = Some p \<longrightarrow> bi_product i = p) \<and>
        (bch_product c = None \<longrightarrow> (\<exists>j. items_before c s b = [j] \<and> bi_product i = bi_product j)) \<and>
        (bch_update_program_run c \<longrightarrow> bi_program_run i = bch_program_run c)
      else item_rows s' b = items_before c s b) \<and>
    runs_of s' b = (if runs_before c s b = [] \<and> item_rows s' b \<noteq> []
      then autoselected now s (basket_user (row (baskets s) b)) (bi_product (hd (item_rows s' b)))
      else runs_before c s b) \<and>
    coupons_of s' b = (case bch_coupon_version c of None \<Rightarrow> [] | Some v \<Rightarrow> [cv_coupon (row (coupon_versions s) v)]) \<and>
    (\<forall>b'. b' \<noteq> b \<longrightarrow> item_rows s' b' = item_rows s b' \<and> runs_of s' b' = runs_of s b' \<and> coupons_of s' b' = coupons_of s b')"
  by (intro conjI; rule update_basket_data_effect [OF assms])

section \<open>An example\<close>

definition example_change :: basket_change where
  "example_change = \<lparr>bch_product = Some 2, bch_run_ids = Some [], bch_program_run = None, bch_update_program_run = False,
     bch_coupon_version = None, bch_data_consents = None, bch_clear_all = False\<rparr>"

lemma example_update: "fst (update_basket_data 10 1 example_change example_shop) = Inr ()"
  by code_simp

lemma example_item: "item_rows (snd (update_basket_data 10 1 example_change example_shop)) 1 =
    [\<lparr>bi_product = 2, bi_basket = 1, bi_quantity = 1, bi_program_run = None\<rparr>]"
  by code_simp

lemma example_available: "first_available_runs 10 example_shop 1 1 = Some [3, 2]"
  by code_simp

lemma example_typed: "baskets_typed example_shop \<and> versions_typed example_shop \<and> wf_table (baskets example_shop) \<and> wf_table (courses example_shop)"
  by code_simp

lemma example_update_run:
  "update_basket_data 10 1 example_change example_shop = (Inr (), snd (update_basket_data 10 1 example_change example_shop))"
  by (metis example_update prod.collapse)

lemma update_basket_data_spec_witness:
  "coupons_of (snd (update_basket_data 10 1 example_change example_shop)) 1 = []"
  using update_basket_data_spec [OF example_update_run] example_typed
  by (simp add: baskets_typed_def example_change_def)

lemma autoselected_runs_pass_checkout_witness:
  "validate_basket_run_selections 10 (snd (update_basket_data 10 1 example_change example_shop)) 1 (ProgramContent 1) = Inr [3, 2]"
proof (rule autoselected_runs_pass_checkout [OF example_update_run _ _ _ example_item])
  show "basket_tables_wf example_shop" "wf_table (courses example_shop)" using example_typed by (simp_all add: baskets_typed_def)
  show "runs_before example_change example_shop 1 = []" by (simp add: runs_before_def example_change_def)
  show "content_object example_shop (prod_content (row (products example_shop)
      (bi_product \<lparr>bi_product = 2, bi_basket = 1, bi_quantity = 1, bi_program_run = None\<rparr>))) = Some (ProgramContent 1)"
    by code_simp
  show "first_available_runs 10 example_shop (basket_user (row (baskets example_shop) 1)) 1 = Some [3, 2]"
    by code_simp
qed simp

definition example_request :: basket_request where
  "example_request = \<lparr>breq_items = Some [\<lparr>bir_product_id = Some (NumericId 2), bir_run_ids = [Some 3, Some 2]\<rparr>],
     breq_coupons = None, breq_data_consents = None\<rparr>"

lemma example_change_of: "map_sum (\<lambda>_. ()) (\<lambda>c. (bch_product c, bch_run_ids c)) (basket_change_of 10 example_shop 1 example_request)
    = Inr (Some 2, Some [2, 3])"
  by code_simp

lemma basket_update_all_or_nothing_witness:
  "case basket_update example_config example_geo 1 example_request example_shop of (x, t) \<Rightarrow>
    (\<exists>e. x = Inl e \<and> t = example_shop) \<or>
    (\<exists>c u. update_basket_data (sc_now example_config) 1 c example_shop = (Inr (), u) \<and> typing_tables t = typing_tables u \<and>
       basket_change_of (sc_now example_config) example_shop 1 example_request = Inr c)"
  using basket_update_all_or_nothing [where cfg = example_config and g = example_geo and b = 1 and r = example_request and s = example_shop, OF prod.collapse [symmetric]]
  by (simp add: case_prod_unfold example_request_def)

lemma baskets_stay_typed_witness:
  "baskets_typed (snd (basket_view example_config example_geo 1 example_request example_shop))"
  using baskets_stay_typed [where cfg = example_config and g = example_geo and user = 1 and r = example_request and s = example_shop, OF prod.collapse [symmetric]] example_typed
  by simp

end
