(* ===== verification/Order_Lifecycle.thy ===== *)
theory Order_Lifecycle
  imports B2b Basket_Update
begin

text \<open>
  The fulfilment view of \<open>ecommerce/views.py\<close>, and the life of orders: an abstract machine that opens orders and
  decides an open order once, and the proof that every request of the shop runs it, raising or not.
\<close>

section \<open>The view for the notifications of the payment service\<close>

definition order_fulfillment_view ::
  "shop_config \<Rightarrow> (string \<Rightarrow> string \<Rightarrow> string) \<Rightarrow> string \<Rightarrow> (nat \<Rightarrow> string) \<Rightarrow> payload \<Rightarrow> ('z shop_db_scheme, unit) prog" where
  "order_fulfillment_view cfg hmac_b64 security_key uuids request_data =
     bindp (lift_result (is_signed_by_cybersource hmac_b64 security_key request_data)) (\<lambda>permitted.
     if \<not> permitted then raise PermissionDenied
     else
       try_catch
         (let reference_number = (case map_of request_data ''req_reference_number'' of None \<Rightarrow> [] | Some n \<Rightarrow> n)
          in if starts_with reference_number (b2b_order_reference_number_prefix (sc_environment cfg))
             then fulfill_b2b_order cfg uuids request_data
             else if starts_with reference_number (order_reference_number_prefix (sc_environment cfg))
             then fulfill_order cfg request_data
             else raise (ParseException (''Unknown prefix '' @ [CHR 0x27] @ reference_number @ [CHR 0x27] @ '' for reference number'')))
         (\<lambda>e. bindp (db_create receipts receipts_update \<lparr>receipt_order = None, receipt_data = request_data\<rparr>) (\<lambda>_. raise e)))"

section \<open>The life of an order\<close>

text \<open>
  The abstract machine: orders are opened, and an open order is decided once. Learner and bulk orders are
  numbered separately.
\<close>

datatype order_id = Learner nat | Bulk nat

datatype life_event = Opened order_id | Decided order_id order_status

fun life_event_step :: "(order_id \<Rightarrow> order_status option) \<Rightarrow> life_event \<Rightarrow> (order_id \<Rightarrow> order_status option) option" where
  "life_event_step m (Opened i) = (if m i = None then Some (m(i \<mapsto> OrderCreated)) else None)"
| "life_event_step m (Decided i st) =
     (if m i = Some OrderCreated \<and> (st = OrderFulfilled \<or> st = OrderFailed) then Some (m(i \<mapsto> st)) else None)"

fun life_run :: "(order_id \<Rightarrow> order_status option) \<Rightarrow> life_event list \<Rightarrow> (order_id \<Rightarrow> order_status option) option" where
  "life_run m [] = Some m"
| "life_run m (e # es) = (case life_event_step m e of None \<Rightarrow> None | Some m' \<Rightarrow> life_run m' es)"

lemma life_run_append: "life_run m (es @ fs) = (case life_run m es of None \<Rightarrow> None | Some m' \<Rightarrow> life_run m' fs)"
  by (induction m es rule: life_run.induct) (auto split: option.split)

text \<open>A decided order keeps its status, and no order disappears.\<close>

lemma life_step_final: "life_event_step m e = Some m' \<Longrightarrow> m i = Some st \<Longrightarrow> st \<noteq> OrderCreated \<Longrightarrow> m' i = Some st"
  by (cases e) (auto split: if_splits)

lemma life_step_dom: "life_event_step m e = Some m' \<Longrightarrow> m i \<noteq> None \<Longrightarrow> m' i \<noteq> None"
  by (cases e) (auto split: if_splits)

lemma life_run_final: "life_run m es = Some m' \<Longrightarrow> m i = Some st \<Longrightarrow> st \<noteq> OrderCreated \<Longrightarrow> m' i = Some st"
  by (induction m es rule: life_run.induct) (auto split: option.splits dest: life_step_final)

lemma life_run_dom: "life_run m es = Some m' \<Longrightarrow> m i \<noteq> None \<Longrightarrow> m' i \<noteq> None"
  by (induction m es rule: life_run.induct) (auto split: option.splits dest!: life_step_dom)

text \<open>Anything whose steps run the abstract machine under an invariant.\<close>

locale order_machine =
  fixes step :: "'s \<Rightarrow> 's \<Rightarrow> bool" and inv :: "'s \<Rightarrow> bool" and statuses :: "'s \<Rightarrow> order_id \<Rightarrow> order_status option"
  assumes step_inv: "inv s \<Longrightarrow> step s t \<Longrightarrow> inv t"
    and step_run: "inv s \<Longrightarrow> step s t \<Longrightarrow> \<exists>es. life_run (statuses s) es = Some (statuses t)"
begin

lemma reach_run: "step\<^sup>*\<^sup>* s t \<Longrightarrow> inv s \<Longrightarrow> inv t \<and> (\<exists>es. life_run (statuses s) es = Some (statuses t))"
proof (induction rule: rtranclp_induct)
  case base
  then show ?case by (auto intro: exI [of _ "[]"])
next
  case (step t u)
  then obtain es fs where "life_run (statuses s) es = Some (statuses t)" "life_run (statuses t) fs = Some (statuses u)"
    using step_run by blast
  then have "life_run (statuses s) (es @ fs) = Some (statuses u)" by (simp add: life_run_append)
  with step step_inv show ?case by blast
qed

lemma decided_stays:
  assumes "step\<^sup>*\<^sup>* s t" and "inv s" and "statuses s i = Some st" and "st \<noteq> OrderCreated"
  shows "statuses t i = Some st"
  using reach_run [OF assms(1,2)] life_run_final assms(3,4) by blast

lemma order_stays: "step\<^sup>*\<^sup>* s t \<Longrightarrow> inv s \<Longrightarrow> statuses s i \<noteq> None \<Longrightarrow> statuses t i \<noteq> None"
  using reach_run life_run_dom by blast

end

section \<open>The shop as a machine\<close>

definition order_statuses :: "shop_db \<Rightarrow> order_id \<Rightarrow> order_status option" where
  "order_statuses s i =
     (case i of
        Learner k \<Rightarrow> if k \<in> set (pks (orders s)) then Some (ord_status (row (orders s) k)) else None
      | Bulk k \<Rightarrow> if k \<in> set (pks (b2b_orders s)) then Some (ord_status (row (b2b_orders s) k)) else None)"

text \<open>The requests that change orders; times, settings and services may differ from request to request.\<close>

inductive shop_step :: "shop_db \<Rightarrow> shop_db \<Rightarrow> bool" where
  checkout: "checkout_view cfg cs hmac url (g :: geo_db) base user areq ip s = (r, t) \<Longrightarrow> shop_step s t"
| notification: "order_fulfillment_view cfg hmac key uuids data s = (r, t) \<Longrightarrow> shop_step s t"
| bulk_checkout: "b2b_checkout_view cfg cs hmac url valid_email uuids uid base d s = (r, t) \<Longrightarrow> shop_step s t"
| basket_request: "basket_view cfg (g :: geo_db) user breq s = (x, t) \<Longrightarrow> shop_step s t"
| cleared: "clear_and_delete_baskets days now user s = (r, t) \<Longrightarrow> shop_step s t"

inductive_cases shop_stepE: "shop_step s t"

definition shop_ok :: "shop_db \<Rightarrow> bool" where
  "shop_ok s \<longleftrightarrow> orders_ok s \<and> wf_table (b2b_orders s)"

subsection \<open>Frames\<close>

text \<open>What the invariant and the statuses read.\<close>

definition order_frame ::
  "shop_db \<Rightarrow> line_row table \<times> line_run_selection_row table \<times> coupon_redemption_row table \<times> product_version_row table" where
  "order_frame s = (lines s, line_run_selections s, coupon_redemptions s, product_versions s)"

interpretation frame_kept: completion_frame "\<lambda>s. (b2b_orders s, order_frame s) = T" for T
  by unfold_locales (simp_all add: order_frame_def)

interpretation all_kept: completion_frame "\<lambda>s. (orders s, b2b_orders s, order_frame s) = T" for T
  by unfold_locales (simp_all add: order_frame_def)

lemma orders_ok_same:
  assumes "orders_ok s" and "orders t = orders s" and "order_frame t = order_frame s"
  shows "orders_ok t"
  using assms by (simp add: orders_ok_def order_frame_def open_orders_def order_lines_def)

lemma orders_ok_decided:
  assumes ok: "orders_ok s" and o: "orders t = t_save (orders s) k (\<lambda>r. r\<lparr>ord_status := st\<rparr>)" and st: "st \<noteq> OrderCreated"
    and same: "order_frame t = order_frame s"
  shows "orders_ok t"
proof -
  have lines: "order_lines t = order_lines s" "product_of_version t = product_of_version s" "lines t = lines s"
    using same by (simp_all add: order_frame_def fun_eq_iff order_lines_def product_of_version_def)
  have "is_open t u p j \<longleftrightarrow> is_open s u p j \<and> j \<noteq> k" for u p j
    using st by (auto simp: is_open_def o lines row_t_save)
  then have "open_orders t u p = filter (\<lambda>j. j \<noteq> k) (open_orders s u p)" for u p
    by (auto simp: open_orders_filter o intro!: filter_cong)
  then have "length (open_orders t u p) \<le> length (open_orders s u p)" for u p
    by simp
  moreover have "length (open_orders s u p) \<le> 1" for u p
    using ok by (simp add: orders_ok_def)
  ultimately have "length (open_orders t u p) \<le> 1" for u p
    using le_trans by blast
  with ok same show ?thesis
    by (simp add: orders_ok_def lines o order_frame_def)
qed


subsection \<open>What each request does to the statuses\<close>

lemma statuses_same: "orders t = orders s \<Longrightarrow> b2b_orders t = b2b_orders s \<Longrightarrow> order_statuses t = order_statuses s"
  by (simp add: fun_eq_iff order_statuses_def split: order_id.split)

lemma statuses_decided:
  assumes "orders t = t_save (orders s) k (\<lambda>r. r\<lparr>ord_status := st\<rparr>)" and "b2b_orders t = b2b_orders s" and "k \<in> set (pks (orders s))"
  shows "order_statuses t = (order_statuses s)(Learner k \<mapsto> st)"
  using assms by (auto simp: fun_eq_iff order_statuses_def row_t_save split: order_id.split)

lemma statuses_bulk_decided:
  assumes "b2b_orders t = t_save (b2b_orders s) k f" and "ord_status (f (row (b2b_orders s) k)) = st" and "orders t = orders s"
    and "k \<in> set (pks (b2b_orders s))"
  shows "order_statuses t = (order_statuses s)(Bulk k \<mapsto> st)"
  using assms by (auto simp: fun_eq_iff order_statuses_def row_t_save split: order_id.split)

lemma life_run_decided: "m i = Some OrderCreated \<Longrightarrow> st = OrderFulfilled \<or> st = OrderFailed \<Longrightarrow> \<exists>es. life_run m es = Some (m(i \<mapsto> st))"
  by (intro exI [of _ "[Decided i st]"]) simp

lemma life_run_none: "\<exists>es. life_run m es = Some m"
  by (intro exI [of _ "[]"]) simp

text \<open>A request simulates the machine.\<close>

definition simulates :: "shop_db \<Rightarrow> shop_db \<Rightarrow> bool" where
  "simulates s t \<longleftrightarrow> shop_ok t \<and> (\<exists>es. life_run (order_statuses s) es = Some (order_statuses t))"

lemma simulates_trans: "simulates s t \<Longrightarrow> simulates t u \<Longrightarrow> simulates s u"
  unfolding simulates_def by (metis life_run_append option.simps(5))

lemma simulates_same:
  assumes "shop_ok s" and "(orders t, b2b_orders t, order_frame t) = (orders s, b2b_orders s, order_frame s)"
  shows "simulates s t"
  using assms orders_ok_same [of s t] statuses_same [of t s] life_run_none by (auto simp: simulates_def shop_ok_def)

lemma simulates_decided:
  assumes "shop_ok s" and "k \<in> set (pks (orders s))" and "ord_status (row (orders s) k) = OrderCreated"
    and o: "orders t = t_save (orders s) k (\<lambda>r. r\<lparr>ord_status := st\<rparr>)" and same: "(b2b_orders t, order_frame t) = (b2b_orders s, order_frame s)"
    and st: "st = OrderFulfilled \<or> st = OrderFailed"
  shows "simulates s t"
proof -
  have "orders_ok t"
    using orders_ok_decided [OF _ o] assms(1) same st by (auto simp: shop_ok_def)
  moreover have "order_statuses s (Learner k) = Some OrderCreated"
    using assms(2,3) by (simp add: order_statuses_def)
  moreover have "order_statuses t = (order_statuses s)(Learner k \<mapsto> st)"
    using statuses_decided [OF o] same assms(2) by simp
  ultimately show ?thesis
    using life_run_decided [OF _ st] assms(1) same by (auto simp: simulates_def shop_ok_def)
qed

lemma keeps_change_order_status: "keeps (\<lambda>s. (b2b_orders s, order_frame s) = T) (change_order_status cfg k b st)"
proof -
  have "keeps (\<lambda>s. (b2b_orders s, order_frame s) = T) (db_save orders orders_update k f)" for f
    by (simp add: keeps_def order_frame_def)
  moreover have "keeps (\<lambda>s. (b2b_orders s, order_frame s) = T) (save_and_log_order k f a)" for f a
    by (simp add: keeps_def save_and_log_order_run Let_def order_frame_def)
  moreover have "keeps (\<lambda>s. (b2b_orders s, order_frame s) = T) (sync_hubspot_deal cfg k)"
    unfolding sync_hubspot_deal_def by (intro keeps_intros frame_kept.keeps_effect)
  ultimately show ?thesis
    unfolding change_order_status_def by (intro keeps_intros frame_kept.keeps_complete_order frame_kept.keeps_receipt_message)
qed

lemma keeps_fulfill_order: "keeps (\<lambda>s. (b2b_orders s, order_frame s) = T) (fulfill_order cfg data)"
proof -
  have "keeps (\<lambda>s. (b2b_orders s, order_frame s) = T) (db_create receipts receipts_update r)"
    "keeps (\<lambda>s. (b2b_orders s, order_frame s) = T) (db_save receipts receipts_update k f)" for r k f
    by (simp_all add: keeps_def order_frame_def)
  then show ?thesis
    unfolding fulfill_order_def by (intro keeps_intros keeps_change_order_status)
qed

lemma notified_order_in: "notified_order cfg s data = Some k \<Longrightarrow> k \<in> set (pks (orders s))"
  by (auto simp: notified_order_def get_by_reference_number_def split: option.splits sum.splits dest!: t_get_InrD)

lemma simulates_fulfill_order:
  assumes ok: "shop_ok s" and run: "fulfill_order cfg data s = (r, t)"
  shows "simulates s t"
proof -
  have same: "(b2b_orders t, order_frame t) = (b2b_orders s, order_frame s)"
    using keepsD [OF keeps_fulfill_order run] by blast
  show ?thesis
  proof (cases "orders t = orders s")
    case True
    with same simulates_same [OF ok] show ?thesis by simp
  next
    case False
    with fulfill_order_effect [OF run] obtain k d where "notified_order cfg s data = Some k"
      "ord_status (row (orders s) k) = OrderCreated"
      "orders t = t_save (orders s) k (\<lambda>x. x\<lparr>ord_status := (if d = ''ACCEPT'' then OrderFulfilled else OrderFailed)\<rparr>)"
      by (auto split: option.splits if_splits)
    from simulates_decided [OF ok notified_order_in [OF this(1)] this(2,3) same] show ?thesis by simp
  qed
qed


subsection \<open>Bulk orders\<close>

lemma keeps_create_coupons: "keeps (\<lambda>s. (orders s, order_frame s) = T) (create_coupons uuids now p)"
proof -
  have "keeps (\<lambda>s. (orders s, order_frame s) = T) (bulk_create_coupons cs)" for cs
    by (simp add: keeps_def bulk_create_coupons_run order_frame_def)
  moreover have "keeps (\<lambda>s. (orders s, order_frame s) = T) (db_create coupon_payments coupon_payments_update a)"
    "keeps (\<lambda>s. (orders s, order_frame s) = T) (db_create coupon_payment_versions coupon_payment_versions_update b)"
    "keeps (\<lambda>s. (orders s, order_frame s) = T) (db_bulk_create coupon_versions coupon_versions_update c)"
    "keeps (\<lambda>s. (orders s, order_frame s) = T) (db_bulk_create coupon_eligibilities coupon_eligibilities_update d)" for a b c d
    by (simp_all add: keeps_def order_frame_def)
  ultimately show ?thesis
    unfolding create_coupons_def by (intro keeps_intros)
qed

lemma keeps_b2b:
  "keeps (\<lambda>s. (orders s, order_frame s) = T) (complete_b2b_order cfg uuids k)"
  "keeps (\<lambda>s. (orders s, order_frame s) = T) (save_and_log_b2b_order k f a)"
  "keeps (\<lambda>s. (orders s, order_frame s) = T) (sync_hubspot_b2b_deal cfg k)"
  "keeps (\<lambda>s. (orders s, order_frame s) = T) (db_save b2b_orders b2b_orders_update k f)"
proof -
  show save: "keeps (\<lambda>s. (orders s, order_frame s) = T) (db_save b2b_orders b2b_orders_update k f)" for f
    by (simp add: keeps_def order_frame_def)
  have email: "keeps (\<lambda>s. (orders s, order_frame s) = T) (send_b2b_receipt_email k)"
  proof (rule keepsI)
    fix s assume I: "(orders s, order_frame s) = T"
    obtain r t where "send_b2b_receipt_email k s = (r, t)" by fastforce
    with send_b2b_receipt_email_effects [OF this] I
    show "(orders (snd (send_b2b_receipt_email k s)), order_frame (snd (send_b2b_receipt_email k s))) = T"
      by (auto simp: order_frame_def)
  qed
  show "keeps (\<lambda>s. (orders s, order_frame s) = T) (complete_b2b_order cfg uuids k)"
    unfolding complete_b2b_order_def by (intro keeps_intros keeps_create_coupons save email)
  show "keeps (\<lambda>s. (orders s, order_frame s) = T) (save_and_log_b2b_order k f a)"
    by (simp add: keeps_def save_and_log_b2b_order_run Let_def order_frame_def)
  show "keeps (\<lambda>s. (orders s, order_frame s) = T) (sync_hubspot_b2b_deal cfg k)"
    by (simp add: keeps_def sync_hubspot_b2b_deal_def order_frame_def)
qed


lemma simulates_bulk:
  assumes ok: "shop_ok s" and same: "(orders t, order_frame t) = (orders s, order_frame s)" and wf: "wf_table (b2b_orders t)"
    and run: "\<exists>es. life_run (order_statuses s) es = Some (order_statuses t)"
  shows "simulates s t"
  using orders_ok_same [of s t] ok same wf run by (auto simp: simulates_def shop_ok_def)

lemma simulates_bulk_decided:
  assumes ok: "shop_ok s" and same: "(orders t, order_frame t) = (orders s, order_frame s)"
    and o: "b2b_orders t = t_save (b2b_orders s) k f" and k: "k \<in> set (pks (b2b_orders s))"
    and created: "ord_status (row (b2b_orders s) k) = OrderCreated"
    and st: "ord_status (f (row (b2b_orders s) k)) = OrderFulfilled \<or> ord_status (f (row (b2b_orders s) k)) = OrderFailed"
  shows "simulates s t"
proof (rule simulates_bulk [OF ok same])
  show "wf_table (b2b_orders t)" using ok o by (simp add: shop_ok_def)
  have "order_statuses s (Bulk k) = Some OrderCreated" using k created by (simp add: order_statuses_def)
  with life_run_decided [OF _ st] statuses_bulk_decided [OF o refl _ k] same
  show "\<exists>es. life_run (order_statuses s) es = Some (order_statuses t)" by auto
qed

lemma keeps_fulfill_b2b_order: "keeps (\<lambda>s. (orders s, order_frame s) = T) (fulfill_b2b_order cfg uuids data)"
proof -
  have "keeps (\<lambda>s. (orders s, order_frame s) = T) (db_create b2b_receipts b2b_receipts_update r)"
    "keeps (\<lambda>s. (orders s, order_frame s) = T) (db_save b2b_receipts b2b_receipts_update k f)" for r k f
    by (simp_all add: keeps_def order_frame_def)
  then show ?thesis
    unfolding fulfill_b2b_order_def change_b2b_order_status_def by (intro keeps_intros keeps_b2b)
qed

lemma notified_b2b_order_in: "notified_b2b_order cfg s data = Some k \<Longrightarrow> k \<in> set (pks (b2b_orders s))"
  by (auto simp: notified_b2b_order_def get_by_reference_number_def split: option.splits sum.splits dest!: t_get_InrD)

lemma fulfill_b2b_order_statuses:
  fixes s t :: shop_db
  assumes run: "fulfill_b2b_order cfg uuids data s = (r, t)"
  shows "b2b_orders t = b2b_orders s \<or> (\<exists>k f. k \<in> set (pks (b2b_orders s)) \<and> ord_status (row (b2b_orders s) k) = OrderCreated \<and>
     b2b_orders t = t_save (b2b_orders s) k f \<and> ord_status (f (row (b2b_orders s) k)) \<in> {OrderFulfilled, OrderFailed})"
proof (cases "notified_b2b_order cfg s data")
  case None
  with run show ?thesis
    by (auto simp: fulfill_b2b_order_def notified_b2b_order_def bindp_run split: option.splits sum.splits)
next
  case (Some k)
  let ?u = "s\<lparr>b2b_receipts := snd (t_create (b2b_receipts s) \<lparr>br_order = Some k, br_data = data\<rparr>)\<rparr>"
  show ?thesis
  proof (cases "\<exists>st. change_b2b_order_status cfg uuids k st ?u = (r, t) \<and> ord_status (row (b2b_orders s) k) = OrderCreated \<and>
      st \<in> {OrderFulfilled, OrderFailed}")
    case True
    then obtain st where c: "change_b2b_order_status cfg uuids k st ?u = (r, t)" "ord_status (row (b2b_orders s) k) = OrderCreated"
      "st \<in> {OrderFulfilled, OrderFailed}" by blast
    from change_b2b_order_status_cases [OF c(1)] have "b2b_orders t = b2b_orders s \<or>
        (\<exists>f. b2b_orders t = t_save (b2b_orders s) k f \<and> ord_status (f (row (b2b_orders s) k)) = st)"
      by (auto split: if_splits)
    with c notified_b2b_order_in [OF Some] show ?thesis by blast
  next
    case False
    with run Some show ?thesis
      by (auto simp: fulfill_b2b_order_def notified_b2b_order_def bindp_run thenp_run t_save_new determine_order_status_change_def
          split: option.splits sum.splits if_splits)
  qed
qed

lemma simulates_fulfill_b2b_order:
  assumes ok: "shop_ok s" and run: "fulfill_b2b_order cfg uuids data s = (r, t)"
  shows "simulates s t"
proof -
  have same: "(orders t, order_frame t) = (orders s, order_frame s)"
    using keepsD [OF keeps_fulfill_b2b_order run] by blast
  from fulfill_b2b_order_statuses [OF run] show ?thesis
    using simulates_same [OF ok] same simulates_bulk_decided [OF ok same] by auto
qed


lemma simulates_receipt:
  assumes ok: "shop_ok s" and run: "bindp (db_create receipts receipts_update x) (\<lambda>_. raise e) s = (r, t)"
  shows "simulates s t"
proof -
  have "keeps (\<lambda>t. (orders t, b2b_orders t, order_frame t) = (orders s, b2b_orders s, order_frame s))
      (bindp (db_create receipts receipts_update x) (\<lambda>_. raise e))"
    by (simp add: keeps_def bindp_run order_frame_def)
  from keepsD [OF this run] show ?thesis by (intro simulates_same [OF ok]) simp
qed

lemma simulates_try_catch:
  assumes m: "\<And>a u. m s = (a, u) \<Longrightarrow> simulates s u"
    and run: "try_catch m (\<lambda>e. bindp (db_create receipts receipts_update x) (\<lambda>_. raise e)) s = (r, t)"
  shows "simulates s t"
proof -
  obtain a u where u: "m s = (a, u)" by fastforce
  show ?thesis
  proof (cases a)
    case (Inl e)
    then have "bindp (db_create receipts receipts_update x) (\<lambda>_. raise e) u = (r, t)"
      using run u by (simp only: try_catch_def prod.case sum.case)
    moreover have "shop_ok u" using m [OF u] by (simp only: simulates_def)
    ultimately have "simulates u t" by (intro simulates_receipt)
    with m [OF u] show ?thesis by (rule simulates_trans)
  next
    case (Inr b)
    with run u have "t = u" by (simp add: try_catch_def)
    with m [OF u] show ?thesis by simp
  qed
qed

lemma simulates_order_fulfillment_view:
  assumes ok: "shop_ok s" and run: "order_fulfillment_view cfg hmac key uuids data s = (r, t)"
  shows "simulates s t"
proof -
  let ?n = "case map_of data ''req_reference_number'' of None \<Rightarrow> [] | Some n \<Rightarrow> n"
  let ?m = "if starts_with ?n (b2b_order_reference_number_prefix (sc_environment cfg)) then fulfill_b2b_order cfg uuids data
     else if starts_with ?n (order_reference_number_prefix (sc_environment cfg)) then fulfill_order cfg data
     else raise (ParseException (''Unknown prefix '' @ [CHR 0x27] @ ?n @ [CHR 0x27] @ '' for reference number''))"
  have same: "simulates s s" by (rule simulates_same [OF ok refl])
  have each: "simulates s u" if "?m s = (a, u)" for a u
    using that simulates_fulfill_b2b_order [OF ok] simulates_fulfill_order [OF ok] same by (simp split: if_splits)
  show ?thesis
  proof (cases "is_signed_by_cybersource hmac key data = Inr True")
    case True
    then have "try_catch ?m (\<lambda>e. bindp (db_create receipts receipts_update \<lparr>receipt_order = None, receipt_data = data\<rparr>) (\<lambda>_. raise e)) s = (r, t)"
      using run unfolding order_fulfillment_view_def Let_def bindp_run lift_result_run by simp
    from simulates_try_catch [OF each this] show ?thesis .
  next
    case False
    then have "t = s"
      using run unfolding order_fulfillment_view_def bindp_run lift_result_run by (auto split: sum.splits if_splits)
    with same show ?thesis by simp
  qed
qed

lemma keeps_after_b2b_create:
  "keeps (\<lambda>s. (orders s, order_frame s) = T) (create_b2b_order cfg uid p n)"
proof -
  have "keeps (\<lambda>s. (orders s, order_frame s) = T) (db_create b2b_orders b2b_orders_update r)"
    "keeps (\<lambda>s. (orders s, order_frame s) = T) (db_create b2b_coupon_redemptions b2b_coupon_redemptions_update q)" for r q
    by (simp_all add: keeps_def order_frame_def)
  then show ?thesis
    unfolding create_b2b_order_def by (intro keeps_intros keeps_b2b)
qed


subsection \<open>Check-outs\<close>

lemma simulates_create_or_update:
  assumes ok: "shop_ok s" and run: "create_or_update_unfulfilled_order cfg g vb a request s = (r, t)"
  shows "simulates s t \<and> (\<forall>k. r = Inr k \<longrightarrow> k \<in> set (pks (orders t)) \<and> ord_status (row (orders t) k) = OrderCreated)"
proof -
  have orders: "orders_ok s" using ok by (simp add: shop_ok_def)
  have ok_t: "orders_ok t" by (rule create_or_update_orders_ok [OF orders run])
  let ?u = "basket_user (row (baskets s) (vb_basket vb))" and ?p = "product_of_version s (vb_product_version vb)"
  from create_or_update_cases [OF orders run refl refl] show ?thesis
  proof (elim disjE exE conjE)
    fix e assume "r = Inl e" "t = s"
    with simulates_same [OF ok] show ?thesis by simp
  next
    fix k line o_row
    assume c: "r = Inr k" "open_orders s ?u ?p = [k]" "mirrored_order cfg g s vb request (row (orders s) k) = Some o_row"
         "orders t = t_save (orders s) k (\<lambda>_. o_row)"
      and t: "t = s\<lparr>orders := orders t, lines := lines t, program_run_lines := program_run_lines t,
             line_run_selections := line_run_selections t, coupon_redemptions := coupon_redemptions t,
             referral_actions := referral_actions t\<rparr>"
    have b2b: "b2b_orders t = b2b_orders s" by (subst t) simp
    have "k \<in> set (open_orders s ?u ?p)" using c(2) by simp
    then have k: "k \<in> set (pks (orders s))" "ord_status (row (orders s) k) = OrderCreated"
      by (simp_all add: open_orders_filter is_open_def)
    have st: "ord_status o_row = OrderCreated" using mirrored_order_fields [OF c(3)] k by simp
    have "order_statuses t = order_statuses s"
      using c(4) b2b k st by (auto simp: fun_eq_iff order_statuses_def row_t_save split: order_id.split)
    with ok ok_t b2b life_run_none c(1,4) st k show ?thesis
      by (auto simp: simulates_def shop_ok_def)
  next
    fix k line o_row
    assume c: "r = Inr k" "mirrored_order cfg g s vb request (new_order (sc_now cfg) ?u) = Some o_row"
         "k = next_pk (orders s)" "orders t = snd (t_create (orders s) o_row)"
      and t: "t = s\<lparr>orders := orders t, lines := lines t, program_run_lines := program_run_lines t,
             line_run_selections := line_run_selections t, coupon_redemptions := coupon_redemptions t,
             referral_actions := referral_actions t\<rparr>"
    have b2b: "b2b_orders t = b2b_orders s" by (subst t) simp
    have st: "ord_status o_row = OrderCreated" using mirrored_order_fields [OF c(2)] by (simp add: new_order_def)
    have fresh: "k \<notin> set (pks (orders s))" using wf_table_fresh [of "orders s"] orders c(3) by (auto simp: orders_ok_def)
    have "order_statuses t = (order_statuses s)(Learner k \<mapsto> OrderCreated)"
      using c(3,4) b2b st fresh by (auto simp: fun_eq_iff order_statuses_def row_t_create split: order_id.split)
    moreover have "order_statuses s (Learner k) = None" using fresh by (simp add: order_statuses_def)
    ultimately have "life_run (order_statuses s) [Opened (Learner k)] = Some (order_statuses t)" by simp
    with ok ok_t b2b c st show ?thesis
      by (auto simp: simulates_def shop_ok_def row_t_create simp del: life_run.simps)
  qed
qed

lemma keeps_data_consents: "keeps (\<lambda>s. (orders s, b2b_orders s, order_frame s) = T) (get_or_create_data_consent_users b)"
proof (rule keepsI)
  fix s assume I: "(orders s, b2b_orders s, order_frame s) = T"
  obtain r t where t: "get_or_create_data_consent_users b s = (r, t)" by fastforce
  from consents_keep_rest [OF t] obtain d where "t = s\<lparr>data_consent_users := d\<rparr>" by blast
  with t I show "(orders (snd (get_or_create_data_consent_users b s)), b2b_orders (snd (get_or_create_data_consent_users b s)),
      order_frame (snd (get_or_create_data_consent_users b s))) = T"
    by (auto simp: order_frame_def)
qed

lemma keeps_validate_basket: "keeps (\<lambda>s. (orders s, b2b_orders s, order_frame s) = T) (validate_basket_for_checkout now user)"
  unfolding validate_basket_for_checkout_def by (intro keeps_intros keeps_data_consents)

text \<open>What follows in a check-out that costs nothing.\<close>

lemma keeps_free_order:
  "keeps (\<lambda>s. (orders s, b2b_orders s, order_frame s) = T)
     (thenp (sync_hubspot_deal cfg k) (thenp (complete_order cfg k) (thenp (save_and_log_order k (\<lambda>r. r) a)
       (bindp (asks f) (\<lambda>payload. thenp (send_ecommerce_order_receipt cms cr env k None) (ret (h payload)))))))"
proof -
  have "keeps (\<lambda>s. (orders s, b2b_orders s, order_frame s) = T) (save_and_log_order k (\<lambda>r. r) a)"
    by (simp add: keeps_def save_and_log_order_run Let_def order_frame_def)
  moreover have "keeps (\<lambda>s. (orders s, b2b_orders s, order_frame s) = T) (sync_hubspot_deal cfg k)"
    unfolding sync_hubspot_deal_def by (intro keeps_intros all_kept.keeps_effect)
  ultimately show ?thesis
    by (intro keeps_intros all_kept.keeps_complete_order all_kept.keeps_receipt_message)
qed

lemma simulates_checkout_view:
  assumes ok: "shop_ok s" and run: "checkout_view cfg cs hmac url g base user areq ip s = (r, t)"
  shows "simulates s t"
proof -
  obtain v s1 where v: "validate_basket_for_checkout (sc_now cfg) user s = (v, s1)" by fastforce
  from keepsD [OF keeps_validate_basket this] have "simulates s s1" by (intro simulates_same [OF ok]) simp
  then have ok1: "shop_ok s1" by (simp only: simulates_def)
  show ?thesis
  proof (cases v)
    case (Inl e)
    with run v \<open>simulates s s1\<close> show ?thesis by (simp add: checkout_view_def bindp_run)
  next
    case (Inr vb)
    let ?req = "Some \<lparr>req_user = Some user, req_client_ip = ip\<rparr>"
    obtain k s2 where c: "create_or_update_unfulfilled_order cfg g vb (get_affiliate_id_from_request s1 areq) ?req s1 = (k, s2)" by fastforce
    note created = simulates_create_or_update [OF ok1 c]
    then have two: "simulates s s2" using simulates_trans [OF \<open>simulates s s1\<close>] by blast
    show ?thesis
    proof (cases "t = s2")
      case True
      with two show ?thesis by simp
    next
      case False
      with run v Inr c obtain k' text_id where k': "k = Inr k'" and
        text_id: "content_text_id s2 (prod_content (row (products s2) (pv_product (row (product_versions s2) (vb_product_version vb))))) = Inr text_id"
        and free: "ord_total_price_paid (row (orders s2) k') = 0"
        by (auto simp: checkout_view_def bindp_run Let_def split: sum.splits if_splits)
      let ?u = "s2\<lparr>orders := t_save (orders s2) k' (\<lambda>r. r\<lparr>ord_status := OrderFulfilled\<rparr>)\<rparr>"
      have k: "k' \<in> set (pks (orders s2))" "ord_status (row (orders s2) k') = OrderCreated"
        using created k' by auto
      have "shop_ok s2" using created by (simp only: simulates_def)
      from simulates_decided [OF this k, of ?u] have three: "simulates s2 ?u" by (simp add: order_frame_def)
      then have ok3: "shop_ok ?u" by (simp only: simulates_def)
      from run v Inr c k' text_id free
      have "(thenp (sync_hubspot_deal cfg k') (thenp (complete_order cfg k') (thenp (save_and_log_order k' (\<lambda>r. r) (Some user))
         (bindp (asks (\<lambda>s. free_order_payload s k' (pv_product (row (product_versions s2) (vb_product_version vb))) text_id))
           (\<lambda>payload. thenp (send_ecommerce_order_receipt (sc_cms cfg) (sc_credits cfg) (sc_environment cfg) k' None)
              (ret \<lparr>cr_payload = payload, cr_url = make_receipt_url base text_id, cr_method = ''GET''\<rparr>)))))) ?u = (r, t)"
        unfolding checkout_view_def Let_def by (simp add: bindp_run thenp_run)
      from keepsD [OF keeps_free_order this] have "simulates ?u t"
        by (intro simulates_same [OF ok3]) simp
      with two three show ?thesis using simulates_trans by blast
    qed
  qed
qed


lemma simulates_create_b2b_order:
  assumes ok: "shop_ok s" and run: "create_b2b_order cfg uid p n s = (r, t)"
  shows "simulates s t \<and> (\<forall>k price. r = Inr (k, price) \<longrightarrow> k \<in> set (pks (b2b_orders t)) \<and> ord_status (row (b2b_orders t) k) = OrderCreated)"
proof (cases r)
  case (Inl e)
  from atomic_all_or_nothing [OF run [unfolded create_b2b_order_def Inl]] have "t = s" .
  with Inl simulates_same [OF ok] show ?thesis by simp
next
  case (Inr x)
  obtain k price where x: "x = (k, price)" by (cases x)
  have "\<exists>r. b2b_orders t = snd (t_create (b2b_orders s) r) \<and> ord_status r = OrderCreated"
    using run unfolding Inr x
    by (auto simp: create_b2b_order_def atomic_run bindp_run thenp_run save_and_log_b2b_order_run Let_def
        split: sum.splits prod.splits if_splits option.splits)
  then obtain q where q: "b2b_orders t = snd (t_create (b2b_orders s) q)" "ord_status q = OrderCreated" by blast
  have k: "k = next_pk (b2b_orders s)" by (rule create_b2b_order_okD(1) [OF run [unfolded Inr x]])
  have same: "(orders t, order_frame t) = (orders s, order_frame s)"
    using keepsD [OF keeps_after_b2b_create run] by blast
  have fresh: "next_pk (b2b_orders s) \<notin> set (pks (b2b_orders s))"
    using wf_table_fresh ok by (auto simp: shop_ok_def)
  have "order_statuses t = (order_statuses s)(Bulk k \<mapsto> OrderCreated)"
    using q k same fresh by (auto simp: fun_eq_iff order_statuses_def row_t_create split: order_id.split)
  moreover have "order_statuses s (Bulk k) = None" using fresh k by (simp add: order_statuses_def)
  ultimately have "life_run (order_statuses s) [Opened (Bulk k)] = Some (order_statuses t)" by simp
  with simulates_bulk [OF ok same] ok q k show ?thesis
    by (auto simp: shop_ok_def row_t_create Inr x simp del: life_run.simps)
qed

lemma complete_b2b_order_statuses:
  fixes s t :: shop_db
  assumes "complete_b2b_order cfg uuids k s = (r, t)" and "ord_status (row (b2b_orders s) k) = OrderFulfilled"
  shows "order_statuses t = order_statuses s \<and> wf_table (b2b_orders t) = wf_table (b2b_orders s) \<and>
    (orders t, order_frame t) = (orders s, order_frame s)"
proof -
  have same: "(orders t, order_frame t) = (orders s, order_frame s)"
    using keepsD [OF keeps_b2b(1) assms(1)] by blast
  with complete_b2b_order_cases [OF assms(1)] assms(2) show ?thesis
    by (auto simp: fun_eq_iff order_statuses_def row_t_save split: order_id.split)
qed

lemma simulates_b2b_tail:
  assumes ok: "shop_ok s" and k: "k \<in> set (pks (b2b_orders s))" "ord_status (row (b2b_orders s) k) = OrderCreated"
    and run: "thenp (db_save b2b_orders b2b_orders_update k (\<lambda>r. r\<lparr>ord_status := OrderFulfilled\<rparr>))
        (thenp (complete_b2b_order cfg uuids k) (thenp (save_and_log_b2b_order k (\<lambda>r. r) None) (ret c))) s = (r, t)"
  shows "simulates s t"
proof -
  let ?u = "s\<lparr>b2b_orders := t_save (b2b_orders s) k (\<lambda>r. r\<lparr>ord_status := OrderFulfilled\<rparr>)\<rparr>"
  obtain x v where v: "complete_b2b_order cfg uuids k ?u = (x, v)" by fastforce
  from complete_b2b_order_statuses [OF this] have c: "order_statuses v = order_statuses ?u" "wf_table (b2b_orders v) = wf_table (b2b_orders s)"
    "(orders v, order_frame v) = (orders s, order_frame s)" by (simp_all add: order_frame_def)
  have t: "b2b_orders t = b2b_orders v \<and> (orders t, order_frame t) = (orders v, order_frame v)"
    using run v by (auto simp: thenp_run save_and_log_b2b_order_run Let_def order_frame_def split: sum.splits)
  have "order_statuses t = order_statuses v" using t by (intro statuses_same) auto
  moreover have "order_statuses ?u = (order_statuses s)(Bulk k \<mapsto> OrderFulfilled)"
    by (rule statuses_bulk_decided [of ?u s k "\<lambda>r. r\<lparr>ord_status := OrderFulfilled\<rparr>"]) (use k in simp_all)
  moreover have "order_statuses s (Bulk k) = Some OrderCreated" using k by (simp add: order_statuses_def)
  ultimately have "\<exists>es. life_run (order_statuses s) es = Some (order_statuses t)"
    using life_run_decided [of "order_statuses s" "Bulk k" OrderFulfilled] c(1) by simp
  with t c ok show ?thesis
    by (intro simulates_bulk [OF ok]) (auto simp: shop_ok_def)
qed

lemma simulates_b2b_checkout_view:
  assumes ok: "shop_ok s" and run: "b2b_checkout_view cfg cs hmac url valid_email uuids uid base d s = (r, t)"
  shows "simulates s t"
proof (cases "t = s")
  case True
  with simulates_same [OF ok] show ?thesis by simp
next
  case False
  with run obtain p n where p: "b2b_parameters_of d = Inr p" "b2b_num_seats (bp_num_seats p) = Inr n"
      "case bp_email p of None \<Rightarrow> False | Some e \<Rightarrow> valid_email e" "\<not> contract_number_used s (bp_contract_number p)"
    by (auto simp: b2b_checkout_view_def bindp_run split: sum.splits if_splits)
  obtain x s1 where c: "create_b2b_order cfg uid p n s = (x, s1)" by fastforce
  note created = simulates_create_b2b_order [OF ok c]
  show ?thesis
  proof (cases x)
    case (Inl e)
    with run p c created show ?thesis by (simp add: b2b_checkout_view_def bindp_run)
  next
    case (Inr y)
    obtain k price where y: "y = (k, price)" by (cases y)
    let ?free = "thenp (db_save b2b_orders b2b_orders_update k (\<lambda>r. r\<lparr>ord_status := OrderFulfilled\<rparr>))
        (thenp (complete_b2b_order cfg uuids k) (thenp (save_and_log_b2b_order k (\<lambda>r. r) None)
        (ret \<lparr>cr_payload = [], cr_url = b2b_receipt_url base uid, cr_method = ''GET''\<rparr>)))"
    let ?paid = "bindp (asks (\<lambda>s. generate_b2b_cybersource_sa_payload hmac cs (sc_environment cfg) s k (b2b_receipt_url base uid)
                                    (url_origin base @ ''/ecommerce/bulk/''))) (\<lambda>result.
                 bindp (lift_result result) (\<lambda>payload.
                 ret \<lparr>cr_payload = payload, cr_url = url, cr_method = ''POST''\<rparr>))"
    have ok1: "shop_ok s1" using created by (simp only: simulates_def)
    have run1: "bindp (if price = 0 then ?free else ?paid) (\<lambda>response. thenp (sync_hubspot_b2b_deal cfg k) (ret response)) s1 = (r, t)"
      using run p c Inr y unfolding b2b_checkout_view_def Let_def by (simp add: bindp_run split: option.splits)
    obtain z s2 where z: "(if price = 0 then ?free else ?paid) s1 = (z, s2)" by fastforce
    have "simulates s1 s2"
    proof (cases "price = 0")
      case True
      with z created Inr y show ?thesis by (intro simulates_b2b_tail [OF ok1, where k = k]) auto
    next
      case False
      with z have "s2 = s1" by (auto simp: bindp_run split: sum.splits)
      with simulates_same [OF ok1] show ?thesis by simp
    qed
    moreover have "simulates s2 t"
    proof -
      from sync_b2b_deal_run obtain fx where "sync_hubspot_b2b_deal cfg k s2 = (Inr (), s2\<lparr>effects := fx\<rparr>)" by blast
      with run1 z have "t = s2 \<or> t = s2\<lparr>effects := fx\<rparr>" by (cases z) (auto simp: bindp_run thenp_run)
      moreover have "shop_ok s2" using \<open>simulates s1 s2\<close> by (simp only: simulates_def)
      ultimately show ?thesis by (intro simulates_same) (auto simp: order_frame_def)
    qed
    ultimately show ?thesis using created simulates_trans by blast
  qed
qed


subsection \<open>Updates of a basket\<close>

text \<open>Programs whose every run simulates the machine are closed under composition.\<close>

definition simulating :: "(shop_db, 'a) prog \<Rightarrow> bool" where
  "simulating m \<longleftrightarrow> (\<forall>s r t. shop_ok s \<longrightarrow> m s = (r, t) \<longrightarrow> simulates s t)"

lemma simulating_keeps:
  assumes "\<And>T. keeps (\<lambda>s. (orders s, b2b_orders s, order_frame s) = T) m"
  shows "simulating m"
  unfolding simulating_def using keepsD [OF assms _ refl] simulates_same by blast

lemma simulating_bindp:
  assumes m: "simulating m" and f: "\<And>a. simulating (f a)"
  shows "simulating (bindp m f)"
  unfolding simulating_def
proof (intro allI impI)
  fix s r t assume ok: "shop_ok s" and run: "bindp m f s = (r, t)"
  obtain x u where u: "m s = (x, u)" by fastforce
  with m ok have one: "simulates s u" by (simp add: simulating_def)
  then have "shop_ok u" by (simp add: simulates_def)
  with f u run one simulates_trans [OF one] show "simulates s t"
    by (cases x) (auto simp: bindp_def simulating_def)
qed

lemma simulating_try_catch:
  assumes m: "simulating m" and h: "\<And>e. simulating (h e)"
  shows "simulating (try_catch m h)"
  unfolding simulating_def
proof (intro allI impI)
  fix s r t assume ok: "shop_ok s" and run: "try_catch m h s = (r, t)"
  obtain x u where u: "m s = (x, u)" by fastforce
  with m ok have one: "simulates s u" by (simp add: simulating_def)
  then have "shop_ok u" by (simp add: simulates_def)
  with h u run one simulates_trans [OF one] show "simulates s t"
    by (cases x) (auto simp: try_catch_def simulating_def)
qed

lemma simulating_thenp: "simulating m \<Longrightarrow> simulating n \<Longrightarrow> simulating (thenp m n)"
  unfolding thenp_def by (rule simulating_bindp)

lemma simulating_case_option:
  "simulating m \<Longrightarrow> (\<And>x. simulating (f x)) \<Longrightarrow> simulating (case v of None \<Rightarrow> m | Some x \<Rightarrow> f x)"
  by (simp split: option.split)

lemma simulating_if: "simulating m \<Longrightarrow> simulating n \<Longrightarrow> simulating (if b then m else n)"
  by simp

lemma simulating_ret: "simulating (ret a)"
  and simulating_raise: "simulating (raise e)"
  and simulating_asks: "simulating (asks f)"
  and simulating_lift: "simulating (lift_result x)"
  by (rule simulating_keeps, rule keeps_intros)+

lemmas simulating_intros = simulating_bindp simulating_thenp simulating_try_catch simulating_case_option simulating_if
  simulating_ret simulating_raise simulating_asks simulating_lift

lemma simulating_sync: "simulating (sync_unfulfilled_order cfg g b)"
proof -
  have validate: "simulating (validate_basket_for_checkout (sc_now cfg) user)" for user
    by (rule simulating_keeps) (rule keeps_validate_basket)
  have create: "simulating (create_or_update_unfulfilled_order cfg g vb None None)" for vb
    unfolding simulating_def using simulates_create_or_update by blast
  have hubspot: "simulating (sync_hubspot_deal cfg k)" for k
    by (rule simulating_keeps) (unfold sync_hubspot_deal_def, intro keeps_intros all_kept.keeps_effect)
  show ?thesis
    unfolding sync_unfulfilled_order_def by (intro simulating_intros validate create hubspot)
qed

lemma simulating_basket_view: "simulating (basket_view cfg g user r)"
proof -
  let ?I = "\<lambda>T s :: shop_db. (orders s, b2b_orders s, order_frame s) = T"
  have update: "simulating (update_basket_data now b c)" for now b c
  proof (rule simulating_keeps)
    fix T
    have "keeps (?I T) (set_basket_item b p pr upd)" for b p pr upd
      unfolding set_basket_item_def
      by (intro keeps_intros) (simp_all add: keeps_def order_frame_def db_update_or_create_run)
    moreover have "keeps (?I T) (autoselect_runs now b p)" for b p
      unfolding autoselect_runs_def
      by (intro keeps_intros, simp split: option.split content.split)
         (intro conjI allI impI keeps_intros; simp add: keeps_def order_frame_def db_get_or_create_run bindp_run split: option.split)
    ultimately show "keeps (?I T) (update_basket_data now b c)"
      unfolding update_basket_data_def
      by (intro keeps_intros) (simp_all add: keeps_def order_frame_def db_update_or_create_run)
  qed
  have get: "simulating (get_basket now user)" for now
    by (rule simulating_keeps) (simp add: keeps_def get_basket_def bindp_run db_get_or_create_run order_frame_def split: sum.split)
  have consents: "simulating (get_or_create_data_consent_users b)" for b
    by (rule simulating_keeps) (rule keeps_data_consents)
  show ?thesis
    unfolding basket_view_def basket_update_def by (intro simulating_intros update get consents simulating_sync)
qed

section \<open>The shop refines the machine\<close>

lemma shop_step_simulates: "shop_step s t \<Longrightarrow> shop_ok s \<Longrightarrow> simulates s t"
proof (induction rule: shop_step.induct)
  case (cleared days now user s r t)
  from keepsD [OF all_kept.keeps_clear_baskets cleared(1)] show ?case
    by (intro simulates_same [OF cleared(2)]) simp
next
  case (basket_request cfg g user breq s x t)
  with simulating_basket_view [of cfg g user breq] show ?case unfolding simulating_def by blast
qed (blast intro: simulates_checkout_view simulates_order_fulfillment_view simulates_b2b_checkout_view)+

interpretation shop: order_machine shop_step shop_ok order_statuses
  by unfold_locales (auto dest: shop_step_simulates simp: simulates_def)

text \<open>
  C1: The shop refines the machine of the life of an order: whatever a request does, and even when it raises, it
  keeps the tables of orders consistent, and its effect on the statuses of all learner and bulk orders
  is a run of the machine, which opens orders and decides an open order once.
\<close>

theorem shop_refines_order_machine:
  assumes "shop_ok s" and "shop_step\<^sup>*\<^sup>* s t"
  shows "shop_ok t \<and> (\<exists>es. life_run (order_statuses s) es = Some (order_statuses t))"
  by (rule shop.reach_run [OF assms(2,1)])

text \<open>
  C2: A decided order keeps its status through any sequence of requests: a fulfilled order is never taken
  back or fulfilled a second time, and a failed order is never fulfilled; and no order disappears.
\<close>

theorem decided_orders_stay:
  assumes "shop_ok s" and "shop_step\<^sup>*\<^sup>* s t" and "order_statuses s i = Some st"
  shows "order_statuses t i \<noteq> None \<and> (st \<noteq> OrderCreated \<longrightarrow> order_statuses t i = Some st)"
  using shop.decided_stays [OF assms(2,1,3)] shop.order_stays [OF assms(2,1)] assms(3) by blast

section \<open>An order nobody paid for\<close>

lemma not_bulk_reference: "\<not> starts_with (reference_number (order_reference_number_prefix env) k) (b2b_order_reference_number_prefix env')"
  by (simp add: reference_number_def order_reference_number_prefix_def b2b_order_reference_number_prefix_def
      REFERENCE_NUMBER_PREFIX_def B2B_REFERENCE_NUMBER_PREFIX_def)

lemma learner_reference: "starts_with (reference_number (order_reference_number_prefix env) k) (order_reference_number_prefix env)"
  unfolding reference_number_def append_assoc by (rule starts_with_append)

lemma filter_own_key: "distinct ks \<Longrightarrow> k \<in> set ks \<Longrightarrow> filter (\<lambda>j. j = k) ks = [k]"
  by (induction ks) (auto simp: filter_empty_conv)

lemma get_by_own_reference: "k \<in> set (pks t) \<Longrightarrow> wf_table t \<Longrightarrow> get_by_reference_number m prefix t (reference_number prefix k) = Inr k"
  by (simp add: get_by_reference_number_def order_id_of_reference_number t_get_def the_only_def matching_def
      filter_own_key wf_table_distinct)

text \<open>
  C3: Whoever is sent to the payment service can skip it. The payload of a check-out that is to be paid, posted to the
  fulfilment view with the reference number of the order and the decision ACCEPT added, is accepted as a
  notification of the service, and the order is fulfilled.
\<close>

theorem unpaid_order_fulfilled:
  assumes ok: "shop_ok s" and checkout: "checkout_view cfg cs hmac url g base user areq ip s = (Inr resp, s1)"
    and paid: "cr_method resp = ''POST''"
  shows "\<exists>k. ord_status (row (orders s1) k) = OrderCreated \<and> ord_total_price_paid (row (orders s1) k) \<noteq> 0 \<and>
    (\<forall>uuids r s2. order_fulfillment_view cfg hmac (cs_security_key cs) uuids
        (posted (cr_payload resp) @ [(''req_reference_number'', reference_number (order_reference_number_prefix (sc_environment cfg)) k),
           (''decision'', ''ACCEPT'')]) s1 = (r, s2) \<longrightarrow> ord_status (row (orders s2) k) = OrderFulfilled)"
proof -
  obtain v s0 where v: "validate_basket_for_checkout (sc_now cfg) user s = (v, s0)" by fastforce
  with checkout obtain vb where vb: "v = Inr vb" by (cases v) (auto simp: checkout_view_def bindp_run)
  let ?req = "Some \<lparr>req_user = Some user, req_client_ip = ip\<rparr>"
  obtain x u where c: "create_or_update_unfulfilled_order cfg g vb (get_affiliate_id_from_request s0 areq) ?req s0 = (x, u)" by fastforce
  with checkout v vb obtain k where k: "x = Inr k" by (cases x) (auto simp: checkout_view_def bindp_run)
  from keepsD [OF keeps_validate_basket v] have "simulates s s0" by (intro simulates_same [OF ok]) simp
  then have "shop_ok s0" by (simp only: simulates_def)
  note created = simulates_create_or_update [OF this c]
  from checkout v vb c k paid obtain receipt_url where nonzero: "ord_total_price_paid (row (orders u) k) \<noteq> 0" and s1: "s1 = u"
    and payload: "generate_cybersource_sa_payload hmac cs (sc_environment cfg) u k receipt_url (url_origin base @ ''/checkout/'') ip = Inr (cr_payload resp)"
    by (auto simp: checkout_view_def bindp_run thenp_run Let_def split: sum.splits if_splits prod.splits)
  let ?ref = "reference_number (order_reference_number_prefix (sc_environment cfg)) k"
  let ?data = "posted (cr_payload resp) @ [(''req_reference_number'', ?ref), (''decision'', ''ACCEPT'')]"
  from checkout_payload_accepted [OF payload, of ?ref]
  have sig: "is_signed_by_cybersource hmac (cs_security_key cs) ?data = Inr True"
    and fields: "map_of ?data ''req_reference_number'' = Some ?ref" "map_of ?data ''decision'' = Some ''ACCEPT''"
    unfolding Let_def by blast+
  have in_u: "k \<in> set (pks (orders u))" "ord_status (row (orders u) k) = OrderCreated" using created k by auto
  have wf: "wf_table (orders u)" using created by (simp add: simulates_def shop_ok_def orders_ok_def)
  have notified: "notified_order cfg u ?data = Some k"
    unfolding notified_order_def fields(1) by (simp add: get_by_own_reference [OF in_u(1) wf])
  have "ord_status (row (orders s2) k) = OrderFulfilled"
    if run: "order_fulfillment_view cfg hmac (cs_security_key cs) uuids ?data u = (r, s2)" for uuids r s2
  proof -
    obtain y w where w: "fulfill_order cfg ?data u = (y, w)" by fastforce
    from fulfill_order_effect [OF w] notified fields(2) in_u(2)
    have "orders w = t_save (orders u) k (\<lambda>x. x\<lparr>ord_status := OrderFulfilled\<rparr>)" by simp
    moreover have "orders s2 = orders w"
      using run w unfolding order_fulfillment_view_def sig fields Let_def bindp_run lift_result_run try_catch_def
      by (auto simp: not_bulk_reference learner_reference bindp_run split: sum.splits)
    ultimately show ?thesis by simp
  qed
  with in_u(2) nonzero s1 show ?thesis by blast
qed


subsection \<open>Concrete requests\<close>

lemma example_shop_ok: "shop_ok example_shop"
  using example_orders_ok by (simp add: shop_ok_def example_tables)

lemma shop_refines_order_machine_witness:
  "shop_ok (snd (clear_and_delete_baskets 15 10 (Some 1) example_shop))"
  using shop_refines_order_machine [OF example_shop_ok r_into_rtranclp, OF shop_step.cleared, OF prod.collapse [symmetric]]
  by blast

definition example_decided :: shop_db where
  "example_decided = example_checked_out\<lparr>orders := table_of example_order [example_order\<lparr>ord_status := OrderFulfilled\<rparr>]\<rparr>"

lemma example_decided_ok: "shop_ok example_decided"
proof -
  have none: "open_orders example_decided u p = []" for u p
    by (simp add: open_orders_def matching_def example_decided_def table_of_def)
  have lines: "order_lines example_decided 1 = [1]" "pks (orders example_decided) = [1]" "pks (lines example_decided) = [1]"
    "line_order (row (lines example_decided) 1) = 1"
    by (simp_all add: order_lines_def matching_def example_decided_def example_checked_out_def table_of_def)
  have wf: "wf_table (orders example_decided)" "wf_table (lines example_decided)" "wf_table (line_run_selections example_decided)"
    "wf_table (coupon_redemptions example_decided)" "wf_table (b2b_orders example_decided)"
    by (simp_all add: example_decided_def example_checked_out_def example_tables)
  show ?thesis
    unfolding shop_ok_def orders_ok_def using none lines wf by simp
qed

lemma decided_orders_stay_witness:
  "order_statuses (snd (order_fulfillment_view example_config (\<lambda>k m. k @ m) ''key'' example_codes example_notification example_decided)) (Learner 1)
     = Some OrderFulfilled"
proof -
  have "order_statuses example_decided (Learner 1) = Some OrderFulfilled"
    by (simp add: order_statuses_def example_decided_def table_of_def)
  from decided_orders_stay [OF example_decided_ok r_into_rtranclp this, OF shop_step.notification, OF prod.collapse [symmetric]]
  show ?thesis by simp
qed


definition example_affiliate_request :: affiliate_request where
  "example_affiliate_request = \<lparr>areq_method = ''POST'', areq_GET = Map.empty, areq_session = None, areq_affiliate_code = None\<rparr>"

lemma payload_exists:
  assumes "order_lines s k = [l]" and "\<not> content_missing s (prod_content (row (products s) (pv_product (row (product_versions s)
      (line_product_version (row (lines s) l))))))"
    and "get_readable_id s (prod_content (row (products s) (pv_product (row (product_versions s)
      (line_product_version (row (lines s) l)))))) = Inr x"
  shows "\<exists>q. generate_cybersource_sa_payload hmac cs env s k receipt_url cancel_url ip = Inr q"
proof -
  from assms have "\<exists>p. unsigned_cybersource_payload cs env s k receipt_url cancel_url ip = Inr p"
    by (simp add: unsigned_cybersource_payload_def Let_def)
  then obtain p where p: "unsigned_cybersource_payload cs env s k receipt_url cancel_url ip = Inr p" by blast
  have "\<And>k. k \<in> fst ` set p \<Longrightarrow> CHR '','' \<notin> set k"
    using unsigned_keys_clean [OF p] by (simp add: clean_key_def)
  from sign_ok [OF this] p show ?thesis
    by (simp add: generate_cybersource_sa_payload_def Let_def)
qed

definition profile_config :: shop_config where
  "profile_config = example_config\<lparr>sc_force_profile_country := True\<rparr>"

abbreviation example_basket_validated :: validated_basket where
  "example_basket_validated \<equiv> \<lparr>vb_basket = 1, vb_basket_item = 1, vb_product_version = 1, vb_coupon_version = Some 1,
           vb_run_selection_ids = [2], vb_data_consent_users = []\<rparr>"

lemma example_price: "get_product_version_price_with_discount example_shop (Some 1) 1 = 50"
proof -
  have "pv_price (row (product_versions example_shop) 1) = 100" "pv_product (row (product_versions example_shop) 1) = 1"
    "cv_payment_version (row (coupon_versions example_shop) 1) = 1" "cv_coupon (row (coupon_versions example_shop) 1) = 1"
    "row (coupon_payment_versions example_shop) 1 = example_cpv" "cpv_discount_type example_cpv = PercentOff"
    by (simp_all add: example_defs)
  moreover have "t_exists (coupon_eligibilities example_shop) (\<lambda>_ e. ce_coupon e = 1 \<and> ce_product e = 1)"
    by (simp add: example_defs t_exists_def)
  moreover have "round_half_up (cpv_amount example_cpv * 100) = 50"
    unfolding round_half_up_def by (simp add: example_cpv_def half_up_cents is_cents_def)
  ultimately show ?thesis
    by (simp add: get_product_version_price_with_discount_def product_version_discount_def Let_def discount_amount_percent positive_or_zero_def)
qed

lemma example_checkout:
  "\<exists>resp t. checkout_view profile_config example_settings (\<lambda>k m. k @ m) ''url'' example_geo ''https://x.org/'' 1
     example_affiliate_request None example_shop = (Inr resp, t) \<and> cr_method resp = ''POST''"
proof -
  let ?req = "Some \<lparr>req_user = Some 1, req_client_ip = None\<rparr>"
  have aff: "get_affiliate_id_from_request example_shop example_affiliate_request = None"
    by (simp add: get_affiliate_id_from_request_def get_affiliate_code_from_request_def example_affiliate_request_def)
  obtain x t where c: "create_or_update_unfulfilled_order profile_config example_geo example_basket_validated None ?req example_shop = (x, t)" by fastforce
  have none: "open_orders example_shop u p = []" for u p
    by (simp add: open_orders_def matching_def example_tables empty_table_def)
  obtain country where dv: "determine_visitor_country True example_geo example_shop ?req = Inr (Some country)"
    by (simp add: determine_visitor_country_def user_country_def example_defs blank_legal_address_def matching_def t_get_def the_only_def)
  have cfg: "sc_force_profile_country profile_config" "sc_now profile_config = 10" by (simp_all add: profile_config_def example_config_def)
  have "x = Inr 1"
    using c dv
    by (simp add: cfg create_or_update_run atomic_run bindp_run save_order_def order_by_desc_def
        mirror_basket_def thenp_run sync_line_def sync_redemption_def sync_affiliate_def redeem_coupon_def none
        db_update_or_create_run t_update_or_create_def matching_def t_create_def example_tables empty_table_def table_of_def)
  with create_or_update_cases [OF example_orders_ok c refl refl] obtain line o_row where
    m: "mirrored_order profile_config example_geo example_shop example_basket_validated ?req (new_order (sc_now profile_config)
          (basket_user (row (baskets example_shop) 1))) = Some o_row"
    and o: "orders t = snd (t_create (orders example_shop) o_row)" "line = next_pk (lines example_shop)"
      "lines t = snd (t_create (lines example_shop) (synced_line 1 example_shop example_basket_validated))"
    and t: "t = example_shop\<lparr>orders := orders t, lines := lines t, program_run_lines := program_run_lines t,
             line_run_selections := line_run_selections t, coupon_redemptions := coupon_redemptions t,
             referral_actions := referral_actions t\<rparr>"
    by (auto simp: none)
  have same: "product_versions t = product_versions example_shop" "products t = products example_shop"
    "course_runs t = course_runs example_shop" by (subst t, simp)+
  have lines: "order_lines t 1 = [1]" "line_product_version (row (lines t) 1) = 1"
    by (simp_all add: order_lines_def matching_def o(3) synced_line_def example_tables empty_table_def row_t_create)
  have content: "prod_content (row (products t) (pv_product (row (product_versions t) 1))) = CourseRunContent 2"
    by (simp add: same example_eval example_pv_def example_product_def)
  have price: "ord_total_price_paid (row (orders t) 1) = 50"
    using mirrored_order_fields [OF m] example_price by (simp add: o row_t_create example_eval)
  have payload: "\<exists>q. generate_cybersource_sa_payload (\<lambda>k m. k @ m) example_settings (sc_environment profile_config) t 1 ru cu None = Inr q" for ru cu
    by (rule payload_exists [OF lines(1)], unfold lines(2) content)
      (simp_all add: content_missing_def content_exists_def same get_readable_id_def example_eval)
  have valid: "validate_basket_for_checkout (sc_now profile_config) 1 example_shop = (Inr example_basket_validated, example_shop)"
    using example_validated by (simp add: cfg)
  let ?ru = "make_receipt_url ''https://x.org/'' (run_text_id (row (course_runs t) 2))"
  obtain q where q: "generate_cybersource_sa_payload (\<lambda>k m. k @ m) example_settings (sc_environment profile_config) t 1 ?ru
      (url_origin ''https://x.org/'' @ ''/checkout/'') None = Inr q"
    using payload by blast
  have "checkout_view profile_config example_settings (\<lambda>k m. k @ m) ''url'' example_geo ''https://x.org/'' 1
     example_affiliate_request None example_shop = (Inr \<lparr>cr_payload = q, cr_url = ''url'', cr_method = ''POST''\<rparr>, t)"
    unfolding checkout_view_def bindp_run valid prod.case sum.case asks_run aff c [unfolded \<open>x = Inr 1\<close>]
    using content price q by (simp add: content_text_id_def Let_def bindp_run)
  then show ?thesis by fastforce
qed

lemma unpaid_order_fulfilled_witness:
  "\<exists>k (resp :: checkout_response) (t :: shop_db). cr_method resp = ''POST'' \<and> ord_total_price_paid (row (orders t) k) \<noteq> 0 \<and>
     ord_status (row (orders (snd (order_fulfillment_view profile_config (\<lambda>k m. k @ m) (cs_security_key example_settings) example_codes
        (posted (cr_payload resp) @ [(''req_reference_number'', reference_number (order_reference_number_prefix (sc_environment profile_config)) k),
           (''decision'', ''ACCEPT'')]) t))) k) = OrderFulfilled"
proof -
  obtain resp t where c: "checkout_view profile_config example_settings (\<lambda>k m. k @ m) ''url'' example_geo ''https://x.org/'' 1
     example_affiliate_request None example_shop = (Inr resp, t)" and p: "cr_method resp = ''POST''"
    using example_checkout by blast
  from unpaid_order_fulfilled [OF example_shop_ok c p] obtain k where k: "ord_total_price_paid (row (orders t) k) \<noteq> 0"
    and fulfilled: "\<forall>uuids r s2. order_fulfillment_view profile_config (\<lambda>k m. k @ m) (cs_security_key example_settings) uuids
        (posted (cr_payload resp) @ [(''req_reference_number'', reference_number (order_reference_number_prefix (sc_environment profile_config)) k),
           (''decision'', ''ACCEPT'')]) t = (r, s2) \<longrightarrow> ord_status (row (orders s2) k) = OrderFulfilled" by blast
  let ?view = "order_fulfillment_view profile_config (\<lambda>k m. k @ m) (cs_security_key example_settings) example_codes
        (posted (cr_payload resp) @ [(''req_reference_number'', reference_number (order_reference_number_prefix (sc_environment profile_config)) k),
           (''decision'', ''ACCEPT'')]) t"
  obtain r s2 where "?view = (r, s2)" by fastforce
  with fulfilled have "ord_status (row (orders (snd ?view)) k) = OrderFulfilled" by simp
  with p k show ?thesis by blast
qed

end
