(* ===== verification/Certificates.thy ===== *)
theory Certificates
  imports Basket Courseware
begin

text \<open>
  Grades and certificates (\<open>courses/utils.py\<close>, \<open>courses/signals.py\<close>, \<open>courses/tasks.py\<close> and the management
  commands for certificates): the grades fetched from the courseware, the certificates that follow from them,
  program certificates, revocation, and the synchronisation of course runs.
\<close>

section \<open>Grades\<close>

record edx_grade =
  eg_percent :: rat
  eg_passed :: bool
  eg_letter_grade :: "string option"

text \<open>\<open>full_clean\<close> of a grade, which \<open>ValidateOnSaveMixin\<close> runs when a grade is saved, but not when it is created.\<close>

definition grade_clean :: "grade_row \<Rightarrow> exn + unit" where
  "grade_clean g =
     (if grade_grade g < 0 then Inl (ValidationError ''grade'' ''Ensure this value is greater than or equal to 0.0.'')
      else if grade_grade g > 1 then Inl (ValidationError ''grade'' ''Ensure this value is less than or equal to 1.0.'')
      else Inr ())"

definition save_and_log_grade :: "nat \<Rightarrow> (grade_row \<Rightarrow> grade_row) \<Rightarrow> nat option \<Rightarrow> ('z xpro_db_scheme, unit) prog" where
  "save_and_log_grade k f acting_user =
     bindp (asks (\<lambda>s. grade_clean (f (row (grades s) k)))) (\<lambda>valid.
     thenp (lift_result valid)
       (save_and_log grades_update grades grade_audits grade_audits_update (\<lambda>s. row (grades s)) k f acting_user))"

definition graded :: "edx_grade \<Rightarrow> grade_row \<Rightarrow> grade_row" where
  "graded edx_grade g =
     g\<lparr>grade_grade := eg_percent edx_grade, grade_passed := eg_passed edx_grade, grade_letter_grade := eg_letter_grade edx_grade\<rparr>"

definition new_grade :: "nat \<Rightarrow> nat \<Rightarrow> edx_grade \<Rightarrow> grade_row" where
  "new_grade user course_run edx_grade =
     \<lparr>grade_user = user, grade_course_run = course_run, grade_grade = eg_percent edx_grade,
      grade_letter_grade = eg_letter_grade edx_grade, grade_passed = eg_passed edx_grade, grade_set_by_admin = False\<rparr>"

definition ensure_course_run_grade ::
  "nat \<Rightarrow> nat \<Rightarrow> edx_grade \<Rightarrow> bool \<Rightarrow> ('z xpro_db_scheme, nat \<times> bool \<times> bool) prog" where
  "ensure_course_run_grade user course_run edx_grade should_update =
     (let get_or_create = db_get_or_create ''CourseRunGrade'' grades grades_update
            (\<lambda>_ g. grade_course_run g = course_run \<and> grade_user g = user) (new_grade user course_run edx_grade)
      in if should_update
         then atomic
           (bindp get_or_create (\<lambda>(run_grade, created).
            bindp (asks (\<lambda>s. \<not> created \<and> \<not> grade_set_by_admin (row (grades s) run_grade) \<and>
                      graded edx_grade (row (grades s) run_grade) \<noteq> row (grades s) run_grade)) (\<lambda>changed.
            if changed
            then thenp (save_and_log_grade run_grade (graded edx_grade) None) (ret (run_grade, created, True))
            else ret (run_grade, created, False))))
         else bindp get_or_create (\<lambda>(run_grade, created). ret (run_grade, created, False)))"

section \<open>Certificates of programs\<close>

text \<open>The default managers of certificates see those that are not revoked.\<close>

definition active_run_certificates :: "'z xpro_db_scheme \<Rightarrow> (run_certificate_row \<Rightarrow> bool) \<Rightarrow> nat list" where
  "active_run_certificates s P = matching (run_certificates s) (\<lambda>_ c. \<not> cert_is_revoked c \<and> P c)"

definition active_program_certificates :: "'z xpro_db_scheme \<Rightarrow> (program_certificate_row \<Rightarrow> bool) \<Rightarrow> nat list" where
  "active_program_certificates s P = matching (program_certificates s) (\<lambda>_ c. \<not> cert_is_revoked c \<and> P c)"

text \<open>The revision of the certificate page that \<open>save\<close> gives a new certificate.\<close>

definition page_revision :: "cms_pages \<Rightarrow> nat option option \<Rightarrow> nat option" where
  "page_revision cms page =
     (case page of Some (Some certificate_page) \<Rightarrow> Some (latest_revision cms certificate_page) | _ \<Rightarrow> None)"

definition get_or_create_program_enrollment :: "int \<Rightarrow> nat \<Rightarrow> nat \<Rightarrow> ('z xpro_db_scheme, nat \<times> bool) prog" where
  "get_or_create_program_enrollment now user program =
     (let mine = (\<lambda>e. enr_program e = program \<and> enr_user e = user)
      in try_catch
           (db_get_or_create ''ProgramEnrollment'' program_enrollments program_enrollments_update
              (\<lambda>_ e. enr_active e \<and> mine e)
              \<lparr>enr_user = user, enr_company = None, enr_order = None, enr_change_status = None, enr_active = True,
               enr_created_on = now, enr_program = program\<rparr>)
           (\<lambda>e. if is_multiple_objects e
                then bindp (asks (\<lambda>s. active_program_enrollments s mine)) (\<lambda>ks. ret (hd ks, False))
                else raise e))"

definition create_program_certificate ::
  "cms_pages \<Rightarrow> (nat \<Rightarrow> string) \<Rightarrow> nat \<Rightarrow> nat \<Rightarrow> ('z xpro_db_scheme, nat) prog" where
  "create_program_certificate cms uuids user program =
     bindp (asks (\<lambda>s. (t_exists (program_certificates s) (\<lambda>_ c. cert_user c = user \<and> cert_program c = program),
                       next_pk (program_certificates s)))) (\<lambda>(taken, k).
     if taken then raise (IntegrityError ''user_id, program_id'')
     else db_create program_certificates program_certificates_update
            \<lparr>cert_user = user, cert_uuid = uuids k, cert_is_revoked = False,
             cert_certificate_page_revision = page_revision cms (program_page cms program), cert_program = program\<rparr>)"

definition courses_in_program_ids :: "'z xpro_db_scheme \<Rightarrow> nat \<Rightarrow> nat list" where
  "courses_in_program_ids s program = remdups (program_courses s program)"

definition num_courses_with_cert :: "'z xpro_db_scheme \<Rightarrow> nat \<Rightarrow> nat \<Rightarrow> nat" where
  "num_courses_with_cert s user program =
     length (active_run_certificates s (\<lambda>c. cert_user c = user \<and>
       run_course (row (course_runs s) (cert_course_run c)) \<in> set (courses_in_program_ids s program)))"

definition generate_program_certificate ::
  "cms_pages \<Rightarrow> (nat \<Rightarrow> string) \<Rightarrow> int \<Rightarrow> nat \<Rightarrow> nat \<Rightarrow> ('z xpro_db_scheme, nat option \<times> bool) prog" where
  "generate_program_certificate cms uuids now user program =
     bindp (asks (\<lambda>s. active_program_certificates s (\<lambda>c. cert_user c = user \<and> cert_program c = program))) (\<lambda>existing.
     if existing \<noteq> []
     then bindp (get_or_create_program_enrollment now user program) (\<lambda>_. ret (Some (hd existing), False))
     else bindp (asks (\<lambda>s. length (courses_in_program_ids s program) > num_courses_with_cert s user program)) (\<lambda>missing.
       if missing then ret (None, False)
       else bindp (create_program_certificate cms uuids user program) (\<lambda>program_cert.
            bindp (get_or_create_program_enrollment now user program) (\<lambda>_.
            ret (Some program_cert, True)))))"

section \<open>Certificates of course runs\<close>

definition handle_create_course_run_certificate ::
  "cms_pages \<Rightarrow> (nat \<Rightarrow> string) \<Rightarrow> int \<Rightarrow> nat \<Rightarrow> ('z xpro_db_scheme, unit) prog" where
  "handle_create_course_run_certificate cms uuids now k =
     bindp (asks (\<lambda>s. let c = row (run_certificates s) k
                       in (cert_user c, course_program (row (courses s) (run_course (row (course_runs s) (cert_course_run c)))))))
       (\<lambda>(user, program).
     case program of
       None \<Rightarrow> ret ()
     | Some program \<Rightarrow> bindp (generate_program_certificate cms uuids now user program) (\<lambda>_. ret ()))"

text \<open>
  The signal runs when the transaction of the new certificate has been committed, so what it raises leaves the
  certificate in place.
\<close>

definition create_run_certificate ::
  "cms_pages \<Rightarrow> (nat \<Rightarrow> string) \<Rightarrow> int \<Rightarrow> nat \<Rightarrow> nat \<Rightarrow> ('z xpro_db_scheme, nat) prog" where
  "create_run_certificate cms uuids now user course_run =
     bindp (asks (\<lambda>s. (t_exists (run_certificates s) (\<lambda>_ c. cert_user c = user \<and> cert_course_run c = course_run),
                       next_pk (run_certificates s), run_course (row (course_runs s) course_run)))) (\<lambda>(taken, k, course).
     if taken then raise (IntegrityError ''user_id, course_run_id'')
     else bindp (db_create run_certificates run_certificates_update
            \<lparr>cert_user = user, cert_uuid = uuids k, cert_is_revoked = False,
             cert_certificate_page_revision = page_revision cms (course_page cms course), cert_course_run = course_run\<rparr>) (\<lambda>k.
          thenp (handle_create_course_run_certificate cms uuids now k) (ret k)))"

text \<open>\<open>CourseRunCertificate.objects.get_or_create\<close>: an \<open>IntegrityError\<close> is answered with a second look-up.\<close>

definition get_or_create_run_certificate ::
  "cms_pages \<Rightarrow> (nat \<Rightarrow> string) \<Rightarrow> int \<Rightarrow> nat \<Rightarrow> nat \<Rightarrow> ('z xpro_db_scheme, nat \<times> bool) prog" where
  "get_or_create_run_certificate cms uuids now user course_run =
     (let get = db_get ''CourseRunCertificate'' run_certificates
            (\<lambda>_ c. \<not> cert_is_revoked c \<and> cert_user c = user \<and> cert_course_run c = course_run)
      in try_catch (bindp get (\<lambda>k. ret (k, False)))
           (\<lambda>e. if is_does_not_exist e
                then try_catch (bindp (create_run_certificate cms uuids now user course_run) (\<lambda>k. ret (k, True)))
                       (\<lambda>e. if is_integrity_error e
                            then try_catch (bindp get (\<lambda>k. ret (k, False))) (\<lambda>e'. raise (if is_does_not_exist e' then e else e'))
                            else raise e)
                else raise e))"

definition process_course_run_grade_certificate ::
  "cms_pages \<Rightarrow> (nat \<Rightarrow> string) \<Rightarrow> int \<Rightarrow> nat \<Rightarrow> ('z xpro_db_scheme, nat option \<times> bool \<times> bool) prog" where
  "process_course_run_grade_certificate cms uuids now course_run_grade =
     bindp (asks (\<lambda>s. row (grades s) course_run_grade)) (\<lambda>g.
     let user = grade_user g; course_run = grade_course_run g; should_delete = grade_grade g = 0; should_create = grade_passed g;
         mine = (\<lambda>c. cert_user c = user \<and> cert_course_run c = course_run)
     in if should_delete
        then bindp (asks (\<lambda>s. length (active_run_certificates s mine))) (\<lambda>delete_count.
             thenp (db_delete run_certificates run_certificates_update (\<lambda>_ c. \<not> cert_is_revoked c \<and> mine c))
               (ret (None, False, delete_count > 0)))
        else if should_create
        then bindp (get_or_create_run_certificate cms uuids now user course_run) (\<lambda>(certificate, created).
             ret (Some certificate, created, False))
        else ret (None, False, False))"

section \<open>Revocation\<close>

text \<open>\<open>save\<close> gives a certificate without a revision the latest one of its page.\<close>

definition with_revision :: "nat option \<Rightarrow> 'c certificate_row_scheme \<Rightarrow> 'c certificate_row_scheme" where
  "with_revision revision c =
     (if cert_certificate_page_revision c = None then c\<lparr>cert_certificate_page_revision := revision\<rparr> else c)"

definition save_program_certificate ::
  "cms_pages \<Rightarrow> nat \<Rightarrow> (program_certificate_row \<Rightarrow> program_certificate_row) \<Rightarrow> ('z xpro_db_scheme, unit) prog" where
  "save_program_certificate cms k f =
     db_save program_certificates program_certificates_update k
       (\<lambda>c. with_revision (page_revision cms (program_page cms (cert_program c))) (f c))"

definition save_run_certificate ::
  "cms_pages \<Rightarrow> nat \<Rightarrow> (run_certificate_row \<Rightarrow> run_certificate_row) \<Rightarrow> ('z xpro_db_scheme, unit) prog" where
  "save_run_certificate cms k f =
     bindp (asks (\<lambda>s. run_course (row (course_runs s) (cert_course_run (row (run_certificates s) k))))) (\<lambda>course.
       db_save run_certificates run_certificates_update k (\<lambda>c. with_revision (page_revision cms (course_page cms course)) (f c)))"

definition revoke_program_certificate ::
  "cms_pages \<Rightarrow> nat \<Rightarrow> string \<Rightarrow> bool \<Rightarrow> bool \<Rightarrow> ('z xpro_db_scheme, bool) prog" where
  "revoke_program_certificate cms user readable_id revoke_state include_program_courses =
     bindp (db_get ''Program'' programs (\<lambda>_ p. prog_readable_id p = readable_id)) (\<lambda>program.
     bindp (asks (\<lambda>s. t_get ''ProgramCertificate'' (program_certificates s)
              (\<lambda>_ c. cert_user c = user \<and> prog_readable_id (row (programs s) (cert_program c)) = readable_id))) (\<lambda>found.
     case found of
       Inl e \<Rightarrow> if is_does_not_exist e then ret False else raise e
     | Inr program_certificate \<Rightarrow>
         thenp (save_program_certificate cms program_certificate (\<lambda>c. c\<lparr>cert_is_revoked := revoke_state\<rparr>))
        (thenp (whenp include_program_courses
                 (bindp (asks (\<lambda>s. (courses_in_program_ids s program, course_runs s))) (\<lambda>(ids, runs).
                  db_update run_certificates run_certificates_update
                    (\<lambda>_ c. cert_user c = user \<and> run_course (row runs (cert_course_run c)) \<in> set ids)
                    (\<lambda>c. c\<lparr>cert_is_revoked := revoke_state\<rparr>))))
           (ret True))))"

definition revoke_course_run_certificate :: "cms_pages \<Rightarrow> nat \<Rightarrow> string \<Rightarrow> bool \<Rightarrow> ('z xpro_db_scheme, bool) prog" where
  "revoke_course_run_certificate cms user courseware_id revoke_state =
     bindp (db_get ''CourseRun'' course_runs (\<lambda>_ r. run_courseware_id r = courseware_id)) (\<lambda>course_run.
     bindp (asks (\<lambda>s. t_get ''CourseRunCertificate'' (run_certificates s)
              (\<lambda>_ c. cert_user c = user \<and> cert_course_run c = course_run))) (\<lambda>found.
     case found of
       Inl e \<Rightarrow> if is_does_not_exist e then ret False else raise e
     | Inr k \<Rightarrow>
         thenp (save_run_certificate cms k (\<lambda>c. c\<lparr>cert_is_revoked := revoke_state\<rparr>)) (ret True)))"

section \<open>The task and the commands\<close>

text \<open>
  The grades that the courseware reports: for a run, or for a user in a run. The list of a run names users
  by their user names; those unknown here are left out.
\<close>

record grade_service =
  course_grades :: "string \<Rightarrow> exn + (string \<times> edx_grade) list"
  student_grade :: "string \<Rightarrow> string \<Rightarrow> exn + edx_grade"

definition edx_grades_of_run ::
  "grade_service \<Rightarrow> 'z xpro_db_scheme \<Rightarrow> nat \<Rightarrow> nat option \<Rightarrow> exn + (edx_grade \<times> nat) list" where
  "edx_grades_of_run gs s course_run user =
     (let courseware_id = run_courseware_id (row (course_runs s) course_run)
      in case user of
           Some u \<Rightarrow>
             (case student_grade gs (user_username (row (users s) u)) courseware_id of
                Inl e \<Rightarrow> Inl e | Inr edx_grade \<Rightarrow> Inr [(edx_grade, u)])
         | None \<Rightarrow>
             (case course_grades gs courseware_id of
                Inl e \<Rightarrow> Inl e | Inr all_grades \<Rightarrow> get_edx_grades_with_users s all_grades))"

definition has_certificate_page :: "cms_pages \<Rightarrow> 'z xpro_db_scheme \<Rightarrow> nat \<Rightarrow> bool" where
  "has_certificate_page cms s course_run =
     (case course_page cms (run_course (row (course_runs s) course_run)) of Some (Some _) \<Rightarrow> True | _ \<Rightarrow> False)"

definition runs_without_certificates :: "int \<Rightarrow> int \<Rightarrow> 'z xpro_db_scheme \<Rightarrow> nat list" where
  "runs_without_certificates now delay s =
     matching (course_runs s)
       (\<lambda>k r. run_live r \<and> (case run_end_date r of None \<Rightarrow> False | Some d \<Rightarrow> d < now - delay) \<and>
          \<not> course_is_external (row (courses s) (run_course r)) \<and>
          k \<notin> set (map (\<lambda>c. cert_course_run (row (run_certificates s) c)) (active_run_certificates s (\<lambda>_. True))))"

definition process_edx_grade ::
  "cms_pages \<Rightarrow> (nat \<Rightarrow> string) \<Rightarrow> int \<Rightarrow> nat \<Rightarrow> edx_grade \<times> nat \<Rightarrow> ('z xpro_db_scheme, unit) prog" where
  "process_edx_grade cms uuids now run = (\<lambda>(edx_grade, user).
     bindp (ensure_course_run_grade user run edx_grade True) (\<lambda>(course_run_grade, _).
     bindp (process_course_run_grade_certificate cms uuids now course_run_grade) (\<lambda>_. ret ())))"

text \<open>The exceptions of the courseware are logged and end the run; those of the processing end the task.\<close>

definition generate_course_certificates ::
  "cms_pages \<Rightarrow> (nat \<Rightarrow> string) \<Rightarrow> int \<Rightarrow> int \<Rightarrow> grade_service \<Rightarrow> ('z xpro_db_scheme, unit) prog" where
  "generate_course_certificates cms uuids now delay gs =
     bindp (asks (runs_without_certificates now delay)) (\<lambda>runs.
     for_each runs (\<lambda>run.
       bindp (asks (\<lambda>s. (has_certificate_page cms s run, edx_grades_of_run gs s run None))) (\<lambda>(has_page, edx_grades).
       if \<not> has_page then ret ()
       else case edx_grades of
              Inl _ \<Rightarrow> ret ()
            | Inr edx_grades \<Rightarrow> for_each edx_grades (process_edx_grade cms uuids now run))))"

record sync_options =
  so_user :: "string option"
  so_run :: string
  so_grade :: "rat option"
  so_update :: bool
  so_force :: bool

record sync_result =
  sr_user :: nat
  sr_grade_status :: string
  sr_passed :: bool
  sr_override :: "rat option"
  sr_cert_status :: string

definition overridden :: "rat \<Rightarrow> grade_row \<Rightarrow> grade_row" where
  "overridden override_grade g =
     g\<lparr>grade_grade := override_grade, grade_passed := (override_grade \<noteq> 0), grade_letter_grade := None, grade_set_by_admin := True\<rparr>"

definition sync_one_grade ::
  "cms_pages \<Rightarrow> (nat \<Rightarrow> string) \<Rightarrow> int \<Rightarrow> nat \<Rightarrow> rat option \<Rightarrow> bool \<Rightarrow> edx_grade \<times> nat \<Rightarrow> ('z xpro_db_scheme, sync_result) prog" where
  "sync_one_grade cms uuids now run override_grade should_update = (\<lambda>(edx_grade, user).
     bindp (ensure_course_run_grade user run edx_grade should_update) (\<lambda>(course_run_grade, created_grade, updated_grade).
     thenp (case override_grade of
              None \<Rightarrow> ret ()
            | Some g \<Rightarrow> save_and_log_grade course_run_grade (overridden g) None)
    (bindp (process_course_run_grade_certificate cms uuids now course_run_grade) (\<lambda>(_, created_cert, deleted_cert).
     bindp (asks (\<lambda>s. row (grades s) course_run_grade)) (\<lambda>g.
     ret \<lparr>sr_user = user,
          sr_grade_status = (if created_grade then ''created'' else if updated_grade then ''updated'' else ''already exists''),
          sr_passed = grade_passed g, sr_override = (case override_grade of None \<Rightarrow> None | Some _ \<Rightarrow> Some (grade_grade g)),
          sr_cert_status = (if created_cert then ''created'' else if deleted_cert then ''deleted''
             else if grade_passed g then ''already exists'' else ''ignored'')\<rparr>)))))"

text \<open>The command \<open>sync_grades_and_certificates\<close>; a user that fails is reported and skipped. The message about a run
  that has not finished is given without its dates.\<close>

definition sync_grades_and_certificates ::
  "cms_pages \<Rightarrow> (nat \<Rightarrow> string) \<Rightarrow> (string \<Rightarrow> bool) \<Rightarrow> int \<Rightarrow> grade_service \<Rightarrow> sync_options \<Rightarrow>
     ('z xpro_db_scheme, sync_result list) prog" where
  "sync_grades_and_certificates cms uuids is_email now gs options =
     (let named = (case so_user options of None \<Rightarrow> None | Some u \<Rightarrow> if u = [] then None else Some u)
      in if so_grade options \<noteq> None \<and> named = None
         then raise (CommandError ''No user supplied with override grade. Overwrite of grade is not supported for all users. Grade should only be supplied when a specific user is targeted.'')
         else
           bindp (try_catch (db_get ''CourseRun'' course_runs (\<lambda>_ r. run_courseware_id r = so_run options))
             (\<lambda>e. raise (if is_does_not_exist e
                 then CommandError (''Could not find run with courseware_id='' @ so_run options) else e))) (\<lambda>run.
           bindp (asks (\<lambda>s. (row (course_runs s) run, course_is_external (row (courses s) (run_course (row (course_runs s) run))),
               has_certificate_page cms s run))) (\<lambda>(r, is_external, has_page).
           if is_external \<or> course_page_external cms (run_course r) \<and> \<not> course_page_internal cms (run_course r)
           then raise (CommandError (''Course run '' @ run_str r @
                  '' is part of an external course. Grades and certificates cannot be synced for external courses.''))
           else if \<not> so_force options \<and> (case run_end_date r of None \<Rightarrow> True | Some d \<Rightarrow> d > now)
           then raise (CommandError ''The given course run has not yet finished'')
           else
             bindp (case named of
                      None \<Rightarrow> ret None
                    | Some u \<Rightarrow> bindp (asks (\<lambda>s. fetch_user is_email s u True)) (\<lambda>x. bindp (lift_result x) (\<lambda>k. ret (Some k)))) (\<lambda>user.
             if (case so_grade options of None \<Rightarrow> False | Some g \<Rightarrow> g \<noteq> 0 \<and> (g < 0 \<or> g > 1))
             then raise (CommandError ''Invalid value for grade. Allowed range: 0.0 - 1.0'')
             else if \<not> has_page then raise (CommandError (''Course run '' @ run_str r @ '' has no certificate page.''))
             else
               bindp (asks (\<lambda>s. edx_grades_of_run gs s run user)) (\<lambda>edx_grades.
               bindp (lift_result edx_grades) (\<lambda>edx_grades.
               bindp (collect_each edx_grades (\<lambda>g. try_catch
                   (bindp (sync_one_grade cms uuids now run (so_grade options) (so_update options) g) (\<lambda>r. ret [r])) (\<lambda>_. ret [])))
                 (\<lambda>results. ret (concat results))))))))"

record revoke_options =
  ro_user :: "string option"
  ro_program :: "string option"
  ro_run :: "string option"
  ro_revoke :: bool
  ro_include_program_courses :: bool

definition given :: "string option \<Rightarrow> string option" where
  "given v = (case v of None \<Rightarrow> None | Some t \<Rightarrow> if t = [] then None else Some t)"

definition quoted :: "string \<Rightarrow> string" where "quoted t = [CHR 0x27] @ t @ [CHR 0x27]"

definition revoke_certificate :: "cms_pages \<Rightarrow> (string \<Rightarrow> bool) \<Rightarrow> revoke_options \<Rightarrow> ('z xpro_db_scheme, string) prog" where
  "revoke_certificate cms is_email options =
     bindp (case given (ro_user options) of
              None \<Rightarrow> ret None
            | Some u \<Rightarrow> bindp (asks (\<lambda>s. fetch_user is_email s u True)) (\<lambda>x. bindp (lift_result x) (\<lambda>k. ret (Some k)))) (\<lambda>user.
     case (given (ro_program options), given (ro_run options)) of
       (Some _, Some _) \<Rightarrow> raise (CommandError (''Either '' @ quoted ''program'' @ '' or '' @ quoted ''run'' @ '' should be provided, not both.''))
     | (None, None) \<Rightarrow> raise (CommandError (''Either '' @ quoted ''program'' @ '' or '' @ quoted ''run'' @ '' must be provided.''))
     | (program, run) \<Rightarrow>
         (case user of
            None \<Rightarrow> raise (CommandError ''A valid user must be provided.'')
          | Some user \<Rightarrow>
              bindp (case program of
                       Some readable_id \<Rightarrow>
                         revoke_program_certificate cms user readable_id (ro_revoke options) (ro_include_program_courses options)
                     | None \<Rightarrow> revoke_course_run_certificate cms user (the run) (ro_revoke options)) (\<lambda>updated.
              ret (if updated
                   then ''Certificate for '' @ (case run of Some r \<Rightarrow> ''run: '' @ r | None \<Rightarrow> ''program: '' @ the program) @
                        '' has been '' @ (if ro_revoke options then ''revoked'' else ''un-revoked'')
                   else ''No changes made.''))))"

text \<open>The command \<open>manage_program_certificates\<close>: one attempt for each enrolled user (\<open>DISTINCT ON\<close> the email).\<close>

definition enrolled_in_program :: "'z xpro_db_scheme \<Rightarrow> nat \<Rightarrow> nat option \<Rightarrow> nat list" where
  "enrolled_in_program s program user =
     remdups (map (\<lambda>e. enr_user (row (run_enrollments s) e))
       (active_run_enrollments s (\<lambda>e. course_program (row (courses s) (run_course (row (course_runs s) (enr_run e)))) = Some program \<and>
          (case user of None \<Rightarrow> True | Some u \<Rightarrow> enr_user e = u))))"

definition manage_program_certificates ::
  "cms_pages \<Rightarrow> (nat \<Rightarrow> string) \<Rightarrow> (string \<Rightarrow> bool) \<Rightarrow> int \<Rightarrow> string option \<Rightarrow> string option \<Rightarrow>
     ('z xpro_db_scheme, (nat \<times> string) list) prog" where
  "manage_program_certificates cms uuids is_email now program user =
     (case given program of
        None \<Rightarrow> raise (CommandError ''Please provide a valid program readable_id.'')
      | Some readable_id \<Rightarrow>
          bindp (try_catch (db_get ''Program'' programs (\<lambda>_ p. prog_readable_id p = readable_id))
            (\<lambda>e. raise (if is_does_not_exist e
               then CommandError (''Could not find any program with provided readable_id='' @ readable_id) else e))) (\<lambda>program.
          bindp (case given user of
                   None \<Rightarrow> ret None
                 | Some u \<Rightarrow> bindp (asks (\<lambda>s. fetch_user is_email s u True)) (\<lambda>x. bindp (lift_result x) (\<lambda>k. ret (Some k)))) (\<lambda>user.
          bindp (asks (\<lambda>s. enrolled_in_program s program user)) (\<lambda>enrolled.
          if enrolled = []
          then raise (CommandError (''Could not find course enrollment(s) with provided program readable_id='' @ readable_id))
          else collect_each enrolled (\<lambda>u.
                 bindp (generate_program_certificate cms uuids now u program) (\<lambda>(certificate, is_created).
                 ret (u, ''Certificate '' @ (if certificate \<noteq> None \<and> \<not> is_created then ''already exists''
                            else if \<not> is_created then ''creation failed'' else ''successfully created''))))))))"

section \<open>Dates and titles of course runs\<close>

text \<open>What the course list of the courseware says of a run.\<close>

record course_detail =
  cd_course_id :: string
  cd_name :: string
  cd_start :: "int option"
  cd_end :: "int option"
  cd_enrollment_start :: "int option"
  cd_enrollment_end :: "int option"

text \<open>\<open>COURSE_KEY_PATTERN\<close>: three non-empty parts without a plus sign after \<open>course-v1:\<close>.\<close>

definition is_course_key :: "string \<Rightarrow> bool" where
  "is_course_key t \<longleftrightarrow> starts_with t ''course-v1:'' \<and>
     (let parts = py_split CHR ''+'' (drop (length ''course-v1:'') t) in length parts = 3 \<and> [] \<notin> set parts)"

definition has_changes :: "course_detail \<Rightarrow> course_run_row \<Rightarrow> bool" where
  "has_changes d r \<longleftrightarrow> cd_name d \<noteq> run_title r \<or> cd_start d \<noteq> run_start_date r \<or> cd_end d \<noteq> run_end_date r \<or>
     cd_enrollment_start d \<noteq> run_enrollment_start r \<or> cd_enrollment_end d \<noteq> run_enrollment_end r"

definition synced_run :: "course_detail \<Rightarrow> course_run_row \<Rightarrow> course_run_row" where
  "synced_run d r =
     r\<lparr>run_title := cd_name d, run_start_date := cd_start d, run_end_date := cd_end d,
       run_enrollment_start := cd_enrollment_start d, run_enrollment_end := cd_enrollment_end d,
       run_expiration_date := (if cd_start d \<noteq> run_start_date r \<or> cd_end d \<noteq> run_end_date r then None else run_expiration_date r)\<rparr>"

text \<open>
  The loop over the details: \<open>objs\<close> are the run objects in memory, which keep what was set on them even when
  saving them fails. The answer counts successes, failures and unchanged runs.
\<close>

fun sync_details ::
  "int \<Rightarrow> (string \<Rightarrow> nat option) \<Rightarrow> (nat \<Rightarrow> course_run_row) \<Rightarrow> nat \<times> nat \<times> nat \<Rightarrow> course_detail list \<Rightarrow>
     ('z xpro_db_scheme, nat \<times> nat \<times> nat) prog" where
  "sync_details now runs objs counts [] = ret counts"
| "sync_details now runs objs (success, failure, unchanged) (d # ds) =
     (case runs (cd_course_id d) of
        None \<Rightarrow> sync_details now runs objs (success, failure, unchanged) ds
      | Some k \<Rightarrow>
          if \<not> has_changes d (objs k) then sync_details now runs objs (success, failure, Suc unchanged) ds
          else bindp (try_catch (thenp (course_run_save now k (\<lambda>_. synced_run d (objs k))) (ret True)) (\<lambda>_. ret False)) (\<lambda>saved.
               sync_details now runs (objs(k := synced_run d (objs k)))
                 (if saved then (Suc success, failure, unchanged) else (success, Suc failure, unchanged)) ds))"

text \<open>The course list is fetched page by page: the details that came, and the exception that ended them, if any.\<close>

definition sync_course_runs ::
  "(string list \<Rightarrow> course_detail list \<times> exn option) \<Rightarrow> int \<Rightarrow> nat list \<Rightarrow> ('z xpro_db_scheme, nat \<times> nat \<times> nat) prog" where
  "sync_course_runs get_courses now runs =
     bindp (asks (\<lambda>s. (filter (\<lambda>k. is_course_key (run_courseware_id (row (course_runs s) k))) runs, row (course_runs s)))) (\<lambda>(valid, objs).
     if valid = [] then ret (0, length runs, 0)
     else
       (let by_courseware_id = map_of (rev (map (\<lambda>k. (run_courseware_id (objs k), k)) valid));
            keys = remdups (map (\<lambda>k. run_courseware_id (objs k)) valid);
            (details, failed) = get_courses keys
        in bindp (sync_details now by_courseware_id objs (0, 0, 0) details) (\<lambda>(success, failure, unchanged).
           ret (success, if failed = None then failure else length keys, unchanged))))"

definition sync_courseruns_data ::
  "(string list \<Rightarrow> course_detail list \<times> exn option) \<Rightarrow> int \<Rightarrow> ('z xpro_db_scheme, unit) prog" where
  "sync_courseruns_data get_courses now =
     bindp (asks (\<lambda>s. matching (course_runs s) (\<lambda>_ r. run_live r \<and>
              (case run_expiration_date r of None \<Rightarrow> True | Some d \<Rightarrow> d > now) \<and>
              \<not> course_is_external (row (courses s) (run_course r))))) (\<lambda>runs.
     bindp (sync_course_runs get_courses now runs) (\<lambda>_. ret ()))"

section \<open>Text ids\<close>

definition get_courseware_object_from_text_id :: "'z xpro_db_scheme \<Rightarrow> string \<Rightarrow> exn + (nat + nat)" where
  "get_courseware_object_from_text_id s text_id =
     (case program_run_id_match text_id of
        Some (text_id_base, run_tag) \<Rightarrow>
          (case t_first (programs s) (\<lambda>p r. prog_readable_id r = text_id_base \<and>
                  t_exists (program_runs s) (\<lambda>_ q. prun_program q = p \<and> prun_run_tag q = run_tag)) of
             Some p \<Rightarrow> Inr (Inl p)
           | None \<Rightarrow>
               (case t_first (programs s) (\<lambda>_ r. prog_readable_id r = text_id) of
                  Some p \<Rightarrow> Inr (Inl p) | None \<Rightarrow> Inl (DoesNotExist ''Program'')))
      | None \<Rightarrow>
          if is_program_text_id text_id
          then map_sum id Inl (t_get ''Program'' (programs s) (\<lambda>_ p. prog_readable_id p = text_id))
          else map_sum id Inr (t_get ''CourseRun'' (course_runs s) (\<lambda>_ r. run_courseware_id r = text_id)))"

section \<open>What a program certificate needs\<close>

text \<open>The unique columns of certificates, revoked or not.\<close>

definition certificates_ok :: "'z xpro_db_scheme \<Rightarrow> bool" where
  "certificates_ok s \<longleftrightarrow> wf_table (run_certificates s) \<and> wf_table (program_certificates s) \<and>
     unique_on (run_certificates s) (\<lambda>c. (cert_user c, cert_course_run c)) \<and>
     unique_on (program_certificates s) (\<lambda>c. (cert_user c, cert_program c))"

abbreviation own_program_certificates :: "'z xpro_db_scheme \<Rightarrow> nat \<Rightarrow> nat \<Rightarrow> nat list" where
  "own_program_certificates s user program \<equiv> active_program_certificates s (\<lambda>c. cert_user c = user \<and> cert_program c = program)"

abbreviation own_run_certificates :: "'z xpro_db_scheme \<Rightarrow> nat \<Rightarrow> nat \<Rightarrow> nat list" where
  "own_run_certificates s user course_run \<equiv> active_run_certificates s (\<lambda>c. cert_user c = user \<and> cert_course_run c = course_run)"

abbreviation own_program_enrollments :: "'z xpro_db_scheme \<Rightarrow> nat \<Rightarrow> nat \<Rightarrow> nat list" where
  "own_program_enrollments s user program \<equiv> active_program_enrollments s (\<lambda>e. enr_program e = program \<and> enr_user e = user)"

text \<open>A user is enrolled in a program on demand, once.\<close>

definition with_program_enrollment :: "int \<Rightarrow> nat \<Rightarrow> nat \<Rightarrow> 'z xpro_db_scheme \<Rightarrow> 'z xpro_db_scheme" where
  "with_program_enrollment now user program s =
     (if own_program_enrollments s user program = []
      then s\<lparr>program_enrollments := snd (t_create (program_enrollments s)
         \<lparr>enr_user = user, enr_company = None, enr_order = None, enr_change_status = None, enr_active = True,
          enr_created_on = now, enr_program = program\<rparr>)\<rparr>
      else s)"

lemma get_or_create_program_enrollment_run:
  "\<exists>k. get_or_create_program_enrollment now user program s =
     (Inr (k, own_program_enrollments s user program = []), with_program_enrollment now user program s)"
proof (cases "own_program_enrollments s user program")
  case Nil
  then show ?thesis
    by (auto simp: get_or_create_program_enrollment_def try_catch_def db_get_or_create_run t_get_or_create_def
        with_program_enrollment_def active_program_enrollments_def t_create_def Let_def)
next
  case (Cons k ks)
  then show ?thesis
    by (cases ks) (auto simp: get_or_create_program_enrollment_def try_catch_def db_get_or_create_run t_get_or_create_def
        with_program_enrollment_def active_program_enrollments_def bindp_run is_multiple_objects_def Let_def)
qed

lemma with_program_enrollment_simps [simp]:
  "run_certificates (with_program_enrollment now u p s) = run_certificates s"
  "program_certificates (with_program_enrollment now u p s) = program_certificates s"
  "grades (with_program_enrollment now u p s) = grades s"
  "course_runs (with_program_enrollment now u p s) = course_runs s"
  "courses (with_program_enrollment now u p s) = courses s"
  by (simp_all add: with_program_enrollment_def)

lemma enrolled_afterwards:
  "wf_table (program_enrollments s) \<Longrightarrow> own_program_enrollments (with_program_enrollment now u p s) u p \<noteq> []"
  by (auto simp: with_program_enrollment_def active_program_enrollments_def matching_t_create row_t_create)

lemma enrolled_once [simp]:
  "wf_table (program_enrollments s) \<Longrightarrow>
   with_program_enrollment now' u p (with_program_enrollment now u p s) = with_program_enrollment now u p s"
  using enrolled_afterwards [of s now u p]
  by (cases "own_program_enrollments (with_program_enrollment now u p s) u p = []") (simp_all add: with_program_enrollment_def [of now'])

definition new_program_certificate :: "cms_pages \<Rightarrow> (nat \<Rightarrow> string) \<Rightarrow> nat \<Rightarrow> nat \<Rightarrow> 'z xpro_db_scheme \<Rightarrow> program_certificate_row" where
  "new_program_certificate cms uuids user program s =
     \<lparr>cert_user = user, cert_uuid = uuids (next_pk (program_certificates s)), cert_is_revoked = False,
      cert_certificate_page_revision = page_revision cms (program_page cms program), cert_program = program\<rparr>"

definition program_certificate_taken :: "'z xpro_db_scheme \<Rightarrow> nat \<Rightarrow> nat \<Rightarrow> bool" where
  "program_certificate_taken s user program \<longleftrightarrow>
     t_exists (program_certificates s) (\<lambda>_ c. cert_user c = user \<and> cert_program c = program)"

lemma generate_program_certificate_run:
  "generate_program_certificate cms uuids now user program s =
     (case own_program_certificates s user program of
        k # _ \<Rightarrow> (Inr (Some k, False), with_program_enrollment now user program s)
      | [] \<Rightarrow>
          if length (courses_in_program_ids s program) > num_courses_with_cert s user program then (Inr (None, False), s)
          else if program_certificate_taken s user program then (Inl (IntegrityError ''user_id, program_id''), s)
          else (Inr (Some (next_pk (program_certificates s)), True),
                with_program_enrollment now user program
                  (s\<lparr>program_certificates := snd (t_create (program_certificates s)
                      (new_program_certificate cms uuids user program s))\<rparr>)))"
proof (cases "own_program_certificates s user program")
  case (Cons k ks)
  obtain j b where "get_or_create_program_enrollment now user program s = (Inr (j, b), with_program_enrollment now user program s)"
    using get_or_create_program_enrollment_run by blast
  with Cons show ?thesis by (simp add: generate_program_certificate_def bindp_run)
next
  case Nil
  let ?u = "s\<lparr>program_certificates := snd (t_create (program_certificates s) (new_program_certificate cms uuids user program s))\<rparr>"
  obtain j b where "get_or_create_program_enrollment now user program ?u = (Inr (j, b), with_program_enrollment now user program ?u)"
    using get_or_create_program_enrollment_run by blast
  with Nil show ?thesis
    by (simp add: generate_program_certificate_def create_program_certificate_def bindp_run program_certificate_taken_def
        new_program_certificate_def)
qed

text \<open>A program certificate that exists and is not revoked is the user's own.\<close>

lemma own_program_certificates_created:
  assumes "wf_table (program_certificates s)" and "own_program_certificates s user program = []"
  shows "own_program_certificates (s\<lparr>program_certificates := snd (t_create (program_certificates s)
      (new_program_certificate cms uuids user program s))\<rparr>) user program = [next_pk (program_certificates s)]"
  using assms by (auto simp: active_program_certificates_def matching_t_create row_t_create new_program_certificate_def)

lemma own_at_most_one:
  assumes "certificates_ok s"
  shows "own_program_certificates s user program = k # ks \<Longrightarrow> ks = []"
    and "own_run_certificates s user course_run = j # js \<Longrightarrow> js = []"
proof -
  have one: "matching t P = i # is' \<Longrightarrow> is' = []" if "wf_table t" "unique_on t f" "\<And>j k. P j (row t j) \<Longrightarrow> P k (row t k) \<Longrightarrow> f (row t j) = f (row t k)"
    for t :: "'r table" and f :: "'r \<Rightarrow> nat \<times> nat" and P i is'
  proof (cases is')
    case (Cons j rest)
    assume m: "matching t P = i # is'"
    then have "i \<in> set (matching t P)" "j \<in> set (matching t P)" "i \<noteq> j"
      using Cons distinct_matching [OF that(1), of P] by auto
    with that(2,3) show ?thesis by (force simp: unique_on_def inj_on_def)
  qed simp
  show "own_program_certificates s user program = k # ks \<Longrightarrow> ks = []"
    unfolding active_program_certificates_def by (rule one [where f = "\<lambda>c. (cert_user c, cert_program c)"])
      (use assms in \<open>auto simp: certificates_ok_def\<close>)
  show "own_run_certificates s user course_run = j # js \<Longrightarrow> js = []"
    unfolding active_run_certificates_def by (rule one [where f = "\<lambda>c. (cert_user c, cert_course_run c)"])
      (use assms in \<open>auto simp: certificates_ok_def\<close>)
qed

text \<open>
  C31: A program certificate. When an answer names one, the user has exactly that certificate afterwards and is
  enrolled in the program, and asking again answers the same and changes nothing; it is new exactly when there was none, and
  then the user has at least as many certificates of runs of the program's courses as the program has
  courses. No certificate is answered only when there are fewer; and the one error, which changes nothing, is that
  the user's certificate has been revoked.
\<close>

theorem generate_program_certificate_spec:
  assumes ok: "certificates_ok s" and wf: "wf_table (program_enrollments s)"
    and run: "generate_program_certificate cms uuids now user program s = (x, t)"
  shows "case x of
      Inl e \<Rightarrow> is_integrity_error e \<and> t = s \<and> own_program_certificates s user program = [] \<and> program_certificate_taken s user program
    | Inr (None, created) \<Rightarrow> \<not> created \<and> t = s \<and> own_program_certificates s user program = [] \<and>
        num_courses_with_cert s user program < length (courses_in_program_ids s program)
    | Inr (Some k, created) \<Rightarrow> own_program_certificates t user program = [k] \<and> own_program_enrollments t user program \<noteq> [] \<and>
        created = (own_program_certificates s user program = []) \<and>
        (created \<longrightarrow> num_courses_with_cert s user program \<ge> length (courses_in_program_ids s program)) \<and>
        generate_program_certificate cms uuids now' user program t = (Inr (Some k, False), t)"
proof (cases "own_program_certificates s user program")
  case (Cons k ks)
  then have own: "own_program_certificates s user program = [k]" using own_at_most_one(1) [OF ok] by blast
  let ?t = "with_program_enrollment now user program s"
  have same: "own_program_certificates ?t user program = [k]"
    using own by (simp add: active_program_certificates_def)
  from run own have x: "x = Inr (Some k, False)" "t = ?t" by (simp_all add: generate_program_certificate_run)
  from same have "generate_program_certificate cms uuids now' user program ?t = (Inr (Some k, False), ?t)"
    by (simp add: generate_program_certificate_run wf)
  with same own enrolled_afterwards [OF wf] show ?thesis by (simp add: x)
next
  case Nil
  have p: "wf_table (program_certificates s)" using ok by (simp add: certificates_ok_def)
  let ?u = "s\<lparr>program_certificates := snd (t_create (program_certificates s) (new_program_certificate cms uuids user program s))\<rparr>"
  let ?t = "with_program_enrollment now user program ?u"
  have own: "own_program_certificates ?t user program = [next_pk (program_certificates s)]"
    using own_program_certificates_created [OF p Nil] by (simp add: active_program_certificates_def)
  have "wf_table (program_enrollments ?u)" using wf by simp
  with own enrolled_afterwards [of ?u now user program] enrolled_once [of ?u now' user program now]
  have again: "own_program_enrollments ?t user program \<noteq> []"
    "generate_program_certificate cms uuids now' user program ?t = (Inr (Some (next_pk (program_certificates s)), False), ?t)"
    by (simp_all add: generate_program_certificate_run)
  show ?thesis
  proof (cases "length (courses_in_program_ids s program) > num_courses_with_cert s user program")
    case True
    with run Nil have "x = Inr (None, False)" "t = s" by (simp_all add: generate_program_certificate_run)
    with True Nil show ?thesis by simp
  next
    case enough: False
    show ?thesis
    proof (cases "program_certificate_taken s user program")
      case True
      with enough run Nil have "x = Inl (IntegrityError ''user_id, program_id'')" "t = s"
        by (simp_all add: generate_program_certificate_run)
      with True Nil show ?thesis by (simp add: is_integrity_error_def)
    next
      case False
      with enough run Nil have "x = Inr (Some (next_pk (program_certificates s)), True)" "t = ?t"
        by (simp_all add: generate_program_certificate_run)
      with own again enough Nil show ?thesis by simp
    qed
  qed
qed

section \<open>Certificates follow grades\<close>

definition run_certificate_taken :: "'z xpro_db_scheme \<Rightarrow> nat \<Rightarrow> nat \<Rightarrow> bool" where
  "run_certificate_taken s user course_run \<longleftrightarrow>
     t_exists (run_certificates s) (\<lambda>_ c. cert_user c = user \<and> cert_course_run c = course_run)"

definition new_run_certificate :: "cms_pages \<Rightarrow> (nat \<Rightarrow> string) \<Rightarrow> nat \<Rightarrow> nat \<Rightarrow> 'z xpro_db_scheme \<Rightarrow> run_certificate_row" where
  "new_run_certificate cms uuids user course_run s =
     \<lparr>cert_user = user, cert_uuid = uuids (next_pk (run_certificates s)), cert_is_revoked = False,
      cert_certificate_page_revision = page_revision cms (course_page cms (run_course (row (course_runs s) course_run))),
      cert_course_run = course_run\<rparr>"

definition with_run_certificate :: "cms_pages \<Rightarrow> (nat \<Rightarrow> string) \<Rightarrow> nat \<Rightarrow> nat \<Rightarrow> 'z xpro_db_scheme \<Rightarrow> 'z xpro_db_scheme" where
  "with_run_certificate cms uuids user course_run s =
     s\<lparr>run_certificates := snd (t_create (run_certificates s) (new_run_certificate cms uuids user course_run s))\<rparr>"

lemma own_run_certificates_created:
  assumes "wf_table (run_certificates s)" and "own_run_certificates s user course_run = []"
  shows "own_run_certificates (with_run_certificate cms uuids user course_run s) user course_run = [next_pk (run_certificates s)]"
  using assms by (auto simp: active_run_certificates_def matching_t_create row_t_create new_run_certificate_def with_run_certificate_def)

text \<open>The table of run certificates is not touched by program certificates.\<close>

lemma generate_program_certificate_frame:
  assumes "generate_program_certificate cms uuids now user program s = (x, t)"
  shows "run_certificates t = run_certificates s \<and> grades t = grades s \<and> courses t = courses s \<and> course_runs t = course_runs s \<and>
    (\<forall>e. x = Inl e \<longrightarrow> is_integrity_error e)"
  using assms by (auto simp: generate_program_certificate_run is_integrity_error_def split: list.splits if_splits)

lemma handle_create_run:
  assumes "own_run_certificates s user course_run = []" and "wf_table (run_certificates s)"
    and "handle_create_course_run_certificate cms uuids now (next_pk (run_certificates s))
           (with_run_certificate cms uuids user course_run s) = (x, t)"
  shows "run_certificates t = run_certificates (with_run_certificate cms uuids user course_run s) \<and> grades t = grades s \<and>
    (\<forall>e. x = Inl e \<longrightarrow> is_integrity_error e)"
proof -
  let ?u = "with_run_certificate cms uuids user course_run s"
  let ?program = "course_program (row (courses s) (run_course (row (course_runs s) course_run)))"
  have k: "row (run_certificates ?u) (next_pk (run_certificates s)) = new_run_certificate cms uuids user course_run s"
    by (simp add: with_run_certificate_def row_t_create)
  have same: "courses ?u = courses s" "course_runs ?u = course_runs s" "grades ?u = grades s"
    by (simp_all add: with_run_certificate_def)
  show ?thesis
  proof (cases ?program)
    case None
    with assms(3) have "x = Inr () \<and> t = ?u"
      by (simp add: handle_create_course_run_certificate_def bindp_run k same new_run_certificate_def)
    then show ?thesis by (simp add: same)
  next
    case (Some p)
    obtain y v where gen: "generate_program_certificate cms uuids now user p ?u = (y, v)" by fastforce
    with Some assms(3) have "t = v \<and> (\<forall>e. x = Inl e \<longrightarrow> y = Inl e)"
      by (cases y) (auto simp: handle_create_course_run_certificate_def bindp_run k same new_run_certificate_def)
    with generate_program_certificate_frame [OF gen] show ?thesis by (auto simp: same)
  qed
qed

lemma get_or_create_run_certificate_cases:
  assumes ok: "certificates_ok s" and run: "get_or_create_run_certificate cms uuids now user course_run s = (x, t)"
  shows "(\<exists>k. own_run_certificates s user course_run = [k] \<and> x = Inr (k, False) \<and> t = s) \<or>
    own_run_certificates s user course_run = [] \<and>
      (if run_certificate_taken s user course_run then x = Inl (IntegrityError ''user_id, course_run_id'') \<and> t = s
       else (\<exists>created. x = Inr (next_pk (run_certificates s), created)) \<and> grades t = grades s \<and>
         run_certificates t = run_certificates (with_run_certificate cms uuids user course_run s))"
proof -
  let ?get = "\<lambda>s. t_get ''CourseRunCertificate'' (run_certificates s)
      (\<lambda>_ c. \<not> cert_is_revoked c \<and> cert_user c = user \<and> cert_course_run c = course_run)"
  have get: "?get s = the_only ''CourseRunCertificate'' (own_run_certificates s user course_run)" for s :: "'a xpro_db_scheme"
    by (simp add: t_get_def active_run_certificates_def)
  show ?thesis
  proof (cases "own_run_certificates s user course_run")
    case (Cons k ks)
    with own_at_most_one(2) [OF ok] have "own_run_certificates s user course_run = [k]" by blast
    with run get [of s] show ?thesis by (simp add: get_or_create_run_certificate_def bindp_run Let_def the_only_def)
  next
    case Nil
    then have none: "?get s = Inl (DoesNotExist ''CourseRunCertificate'')" by (simp add: get the_only_def)
    show ?thesis
    proof (cases "run_certificate_taken s user course_run")
      case True
      then have "create_run_certificate cms uuids now user course_run s = (Inl (IntegrityError ''user_id, course_run_id''), s)"
        by (simp add: create_run_certificate_def bindp_run run_certificate_taken_def)
      with run none Nil True show ?thesis
        by (simp add: get_or_create_run_certificate_def bindp_run Let_def is_integrity_error_def)
    next
      case False
      let ?u = "with_run_certificate cms uuids user course_run s" and ?k = "next_pk (run_certificates s)"
      have wf: "wf_table (run_certificates s)" using ok by (simp add: certificates_ok_def)
      obtain y v where h: "handle_create_course_run_certificate cms uuids now ?k ?u = (y, v)" by fastforce
      note frame = handle_create_run [OF Nil wf h]
      have create: "create_run_certificate cms uuids now user course_run s = (case y of Inl e \<Rightarrow> (Inl e, v) | Inr _ \<Rightarrow> (Inr ?k, v))"
        using False h by (simp add: create_run_certificate_def bindp_run thenp_run run_certificate_taken_def
            with_run_certificate_def new_run_certificate_def split: sum.split)
      have "own_run_certificates v user course_run = [?k]"
        using frame own_run_certificates_created [OF wf Nil, of cms uuids] by (simp add: active_run_certificates_def)
      then have again: "?get v = Inr ?k" by (simp add: get the_only_def)
      from run none create frame again
      have "(\<exists>created. x = Inr (?k, created)) \<and> t = v"
        by (cases y) (auto simp: get_or_create_run_certificate_def bindp_run Let_def)
      with frame Nil False show ?thesis by simp
    qed
  qed
qed

lemma process_course_run_grade_certificate_outcome:
  assumes ok: "certificates_ok s" and g: "row (grades s) k = g" "grade_user g = user" "grade_course_run g = course_run"
    and run: "process_course_run_grade_certificate cms uuids now k s = (x, t)"
  shows "grades t = grades s \<and>
    (if grade_grade g = 0
     then own_run_certificates t user course_run = [] \<and> x = Inr (None, False, own_run_certificates s user course_run \<noteq> [])
     else if \<not> grade_passed g then x = Inr (None, False, False) \<and> t = s
     else if own_run_certificates s user course_run = [] \<and> run_certificate_taken s user course_run
     then x = Inl (IntegrityError ''user_id, course_run_id'') \<and> t = s
     else \<exists>c created. own_run_certificates t user course_run = [c] \<and> x = Inr (Some c, created, False)) \<and>
    (\<forall>c. cert_user (row (run_certificates s) c) \<noteq> user \<or> cert_course_run (row (run_certificates s) c) \<noteq> course_run \<longrightarrow>
       c \<in> set (pks (run_certificates s)) \<longrightarrow>
       c \<in> set (pks (run_certificates t)) \<and> row (run_certificates t) c = row (run_certificates s) c)"
proof -
  have wf: "wf_table (run_certificates s)" using ok by (simp add: certificates_ok_def)
  consider (zero) "grade_grade g = 0" | (failed) "grade_grade g \<noteq> 0" "\<not> grade_passed g" | (passed) "grade_grade g \<noteq> 0" "grade_passed g"
    by blast
  then show ?thesis
  proof cases
    case zero
    with run g have x: "x = Inr (None, False, own_run_certificates s user course_run \<noteq> [])"
      and t: "t = s\<lparr>run_certificates := t_delete (run_certificates s)
          (\<lambda>_ c. \<not> cert_is_revoked c \<and> cert_user c = user \<and> cert_course_run c = course_run)\<rparr>"
      by (simp_all add: process_course_run_grade_certificate_def bindp_run thenp_run Let_def)
    have "own_run_certificates t user course_run = []"
      by (simp add: t active_run_certificates_def matching_t_delete)
    with zero x show ?thesis by (auto simp: t t_delete_def)
  next
    case failed
    with run g show ?thesis by (simp add: process_course_run_grade_certificate_def bindp_run Let_def)
  next
    case passed
    obtain y v where m: "get_or_create_run_certificate cms uuids now user course_run s = (y, v)" by fastforce
    with passed run g have out: "t = v" "x = (case y of Inl e \<Rightarrow> Inl e | Inr (c, created) \<Rightarrow> Inr (Some c, created, False))"
      by (auto simp: process_course_run_grade_certificate_def bindp_run Let_def split: sum.splits prod.splits)
    let ?new = "with_run_certificate cms uuids user course_run s"
    have kept: "c \<in> set (pks (run_certificates ?new)) \<and> row (run_certificates ?new) c = row (run_certificates s) c"
      if "c \<in> set (pks (run_certificates s))" for c
      using that wf_table_fresh [OF wf] by (auto simp: with_run_certificate_def row_t_create)
    from get_or_create_run_certificate_cases [OF ok m] show ?thesis
    proof (elim disjE exE conjE)
      fix c assume "own_run_certificates s user course_run = [c]" "y = Inr (c, False)" "v = s"
      with passed show ?thesis by (simp add: out) (rule exI [of _ False], simp)
    next
      assume none: "own_run_certificates s user course_run = []" and
        made: "if run_certificate_taken s user course_run then y = Inl (IntegrityError ''user_id, course_run_id'') \<and> v = s
          else (\<exists>created. y = Inr (next_pk (run_certificates s), created)) \<and> grades v = grades s \<and>
            run_certificates v = run_certificates ?new"
      show ?thesis
      proof (cases "run_certificate_taken s user course_run")
        case True
        with made none passed show ?thesis by (simp add: out)
      next
        case False
        with made obtain created where y: "y = Inr (next_pk (run_certificates s), created)"
          and v: "grades v = grades s" "run_certificates v = run_certificates ?new" by auto
        have "own_run_certificates v user course_run = [next_pk (run_certificates s)]"
          using own_run_certificates_created [OF wf none, of cms uuids] v by (simp add: active_run_certificates_def)
        with y v kept False passed show ?thesis by (simp add: out)
      qed
    qed
  qed
qed

text \<open>
  C32: Certificates follow grades. Processing a grade of zero removes the user's certificate of the run, unless it is
  revoked; a passed one leaves the user with exactly one certificate, an old or a new one; any other one changes nothing.
  The only error is that a passed grade meets a revoked certificate, and then nothing changes. Grades and the
  certificates of other users and runs are never touched.
\<close>

theorem process_course_run_grade_certificate_spec:
  assumes ok: "certificates_ok s" and g: "row (grades s) k = g" "grade_user g = user" "grade_course_run g = course_run"
    and run: "process_course_run_grade_certificate cms uuids now k s = (x, t)"
  shows "grades t = grades s \<and>
    (if grade_grade g = 0
     then own_run_certificates t user course_run = [] \<and> x = Inr (None, False, own_run_certificates s user course_run \<noteq> [])
     else if \<not> grade_passed g then x = Inr (None, False, False) \<and> t = s
     else if own_run_certificates s user course_run = [] \<and> run_certificate_taken s user course_run
     then x = Inl (IntegrityError ''user_id, course_run_id'') \<and> t = s
     else \<exists>c created. own_run_certificates t user course_run = [c] \<and> x = Inr (Some c, created, False)) \<and>
    (\<forall>c. cert_user (row (run_certificates s) c) \<noteq> user \<or> cert_course_run (row (run_certificates s) c) \<noteq> course_run \<longrightarrow>
       c \<in> set (pks (run_certificates s)) \<longrightarrow>
       c \<in> set (pks (run_certificates t)) \<and> row (run_certificates t) c = row (run_certificates s) c)"
  by (rule process_course_run_grade_certificate_outcome [OF assms])

text \<open>
  A grade that an administrator has set is never overwritten by the courseware, nor is any grade unless an update
  is asked for; and each user has one grade per run.
\<close>

lemma ensure_course_run_grade_spec:
  assumes run: "ensure_course_run_grade user course_run edx_grade should_update s = (x, t)"
    and wf: "wf_table (grades s)" and unique: "unique_on (grades s) (\<lambda>g. (grade_user g, grade_course_run g))"
  shows "case matching (grades s) (\<lambda>_ g. grade_course_run g = course_run \<and> grade_user g = user) of
      [] \<Rightarrow> x = Inr (next_pk (grades s), True, False) \<and> grades t = snd (t_create (grades s) (new_grade user course_run edx_grade))
    | k # _ \<Rightarrow>
        (let g = row (grades s) k; changed = should_update \<and> \<not> grade_set_by_admin g \<and> graded edx_grade g \<noteq> g
         in if changed \<and> 0 \<le> eg_percent edx_grade \<and> eg_percent edx_grade \<le> 1
            then x = Inr (k, False, True) \<and> grades t = t_save (grades s) k (graded edx_grade)
            else if changed then (\<exists>m. x = Inl (ValidationError ''grade'' m)) \<and> t = s
            else x = Inr (k, False, False) \<and> t = s)"
proof (cases "matching (grades s) (\<lambda>_ g. grade_course_run g = course_run \<and> grade_user g = user)")
  case Nil
  with run show ?thesis
    by (auto simp: ensure_course_run_grade_def Let_def db_get_or_create_run t_get_or_create_def t_create_def bindp_run atomic_run
        split: if_splits)
next
  case (Cons k ks)
  have "k \<in> set (matching (grades s) (\<lambda>_ g. grade_course_run g = course_run \<and> grade_user g = user))" using Cons by simp
  have "ks = []"
  proof (cases ks)
    case (Cons j js)
    with \<open>matching (grades s) _ = k # ks\<close> distinct_matching [OF wf, of "\<lambda>_ g. grade_course_run g = course_run \<and> grade_user g = user"]
    have "j \<in> set (matching (grades s) (\<lambda>_ g. grade_course_run g = course_run \<and> grade_user g = user))" "j \<noteq> k" by auto
    with \<open>k \<in> _\<close> unique show ?thesis by (force simp: unique_on_def inj_on_def)
  qed simp
  with Cons have get: "db_get_or_create ''CourseRunGrade'' grades grades_update
      (\<lambda>_ g. grade_course_run g = course_run \<and> grade_user g = user) (new_grade user course_run edx_grade) s = (Inr (k, False), s)"
    by (simp add: db_get_or_create_run t_get_or_create_def)
  show ?thesis
  proof (cases "should_update \<and> \<not> grade_set_by_admin (row (grades s) k) \<and> graded edx_grade (row (grades s) k) \<noteq> row (grades s) k")
    case False
    with run get Cons show ?thesis
      by (auto simp: ensure_course_run_grade_def Let_def bindp_run atomic_run split: if_splits)
  next
    case True
    have clean: "grade_clean (graded edx_grade (row (grades s) k)) =
        (if eg_percent edx_grade < 0 then Inl (ValidationError ''grade'' ''Ensure this value is greater than or equal to 0.0.'')
         else if eg_percent edx_grade > 1 then Inl (ValidationError ''grade'' ''Ensure this value is less than or equal to 1.0.'')
         else Inr ())"
      by (simp add: grade_clean_def graded_def)
    from True run get Cons clean show ?thesis
      by (auto simp: ensure_course_run_grade_def Let_def bindp_run thenp_run atomic_run save_and_log_grade_def save_and_log_def
          split: if_splits)
  qed
qed


section \<open>Synchronised course runs\<close>

lemma course_run_save_InrD:
  "course_run_save now k f s = (Inr (), t) \<Longrightarrow> t = s\<lparr>course_runs := t_save (course_runs s) k f\<rparr>"
  by (auto simp: course_run_save_def bindp_run thenp_run split: sum.splits)

lemma course_run_save_Inl: "course_run_save now k f s = (Inl e, t) \<Longrightarrow> t = s"
  by (auto simp: course_run_save_def bindp_run thenp_run split: sum.splits)

lemma has_changes_synced [simp]: "\<not> has_changes d (synced_run d r)"
  by (simp add: has_changes_def synced_run_def)

lemma synced_run_id [simp]: "run_courseware_id (synced_run d r) = run_courseware_id r"
  by (simp add: synced_run_def)

lemma sync_details_unchanged:
  assumes "\<forall>d \<in> set ds. \<forall>k. runs (cd_course_id d) = Some k \<longrightarrow> \<not> has_changes d (objs k)"
  shows "sync_details now runs objs (a, b, c) ds s = (Inr (a, b, c + length (filter (\<lambda>d. runs (cd_course_id d) \<noteq> None) ds)), s)"
  using assms by (induction ds arbitrary: c) (auto split: option.split)

lemma sync_details_failures: "sync_details now runs objs (a, b, c) ds s = (Inr (a', b', c'), t) \<Longrightarrow> b \<le> b'"
proof (induction ds arbitrary: objs a b c s)
  case (Cons d ds)
  show ?case
  proof (cases "runs (cd_course_id d)")
    case None
    with Cons show ?thesis by simp
  next
    case (Some k)
    show ?thesis
    proof (cases "has_changes d (objs k)")
      case True
      obtain y u where y: "try_catch (thenp (course_run_save now k (\<lambda>_. synced_run d (objs k))) (ret True)) (\<lambda>_. ret False) s = (Inr y, u)"
        by (cases "course_run_save now k (\<lambda>_. synced_run d (objs k)) s"; cases "fst (course_run_save now k (\<lambda>_. synced_run d (objs k)) s)")
           (auto simp: thenp_run try_catch_def)
      with Cons.prems Some True have
        "sync_details now runs (objs(k := synced_run d (objs k))) (if y then (Suc a, b, c) else (a, Suc b, c)) ds u = (Inr (a', b', c'), t)"
        by (simp add: bindp_run)
      with Cons.IH show ?thesis by (cases y) fastforce+
    next
      case False
      with Cons Some show ?thesis by simp
    qed
  qed
qed simp

lemma sync_details_clean:
  assumes "sync_details now runs objs (a, b, c) ds s = (Inr (a', b, c'), t)" and "distinct (map cd_course_id ds)"
    and "\<forall>i j k. runs i = Some k \<longrightarrow> runs j = Some k \<longrightarrow> i = j"
    and "\<forall>d \<in> set ds. \<forall>k. runs (cd_course_id d) = Some k \<longrightarrow> objs k = row (course_runs s) k"
  shows "t = s\<lparr>course_runs := course_runs t\<rparr> \<and> pks (course_runs t) = pks (course_runs s) \<and>
    (\<forall>k. run_courseware_id (row (course_runs t) k) = run_courseware_id (row (course_runs s) k)) \<and>
    (\<forall>k. (\<forall>d \<in> set ds. runs (cd_course_id d) \<noteq> Some k) \<longrightarrow> row (course_runs t) k = row (course_runs s) k) \<and>
    (\<forall>d \<in> set ds. \<forall>k. runs (cd_course_id d) = Some k \<longrightarrow> \<not> has_changes d (row (course_runs t) k)) \<and>
    a' + c' = a + c + length (filter (\<lambda>d. runs (cd_course_id d) \<noteq> None) ds)"
  using assms
proof (induction ds arbitrary: objs a b c s)
  case (Cons d ds)
  show ?case
  proof (cases "runs (cd_course_id d)")
    case None
    with Cons.prems have "sync_details now runs objs (a, b, c) ds s = (Inr (a', b, c'), t)" by simp
    from Cons.IH [OF this] Cons.prems None show ?thesis by auto
  next
    case (Some k)
    have others: "runs (cd_course_id e) \<noteq> Some k" if "e \<in> set ds" for e
      using Cons.prems(2,3) Some that by (metis image_eqI list.set_map distinct.simps(2) list.map(2))
    show ?thesis
    proof (cases "has_changes d (objs k)")
      case False
      with Cons.prems Some have "sync_details now runs objs (a, b, Suc c) ds s = (Inr (a', b, c'), t)" by simp
      note IH = Cons.IH [OF this _ Cons.prems(3)]
      from False Cons.prems(4) Some have "\<not> has_changes d (row (course_runs s) k)" by simp
      with IH Cons.prems Some others show ?thesis by auto
    next
      case True
      obtain y u where y: "course_run_save now k (\<lambda>_. synced_run d (objs k)) s = (y, u)" by fastforce
      show ?thesis
      proof (cases y)
        case (Inl e)
        with y Cons.prems(1) Some True
        have "sync_details now runs (objs(k := synced_run d (objs k))) (a, Suc b, c) ds u = (Inr (a', b, c'), t)"
          by (simp add: bindp_run thenp_run)
        from sync_details_failures [OF this] show ?thesis by simp
      next
        case (Inr z)
        with y Cons.prems(1) Some True
        have rest: "sync_details now runs (objs(k := synced_run d (objs k))) (Suc a, b, c) ds u = (Inr (a', b, c'), t)"
          by (simp add: bindp_run thenp_run)
        from y Inr have u: "u = s\<lparr>course_runs := t_save (course_runs s) k (\<lambda>_. synced_run d (objs k))\<rparr>"
          by (intro course_run_save_InrD) simp
        have objs: "objs k = row (course_runs s) k" using Cons.prems(4) Some by simp
        have "\<forall>e \<in> set ds. \<forall>j. runs (cd_course_id e) = Some j \<longrightarrow> (objs(k := synced_run d (objs k))) j = row (course_runs u) j"
          using Cons.prems(4) others by (auto simp: u row_t_save)
        note IH = Cons.IH [OF rest _ Cons.prems(3) this]
        have "distinct (map cd_course_id ds)" using Cons.prems(2) by simp
        note IH = IH [OF this]
        have k: "row (course_runs t) k = synced_run d (objs k)"
          using IH others by (auto simp: u row_t_save)
        have rows: "row (course_runs u) j = (if j = k then synced_run d (objs k) else row (course_runs s) j)" for j
          by (simp add: u row_t_save)
        have "t = s\<lparr>course_runs := course_runs t\<rparr>" using IH by (simp add: u)
        moreover have "run_courseware_id (row (course_runs t) j) = run_courseware_id (row (course_runs s) j)" for j
          using IH rows [of j] objs by simp
        ultimately show ?thesis using IH k rows Some objs by (auto simp: u)
      qed
    qed
  qed
qed auto

text \<open>
  Synchronising runs is idempotent: when the courseware answers with one entry per course and every run that
  differs could be saved, the same answer a second time finds every requested run unchanged, counts it as
  such, and changes nothing.
\<close>

theorem sync_course_runs_idempotent:
  assumes run: "sync_course_runs get_courses now runs s = (Inr (a, 0, c), t)"
    and unique: "unique_on (course_runs s) run_courseware_id" and runs: "set runs \<subseteq> set (pks (course_runs s))"
    and answer: "\<And>keys. snd (get_courses keys) = None \<and> distinct (map cd_course_id (fst (get_courses keys)))"
  shows "sync_course_runs get_courses now runs t = (Inr (0, 0, a + c), t)"
proof -
  define ids where "ids k = run_courseware_id (row (course_runs s) k)" for k
  define valid where "valid = filter (\<lambda>k. is_course_key (ids k)) runs"
  define by_id where "by_id = map_of (rev (map (\<lambda>k. (ids k, k)) valid))"
  define ds where "ds = fst (get_courses (remdups (map ids valid)))"
  have ds: "get_courses (remdups (map ids valid)) = (ds, None)" "distinct (map cd_course_id ds)"
    using answer [of "remdups (map ids valid)"] by (simp_all add: ds_def prod_eq_iff)
  have unfold: "sync_course_runs get_courses now runs u =
      (if valid = [] then (Inr (0, length runs, 0), u)
       else bindp (sync_details now by_id (row (course_runs u)) (0, 0, 0) ds) (\<lambda>(success, failure, unchanged).
         ret (success, failure, unchanged)) u)"
    if "\<forall>k. run_courseware_id (row (course_runs u) k) = ids k" for u :: "'a xpro_db_scheme"
    using that ds(1) by (simp add: sync_course_runs_def bindp_run valid_def [symmetric] by_id_def)
  show ?thesis
  proof (cases "valid = []")
    case True
    with unfold [of s] run have "runs = []" "a = 0" "c = 0" "t = s" by (simp_all add: ids_def)
    with True unfold [of s] show ?thesis by (simp add: ids_def)
  next
    case False
    with unfold [of s] run have sync: "sync_details now by_id (row (course_runs s)) (0, 0, 0) ds s = (Inr (a, 0, c), t)"
      by (simp add: ids_def) (simp add: bindp_def split: prod.splits sum.splits)
    have by_idD: "ids k = i" "k \<in> set valid" if "by_id i = Some k" for i k
      using map_of_SomeD [OF that [unfolded by_id_def]] by auto
    then have inj: "\<forall>i j k. by_id i = Some k \<longrightarrow> by_id j = Some k \<longrightarrow> i = j" by metis
    note clean = sync_details_clean [OF sync ds(2) inj]
    have same: "\<forall>k. run_courseware_id (row (course_runs t) k) = ids k" using clean by (simp add: ids_def)
    from clean have "\<forall>d \<in> set ds. \<forall>k. by_id (cd_course_id d) = Some k \<longrightarrow> \<not> has_changes d (row (course_runs t) k)"
      and count: "a + c = length (filter (\<lambda>d. by_id (cd_course_id d) \<noteq> None) ds)" by simp_all
    from sync_details_unchanged [OF this(1), of now 0 0 0 t] show ?thesis
      unfolding unfold [OF same] using False count by (simp add: bindp_run)
  qed
qed

section \<open>Revoked certificates\<close>

text \<open>
  A revoked certificate ends the task that generates certificates: if the first grade of a finished run without
  active certificates is a passed one of a user whose certificate of the run has been revoked, the task raises an integrity
  error, so neither the other users nor the later runs are processed, and no certificate is made.
\<close>

theorem revoked_certificate_stops_task:
  assumes ok: "certificates_ok s" and runs: "runs_without_certificates now delay s = run # later"
    and page: "has_certificate_page cms s run" and edx: "edx_grades_of_run gs s run None = Inr ((edx_grade, user) # others)"
    and first_grade: "matching (grades s) (\<lambda>_ g. grade_course_run g = run \<and> grade_user g = user) = []"
    and passed: "eg_passed edx_grade" "eg_percent edx_grade \<noteq> 0" and revoked: "run_certificate_taken s user run"
  shows "\<exists>t. generate_course_certificates cms uuids now delay gs s = (Inl (IntegrityError ''user_id, course_run_id''), t) \<and>
    run_certificates t = run_certificates s \<and> program_certificates t = program_certificates s"
proof -
  define u where "u = s\<lparr>grades := snd (t_create (grades s) (new_grade user run edx_grade))\<rparr>"
  have ensure: "ensure_course_run_grade user run edx_grade True s = (Inr (next_pk (grades s), True, False), u)"
    using first_grade by (simp add: ensure_course_run_grade_def Let_def db_get_or_create_run t_get_or_create_def t_create_def
        bindp_run atomic_run u_def)
  have "run \<in> set (runs_without_certificates now delay s)" using runs by simp
  then have none: "own_run_certificates u user run = []"
    by (auto simp: runs_without_certificates_def active_run_certificates_def u_def matching_def filter_empty_conv)
  have ok': "certificates_ok u" using ok by (simp add: certificates_ok_def u_def)
  let ?g = "new_grade user run edx_grade"
  have g: "row (grades u) (next_pk (grades s)) = ?g" by (simp add: u_def row_t_create)
  obtain x v where p: "process_course_run_grade_certificate cms uuids now (next_pk (grades s)) u = (x, v)" by fastforce
  from process_course_run_grade_certificate_outcome [OF ok' g _ _ p, of user run] passed none revoked
  have "x = Inl (IntegrityError ''user_id, course_run_id'') \<and> v = u"
    by (simp add: new_grade_def run_certificate_taken_def u_def)
  with ensure p have one: "process_edx_grade cms uuids now run (edx_grade, user) s = (Inl (IntegrityError ''user_id, course_run_id''), u)"
    by (simp add: process_edx_grade_def bindp_run)
  have "generate_course_certificates cms uuids now delay gs s = (Inl (IntegrityError ''user_id, course_run_id''), u)"
    using runs page edx one by (simp add: generate_course_certificates_def bindp_run thenp_run)
  then show ?thesis by (simp add: u_def)
qed

text \<open>
  Revoking a certificate of a run and taking that back restores it: if the certificate was not revoked and has its
  revision, or its page has none, the tables are as before.
\<close>

lemma revoke_unrevoke_run:
  assumes found: "t_get ''CourseRunCertificate'' (run_certificates s) (\<lambda>_ c. cert_user c = user \<and>
      cert_course_run c = course_run) = Inr k"
    and run: "t_get ''CourseRun'' (course_runs s) (\<lambda>_ r. run_courseware_id r = courseware_id) = Inr course_run"
    and active: "\<not> cert_is_revoked (row (run_certificates s) k)"
    and revision: "cert_certificate_page_revision (row (run_certificates s) k) \<noteq> None \<or>
      page_revision cms (course_page cms (run_course (row (course_runs s) course_run))) = None"
    and revoke: "revoke_course_run_certificate cms user courseware_id True s = (x, t)"
  shows "x = Inr True \<and> own_run_certificates t user course_run = [] \<and>
    revoke_course_run_certificate cms user courseware_id False t = (Inr True, s)"
proof -
  let ?c = "row (run_certificates s) k"
  have k: "cert_user ?c = user" "cert_course_run ?c = course_run" using t_get_InrD [OF found] by simp_all
  have with_rev: "with_revision (page_revision cms (course_page cms (run_course (row (course_runs s) course_run)))) (?c\<lparr>cert_is_revoked := b\<rparr>)
      = ?c\<lparr>cert_is_revoked := b\<rparr>" for b
    using revision by (auto simp: with_revision_def)
  have t: "x = Inr True" "t = s\<lparr>run_certificates := t_save (run_certificates s) k (\<lambda>_. ?c\<lparr>cert_is_revoked := True\<rparr>)\<rparr>"
    using revoke run found k with_rev [of True]
    by (simp_all add: revoke_course_run_certificate_def save_run_certificate_def bindp_run thenp_run t_save_def)
  have matching: "matching (run_certificates t) (\<lambda>_ c. cert_user c = user \<and> cert_course_run c = course_run) = [k]"
  proof -
    have "matching (run_certificates s) (\<lambda>_ c. cert_user c = user \<and> cert_course_run c = course_run) = [k]"
      using found by (simp add: t_get_def the_only_Inr)
    then show ?thesis using k by (simp add: t matching_t_save)
  qed
  have "own_run_certificates t user course_run = filter (\<lambda>j. \<not> cert_is_revoked (row (run_certificates t) j))
      (matching (run_certificates t) (\<lambda>_ c. cert_user c = user \<and> cert_course_run c = course_run))"
    unfolding active_run_certificates_def matching_def by (simp add: conj_ac)
  then have none: "own_run_certificates t user course_run = []" unfolding matching by (simp add: t)
  have found': "t_get ''CourseRunCertificate'' (run_certificates t) (\<lambda>_ c. cert_user c = user \<and> cert_course_run c = course_run) = Inr k"
    using matching by (simp add: t_get_def the_only_Inr)
  have restored: "?c\<lparr>cert_is_revoked := False\<rparr> = ?c" using active by simp
  have rows: "course_runs t = course_runs s" "row (run_certificates t) k = ?c\<lparr>cert_is_revoked := True\<rparr>" by (simp_all add: t)
  have "t\<lparr>run_certificates := t_save (run_certificates t) k (\<lambda>_. ?c)\<rparr> = s" by (simp add: t t_save_def)
  moreover have "t_save (run_certificates t) k (\<lambda>c. with_revision (page_revision cms (course_page cms (run_course (row (course_runs s) course_run))))
      (c\<lparr>cert_is_revoked := False\<rparr>)) = t_save (run_certificates t) k (\<lambda>_. ?c)"
    using with_rev [of False] restored rows by (simp add: t_save_def)
  ultimately have "revoke_course_run_certificate cms user courseware_id False t = (Inr True, s)"
    using run found' k rows by (simp add: revoke_course_run_certificate_def save_run_certificate_def bindp_run thenp_run)
  with t none show ?thesis by simp
qed

section \<open>Examples\<close>

definition example_certificate :: "nat \<Rightarrow> bool \<Rightarrow> run_certificate_row" where
  "example_certificate course_run revoked =
     \<lparr>cert_user = 1, cert_uuid = ''u'', cert_is_revoked = revoked, cert_certificate_page_revision = Some 1,
      cert_course_run = course_run\<rparr>"

definition example_certified :: "unit xpro_db_scheme" where
  "example_certified = example_xpro ()
     \<lparr>run_certificates := table_of (example_certificate 0 False) [example_certificate 1 False, example_certificate 3 False],
      grades := table_of example_grade [new_grade 1 1 \<lparr>eg_percent = 9 / 10, eg_passed = True, eg_letter_grade = None\<rparr>]\<rparr>"

lemma example_certificates_ok: "certificates_ok example_certified \<and> wf_table (program_enrollments example_certified)"
  by (simp add: certificates_ok_def example_certified_def example_xpro_def table_of_def empty_table_def wf_table_def unique_on_def inj_on_def
      example_certificate_def)

text \<open>
  Certificates are counted, not courses: a user with the certificates of two runs of the first course and none of the
  second gets the certificate of the program.
\<close>

lemma program_certificate_without_all_courses:
  "fst (generate_program_certificate no_cms_pages (\<lambda>_. ''u'') 10 1 1 example_certified) = Inr (Some 1, True) \<and>
   set (courses_in_program_ids example_certified 1) = {1, 2} \<and>
   active_run_certificates example_certified (\<lambda>c. run_course (row (course_runs example_certified) (cert_course_run c)) = 2) = []"
  by code_simp

lemma generate_program_certificate_spec_witness:
  "own_program_certificates (snd (generate_program_certificate no_cms_pages (\<lambda>_. ''u'') 10 1 1 example_certified)) 1 1 = [1]"
  using generate_program_certificate_spec [OF _ _ prod.collapse [symmetric], of example_certified no_cms_pages "\<lambda>_. ''u''" 10 1 1]
    example_certificates_ok program_certificate_without_all_courses by simp

lemma process_course_run_grade_certificate_spec_witness:
  "\<exists>c created. own_run_certificates (snd (process_course_run_grade_certificate no_cms_pages (\<lambda>_. ''u'') 10 1 example_certified)) 1 1 = [c]"
proof -
  let ?g = "new_grade 1 1 \<lparr>eg_percent = 9 / 10, eg_passed = True, eg_letter_grade = None\<rparr>"
  have "row (grades example_certified) 1 = ?g" by (simp add: example_certified_def table_of_def)
  moreover have "own_run_certificates example_certified 1 1 \<noteq> []" by code_simp
  ultimately show ?thesis
    using process_course_run_grade_certificate_spec [OF conjunct1 [OF example_certificates_ok] _ _ _ prod.collapse [symmetric],
        of 1 ?g 1 1 no_cms_pages "\<lambda>_. ''u''" 10]
    by (simp add: new_grade_def) blast
qed

definition example_admin_grade :: "unit xpro_db_scheme" where
  "example_admin_grade = example_certified\<lparr>grades := t_save (grades example_certified) 1 (\<lambda>g. g\<lparr>grade_set_by_admin := True\<rparr>)\<rparr>"

lemma ensure_course_run_grade_spec_witness:
  "snd (ensure_course_run_grade 1 1 \<lparr>eg_percent = 0, eg_passed = False, eg_letter_grade = None\<rparr> True example_admin_grade) = example_admin_grade"
proof -
  have "matching (grades example_admin_grade) (\<lambda>_ g. grade_course_run g = 1 \<and> grade_user g = 1) = [1]" by code_simp
  moreover have "grade_set_by_admin (row (grades example_admin_grade) 1)" by (simp add: example_admin_grade_def)
  moreover have "wf_table (grades example_admin_grade)" "unique_on (grades example_admin_grade) (\<lambda>g. (grade_user g, grade_course_run g))"
    by (simp_all add: example_admin_grade_def example_certified_def wf_table_def table_of_def unique_on_def inj_on_def)
  ultimately show ?thesis
    using ensure_course_run_grade_spec [OF prod.collapse [symmetric], of example_admin_grade 1 1
        "\<lparr>eg_percent = 0, eg_passed = False, eg_letter_grade = None\<rparr>" True]
    by (simp add: Let_def)
qed

lemma revoke_unrevoke_run_witness:
  "revoke_course_run_certificate no_cms_pages 1 ''c1-R1'' False
     (snd (revoke_course_run_certificate no_cms_pages 1 ''c1-R1'' True example_certified)) = (Inr True, example_certified)"
proof -
  have "t_get ''CourseRunCertificate'' (run_certificates example_certified) (\<lambda>_ c. cert_user c = 1 \<and> cert_course_run c = 1) = Inr 1"
    "t_get ''CourseRun'' (course_runs example_certified) (\<lambda>_ r. run_courseware_id r = ''c1-R1'') = Inr 1" by code_simp+
  from revoke_unrevoke_run [OF this _ _ prod.collapse [symmetric], of no_cms_pages] show ?thesis
    by (simp add: example_certified_def table_of_def example_certificate_def no_cms_pages_def page_revision_def)
qed

definition example_detail :: course_detail where
  "example_detail = \<lparr>cd_course_id = ''course-v1:a+b+c'', cd_name = ''new'', cd_start = Some 20, cd_end = Some 30,
     cd_enrollment_start = None, cd_enrollment_end = None\<rparr>"

definition example_synced :: "unit xpro_db_scheme" where
  "example_synced = example_xpro ()\<lparr>course_runs := table_of (example_run 0 [] [])
     [(example_run 1 ''c1-R1'' ''R1'')\<lparr>run_courseware_id := ''course-v1:a+b+c''\<rparr>]\<rparr>"

lemma example_sync: "fst (sync_course_runs (\<lambda>_. ([example_detail], None)) 10 [1] example_synced) = Inr (1, 0, 0)"
  by code_simp

lemma sync_course_runs_idempotent_witness:
  "let t = snd (sync_course_runs (\<lambda>_. ([example_detail], None)) 10 [1] example_synced)
   in sync_course_runs (\<lambda>_. ([example_detail], None)) 10 [1] t = (Inr (0, 0, 1), t)"
proof -
  have "sync_course_runs (\<lambda>_. ([example_detail], None)) 10 [1] example_synced =
      (Inr (1, 0, 0), snd (sync_course_runs (\<lambda>_. ([example_detail], None)) 10 [1] example_synced))"
    by (metis example_sync prod.collapse)
  from sync_course_runs_idempotent [OF this] show ?thesis
    by (simp add: Let_def example_synced_def unique_on_def table_of_def)
qed

definition example_revoked :: "unit xpro_db_scheme" where
  "example_revoked = example_xpro ()\<lparr>run_certificates := table_of (example_certificate 0 False) [example_certificate 1 True],
     course_runs := table_of (example_run 0 [] []) [(example_run 1 ''c1-R1'' ''R1'')\<lparr>run_end_date := Some 5\<rparr>]\<rparr>"

definition example_pages :: cms_pages where
  "example_pages = no_cms_pages\<lparr>course_page := (\<lambda>_. Some (Some 1))\<rparr>"

definition example_grades :: grade_service where
  "example_grades = \<lparr>course_grades = (\<lambda>_. Inr [(user_username (row (users example_revoked) 1),
       \<lparr>eg_percent = 9 / 10, eg_passed = True, eg_letter_grade = None\<rparr>)]), student_grade = (\<lambda>_ _. Inl HTTPError)\<rparr>"

lemma example_revoked_run:
  "runs_without_certificates 100 10 example_revoked = [1]" "has_certificate_page example_pages example_revoked 1"
  "edx_grades_of_run example_grades example_revoked 1 None = Inr [(\<lparr>eg_percent = 9 / 10, eg_passed = True, eg_letter_grade = None\<rparr>, 1)]"
  "matching (grades example_revoked) (\<lambda>_ g. grade_course_run g = 1 \<and> grade_user g = 1) = []"
  "run_certificate_taken example_revoked 1 1"
  by code_simp+

lemma revoked_certificate_stops_task_witness:
  "fst (generate_course_certificates example_pages (\<lambda>_. ''u'') 100 10 example_grades example_revoked) = Inl (IntegrityError ''user_id, course_run_id'')"
proof -
  have "certificates_ok example_revoked"
    by (simp add: certificates_ok_def example_revoked_def example_xpro_def table_of_def empty_table_def wf_table_def unique_on_def inj_on_def)
  from revoked_certificate_stops_task [OF this example_revoked_run(1-4) _ _ example_revoked_run(5), of "\<lambda>_. ''u''"] show ?thesis
    by auto
qed

end
