(* ===== verification/Enrollment_Admin.thy ===== *)
theory Enrollment_Admin
  imports Orders
begin

text \<open>
  The management commands that change enrollments: \<open>courses/management/utils.py\<close> and the commands
  \<open>refund_enrollment\<close>, \<open>transfer_enrollment\<close>, \<open>defer_enrollment\<close> and \<open>create_enrollment\<close>.
\<close>

section \<open>The base of the commands\<close>

definition run_enrollment_summary :: "'z xpro_db_scheme \<Rightarrow> nat \<Rightarrow> string" where
  "run_enrollment_summary s k =
     ''<CourseRunEnrollment: id='' @ int_str (int k) @ '', run='' @
       run_courseware_id (row (course_runs s) (enr_run (row (run_enrollments s) k))) @ ''>''"

definition program_enrollment_summary :: "'z xpro_db_scheme \<Rightarrow> nat \<Rightarrow> string" where
  "program_enrollment_summary s k =
     ''<ProgramEnrollment: id='' @ int_str (int k) @ '', program='' @
       prog_readable_id (row (programs s) (enr_program (row (program_enrollments s) k))) @ ''>''"

text \<open>The fields that \<open>create_or_update_enrollment\<close> gives an enrollment.\<close>

definition transferred_fields :: "nat option \<Rightarrow> nat option \<Rightarrow> 'e enrollment_row_scheme \<Rightarrow> 'e enrollment_row_scheme" where
  "transferred_fields company order e =
     e\<lparr>enr_company := company, enr_order := order, enr_active := True, enr_change_status := None\<rparr>"

definition latest_run_enrollment :: "'z xpro_db_scheme \<Rightarrow> nat \<Rightarrow> nat \<Rightarrow> nat option" where
  "latest_run_enrollment s user run =
     first_of (order_by_desc (\<lambda>k. enr_created_on (row (run_enrollments s) k))
       (matching (run_enrollments s) (\<lambda>_ e. enr_user e = user \<and> enr_run e = run)))"

definition create_or_update_run_enrollment ::
  "int \<Rightarrow> nat option \<Rightarrow> nat option \<Rightarrow> nat \<Rightarrow> nat \<Rightarrow> ('z xpro_db_scheme, nat \<times> bool) prog" where
  "create_or_update_run_enrollment now company order user run =
     bindp (asks (\<lambda>s. latest_run_enrollment s user run)) (\<lambda>found.
     case found of
       None \<Rightarrow>
         bindp (db_create run_enrollments run_enrollments_update (new_run_enrollment now user run order company False))
           (\<lambda>k. ret (k, True))
     | Some k \<Rightarrow>
         bindp (asks (\<lambda>s. (row (run_enrollments s) k,
             t_exists (run_enrollments s) (\<lambda>j e. j \<noteq> k \<and> enr_user e = user \<and> enr_run e = run \<and> order \<noteq> None \<and> enr_order e = order))))
           (\<lambda>(e, taken).
         if transferred_fields company order e = e then ret (k, False)
         else if taken then raise (IntegrityError ''user_id, run_id, order_id'')
         else thenp (save_and_log_run_enrollment k (transferred_fields company order) None) (ret (k, False))))"

definition create_or_update_program_enrollment ::
  "int \<Rightarrow> nat option \<Rightarrow> nat option \<Rightarrow> nat \<Rightarrow> nat \<Rightarrow> ('z xpro_db_scheme, nat \<times> bool) prog" where
  "create_or_update_program_enrollment now company order user program =
     bindp (asks (\<lambda>s. first_of (order_by_desc (\<lambda>k. enr_created_on (row (program_enrollments s) k))
              (matching (program_enrollments s) (\<lambda>_ e. enr_user e = user \<and> enr_program e = program))))) (\<lambda>found.
     case found of
       None \<Rightarrow>
         bindp (db_create program_enrollments program_enrollments_update (new_program_enrollment now user program order company))
           (\<lambda>k. ret (k, True))
     | Some k \<Rightarrow>
         bindp (asks (\<lambda>s. (row (program_enrollments s) k,
             t_exists (program_enrollments s)
               (\<lambda>j e. j \<noteq> k \<and> enr_user e = user \<and> enr_program e = program \<and> order \<noteq> None \<and> enr_order e = order))))
           (\<lambda>(e, taken).
         if transferred_fields company order e = e then ret (k, False)
         else if taken then raise (IntegrityError ''user_id, program_id, order_id'')
         else thenp (save_and_log_program_enrollment k (transferred_fields company order) None) (ret (k, False))))"

definition enroll_in_edx :: "edx_service \<Rightarrow> nat \<Rightarrow> nat list \<Rightarrow> ('z xpro_db_scheme, bool) prog" where
  "enroll_in_edx sv user rs =
     try_catch (thenp (bindp (enroll_in_edx_course_runs sv user rs True) (\<lambda>_. ret ())) (ret True))
       (\<lambda>e. if e \<in> {EdxEnrollError, EdxUnknownEnrollError, NoEdxApiAuthError} then ret False else raise e)"

text \<open>
  \<open>EnrollmentChangeCommand.create_run_enrollment\<close>: an enrollment like an existing one, for another user; nothing is
  answered when the courseware refuses, and an enrollment that is new is then taken back.
\<close>

definition copy_run_enrollment ::
  "edx_service \<Rightarrow> bool \<Rightarrow> int \<Rightarrow> nat \<Rightarrow> nat \<Rightarrow> bool \<Rightarrow> ('z xpro_db_scheme, nat option) prog" where
  "copy_run_enrollment sv welcome_enabled now existing_enrollment to_user keep_failed_enrollments =
     bindp (asks (\<lambda>s. row (run_enrollments s) existing_enrollment)) (\<lambda>existing.
     bindp (create_or_update_run_enrollment now (enr_company existing) (enr_order existing) to_user (enr_run existing)) (\<lambda>(k, created).
     bindp (enroll_in_edx sv to_user [enr_run existing]) (\<lambda>enrolled_in_edx.
     if enrolled_in_edx
     then thenp (save_and_log_run_enrollment k (\<lambda>e. e\<lparr>enr_edx_enrolled := True\<rparr>) None)
         (thenp (send_course_run_enrollment_welcome_email welcome_enabled k)
            (ret (Some k)))
     else if \<not> keep_failed_enrollments
     then thenp (whenp created (db_delete run_enrollments run_enrollments_update (\<lambda>j _. j = k))) (ret None)
     else ret (Some k))))"

definition copy_program_enrollment ::
  "edx_service \<Rightarrow> bool \<Rightarrow> int \<Rightarrow> nat \<Rightarrow> nat \<Rightarrow> bool \<Rightarrow> ('z xpro_db_scheme, (nat \<times> nat list) option) prog" where
  "copy_program_enrollment sv welcome_enabled now existing_enrollment to_user keep_failed_enrollments =
     bindp (asks (\<lambda>s. (row (program_enrollments s) existing_enrollment, get_run_enrollments s existing_enrollment None)))
       (\<lambda>(existing, existing_run_enrollments).
     bindp (collect_each existing_run_enrollments (\<lambda>e. copy_run_enrollment sv welcome_enabled now e to_user keep_failed_enrollments)) (\<lambda>created.
     let created_run_enrollments = concat (map the_list created)
     in if created_run_enrollments = [] then ret None
        else bindp (create_or_update_program_enrollment now (enr_company existing) (enr_order existing) to_user (enr_program existing))
               (\<lambda>(program_enrollment, _). ret (Some (program_enrollment, created_run_enrollments)))))"

record change_options =
  cho_program :: "string option"
  cho_run :: "string option"
  cho_order :: "string option"
  cho_force :: bool
  cho_keep_failed_enrollments :: bool

definition text_given :: "string option \<Rightarrow> bool" where
  "text_given v \<longleftrightarrow> (case v of None \<Rightarrow> False | Some t \<Rightarrow> t \<noteq> [])"

text \<open>The enrollment that the options name: one of a program (with the program) or one of a run.\<close>

datatype fetched_enrollment = FetchedProgram nat nat | FetchedRun nat nat

definition order_filter :: "string option \<Rightarrow> exn + (nat option \<Rightarrow> bool)" where
  "order_filter order =
     (if \<not> text_given order then Inr (\<lambda>_. True)
      else case py_int (the order) of
             Inl e \<Rightarrow> Inl e
           | Inr n \<Rightarrow> Inr (\<lambda>oid. map_option int oid = Some n))"

definition fetch_enrollment :: "nat \<Rightarrow> change_options \<Rightarrow> ('z xpro_db_scheme, fetched_enrollment) prog" where
  "fetch_enrollment user options =
     (if text_given (cho_program options) \<and> text_given (cho_run options)
      then raise (CommandError ''Either program or run should be provided, not both.'')
      else if \<not> text_given (cho_program options) \<and> \<not> text_given (cho_run options)
      then raise (CommandError ''Either program or run must be provided.'')
      else
        bindp (if text_given (cho_program options)
               then bindp (db_get ''Program'' programs (\<lambda>_ p. prog_readable_id p = the (cho_program options))) (\<lambda>program.
                    bindp (lift_result (order_filter (cho_order options))) (\<lambda>of_order.
                    bindp (asks (\<lambda>s. (t_first (program_enrollments s) (\<lambda>_ e. enr_user e = user \<and> enr_program e = program \<and> of_order (enr_order e)),
                              program_str (row (programs s) program)))) (\<lambda>(found, name).
                    case found of
                      None \<Rightarrow> raise (CommandError (''Enrollment not found for: '' @ name))
                    | Some k \<Rightarrow> bindp (asks (\<lambda>s. enr_active (row (program_enrollments s) k))) (\<lambda>active. ret (FetchedProgram k program, k, active)))))
               else bindp (db_get ''CourseRun'' course_runs (\<lambda>_ r. run_courseware_id r = the (cho_run options))) (\<lambda>run.
                    bindp (lift_result (order_filter (cho_order options))) (\<lambda>of_order.
                    bindp (asks (\<lambda>s. (t_first (run_enrollments s) (\<lambda>_ e. enr_user e = user \<and> enr_run e = run \<and> of_order (enr_order e)),
                              run_str (row (course_runs s) run)))) (\<lambda>(found, name).
                    case found of
                      None \<Rightarrow> raise (CommandError (''Enrollment not found for: '' @ name))
                    | Some k \<Rightarrow> bindp (asks (\<lambda>s. enr_active (row (run_enrollments s) k))) (\<lambda>active. ret (FetchedRun k run, k, active))))))
          (\<lambda>(fetched, k, active).
        if \<not> active \<and> \<not> cho_force options
        then raise (CommandError (''The given enrollment is not active ('' @ int_str (int k) @ '').'' @ [CHR 0x0A] @
               ''Add the -f/--force flag if you want to change the status anyway.''))
        else ret fetched))"

section \<open>Refunds\<close>

text \<open>\<open>refund_enrollment\<close>: the enrollments affected (none when the refund failed).\<close>

definition refund_enrollment ::
  "edx_service \<Rightarrow> (string \<Rightarrow> bool) \<Rightarrow> string \<Rightarrow> change_options \<Rightarrow> ('z shop_db_scheme, nat option \<times> nat list) prog" where
  "refund_enrollment sv is_email user options =
     bindp (asks (\<lambda>s. fetch_user is_email s user True)) (\<lambda>found.
     bindp (lift_result found) (\<lambda>user.
     bindp (fetch_enrollment user options) (\<lambda>enrollment.
     bindp (case enrollment of
              FetchedProgram k _ \<Rightarrow>
                bindp (deactivate_program_enrollment sv k (Some Refunded) (cho_keep_failed_enrollments options) True) (\<lambda>r.
                bindp (asks (\<lambda>s. enr_order (row (program_enrollments s) k))) (\<lambda>order.
                ret (case r of None \<Rightarrow> (None, []) | Some (p, rs) \<Rightarrow> (Some p, rs), order)))
            | FetchedRun k _ \<Rightarrow>
                bindp (deactivate_run_enrollment sv k (Some Refunded) (cho_keep_failed_enrollments options)) (\<lambda>r.
                bindp (asks (\<lambda>s. enr_order (row (run_enrollments s) k))) (\<lambda>order.
                ret ((None, the_list r), order)))) (\<lambda>(affected, order).
     thenp (case order of
              None \<Rightarrow> ret ()
            | Some order \<Rightarrow>
                whenp (affected \<noteq> (None, [])) (save_and_log_order order (\<lambda>r. r\<lparr>ord_status := OrderRefunded\<rparr>) None))
       (ret affected)))))"

section \<open>Transfers\<close>

definition transfer_enrollment ::
  "edx_service \<Rightarrow> bool \<Rightarrow> (string \<Rightarrow> bool) \<Rightarrow> int \<Rightarrow> string \<Rightarrow> string \<Rightarrow> change_options \<Rightarrow>
     ('z xpro_db_scheme, nat option \<times> nat list) prog" where
  "transfer_enrollment sv welcome_enabled is_email now from_user to_user options =
     (let keep = cho_keep_failed_enrollments options
      in bindp (asks (\<lambda>s. fetch_user is_email s from_user True)) (\<lambda>found.
         bindp (lift_result found) (\<lambda>from_user.
         bindp (asks (\<lambda>s. fetch_user is_email s to_user True)) (\<lambda>found.
         bindp (lift_result found) (\<lambda>to_user.
         bindp (fetch_enrollment from_user options) (\<lambda>enrollment.
         case enrollment of
           FetchedProgram k program \<Rightarrow>
             bindp (asks (\<lambda>s. get_program_run_enrollments s to_user program None)) (\<lambda>to_user_existing.
             if to_user_existing \<noteq> []
             then raise (CommandError ([CHR 0x27] @ ''to'' @ [CHR 0x27] @ '' user is already enrolled in program runs''))
             else
               bindp (copy_program_enrollment sv welcome_enabled now k to_user keep) (\<lambda>new.
               case new of
                 None \<Rightarrow> ret (None, [])
               | Some (program_enrollment, new_runs) \<Rightarrow>
                   bindp (deactivate_program_enrollment sv k (Some Transferred) keep True) (\<lambda>_.
                   ret (Some program_enrollment, new_runs))))
         | FetchedRun k _ \<Rightarrow>
             bindp (copy_run_enrollment sv welcome_enabled now k to_user keep) (\<lambda>new.
             case new of
               None \<Rightarrow> ret (None, [])
             | Some run_enrollment \<Rightarrow>
                 bindp (deactivate_run_enrollment sv k (Some Transferred) keep) (\<lambda>_.
                 ret (None, [run_enrollment])))))))))"

section \<open>Deferrals\<close>

definition defer_enrollment_command ::
  "edx_service \<Rightarrow> bool \<Rightarrow> (string \<Rightarrow> bool) \<Rightarrow> int \<Rightarrow> string \<Rightarrow> string \<Rightarrow> string \<Rightarrow> bool \<Rightarrow> bool \<Rightarrow>
     ('z xpro_db_scheme, nat option \<times> nat) prog" where
  "defer_enrollment_command sv welcome_enabled is_email now user from_courseware_id to_courseware_id keep_failed_enrollments force =
     bindp (asks (\<lambda>s. fetch_user is_email s user True)) (\<lambda>found.
     bindp (lift_result found) (\<lambda>user.
     bindp (try_catch (defer_enrollment sv welcome_enabled now user from_courseware_id to_courseware_id keep_failed_enrollments force)
              (\<lambda>e. raise (case e of
                 DoesNotExist model \<Rightarrow>
                   CommandError (if model = ''CourseRunEnrollment''
                     then [CHR 0x27] @ ''from'' @ [CHR 0x27] @ '' course run enrollment does not exist ('' @ from_courseware_id @ '')''
                     else if model = ''CourseRun''
                     then [CHR 0x27] @ ''to'' @ [CHR 0x27] @ '' course does not exist ('' @ to_courseware_id @ '')'' else model)
               | ValidationError _ message \<Rightarrow> CommandError (''Invalid enrollment deferral - '' @ message)
               | e \<Rightarrow> e))) (\<lambda>(from_enrollment, to_enrollment).
     case to_enrollment of
       None \<Rightarrow> raise (CommandError (''Failed to create/update the target enrollment ('' @ to_courseware_id @ '')''))
     | Some to_enrollment \<Rightarrow>
         (case from_enrollment of
            None \<Rightarrow> raise (AttributeError ''run'')
          | Some _ \<Rightarrow> ret (from_enrollment, to_enrollment)))))"

section \<open>Enrollments with a code\<close>

text \<open>The transaction of the command: the order and the enrollment.\<close>

definition create_enrollment_order ::
  "shop_config \<Rightarrow> bool \<Rightarrow> nat \<Rightarrow> nat \<Rightarrow> decimal \<Rightarrow> ('z shop_db_scheme, nat) prog" where
  "create_enrollment_order cfg keep_failed_enrollments user course_run total_price_paid =
     transaction
       (bindp (db_create orders orders_update
          ((new_order (sc_now cfg) user)\<lparr>ord_status := OrderFulfilled, ord_total_price_paid := total_price_paid\<rparr>)) (\<lambda>order.
        thenp (try_catch
            (bindp (create_run_enrollments (sc_edx cfg) (sc_welcome_enabled cfg) (sc_now cfg) user [course_run]
                      keep_failed_enrollments (Some order) None) (\<lambda>(successful_enrollments, _).
             if successful_enrollments = [] then raise (EdxEnrollmentCreateError []) else ret ()))
          (\<lambda>e. raise (case e of EdxEnrollmentCreateError _ \<Rightarrow> CommandError ''Failed to create the enrollment record'' | _ \<Rightarrow> e)))
          (ret order)))"

text \<open>What follows the transaction: the assignments of the code, the line and the redemption.\<close>

definition record_enrollment_order ::
  "nat \<Rightarrow> nat \<Rightarrow> nat \<Rightarrow> nat \<Rightarrow> nat \<Rightarrow> ('z shop_db_scheme, nat \<times> nat) prog" where
  "record_enrollment_order user coupon coupon_version product_version order =
     bindp (asks (\<lambda>s. (user_email (row (users s) user), matching (coupon_eligibilities s) (\<lambda>_ e. ce_coupon e = coupon))))
       (\<lambda>(email, product_coupons).
     thenp (db_update product_coupon_assignments product_coupon_assignments_update
              (\<lambda>_ a. case_insensitive_equal (pca_email a) email \<and> \<not> pca_redeemed a \<and> pca_product_coupon a \<in> set product_coupons)
              (\<lambda>a. a\<lparr>pca_redeemed := True\<rparr>))
      (bindp (db_create lines lines_update
                \<lparr>line_order = order, line_product_version = product_version, line_quantity = 1\<rparr>) (\<lambda>line.
       bindp (redeem_coupon coupon_version order) (\<lambda>_.
       ret (order, line)))))"

definition create_enrollment ::
  "shop_config \<Rightarrow> (string \<Rightarrow> bool) \<Rightarrow> string \<Rightarrow> string \<Rightarrow> string \<Rightarrow> bool \<Rightarrow> ('z shop_db_scheme, nat \<times> nat) prog" where
  "create_enrollment cfg is_email user run code keep_failed_enrollments =
     bindp (asks (\<lambda>s. fetch_user is_email s user True)) (\<lambda>found.
     bindp (lift_result found) (\<lambda>user.
     bindp (asks (\<lambda>s. (t_first (course_runs s) (\<lambda>_ r. run_courseware_id r = run),
        first_of (active_products s (\<lambda>p. case prod_content p of
          CourseRunContent k \<Rightarrow> k \<in> set (matching (course_runs s) (\<lambda>_ r. run_courseware_id r = run)) | _ \<Rightarrow> False)),
        t_first (coupons s) (\<lambda>_ c. coupon_code c = code)))) (\<lambda>(run_found, product_found, coupon_found).
     case (run_found, product_found, coupon_found) of
       (None, _, _) \<Rightarrow> raise (CommandError (''Could not find course run with courseware_id='' @ run))
     | (Some _, None, _) \<Rightarrow> raise (CommandError (''No product found for that course with courseware_id='' @ run))
     | (Some _, Some _, None) \<Rightarrow> raise (CommandError (''That enrollment code '' @ code @ '' does not exist''))
     | (Some course_run, Some product, Some coupon) \<Rightarrow>
         bindp (asks (\<lambda>s. best_coupon_for_product (sc_now cfg) s product user False (Some (coupon_code (row (coupons s) coupon))))) (\<lambda>best.
         bindp (lift_result best) (\<lambda>coupon_version.
         case coupon_version of
           None \<Rightarrow> raise (CommandError (''Enrollment code '' @ code @ '' is invalid for course run '' @ run))
         | Some version \<Rightarrow>
             bindp (asks (\<lambda>s. latest_product_version s product)) (\<lambda>pv.
             case pv of
               None \<Rightarrow> raise (AttributeError ''price'')
             | Some product_version \<Rightarrow>
                 bindp (asks (\<lambda>s. get_product_version_price_with_discount s coupon_version product_version)) (\<lambda>total_price_paid.
                 bindp (create_enrollment_order cfg keep_failed_enrollments user course_run total_price_paid)
                   (record_enrollment_order user coupon version product_version))))))))"

section \<open>Copies of an enrollment\<close>

lemma latest_run_enrollmentD:
  "latest_run_enrollment s user run = Some k \<Longrightarrow>
     k \<in> set (pks (run_enrollments s)) \<and> enr_user (row (run_enrollments s) k) = user \<and> enr_run (row (run_enrollments s) k) = run"
  unfolding latest_run_enrollment_def by (drule first_order_by_desc_in) simp

lemma only_sends_try_catch [sends_intros]:
  assumes "only_sends m" and "\<And>e. only_sends (h e)"
  shows "only_sends (try_catch m h)"
  unfolding only_sends_def
proof
  fix s
  obtain r s1 where m: "m s = (r, s1)" by fastforce
  then obtain c1 where c1: "s1 = s\<lparr>effects := effects s @ c1\<rparr>"
    using only_sendsD [OF assms(1)] by blast
  show "\<exists>calls. snd (try_catch m h s) = s\<lparr>effects := effects s @ calls\<rparr>"
  proof (cases r)
    case (Inr a)
    with m c1 show ?thesis by (simp add: try_catch_def) blast
  next
    case (Inl e)
    from assms(2) [of e] obtain c2 where "snd (h e s1) = s1\<lparr>effects := effects s1 @ c2\<rparr>"
      by (auto simp: only_sends_def)
    with Inl m c1 show ?thesis by (simp add: try_catch_def) (metis append_assoc)
  qed
qed

lemma only_sends_enroll_in_edx [sends_intros]: "only_sends (enroll_in_edx sv user rs)"
  unfolding enroll_in_edx_def by (intro sends_intros) (simp add: sends_intros)

text \<open>Whether the enrollment is new or the latest one the user has in the run, it carries the given order and company.\<close>

lemma create_or_update_run_InrD:
  assumes "create_or_update_run_enrollment now company order user run s = (Inr (k, created), s')"
  shows "(if created
     then latest_run_enrollment s user run = None \<and> k = next_pk (run_enrollments s) \<and>
       run_enrollments s' = snd (t_create (run_enrollments s) (new_run_enrollment now user run order company False))
     else latest_run_enrollment s user run = Some k \<and> pks (run_enrollments s') = pks (run_enrollments s) \<and>
       row (run_enrollments s') = (row (run_enrollments s))(k := transferred_fields company order (row (run_enrollments s) k)))"
proof (cases "latest_run_enrollment s user run")
  case None
  with assms show ?thesis by (auto simp: create_or_update_run_enrollment_def bindp_run)
next
  case (Some j)
  with assms show ?thesis
    by (auto simp: create_or_update_run_enrollment_def bindp_run thenp_run save_and_log_run_enrollment_run Let_def t_save_def
        fun_eq_iff split: if_splits)
qed

text \<open>
  C19: Giving another user an enrollment like an existing one: when it is reported, the user has an active enrollment in the
  run with the order and the company of the original, known to the courseware unless failures are kept. When
  the courseware refused and failures are not kept nothing is reported; an enrollment that would have been new is gone
  again, but one that the user had before (even a deactivated one) stays active with the order and company of
  the original. No other enrollment is touched.
\<close>

theorem copy_run_enrollment_spec:
  assumes "wf_table (run_enrollments s)"
    and "copy_run_enrollment sv w now e to_user keep s = (Inr r, s')"
  shows "case r of
      Some k \<Rightarrow> k \<in> set (pks (run_enrollments s')) \<and> enr_user (row (run_enrollments s') k) = to_user \<and>
        enr_run (row (run_enrollments s') k) = enr_run (row (run_enrollments s) e) \<and> enr_active (row (run_enrollments s') k) \<and>
        enr_order (row (run_enrollments s') k) = enr_order (row (run_enrollments s) e) \<and>
        enr_company (row (run_enrollments s') k) = enr_company (row (run_enrollments s) e) \<and>
        (keep \<or> enr_edx_enrolled (row (run_enrollments s') k)) \<and>
        (\<forall>j \<in> set (pks (run_enrollments s)). j \<noteq> k \<longrightarrow> row (run_enrollments s') j = row (run_enrollments s) j)
    | None \<Rightarrow> \<not> keep \<and> pks (run_enrollments s') = pks (run_enrollments s) \<and>
        (\<forall>j \<in> set (pks (run_enrollments s)). row (run_enrollments s') j =
           (if latest_run_enrollment s to_user (enr_run (row (run_enrollments s) e)) = Some j
            then transferred_fields (enr_company (row (run_enrollments s) e)) (enr_order (row (run_enrollments s) e))
                   (row (run_enrollments s) j)
            else row (run_enrollments s) j))"
proof -
  let ?e = "row (run_enrollments s) e"
  obtain k created s1 where c: "create_or_update_run_enrollment now (enr_company ?e) (enr_order ?e) to_user (enr_run ?e) s = (Inr (k, created), s1)"
    and rest1: "bindp (enroll_in_edx sv to_user [enr_run ?e]) (\<lambda>enrolled_in_edx.
     if enrolled_in_edx
     then thenp (save_and_log_run_enrollment k (\<lambda>e. e\<lparr>enr_edx_enrolled := True\<rparr>) None)
         (thenp (send_course_run_enrollment_welcome_email w k) (ret (Some k)))
     else if \<not> keep
     then thenp (whenp created (db_delete run_enrollments run_enrollments_update (\<lambda>j _. j = k))) (ret None)
     else ret (Some k)) s1 = (Inr r, s')"
    using assms(2) by (auto simp: copy_run_enrollment_def elim!: bindp_InrE)
  obtain ok s2 where e: "enroll_in_edx sv to_user [enr_run ?e] s1 = (Inr ok, s2)" 
    using rest1 by (auto elim!: bindp_InrE)
  from only_sendsD [OF only_sends_enroll_in_edx e] have s2: "run_enrollments s2 = run_enrollments s1" by auto
  have fresh: "next_pk (run_enrollments s) \<notin> set (pks (run_enrollments s))" by (rule wf_table_fresh [OF assms(1)])
  have out: "r = (if ok \<or> keep then Some k else None) \<and> run_enrollments s' =
      (if ok then t_save (run_enrollments s1) k (\<lambda>e. e\<lparr>enr_edx_enrolled := True\<rparr>)
       else if \<not> keep \<and> created then t_delete (run_enrollments s1) (\<lambda>j _. j = k) else run_enrollments s1)"
    using rest1 e s2
    by (auto simp: save_and_log_run_enrollment_run thenp_run send_course_run_enrollment_welcome_email_def Let_def
        db_delete_def split: if_splits)
  show ?thesis
  proof (cases created)
    case True
    with create_or_update_run_InrD [OF c] have none: "latest_run_enrollment s to_user (enr_run ?e) = None" "k = next_pk (run_enrollments s)"
      "run_enrollments s1 = snd (t_create (run_enrollments s) (new_run_enrollment now to_user (enr_run ?e) (enr_order ?e) (enr_company ?e) False))"
      by simp_all
    have "filter (\<lambda>j. j \<noteq> next_pk (run_enrollments s)) (pks (run_enrollments s)) = pks (run_enrollments s)"
      using fresh by (intro filter_True) auto
    with True none fresh out show ?thesis
      by (auto simp: row_t_create new_run_enrollment_def row_t_save t_delete_def)
  next
    case False
    with create_or_update_run_InrD [OF c] latest_run_enrollmentD [of s to_user "enr_run ?e" k] fresh out show ?thesis
      by (auto simp: row_t_save transferred_fields_def)
  qed
qed


lemma copy_run_enrollment_spec_witness:
  "enr_active (row (run_enrollments (snd (copy_run_enrollment closed_service False 7 1 1 False example_shop))) 1)"
proof -
  let ?c = "copy_run_enrollment closed_service False 7 1 1 False example_shop"
  have wf: "wf_table (run_enrollments example_shop)"
    using example_ok by (simp add: run_enrollments_ok_def)
  have latest: "latest_run_enrollment example_shop 1 (enr_run (row (run_enrollments example_shop) 1)) = Some 1"
    by code_simp
  have pks: "1 \<in> set (pks (run_enrollments example_shop))" by code_simp
  have "fst ?c = Inr None" by code_simp
  then have "?c = (Inr None, snd ?c)" by (simp add: prod_eq_iff)
  from copy_run_enrollment_spec [OF wf this] latest pks show ?thesis
    by (auto simp: transferred_fields_def)
qed

section \<open>Refunding\<close>


context completion_frame
begin

lemma keeps_deactivate_run: "keeps I (deactivate_run_enrollment sv k cs keep)"
  unfolding deactivate_run_enrollment_def send_course_run_unenrollment_email_def
  by (intro keeps_intros keeps_effect keeps_log_run keeps_sends [OF only_sends_unenroll])

lemma keeps_deactivate_program: "keeps I (deactivate_program_enrollment sv k cs keep limited)"
  unfolding deactivate_program_enrollment_def deactivate_and_collect_def deactivate_and_save_program_def Let_def
  by (intro keeps_intros keeps_deactivate_run keeps_log_program)

end

lemma deactivate_program_cases:
  assumes "deactivate_program_enrollment sv k cs keep limited s = (r, s')"
  shows "\<exists>ds. r = Inr (if ds = [] then None else Some (k, ds)) \<and>
    (\<forall>j \<in> set ds. \<not> enr_active (row (run_enrollments s') j) \<and> enr_change_status (row (run_enrollments s') j) = cs) \<and>
    (\<forall>j. j \<notin> set ds \<longrightarrow> row (run_enrollments s') j = row (run_enrollments s) j) \<and>
    enr_order (row (program_enrollments s') k) = enr_order (row (program_enrollments s) k) \<and>
    (ds \<noteq> [] \<longrightarrow> \<not> enr_active (row (program_enrollments s') k))"
proof -
  let ?oid = "enr_order (row (program_enrollments s) k)"
  let ?lim = "if limited \<and> ?oid \<noteq> None \<and> ?oid \<noteq> Some 0 then ?oid else None"
  obtain r1 s1 where c: "collect_each (get_run_enrollments s k ?lim) (deactivate_and_collect sv cs keep) s = (r1, s1)" by fastforce
  from deactivate_run_loop [OF c] obtain ds D where ds: "r1 = Inr ds" and D: "concat ds = D"
    "\<forall>j \<in> set D. \<not> enr_active (row (run_enrollments s1) j) \<and> enr_change_status (row (run_enrollments s1) j) = cs"
    "\<forall>j. j \<notin> set D \<longrightarrow> row (run_enrollments s1) j = row (run_enrollments s) j" by blast
  have "keeps (\<lambda>s. program_enrollments s = T) (collect_each ks (deactivate_and_collect sv cs keep))" for ks T
  proof (rule keeps_collect_each)
    fix x
    have "keeps (\<lambda>s. program_enrollments s = T) (save_and_log_run_enrollment x f u)" for f u
      by (rule keepsI) (simp add: save_and_log_run_enrollment_run Let_def)
    then show "keeps (\<lambda>s. program_enrollments s = T) (deactivate_and_collect sv cs keep x)"
      unfolding deactivate_and_collect_def deactivate_run_enrollment_def send_course_run_unenrollment_email_def
      by (intro keeps_intros keeps_emit keeps_only_sends [OF _ only_sends_unenroll]) simp_all
  qed
  from keepsD [OF this c] have p: "program_enrollments s1 = program_enrollments s" by simp
  have "(r, s') = (if D = [] then (Inr None, s1)
      else thenp (deactivate_and_save_program k cs True) (ret (Some (k, D))) s1)"
    using assms c [unfolded ds] unfolding deactivate_program_enrollment_def
    by (simp add: bindp_run Let_def D(1) del: concat_eq_Nil_conv split: if_splits)
  then have "r = Inr (if D = [] then None else Some (k, D)) \<and> run_enrollments s' = run_enrollments s1 \<and>
      enr_order (row (program_enrollments s') k) = enr_order (row (program_enrollments s1) k) \<and>
      (D \<noteq> [] \<longrightarrow> \<not> enr_active (row (program_enrollments s') k))"
    by (auto simp: deactivate_and_save_program_def bindp_run thenp_run save_and_log_program_enrollment_run Let_def deactivated_def
        split: if_splits)
  with D(2,3) p show ?thesis by (intro exI [of _ D]) auto
qed

lemma deactivate_run_order:
  assumes "deactivate_run_enrollment sv k cs keep s = (r, s')"
  shows "enr_order (row (run_enrollments s') j) = enr_order (row (run_enrollments s) j)"
proof -
  have "keeps (\<lambda>s. enr_order (row (run_enrollments s) j) = T) (save_and_log_run_enrollment k (\<lambda>e. deactivated cs (if b then e\<lparr>enr_edx_enrolled := False\<rparr> else e)) u)" for b u T
    by (rule keepsI) (auto simp: save_and_log_run_enrollment_run Let_def row_t_save deactivated_def)
  then have "keeps (\<lambda>s. enr_order (row (run_enrollments s) j) = T) (deactivate_run_enrollment sv k cs keep)" for T
    unfolding deactivate_run_enrollment_def send_course_run_unenrollment_email_def
    by (intro keeps_intros keeps_emit keeps_only_sends [OF _ only_sends_unenroll]) simp_all
  from keepsD [OF this assms] show ?thesis by blast
qed

lemma refund_tail:
  fixes s1 :: shop_db
  assumes "thenp (case found of None \<Rightarrow> ret ()
      | Some order \<Rightarrow> whenp (affected \<noteq> (None, [])) (save_and_log_order order f None)) (ret affected) s1 = (r, s')"
    and "orders s1 = orders s"
  shows "r = Inr affected \<and> run_enrollments s' = run_enrollments s1 \<and>
    orders s' = (case found of None \<Rightarrow> orders s
      | Some k \<Rightarrow> if affected = (None, []) then orders s else t_save (orders s) k f)"
  using assms by (cases found) (auto simp: thenp_run save_and_log_order_run Let_def split: if_splits)

lemma fetch_enrollment_reads: "fetch_enrollment u options s = (x, s') \<Longrightarrow> s' = s"
proof -
  have "keeps (\<lambda>t. t = s) (db_get m g P)" for m P and g :: "'a xpro_db_scheme \<Rightarrow> 'r table"
    by (rule keepsI) simp
  then have "keeps (\<lambda>t. t = s) (fetch_enrollment u options)"
    unfolding fetch_enrollment_def by (intro keeps_intros)
  from keepsD [OF this, of s] show "fetch_enrollment u options s = (x, s') \<Longrightarrow> s' = s" by simp
qed

definition fetched_order :: "'z xpro_db_scheme \<Rightarrow> fetched_enrollment \<Rightarrow> nat option" where
  "fetched_order s enrollment =
     (case enrollment of FetchedProgram k _ \<Rightarrow> enr_order (row (program_enrollments s) k)
      | FetchedRun k _ \<Rightarrow> enr_order (row (run_enrollments s) k))"

text \<open>
  C20: Once the user and the enrollment are found a refund cannot raise. It reports the run enrollments that it has
  deactivated with the status refunded, and leaves every other one alone. The order of the enrollment becomes refunded
  exactly when at least one enrollment was deactivated (which is always so for a run when failures are kept); otherwise no
  order changes.
\<close>

theorem refund_enrollment_spec:
  fixes s :: shop_db
  assumes "fetch_user is_email s user True = Inr u" and "fetch_enrollment u options s = (Inr f, s)"
    and "refund_enrollment sv is_email user options s = (r, s')"
  shows "\<exists>p rs. r = Inr (p, rs) \<and>
    (\<forall>j \<in> set rs. \<not> enr_active (row (run_enrollments s') j) \<and> enr_change_status (row (run_enrollments s') j) = Some Refunded) \<and>
    (\<forall>j. j \<notin> set rs \<longrightarrow> row (run_enrollments s') j = row (run_enrollments s) j) \<and>
    (p \<noteq> None \<longrightarrow> rs \<noteq> []) \<and>
    (\<forall>k run. f = FetchedRun k run \<and> cho_keep_failed_enrollments options \<longrightarrow> rs = [k]) \<and>
    orders s' = (case fetched_order s f of
       None \<Rightarrow> orders s
     | Some k \<Rightarrow> if rs = [] then orders s else t_save (orders s) k (\<lambda>x. x\<lparr>ord_status := OrderRefunded\<rparr>))"
proof (cases f)
  case (FetchedProgram k pr)
  obtain r1 s1 where d: "deactivate_program_enrollment sv k (Some Refunded) (cho_keep_failed_enrollments options) True s = (r1, s1)"
    by fastforce
  from deactivate_program_cases [OF d] obtain ds where r1: "r1 = Inr (if ds = [] then None else Some (k, ds))"
    and ds: "\<forall>j \<in> set ds. \<not> enr_active (row (run_enrollments s1) j) \<and> enr_change_status (row (run_enrollments s1) j) = Some Refunded"
      "\<forall>j. j \<notin> set ds \<longrightarrow> row (run_enrollments s1) j = row (run_enrollments s) j"
      "enr_order (row (program_enrollments s1) k) = enr_order (row (program_enrollments s) k)" by blast
  have "orders s1 = orders s"
    using keepsD [OF core.keeps_deactivate_program d] by (simp add: order_core_def)
  let ?affected = "if ds = [] then (None, []) else (Some k, ds)"
  have "thenp (case fetched_order s f of None \<Rightarrow> ret ()
      | Some order \<Rightarrow> whenp (?affected \<noteq> (None, [])) (save_and_log_order order (\<lambda>r. r\<lparr>ord_status := OrderRefunded\<rparr>) None))
      (ret ?affected) s1 = (r, s')"
    using assms FetchedProgram d r1 ds(3)
    by (cases "enr_order (row (program_enrollments s) k)") (simp_all add: refund_enrollment_def fetched_order_def split: if_splits)
  note out = refund_tail [OF this \<open>orders s1 = orders s\<close>]
  show ?thesis
    using out ds(1,2) FetchedProgram
    by (intro exI [of _ "fst ?affected"] exI [of _ ds]) (cases "fetched_order s f"; auto)
next
  case (FetchedRun k run)
  obtain r1 s1 where d: "deactivate_run_enrollment sv k (Some Refunded) (cho_keep_failed_enrollments options) s = (r1, s1)"
    by fastforce
  have o: "orders s1 = orders s"
    using keepsD [OF core.keeps_deactivate_run d] by (simp add: order_core_def)
  have e: "enr_order (row (run_enrollments s1) k) = enr_order (row (run_enrollments s) k)"
    by (rule deactivate_run_order [OF d])
  obtain x where r1: "r1 = Inr x" and x: "x = Some k \<or> x = None \<and> \<not> cho_keep_failed_enrollments options"
    using deactivate_run_cases [OF d] by blast
  have "thenp (case fetched_order s f of None \<Rightarrow> ret ()
      | Some order \<Rightarrow> whenp ((None, the_list x) \<noteq> (None :: nat option, [])) (save_and_log_order order (\<lambda>r. r\<lparr>ord_status := OrderRefunded\<rparr>) None))
      (ret (None, the_list x)) s1 = (r, s')"
    using assms FetchedRun d r1 e by (simp add: refund_enrollment_def fetched_order_def)
  note out = refund_tail [OF this o]
  show ?thesis
    using out x r1 deactivate_run_cases [OF d] FetchedRun
    by (intro exI [of _ None] exI [of _ "the_list x"]) (cases "fetched_order s f"; auto simp: the_list_def)
qed


definition example_refund :: change_options where
  "example_refund = \<lparr>cho_program = None, cho_run = Some ''c1-R1'', cho_order = None, cho_force = True, cho_keep_failed_enrollments = True\<rparr>"

lemma refund_enrollment_spec_witness:
  "enr_change_status (row (run_enrollments (snd (refund_enrollment open_service (\<lambda>_. False) ''ann'' example_refund example_shop))) 1) = Some Refunded"
proof -
  let ?r = "refund_enrollment open_service (\<lambda>_. False) ''ann'' example_refund example_shop"
  have u: "fetch_user (\<lambda>_. False) example_shop ''ann'' True = Inr 1" by code_simp
  have "fst (fetch_enrollment 1 example_refund example_shop) = Inr (FetchedRun 1 1)" by code_simp
  moreover have "snd (fetch_enrollment 1 example_refund example_shop) = example_shop"
    using fetch_enrollment_reads by (metis prod.collapse)
  ultimately have f: "fetch_enrollment 1 example_refund example_shop = (Inr (FetchedRun 1 1), example_shop)"
    by (simp add: prod_eq_iff)
  from refund_enrollment_spec [OF u f prod.collapse [symmetric], of open_service] show ?thesis
    by (auto simp: example_refund_def)
qed

section \<open>Enrolling with a code\<close>

lemma create_enrollment_order_cases:
  fixes s :: shop_db
  assumes "run_enrollments_ok s" and "create_enrollment_order cfg keep u x price s = (r, s')"
  shows "case r of
      Inl e \<Rightarrow> \<exists>sent. s' = s\<lparr>effects := sent\<rparr>
    | Inr order \<Rightarrow> order = next_pk (orders s) \<and>
        order_core s' = order_core (s\<lparr>orders := snd (t_create (orders s)
          ((new_order (sc_now cfg) u)\<lparr>ord_status := OrderFulfilled, ord_total_price_paid := price\<rparr>))\<rparr>) \<and>
        (\<exists>k \<in> set (pks (run_enrollments s')). enrolled_in u x (Some order) (row (run_enrollments s') k))"
proof (cases r)
  case (Inl e)
  with assms(2) show ?thesis
    unfolding create_enrollment_order_def transaction_run by (auto split: prod.splits sum.splits)
next
  case (Inr order)
  let ?s1 = "s\<lparr>orders := snd (t_create (orders s)
    ((new_order (sc_now cfg) u)\<lparr>ord_status := OrderFulfilled, ord_total_price_paid := price\<rparr>))\<rparr>"
  let ?enroll = "create_run_enrollments (sc_edx cfg) (sc_welcome_enabled cfg) (sc_now cfg) u [x] keep (Some (next_pk (orders s))) None"
  obtain r2 s2 where e: "?enroll ?s1 = (r2, s2)" by fastforce
  have core: "order_core s2 = order_core ?s1"
    using keepsD [OF core.keeps_create_run_enrollments e] by simp
  have ok: "run_enrollments_ok ?s1" using assms(1) by (simp add: run_enrollments_ok_def)
  have "order = next_pk (orders s) \<and> s' = s2 \<and> (\<exists>es b. r2 = Inr (es, b) \<and> es \<noteq> [])"
    using assms(2) Inr e
    by (cases r2) (auto simp: create_enrollment_order_def transaction_run bindp_run thenp_run try_catch_def split: if_splits)
  with create_run_enrollments_cases [OF ok e] core Inr show ?thesis
    by (auto simp: list_all2_Cons1)
qed

lemma create_enrollment_order_kept:
  fixes s :: shop_db
  assumes "run_enrollments_ok s" and "sv_token_set (sc_edx cfg)"
  shows "\<exists>s'. create_enrollment_order cfg True u x price s = (Inr (next_pk (orders s)), s')"
proof -
  let ?s1 = "s\<lparr>orders := snd (t_create (orders s)
    ((new_order (sc_now cfg) u)\<lparr>ord_status := OrderFulfilled, ord_total_price_paid := price\<rparr>))\<rparr>"
  let ?enroll = "create_run_enrollments (sc_edx cfg) (sc_welcome_enabled cfg) (sc_now cfg) u [x] True (Some (next_pk (orders s))) None"
  obtain r2 s2 where e: "?enroll ?s1 = (r2, s2)" by fastforce
  have ok: "run_enrollments_ok ?s1" using assms(1) by (simp add: run_enrollments_ok_def)
  from create_run_enrollments_cases [OF ok e] assms(2) obtain k b where "r2 = Inr ([k], b)"
    by (auto simp: list_all2_Cons1)
  with e show ?thesis
    by (simp add: create_enrollment_order_def transaction_run bindp_run thenp_run try_catch_def)
qed

lemma record_enrollment_order_cases:
  fixes s :: shop_db
  assumes "\<forall>k \<in> set (pks (coupon_redemptions s)). cred_order (row (coupon_redemptions s) k) \<noteq> order"
    and "record_enrollment_order u coupon c pv order s = (r, s')"
  shows "r = Inr (order, next_pk (lines s)) \<and> orders s' = orders s \<and> run_enrollments s' = run_enrollments s \<and>
    lines s' = snd (t_create (lines s) \<lparr>line_order = order, line_product_version = pv, line_quantity = 1\<rparr>) \<and>
    coupon_redemptions s' = snd (t_create (coupon_redemptions s) \<lparr>cred_coupon_version = c, cred_order = order\<rparr>)"
proof -
  have none: "matching (coupon_redemptions s) (\<lambda>_ r. cred_order r = order) = []"
    using assms(1) by (simp add: matching_def filter_empty_conv)
  have redeem: "redeem_coupon c order t = (Inr (next_pk (coupon_redemptions t)),
      t\<lparr>coupon_redemptions := snd (t_create (coupon_redemptions t) \<lparr>cred_coupon_version = c, cred_order = order\<rparr>)\<rparr>)"
    if "coupon_redemptions t = coupon_redemptions s" for t :: shop_db
    using none that
    by (simp add: redeem_coupon_def bindp_run db_update_or_create_run t_update_or_create_def split_beta)
  show ?thesis
    using assms(2) by (auto simp: record_enrollment_order_def bindp_run thenp_run redeem)
qed

text \<open>
  C21: Creating an enrollment with a code does all or nothing to the database: when it fails nothing but the
  messages sent is different, and when it returns there is one more order, fulfilled, at the price with the discount
  of the code, with one line for the latest version of the product and a redemption of the coupon version, and the user has
  an active enrollment in the run under that order.
\<close>

theorem create_enrollment_all_or_nothing:
  fixes s :: shop_db
  assumes "\<forall>k \<in> set (pks (coupon_redemptions s)). cred_order (row (coupon_redemptions s) k) \<noteq> next_pk (orders s)"
    and "run_enrollments_ok s"
    and "create_enrollment cfg is_email user run code keep s = (r, s')"
  shows "case r of
      Inl e \<Rightarrow> \<exists>sent. s' = s\<lparr>effects := sent\<rparr>
    | Inr (order, line) \<Rightarrow>
        \<exists>u p pv c x. fetch_user is_email s user True = Inr u \<and> latest_product_version s p = Some pv \<and>
          best_coupon_for_product (sc_now cfg) s p u False (Some code) = Inr (Some c) \<and>
          orders s' = snd (t_create (orders s) ((new_order (sc_now cfg) u)\<lparr>ord_status := OrderFulfilled,
             ord_total_price_paid := get_product_version_price_with_discount s (Some c) pv\<rparr>)) \<and> order = next_pk (orders s) \<and>
          lines s' = snd (t_create (lines s) \<lparr>line_order = order, line_product_version = pv, line_quantity = 1\<rparr>) \<and>
          coupon_redemptions s' = snd (t_create (coupon_redemptions s) \<lparr>cred_coupon_version = c, cred_order = order\<rparr>) \<and>
          run_courseware_id (row (course_runs s) x) = run \<and>
          (\<exists>k \<in> set (pks (run_enrollments s')). enrolled_in u x (Some order) (row (run_enrollments s') k))"
proof -
  let ?runs = "t_first (course_runs s) (\<lambda>_ r. run_courseware_id r = run)"
  let ?products = "first_of (active_products s (\<lambda>p. case prod_content p of
          CourseRunContent k \<Rightarrow> k \<in> set (matching (course_runs s) (\<lambda>_ r. run_courseware_id r = run)) | _ \<Rightarrow> False))"
  let ?coupons = "t_first (coupons s) (\<lambda>_ c. coupon_code c = code)"
  let ?best = "\<lambda>p u c. best_coupon_for_product (sc_now cfg) s p u False (Some (coupon_code (row (coupons s) c)))"
  let ?price = "\<lambda>v pv. get_product_version_price_with_discount s (Some v) pv"
  consider (refused) e where "r = Inl e" "s' = s"
    | (ordered) u x p c v pv r1 s1 where "fetch_user is_email s user True = Inr u" "?runs = Some x" "?products = Some p"
        "?coupons = Some c" "?best p u c = Inr (Some v)" "latest_product_version s p = Some pv"
        "create_enrollment_order cfg keep u x (?price v pv) s = (r1, s1)"
        "(r, s') = (case r1 of Inl e \<Rightarrow> (Inl e, s1) | Inr order \<Rightarrow> record_enrollment_order u c v pv order s1)"
  proof (cases "fetch_user is_email s user True")
    case (Inl e)
    with assms(3) refused show ?thesis by (auto simp: create_enrollment_def bindp_run)
  next
    case user: (Inr u)
    show ?thesis
    proof (cases "\<exists>x p c v pv. ?runs = Some x \<and> ?products = Some p \<and> ?coupons = Some c \<and> ?best p u c = Inr (Some v) \<and>
        latest_product_version s p = Some pv")
      case True
      then obtain x p c v pv where found: "?runs = Some x" "?products = Some p" "?coupons = Some c" "?best p u c = Inr (Some v)"
        "latest_product_version s p = Some pv" by blast
      obtain r1 s1 where o1: "create_enrollment_order cfg keep u x (?price v pv) s = (r1, s1)" by fastforce
      have "(r, s') = (case r1 of Inl e \<Rightarrow> (Inl e, s1) | Inr order \<Rightarrow> record_enrollment_order u c v pv order s1)"
        using assms(3) user found o1 by (simp add: create_enrollment_def bindp_run)
      from ordered [OF user found o1 this] show ?thesis .
    next
      case False
      have "(\<exists>e. r = Inl e) \<and> s' = s"
        using assms(3) user False
        by (cases ?runs; cases ?products; cases ?coupons)
           (auto simp: create_enrollment_def bindp_run split: sum.splits option.splits)
      with refused show ?thesis by blast
    qed
  qed
  then show ?thesis
  proof cases
    case refused
    then show ?thesis by (auto intro: exI [of _ "effects s"])
  next
    case ordered
    note made = create_enrollment_order_cases [OF assms(2) ordered(7)]
    have code: "coupon_code (row (coupons s) c) = code" using t_first_SomeD [OF ordered(4)] by simp
    have run: "run_courseware_id (row (course_runs s) x) = run" using t_first_SomeD [OF ordered(2)] by simp
    show ?thesis
    proof (cases r1)
      case (Inl e)
      with made ordered(8) show ?thesis by simp
    next
      case (Inr order)
      with made have order: "order = next_pk (orders s)" and core: "order_core s1 = order_core (s\<lparr>orders := snd (t_create (orders s)
          ((new_order (sc_now cfg) u)\<lparr>ord_status := OrderFulfilled, ord_total_price_paid := ?price v pv\<rparr>))\<rparr>)"
        and enrolled: "\<exists>k \<in> set (pks (run_enrollments s1)). enrolled_in u x (Some order) (row (run_enrollments s1) k)"
        by auto
      from core have t: "orders s1 = snd (t_create (orders s)
          ((new_order (sc_now cfg) u)\<lparr>ord_status := OrderFulfilled, ord_total_price_paid := ?price v pv\<rparr>))"
        "lines s1 = lines s" "coupon_redemptions s1 = coupon_redemptions s" by (simp_all add: order_core_def)
      have rec: "record_enrollment_order u c v pv order s1 = (r, s')" using ordered(8) Inr by simp
      have "\<forall>k \<in> set (pks (coupon_redemptions s1)). cred_order (row (coupon_redemptions s1) k) \<noteq> order"
        using assms(1) by (simp add: t(3) order)
      note tail = record_enrollment_order_cases [OF this rec]
      have "fetch_user is_email s user True = Inr u \<and> latest_product_version s p = Some pv \<and>
          best_coupon_for_product (sc_now cfg) s p u False (Some code) = Inr (Some v) \<and>
          orders s' = snd (t_create (orders s) ((new_order (sc_now cfg) u)\<lparr>ord_status := OrderFulfilled,
             ord_total_price_paid := ?price v pv\<rparr>)) \<and> order = next_pk (orders s) \<and>
          lines s' = snd (t_create (lines s) \<lparr>line_order = order, line_product_version = pv, line_quantity = 1\<rparr>) \<and>
          coupon_redemptions s' = snd (t_create (coupon_redemptions s) \<lparr>cred_coupon_version = v, cred_order = order\<rparr>) \<and>
          run_courseware_id (row (course_runs s) x) = run \<and>
          (\<exists>k \<in> set (pks (run_enrollments s')). enrolled_in u x (Some order) (row (run_enrollments s') k))"
        using tail t ordered(1,5,6) enrolled run code order by metis
      then show ?thesis unfolding conjunct1 [OF tail] sum.case prod.case by blast
    qed
  qed
qed

lemma create_enrollment_all_or_nothing_witness:
  "\<exists>c. coupon_redemptions (snd (create_enrollment example_config (\<lambda>_. False) ''ann'' ''c2-R1'' ''HALF'' True example_shop)) =
     snd (t_create (coupon_redemptions example_shop) \<lparr>cred_coupon_version = c, cred_order = 1\<rparr>)"
proof -
  let ?c = "create_enrollment example_config (\<lambda>_. False) ''ann'' ''c2-R1'' ''HALF'' True example_shop"
  have found: "fetch_user (\<lambda>_. False) example_shop ''ann'' True = Inr 1"
    "t_first (course_runs example_shop) (\<lambda>_ r. run_courseware_id r = ''c2-R1'') = Some 2"
    "first_of (active_products example_shop (\<lambda>p. case prod_content p of
          CourseRunContent k \<Rightarrow> k \<in> set (matching (course_runs example_shop) (\<lambda>_ r. run_courseware_id r = ''c2-R1'')) | _ \<Rightarrow> False)) = Some 1"
    "t_first (coupons example_shop) (\<lambda>_ c. coupon_code c = ''HALF'') = Some 1" "coupon_code (row (coupons example_shop) 1) = ''HALF''"
    "latest_product_version example_shop 1 = Some 1" "next_pk (orders example_shop) = 1"
    "best_coupon_for_product (sc_now example_config) example_shop 1 1 False (Some ''HALF'') = Inr (Some 1)"
    by code_simp+
  have redemptions: "\<forall>k \<in> set (pks (coupon_redemptions example_shop)). cred_order (row (coupon_redemptions example_shop) k) \<noteq> next_pk (orders example_shop)"
    by code_simp
  let ?price = "get_product_version_price_with_discount example_shop (Some 1) 1"
  have "sv_token_set (sc_edx example_config)" by (simp add: example_config_def open_service_def)
  from create_enrollment_order_kept [OF example_ok this, of 1 2 ?price] obtain s1 where
    enroll: "create_enrollment_order example_config True 1 2 ?price example_shop = (Inr 1, s1)"
    by (auto simp: found)
  from create_enrollment_order_cases [OF example_ok enroll] have "coupon_redemptions s1 = coupon_redemptions example_shop"
    by (simp add: order_core_def)
  with redemptions have "\<forall>k \<in> set (pks (coupon_redemptions s1)). cred_order (row (coupon_redemptions s1) k) \<noteq> 1"
    by (simp add: found)
  from record_enrollment_order_cases [OF this prod.collapse [symmetric], of 1 1 1 1]
  have rec: "fst (record_enrollment_order 1 1 1 1 1 s1) = Inr (1, next_pk (lines s1))" by blast
  have "?c = record_enrollment_order 1 1 1 1 1 s1"
    unfolding create_enrollment_def bindp_run asks_run lift_result_run sum.case prod.case found option.case enroll ..
  with rec have run: "?c = (Inr (1, next_pk (lines s1)), snd ?c)" by (simp add: prod_eq_iff)
  from create_enrollment_all_or_nothing [OF redemptions example_ok run] show ?thesis by (auto simp: found)
qed

end
