(* ===== verification/Sheet_Handlers.thy ===== *)
theory Sheet_Handlers
  imports Certificates Orders
begin

text \<open>
  The request spreadsheets: \<open>sheets/utils.py\<close>, \<open>sheets/models.py\<close>, \<open>sheets/sheet_handler_api.py\<close>,
  \<open>sheets/coupon_request_api.py\<close>, \<open>sheets/refund_request_api.py\<close> and \<open>sheets/deferral_request_api.py\<close>.
  Rows of a worksheet are read and turned into requests, each request is carried out at most once, and the outcome is written
  back. The Google services are arguments (record \<open>sheets_config\<close>), what is written to a sheet is an effect.
\<close>

section \<open>Models\<close>

record coupon_generation_request_row =
  cgr_purchase_order_id :: string
  cgr_coupon_name :: string
  cgr_date_completed :: "int option"
  cgr_raw_data :: "string option"

record change_request_row =
  ecr_form_response_id :: int
  ecr_date_completed :: "int option"
  ecr_raw_data :: "string option"

record file_watch_row =
  gfw_file_id :: string
  gfw_channel_id :: string
  gfw_version :: "int option"
  gfw_activation_date :: int
  gfw_expiration_date :: int
  gfw_last_request_received :: "int option"

record renewal_attempt_row =
  rat_sheet_type :: string
  rat_sheet_file_id :: string
  rat_result :: "string option"
  rat_result_status_code :: "nat option"

record sheets_db = shop_db +
  coupon_generation_requests :: "coupon_generation_request_row table"
  refund_requests :: "change_request_row table"
  deferral_requests :: "change_request_row table"
  file_watches :: "file_watch_row table"
  renewal_attempts :: "renewal_attempt_row table"

interpretation coupon_generation_requests_tb: db_table coupon_generation_requests coupon_generation_requests_update
  by unfold_locales simp_all
interpretation refund_requests_tb: db_table refund_requests refund_requests_update
  by unfold_locales simp_all
interpretation deferral_requests_tb: db_table deferral_requests deferral_requests_update
  by unfold_locales simp_all
interpretation file_watches_tb: db_table file_watches file_watches_update
  by unfold_locales simp_all
interpretation renewal_attempts_tb: db_table renewal_attempts renewal_attempts_update
  by unfold_locales simp_all

section \<open>Constants and metadata\<close>

definition GOOGLE_API_TRUE_VAL :: string where "GOOGLE_API_TRUE_VAL = ''TRUE''"
definition GOOGLE_SHEET_FIRST_ROW :: nat where "GOOGLE_SHEET_FIRST_ROW = 1"
definition ENROLL_CHANGE_SHEET_PROCESSOR_NAME :: string where "ENROLL_CHANGE_SHEET_PROCESSOR_NAME = ''MIT xPRO app''"
definition REFUND_SHEET_ORDER_TYPE_FULL_COUPON :: string where "REFUND_SHEET_ORDER_TYPE_FULL_COUPON = ''Enrollment Code''"
definition REFUND_SHEET_ORDER_TYPE_PAID :: string where "REFUND_SHEET_ORDER_TYPE_PAID = ''Paid via Cybersource''"
definition SHEET_TYPE_COUPON_REQUEST :: string where "SHEET_TYPE_COUPON_REQUEST = ''enrollrequest''"
definition SHEET_TYPE_COUPON_ASSIGN :: string where "SHEET_TYPE_COUPON_ASSIGN = ''enrollassign''"
definition SHEET_TYPE_ENROLL_CHANGE :: string where "SHEET_TYPE_ENROLL_CHANGE = ''enrollchange''"
definition WORKSHEET_TYPE_REFUND :: string where "WORKSHEET_TYPE_REFUND = ''refund''"
definition WORKSHEET_TYPE_DEFERRAL :: string where "WORKSHEET_TYPE_DEFERRAL = ''defer''"
definition ASSIGNMENT_SHEET_PREFIX :: string where "ASSIGNMENT_SHEET_PREFIX = ''Enrollment Codes''"

definition get_column_letter :: "nat \<Rightarrow> exn + string" where
  "get_column_letter column_index =
     (if column_index > 25 then Inl (ValueError ''Cannot generate a column letter past Z'')
      else Inr [char_of (column_index + 65)])"

text \<open>
  The metadata of a kind of sheet. A handler writes from \<open>sm_first_result_col\<close> (the processor or the processed date) to
  \<open>sm_error_col\<close>.
\<close>

record sheet_metadata =
  sm_sheet_type :: string
  sm_sheet_name :: string
  sm_worksheet_name :: "string option"
  sm_first_data_row :: nat
  sm_num_columns :: nat
  sm_non_input_column_indices :: "nat list"
  sm_id_col :: nat
  sm_first_result_col :: nat
  sm_completed_date_col :: nat
  sm_error_col :: nat
  sm_skip_row_col :: nat

definition form_input_column_indices :: "sheet_metadata \<Rightarrow> nat list" where
  "form_input_column_indices m = filter (\<lambda>i. i \<notin> set (sm_non_input_column_indices m)) [0..<sm_num_columns m]"

definition get_form_input_columns :: "sheet_metadata \<Rightarrow> string list \<Rightarrow> string list" where
  "get_form_input_columns m row_data =
     map snd (filter (\<lambda>(i, col). i \<in> set (form_input_column_indices m)) (enumerate 0 row_data))"

definition request_sheet_metadata :: sheet_metadata where
  "request_sheet_metadata =
     \<lparr>sm_sheet_type = SHEET_TYPE_COUPON_REQUEST, sm_sheet_name = ''Coupon Request sheet'', sm_worksheet_name = None,
      sm_first_data_row = GOOGLE_SHEET_FIRST_ROW + 1, sm_num_columns = 10, sm_non_input_column_indices = [7, 8, 9],
      sm_id_col = 1, sm_first_result_col = 8, sm_completed_date_col = 8, sm_error_col = 9, sm_skip_row_col = 10\<rparr>"

text \<open>The columns of the refund sheet are settings; these are their defaults.\<close>

definition refund_sheet_metadata :: sheet_metadata where
  "refund_sheet_metadata =
     \<lparr>sm_sheet_type = SHEET_TYPE_ENROLL_CHANGE, sm_sheet_name = ''Enrollment Change Request sheet'',
      sm_worksheet_name = Some ''Refunds'', sm_first_data_row = 4, sm_num_columns = 15,
      sm_non_input_column_indices = 0 # [8..<15], sm_id_col = 0, sm_first_result_col = 11, sm_completed_date_col = 12,
      sm_error_col = 13, sm_skip_row_col = 14\<rparr>"

definition deferral_sheet_metadata :: sheet_metadata where
  "deferral_sheet_metadata =
     \<lparr>sm_sheet_type = SHEET_TYPE_ENROLL_CHANGE, sm_sheet_name = ''Enrollment Change Request sheet'',
      sm_worksheet_name = Some ''Deferrals'', sm_first_data_row = 5, sm_num_columns = 11,
      sm_non_input_column_indices = 0 # [7..<11], sm_id_col = 0, sm_first_result_col = 7, sm_completed_date_col = 8,
      sm_error_col = 9, sm_skip_row_col = 10\<rparr>"

section \<open>Cell values\<close>

definition clean_sheet_value :: "string \<Rightarrow> string option" where
  "clean_sheet_value v = (let stripped = py_strip v in if stripped = [] then None else Some stripped)"

text \<open>The year, month and day of a day number (day 0 is the first of January 1970).\<close>

definition civil_from_days :: "int \<Rightarrow> int \<times> int \<times> int" where
  "civil_from_days d =
     (let z = d + 719468; era = z div 146097; doe = z mod 146097;
          yoe = (doe - doe div 1460 + doe div 36524 - doe div 146096) div 365;
          doy = doe - (365 * yoe + yoe div 4 - yoe div 100);
          mp = (5 * doy + 2) div 153;
          month = (if mp < 10 then mp + 3 else mp - 9)
      in (yoe + era * 400 + (if month \<le> 2 then 1 else 0), month, doy - (153 * mp + 2) div 5 + 1))"

definition format_datetime_for_sheet_formula :: "int \<Rightarrow> string" where
  "format_datetime_for_sheet_formula dt =
     (let (year, month, day) = civil_from_days (dt div 86400); secs = dt mod 86400
      in ''=DATE('' @ py_join '','' [int_str year, int_str month, int_str day] @ '') + TIME('' @
         py_join '','' [int_str (secs div 3600), int_str (secs div 60 mod 60), int_str (secs mod 60)] @ '')'')"

text \<open>
  What the handlers take from the settings and the services. \<open>strptime\<close> follows the formats of the settings and gives the
  seconds of the naive date; a naive date is read in the time zone of the server, and dates are written in
  the time zone of the sheets.
\<close>

record sheets_config =
  shc_shop :: shop_config
  shc_strptime :: "string \<Rightarrow> exn + int"
  shc_strptime_date :: "string \<Rightarrow> exn + int"
  shc_server_offset :: "int \<Rightarrow> int"
  shc_sheets_offset :: "int \<Rightarrow> int"
  shc_uuids :: "nat \<Rightarrow> string"
  shc_checkout_url :: string
  shc_output_folder :: "string option"
  shc_admin_emails :: "string list"
  shc_create_sheet :: "effect list \<Rightarrow> string \<Rightarrow> exn + string"
  shc_watch_file :: "effect list \<Rightarrow> string \<Rightarrow> exn + int"
  shc_webhook_channel :: string
  shc_webhook_expiration_minutes :: int
  shc_webhook_renewal_minutes :: int

definition parse_sheet_date_str :: "sheets_config \<Rightarrow> (string \<Rightarrow> exn + int) \<Rightarrow> string option \<Rightarrow> exn + int option" where
  "parse_sheet_date_str cfg strptime date_str =
     (case date_str of
        None \<Rightarrow> Inr None
      | Some t \<Rightarrow>
          if t = [] then Inr None
          else rbind (strptime t) (\<lambda>naive. Inr (Some (naive - shc_server_offset cfg naive))))"

definition parse_sheet_datetime_str :: "sheets_config \<Rightarrow> string option \<Rightarrow> exn + int option" where
  "parse_sheet_datetime_str cfg = parse_sheet_date_str cfg (shc_strptime cfg)"

definition parse_sheet_date_only_str :: "sheets_config \<Rightarrow> string option \<Rightarrow> exn + int option" where
  "parse_sheet_date_only_str cfg = parse_sheet_date_str cfg (shc_strptime_date cfg)"

definition sheet_date_formula :: "sheets_config \<Rightarrow> int \<Rightarrow> string" where
  "sheet_date_formula cfg dt = format_datetime_for_sheet_formula (dt + shc_sheets_offset cfg dt)"

text \<open>\<open>json.dumps\<close> of a list of strings.\<close>

definition hex_digit :: "nat \<Rightarrow> char" where
  "hex_digit n = ''0123456789abcdef'' ! n"

definition json_char :: "char \<Rightarrow> string" where
  "json_char c =
     (let n = of_char c :: nat
      in if n = 0x22 then [CHR 0x5C, CHR 0x22] else if n = 0x5C then [CHR 0x5C, CHR 0x5C]
         else if n = 0x0A then CHR 0x5C # ''n'' else if n = 0x0D then CHR 0x5C # ''r'' else if n = 0x09 then CHR 0x5C # ''t''
         else if n = 0x08 then CHR 0x5C # ''b'' else if n = 0x0C then CHR 0x5C # ''f''
         else if n < 0x20 \<or> n > 0x7E then CHR 0x5C # ''u00'' @ [hex_digit (n div 16), hex_digit (n mod 16)]
         else [c])"

definition json_string :: "string \<Rightarrow> string" where
  "json_string s = CHR 0x22 # concat (map json_char s) @ [CHR 0x22]"

definition json_dumps :: "string list \<Rightarrow> string" where
  "json_dumps xs = ''['' @ py_join '', '' (map json_string xs) @ '']''"

section \<open>Reading rows\<close>

text \<open>\<open>get_data_rows\<close>: all rows but the header.\<close>

definition get_data_rows :: "string list list \<Rightarrow> string list list" where
  "get_data_rows all_values = drop 1 all_values"

definition first_cell_filled :: "string list \<Rightarrow> bool" where
  "first_cell_filled r = (case r of [] \<Rightarrow> False | c # _ \<Rightarrow> py_strip c \<noteq> [])"

text \<open>
  \<open>get_data_rows_after_start\<close>: pages of rows are asked for until one is not full. \<open>get_values\<close> answers with the rows
  from the first to the second number; rows whose first cell is blank are left out.
\<close>

partial_function (option) get_data_rows_after_start ::
  "(nat \<Rightarrow> nat \<Rightarrow> string list list) \<Rightarrow> nat \<Rightarrow> nat \<Rightarrow> string list list option" where
  "get_data_rows_after_start get_values page_size start_row =
     (let end_row = start_row + page_size - 1;
          values = get_values start_row end_row;
          found = filter first_cell_filled values
      in if values \<noteq> [] \<and> length values = page_size
         then Option.bind (get_data_rows_after_start get_values page_size (end_row + 1)) (\<lambda>rest. Some (found @ rest))
         else Some found)"

definition py_index :: "'a list \<Rightarrow> nat \<Rightarrow> exn + 'a" where
  "py_index xs i = (if i < length xs then Inr (xs ! i) else Inl IndexError)"

section \<open>Results\<close>

datatype result_type = RowIgnored | RowFailed | RowOutOfSync | RowProcessed

fun result_type_value :: "result_type \<Rightarrow> string" where
  "result_type_value RowIgnored = ''ignored''"
| "result_type_value RowFailed = ''failed''"
| "result_type_value RowOutOfSync = ''out_of_sync''"
| "result_type_value RowProcessed = ''processed''"

text \<open>Result types are ordered by their value.\<close>

instantiation result_type :: linorder
begin

definition less_eq_result_type :: "result_type \<Rightarrow> result_type \<Rightarrow> bool" where
  "less_eq_result_type a b \<longleftrightarrow> result_type_value a \<le> result_type_value b"

definition less_result_type :: "result_type \<Rightarrow> result_type \<Rightarrow> bool" where
  "less_result_type a b \<longleftrightarrow> result_type_value a < result_type_value b"

instance
proof
  fix x y :: result_type
  have inj: "result_type_value a = result_type_value b \<Longrightarrow> a = b" for a b
    by (cases a; cases b) simp_all
  show "x \<le> y \<Longrightarrow> y \<le> x \<Longrightarrow> x = y"
    unfolding less_eq_result_type_def by (rule inj) simp
qed (auto simp: less_eq_result_type_def less_result_type_def)

end

record 'o row_result =
  rr_row_index :: nat
  rr_db_record :: "nat option"
  rr_row_object :: "'o option"
  rr_message :: "string option"
  rr_result_type :: result_type

section \<open>Handlers\<close>

type_synonym sheet_row = "nat \<times> string list"

text \<open>
  What a \<open>SheetHandler\<close> class overrides. The rows that are not ignored form a stream that is read while it is processed: an
  exception of the filter is met where its row stands.
\<close>

record ('s, 'o) sheet_handler =
  hd_metadata :: sheet_metadata
  hd_filter_ignored_rows :: "sheet_row list \<Rightarrow> 's \<Rightarrow> (exn + sheet_row) list"
  hd_validate_sheet :: "(exn + sheet_row) list \<Rightarrow> exn + (exn + sheet_row) list \<times> 'o row_result list"
  hd_process_row :: "nat \<Rightarrow> string list \<Rightarrow> ('s, 'o row_result option) prog"
  hd_completed_cells :: "'s \<Rightarrow> 'o row_result \<Rightarrow> exn + string list"
  hd_post_process :: "'o row_result list \<Rightarrow> ('s, unit) prog"

definition column_letter :: "nat \<Rightarrow> string" where
  "column_letter i = (case get_column_letter i of Inl _ \<Rightarrow> [] | Inr l \<Rightarrow> l)"

definition cell_name :: "nat \<Rightarrow> nat \<Rightarrow> string" where
  "cell_name col row_index = column_letter col @ nat_str row_index"

definition update_completed_rows ::
  "('z users_db_scheme, 'o) sheet_handler \<Rightarrow> 'o row_result list \<Rightarrow> ('z users_db_scheme, unit) prog" where
  "update_completed_rows h success_row_results =
     for_each success_row_results (\<lambda>r.
       bindp (asks (\<lambda>s. hd_completed_cells h s r)) (\<lambda>cells.
       bindp (lift_result cells) (\<lambda>values.
       emit (GoogleCall ''update_values''
         (cell_name (sm_first_result_col (hd_metadata h)) (rr_row_index r) @ '':'' @
          cell_name (sm_error_col (hd_metadata h)) (rr_row_index r)) [values]))))"

definition update_row_errors ::
  "('z users_db_scheme, 'o) sheet_handler \<Rightarrow> 'o row_result list \<Rightarrow> ('z users_db_scheme, unit) prog" where
  "update_row_errors h failed_row_results =
     for_each failed_row_results (\<lambda>r.
       emit (GoogleCall ''update_value'' (cell_name (sm_error_col (hd_metadata h)) (rr_row_index r)) [the_list (rr_message r)]))"

definition results_of :: "result_type \<Rightarrow> (result_type \<times> 'o row_result list) list \<Rightarrow> 'o row_result list" where
  "results_of t grouped = (case map_of grouped t of None \<Rightarrow> [] | Some rs \<Rightarrow> rs)"

definition update_sheet_from_results ::
  "('z users_db_scheme, 'o) sheet_handler \<Rightarrow> (result_type \<times> 'o row_result list) list \<Rightarrow> ('z users_db_scheme, unit) prog" where
  "update_sheet_from_results h grouped =
     thenp (update_completed_rows h (results_of RowProcessed grouped))
    (thenp (update_row_errors h (results_of RowFailed grouped))
           (update_completed_rows h (results_of RowOutOfSync grouped)))"

definition failed_row :: "nat \<Rightarrow> nat option \<Rightarrow> string \<Rightarrow> 'o row_result" where
  "failed_row i db_record message =
     \<lparr>rr_row_index = i, rr_db_record = db_record, rr_row_object = None, rr_message = Some message, rr_result_type = RowFailed\<rparr>"

definition plain_result :: "nat \<Rightarrow> nat \<Rightarrow> 'o option \<Rightarrow> result_type \<Rightarrow> 'o row_result" where
  "plain_result i db_record row_object t =
     \<lparr>rr_row_index = i, rr_db_record = Some db_record, rr_row_object = row_object, rr_message = None, rr_result_type = t\<rparr>"

fun process_rows ::
  "(nat \<Rightarrow> string list \<Rightarrow> ('s, 'o row_result option) prog) \<Rightarrow> (exn + sheet_row) list \<Rightarrow> ('s, 'o row_result list) prog" where
  "process_rows process_row [] = ret []"
| "process_rows process_row (Inl e # rest) = raise e"
| "process_rows process_row (Inr (row_index, row_data) # rest) =
     bindp (try_catch (process_row row_index row_data)
              (\<lambda>exc. ret (Some (failed_row row_index None (''Error: '' @ exn_message exc))))) (\<lambda>row_result.
     bindp (process_rows process_row rest) (\<lambda>results.
     ret (the_list row_result @ results)))"

definition process_sheet ::
  "('z users_db_scheme, 'o) sheet_handler \<Rightarrow> sheet_row list \<Rightarrow>
     ('z users_db_scheme, (string \<times> nat list) list) prog" where
  "process_sheet h enumerated_rows =
     bindp (asks (hd_filter_ignored_rows h enumerated_rows)) (\<lambda>filtered_rows.
     bindp (lift_result (hd_validate_sheet h filtered_rows)) (\<lambda>(valid_enumerated_rows, invalid_results).
     bindp (process_rows (hd_process_row h) valid_enumerated_rows) (\<lambda>results.
     let row_results = invalid_results @ results
     in if row_results = [] then ret []
        else let grouped_row_results = group_into_dict row_results rr_result_type
             in thenp (update_sheet_from_results h grouped_row_results)
               (thenp (hd_post_process h (results_of RowProcessed grouped_row_results))
                  (ret (map (\<lambda>(t, rs). (result_type_value t, map rr_row_index rs)) grouped_row_results))))))"

section \<open>Requests to change an enrollment\<close>

text \<open>The request table of a handler is given by its reader and its update function.\<close>

definition change_request_of :: "sheet_metadata \<Rightarrow> string list \<Rightarrow> exn + int" where
  "change_request_of m row_data = rbind (py_index row_data (sm_id_col m)) (\<lambda>c. py_int (py_strip c))"

definition get_or_create_change_request ::
  "('s \<Rightarrow> change_request_row table) \<Rightarrow> ((change_request_row table \<Rightarrow> change_request_row table) \<Rightarrow> 's \<Rightarrow> 's) \<Rightarrow>
     string \<Rightarrow> sheet_metadata \<Rightarrow> string list \<Rightarrow> ('s, nat \<times> bool \<times> bool) prog" where
  "get_or_create_change_request g u model m row_data =
     bindp (lift_result (change_request_of m row_data)) (\<lambda>form_response_id.
     let user_input_json = json_dumps (get_form_input_columns m row_data)
     in atomic
       (bindp (db_get_or_create model g u (\<lambda>_ r. ecr_form_response_id r = form_response_id)
                \<lparr>ecr_form_response_id = form_response_id, ecr_date_completed = None, ecr_raw_data = Some user_input_json\<rparr>)
          (\<lambda>(k, created).
        bindp (asks (\<lambda>s. ecr_raw_data (row (g s) k) \<noteq> Some user_input_json)) (\<lambda>raw_data_changed.
        thenp (whenp raw_data_changed (db_save g u k (\<lambda>r. r\<lparr>ecr_raw_data := Some user_input_json\<rparr>)))
          (ret (k, created, raw_data_changed))))))"

fun filter_change_rows :: "sheet_metadata \<Rightarrow> int list \<Rightarrow> sheet_row list \<Rightarrow> (exn + sheet_row) list" where
  "filter_change_rows m completed_form_response_ids [] = []"
| "filter_change_rows m completed_form_response_ids ((row_index, row_data) # rest) =
     (if item_at_index_or_none row_data (int (sm_skip_row_col m)) = Some GOOGLE_API_TRUE_VAL \<or>
         item_at_index_or_blank row_data (int (sm_completed_date_col m)) \<noteq> []
      then filter_change_rows m completed_form_response_ids rest
      else case change_request_of m row_data of
             Inl e \<Rightarrow> [Inl e]
           | Inr form_response_id \<Rightarrow>
               (case py_index row_data (sm_completed_date_col m) of
                  Inl e \<Rightarrow> [Inl e]
                | Inr completed_date_str \<Rightarrow>
                    if form_response_id \<in> set completed_form_response_ids \<and> py_strip completed_date_str \<noteq> []
                    then filter_change_rows m completed_form_response_ids rest
                    else Inr (row_index, row_data) # filter_change_rows m completed_form_response_ids rest))"

definition completed_ids :: "change_request_row table \<Rightarrow> int list" where
  "completed_ids t = map (\<lambda>k. ecr_form_response_id (row t k)) (matching t (\<lambda>_ r. ecr_date_completed r \<noteq> None))"

definition change_request_cells ::
  "sheets_config \<Rightarrow> ('s \<Rightarrow> change_request_row table) \<Rightarrow> 's \<Rightarrow> 'o row_result \<Rightarrow> exn + string list" where
  "change_request_cells cfg g s r =
     (case rr_db_record r of
        None \<Rightarrow> Inl (AttributeError ''date_completed'')
      | Some k \<Rightarrow>
          (case ecr_date_completed (row (g s) k) of
             None \<Rightarrow> Inl (AttributeError ''astimezone'')
           | Some dt \<Rightarrow> Inr [ENROLL_CHANGE_SHEET_PROCESSOR_NAME, sheet_date_formula cfg dt, []]))"

text \<open>The rows that the worksheet of a handler shows, numbered from the first row that is not a legacy row.\<close>

definition change_request_rows :: "(nat \<Rightarrow> nat \<Rightarrow> string list list) \<Rightarrow> nat \<Rightarrow> sheet_metadata \<Rightarrow> sheet_row list option" where
  "change_request_rows get_values page_size m =
     map_option (enumerate (sm_first_data_row m)) (get_data_rows_after_start get_values page_size (sm_first_data_row m))"

section \<open>Refund requests\<close>

record refund_request_row =
  rrr_row_index :: nat
  rrr_response_id :: int
  rrr_request_date :: "string option"
  rrr_learner_email :: "string option"
  rrr_zendesk_ticket_no :: "string option"
  rrr_requester_email :: "string option"
  rrr_product_id :: "string option"
  rrr_order_id :: int
  rrr_order_type :: "string option"
  rrr_finance_email :: "string option"
  rrr_finance_approve_date :: "int option"
  rrr_finance_notes :: "string option"
  rrr_refund_processor :: "string option"
  rrr_refund_complete_date :: "int option"
  rrr_errors :: "string option"
  rrr_skip_row :: bool

definition int_cell :: "string option list \<Rightarrow> nat \<Rightarrow> exn + int" where
  "int_cell cells i =
     rbind (py_index cells i) (\<lambda>c. case c of None \<Rightarrow> Inl (TypeErr ''int()'') | Some t \<Rightarrow> py_int t)"

text \<open>Every exception of a parser becomes a \<open>SheetRowParsingException\<close>.\<close>

definition parsing :: "exn + 'a \<Rightarrow> exn + 'a" where
  "parsing r = (case r of Inl e \<Rightarrow> Inl (SheetRowParsingException (exn_message e)) | Inr a \<Rightarrow> Inr a)"

definition parse_refund_row :: "sheets_config \<Rightarrow> nat \<Rightarrow> string list \<Rightarrow> exn + refund_request_row" where
  "parse_refund_row cfg row_index raw_row_data =
     (let m = refund_sheet_metadata; cells = map clean_sheet_value raw_row_data; cell = py_index cells
      in parsing
        (rbind (int_cell cells (sm_id_col m)) (\<lambda>response_id.
         rbind (cell 1) (\<lambda>request_date.
         rbind (cell 2) (\<lambda>learner_email.
         rbind (cell 3) (\<lambda>zendesk_ticket_no.
         rbind (cell 4) (\<lambda>requester_email.
         rbind (cell 5) (\<lambda>product_id.
         rbind (int_cell cells 6) (\<lambda>order_id.
         rbind (cell 7) (\<lambda>order_type.
         rbind (cell 8) (\<lambda>finance_email.
         rbind (rbind (cell 9) (parse_sheet_date_only_str cfg)) (\<lambda>finance_approve_date.
         rbind (cell 10) (\<lambda>finance_notes.
         rbind (cell (sm_first_result_col m)) (\<lambda>refund_processor.
         rbind (rbind (cell (sm_completed_date_col m)) (parse_sheet_date_only_str cfg)) (\<lambda>refund_complete_date.
         rbind (cell (sm_error_col m)) (\<lambda>errors.
         rbind (cell (sm_skip_row_col m)) (\<lambda>skip_row.
         Inr \<lparr>rrr_row_index = row_index, rrr_response_id = response_id, rrr_request_date = request_date,
              rrr_learner_email = learner_email, rrr_zendesk_ticket_no = zendesk_ticket_no,
              rrr_requester_email = requester_email, rrr_product_id = product_id, rrr_order_id = order_id,
              rrr_order_type = order_type, rrr_finance_email = finance_email,
              rrr_finance_approve_date = finance_approve_date, rrr_finance_notes = finance_notes,
              rrr_refund_processor = refund_processor, rrr_refund_complete_date = refund_complete_date,
              rrr_errors = errors, rrr_skip_row = (skip_row = Some GOOGLE_API_TRUE_VAL)\<rparr>)))))))))))))))))"

text \<open>The enrollment of a refund: of a program (\<open>Inl\<close>) or of a run (\<open>Inr\<close>).\<close>

definition user_with_email :: "string option \<Rightarrow> ('z users_db_scheme, nat) prog" where
  "user_with_email email =
     db_get ''User'' users (\<lambda>_ u. case email of None \<Rightarrow> False | Some e \<Rightarrow> case_insensitive_equal (user_email u) e)"

definition get_order_objects :: "refund_request_row \<Rightarrow> ('z shop_db_scheme, nat \<times> (nat + nat)) prog" where
  "get_order_objects r =
     bindp (user_with_email (rrr_learner_email r)) (\<lambda>user.
     bindp (db_get ''Order'' orders (\<lambda>k x. int k = rrr_order_id r \<and> ord_purchaser x = user)) (\<lambda>order.
     bindp (asks (\<lambda>s. case rrr_product_id r of
              None \<Rightarrow> Inl (TypeErr ''expected string'')
            | Some product_id \<Rightarrow> get_courseware_object_from_text_id s product_id)) (\<lambda>found.
     bindp (lift_result found) (\<lambda>courseware_object.
     case courseware_object of
       Inl program \<Rightarrow>
         bindp (db_get ''ProgramEnrollment'' program_enrollments
                  (\<lambda>_ e. enr_user e = user \<and> enr_order e = Some order \<and> enr_program e = program)) (\<lambda>k. ret (order, Inl k))
     | Inr run \<Rightarrow>
         bindp (db_get ''CourseRunEnrollment'' run_enrollments
                  (\<lambda>_ e. enr_user e = user \<and> enr_order e = Some order \<and> enr_run e = run)) (\<lambda>k. ret (order, Inr k))))))"

definition reverse_order_and_enrollments :: "edx_service \<Rightarrow> nat \<Rightarrow> nat + nat \<Rightarrow> ('z shop_db_scheme, unit) prog" where
  "reverse_order_and_enrollments sv order enrollment =
     bindp (case enrollment of
              Inl k \<Rightarrow> bindp (deactivate_program_enrollment sv k (Some Refunded) False True) (\<lambda>d. ret (d \<noteq> None))
            | Inr k \<Rightarrow> bindp (deactivate_run_enrollment sv k (Some Refunded) False) (\<lambda>d. ret (d \<noteq> None))) (\<lambda>deactivated.
     if \<not> deactivated then raise (PlainException ''Enrollment change failed in edX'')
     else save_and_log_order order (\<lambda>r. r\<lparr>ord_status := OrderRefunded\<rparr>) None)"

definition is_ready_for_reversal :: "refund_request_row \<Rightarrow> bool" where
  "is_ready_for_reversal r \<longleftrightarrow>
     rrr_refund_complete_date r = None \<and>
     (rrr_order_type r = Some REFUND_SHEET_ORDER_TYPE_FULL_COUPON \<or>
      rrr_order_type r = Some REFUND_SHEET_ORDER_TYPE_PAID \<and> rrr_finance_email r \<noteq> None \<and>
        rrr_finance_approve_date r \<noteq> None)"

definition refund_failure_message :: "refund_request_row \<Rightarrow> string \<Rightarrow> string option" where
  "refund_failure_message r model =
     (if model = ''User'' then Some (''User with email '' @ quoted (concat (the_list (rrr_learner_email r))) @ '' not found'')
      else if model = ''Order'' then Some (''Order with id '' @ int_str (rrr_order_id r) @ '' and purchaser '' @
        quoted (concat (the_list (rrr_learner_email r))) @ '' not found'')
      else if model \<in> {''ProgramEnrollment'', ''CourseRunEnrollment'', ''Program'', ''CourseRun''}
      then Some (''Program/Course run enrollment does not exist for product '' @ quoted (concat (the_list (rrr_product_id r))) @
        '' and order '' @ int_str (rrr_order_id r))
      else None)"

definition refund_process_row ::
  "sheets_config \<Rightarrow> nat \<Rightarrow> string list \<Rightarrow> ('z sheets_db_scheme, refund_request_row row_result option) prog" where
  "refund_process_row cfg row_index row_data =
     bindp (get_or_create_change_request refund_requests refund_requests_update ''RefundRequest'' refund_sheet_metadata row_data)
       (\<lambda>(refund_request, request_created, request_updated).
     case parse_refund_row cfg row_index row_data of
       Inl exc \<Rightarrow> ret (Some (failed_row row_index (Some refund_request) (''Parsing failure: '' @ exn_message exc)))
     | Inr r \<Rightarrow>
         if rrr_errors r \<noteq> None \<and> \<not> request_created \<and> \<not> request_updated
         then ret (Some (plain_result row_index refund_request None RowIgnored))
         else
           bindp (asks (\<lambda>s. ecr_date_completed (row (refund_requests s) refund_request))) (\<lambda>date_completed.
           if date_completed \<noteq> None \<and> rrr_refund_complete_date r = None
           then ret (Some (plain_result row_index refund_request None RowOutOfSync))
           else if \<not> is_ready_for_reversal r then ret None
           else
             bindp (try_catch (bindp (get_order_objects r) (\<lambda>found. ret (Inr found)))
                (\<lambda>exc. case exc of
                   DoesNotExist model \<Rightarrow>
                     (case refund_failure_message r model of None \<Rightarrow> raise exc | Some message \<Rightarrow> ret (Inl message))
                 | _ \<Rightarrow> raise exc)) (\<lambda>found.
             case found of
               Inl message \<Rightarrow> ret (Some (failed_row row_index (Some refund_request) message))
             | Inr (order, enrollment) \<Rightarrow>
                 thenp (reverse_order_and_enrollments (sc_edx (shc_shop cfg)) order enrollment)
                (thenp (db_save refund_requests refund_requests_update refund_request
                          (\<lambda>x. x\<lparr>ecr_date_completed := Some (sc_now (shc_shop cfg))\<rparr>))
                   (ret (Some (plain_result row_index refund_request (Some r) RowProcessed))))))) "

definition refund_handler :: "sheets_config \<Rightarrow> ('z sheets_db_scheme, refund_request_row) sheet_handler" where
  "refund_handler cfg =
     \<lparr>hd_metadata = refund_sheet_metadata,
      hd_filter_ignored_rows = (\<lambda>rows s. filter_change_rows refund_sheet_metadata (completed_ids (refund_requests s)) rows),
      hd_validate_sheet = (\<lambda>rows. Inr (rows, [])), hd_process_row = refund_process_row cfg,
      hd_completed_cells = change_request_cells cfg refund_requests, hd_post_process = (\<lambda>_. ret ())\<rparr>"

section \<open>Deferral requests\<close>

record deferral_request_row =
  drr_row_index :: nat
  drr_response_id :: int
  drr_request_date :: "string option"
  drr_learner_email :: "string option"
  drr_zendesk_ticket_no :: "string option"
  drr_requester_email :: "string option"
  drr_from_courseware_id :: "string option"
  drr_to_courseware_id :: "string option"
  drr_deferral_processor :: "string option"
  drr_deferral_complete_date :: "int option"
  drr_errors :: "string option"
  drr_skip_row :: bool

definition parse_deferral_row :: "sheets_config \<Rightarrow> nat \<Rightarrow> string list \<Rightarrow> exn + deferral_request_row" where
  "parse_deferral_row cfg row_index raw_row_data =
     (let m = deferral_sheet_metadata; cells = map clean_sheet_value raw_row_data; cell = py_index cells
      in parsing
        (rbind (int_cell cells (sm_id_col m)) (\<lambda>response_id.
         rbind (cell 1) (\<lambda>request_date.
         rbind (cell 2) (\<lambda>learner_email.
         rbind (cell 3) (\<lambda>zendesk_ticket_no.
         rbind (cell 4) (\<lambda>requester_email.
         rbind (cell 5) (\<lambda>from_courseware_id.
         rbind (cell 6) (\<lambda>to_courseware_id.
         rbind (cell (sm_first_result_col m)) (\<lambda>deferral_processor.
         rbind (rbind (cell (sm_completed_date_col m)) (parse_sheet_date_only_str cfg)) (\<lambda>deferral_complete_date.
         rbind (cell (sm_error_col m)) (\<lambda>errors.
         rbind (cell (sm_skip_row_col m)) (\<lambda>skip_row.
         Inr \<lparr>drr_row_index = row_index, drr_response_id = response_id, drr_request_date = request_date,
              drr_learner_email = learner_email, drr_zendesk_ticket_no = zendesk_ticket_no,
              drr_requester_email = requester_email, drr_from_courseware_id = from_courseware_id,
              drr_to_courseware_id = to_courseware_id, drr_deferral_processor = deferral_processor,
              drr_deferral_complete_date = deferral_complete_date, drr_errors = errors,
              drr_skip_row = (skip_row = Some GOOGLE_API_TRUE_VAL)\<rparr>)))))))))))))"

text \<open>An empty cell is an id that no course run has: ids are not empty.\<close>

definition cell_text :: "string option \<Rightarrow> string" where
  "cell_text c = concat (the_list c)"

definition carry_out_deferral ::
  "sheets_config \<Rightarrow> deferral_request_row \<Rightarrow> ('z xpro_db_scheme, unit) prog" where
  "carry_out_deferral cfg r =
     (let shop = shc_shop cfg
      in bindp (user_with_email (drr_learner_email r)) (\<lambda>user.
         bindp (defer_enrollment (sc_edx shop) (sc_welcome_enabled shop) (sc_now shop) user
                  (cell_text (drr_from_courseware_id r)) (cell_text (drr_to_courseware_id r)) False True)
           (\<lambda>(from_enrollment, to_enrollment).
         if from_enrollment = None \<and> to_enrollment = None then raise (PlainException ''edX enrollment change failed'')
         else ret ())))"

definition deferral_failure_message :: "deferral_request_row \<Rightarrow> exn \<Rightarrow> string option" where
  "deferral_failure_message r exc =
     (case exc of
        DoesNotExist model \<Rightarrow>
          Some (if model = ''CourseRunEnrollment''
                then quoted ''from'' @ '' course run enrollment does not exist ('' @ cell_text (drr_from_courseware_id r) @ '')''
                else if model = ''CourseRun''
                then quoted ''to'' @ '' course run does not exist ('' @ cell_text (drr_to_courseware_id r) @ '')''
                else if model = ''User'' then ''User '' @ quoted (cell_text (drr_learner_email r)) @ '' does not exist''
                else exn_message exc)
      | ValidationError _ m \<Rightarrow> Some (''Invalid deferral: '' @ m)
      | EdxEnrollmentCreateError m \<Rightarrow> Some (''Unable to defer enrollment: '' @ m)
      | _ \<Rightarrow> None)"

definition deferral_process_row ::
  "sheets_config \<Rightarrow> nat \<Rightarrow> string list \<Rightarrow> ('z sheets_db_scheme, deferral_request_row row_result option) prog" where
  "deferral_process_row cfg row_index row_data =
     bindp (get_or_create_change_request deferral_requests deferral_requests_update ''DeferralRequest''
              deferral_sheet_metadata row_data) (\<lambda>(deferral_request, request_created, request_updated).
     case parse_deferral_row cfg row_index row_data of
       Inl exc \<Rightarrow> ret (Some (failed_row row_index (Some deferral_request) (''Parsing failure: '' @ exn_message exc)))
     | Inr r \<Rightarrow>
         if drr_errors r \<noteq> None \<and> \<not> request_created \<and> \<not> request_updated
         then ret (Some (plain_result row_index deferral_request None RowIgnored))
         else
           bindp (asks (\<lambda>s. ecr_date_completed (row (deferral_requests s) deferral_request))) (\<lambda>date_completed.
           if date_completed \<noteq> None \<and> drr_deferral_complete_date r = None
           then ret (Some (plain_result row_index deferral_request None RowOutOfSync))
           else if drr_from_courseware_id r = drr_to_courseware_id r
           then ret (Some (failed_row row_index (Some deferral_request)
                  (quoted ''from'' @ '' and '' @ quoted ''to'' @ '' ids are identical'')))
           else
             bindp (try_catch (bindp (carry_out_deferral cfg r) (\<lambda>_. ret None))
                (\<lambda>exc. case deferral_failure_message r exc of
                    None \<Rightarrow> raise exc | Some message \<Rightarrow> ret (Some message))) (\<lambda>failure.
             case failure of
               Some message \<Rightarrow> ret (Some (failed_row row_index (Some deferral_request) message))
             | None \<Rightarrow>
                 thenp (db_save deferral_requests deferral_requests_update deferral_request
                          (\<lambda>x. x\<lparr>ecr_date_completed := Some (sc_now (shc_shop cfg))\<rparr>))
                   (ret (Some (plain_result row_index deferral_request (Some r) RowProcessed))))))"

definition deferral_handler :: "sheets_config \<Rightarrow> ('z sheets_db_scheme, deferral_request_row) sheet_handler" where
  "deferral_handler cfg =
     \<lparr>hd_metadata = deferral_sheet_metadata,
      hd_filter_ignored_rows = (\<lambda>rows s. filter_change_rows deferral_sheet_metadata (completed_ids (deferral_requests s)) rows),
      hd_validate_sheet = (\<lambda>rows. Inr (rows, [])), hd_process_row = deferral_process_row cfg,
      hd_completed_cells = change_request_cells cfg deferral_requests, hd_post_process = (\<lambda>_. ret ())\<rparr>"

section \<open>File watches\<close>

definition SHEET_RENEWAL_RECORD_LIMIT :: nat where "SHEET_RENEWAL_RECORD_LIMIT = 20"

definition assign_sheet_metadata :: sheet_metadata where
  "assign_sheet_metadata =
     \<lparr>sm_sheet_type = SHEET_TYPE_COUPON_ASSIGN, sm_sheet_name = ''Coupon Assignment sheet'', sm_worksheet_name = None,
      sm_first_data_row = GOOGLE_SHEET_FIRST_ROW + 1, sm_num_columns = 6, sm_non_input_column_indices = [0, 2, 3],
      sm_id_col = 0, sm_first_result_col = 2, sm_completed_date_col = 3, sm_error_col = 2, sm_skip_row_col = 6\<rparr>"

definition assign_column_headers :: "string list" where
  "assign_column_headers =
     [''Coupon Code'', ''Email (Assignee)'', ''Status'', ''Status Date'', ''Enrollment URL'', ''Enrolled Email'']"

definition handler_url_stub :: "string \<Rightarrow> sheet_metadata \<Rightarrow> string option \<Rightarrow> string" where
  "handler_url_stub handler_path m file_id =
     handler_path @ ''?sheet='' @ sm_sheet_type m @
       (case file_id of None \<Rightarrow> [] | Some f \<Rightarrow> if f = [] then [] else ''&fileId='' @ f)"

definition padded :: "nat \<Rightarrow> int \<Rightarrow> string" where
  "padded width n = (let t = int_str n in replicate (width - length t) (CHR ''0'') @ t)"

text \<open>\<open>strftime("%Y%m%d-%H%M%S")\<close>\<close>

definition compact_date :: "int \<Rightarrow> string" where
  "compact_date dt =
     (let (year, month, day) = civil_from_days (dt div 86400); secs = dt mod 86400
      in padded 4 year @ padded 2 month @ padded 2 day @ ''-'' @
         padded 2 (secs div 3600) @ padded 2 (secs div 60 mod 60) @ padded 2 (secs mod 60))"

definition generate_channel_id :: "sheets_config \<Rightarrow> sheet_metadata \<Rightarrow> string \<Rightarrow> int \<Rightarrow> string" where
  "generate_channel_id cfg m sheet_file_id dt =
     py_join ''-'' ([shc_webhook_channel cfg, sm_sheet_type m] @
       (if sm_sheet_type m = SHEET_TYPE_COUPON_ASSIGN then [sheet_file_id] else []) @ [compact_date dt])"

text \<open>The result of a renewal request is a status, with the message of an HTTP error.\<close>

definition track_file_watch_renewal ::
  "string \<Rightarrow> string \<Rightarrow> (nat \<times> string) option \<Rightarrow> ('z sheets_db_scheme, unit) prog" where
  "track_file_watch_renewal sheet_type sheet_file_id exc =
     bindp (db_create renewal_attempts renewal_attempts_update
        \<lparr>rat_sheet_type = sheet_type, rat_sheet_file_id = sheet_file_id, rat_result = map_option (take 300 \<circ> snd) exc,
         rat_result_status_code = Some (case exc of None \<Rightarrow> 200 | Some (status, _) \<Rightarrow> status)\<rparr>) (\<lambda>_.
     bindp (asks (\<lambda>s. rev (matching (renewal_attempts s) (\<lambda>_ r. rat_sheet_file_id r = sheet_file_id))))
       (\<lambda>existing_attempt_ids.
     whenp (SHEET_RENEWAL_RECORD_LIMIT < length existing_attempt_ids)
       (let id_to_delete = existing_attempt_ids ! SHEET_RENEWAL_RECORD_LIMIT
        in db_delete renewal_attempts renewal_attempts_update (\<lambda>k _. k \<le> id_to_delete))))"

definition request_file_watch :: "sheets_config \<Rightarrow> string \<Rightarrow> string \<Rightarrow> string \<Rightarrow> int \<Rightarrow> ('z users_db_scheme, int) prog" where
  "request_file_watch cfg file_id channel_id handler_url expiration =
     bindp (asks (\<lambda>s. shc_watch_file cfg (effects s) file_id)) (\<lambda>answer.
     thenp (emit (GoogleCall ''files.watch'' file_id [[channel_id, handler_url, int_str (expiration * 1000)]]))
       (lift_result answer))"

definition create_or_renew_sheet_file_watch ::
  "sheets_config \<Rightarrow> string \<Rightarrow> sheet_metadata \<Rightarrow> bool \<Rightarrow> string \<Rightarrow>
     ('z sheets_db_scheme, nat option \<times> bool \<times> bool) prog" where
  "create_or_renew_sheet_file_watch cfg handler_path m force sheet_file_id =
     (let now = sc_now (shc_shop cfg);
          new_channel_id = generate_channel_id cfg m sheet_file_id now;
          handler_url = handler_url_stub handler_path m
            (if sm_sheet_type m = SHEET_TYPE_COUPON_ASSIGN then Some sheet_file_id else None);
          min_fresh_expiration_date = now + 60 * shc_webhook_renewal_minutes cfg
      in transaction
        (bindp (db_get_or_create ''GoogleFileWatch'' file_watches file_watches_update (\<lambda>_ w. gfw_file_id w = sheet_file_id)
            \<lparr>gfw_file_id = sheet_file_id, gfw_channel_id = new_channel_id, gfw_version = Some 1,
             gfw_activation_date = now, gfw_expiration_date = now, gfw_last_request_received = None\<rparr>) (\<lambda>(file_watch, created).
         bindp (asks (\<lambda>s. gfw_expiration_date (row (file_watches s) file_watch))) (\<lambda>expiration_date.
         if \<not> created \<and> expiration_date > min_fresh_expiration_date \<and> \<not> force
         then ret (Some file_watch, False, False)
         else
           bindp (try_catch
               (bindp (request_file_watch cfg sheet_file_id new_channel_id handler_url
                         (now + 60 * shc_webhook_expiration_minutes cfg)) (\<lambda>expiration.
                thenp (track_file_watch_renewal (sm_sheet_type m) sheet_file_id None) (ret (Some expiration))))
               (\<lambda>exc. case exc of
                  GoogleHttpError status message \<Rightarrow>
                    thenp (track_file_watch_renewal (sm_sheet_type m) sheet_file_id (Some (status, message))) (ret None)
                | _ \<Rightarrow> raise exc)) (\<lambda>answer.
           case answer of
             None \<Rightarrow> ret (None, False, False)
           | Some expiration \<Rightarrow>
               thenp (db_save file_watches file_watches_update file_watch
                  (\<lambda>w. w\<lparr>gfw_activation_date := now, gfw_expiration_date := expiration div 1000,
                     gfw_channel_id := new_channel_id,
                     gfw_version := (if created then gfw_version w else map_option ((+) 1) (gfw_version w))\<rparr>))
                 (ret (Some file_watch, created, True)))))))"

text \<open>
  The webhook for changes of a watched sheet: the status it answers, with the tasks it queues as effects. An
  unknown sheet type gives no metadata.
\<close>

definition sheet_metadata_of_type :: "string \<Rightarrow> exn + sheet_metadata" where
  "sheet_metadata_of_type sheet_type =
     (if sheet_type = SHEET_TYPE_COUPON_REQUEST then Inr request_sheet_metadata
      else if sheet_type = SHEET_TYPE_COUPON_ASSIGN then Inr assign_sheet_metadata
      else if sheet_type \<in> {SHEET_TYPE_ENROLL_CHANGE, WORKSHEET_TYPE_REFUND} then Inr refund_sheet_metadata
      else Inl (ValueError (''No sheet metadata exists matching the type '' @ sheet_type)))"

definition queue_sheet_task :: "string \<Rightarrow> string list \<Rightarrow> ('z users_db_scheme, unit) prog" where
  "queue_sheet_task task args = emit (GoogleCall ''delay'' task [args])"

definition handle_watched_sheet_update ::
  "int \<Rightarrow> (string \<Rightarrow> string option) \<Rightarrow> string option \<Rightarrow> string \<Rightarrow> string option \<Rightarrow> ('z sheets_db_scheme, nat) prog" where
  "handle_watched_sheet_update now singleton_file_id channel_id sheet_type qs_file_id =
     (case channel_id of
        None \<Rightarrow> ret 400
      | Some channel \<Rightarrow>
          if channel = [] then ret 400
          else
            case sheet_metadata_of_type sheet_type of
              Inl _ \<Rightarrow> ret 400
            | Inr m \<Rightarrow>
                if sheet_type = SHEET_TYPE_COUPON_ASSIGN \<and> qs_file_id = None then ret 400
                else
                  let file_id = (case qs_file_id of
                        None \<Rightarrow> singleton_file_id (sm_sheet_type m)
                      | Some f \<Rightarrow> if f = [] then singleton_file_id (sm_sheet_type m) else Some f)
                  in
                    bindp (try_catch
                        (atomic (bindp (db_get ''GoogleFileWatch'' file_watches (\<lambda>_ w. Some (gfw_file_id w) = file_id)) (\<lambda>w.
                          thenp (db_save file_watches file_watches_update w (\<lambda>r. r\<lparr>gfw_last_request_received := Some now\<rparr>))
                            (ret (Some w)))))
                        (\<lambda>e. if is_does_not_exist e then ret None else raise e)) (\<lambda>watch.
                    case watch of
                      None \<Rightarrow> ret 400
                    | Some w \<Rightarrow>
                        bindp (asks (\<lambda>s. gfw_channel_id (row (file_watches s) w))) (\<lambda>active_channel.
                        if channel \<noteq> active_channel then ret 400
                        else
                          thenp (if sheet_type = SHEET_TYPE_COUPON_REQUEST
                                 then queue_sheet_task ''handle_unprocessed_coupon_requests'' []
                                 else if sheet_type = SHEET_TYPE_COUPON_ASSIGN
                                 then queue_sheet_task ''schedule_coupon_assignment_sheet_handling'' (the_list file_id)
                                 else if sheet_type = SHEET_TYPE_ENROLL_CHANGE
                                 then thenp (queue_sheet_task ''handle_unprocessed_refund_requests'' [])
                                            (queue_sheet_task ''handle_unprocessed_deferral_requests'' [])
                                 else ret ())
                            (ret 200))))"

section \<open>Coupon requests\<close>

record coupon_request_row =
  crr_row_index :: nat
  crr_purchase_order_id :: string
  crr_coupon_name :: string
  crr_num_codes :: int
  crr_product_text_id :: string
  crr_company_name :: string
  crr_activation :: "int option"
  crr_expiration :: "int option"
  crr_date_processed :: "int option"
  crr_errors :: "string option"
  crr_skip_row :: bool
  crr_requester :: "string option"
  crr_product :: nat
  crr_program_run :: "nat option"

definition parse_coupon_request_row ::
  "sheets_config \<Rightarrow> 'z shop_db_scheme \<Rightarrow> nat \<Rightarrow> string list \<Rightarrow> exn + coupon_request_row" where
  "parse_coupon_request_row cfg s row_index raw_row_data =
     (let m = request_sheet_metadata; cell = py_index raw_row_data; opt = (\<lambda>i. item_at_index_or_none raw_row_data i)
      in parsing
        (rbind (cell 0) (\<lambda>purchase_order_id.
         rbind (cell (sm_id_col m)) (\<lambda>coupon_name.
         rbind (rbind (cell 2) py_int) (\<lambda>num_codes.
         rbind (cell 3) (\<lambda>product_text_id.
         rbind (cell 4) (\<lambda>company_name.
         rbind (parse_sheet_datetime_str cfg (opt 5)) (\<lambda>activation.
         rbind (parse_sheet_datetime_str cfg (opt 6)) (\<lambda>expiration.
         rbind (parse_sheet_datetime_str cfg (opt (int (sm_completed_date_col m)))) (\<lambda>date_processed.
         rbind (get_product_from_text_id s (py_strip product_text_id)) (\<lambda>(product, _, program_run).
         Inr \<lparr>crr_row_index = row_index, crr_purchase_order_id = py_strip purchase_order_id,
              crr_coupon_name = py_strip coupon_name, crr_num_codes = num_codes,
              crr_product_text_id = py_strip product_text_id, crr_company_name = company_name,
              crr_activation = activation, crr_expiration = expiration, crr_date_processed = date_processed,
              crr_errors = opt (int (sm_error_col m)),
              crr_skip_row = (opt (int (sm_skip_row_col m)) = Some GOOGLE_API_TRUE_VAL),
              crr_requester = opt 7, crr_product = product, crr_program_run = program_run\<rparr>)))))))))))"

definition bulk_coupon_params :: "coupon_request_row \<Rightarrow> nat \<Rightarrow> coupon_params" where
  "bulk_coupon_params r company_id =
     \<lparr>cpar_name = crr_coupon_name r, cpar_product_ids = [crr_product r], cpar_amount = 1,
      cpar_num_coupon_codes = nat (crr_num_codes r), cpar_coupon_type = SINGLE_USE, cpar_max_redemptions = 1,
      cpar_max_redemptions_per_user = 1, cpar_tag = None, cpar_company_id = Some company_id, cpar_automatic = False,
      cpar_is_global = False, cpar_activation_date = crr_activation r, cpar_expiration_date = crr_expiration r,
      cpar_payment_type = Some ''purchase_order'', cpar_discount_type = PercentOff,
      cpar_payment_transaction = Some (crr_purchase_order_id r), cpar_coupon_code = None,
      cpar_product_program_run_map =
        (case crr_program_run r of None \<Rightarrow> Map.empty | Some run \<Rightarrow> [crr_product r \<mapsto> run]),
      cpar_include_future_runs = False\<rparr>"

text \<open>
  A negative number of codes is refused by the database when the payment version is stored, after the
  payment has been.
\<close>

definition create_coupons_for_request_row ::
  "sheets_config \<Rightarrow> coupon_request_row \<Rightarrow> nat \<Rightarrow> ('z shop_db_scheme, nat) prog" where
  "create_coupons_for_request_row cfg r company_id =
     (if crr_num_codes r < 0
      then bindp (asks (\<lambda>s. t_exists (coupon_payments s) (\<lambda>_ q. cp_name q = crr_coupon_name r))) (\<lambda>name_taken.
           if name_taken then raise (IntegrityError ''ecommerce_couponpayment_name_key'')
           else bindp (db_create coupon_payments coupon_payments_update \<lparr>cp_name = crr_coupon_name r\<rparr>) (\<lambda>_.
                raise (IntegrityError ''num_coupon_codes'')))
      else create_coupons (shc_uuids cfg) (sc_now (shc_shop cfg)) (bulk_coupon_params r company_id))"

definition is_row_ignored_or_complete :: "string list \<Rightarrow> bool" where
  "is_row_ignored_or_complete raw_row_data \<longleftrightarrow>
     py_strip (item_at_index_or_blank raw_row_data (int (sm_skip_row_col request_sheet_metadata))) = GOOGLE_API_TRUE_VAL \<or>
     item_at_index_or_blank raw_row_data (int (sm_completed_date_col request_sheet_metadata)) \<noteq> []"

definition get_or_create_coupon_request :: "string list \<Rightarrow> ('z sheets_db_scheme, nat \<times> bool \<times> bool) prog" where
  "get_or_create_coupon_request row_data =
     bindp (lift_result (rbind (py_index row_data (sm_id_col request_sheet_metadata)) (\<lambda>coupon_name.
              rbind (py_index row_data 0) (\<lambda>purchase_order_id. Inr (py_strip coupon_name, py_strip purchase_order_id)))))
       (\<lambda>(coupon_name, purchase_order_id).
     let user_input_json = json_dumps (get_form_input_columns request_sheet_metadata row_data)
     in atomic
       (bindp (db_get_or_create ''CouponGenerationRequest'' coupon_generation_requests coupon_generation_requests_update
                (\<lambda>_ r. cgr_coupon_name r = coupon_name)
                \<lparr>cgr_purchase_order_id = purchase_order_id, cgr_coupon_name = coupon_name, cgr_date_completed = None,
                 cgr_raw_data = Some user_input_json\<rparr>) (\<lambda>(k, created).
        bindp (asks (\<lambda>s. cgr_raw_data (row (coupon_generation_requests s) k) \<noteq> Some user_input_json)) (\<lambda>raw_data_changed.
        thenp (whenp raw_data_changed
                 (db_save coupon_generation_requests coupon_generation_requests_update k
                    (\<lambda>r. r\<lparr>cgr_raw_data := Some user_input_json\<rparr>)))
          (ret (k, created, raw_data_changed))))))"

text \<open>\<open>validate_sheet\<close>: rows whose coupon name an earlier row has are invalid.\<close>

fun repeated_names :: "string list \<Rightarrow> (exn + sheet_row) list \<Rightarrow> exn + (nat \<times> string) list" where
  "repeated_names observed [] = Inr []"
| "repeated_names observed (Inl e # rest) = Inl e"
| "repeated_names observed (Inr (row_index, row_data) # rest) =
     rbind (py_index row_data (sm_id_col request_sheet_metadata)) (\<lambda>cell.
       let coupon_name = py_strip cell
       in if coupon_name \<in> set observed
          then rbind (repeated_names observed rest) (\<lambda>invalid. Inr ((row_index, coupon_name) # invalid))
          else repeated_names (coupon_name # observed) rest)"

definition validate_coupon_sheet ::
  "(exn + sheet_row) list \<Rightarrow> exn + (exn + sheet_row) list \<times> 'o row_result list" where
  "validate_coupon_sheet enumerated_rows =
     rbind (repeated_names [] enumerated_rows) (\<lambda>invalid.
       Inr (filter (\<lambda>r. case r of Inl _ \<Rightarrow> True | Inr (row_index, _) \<Rightarrow> row_index \<notin> fst ` set invalid) enumerated_rows,
            map (\<lambda>(row_index, coupon_name).
                   failed_row row_index None (''Coupon name '' @ quoted coupon_name @ '' already exists in the sheet'')) invalid))"

definition coupon_process_row ::
  "sheets_config \<Rightarrow> nat \<Rightarrow> string list \<Rightarrow> ('z sheets_db_scheme, coupon_request_row row_result option) prog" where
  "coupon_process_row cfg row_index row_data =
     bindp (get_or_create_coupon_request row_data) (\<lambda>(coupon_gen_request, request_created, request_updated).
     bindp (asks (\<lambda>s. parse_coupon_request_row cfg s row_index row_data)) (\<lambda>parsed.
     case parsed of
       Inl exc \<Rightarrow> ret (Some (failed_row row_index (Some coupon_gen_request) (''Parsing failure: '' @ exn_message exc)))
     | Inr r \<Rightarrow>
         if (case crr_errors r of None \<Rightarrow> False | Some t \<Rightarrow> t \<noteq> []) \<and> \<not> request_created \<and> \<not> request_updated
         then ret (Some (plain_result row_index coupon_gen_request None RowIgnored))
         else
           bindp (asks (\<lambda>s. cgr_date_completed (row (coupon_generation_requests s) coupon_gen_request))) (\<lambda>date_completed.
           if date_completed \<noteq> None \<and> crr_date_processed r = None
           then ret (Some (plain_result row_index coupon_gen_request None RowOutOfSync))
           else
             bindp (db_get_or_create ''Company'' companies companies_update
                      (\<lambda>_ c. case_insensitive_equal (company_name c) (crr_company_name r))
                      \<lparr>company_name = crr_company_name r\<rparr>) (\<lambda>(company, _).
             bindp (create_coupons_for_request_row cfg r company) (\<lambda>_.
             thenp (db_save coupon_generation_requests coupon_generation_requests_update coupon_gen_request
                      (\<lambda>x. x\<lparr>cgr_date_completed := Some (sc_now (shc_shop cfg))\<rparr>))
               (ret (Some (plain_result row_index coupon_gen_request (Some r) RowProcessed))))))))"

definition assignment_sheet_file_name :: "coupon_request_row \<Rightarrow> string" where
  "assignment_sheet_file_name r =
     py_join '' - '' [ASSIGNMENT_SHEET_PREFIX, crr_company_name r, crr_purchase_order_id r, crr_product_text_id r]"

text \<open>\<open>build_protected_range_request_body\<close>: the numbers of the request, and its description.\<close>

definition build_protected_range_request_body ::
  "nat \<Rightarrow> nat \<Rightarrow> nat \<Rightarrow> nat \<Rightarrow> bool \<Rightarrow> string \<Rightarrow> string list" where
  "build_protected_range_request_body start_row_index num_rows start_col_index num_cols warning_only description =
     map nat_str [start_row_index, start_row_index + num_rows, start_col_index, start_col_index + num_cols] @
       [if warning_only then ''true'' else ''false'', description]"

definition protect_coupon_assignment_ranges :: "string \<Rightarrow> nat \<Rightarrow> ('z users_db_scheme, unit) prog" where
  "protect_coupon_assignment_ranges spreadsheet_id num_data_rows =
     (let first = sm_first_data_row assign_sheet_metadata - 1
      in emit (GoogleCall ''batch_update'' spreadsheet_id
        [build_protected_range_request_body 0 1 0 (sm_num_columns assign_sheet_metadata) False ''Header Row'',
         build_protected_range_request_body first num_data_rows 0 1 False ''Coupon Codes'',
         build_protected_range_request_body first num_data_rows 2 2 True ''Status Columns'']))"

definition create_assignment_sheet ::
  "sheets_config \<Rightarrow> string \<Rightarrow> coupon_request_row \<Rightarrow> ('z sheets_db_scheme, unit) prog" where
  "create_assignment_sheet cfg handler_path r =
     bindp (asks (\<lambda>s. map (\<lambda>k. coupon_code (row (coupons s) k))
         (matching (coupons s) (\<lambda>_ c. cp_name (row (coupon_payments s) (coupon_payment c)) = crr_coupon_name r)))) (\<lambda>coupon_codes.
     if coupon_codes = [] then ret ()
     else
       let title = assignment_sheet_file_name r; first = sm_first_data_row assign_sheet_metadata;
           last_row = length coupon_codes + first; cells = (\<lambda>col. cell_name col first @ '':'' @ cell_name col last_row)
       in bindp (asks (\<lambda>s. shc_create_sheet cfg (effects s) title)) (\<lambda>created.
          thenp (emit (GoogleCall ''create'' title [the_list (shc_output_folder cfg)]))
         (bindp (lift_result created) (\<lambda>sheet_id.
          thenp (emit (GoogleCall ''update_values'' (sheet_id @ '' A1:'' @ cell_name 5 1) [assign_column_headers]))
         (thenp (emit (GoogleCall ''update_values'' (sheet_id @ '' '' @ cells 0) (map (\<lambda>c. [c]) coupon_codes)))
         (thenp (emit (GoogleCall ''update_values'' (sheet_id @ '' '' @ cells 4)
                   (map (\<lambda>c. [make_checkout_url (shc_checkout_url cfg) (Some (nat_str (crr_product r))) (Some c) None False])
                      coupon_codes)))
         (thenp (emit (GoogleCall ''adjust_column_width'' sheet_id []))
         (thenp (emit (GoogleCall ''apply_format'' sheet_id []))
         (thenp (protect_coupon_assignment_ranges sheet_id (length coupon_codes))
         (bindp (db_create bulk_assignments bulk_assignments_update
                   \<lparr>bulk_assignment_sheet_id = Some sheet_id, bulk_sheet_last_modified_date = None,
                    bulk_last_assignment_date = None, bulk_assignments_started_date = None,
                    bulk_message_delivery_completed_date = None\<rparr>) (\<lambda>_.
          thenp (whenp (shc_admin_emails cfg \<noteq> [])
                   (emit (GoogleCall ''permissions.create'' sheet_id (map (\<lambda>e. [e]) (shc_admin_emails cfg)))))
         (bindp (create_or_renew_sheet_file_watch cfg handler_path assign_sheet_metadata False sheet_id) (\<lambda>_.
          ret ())))))))))))))"

definition coupon_request_cells :: "sheets_config \<Rightarrow> 'z sheets_db_scheme \<Rightarrow> 'o row_result \<Rightarrow> exn + string list" where
  "coupon_request_cells cfg s r =
     (case rr_db_record r of
        None \<Rightarrow> Inl (AttributeError ''date_completed'')
      | Some k \<Rightarrow>
          (case cgr_date_completed (row (coupon_generation_requests s) k) of
             None \<Rightarrow> Inl (AttributeError ''astimezone'') | Some dt \<Rightarrow> Inr [sheet_date_formula cfg dt, []]))"

definition coupon_request_handler ::
  "sheets_config \<Rightarrow> string \<Rightarrow> ('z sheets_db_scheme, coupon_request_row) sheet_handler" where
  "coupon_request_handler cfg handler_path =
     \<lparr>hd_metadata = request_sheet_metadata,
      hd_filter_ignored_rows = (\<lambda>rows s. map Inr (filter (\<lambda>(_, row_data). \<not> is_row_ignored_or_complete row_data) rows)),
      hd_validate_sheet = validate_coupon_sheet, hd_process_row = coupon_process_row cfg,
      hd_completed_cells = coupon_request_cells cfg,
      hd_post_process = (\<lambda>rs. for_each rs (\<lambda>r. for_each (the_list (rr_row_object r)) (create_assignment_sheet cfg handler_path)))\<rparr>"

end
