(* ===== verification/Sheet_Requests.thy ===== *)
theory Sheet_Requests
  imports Sheet_Handlers Enrollment_Admin
begin

text \<open>
  What the handlers of the request sheets do: reading a sheet in pages, telling changed rows from unchanged ones,
  carrying a request out once, and what is left behind when a row cannot be read.
\<close>

section \<open>Paging\<close>

text \<open>
  The pages that are asked for, and the first that is not full. What the service answers is a parameter: \<open>worksheet_rows\<close>
  says of it that a range is answered with the rows of the worksheet in that range, as far as there are any.
\<close>

definition page_of :: "(nat \<Rightarrow> nat \<Rightarrow> string list list) \<Rightarrow> nat \<Rightarrow> nat \<Rightarrow> nat \<Rightarrow> string list list" where
  "page_of get_values page_size start_row i = get_values (start_row + i * page_size) (start_row + i * page_size + page_size - 1)"

definition last_page :: "(nat \<Rightarrow> nat \<Rightarrow> string list list) \<Rightarrow> nat \<Rightarrow> nat \<Rightarrow> nat \<Rightarrow> bool" where
  "last_page get_values page_size start_row i \<longleftrightarrow>
     page_of get_values page_size start_row i = [] \<or> length (page_of get_values page_size start_row i) \<noteq> page_size"

definition worksheet_rows :: "(nat \<Rightarrow> nat \<Rightarrow> string list list) \<Rightarrow> string list list \<Rightarrow> bool" where
  "worksheet_rows get_values grid \<longleftrightarrow>
     (\<forall>a b. 0 < a \<and> a \<le> b \<longrightarrow> get_values a b = take (b + 1 - a) (drop (a - 1) grid))"


lemma read_last: "last_page v n a 0 \<Longrightarrow> get_data_rows_after_start v n a = Some (filter first_cell_filled (page_of v n a 0))"
  by (subst get_data_rows_after_start.simps) (auto simp: last_page_def page_of_def Let_def)

lemma full_page: "\<not> last_page v n a i \<Longrightarrow> 0 < n"
  by (metis last_page_def length_greater_0_conv)

lemma read_next:
  "\<not> last_page v n a 0 \<Longrightarrow> get_data_rows_after_start v n a =
     Option.bind (get_data_rows_after_start v n (a + n)) (\<lambda>rest. Some (filter first_cell_filled (page_of v n a 0) @ rest))"
proof -
  assume full: "\<not> last_page v n a 0"
  then have "0 < n" by (rule full_page)
  then have "Suc (a + n - Suc 0) = a + n" by simp
  with full show ?thesis
    by (subst get_data_rows_after_start.simps) (simp add: last_page_def page_of_def Let_def)
qed



lemma paging:
  assumes "0 < page_size" and "0 < start_row" and "worksheet_rows get_values grid"
  shows "get_data_rows_after_start get_values page_size start_row =
    Some (filter first_cell_filled (drop (start_row - 1) grid))"
  using assms(2)
proof (induction "length grid - (start_row - 1)" arbitrary: start_row rule: less_induct)
  case less
  let ?page = "take page_size (drop (start_row - 1) grid)"
  have page: "page_of get_values page_size start_row 0 = ?page"
    using assms(1,3) less.prems by (simp add: page_of_def worksheet_rows_def)
  show ?case
  proof (cases "last_page get_values page_size start_row 0")
    case True
    then have "length (drop (start_row - 1) grid) < page_size \<or> ?page = []"
      unfolding last_page_def page by (metis length_take min.absorb2 not_le_imp_less)
    then have "?page = drop (start_row - 1) grid"
      using assms(1) by auto
    with read_last [OF True] page show ?thesis by simp
  next
    case False
    then have more: "start_row - 1 + page_size \<le> length grid"
      using assms(1) unfolding last_page_def page by auto
    have next_row: "start_row + page_size - 1 = start_row - 1 + page_size"
      using less.prems by simp
    have "get_data_rows_after_start get_values page_size (start_row + page_size) =
        Some (filter first_cell_filled (drop (start_row - 1 + page_size) grid))"
      using less.hyps [of "start_row + page_size"] assms(1) less.prems more unfolding next_row by simp
    moreover have "filter first_cell_filled ?page @ filter first_cell_filled (drop (start_row - 1 + page_size) grid) =
        filter first_cell_filled (drop (start_row - 1) grid)"
      by (metis append_take_drop_id drop_drop filter_append add.commute)
    ultimately show ?thesis
      using read_next [OF False] page by simp
  qed
qed



text \<open>
  Rows are numbered after the blank ones are left out: a row below a blank one is given the number of another row, and its
  result is written there.
\<close>

lemma blank_row_shifts_numbers:
  assumes "worksheet_rows get_values (replicate 4 [''h''] @ [[''7''], ['' ''], [''8'']])"
  shows "change_request_rows get_values 50 deferral_sheet_metadata = Some [(5, [''7'']), (6, [''8''])]"
proof -
  have "filter first_cell_filled (drop (5 - 1) (replicate 4 [''h''] @ [[''7''], ['' ''], [''8'']])) = [[''7''], [''8'']]"
    by code_simp
  then show ?thesis
    by (simp add: change_request_rows_def deferral_sheet_metadata_def paging [OF _ _ assms])
qed

section \<open>The stored input of a row\<close>

definition hex_val :: "char \<Rightarrow> nat" where
  "hex_val c = (let n = of_char c in if n < 58 then n - 48 else n - 87)"

text \<open>Reading one character of a JSON text back, with the rest of the text.\<close>

fun json_read :: "string \<Rightarrow> (char \<times> string) option" where
  "json_read [] = None"
| "json_read (c # cs) =
     (if c \<noteq> CHR 0x5C then Some (c, cs)
      else case cs of
             [] \<Rightarrow> None
           | d # ds \<Rightarrow>
               if d = CHR ''n'' then Some (CHR 0x0A, ds) else if d = CHR ''r'' then Some (CHR 0x0D, ds)
               else if d = CHR ''t'' then Some (CHR 0x09, ds) else if d = CHR ''b'' then Some (CHR 0x08, ds)
               else if d = CHR ''f'' then Some (CHR 0x0C, ds)
               else if d = CHR ''u'' then Some (char_of (16 * hex_val (ds ! 2) + hex_val (ds ! 3)), drop 4 ds)
               else Some (d, ds))"

lemma hex_val_digit: "n < 16 \<Longrightarrow> hex_val (hex_digit n) = n"
proof -
  have "\<forall>n \<in> set [0..<16]. hex_val (hex_digit n) = n" by code_simp
  then show "n < 16 \<Longrightarrow> hex_val (hex_digit n) = n" by simp
qed

lemma json_read_char: "json_read (json_char c @ rest) = Some (c, rest)"
proof -
  let ?n = "of_char c :: nat"
  have lt: "?n < 256" by simp
  have c: "c = char_of ?n" by simp
  have "16 * hex_val (hex_digit (?n div 16)) + hex_val (hex_digit (?n mod 16)) = ?n"
    using hex_val_digit [of "?n div 16"] hex_val_digit [of "?n mod 16"] less_mult_imp_div_less [of ?n 16 16] lt by simp
  then have hex: "char_of (16 * hex_val (hex_digit (?n div 16)) + hex_val (hex_digit (?n mod 16))) = c"
    by (simp only:) simp
  have eq: "?n = of_char d \<longleftrightarrow> c = d" for d by simp
  consider "c = CHR 0x22" | "c = CHR 0x5C" | "c = CHR 0x0A" | "c = CHR 0x0D" | "c = CHR 0x09" | "c = CHR 0x08" | "c = CHR 0x0C"
    | (other) "c \<notin> {CHR 0x22, CHR 0x5C, CHR 0x0A, CHR 0x0D, CHR 0x09, CHR 0x08, CHR 0x0C}"
    by blast
  then show ?thesis
  proof cases
    case other
    then have "?n \<noteq> 0x22" "?n \<noteq> 0x5C" "?n \<noteq> 0x0A" "?n \<noteq> 0x0D" "?n \<noteq> 0x09" "?n \<noteq> 0x08" "?n \<noteq> 0x0C"
      using eq [of "CHR 0x22"] eq [of "CHR 0x5C"] eq [of "CHR 0x0A"] eq [of "CHR 0x0D"] eq [of "CHR 0x09"]
        eq [of "CHR 0x08"] eq [of "CHR 0x0C"] by auto
    then have "json_char c = (if ?n < 0x20 \<or> ?n > 0x7E
        then CHR 0x5C # ''u00'' @ [hex_digit (?n div 16), hex_digit (?n mod 16)] else [c])"
      by (simp add: json_char_def Let_def)
    moreover have "c \<noteq> CHR 0x5C" using other by simp
    ultimately show ?thesis
      using hex by simp
  qed (simp_all add: json_char_def Let_def)
qed

lemma json_char_first: "\<exists>d ds. json_char c = d # ds \<and> d \<noteq> CHR 0x22"
proof (cases "(of_char c :: nat) = 0x22")
  case False
  then have "c \<noteq> CHR 0x22" by auto
  with False show ?thesis by (auto simp: json_char_def Let_def)
qed (simp add: json_char_def)

lemma json_chars_inj:
  "concat (map json_char s) @ CHR 0x22 # xs = concat (map json_char t) @ CHR 0x22 # ys \<Longrightarrow> s = t \<and> xs = ys"
proof (induction s arbitrary: t)
  case Nil
  then show ?case
  proof (cases t)
    case (Cons d u)
    with Nil json_char_first [of d] show ?thesis by auto
  qed simp
next
  case (Cons c s)
  show ?case
  proof (cases t)
    case Nil
    with Cons.prems json_char_first [of c] show ?thesis by auto
  next
    case (Cons d u)
    with Cons.prems have "json_char c @ (concat (map json_char s) @ CHR 0x22 # xs) = json_char d @ (concat (map json_char u) @ CHR 0x22 # ys)"
      by simp
    then have "Some (c, concat (map json_char s) @ CHR 0x22 # xs) = Some (d, concat (map json_char u) @ CHR 0x22 # ys)"
      by (metis json_read_char)
    with Cons.IH [of u] Cons show ?thesis by simp
  qed
qed

lemma json_string_inj: "json_string s @ xs = json_string t @ ys \<Longrightarrow> s = t \<and> xs = ys"
  by (rule json_chars_inj) (simp add: json_string_def)

lemma json_strings_inj:
  "py_join '', '' (map json_string xs) @ '']'' = py_join '', '' (map json_string ys) @ '']'' \<Longrightarrow> xs = ys"
proof (induction xs arbitrary: ys)
  case Nil
  then show ?case by (cases ys; cases "tl ys") (auto simp: json_string_def)
next
  case (Cons x xs)
  obtain y zs where ys: "ys = y # zs"
    using Cons.prems by (cases ys; cases xs) (auto simp: json_string_def)
  have split: "py_join '', '' (map json_string (a # as)) @ '']'' =
      json_string a @ (if as = [] then '']'' else '', '' @ py_join '', '' (map json_string as) @ '']'')" for a as
    by (cases as) simp_all
  from json_string_inj [OF Cons.prems [unfolded ys split]] have "x = y"
    and rest: "(if xs = [] then '']'' else '', '' @ py_join '', '' (map json_string xs) @ '']'') =
      (if zs = [] then '']'' else '', '' @ py_join '', '' (map json_string zs) @ '']'')" by blast+
  then show ?case
    using Cons.IH [of zs] by (auto simp: ys split: if_splits)
qed

text \<open>
  The stored JSON text of a row tells its input columns apart: two texts are equal only for equal inputs, so a request is
  taken for changed exactly when one of its inputs is.
\<close>

theorem json_dumps_injective: "json_dumps xs = json_dumps ys \<longleftrightarrow> xs = ys"
  using json_strings_inj by (auto simp: json_dumps_def)

section \<open>Rows and exceptions\<close>

lemma process_rows_append:
  "process_rows p (map Inr xs @ rest) s =
     (case process_rows p (map Inr xs) s of
        (Inl e, s') \<Rightarrow> (Inl e, s')
      | (Inr rs, s') \<Rightarrow> (case process_rows p rest s' of (Inl e, s'') \<Rightarrow> (Inl e, s'') | (Inr rs', s'') \<Rightarrow> (Inr (rs @ rs'), s'')))"
  by (induction xs arbitrary: s) (auto simp: bindp_run split: prod.splits sum.splits)

text \<open>An exception of one row is a result of that row: it does not keep the others from being processed.\<close>

lemma process_rows_returns:
  obtains rs s' where "process_rows p (map Inr xs) s = (Inr rs, s')"
proof -
  have "\<exists>rs s'. process_rows p (map Inr xs) s = (Inr rs, s')"
  proof (induction xs arbitrary: s)
    case (Cons x xs)
    obtain i row where x: "x = (i, row)" by fastforce
    obtain r s1 where p: "try_catch (p i row) (\<lambda>exc. ret (Some (failed_row i None (''Error: '' @ exn_message exc)))) s = (Inr r, s1)"
    proof (cases "p i row s")
      case (Pair x s2)
      then show ?thesis using that by (cases x) (simp_all add: try_catch_def)
    qed
    from Cons [of s1] obtain rs s2 where "process_rows p (map Inr xs) s1 = (Inr rs, s2)" by blast
    with p show ?case by (simp add: x)
  qed simp
  then show thesis using that by blast
qed

lemma filter_change_rows_append:
  "\<forall>x \<in> set (filter_change_rows m c pre). \<exists>r. x = Inr r \<Longrightarrow>
     filter_change_rows m c (pre @ rest) = filter_change_rows m c pre @ filter_change_rows m c rest"
  by (induction m c pre rule: filter_change_rows.induct) (auto split: if_splits sum.splits)

text \<open>
  A cell of the response ids that is not a number stops the whole worksheet: the exception leaves the handler where the
  row stands. The rows above have been carried out, but nothing is written back to the sheet for them, and the
  rows below are not looked at.
\<close>

theorem malformed_id_stops_sheet:
  assumes "filter_change_rows refund_sheet_metadata (completed_ids (refund_requests s)) pre = map Inr rows"
    and "item_at_index_or_none row_data (int (sm_skip_row_col refund_sheet_metadata)) \<noteq> Some GOOGLE_API_TRUE_VAL"
    and "item_at_index_or_blank row_data (int (sm_completed_date_col refund_sheet_metadata)) = []"
    and "change_request_of refund_sheet_metadata row_data = Inl e"
    and "process_sheet (refund_handler cfg) (pre @ (i, row_data) # post) s = (r, s')"
  shows "r = Inl e \<and> (\<exists>rs. process_rows (refund_process_row cfg) (map Inr rows) s = (Inr rs, s'))"
proof -
  have "filter_change_rows refund_sheet_metadata (completed_ids (refund_requests s)) (pre @ (i, row_data) # post) =
      map Inr rows @ [Inl e]"
    using assms(1-4) filter_change_rows_append
      [of refund_sheet_metadata "completed_ids (refund_requests s)" pre "(i, row_data) # post"] by auto
  moreover obtain rs s1 where "process_rows (refund_process_row cfg) (map Inr rows) s = (Inr rs, s1)"
    by (rule process_rows_returns)
  ultimately show ?thesis
    using assms(5) by (simp add: process_sheet_def refund_handler_def process_rows_append bindp_run)
qed

section \<open>Requests are carried out once\<close>

definition requests_ok :: "change_request_row table \<Rightarrow> bool" where
  "requests_ok t \<longleftrightarrow> wf_table t \<and> unique_on t ecr_form_response_id"

lemma requests_found:
  assumes "requests_ok t" and "k \<in> set (pks t)" and "ecr_form_response_id (row t k) = n"
  shows "matching t (\<lambda>_ r. ecr_form_response_id r = n) = [k]"
  using unique_matching [of t ecr_form_response_id "\<lambda>_ r. ecr_form_response_id r = n" n] assms
  by (auto simp: requests_ok_def unique_on_def inj_on_def matching_def filter_empty_conv)

lemma refund_request_found:
  assumes "requests_ok (refund_requests s)" and "k \<in> set (pks (refund_requests s))"
    and "change_request_of refund_sheet_metadata row_data = Inr (ecr_form_response_id (row (refund_requests s) k))"
    and "get_or_create_change_request refund_requests refund_requests_update model refund_sheet_metadata row_data s = (r, s1)"
  shows "\<exists>changed. r = Inr (k, False, changed) \<and>
    s1 = (if changed then s\<lparr>refund_requests := t_save (refund_requests s) k
      (\<lambda>r. r\<lparr>ecr_raw_data := Some (json_dumps (get_form_input_columns refund_sheet_metadata row_data))\<rparr>)\<rparr> else s)"
  using assms(3,4) refund_requests_tb.get_or_create_found [OF requests_found [OF assms(1,2) refl]]
  by (auto simp: get_or_create_change_request_def Let_def atomic_run bindp_run thenp_run split: if_splits)

lemma deferral_request_found:
  assumes "requests_ok (deferral_requests s)" and "k \<in> set (pks (deferral_requests s))"
    and "change_request_of deferral_sheet_metadata row_data = Inr (ecr_form_response_id (row (deferral_requests s) k))"
    and "get_or_create_change_request deferral_requests deferral_requests_update model deferral_sheet_metadata row_data s = (r, s1)"
  shows "\<exists>changed. r = Inr (k, False, changed) \<and>
    s1 = (if changed then s\<lparr>deferral_requests := t_save (deferral_requests s) k
      (\<lambda>r. r\<lparr>ecr_raw_data := Some (json_dumps (get_form_input_columns deferral_sheet_metadata row_data))\<rparr>)\<rparr> else s)"
  using assms(3,4) deferral_requests_tb.get_or_create_found [OF requests_found [OF assms(1,2) refl]]
  by (auto simp: get_or_create_change_request_def Let_def atomic_run bindp_run thenp_run split: if_splits)

text \<open>A row whose completion cell is empty has no completion date.\<close>

lemma blank_cell_no_date:
  assumes "item_at_index_or_blank row_data (int i) = []"
    and "rbind (py_index (map clean_sheet_value row_data) i) (parse_sheet_date_only_str cfg) = Inr d"
  shows "d = None"
proof -
  from assms(2) have i: "i < length row_data" by (auto simp: py_index_def split: if_splits)
  then have "row_data ! i = []"
    using assms(1) by (simp add: item_at_index_or_blank_def item_at_index_or_none_def Let_def)
  with assms(2) i show ?thesis
    by (simp add: py_index_def clean_sheet_value_def py_strip_def parse_sheet_date_only_str_def parse_sheet_date_str_def)
qed

lemma parse_refund_no_date:
  assumes "parse_refund_row cfg i row_data = Inr r"
    and "item_at_index_or_blank row_data (int (sm_completed_date_col refund_sheet_metadata)) = []"
  shows "rrr_refund_complete_date r = None"
proof -
  obtain d where "rbind (py_index (map clean_sheet_value row_data) (sm_completed_date_col refund_sheet_metadata))
      (parse_sheet_date_only_str cfg) = Inr d" and "rrr_refund_complete_date r = d"
    using assms(1) unfolding parse_refund_row_def Let_def parsing_def
    by (auto split: sum.splits elim!: rbind_InrE)
  with blank_cell_no_date [OF assms(2)] show ?thesis by blast
qed

lemma parse_deferral_no_date:
  assumes "parse_deferral_row cfg i row_data = Inr r"
    and "item_at_index_or_blank row_data (int (sm_completed_date_col deferral_sheet_metadata)) = []"
  shows "drr_deferral_complete_date r = None"
proof -
  obtain d where "rbind (py_index (map clean_sheet_value row_data) (sm_completed_date_col deferral_sheet_metadata))
      (parse_sheet_date_only_str cfg) = Inr d" and "drr_deferral_complete_date r = d"
    using assms(1) unfolding parse_deferral_row_def Let_def parsing_def
    by (auto split: sum.splits elim!: rbind_InrE)
  with blank_cell_no_date [OF assms(2)] show ?thesis by blast
qed

lemma deferral_carried_out_once:
  fixes s :: sheets_db
  assumes "requests_ok (deferral_requests s)" and "k \<in> set (pks (deferral_requests s))"
    and "ecr_date_completed (row (deferral_requests s) k) \<noteq> None"
    and "change_request_of deferral_sheet_metadata row_data = Inr (ecr_form_response_id (row (deferral_requests s) k))"
    and "item_at_index_or_blank row_data (int (sm_completed_date_col deferral_sheet_metadata)) = []"
  shows "\<exists>res t. deferral_process_row cfg i row_data s = (Inr (Some res), s\<lparr>deferral_requests := t\<rparr>) \<and>
    rr_result_type res \<in> {RowFailed, RowIgnored, RowOutOfSync}"
proof -
  obtain r s1 where g: "get_or_create_change_request deferral_requests deferral_requests_update ''DeferralRequest''
      deferral_sheet_metadata row_data s = (r, s1)" by fastforce
  from deferral_request_found [OF assms(1,2,4) g] obtain changed t where r: "r = Inr (k, False, changed)"
    and s1: "s1 = s\<lparr>deferral_requests := t\<rparr>" and date: "ecr_date_completed (row t k) \<noteq> None"
    using assms(3) by (auto simp: row_t_save split: if_splits intro: that [of _ "deferral_requests s"])
  show ?thesis
  proof (cases "parse_deferral_row cfg i row_data")
    case (Inl e)
    then show ?thesis by (auto simp: deferral_process_row_def g r s1 failed_row_def)
  next
    case (Inr q)
    with parse_deferral_no_date [OF _ assms(5)] date show ?thesis
      by (auto simp: deferral_process_row_def g r s1 plain_result_def)
  qed
qed

text \<open>
  C34: A refund that has been carried out is not carried out again. When the row of a completed request
  comes back with an empty completion cell (because writing it failed, or because its input was edited), the
  outcome is a parsing failure, \<open>ignored\<close> or \<open>out_of_sync\<close>; orders, enrollments and the courseware are left alone, and of
  all requests only the stored input of this one may change, to the input of the row: the request stays completed, with its
  date.
\<close>

theorem refund_carried_out_once:
  fixes s :: sheets_db
  assumes "requests_ok (refund_requests s)" and "k \<in> set (pks (refund_requests s))"
    and "ecr_date_completed (row (refund_requests s) k) \<noteq> None"
    and "change_request_of refund_sheet_metadata row_data = Inr (ecr_form_response_id (row (refund_requests s) k))"
    and "item_at_index_or_blank row_data (int (sm_completed_date_col refund_sheet_metadata)) = []"
  shows "\<exists>res t. refund_process_row cfg i row_data s = (Inr (Some res), s\<lparr>refund_requests := t\<rparr>) \<and>
    rr_result_type res \<in> {RowFailed, RowIgnored, RowOutOfSync} \<and>
    t \<in> {refund_requests s, t_save (refund_requests s) k
      (\<lambda>r. r\<lparr>ecr_raw_data := Some (json_dumps (get_form_input_columns refund_sheet_metadata row_data))\<rparr>)} \<and>
    ecr_date_completed (row t k) = ecr_date_completed (row (refund_requests s) k)"
proof -
  let ?save = "t_save (refund_requests s) k
    (\<lambda>r. r\<lparr>ecr_raw_data := Some (json_dumps (get_form_input_columns refund_sheet_metadata row_data))\<rparr>)"
  obtain r s1 where g: "get_or_create_change_request refund_requests refund_requests_update ''RefundRequest''
      refund_sheet_metadata row_data s = (r, s1)" by fastforce
  from refund_request_found [OF assms(1,2,4) g] obtain changed t where r: "r = Inr (k, False, changed)"
    and s1: "s1 = s\<lparr>refund_requests := t\<rparr>" and t: "t \<in> {refund_requests s, ?save}"
    by (auto split: if_splits intro: that [of _ "refund_requests s"])
  have same: "ecr_date_completed (row t k) = ecr_date_completed (row (refund_requests s) k)"
    using t by (auto simp: row_t_save)
  with assms(3) have date: "ecr_date_completed (row t k) \<noteq> None" by simp
  have "\<exists>res. refund_process_row cfg i row_data s = (Inr (Some res), s\<lparr>refund_requests := t\<rparr>) \<and>
    rr_result_type res \<in> {RowFailed, RowIgnored, RowOutOfSync}"
  proof (cases "parse_refund_row cfg i row_data")
    case (Inl e)
    then show ?thesis by (auto simp: refund_process_row_def g r s1 failed_row_def)
  next
    case (Inr q)
    with parse_refund_no_date [OF _ assms(5)] date show ?thesis
      by (auto simp: refund_process_row_def g r s1 plain_result_def)
  qed
  with t same show ?thesis by blast
qed

lemma change_request_keeps:
  assumes "\<And>s t. I s \<Longrightarrow> I (u (\<lambda>_. t) s)"
  shows "keeps I (get_or_create_change_request g u model m row_data)"
proof -
  have "keeps I (db_get_or_create model g u P r)" "keeps I (db_save g u k f)" for P r k f
    using assms by (auto simp: keeps_def db_get_or_create_run)
  then show ?thesis
    unfolding get_or_create_change_request_def Let_def by (intro keeps_intros)
qed

lemma get_order_objects_keeps: "keeps (\<lambda>t. t = s) (get_order_objects r)"
proof -
  have "keeps (\<lambda>t. t = s) (db_get m g P)" for m P and g :: "'a shop_db_scheme \<Rightarrow> 'r table"
    by (rule keepsI) simp
  then show ?thesis
    unfolding get_order_objects_def user_with_email_def by (intro keeps_intros) (simp split: sum.split add: keeps_intros)
qed

lemma get_order_objects_InrD:
  assumes "get_order_objects q s = (Inr (ord, e), s')"
  shows "s' = s \<and> ord \<in> set (pks (orders s)) \<and> int ord = rrr_order_id q \<and>
    (\<exists>t. rrr_learner_email q = Some t \<and> case_insensitive_equal (user_email (row (users s) (ord_purchaser (row (orders s) ord)))) t)"
proof -
  from assms obtain u where u: "t_get ''User'' (users s) (\<lambda>_ u. case rrr_learner_email q of None \<Rightarrow> False
        | Some e \<Rightarrow> case_insensitive_equal (user_email u) e) = Inr u"
    and ord: "t_get ''Order'' (orders s) (\<lambda>k x. int k = rrr_order_id q \<and> ord_purchaser x = u) = Inr ord"
    unfolding get_order_objects_def user_with_email_def
    by (auto elim!: bindp_InrE split: sum.splits)
  from t_get_InrD [OF u] t_get_InrD [OF ord] keepsD [OF get_order_objects_keeps assms] show ?thesis
    by (auto split: option.splits)
qed

interpretation requests_kept: completion_frame "\<lambda>s. (refund_requests s, orders s) = T" for T
  by unfold_locales simp_all

lemma reverse_order_cases:
  assumes "reverse_order_and_enrollments sv ord e s = (r, s')"
  shows "refund_requests s' = refund_requests (s :: sheets_db) \<and>
    ((\<exists>x. r = Inl x) \<and> orders s' = orders s \<or>
     r = Inr () \<and> orders s' = t_save (orders s) ord (\<lambda>x. x\<lparr>ord_status := OrderRefunded\<rparr>))"
proof -
  let ?d = "case e of
      Inl k \<Rightarrow> bindp (deactivate_program_enrollment sv k (Some Refunded) False True) (\<lambda>d. ret (d \<noteq> None))
    | Inr k \<Rightarrow> bindp (deactivate_run_enrollment sv k (Some Refunded) False) (\<lambda>d. ret (d \<noteq> None))"
  obtain r1 s1 where d: "?d s = (r1, s1)" by fastforce
  have "keeps (\<lambda>s. (refund_requests s, orders s) = T) ?d" for T :: "change_request_row table \<times> order_row table"
    by (cases e) (auto intro!: keeps_intros requests_kept.keeps_deactivate_run requests_kept.keeps_deactivate_program)
  from keepsD [OF this d] have kept: "refund_requests s1 = refund_requests s" "orders s1 = orders s" by auto
  show ?thesis
    using assms d kept
    by (cases r1) (auto simp: reverse_order_and_enrollments_def save_and_log_order_run Let_def split: if_splits)
qed

text \<open>A row that is ready: the order is looked up, and reversed when it is found.\<close>

definition carry_out_refund ::
  "sheets_config \<Rightarrow> nat \<Rightarrow> nat \<Rightarrow> refund_request_row \<Rightarrow> ('z sheets_db_scheme, refund_request_row row_result option) prog" where
  "carry_out_refund cfg i k q =
     bindp (try_catch (bindp (get_order_objects q) (\<lambda>found. ret (Inr found)))
        (\<lambda>exc. case exc of
           DoesNotExist model \<Rightarrow>
             (case refund_failure_message q model of None \<Rightarrow> raise exc | Some message \<Rightarrow> ret (Inl message))
         | _ \<Rightarrow> raise exc)) (\<lambda>found.
     case found of
       Inl message \<Rightarrow> ret (Some (failed_row i (Some k) message))
     | Inr (order, enrollment) \<Rightarrow>
         thenp (reverse_order_and_enrollments (sc_edx (shc_shop cfg)) order enrollment)
        (thenp (db_save refund_requests refund_requests_update k
                  (\<lambda>x. x\<lparr>ecr_date_completed := Some (sc_now (shc_shop cfg))\<rparr>))
           (ret (Some (plain_result i k (Some q) RowProcessed)))))"

lemma carry_out_refund_cases:
  fixes s :: sheets_db
  assumes "carry_out_refund cfg i k q s = (r, s')"
  shows "orders s' = orders s \<and> (\<forall>res. r = Inr (Some res) \<longrightarrow> rr_result_type res \<noteq> RowProcessed) \<or>
    (\<exists>res ord. r = Inr (Some res) \<and> rr_result_type res = RowProcessed \<and> rr_db_record res = Some k \<and>
       ord \<in> set (pks (orders s)) \<and> int ord = rrr_order_id q \<and>
       (\<exists>t. rrr_learner_email q = Some t \<and> case_insensitive_equal (user_email (row (users s) (ord_purchaser (row (orders s) ord)))) t) \<and>
       orders s' = t_save (orders s) ord (\<lambda>x. x\<lparr>ord_status := OrderRefunded\<rparr>) \<and>
       ecr_date_completed (row (refund_requests s') k) = Some (sc_now (shc_shop cfg)))"
proof -
  obtain r2 s2 where f: "get_order_objects q s = (r2, s2)" by fastforce
  have s2: "s2 = s" using keepsD [OF get_order_objects_keeps f] by simp
  show ?thesis
  proof (cases r2)
    case (Inl e)
    with assms f s2 show ?thesis
      by (cases e) (auto simp: carry_out_refund_def bindp_run try_catch_def failed_row_def split: option.splits)
  next
    case (Inr found)
    obtain ord e where found: "found = (ord, e)" by fastforce
    obtain r3 s3 where rev: "reverse_order_and_enrollments (sc_edx (shc_shop cfg)) ord e s = (r3, s3)" by fastforce
    note ord = get_order_objects_InrD [OF f [unfolded Inr found]]
    from reverse_order_cases [OF rev] show ?thesis
    proof (elim conjE disjE)
      assume "\<exists>x. r3 = Inl x" "orders s3 = orders s"
      with assms f s2 rev Inr found show ?thesis by (auto simp: carry_out_refund_def bindp_run try_catch_def)
    next
      assume "r3 = Inr ()" "orders s3 = t_save (orders s) ord (\<lambda>x. x\<lparr>ord_status := OrderRefunded\<rparr>)"
      with assms f s2 rev Inr found ord show ?thesis
        by (auto simp: carry_out_refund_def bindp_run try_catch_def thenp_run plain_result_def row_t_save)
    qed
  qed
qed

text \<open>
  C33: What the row of a refund request does to orders: only a row that is reported as processed changes one, namely the order
  with the given number of the user with the given email, which becomes refunded; its request is then completed. Every
  other outcome, an exception included, leaves all orders as they were.
\<close>

theorem refund_row_spec:
  fixes s :: sheets_db
  assumes "refund_process_row cfg i row_data s = (r, s')"
  shows "orders s' = orders s \<and> (\<forall>res. r = Inr (Some res) \<longrightarrow> rr_result_type res \<noteq> RowProcessed) \<or>
    (\<exists>res q ord k. r = Inr (Some res) \<and> rr_result_type res = RowProcessed \<and>
       parse_refund_row cfg i row_data = Inr q \<and> is_ready_for_reversal q \<and>
       ord \<in> set (pks (orders s)) \<and> int ord = rrr_order_id q \<and>
       (\<exists>t. rrr_learner_email q = Some t \<and> case_insensitive_equal (user_email (row (users s) (ord_purchaser (row (orders s) ord)))) t) \<and>
       orders s' = t_save (orders s) ord (\<lambda>x. x\<lparr>ord_status := OrderRefunded\<rparr>) \<and>
       rr_db_record res = Some k \<and> ecr_date_completed (row (refund_requests s') k) = Some (sc_now (shc_shop cfg)))"
proof -
  obtain r1 s1 where g: "get_or_create_change_request refund_requests refund_requests_update ''RefundRequest''
      refund_sheet_metadata row_data s = (r1, s1)" by fastforce
  have "keeps (\<lambda>s. (orders s, users s) = T) (get_or_create_change_request refund_requests refund_requests_update ''RefundRequest''
      refund_sheet_metadata row_data)" for T :: "order_row table \<times> user_row table"
    by (rule change_request_keeps) simp
  from keepsD [OF this g] have kept: "orders s1 = orders s" "users s1 = users s" by auto
  show ?thesis
  proof (cases r1)
    case (Inl e)
    with assms g kept show ?thesis by (auto simp: refund_process_row_def)
  next
    case r1: (Inr x)
    obtain k created updated where x: "x = (k, created, updated)" by (cases x) auto
    show ?thesis
    proof (cases "parse_refund_row cfg i row_data")
      case (Inl e)
      with assms g kept r1 x show ?thesis by (auto simp: refund_process_row_def failed_row_def)
    next
      case q: (Inr q)
      let ?refused = "(rrr_errors q \<noteq> None \<and> \<not> created \<and> \<not> updated) \<or>
        (ecr_date_completed (row (refund_requests s1) k) \<noteq> None \<and> rrr_refund_complete_date q = None) \<or> \<not> is_ready_for_reversal q"
      show ?thesis
      proof (cases ?refused)
        case True
        with assms g kept r1 x q show ?thesis
          by (auto simp: refund_process_row_def plain_result_def split: if_splits)
      next
        case False
        have "carry_out_refund cfg i k q s1 = (r, s')"
          using assms g r1 x q False by (auto simp: refund_process_row_def carry_out_refund_def)
        from carry_out_refund_cases [OF this] kept q False show ?thesis by auto
      qed
    qed
  qed
qed

section \<open>An example\<close>

definition example_sheets_config :: sheets_config where
  "example_sheets_config =
     \<lparr>shc_shop = example_config, shc_strptime = (\<lambda>_. Inr 5), shc_strptime_date = (\<lambda>_. Inr 5), shc_server_offset = (\<lambda>_. 0),
      shc_sheets_offset = (\<lambda>_. 0), shc_uuids = (\<lambda>i. ''u'' @ nat_str i), shc_checkout_url = ''https://x/checkout'',
      shc_output_folder = None, shc_admin_emails = [], shc_create_sheet = (\<lambda>_ _. Inr ''file''), shc_watch_file = (\<lambda>_ _. Inr 0),
      shc_webhook_channel = ''ch'', shc_webhook_expiration_minutes = 60, shc_webhook_renewal_minutes = 10\<rparr>"

text \<open>Order 1 paid for the enrollment of user 1 in the run \<open>c1-R1\<close>; the request 6 is completed.\<close>

definition example_sheets :: sheets_db where
  "example_sheets = shop_db.extend
     (example_shop\<lparr>orders := table_of example_order [example_order\<lparr>ord_status := OrderFulfilled\<rparr>],
        run_enrollments := table_of example_run_enrollment [example_run_enrollment\<lparr>enr_order := Some 1\<rparr>]\<rparr>)
     (sheets_db.fields
        (empty_table \<lparr>cgr_purchase_order_id = [], cgr_coupon_name = [], cgr_date_completed = None, cgr_raw_data = None\<rparr>)
        (table_of \<lparr>ecr_form_response_id = 0, ecr_date_completed = None, ecr_raw_data = None\<rparr>
           [\<lparr>ecr_form_response_id = 6, ecr_date_completed = Some 5, ecr_raw_data = None\<rparr>])
        (empty_table \<lparr>ecr_form_response_id = 0, ecr_date_completed = None, ecr_raw_data = None\<rparr>)
        (empty_table \<lparr>gfw_file_id = [], gfw_channel_id = [], gfw_version = None, gfw_activation_date = 0,
           gfw_expiration_date = 0, gfw_last_request_received = None\<rparr>)
        (empty_table \<lparr>rat_sheet_type = [], rat_sheet_file_id = [], rat_result = None, rat_result_status_code = None\<rparr>))"

definition example_refund_cells :: "string \<Rightarrow> string list" where
  "example_refund_cells response_id =
     [response_id, ''7/1'', ''ANN@x.org'', [], [], ''c1-R1'', ''1'', ''Enrollment Code'', [], [], [], [], [], [], []]"

lemma malformed_id_stops_sheet_witness:
  "fst (process_sheet (refund_handler example_sheets_config)
     [(4, example_refund_cells ''x'')] example_sheets) = Inl (ValueError ''invalid literal for int()'')"
proof -
  have "change_request_of refund_sheet_metadata (example_refund_cells ''x'') = Inl (ValueError ''invalid literal for int()'')"
    by code_simp
  moreover have "item_at_index_or_none (example_refund_cells ''x'') (int (sm_skip_row_col refund_sheet_metadata)) \<noteq> Some GOOGLE_API_TRUE_VAL"
    "item_at_index_or_blank (example_refund_cells ''x'') (int (sm_completed_date_col refund_sheet_metadata)) = []"
    by code_simp+
  ultimately show ?thesis
    using malformed_id_stops_sheet [OF _ _ _ _ prod.collapse [symmetric], of example_sheets "[]" "[]" "example_refund_cells ''x''"
      _ example_sheets_config 4 "[]"] by simp
qed

lemma refund_carried_out_once_witness:
  "\<exists>res. fst (refund_process_row example_sheets_config 4 (example_refund_cells ''6'') example_sheets) = Inr (Some res)"
proof -
  have "requests_ok (refund_requests example_sheets)"
    by (simp add: requests_ok_def example_sheets_def shop_db.extend_def sheets_db.fields_def unique_on_def inj_on_def table_of_def wf_table_def)
  moreover have "1 \<in> set (pks (refund_requests example_sheets))"
    "ecr_date_completed (row (refund_requests example_sheets) 1) \<noteq> None"
    "change_request_of refund_sheet_metadata (example_refund_cells ''6'') =
       Inr (ecr_form_response_id (row (refund_requests example_sheets) 1))"
    "item_at_index_or_blank (example_refund_cells ''6'') (int (sm_completed_date_col refund_sheet_metadata)) = []"
    by code_simp+
  ultimately show ?thesis
    using refund_carried_out_once [of example_sheets 1 "example_refund_cells ''6''" example_sheets_config 4] by auto
qed

lemma refund_row_spec_witness:
  "orders (snd (refund_process_row example_sheets_config 4 ((example_refund_cells ''7'')[2 := ''bob'']) example_sheets))
     = orders example_sheets"
proof -
  let ?run = "refund_process_row example_sheets_config 4 ((example_refund_cells ''7'')[2 := ''bob'']) example_sheets"
  have "(case fst ?run of Inr (Some res) \<Rightarrow> rr_result_type res = RowFailed | _ \<Rightarrow> False)"
    by code_simp
  then obtain res where "fst ?run = Inr (Some res)" "rr_result_type res = RowFailed"
    by (auto split: sum.splits option.splits)
  with refund_row_spec [of example_sheets_config 4 "(example_refund_cells ''7'')[2 := ''bob'']" example_sheets,
      OF prod.collapse [symmetric]]
  show ?thesis by auto
qed

end
