(* ===== verification/Sheet_Assignments.thy ===== *)
theory Sheet_Assignments
  imports Sheet_Requests
begin

text \<open>
  The sheets in which a company assigns its codes to addresses: \<open>sheets/coupon_assign_api.py\<close>, \<open>sheets/mail_api.py\<close>,
  \<open>sheets/tasks.py\<close> and the view that processes a sheet. Every row has a code and possibly an address; the
  assignments stored for the bulk assignment of the sheet are brought in line with the rows, messages with the codes are
  sent, and what Mailgun reports about them is written to the assignments and to the sheet.
\<close>

section \<open>Constants and settings\<close>

definition MAILGUN_DELIVERED :: string where "MAILGUN_DELIVERED = ''delivered''"
definition MAILGUN_FAILED :: string where "MAILGUN_FAILED = ''failed''"
definition MAILGUN_OPENED :: string where "MAILGUN_OPENED = ''opened''"
definition MAILGUN_CLICKED :: string where "MAILGUN_CLICKED = ''clicked''"
definition ASSIGNMENT_SHEET_ASSIGNED_STATUS :: string where "ASSIGNMENT_SHEET_ASSIGNED_STATUS = ''assigned''"
definition ASSIGNMENT_SHEET_ENROLLED_STATUS :: string where "ASSIGNMENT_SHEET_ENROLLED_STATUS = ''enrolled''"
definition ASSIGNMENT_SHEET_INVALID_STATUS :: string where "ASSIGNMENT_SHEET_INVALID_STATUS = ''invalid''"
definition UNKNOWN_EMAIL_ERROR_STATUS :: string where "UNKNOWN_EMAIL_ERROR_STATUS = ''unrecognized error''"
definition ASSIGNMENT_SHEET_MAX_AGE_DAYS :: int where "ASSIGNMENT_SHEET_MAX_AGE_DAYS = 15"
definition ASSIGNMENT_SHEET_EMAIL_RETRY_MINUTES :: int where "ASSIGNMENT_SHEET_EMAIL_RETRY_MINUTES = 10"

definition RELEVANT_ASSIGNMENT_EMAIL_EVENTS :: "string list" where
  "RELEVANT_ASSIGNMENT_EMAIL_EVENTS = [MAILGUN_DELIVERED, MAILGUN_FAILED, MAILGUN_OPENED, MAILGUN_CLICKED]"

definition UNSENT_EMAIL_STATUSES :: "string option list" where
  "UNSENT_EMAIL_STATUSES =
     [None, Some ASSIGNMENT_SHEET_INVALID_STATUS, Some MAILGUN_FAILED, Some UNKNOWN_EMAIL_ERROR_STATUS]"

text \<open>A message event of Mailgun, as \<open>get_bulk_assignment_messages\<close> yields it.\<close>

record bulk_assignment_message =
  bam_bulk_assignment_id :: int
  bam_coupon_code :: string
  bam_email :: string
  bam_event :: string
  bam_timestamp :: int

text \<open>
  What the handler of assignment sheets asks of the services: the values of the first worksheet of a file, the sheet
  that an id or a title names, when it was modified, the message events from a date on, whether an address is
  valid, and the answers to changes. The time stamps of assignments are not columns of the model.
\<close>

record assign_config = sheets_config +
  asc_sheet_values :: "string \<Rightarrow> exn + string list list"
  asc_open :: "bool \<Rightarrow> string \<Rightarrow> exn + string"
  asc_modified :: "string \<Rightarrow> exn + int"
  asc_messages :: "int option \<Rightarrow> exn + bulk_assignment_message list"
  asc_valid_email :: "string \<Rightarrow> bool"
  asc_batch_update :: "effect list \<Rightarrow> string \<Rightarrow> exn + unit"
  asc_update_properties :: "effect list \<Rightarrow> string \<Rightarrow> exn + unit"
  asc_created_on :: "nat \<Rightarrow> int"
  asc_updated_on :: "nat \<Rightarrow> int"
  asc_bulk_created_on :: "nat \<Rightarrow> int"
  asc_webhook_max_age_days :: int

section \<open>Rows\<close>

record coupon_assignment_row =
  car_row_index :: nat
  car_code :: string
  car_email :: "string option"
  car_status :: "string option"
  car_status_date :: "string option"
  car_enrolled_email :: "string option"

definition parse_assignment_row :: "nat \<Rightarrow> string list \<Rightarrow> exn + coupon_assignment_row" where
  "parse_assignment_row row_index raw_row_data =
     parsing
       (rbind (py_index raw_row_data 0) (\<lambda>code.
        Inr \<lparr>car_row_index = row_index, car_code = code,
             car_email = (case item_at_index_or_none raw_row_data 1 of
                 None \<Rightarrow> None | Some t \<Rightarrow> if t = [] then None else Some (py_lower t)),
             car_status = item_at_index_or_none raw_row_data 2,
             car_status_date = item_at_index_or_none raw_row_data 3,
             car_enrolled_email = item_at_index_or_none raw_row_data 5\<rparr>))"

text \<open>A comprehension whose element may raise.\<close>

fun rcollect :: "('a \<Rightarrow> exn + 'b) \<Rightarrow> 'a list \<Rightarrow> exn + 'b list" where
  "rcollect f [] = Inr []"
| "rcollect f (x # xs) = rbind (f x) (\<lambda>y. rbind (rcollect f xs) (\<lambda>ys. Inr (y # ys)))"

definition parsed_rows :: "'c assign_config_scheme \<Rightarrow> string \<Rightarrow> exn + coupon_assignment_row list" where
  "parsed_rows cfg spreadsheet_id =
     rbind (asc_sheet_values cfg spreadsheet_id) (\<lambda>values.
       let data_rows = get_data_rows values
       in rbind (rcollect (\<lambda>r. py_index r 0) data_rows) (\<lambda>coupon_codes.
            if coupon_codes = [] then Inl (SheetValidationException ''No data found in coupon assignment Sheet'')
            else if \<not> all_unique coupon_codes
            then Inl (SheetValidationException ''All coupon codes in the Sheet must be unique'')
            else rcollect (\<lambda>(row_index, row_data). parse_assignment_row row_index row_data)
                   (enumerate (sm_first_data_row assign_sheet_metadata) data_rows)))"

section \<open>The states of the messages\<close>

record message_data =
  md_row_index :: nat
  md_email :: string
  md_new_status :: "string option"
  md_new_status_date :: "int option"
  md_existing_status :: "string option"
  md_existing_status_date :: "int option"
  md_delivery_date :: "int option"
  md_alternate_email :: "string option"

text \<open>\<open>AssignmentStatusMap\<close>: message data by coupon code and the number of codes without an address, for every bulk assignment.\<close>

record assignment_status_map =
  asm_assignments :: "nat \<Rightarrow> (string \<times> message_data) list"
  asm_unassigned :: "nat \<Rightarrow> nat"

definition empty_status_map :: assignment_status_map where
  "empty_status_map = \<lparr>asm_assignments = (\<lambda>_. []), asm_unassigned = (\<lambda>_. 0)\<rparr>"

definition put_message_data ::
  "nat \<Rightarrow> string \<Rightarrow> message_data \<Rightarrow> assignment_status_map \<Rightarrow> assignment_status_map" where
  "put_message_data b code d m = m\<lparr>asm_assignments := (asm_assignments m)(b := dict_set (asm_assignments m b) code d)\<rparr>"

fun add_assignment_rows ::
  "'c assign_config_scheme \<Rightarrow> nat \<Rightarrow> coupon_assignment_row list \<Rightarrow> assignment_status_map \<Rightarrow> exn + assignment_status_map" where
  "add_assignment_rows cfg b [] m = Inr m"
| "add_assignment_rows cfg b (r # rs) m =
     (case car_email r of
        None \<Rightarrow> add_assignment_rows cfg b rs (m\<lparr>asm_unassigned := (asm_unassigned m)(b := asm_unassigned m b + 1)\<rparr>)
      | Some email \<Rightarrow>
          rbind (parse_sheet_datetime_str (sheets_config.truncate cfg) (car_status_date r)) (\<lambda>existing_status_date.
            add_assignment_rows cfg b rs
              (put_message_data b (car_code r)
                 \<lparr>md_row_index = car_row_index r, md_email = email, md_new_status = None, md_new_status_date = None,
                  md_existing_status = car_status r, md_existing_status_date = existing_status_date,
                  md_delivery_date = None, md_alternate_email = None\<rparr> m)))"

text \<open>What an event does to the data of its code.\<close>

definition event_update :: "string \<Rightarrow> string \<Rightarrow> int \<Rightarrow> message_data \<Rightarrow> message_data" where
  "event_update recipient_email event_type event_date d =
     (let d' = (if event_type = MAILGUN_DELIVERED then d\<lparr>md_delivery_date := Some event_date\<rparr> else d)
      in if md_existing_status d = Some ASSIGNMENT_SHEET_ENROLLED_STATUS then d'
         else if md_existing_status d \<noteq> None \<and> md_existing_status d \<noteq> Some [] \<and> md_existing_status_date d \<noteq> None \<and>
                 Some event_type = md_existing_status d \<and> Some event_date = md_existing_status_date d
         then d'\<lparr>md_new_status := None, md_new_status_date := None, md_alternate_email := None\<rparr>
         else d'\<lparr>md_new_status := Some event_type, md_new_status_date := Some event_date,
                 md_alternate_email := (if case_insensitive_equal recipient_email (md_email d) then None else Some recipient_email)\<rparr>)"

definition add_potential_event_date ::
  "int \<Rightarrow> string \<Rightarrow> string \<Rightarrow> string \<Rightarrow> int \<Rightarrow> assignment_status_map \<Rightarrow> assignment_status_map" where
  "add_potential_event_date bulk_assignment_id code recipient_email event_type event_date m =
     (if bulk_assignment_id < 0 then m
      else
        let b = nat bulk_assignment_id
        in case map_of (asm_assignments m b) code of
             None \<Rightarrow> m
           | Some d \<Rightarrow> put_message_data b code (event_update recipient_email event_type event_date d) m)"

definition has_new_statuses :: "assignment_status_map \<Rightarrow> nat \<Rightarrow> bool" where
  "has_new_statuses m b \<longleftrightarrow> list_ex (\<lambda>(_, d). md_new_status d \<noteq> None) (asm_assignments m b)"

text \<open>A change of a row; the status date is missing where the code has the value \<open>False\<close> instead of a date.\<close>

record assignment_row_update =
  aru_row_index :: nat
  aru_status :: string
  aru_status_date :: "int option"
  aru_alternate_email :: "string option"

definition row_update_of :: "message_data \<Rightarrow> assignment_row_update option" where
  "row_update_of d =
     map_option (\<lambda>status. \<lparr>aru_row_index = md_row_index d, aru_status = status, aru_status_date = md_new_status_date d,
                           aru_alternate_email = md_alternate_email d\<rparr>) (md_new_status d)"

definition get_row_update :: "assignment_status_map \<Rightarrow> nat \<Rightarrow> string \<Rightarrow> assignment_row_update option" where
  "get_row_update m b code = Option.bind (map_of (asm_assignments m b) code) row_update_of"

definition get_row_updates :: "assignment_status_map \<Rightarrow> nat \<Rightarrow> assignment_row_update list" where
  "get_row_updates m b = List.map_filter (row_update_of \<circ> snd) (asm_assignments m b)"

text \<open>\<open>get_message_delivery_date\<close>: \<open>None\<close> is the answer \<open>False\<close>, for a code without message data.\<close>

definition get_message_delivery_date :: "assignment_status_map \<Rightarrow> nat \<Rightarrow> string \<Rightarrow> int option option" where
  "get_message_delivery_date m b code = map_option md_delivery_date (map_of (asm_assignments m b) code)"

definition has_unassigned_codes :: "assignment_status_map \<Rightarrow> nat \<Rightarrow> bool" where
  "has_unassigned_codes m b \<longleftrightarrow> 0 < asm_unassigned m b"

section \<open>Message events\<close>

record mailgun_item =
  mi_user_variables :: "(string \<times> string) list option"
  mi_recipient :: string
  mi_event :: string
  mi_timestamp :: int

record mailgun_page =
  mp_items :: "mailgun_item list"
  mp_next :: "string option"

definition message_of_item :: "mailgun_item \<Rightarrow> exn + bulk_assignment_message option" where
  "message_of_item item =
     (case mi_user_variables item of
        None \<Rightarrow> Inr None
      | Some vars \<Rightarrow>
          (case (map_of vars ''enrollment_code'', map_of vars ''bulk_assignment'') of
             (Some code, Some bulk) \<Rightarrow>
               rbind (py_int bulk) (\<lambda>b. Inr (Some
                 \<lparr>bam_bulk_assignment_id = b, bam_coupon_code = code, bam_email = mi_recipient item,
                  bam_event = mi_event item, bam_timestamp = mi_timestamp item\<rparr>))
           | _ \<Rightarrow> Inr None))"

text \<open>
  \<open>get_bulk_assignment_messages\<close>: pages are asked for until one has no items or no next page; \<open>with_key\<close> puts the
  credentials into the link to the next page. Nothing is returned if the pages never end.
\<close>

partial_function (option) get_bulk_assignment_messages ::
  "(string \<Rightarrow> exn + mailgun_page) \<Rightarrow> (string \<Rightarrow> string) \<Rightarrow> string \<Rightarrow> (exn + bulk_assignment_message list) option" where
  "get_bulk_assignment_messages fetch with_key url =
     (case fetch url of
        Inl e \<Rightarrow> Some (Inl e)
      | Inr page \<Rightarrow>
          if mp_items page = [] then Some (Inr [])
          else
            (case rcollect message_of_item (mp_items page) of
               Inl e \<Rightarrow> Some (Inl e)
             | Inr ms \<Rightarrow>
                 (case mp_next page of
                    None \<Rightarrow> Some (Inr (concat (map the_list ms)))
                  | Some next_url \<Rightarrow>
                      if next_url = [] then Some (Inr (concat (map the_list ms)))
                      else Option.bind (get_bulk_assignment_messages fetch with_key (with_key next_url)) (\<lambda>rest.
                             Some (case rest of Inl e \<Rightarrow> Inl e | Inr more_ms \<Rightarrow> Inr (concat (map the_list ms) @ more_ms))))))"

definition find_bulk_assignment_messages ::
  "'c assign_config_scheme \<Rightarrow> int option \<Rightarrow> assignment_status_map \<Rightarrow> exn + assignment_status_map" where
  "find_bulk_assignment_messages cfg earliest_message_date m =
     rbind (asc_messages cfg earliest_message_date) (\<lambda>messages.
       Inr (fold (\<lambda>msg. add_potential_event_date (bam_bulk_assignment_id msg) (bam_coupon_code msg) (bam_email msg)
                          (bam_event msg) (bam_timestamp msg))
              (filter (\<lambda>msg. bam_event msg \<in> set RELEVANT_ASSIGNMENT_EMAIL_EVENTS) messages) m))"


section \<open>Bulk assignments and their records\<close>

definition days :: "int \<Rightarrow> int" where "days n = 86400 * n"

definition fetch_webhook_eligible_assign_sheet_ids :: "'c assign_config_scheme \<Rightarrow> 'z shop_db_scheme \<Rightarrow> string list" where
  "fetch_webhook_eligible_assign_sheet_ids cfg s =
     (let min_last_activity_date = sc_now (shc_shop cfg) - days (asc_webhook_max_age_days cfg)
      in concat (map (\<lambda>b. the_list (bulk_assignment_sheet_id (row (bulk_assignments s) b)))
           (matching (bulk_assignments s) (\<lambda>b r.
              bulk_assignment_sheet_id r \<noteq> None \<and>
              \<not> (bulk_assignments_started_date r = None \<and> asc_bulk_created_on cfg b < min_last_activity_date) \<and>
              bulk_message_delivery_completed_date r = None \<and>
              (case bulk_last_assignment_date r of None \<Rightarrow> False | Some d \<Rightarrow> min_last_activity_date \<le> d)))))"

definition fetch_update_eligible_bulk_assignments :: "int \<Rightarrow> 'z shop_db_scheme \<Rightarrow> nat list" where
  "fetch_update_eligible_bulk_assignments now s =
     (let min_last_assignment_date = now - days ASSIGNMENT_SHEET_MAX_AGE_DAYS
      in sort_key (\<lambda>b. the (bulk_assignments_started_date (row (bulk_assignments s) b)))
           (matching (bulk_assignments s) (\<lambda>_ r.
              bulk_assignment_sheet_id r \<noteq> None \<and> bulk_assignments_started_date r \<noteq> None \<and>
              bulk_message_delivery_completed_date r = None \<and>
              (case bulk_last_assignment_date r of None \<Rightarrow> False | Some d \<Rightarrow> min_last_assignment_date < d))))"

definition assignments_of :: "'z shop_db_scheme \<Rightarrow> nat \<Rightarrow> nat list" where
  "assignments_of s b = matching (product_coupon_assignments s) (\<lambda>_ a. pca_bulk_assignment a = Some b)"

definition assignment_code :: "'z shop_db_scheme \<Rightarrow> nat \<Rightarrow> string" where
  "assignment_code s k = coupon_code (row (coupons s) (assignment_coupon s (row (product_coupon_assignments s) k)))"

text \<open>The alternate email is put into the objects, but it is not among the fields that are stored.\<close>

definition update_product_coupon_assignments ::
  "nat \<Rightarrow> assignment_status_map \<Rightarrow> ('z shop_db_scheme, nat list) prog" where
  "update_product_coupon_assignments b m =
     bindp (asks (\<lambda>s. List.map_filter
         (\<lambda>k. map_option (Pair k) (get_row_update m b (assignment_code s k))) (assignments_of s b))) (\<lambda>updates.
     thenp (for_each updates (\<lambda>(k, u). db_save product_coupon_assignments product_coupon_assignments_update k
              (\<lambda>a. a\<lparr>pca_message_status := Some (aru_status u), pca_message_status_date := aru_status_date u\<rparr>)))
       (ret (map fst updates)))"

section \<open>Writing to the sheet\<close>

definition build_multi_cell_update_request_body :: "int \<Rightarrow> nat \<Rightarrow> string list \<Rightarrow> string list" where
  "build_multi_cell_update_request_body row_index column_index values =
     [int_str row_index, int_str (row_index + 1), nat_str column_index, nat_str (column_index + length values)] @ values"

definition batch_update_sheet_cells ::
  "'c assign_config_scheme \<Rightarrow> string \<Rightarrow> string list list \<Rightarrow> ('z users_db_scheme, unit) prog" where
  "batch_update_sheet_cells cfg sheet_id request_objects =
     bindp (asks (\<lambda>s. asc_batch_update cfg (effects s) sheet_id)) (\<lambda>answer.
     thenp (emit (GoogleCall ''spreadsheets.batchUpdate'' sheet_id request_objects)) (lift_result answer))"

definition update_sheet_with_alternate_emails ::
  "'c assign_config_scheme \<Rightarrow> string \<Rightarrow> assignment_row_update list \<Rightarrow> bool \<Rightarrow> ('z users_db_scheme, unit) prog" where
  "update_sheet_with_alternate_emails cfg sheet_id row_updates zero_based_index =
     batch_update_sheet_cells cfg sheet_id
       (map (\<lambda>u. build_multi_cell_update_request_body
                (int (aru_row_index u) + (if zero_based_index then 0 else -1)) 5 (the_list (aru_alternate_email u))) row_updates)"

definition update_sheet_with_new_statuses ::
  "'c assign_config_scheme \<Rightarrow> string \<Rightarrow> assignment_row_update list \<Rightarrow> bool \<Rightarrow> ('z users_db_scheme, unit) prog" where
  "update_sheet_with_new_statuses cfg sheet_id row_updates zero_based_index =
     bindp (lift_result (rcollect (\<lambda>u.
         case aru_status_date u of
           None \<Rightarrow> Inl (AttributeError ''astimezone'')
         | Some d \<Rightarrow> Inr (build_multi_cell_update_request_body
             (int (aru_row_index u) + (if zero_based_index then 0 else -1)) 2
             [aru_status u, sheet_date_formula (sheets_config.truncate cfg) d])) row_updates)) (\<lambda>requests.
     thenp (batch_update_sheet_cells cfg sheet_id requests)
       (let alt_email_row_updates = filter (\<lambda>u. aru_alternate_email u \<noteq> None) row_updates
        in whenp (alt_email_row_updates \<noteq> [])
             (update_sheet_with_alternate_emails cfg sheet_id alt_email_row_updates zero_based_index)))"

definition report_invalid_emails ::
  "'c assign_config_scheme \<Rightarrow> string \<Rightarrow> coupon_assignment_row list \<Rightarrow> string list \<Rightarrow> ('z users_db_scheme, unit) prog" where
  "report_invalid_emails cfg sheet_id assignment_rows invalid_emails =
     update_sheet_with_new_statuses cfg sheet_id
       (map (\<lambda>r. \<lparr>aru_row_index = car_row_index r, aru_status = ASSIGNMENT_SHEET_INVALID_STATUS,
                  aru_status_date = Some (sc_now (shc_shop cfg)), aru_alternate_email = None\<rparr>)
          (filter (\<lambda>r. car_email r \<in> Some ` py_lower ` set invalid_emails) assignment_rows)) False"

text \<open>\<open>created_assignments\<close> are the keys of assignments created just now.\<close>

definition report_assigned_codes ::
  "'c assign_config_scheme \<Rightarrow> string \<Rightarrow> coupon_assignment_row list \<Rightarrow> nat list \<Rightarrow> ('z shop_db_scheme, unit) prog" where
  "report_assigned_codes cfg sheet_id assignment_rows created_assignments =
     bindp (asks (\<lambda>s. map (\<lambda>k. (assignment_code s k, py_lower (pca_email (row (product_coupon_assignments s) k)))) created_assignments))
       (\<lambda>created.
     update_sheet_with_new_statuses cfg sheet_id
       (List.map_filter (\<lambda>r. case car_email r of
            None \<Rightarrow> None
          | Some email \<Rightarrow>
              if (car_code r, py_lower email) \<in> set created
              then Some \<lparr>aru_row_index = car_row_index r, aru_status = ASSIGNMENT_SHEET_ASSIGNED_STATUS,
                         aru_status_date = Some (sc_now (shc_shop cfg)), aru_alternate_email = None\<rparr>
              else None) assignment_rows) False)"

section \<open>Messages with codes\<close>

text \<open>\<open>get_bulk_enroll_message_data\<close>: the texts of a message.\<close>

definition get_bulk_enroll_message_data ::
  "string \<Rightarrow> 'z shop_db_scheme \<Rightarrow> nat \<Rightarrow> string \<Rightarrow> nat \<Rightarrow> exn + string list" where
  "get_bulk_enroll_message_data checkout_url s b recipient ce =
     (let e = row (coupon_eligibilities s) ce; p = row (products s) (ce_product e);
          code = coupon_code (row (coupons s) (ce_coupon e))
      in rbind (content_text_id s (prod_content p)) (\<lambda>text_id.
         let email_product_id = (case ce_program_run e of
               None \<Rightarrow> text_id | Some r \<Rightarrow> program_run_full_readable_id s (row (program_runs s) r))
         in case coupon_payment_latest_version s (coupon_payment (row (coupons s) (ce_coupon e))) of
              None \<Rightarrow> Inl (AttributeError ''get'')
            | Some v \<Rightarrow>
                rbind (content_title s (prod_content p)) (\<lambda>title.
                  Inr [recipient, title, make_checkout_url checkout_url (Some email_product_id) (Some code) None False,
                       concat (map (\<lambda>c. company_name (row (companies s) c))
                         (the_list (cpv_company (row (coupon_payment_versions s) v)))),
                       nat_str b, code, product_type_string p, text_id])))"

definition send_bulk_enroll_emails ::
  "string \<Rightarrow> nat \<Rightarrow> nat list \<Rightarrow> ('z shop_db_scheme, unit) prog" where
  "send_bulk_enroll_emails checkout_url b assignments =
     for_each assignments (\<lambda>k.
       bindp (asks (\<lambda>s. let a = row (product_coupon_assignments s) k
                        in get_bulk_enroll_message_data checkout_url s b (pca_email a) (pca_product_coupon a))) (\<lambda>data.
       bindp (lift_result data) (\<lambda>texts. emit (SendMail ''bulk_enroll'' [k] texts))))"


section \<open>Rows out of step with the database\<close>

text \<open>\<open>delivery_date\<close> is the answer of \<open>get_message_delivery_date\<close>: \<open>None\<close> stands for \<open>False\<close>, which is not \<open>None\<close> in the code.\<close>

definition validate_assignment_row ::
  "'c assign_config_scheme \<Rightarrow> 'z shop_db_scheme \<Rightarrow> coupon_assignment_row \<Rightarrow> nat option \<Rightarrow> int option option \<Rightarrow>
     assignment_row_update option" where
  "validate_assignment_row cfg s parsed_row assignment delivery_date =
     (case assignment of
        None \<Rightarrow> None
      | Some k \<Rightarrow>
          let a = row (product_coupon_assignments s) k
          in if pca_redeemed a \<and> car_status parsed_row \<noteq> Some ASSIGNMENT_SHEET_ENROLLED_STATUS
             then Some \<lparr>aru_row_index = car_row_index parsed_row, aru_status = ASSIGNMENT_SHEET_ENROLLED_STATUS,
                        aru_status_date = Some (asc_updated_on cfg k),
                        aru_alternate_email = (if pca_original_email a \<noteq> None then Some (pca_email a) else None)\<rparr>
             else if car_status parsed_row = None \<or> car_status parsed_row = Some []
             then Some (case delivery_date of
                 Some None \<Rightarrow>
                   \<lparr>aru_row_index = car_row_index parsed_row, aru_status = ASSIGNMENT_SHEET_ASSIGNED_STATUS,
                    aru_status_date = Some (asc_created_on cfg k), aru_alternate_email = None\<rparr>
               | _ \<Rightarrow>
                   \<lparr>aru_row_index = car_row_index parsed_row, aru_status = MAILGUN_DELIVERED,
                    aru_status_date = Option.bind delivery_date id, aru_alternate_email = None\<rparr>)
             else None)"

definition validate_assignment_delivery ::
  "'c assign_config_scheme \<Rightarrow> coupon_assignment_row \<Rightarrow> nat option \<Rightarrow> int option option \<Rightarrow> bool" where
  "validate_assignment_delivery cfg parsed_row assignment delivery_date \<longleftrightarrow>
     (case assignment of
        None \<Rightarrow> False
      | Some k \<Rightarrow>
          delivery_date = Some None \<and>
          (car_status parsed_row = None \<or> car_status parsed_row = Some ASSIGNMENT_SHEET_ASSIGNED_STATUS) \<and>
          asc_updated_on cfg k + 60 * ASSIGNMENT_SHEET_EMAIL_RETRY_MINUTES < sc_now (shc_shop cfg))"

definition out_of_sync_of_row ::
  "'c assign_config_scheme \<Rightarrow> 'z shop_db_scheme \<Rightarrow> nat \<Rightarrow> (string \<times> nat) list \<Rightarrow> assignment_status_map \<Rightarrow>
     coupon_assignment_row \<Rightarrow> assignment_row_update list \<times> nat list" where
  "out_of_sync_of_row cfg s b assignment_dict m parsed_row =
     (let code = car_code parsed_row; assignment = map_of assignment_dict code;
          delivery_date = get_message_delivery_date m b code
      in case validate_assignment_row cfg s parsed_row assignment delivery_date of
           Some u \<Rightarrow> ([u], [])
         | None \<Rightarrow>
             ([], if validate_assignment_delivery cfg parsed_row assignment delivery_date then the_list assignment else []))"

definition get_out_of_sync_sheet_data ::
  "'c assign_config_scheme \<Rightarrow> 'z shop_db_scheme \<Rightarrow> string \<Rightarrow> nat \<Rightarrow> exn + assignment_row_update list \<times> nat list" where
  "get_out_of_sync_sheet_data cfg s spreadsheet_id b =
     rbind (parsed_rows cfg spreadsheet_id) (\<lambda>rows.
     rbind (add_assignment_rows cfg b rows empty_status_map) (\<lambda>m0.
     rbind (find_bulk_assignment_messages cfg (bulk_assignments_started_date (row (bulk_assignments s) b)) m0) (\<lambda>m.
       let assignment_dict = dict_of (map (\<lambda>k. (assignment_code s k, k)) (assignments_of s b));
           found = map (out_of_sync_of_row cfg s b assignment_dict m) rows
       in Inr (concat (map fst found), concat (map snd found)))))"

section \<open>Assigning the codes of a sheet\<close>

text \<open>The set of addresses and product coupons, in the order of the rows.\<close>

definition get_desired_coupon_assignments ::
  "'z shop_db_scheme \<Rightarrow> coupon_assignment_row list \<Rightarrow> exn + (string \<times> nat) list" where
  "get_desired_coupon_assignments s assignment_rows =
     (let valid_rows = filter (\<lambda>r. car_code r \<noteq> [] \<and> car_email r \<noteq> None) assignment_rows;
          code_of = (\<lambda>e. coupon_code (row (coupons s) (ce_coupon e)));
          product_coupon_tuples = map (\<lambda>k. (code_of (row (coupon_eligibilities s) k), k))
            (matching (coupon_eligibilities s) (\<lambda>_ e. code_of e \<in> car_code ` set valid_rows))
      in if length product_coupon_tuples \<noteq> length valid_rows
         then Inl (SheetValidationException ''Mismatch between product coupons and coupon codes in the Sheet'')
         else
           let product_coupon_dict = dict_of product_coupon_tuples
           in rbind (rcollect (\<lambda>r. case map_of product_coupon_dict (car_code r) of
                  None \<Rightarrow> Inl (KeyError (car_code r))
                | Some ce \<Rightarrow> Inr (concat (the_list (car_email r)), ce)) valid_rows) (\<lambda>pairs. Inr (unique pairs)))"

definition assignment_tuple :: "'z shop_db_scheme \<Rightarrow> nat \<Rightarrow> string \<times> nat" where
  "assignment_tuple s k =
     (let a = row (product_coupon_assignments s) k in (py_lower (pca_email a), pca_product_coupon a))"

definition get_assignments_to_create_and_remove ::
  "'z shop_db_scheme \<Rightarrow> nat list \<Rightarrow> (string \<times> nat) list \<Rightarrow> (string \<times> nat) list \<times> nat list" where
  "get_assignments_to_create_and_remove s existing desired_assignments =
     (let tuple_set = map (assignment_tuple s) existing;
          assignments_to_remove = filter (\<lambda>k. assignment_tuple s k \<notin> set desired_assignments) existing;
          tuple_set_to_create = filter (\<lambda>t. t \<notin> set tuple_set) desired_assignments;
          (to_remove, already_redeemed) =
            partition_to_lists assignments_to_remove (\<lambda>k. pca_redeemed (row (product_coupon_assignments s) k));
          product_coupon_ids = map (\<lambda>k. pca_product_coupon (row (product_coupon_assignments s) k)) already_redeemed
      in (if already_redeemed = [] then tuple_set_to_create
          else fst (partition_items tuple_set_to_create (\<lambda>t. snd t \<in> set product_coupon_ids)), to_remove))"

definition process_assignment_spreadsheet ::
  "'c assign_config_scheme \<Rightarrow> string \<Rightarrow> nat \<Rightarrow> ('z shop_db_scheme, nat \<times> nat) prog" where
  "process_assignment_spreadsheet cfg spreadsheet_id b =
     (let now = sc_now (shc_shop cfg)
      in bindp (lift_result (parsed_rows cfg spreadsheet_id)) (\<lambda>assignment_rows.
         bindp (asks (\<lambda>s. get_desired_coupon_assignments s assignment_rows)) (\<lambda>desired.
         bindp (lift_result desired) (\<lambda>desired_assignments.
         bindp (asks (\<lambda>s. if bulk_assignments_started_date (row (bulk_assignments s) b) \<noteq> None
                          then get_assignments_to_create_and_remove s (assignments_of s b) desired_assignments
                          else (desired_assignments, []))) (\<lambda>(assignments_to_create, assignment_ids_to_remove).
         thenp (whenp (assignment_ids_to_remove \<noteq> [])
                  (db_delete product_coupon_assignments product_coupon_assignments_update
                     (\<lambda>k _. k \<in> set assignment_ids_to_remove)))
        (let num_assignments_removed = length assignment_ids_to_remove;
             invalid_emails = (case validate_email_addresses (asc_valid_email cfg) (map fst assignments_to_create) of
                 Inl (MultiEmailValidationError es) \<Rightarrow> es | _ \<Rightarrow> []);
             valid_assignments = filter (\<lambda>t. fst t \<notin> set invalid_emails) assignments_to_create
         in bindp (atomic
              (bindp (db_get ''BulkCouponAssignment'' bulk_assignments (\<lambda>k _. k = b)) (\<lambda>_.
               bindp (bulk_assign_product_coupons valid_assignments (Some b)) (\<lambda>(_, created_assignments).
               thenp (whenp (created_assignments \<noteq> [] \<or> 0 < num_assignments_removed)
                        (db_save bulk_assignments bulk_assignments_update b (\<lambda>r.
                           r\<lparr>bulk_assignments_started_date :=
                               (if bulk_assignments_started_date r = None \<and> created_assignments \<noteq> [] then Some now
                                else bulk_assignments_started_date r),
                             bulk_last_assignment_date := Some now\<rparr>)))
                 (ret created_assignments))))) (\<lambda>created_assignments.
            thenp (whenp (created_assignments \<noteq> [])
                     (thenp (send_bulk_enroll_emails (shc_checkout_url cfg) b created_assignments)
                            (report_assigned_codes cfg spreadsheet_id assignment_rows created_assignments)))
           (thenp (whenp (invalid_emails \<noteq> [])
                     (report_invalid_emails cfg spreadsheet_id assignment_rows invalid_emails))
              (ret (length created_assignments, num_assignments_removed))))))))))"

section \<open>Delivery of the messages\<close>

text \<open>\<open>field__in\<close> of a query: a missing value is in no list, not even in one that has \<open>None\<close>.\<close>

definition sql_in :: "'a option \<Rightarrow> 'a option list \<Rightarrow> bool" where
  "sql_in v values \<longleftrightarrow> v \<noteq> None \<and> v \<in> set values"

definition update_coupon_delivery_statuses ::
  "'c assign_config_scheme \<Rightarrow> string \<Rightarrow> nat \<Rightarrow> assignment_status_map \<Rightarrow> ('z shop_db_scheme, nat list) prog" where
  "update_coupon_delivery_statuses cfg spreadsheet_id b m =
     (let now = sc_now (shc_shop cfg)
      in bindp (update_product_coupon_assignments b m) (\<lambda>updated_assignments.
         bindp (asks (\<lambda>s. t_exists (product_coupon_assignments s)
                  (\<lambda>_ a. pca_bulk_assignment a = Some b \<and> sql_in (pca_message_status a) UNSENT_EMAIL_STATUSES)))
           (\<lambda>unsent_assignments_exist.
         thenp (whenp (\<not> unsent_assignments_exist \<and> \<not> has_unassigned_codes m b)
             (thenp (db_update bulk_assignments bulk_assignments_update (\<lambda>k _. k = b)
                       (\<lambda>r. r\<lparr>bulk_message_delivery_completed_date := Some now\<rparr>))
                (bindp (asks (\<lambda>s. asc_update_properties cfg (effects s) spreadsheet_id)) (\<lambda>answer.
                 thenp (emit (GoogleCall ''files.update'' spreadsheet_id
                          [[''assignmentsCompleted'', GOOGLE_API_TRUE_VAL], [''assignmentsCompletedDate'', int_str now]]))
                   (try_catch (lift_result answer) (\<lambda>_. ret ()))))))
        (thenp (whenp (has_new_statuses m b)
                  (update_sheet_with_new_statuses cfg spreadsheet_id (get_row_updates m b) False))
           (ret updated_assignments)))))"

fun add_all_assignment_rows ::
  "'c assign_config_scheme \<Rightarrow> 'z shop_db_scheme \<Rightarrow> nat list \<Rightarrow> assignment_status_map \<Rightarrow> exn + assignment_status_map" where
  "add_all_assignment_rows cfg s [] m = Inr m"
| "add_all_assignment_rows cfg s (b # bs) m =
     rbind (parsed_rows cfg (concat (the_list (bulk_assignment_sheet_id (row (bulk_assignments s) b))))) (\<lambda>rows.
     rbind (add_assignment_rows cfg b rows m) (add_all_assignment_rows cfg s bs))"

definition update_incomplete_assignment_message_statuses ::
  "'c assign_config_scheme \<Rightarrow> nat list \<Rightarrow> ('z shop_db_scheme, (nat \<times> nat list) list) prog" where
  "update_incomplete_assignment_message_statuses cfg bs =
     (case bs of
        [] \<Rightarrow> ret []
      | first_bulk # _ \<Rightarrow>
          bindp (asks (\<lambda>s. rbind (add_all_assignment_rows cfg s bs empty_status_map)
                   (find_bulk_assignment_messages cfg (bulk_assignments_started_date (row (bulk_assignments s) first_bulk)))))
            (\<lambda>filled.
          bindp (lift_result filled) (\<lambda>m.
          collect_each bs (\<lambda>b.
            bindp (asks (\<lambda>s. concat (the_list (bulk_assignment_sheet_id (row (bulk_assignments s) b))))) (\<lambda>spreadsheet_id.
            bindp (update_coupon_delivery_statuses cfg spreadsheet_id b m) (\<lambda>ks. ret (b, ks)))))))"

definition update_incomplete_assignment_delivery_statuses ::
  "'c assign_config_scheme \<Rightarrow> ('z shop_db_scheme, (nat \<times> nat) list) prog" where
  "update_incomplete_assignment_delivery_statuses cfg =
     bindp (asks (fetch_update_eligible_bulk_assignments (sc_now (shc_shop cfg)))) (\<lambda>bs.
     bindp (update_incomplete_assignment_message_statuses cfg bs) (\<lambda>updated_assignments.
     ret (map (\<lambda>(b, ks). (b, length ks)) updated_assignments)))"


section \<open>Tasks and the view\<close>

definition blank_bulk_assignment :: "string \<Rightarrow> int option \<Rightarrow> bulk_assignment_row" where
  "blank_bulk_assignment file_id modified =
     \<lparr>bulk_assignment_sheet_id = Some file_id, bulk_sheet_last_modified_date = modified, bulk_last_assignment_date = None,
      bulk_assignments_started_date = None, bulk_message_delivery_completed_date = None\<rparr>"

definition process_coupon_assignment_sheet ::
  "'c assign_config_scheme \<Rightarrow> string \<Rightarrow> int option \<Rightarrow> ('z shop_db_scheme, nat \<times> nat) prog" where
  "process_coupon_assignment_sheet cfg file_id change_date =
     (let change_dt = (case change_date of None \<Rightarrow> sc_now (shc_shop cfg) | Some d \<Rightarrow> d)
      in bindp (db_update_or_create ''BulkCouponAssignment'' bulk_assignments bulk_assignments_update
             (\<lambda>_ r. bulk_assignment_sheet_id r = Some file_id) (\<lambda>r. r\<lparr>bulk_sheet_last_modified_date := Some change_dt\<rparr>)
             (blank_bulk_assignment file_id (Some change_dt))) (\<lambda>(b, _).
         process_assignment_spreadsheet cfg file_id b))"

text \<open>A task of the queue that is scheduled: its id, its name and the file it is for.\<close>

type_synonym scheduled_task = "string \<times> string \<times> string option"

definition get_scheduled_assignment_task_ids :: "scheduled_task list \<Rightarrow> string \<Rightarrow> string list" where
  "get_scheduled_assignment_task_ids scheduled file_id =
     map fst (filter (\<lambda>(_, name, file). name = ''process_coupon_assignment_sheet'' \<and> file = Some file_id) scheduled)"

definition schedule_coupon_assignment_sheet_handling ::
  "scheduled_task list \<Rightarrow> int \<Rightarrow> int \<Rightarrow> string \<Rightarrow> ('z users_db_scheme, unit) prog" where
  "schedule_coupon_assignment_sheet_handling scheduled now wait file_id =
     (let already_scheduled_task_ids = get_scheduled_assignment_task_ids scheduled file_id
      in thenp (whenp (already_scheduled_task_ids \<noteq> []) (emit (GoogleCall ''revoke'' file_id [already_scheduled_task_ids])))
           (emit (GoogleCall ''apply_async'' ''process_coupon_assignment_sheet'' [[file_id, int_str now, int_str (now + wait)]])))"

definition enrolled_row_update ::
  "int \<Rightarrow> (string \<times> string) list \<Rightarrow> coupon_assignment_row \<Rightarrow> assignment_row_update option" where
  "enrolled_row_update now assignment_code_email_dict r =
     (case car_email r of
        None \<Rightarrow> None
      | Some email \<Rightarrow>
          if car_code r = [] then None
          else map_option (\<lambda>redeemed_email.
                 \<lparr>aru_row_index = car_row_index r, aru_status = ASSIGNMENT_SHEET_ENROLLED_STATUS, aru_status_date = Some now,
                  aru_alternate_email = (if case_insensitive_equal redeemed_email email then None else Some redeemed_email)\<rparr>)
                 (map_of assignment_code_email_dict (car_code r)))"

definition set_assignment_rows_to_enrolled ::
  "'c assign_config_scheme \<Rightarrow> (string \<times> (string \<times> string) list) list \<Rightarrow> ('z shop_db_scheme, (string \<times> nat) list) prog" where
  "set_assignment_rows_to_enrolled cfg sheet_update_dict =
     collect_each sheet_update_dict (\<lambda>(sheet_id, assignment_code_email_dict).
       bindp (db_get ''BulkCouponAssignment'' bulk_assignments (\<lambda>_ r. bulk_assignment_sheet_id r = Some sheet_id)) (\<lambda>_.
       bindp (lift_result (parsed_rows cfg sheet_id)) (\<lambda>assignment_rows.
       thenp (update_sheet_with_new_statuses cfg sheet_id
                (List.map_filter (enrolled_row_update (sc_now (shc_shop cfg)) assignment_code_email_dict) assignment_rows) False)
         (ret (sheet_id, length assignment_code_email_dict)))))"

definition renew_file_watch ::
  "sheets_config \<Rightarrow> string \<Rightarrow> (string \<Rightarrow> string) \<Rightarrow> string \<Rightarrow> string option \<Rightarrow>
     ('z sheets_db_scheme, string \<times> string \<times> string \<times> bool) prog" where
  "renew_file_watch cfg handler_path singleton_file_id sheet_type file_id =
     bindp (lift_result (sheet_metadata_of_type sheet_type)) (\<lambda>m.
     bindp (create_or_renew_sheet_file_watch cfg handler_path m True
              (case file_id of None \<Rightarrow> singleton_file_id sheet_type | Some f \<Rightarrow> f)) (\<lambda>(file_watch, created, _).
     case file_watch of
       None \<Rightarrow> raise (AttributeError ''channel_id'')
     | Some w \<Rightarrow> asks (\<lambda>s. (sm_sheet_type m, gfw_channel_id (row (file_watches s) w), gfw_file_id (row (file_watches s) w), created))))"

definition renew_all_file_watches :: "'c assign_config_scheme \<Rightarrow> ('z shop_db_scheme, unit) prog" where
  "renew_all_file_watches cfg =
     bindp (asks (fetch_webhook_eligible_assign_sheet_ids cfg)) (\<lambda>assignment_sheet_ids_to_renew.
     for_each ([(SHEET_TYPE_COUPON_REQUEST, []), (SHEET_TYPE_ENROLL_CHANGE, [])] @
               map (\<lambda>f. (SHEET_TYPE_COUPON_ASSIGN, [f])) assignment_sheet_ids_to_renew)
       (\<lambda>(sheet_type, file_id). queue_sheet_task ''renew_file_watch'' (sheet_type # file_id)))"

definition assign_coupons_from_spreadsheet ::
  "'c assign_config_scheme \<Rightarrow> bool \<Rightarrow> string \<Rightarrow> bool \<Rightarrow> ('z shop_db_scheme, string \<times> nat \<times> nat \<times> nat) prog" where
  "assign_coupons_from_spreadsheet cfg use_sheet_id v force =
     (if v = [] then raise (CouponAssignmentError ''Spreadsheet identifier (ID or Title) is required.'')
      else
        bindp (lift_result (asc_open cfg use_sheet_id v)) (\<lambda>spreadsheet_id.
        bindp (lift_result (asc_modified cfg spreadsheet_id)) (\<lambda>sheet_last_modified.
        bindp (db_get_or_create ''BulkCouponAssignment'' bulk_assignments bulk_assignments_update
                 (\<lambda>_ r. bulk_assignment_sheet_id r = Some spreadsheet_id) (blank_bulk_assignment spreadsheet_id None)) (\<lambda>(b, _).
        bindp (asks (\<lambda>s. bulk_sheet_last_modified_date (row (bulk_assignments s) b))) (\<lambda>last_processed.
        if (case last_processed of None \<Rightarrow> False | Some d \<Rightarrow> sheet_last_modified \<le> d) \<and> \<not> force
        then raise (CouponAssignmentError ''Spreadsheet is unchanged since last processed'')
        else
          bindp (process_assignment_spreadsheet cfg spreadsheet_id b) (\<lambda>(num_created, num_removed).
          thenp (db_save bulk_assignments bulk_assignments_update b
                   (\<lambda>r. r\<lparr>bulk_sheet_last_modified_date := Some sheet_last_modified\<rparr>))
            (ret (spreadsheet_id, num_created, num_removed, b))))))))"

text \<open>The view: the status of the answer, with the numbers it reports when all went well.\<close>

definition process_coupon_sheet_assignment_view ::
  "'c assign_config_scheme \<Rightarrow> string option \<Rightarrow> string \<Rightarrow> bool \<Rightarrow> ('z shop_db_scheme, nat \<times> (string \<times> nat \<times> nat \<times> nat) option) prog" where
  "process_coupon_sheet_assignment_view cfg sheet_identifier_type sheet_identifier_value force =
     (if sheet_identifier_type = None \<or> sheet_identifier_value = [] then ret (400, None)
      else try_catch
        (bindp (assign_coupons_from_spreadsheet cfg (sheet_identifier_type = Some ''id'') sheet_identifier_value force)
           (\<lambda>answer. ret (200, Some answer)))
        (\<lambda>exc. case exc of CouponAssignmentError _ \<Rightarrow> ret (400, None) | _ \<Rightarrow> ret (500, None)))"

section \<open>The assignments after a sheet was processed\<close>

lemma py_lower_idem: "py_lower (py_lower s) = py_lower s"
proof -
  have "lower_char (lower_char c) = lower_char c" for c
    by (auto simp: lower_char_def Let_def)
  then show ?thesis by (simp add: py_lower_def)
qed

lemma rcollect_memD: "rcollect f xs = Inr ys \<Longrightarrow> y \<in> set ys \<Longrightarrow> \<exists>x \<in> set xs. f x = Inr y"
  by (induction xs arbitrary: ys) (auto elim!: rbind_InrE)

lemma parsed_rows_lower:
  assumes "parsed_rows cfg f = Inr rows" and "r \<in> set rows" and "car_email r = Some e"
  shows "py_lower e = e"
proof -
  from assms(1) obtain xs where "rcollect (\<lambda>(row_index, row_data). parse_assignment_row row_index row_data) xs = Inr rows"
    by (auto simp: parsed_rows_def Let_def elim!: rbind_InrE split: if_splits)
  from rcollect_memD [OF this assms(2)] obtain i d where "parse_assignment_row i d = Inr r"
    by auto
  then have "car_email r = None \<or> (\<exists>u. car_email r = Some (py_lower u))"
    by (auto simp: parse_assignment_row_def parsing_def py_index_def split: sum.splits option.splits if_splits)
  with assms(3) show ?thesis by (auto simp: py_lower_idem)
qed

lemma desired_lower:
  assumes "get_desired_coupon_assignments s rows = Inr desired" and "parsed_rows cfg f = Inr rows" and "t \<in> set desired"
  shows "py_lower (fst t) = fst t"
proof -
  let ?valid = "filter (\<lambda>r. car_code r \<noteq> [] \<and> car_email r \<noteq> None) rows"
  from assms(1) obtain d pairs where c: "rcollect (\<lambda>r. case map_of d (car_code r) of
                  None \<Rightarrow> Inl (KeyError (car_code r)) | Some ce \<Rightarrow> Inr (concat (the_list (car_email r)), ce)) ?valid = Inr pairs"
    and "desired = unique pairs"
    by (auto simp: get_desired_coupon_assignments_def Let_def elim!: rbind_InrE split: if_splits)
  with assms(3) have "t \<in> set pairs" by (simp add: unique_def set_unique_from)
  from rcollect_memD [OF c this] obtain r where r: "r \<in> set ?valid"
    "(case map_of d (car_code r) of None \<Rightarrow> Inl (KeyError (car_code r)) | Some ce \<Rightarrow> Inr (concat (the_list (car_email r)), ce)) = Inr t"
    by blast
  from r(2) have "fst t = concat (the_list (car_email r))" by (auto split: option.splits)
  with r(1) parsed_rows_lower [OF assms(2), of r] show ?thesis by (auto simp: the_list_def)
qed

lemma distinct_desired: "get_desired_coupon_assignments s rows = Inr desired \<Longrightarrow> distinct desired"
  by (auto simp: get_desired_coupon_assignments_def Let_def unique_def distinct_unique_from elim!: rbind_InrE split: if_splits)

text \<open>
  The assignments of a bulk assignment that a sheet keeps, and those it adds. Nothing is taken away before
  assignments were made for the sheet the first time; a redeemed code keeps its assignment and gets no other.
\<close>

definition was_started :: "'z shop_db_scheme \<Rightarrow> nat \<Rightarrow> bool" where
  "was_started s b \<longleftrightarrow> bulk_assignments_started_date (row (bulk_assignments s) b) \<noteq> None"

definition kept_assignments :: "'z shop_db_scheme \<Rightarrow> nat \<Rightarrow> (string \<times> nat) list \<Rightarrow> nat list" where
  "kept_assignments s b desired =
     filter (\<lambda>k. was_started s b \<longrightarrow> assignment_tuple s k \<in> set desired \<or> pca_redeemed (row (product_coupon_assignments s) k))
       (assignments_of s b)"

definition redeemed_by_another :: "'z shop_db_scheme \<Rightarrow> nat \<Rightarrow> (string \<times> nat) list \<Rightarrow> nat \<Rightarrow> bool" where
  "redeemed_by_another s b desired product_coupon \<longleftrightarrow>
     list_ex (\<lambda>k. pca_redeemed (row (product_coupon_assignments s) k) \<and> assignment_tuple s k \<notin> set desired \<and>
                  pca_product_coupon (row (product_coupon_assignments s) k) = product_coupon) (assignments_of s b)"

definition added_assignments :: "(string \<Rightarrow> bool) \<Rightarrow> 'z shop_db_scheme \<Rightarrow> nat \<Rightarrow> (string \<times> nat) list \<Rightarrow> (string \<times> nat) list" where
  "added_assignments valid s b desired =
     filter (\<lambda>t. valid (fst t) \<and>
               (was_started s b \<longrightarrow> t \<notin> assignment_tuple s ` set (assignments_of s b) \<and> \<not> redeemed_by_another s b desired (snd t)))
       desired"

text \<open>The part of the handler that changes the database.\<close>

definition new_assignment :: "nat \<Rightarrow> string \<times> nat \<Rightarrow> product_coupon_assignment_row" where
  "new_assignment b t =
     \<lparr>pca_email = fst t, pca_original_email = None, pca_product_coupon = snd t, pca_redeemed = False,
      pca_message_status = None, pca_message_status_date = None, pca_bulk_assignment = Some b\<rparr>"

definition assignments_after ::
  "(string \<Rightarrow> bool) \<Rightarrow> 'z shop_db_scheme \<Rightarrow> nat \<Rightarrow> (string \<times> nat) list \<Rightarrow> product_coupon_assignment_row table" where
  "assignments_after valid s b desired =
     snd (t_bulk_create (t_delete (product_coupon_assignments s) (\<lambda>k _. k \<in> set (assignments_of s b) - set (kept_assignments s b desired)))
            (map (new_assignment b) (added_assignments valid s b desired)))"

lemma t_delete_nothing: "t_delete t (\<lambda>k _. False) = t"
  by (simp add: t_delete_def)

lemma invalid_emails_of:
  "(case validate_email_addresses valid emails of Inl (MultiEmailValidationError es) \<Rightarrow> es | _ \<Rightarrow> []) =
     unique (filter (\<lambda>e. \<not> valid e) emails)"
  by (auto simp: validate_email_addresses_def Let_def)

lemma to_create:
  "fst (get_assignments_to_create_and_remove s (assignments_of s b) desired) =
     filter (\<lambda>t. t \<notin> assignment_tuple s ` set (assignments_of s b) \<and> \<not> redeemed_by_another s b desired (snd t)) desired"
proof -
  let ?redeemed = "filter (\<lambda>k. pca_redeemed (row (product_coupon_assignments s) k))
    (filter (\<lambda>k. assignment_tuple s k \<notin> set desired) (assignments_of s b))"
  let ?new = "filter (\<lambda>t. t \<notin> assignment_tuple s ` set (assignments_of s b)) desired"
  have by_another: "redeemed_by_another s b desired p \<longleftrightarrow>
      p \<in> (\<lambda>k. pca_product_coupon (row (product_coupon_assignments s) k)) ` set ?redeemed" for p
    by (auto simp: redeemed_by_another_def list_ex_iff image_iff)
  have "fst (get_assignments_to_create_and_remove s (assignments_of s b) desired) =
      (if ?redeemed = [] then ?new else filter (\<lambda>t. \<not> redeemed_by_another s b desired (snd t)) ?new)"
    by (simp add: get_assignments_to_create_and_remove_def Let_def partition_items_def by_another filter_map comp_def)
  also have "\<dots> = filter (\<lambda>t. \<not> redeemed_by_another s b desired (snd t)) ?new"
    by (cases "?redeemed = []") (simp_all add: by_another)
  finally show ?thesis by (simp add: conj_commute)
qed

lemma to_remove:
  "snd (get_assignments_to_create_and_remove s (assignments_of s b) desired) =
     filter (\<lambda>k. \<not> (assignment_tuple s k \<in> set desired \<or> pca_redeemed (row (product_coupon_assignments s) k))) (assignments_of s b)"
  by (simp add: get_assignments_to_create_and_remove_def Let_def conj_commute)

lemma planned:
  assumes "(if was_started s b then get_assignments_to_create_and_remove s (assignments_of s b) desired else (desired, [])) = (c, rm)"
  shows "filter (\<lambda>t. fst t \<notin> set (unique (filter (\<lambda>e. \<not> valid e) (map fst c)))) c = added_assignments valid s b desired"
    and "rm = filter (\<lambda>k. k \<notin> set (kept_assignments s b desired)) (assignments_of s b)"
proof -
  have c: "c = filter (\<lambda>t. was_started s b \<longrightarrow> t \<notin> assignment_tuple s ` set (assignments_of s b) \<and>
      \<not> redeemed_by_another s b desired (snd t)) desired"
    using assms to_create [of s b desired] by (cases "was_started s b") auto
  have "filter (\<lambda>t. fst t \<notin> set (unique (filter (\<lambda>e. \<not> valid e) (map fst c)))) c = filter (\<lambda>t. valid (fst t)) c"
    by (intro filter_cong) (auto simp: unique_def set_unique_from)
  then show "filter (\<lambda>t. fst t \<notin> set (unique (filter (\<lambda>e. \<not> valid e) (map fst c)))) c = added_assignments valid s b desired"
    unfolding c added_assignments_def by (simp add: conj_commute)
  show "rm = filter (\<lambda>k. k \<notin> set (kept_assignments s b desired)) (assignments_of s b)"
    using assms to_remove [of s b desired]
    by (cases "was_started s b") (auto simp: kept_assignments_def intro!: filter_cong)
qed


lemma keeps_batch_update: "(\<And>s es. I (s\<lparr>effects := es\<rparr>) = I s) \<Longrightarrow> keeps I (batch_update_sheet_cells cfg f rs)"
  unfolding batch_update_sheet_cells_def by (intro keeps_intros keeps_emit)

lemma keeps_update_sheet:
  "(\<And>s es. I (s\<lparr>effects := es\<rparr>) = I s) \<Longrightarrow> keeps I (update_sheet_with_new_statuses cfg f us z)"
  unfolding update_sheet_with_new_statuses_def update_sheet_with_alternate_emails_def Let_def
  by (intro keeps_intros keeps_batch_update)

lemma keeps_reports:
  assumes "\<And>s es. I (s\<lparr>effects := es\<rparr>) = I s"
  shows "keeps I (report_invalid_emails cfg f rows es)" and "keeps I (report_assigned_codes cfg f rows ks)"
    and "keeps I (send_bulk_enroll_emails url b ks)"
  unfolding report_invalid_emails_def report_assigned_codes_def send_bulk_enroll_emails_def
  using assms by (intro keeps_intros keeps_update_sheet keeps_emit; simp)+

lemma filter_one: "distinct xs \<Longrightarrow> b \<in> set xs \<Longrightarrow> filter (\<lambda>k. k = b) xs = [b]"
  by (induction xs) (auto simp: filter_empty_conv)

lemma get_by_key:
  assumes "wf_table t" and "b \<in> set (pks t)"
  shows "t_get model t (\<lambda>k _. k = b) = Inr b"
  using assms by (simp add: t_get_def the_only_def matching_def wf_table_distinct filter_one)

text \<open>The transaction of the handler, and what follows it.\<close>

definition store_assignments ::
  "'c assign_config_scheme \<Rightarrow> nat \<Rightarrow> (string \<times> nat) list \<Rightarrow> nat \<Rightarrow> ('z shop_db_scheme, nat list) prog" where
  "store_assignments cfg b valid_assignments num_assignments_removed =
     bindp (db_get ''BulkCouponAssignment'' bulk_assignments (\<lambda>k _. k = b)) (\<lambda>_.
     bindp (bulk_assign_product_coupons valid_assignments (Some b)) (\<lambda>(_, created_assignments).
     thenp (whenp (created_assignments \<noteq> [] \<or> 0 < num_assignments_removed)
              (db_save bulk_assignments bulk_assignments_update b (\<lambda>r.
                 r\<lparr>bulk_assignments_started_date :=
                     (if bulk_assignments_started_date r = None \<and> created_assignments \<noteq> [] then Some (sc_now (shc_shop cfg))
                      else bulk_assignments_started_date r),
                   bulk_last_assignment_date := Some (sc_now (shc_shop cfg))\<rparr>)))
       (ret created_assignments)))"

definition report_assignments ::
  "'c assign_config_scheme \<Rightarrow> string \<Rightarrow> nat \<Rightarrow> coupon_assignment_row list \<Rightarrow> string list \<Rightarrow> nat list \<Rightarrow> nat \<Rightarrow>
     ('z shop_db_scheme, nat \<times> nat) prog" where
  "report_assignments cfg f b rows invalid_emails created_assignments num_assignments_removed =
     thenp (whenp (created_assignments \<noteq> [])
              (thenp (send_bulk_enroll_emails (shc_checkout_url cfg) b created_assignments)
                     (report_assigned_codes cfg f rows created_assignments)))
    (thenp (whenp (invalid_emails \<noteq> []) (report_invalid_emails cfg f rows invalid_emails))
       (ret (length created_assignments, num_assignments_removed)))"

lemma store_assignments_run:
  assumes "wf_table (bulk_assignments s)" and "b \<in> set (pks (bulk_assignments s))"
  shows "\<exists>s2 g. store_assignments cfg b new n s = (Inr (fst (t_bulk_create (product_coupon_assignments s) (map (new_assignment b) new))), s2) \<and>
    product_coupon_assignments s2 = snd (t_bulk_create (product_coupon_assignments s) (map (new_assignment b) new)) \<and>
    bulk_assignments s2 = t_save (bulk_assignments s) b g \<and> coupons s2 = coupons s \<and> coupon_eligibilities s2 = coupon_eligibilities s \<and>
    (new = [] \<longrightarrow> bulk_assignments_started_date (g (row (bulk_assignments s) b)) = bulk_assignments_started_date (row (bulk_assignments s) b)) \<and>
    (new \<noteq> [] \<longrightarrow> bulk_assignments_started_date (g (row (bulk_assignments s) b)) \<noteq> None)"
proof -
  have rows: "map (\<lambda>(email, product_coupon_id).
      \<lparr>pca_email = email, pca_original_email = None, pca_product_coupon = product_coupon_id,
       pca_redeemed = False, pca_message_status = None, pca_message_status_date = None,
       pca_bulk_assignment = Some b\<rparr>) new = map (new_assignment b) new"
    by (simp add: new_assignment_def case_prod_beta')
  have none: "fst (t_bulk_create t (map (new_assignment b) new)) = [] \<longleftrightarrow> new = []" for t
    by (metis length_0_conv length_fst_t_bulk_create length_map)
  have unchanged: "bulk_assignments s = t_save (bulk_assignments s) b (\<lambda>r. r)" by (simp add: t_save_def)
  show ?thesis
  proof (cases "new \<noteq> [] \<or> 0 < n")
    case True
    then show ?thesis
      using assms by (auto simp: store_assignments_def bindp_run thenp_run get_by_key bulk_assign_product_coupons_def rows none)
  next
    case False
    then show ?thesis
      using assms unchanged
      by (auto simp: store_assignments_def bindp_run thenp_run get_by_key bulk_assign_product_coupons_def intro!: exI [of _ "\<lambda>r. r"])
  qed
qed

lemma report_assignments_keeps:
  assumes "\<And>s es. I (s\<lparr>effects := es\<rparr>) = I s"
  shows "keeps I (report_assignments cfg f b rows es ks n)"
  unfolding report_assignments_def using assms by (intro keeps_intros keeps_reports)

lemma report_assignments_InrD:
  "report_assignments cfg f b rows es ks n s = (Inr (c, rm), s') \<Longrightarrow> c = length ks \<and> rm = n"
  by (auto simp: report_assignments_def elim!: thenp_InrE)


text \<open>The database after the handler, whatever becomes of the messages.\<close>

lemma process_tables:
  fixes s :: "'z shop_db_scheme"
  assumes "parsed_rows cfg f = Inr rows" and "get_desired_coupon_assignments s rows = Inr desired"
    and "wf_table (bulk_assignments s)" and "b \<in> set (pks (bulk_assignments s))"
    and "process_assignment_spreadsheet cfg f b s = (r, s')"
  shows "product_coupon_assignments s' = assignments_after (asc_valid_email cfg) s b desired \<and>
    coupons s' = coupons s \<and> coupon_eligibilities s' = coupon_eligibilities s \<and>
    (\<exists>g. bulk_assignments s' = t_save (bulk_assignments s) b g \<and>
      (added_assignments (asc_valid_email cfg) s b desired = [] \<longrightarrow>
         bulk_assignments_started_date (g (row (bulk_assignments s) b)) = bulk_assignments_started_date (row (bulk_assignments s) b)) \<and>
      (added_assignments (asc_valid_email cfg) s b desired \<noteq> [] \<longrightarrow>
         bulk_assignments_started_date (g (row (bulk_assignments s) b)) \<noteq> None)) \<and>
    (\<forall>c rm. r = Inr (c, rm) \<longrightarrow> c = length (added_assignments (asc_valid_email cfg) s b desired) \<and>
      rm = length (filter (\<lambda>k. k \<notin> set (kept_assignments s b desired)) (assignments_of s b)))"
proof -
  let ?new = "added_assignments (asc_valid_email cfg) s b desired"
  let ?gone = "filter (\<lambda>k. k \<notin> set (kept_assignments s b desired)) (assignments_of s b)"
  obtain c rm where plan: "(if was_started s b then get_assignments_to_create_and_remove s (assignments_of s b) desired
      else (desired, [])) = (c, rm)" by fastforce
  note planned = planned(1) [OF plan, of "asc_valid_email cfg"] planned(2) [OF plan]
  let ?t = "t_delete (product_coupon_assignments s) (\<lambda>k _. k \<in> set (assignments_of s b) - set (kept_assignments s b desired))"
  let ?s1 = "s\<lparr>product_coupon_assignments := ?t\<rparr>"
  have removed: "whenp (rm \<noteq> []) (db_delete product_coupon_assignments product_coupon_assignments_update (\<lambda>k _. k \<in> set rm)) s = (Inr (), ?s1)"
  proof -
    have "set rm = set (assignments_of s b) - set (kept_assignments s b desired)" using planned(2) by auto
    moreover from this have "?t = product_coupon_assignments s" if "rm = []"
      using that by (auto simp: t_delete_def filter_id_conv intro!: table.equality)
    ultimately show ?thesis by (cases "rm = []") (simp_all add: t_delete_def)
  qed
  from store_assignments_run [of ?s1 b cfg ?new "length rm"] assms(3,4) obtain s2 g where
    store: "store_assignments cfg b ?new (length rm) ?s1 = (Inr (fst (t_bulk_create ?t (map (new_assignment b) ?new))), s2)"
    and s2: "product_coupon_assignments s2 = assignments_after (asc_valid_email cfg) s b desired"
      "bulk_assignments s2 = t_save (bulk_assignments s) b g" "coupons s2 = coupons s" "coupon_eligibilities s2 = coupon_eligibilities s"
    and g: "?new = [] \<longrightarrow> bulk_assignments_started_date (g (row (bulk_assignments s) b)) = bulk_assignments_started_date (row (bulk_assignments s) b)"
      "?new \<noteq> [] \<longrightarrow> bulk_assignments_started_date (g (row (bulk_assignments s) b)) \<noteq> None"
    by (auto simp: assignments_after_def)
  let ?es = "unique (filter (\<lambda>e. \<not> asc_valid_email cfg e) (map fst c))"
  let ?ks = "fst (t_bulk_create ?t (map (new_assignment b) ?new))"
  have report: "report_assignments cfg f b rows ?es ?ks (length rm) s2 = (r, s')"
    using assms(5) removed store planned(1) plan assms(1,2)
    by (simp add: process_assignment_spreadsheet_def Let_def invalid_emails_of was_started_def store_assignments_def report_assignments_def
        bindp_run thenp_run atomic_run del: whenp_run)
  have "keeps (\<lambda>t. (product_coupon_assignments t, bulk_assignments t, coupons t, coupon_eligibilities t) =
      (product_coupon_assignments s2, bulk_assignments s2, coupons s2, coupon_eligibilities s2))
      (report_assignments cfg f b rows ?es ?ks (length rm))"
    by (rule report_assignments_keeps) simp
  from keepsD [OF this report] s2 g report_assignments_InrD [of cfg f b rows ?es ?ks "length rm" s2 _ _ s'] report planned(2)
  show ?thesis by (auto intro!: exI [of _ g])
qed


lemma matching_t_bulk_create_none:
  assumes "wf_table t" and "\<And>k r. r \<in> set rs \<Longrightarrow> \<not> P k r"
  shows "matching (snd (t_bulk_create t rs)) P = matching t P"
  using assms
proof (induction rs arbitrary: t)
  case (Cons r rs)
  then have "matching (snd (t_bulk_create (snd (t_create t r)) rs)) P = matching (snd (t_create t r)) P"
    by (intro Cons.IH) auto
  with Cons.prems show ?case by (simp add: t_bulk_create_Cons matching_t_create)
qed simp

lemma kept_of_delete:
  "filter (\<lambda>k. \<not> (k \<in> set (assignments_of s b) - set (kept_assignments s b desired))) (assignments_of s b) = kept_assignments s b desired"
  unfolding kept_assignments_def by (rule filter_cong) auto

lemma after_keys:
  fixes b :: nat and desired :: "(string \<times> nat) list"
  assumes "wf_table (product_coupon_assignments s)"
  defines "t \<equiv> t_delete (product_coupon_assignments s) (\<lambda>k _. k \<in> set (assignments_of s b) - set (kept_assignments s b desired))"
  shows "matching (assignments_after valid s b desired) (\<lambda>_ a. pca_bulk_assignment a = Some b) =
      kept_assignments s b desired @ fst (t_bulk_create t (map (new_assignment b) (added_assignments valid s b desired)))"
    and "b' \<noteq> b \<Longrightarrow> matching (assignments_after valid s b desired) (\<lambda>_ a. pca_bulk_assignment a = Some b') = assignments_of s b'"
proof -
  have wf: "wf_table t" unfolding t_def using assms(1) by simp
  have "matching t (\<lambda>_ a. pca_bulk_assignment a = Some b) = kept_assignments s b desired"
    unfolding t_def matching_t_delete by (simp only: assignments_of_def [symmetric] kept_of_delete)
  then show "matching (assignments_after valid s b desired) (\<lambda>_ a. pca_bulk_assignment a = Some b) =
      kept_assignments s b desired @ fst (t_bulk_create t (map (new_assignment b) (added_assignments valid s b desired)))"
    unfolding assignments_after_def t_def [symmetric]
    by (subst matching_t_bulk_create [OF wf]) (auto simp: new_assignment_def)
  assume "b' \<noteq> b"
  then have "matching (assignments_after valid s b desired) (\<lambda>_ a. pca_bulk_assignment a = Some b') =
      matching t (\<lambda>_ a. pca_bulk_assignment a = Some b')"
    unfolding assignments_after_def t_def [symmetric]
    by (intro matching_t_bulk_create_none wf) (auto simp: new_assignment_def)
  also have "\<dots> = assignments_of s b'"
    unfolding t_def matching_t_delete assignments_of_def [symmetric]
    using \<open>b' \<noteq> b\<close> by (auto simp: filter_id_conv assignments_of_def)
  finally show "matching (assignments_after valid s b desired) (\<lambda>_ a. pca_bulk_assignment a = Some b') = assignments_of s b'" .
qed

lemma row_after_old:
  "wf_table (product_coupon_assignments s) \<Longrightarrow> k \<in> set (pks (product_coupon_assignments s)) \<Longrightarrow>
     row (assignments_after valid s b desired) k = row (product_coupon_assignments s) k"
  by (auto simp: assignments_after_def wf_table_def)

lemma row_after_new:
  assumes "i < length (added_assignments valid s b desired)"
  shows "row (assignments_after valid s b desired) (next_pk (product_coupon_assignments s) + i) = new_assignment b (added_assignments valid s b desired ! i)"
proof -
  let ?new = "added_assignments valid s b desired"
  let ?t = "t_delete (product_coupon_assignments s) (\<lambda>k _. k \<in> set (assignments_of s b) - set (kept_assignments s b desired))"
  have "row (snd (t_bulk_create ?t (map (new_assignment b) ?new))) (next_pk ?t + i) = map (new_assignment b) ?new ! i"
    using assms by (intro row_t_bulk_create_new) simp
  with assms show ?thesis by (simp add: assignments_after_def)
qed

definition tuple_of :: "product_coupon_assignment_row \<Rightarrow> string \<times> nat" where
  "tuple_of a = (py_lower (pca_email a), pca_product_coupon a)"

lemma assignment_tuple_of: "assignment_tuple s k = tuple_of (row (product_coupon_assignments s) k)"
  by (simp add: assignment_tuple_def tuple_of_def Let_def)

lemma after_tuples:
  assumes "wf_table (product_coupon_assignments s)" and "\<forall>t \<in> set desired. py_lower (fst t) = fst t"
  shows "(\<lambda>k. tuple_of (row (assignments_after valid s b desired) k)) `
      set (matching (assignments_after valid s b desired) (\<lambda>_ a. pca_bulk_assignment a = Some b)) =
    assignment_tuple s ` set (kept_assignments s b desired) \<union> set (added_assignments valid s b desired)"
proof -
  let ?new = "added_assignments valid s b desired"
  let ?row = "row (assignments_after valid s b desired)"
  let ?n = "next_pk (product_coupon_assignments s)"
  have kept: "(\<lambda>k. tuple_of (?row k)) ` set (kept_assignments s b desired) = assignment_tuple s ` set (kept_assignments s b desired)"
    by (intro image_cong refl) (auto simp: row_after_old [OF assms(1)] assignment_tuple_of kept_assignments_def assignments_of_def)
  have low: "\<forall>t \<in> set ?new. py_lower (fst t) = fst t" using assms(2) by (auto simp: added_assignments_def)
  have "(\<lambda>k. tuple_of (?row k)) ` {?n..<?n + length ?new} = (\<lambda>i. tuple_of (?row (?n + i))) ` {0..<length ?new}"
  proof -
    have "{?n..<?n + length ?new} = (\<lambda>i. ?n + i) ` {0..<length ?new}" by (simp add: add.commute)
    then show ?thesis by (simp only: image_image)
  qed
  also have "\<dots> = (\<lambda>i. ?new ! i) ` {0..<length ?new}"
    using low by (intro image_cong refl) (auto simp: row_after_new tuple_of_def new_assignment_def)
  also have "\<dots> = set ?new" by (auto simp: set_conv_nth)
  finally show ?thesis
    by (simp only: after_keys(1) [OF assms(1)] set_append image_Un kept fst_t_bulk_create length_map set_upt next_pk_t_delete)
qed


text \<open>
  C36: Processing the sheet of a bulk assignment leaves exactly the assignments that it should, whatever
  becomes of the messages: those kept (listed in the sheet, or redeemed) with their rows as they were, and those added (listed,
  not there yet, with a valid address, and not of a code that another user redeemed). Other bulk assignments are
  not touched, and the numbers the handler reports are those of the assignments made and removed.
\<close>

theorem process_assignment_spreadsheet_spec:
  fixes s :: shop_db
  assumes "parsed_rows cfg f = Inr rows" and "get_desired_coupon_assignments s rows = Inr desired"
    and "wf_table (bulk_assignments s)" and "wf_table (product_coupon_assignments s)" and "b \<in> set (pks (bulk_assignments s))"
    and "process_assignment_spreadsheet cfg f b s = (r, s')"
  shows "assignment_tuple s' ` set (assignments_of s' b) =
      assignment_tuple s ` set (kept_assignments s b desired) \<union> set (added_assignments (asc_valid_email cfg) s b desired) \<and>
    (\<forall>k \<in> set (kept_assignments s b desired). k \<in> set (assignments_of s' b) \<and>
       row (product_coupon_assignments s') k = row (product_coupon_assignments s) k) \<and>
    (\<forall>b'. b' \<noteq> b \<longrightarrow> assignments_of s' b' = assignments_of s b' \<and>
       (\<forall>k \<in> set (assignments_of s b'). row (product_coupon_assignments s') k = row (product_coupon_assignments s) k)) \<and>
    (\<forall>created removed. r = Inr (created, removed) \<longrightarrow>
       created = length (added_assignments (asc_valid_email cfg) s b desired) \<and>
       removed = length (filter (\<lambda>k. k \<notin> set (kept_assignments s b desired)) (assignments_of s b)))"
proof -
  note tables = process_tables [OF assms(1,2,3,5,6)]
  then have t: "product_coupon_assignments s' = assignments_after (asc_valid_email cfg) s b desired" by blast
  have low: "\<forall>t \<in> set desired. py_lower (fst t) = fst t" using desired_lower [OF assms(2,1)] by blast
  have image: "assignment_tuple s' ` set (assignments_of s' b) =
      assignment_tuple s ` set (kept_assignments s b desired) \<union> set (added_assignments (asc_valid_email cfg) s b desired)"
    using after_tuples [OF assms(4) low, of "asc_valid_email cfg" b]
    by (simp only: assignments_of_def assignment_tuple_of [abs_def] t)
  have kept: "\<forall>k \<in> set (kept_assignments s b desired). k \<in> set (assignments_of s' b) \<and>
       row (product_coupon_assignments s') k = row (product_coupon_assignments s) k"
    using after_keys(1) [OF assms(4), of "asc_valid_email cfg" b desired]
    by (auto simp: assignments_of_def t kept_assignments_def row_after_old [OF assms(4)] simp del: set_matching)
       (auto simp: row_after_old [OF assms(4)])
  have others: "\<forall>b'. b' \<noteq> b \<longrightarrow> assignments_of s' b' = assignments_of s b' \<and>
       (\<forall>k \<in> set (assignments_of s b'). row (product_coupon_assignments s') k = row (product_coupon_assignments s) k)"
    using after_keys(2) [OF assms(4)] by (auto simp: t assignments_of_def row_after_old [OF assms(4)])
  from image kept others tables show ?thesis by blast
qed


lemma after_member:
  assumes "wf_table (product_coupon_assignments s)" and "\<forall>t \<in> set desired. py_lower (fst t) = fst t"
    and "k \<in> set (matching (assignments_after valid s b desired) (\<lambda>_ a. pca_bulk_assignment a = Some b))"
  shows "k \<in> set (kept_assignments s b desired) \<or>
    tuple_of (row (assignments_after valid s b desired) k) \<in> set (added_assignments valid s b desired)"
proof -
  let ?new = "added_assignments valid s b desired"
  have low: "\<forall>t \<in> set ?new. py_lower (fst t) = fst t" using assms(2) by (auto simp: added_assignments_def)
  have "tuple_of (row (assignments_after valid s b desired) k) \<in> set ?new"
    if "k \<in> {next_pk (product_coupon_assignments s) ..< next_pk (product_coupon_assignments s) + length ?new}"
  proof -
    from that obtain i where "k = next_pk (product_coupon_assignments s) + i" "i < length ?new"
      by (metis add_less_cancel_left atLeastLessThan_iff le_Suc_ex)
    with low show ?thesis by (simp add: row_after_new tuple_of_def new_assignment_def)
  qed
  with assms(3) show ?thesis
    unfolding after_keys(1) [OF assms(1)] by (auto simp: fst_t_bulk_create)
qed

lemma desired_cong:
  "coupons s' = coupons s \<Longrightarrow> coupon_eligibilities s' = coupon_eligibilities s \<Longrightarrow>
     get_desired_coupon_assignments s' rows = get_desired_coupon_assignments s rows"
  by (simp add: get_desired_coupon_assignments_def)

lemma nothing_left:
  fixes s :: "'z shop_db_scheme" and valid :: "string \<Rightarrow> bool"
  assumes "wf_table (product_coupon_assignments s)" and "\<forall>t \<in> set desired. py_lower (fst t) = fst t"
    and "was_started s b \<or> assignments_of s b = []"
    and "product_coupon_assignments s' = assignments_after valid s b desired"
    and "was_started s' b \<longleftrightarrow> was_started s b \<or> added_assignments valid s b desired \<noteq> []"
  shows "added_assignments valid s' b desired = []" and "kept_assignments s' b desired = assignments_of s' b"
proof -
  let ?K = "kept_assignments s b desired"
  let ?N = "added_assignments valid s b desired"
  have tuples: "assignment_tuple s' ` set (assignments_of s' b) = assignment_tuple s ` set ?K \<union> set ?N"
    using after_tuples [OF assms(1,2), of valid b] by (simp only: assignments_of_def assignment_tuple_of [abs_def] assms(4))
  have kept: "k \<in> set (assignments_of s' b)" "row (product_coupon_assignments s') k = row (product_coupon_assignments s) k"
    "assignment_tuple s' k = assignment_tuple s k" if "k \<in> set ?K" for k
    using that after_keys(1) [OF assms(1), of valid b desired] row_after_old [OF assms(1), of k valid b desired]
    by (auto simp: assignments_of_def assms(4) assignment_tuple_of kept_assignments_def simp del: set_matching)
       (auto simp: assignments_of_def)
  have member: "k \<in> set ?K \<or> assignment_tuple s' k \<in> set ?N" if "k \<in> set (assignments_of s' b)" for k
    using after_member [OF assms(1,2), of k valid b] that by (simp only: assignments_of_def assms(4) assignment_tuple_of)
  have "\<not> (valid (fst t) \<and> (was_started s' b \<longrightarrow> t \<notin> assignment_tuple s' ` set (assignments_of s' b) \<and> \<not> redeemed_by_another s' b desired (snd t)))"
    if t: "t \<in> set desired" for t
  proof (cases "t \<in> set ?N \<or> \<not> valid (fst t)")
    case True
    with assms(5) tuples show ?thesis by auto
  next
    case False
    with t consider (there) "was_started s b" "t \<in> assignment_tuple s ` set (assignments_of s b)"
      | (redeemed) "was_started s b" "redeemed_by_another s b desired (snd t)"
      by (auto simp: added_assignments_def)
    then show ?thesis
    proof cases
      case there
      with t have "t \<in> assignment_tuple s ` set ?K" by (auto simp: kept_assignments_def)
      with tuples there assms(5) show ?thesis by blast
    next
      case redeemed
      then obtain k where k: "k \<in> set (assignments_of s b)" "pca_redeemed (row (product_coupon_assignments s) k)"
        "assignment_tuple s k \<notin> set desired" "pca_product_coupon (row (product_coupon_assignments s) k) = snd t"
        by (auto simp: redeemed_by_another_def list_ex_iff)
      then have "k \<in> set ?K" by (simp add: kept_assignments_def)
      with k kept have "redeemed_by_another s' b desired (snd t)"
        by (auto simp: redeemed_by_another_def list_ex_iff intro!: bexI [of _ k])
      with redeemed assms(5) show ?thesis by blast
    qed
  qed
  then show "added_assignments valid s' b desired = []" by (simp add: added_assignments_def filter_empty_conv)
  have "assignment_tuple s' k \<in> set desired \<or> pca_redeemed (row (product_coupon_assignments s') k)"
    if k: "k \<in> set (assignments_of s' b)" for k
    using member [OF k]
  proof
    assume "k \<in> set ?K"
    with kept [OF this] assms(3) show ?thesis by (auto simp: kept_assignments_def)
  qed (simp add: added_assignments_def)
  then show "kept_assignments s' b desired = assignments_of s' b" by (simp add: kept_assignments_def)
qed

text \<open>
  C37: Processing a sheet twice assigns its codes once: for a sheet that can be read and whose codes are all found, and
  for a bulk assignment that had been started before the first of the two runs or had no assignments yet, a second run
  over the same sheet leaves all assignments as they are and reports none made and none removed, whatever became of the
  messages the first time. The condition is needed: the first run over a bulk assignment that has assignments but was
  never started does not look at them, and the second run removes those that are not in the sheet.
\<close>

theorem process_assignment_spreadsheet_idempotent:
  fixes s :: shop_db
  assumes "parsed_rows cfg f = Inr rows" and "get_desired_coupon_assignments s rows = Inr desired"
    and "wf_table (bulk_assignments s)" and "wf_table (product_coupon_assignments s)" and "b \<in> set (pks (bulk_assignments s))"
    and "bulk_assignments_started_date (row (bulk_assignments s) b) \<noteq> None \<or> assignments_of s b = []"
    and "process_assignment_spreadsheet cfg f b s = (r, s')"
    and "process_assignment_spreadsheet cfg f b s' = (r', s'')"
  shows "product_coupon_assignments s'' = product_coupon_assignments s' \<and>
    (\<forall>created removed. r' = Inr (created, removed) \<longrightarrow> created = 0 \<and> removed = 0)"
proof -
  let ?valid = "asc_valid_email cfg"
  from process_tables [OF assms(1,2,3,5,7)] obtain g where
    t: "product_coupon_assignments s' = assignments_after ?valid s b desired" "coupons s' = coupons s"
      "coupon_eligibilities s' = coupon_eligibilities s" and bulk: "bulk_assignments s' = t_save (bulk_assignments s) b g"
    and g: "added_assignments ?valid s b desired = [] \<longrightarrow>
        bulk_assignments_started_date (g (row (bulk_assignments s) b)) = bulk_assignments_started_date (row (bulk_assignments s) b)"
      "added_assignments ?valid s b desired \<noteq> [] \<longrightarrow> bulk_assignments_started_date (g (row (bulk_assignments s) b)) \<noteq> None"
    by blast
  have low: "\<forall>t \<in> set desired. py_lower (fst t) = fst t" using desired_lower [OF assms(2,1)] by blast
  have "was_started s' b \<longleftrightarrow> was_started s b \<or> added_assignments ?valid s b desired \<noteq> []"
    using g by (cases "added_assignments ?valid s b desired = []") (simp_all add: was_started_def bulk)
  from nothing_left [OF assms(4) low _ t(1) this] assms(6)
  have none: "added_assignments ?valid s' b desired = []" "kept_assignments s' b desired = assignments_of s' b"
    by (auto simp: was_started_def)
  have desired': "get_desired_coupon_assignments s' rows = Inr desired"
    using assms(2) desired_cong [OF t(2,3)] by simp
  have "wf_table (bulk_assignments s')" "b \<in> set (pks (bulk_assignments s'))" using assms(3,5) by (simp_all add: bulk)
  from process_tables [OF assms(1) desired' this assms(8)] none show ?thesis
    by (simp add: assignments_after_def t_delete_nothing)
qed


section \<open>Delivery\<close>

lemma no_row_updates:
  assumes "\<not> has_new_statuses m b"
  shows "get_row_update m b code = None"
proof (cases "map_of (asm_assignments m b) code")
  case (Some d)
  then have "(code, d) \<in> set (asm_assignments m b)" by (rule map_of_SomeD)
  with assms Some show ?thesis by (force simp: has_new_statuses_def list_ex_iff get_row_update_def row_update_of_def)
qed (simp add: get_row_update_def)

text \<open>
  C38: Messages that were never sent count as delivered. \<open>None\<close> is listed among the unsent states, but a query for a
  missing value in a list finds no row: when no code of a sheet lacks an address, and Mailgun knows of no message
  and no assignment has a message state, the bulk assignment is marked as completely delivered, and the task that updates
  the states never looks at it again.
\<close>

theorem unsent_messages_count_as_delivered:
  fixes s :: shop_db
  assumes "b \<in> set (pks (bulk_assignments s))"
    and "\<forall>k \<in> set (assignments_of s b). pca_message_status (row (product_coupon_assignments s) k) = None"
    and "\<not> has_new_statuses m b" and "\<not> has_unassigned_codes m b"
    and "update_coupon_delivery_statuses cfg f b m s = (r, s')"
  shows "r = Inr [] \<and> product_coupon_assignments s' = product_coupon_assignments s \<and>
    bulk_message_delivery_completed_date (row (bulk_assignments s') b) = Some (sc_now (shc_shop cfg)) \<and>
    b \<notin> set (fetch_update_eligible_bulk_assignments later s')"
proof -
  have updated: "update_product_coupon_assignments b m s = (Inr [], s)"
    by (simp add: update_product_coupon_assignments_def bindp_run thenp_run no_row_updates [OF assms(3)] List.map_filter_def)
  have unsent: "\<not> t_exists (product_coupon_assignments s)
      (\<lambda>_ a. pca_bulk_assignment a = Some b \<and> sql_in (pca_message_status a) UNSENT_EMAIL_STATUSES)"
    using assms(2) by (auto simp: t_exists_iff sql_in_def assignments_of_def)
  have "\<exists>es. r = Inr [] \<and> s' = s\<lparr>bulk_assignments := t_update (bulk_assignments s) (\<lambda>k _. k = b)
      (\<lambda>r. r\<lparr>bulk_message_delivery_completed_date := Some (sc_now (shc_shop cfg))\<rparr>), effects := es\<rparr>"
    using assms(3-5) updated unsent
    by (cases "asc_update_properties cfg (effects s) f")
      (auto simp: update_coupon_delivery_statuses_def Let_def bindp_run thenp_run try_catch_def)
  with assms(1) show ?thesis
    by (auto simp: row_t_update fetch_update_eligible_bulk_assignments_def)
qed

text \<open>A sheet without assignments is never among those whose watch is renewed, however new it is.\<close>

lemma renewed_sheets_were_assigned:
  assumes "f \<in> set (fetch_webhook_eligible_assign_sheet_ids cfg s)"
  shows "\<exists>b \<in> set (pks (bulk_assignments s)). bulk_assignment_sheet_id (row (bulk_assignments s) b) = Some f \<and>
    bulk_last_assignment_date (row (bulk_assignments s) b) \<noteq> None"
  using assms by (auto simp: fetch_webhook_eligible_assign_sheet_ids_def Let_def the_list_def split: option.splits)

text \<open>
  A row whose address was taken out of the sheet stops the comparison with the database: its code has no message data, and the
  value \<open>False\<close> is taken for a date.
\<close>

lemma removed_address_has_no_date:
  assumes "car_status r = None" and "\<not> pca_redeemed (row (product_coupon_assignments s) k)"
  shows "\<exists>u. validate_assignment_row cfg s r (Some k) None = Some u \<and> aru_status_date u = None \<and>
    fst (update_sheet_with_new_statuses cfg f [u] z t) = Inl (AttributeError ''astimezone'')"
  using assms by (simp add: validate_assignment_row_def update_sheet_with_new_statuses_def bindp_run)

section \<open>The pages of message events\<close>

text \<open>The pages from a link on, as the service answers them, and the messages on them.\<close>

inductive pages_from :: "(string \<Rightarrow> exn + mailgun_page) \<Rightarrow> (string \<Rightarrow> string) \<Rightarrow> string \<Rightarrow> bulk_assignment_message list \<Rightarrow> bool"
  for fetch with_key where
  no_items: "fetch url = Inr p \<Longrightarrow> mp_items p = [] \<Longrightarrow> pages_from fetch with_key url []"
| last_page: "fetch url = Inr p \<Longrightarrow> rcollect message_of_item (mp_items p) = Inr ms \<Longrightarrow> mp_next p \<in> {None, Some []} \<Longrightarrow>
    pages_from fetch with_key url (concat (map the_list ms))"
| next_page: "fetch url = Inr p \<Longrightarrow> mp_items p \<noteq> [] \<Longrightarrow> rcollect message_of_item (mp_items p) = Inr ms \<Longrightarrow>
    mp_next p = Some u \<Longrightarrow> u \<noteq> [] \<Longrightarrow> pages_from fetch with_key (with_key u) rest \<Longrightarrow>
    pages_from fetch with_key url (concat (map the_list ms) @ rest)"

lemma get_bulk_assignment_messages_complete:
  "pages_from fetch with_key url ms \<Longrightarrow> get_bulk_assignment_messages fetch with_key url = Some (Inr ms)"
  by (induction rule: pages_from.induct) (subst get_bulk_assignment_messages.simps; auto)+

section \<open>An example\<close>

definition example_assign_config :: assign_config where
  "example_assign_config = sheets_config.extend example_sheets_config
     (assign_config.fields (\<lambda>_. Inr [[''Coupon Code'', ''Email''], [''HALF'', ''Bob@x.org'']]) (\<lambda>_ f. Inr f) (\<lambda>_. Inr 5)
        (\<lambda>_. Inr []) (\<lambda>_. True) (\<lambda>_ _. Inr ()) (\<lambda>_ _. Inr ()) (\<lambda>_. 5) (\<lambda>_. 5) (\<lambda>_. 5) 15)"

definition example_assign_shop :: shop_db where
  "example_assign_shop = example_shop
     \<lparr>bulk_assignments := table_of (blank_bulk_assignment [] None) [(blank_bulk_assignment ''file'' None)\<lparr>bulk_assignments_started_date := Some 1\<rparr>],
      product_coupon_assignments := table_of (new_assignment 0 ([], 0)) [new_assignment 1 (''ann@x.org'', 1)]\<rparr>"

lemma example_rows:
  "parsed_rows example_assign_config ''file'' =
     Inr [\<lparr>car_row_index = 2, car_code = ''HALF'', car_email = Some ''bob@x.org'', car_status = None, car_status_date = None,
           car_enrolled_email = None\<rparr>]"
  by code_simp

lemma example_desired:
  "get_desired_coupon_assignments example_assign_shop
     [\<lparr>car_row_index = 2, car_code = ''HALF'', car_email = Some ''bob@x.org'', car_status = None, car_status_date = None,
       car_enrolled_email = None\<rparr>] = Inr [(''bob@x.org'', 1)]"
  by code_simp

lemma example_assign_tables:
  "wf_table (bulk_assignments example_assign_shop)" "wf_table (product_coupon_assignments example_assign_shop)"
  "1 \<in> set (pks (bulk_assignments example_assign_shop))"
  by (simp_all add: example_assign_shop_def) (simp add: table_of_def)

lemma process_assignment_spreadsheet_spec_witness:
  "let s' = snd (process_assignment_spreadsheet example_assign_config ''file'' 1 example_assign_shop)
   in assignment_tuple s' ` set (assignments_of s' 1) = {(''bob@x.org'', 1)}"
proof -
  have "kept_assignments example_assign_shop 1 [(''bob@x.org'', 1)] = []"
    "added_assignments (asc_valid_email example_assign_config) example_assign_shop 1 [(''bob@x.org'', 1)] = [(''bob@x.org'', 1)]"
    by code_simp+
  with process_assignment_spreadsheet_spec [OF example_rows example_desired example_assign_tables prod.collapse [symmetric]]
  show ?thesis by (simp add: Let_def)
qed

lemma process_assignment_spreadsheet_idempotent_witness:
  "let s' = snd (process_assignment_spreadsheet example_assign_config ''file'' 1 example_assign_shop)
   in product_coupon_assignments (snd (process_assignment_spreadsheet example_assign_config ''file'' 1 s')) =
        product_coupon_assignments s'"
proof -
  have "bulk_assignments_started_date (row (bulk_assignments example_assign_shop) 1) \<noteq> None" by code_simp
  with process_assignment_spreadsheet_idempotent [OF example_rows example_desired example_assign_tables _
      prod.collapse [symmetric] prod.collapse [symmetric]]
  show ?thesis by (simp add: Let_def)
qed

lemma unsent_messages_count_as_delivered_witness:
  "bulk_message_delivery_completed_date (row (bulk_assignments (snd (update_coupon_delivery_statuses example_assign_config
      ''file'' 1 empty_status_map example_assign_shop))) 1) = Some 10"
proof -
  have "\<forall>k \<in> set (assignments_of example_assign_shop 1).
      pca_message_status (row (product_coupon_assignments example_assign_shop) k) = None"
    by code_simp
  moreover have "\<not> has_new_statuses empty_status_map 1" "\<not> has_unassigned_codes empty_status_map 1"
    by (simp_all add: has_new_statuses_def has_unassigned_codes_def empty_status_map_def)
  moreover have "sc_now (shc_shop example_assign_config) = 10" by code_simp
  ultimately show ?thesis
    using unsent_messages_count_as_delivered [OF example_assign_tables(3) _ _ _ prod.collapse [symmetric],
        of empty_status_map example_assign_config "''file''"] by simp
qed

end
