(* ===== verification/External_Sync.thy ===== *)
theory External_Sync
  imports Enrollments
begin

text \<open>
  Courses of external vendors (courses/sync\_external\_courses): the report of a vendor is fetched (a job may have to be waited
  for), its records are parsed and checked, and for every record the course, the run, the product with its price and the pages are
  created or brought up to date in a transaction; runs that are no longer reported are switched off. The task and the
  management command that do this for the platforms, the numbers they report by mail, and the parts of the pages (cms/api.py,
  cms/utils.py) the synchronisation writes. The answers of the vendor's API, \<open>strptime\<close> and the masking of links are parameters. The
  lookup of the course index page is left out: it is taken to be there.
\<close>

section \<open>Pages\<close>

text \<open>
  An external course page as Wagtail stores it: the published columns, the content of the latest revision, and whether the
  latest revision is unpublished. Saving a revision replaces the latest content; publishing copies it to the columns.
\<close>

record page_content =
  pc_external_marketing_url :: string
  pc_duration :: string
  pc_min_weeks :: int
  pc_max_weeks :: int
  pc_description :: string
  pc_background_image :: "nat option"
  pc_thumbnail_image :: "nat option"
  pc_language :: "nat option"

record external_page_row =
  xp_course :: nat
  xp_title :: string
  xp_subhead :: string
  xp_format :: "string option"
  xp_topics :: "nat list"
  xp_published :: page_content
  xp_latest :: page_content
  xp_has_unpublished_changes :: bool

datatype child_page_type = LearningOutcomesPage | WhoShouldEnrollPage | CourseOverviewPage | LearningTechniquesPage | ForTeamsPage

text \<open>A child page: its kind and its texts.\<close>

record child_page_row =
  chp_parent :: nat
  chp_type :: child_page_type
  chp_heading :: string
  chp_texts :: "string list"

record certificate_page_row =
  cpg_parent :: nat
  cpg_product_name :: string
  cpg_published_ceus :: "rat option"
  cpg_latest_ceus :: "rat option"
  cpg_has_unpublished_changes :: bool

text \<open>The sections that are shared between pages, of one platform or of all.\<close>

record common_page_row =
  cmp_type :: child_page_type
  cmp_platform :: "nat option"
  cmp_live :: bool
  cmp_title :: string
  cmp_texts :: "string list"

record image_row =
  img_title :: string
  img_created_at :: int

record external_db = shop_db +
  external_pages :: "external_page_row table"
  child_pages :: "child_page_row table"
  certificate_pages :: "certificate_page_row table"
  common_pages :: "common_page_row table"
  cms_images :: "image_row table"

interpretation external_pages_tb: db_table external_pages external_pages_update by unfold_locales simp_all
interpretation child_pages_tb: db_table child_pages child_pages_update by unfold_locales simp_all
interpretation certificate_pages_tb: db_table certificate_pages certificate_pages_update by unfold_locales simp_all

section \<open>Vendors\<close>

record keymap =
  km_platform_name :: string
  km_report_names :: "string list"

definition EMERITUS_PLATFORM_NAME :: string where "EMERITUS_PLATFORM_NAME = ''Emeritus''"
definition GLOBAL_ALUMNI_PLATFORM_NAME :: string where "GLOBAL_ALUMNI_PLATFORM_NAME = ''Global Alumni''"

definition required_fields :: "string list" where
  "required_fields = [''course_title'', ''course_code'', ''course_run_code'', ''list_currency'']"

definition who_should_enroll_page_heading :: string where "who_should_enroll_page_heading = ''WHO SHOULD ENROLL''"
definition learning_outcomes_page_heading :: string where "learning_outcomes_page_heading = ''WHAT YOU WILL LEARN''"

definition course_page_subhead :: "keymap \<Rightarrow> string" where
  "course_page_subhead km = ''Delivered in collaboration with '' @ km_platform_name km @ ''.''"

definition learning_outcomes_page_subhead :: "keymap \<Rightarrow> string" where
  "learning_outcomes_page_subhead km =
     ''MIT xPRO is collaborating with online education provider '' @ km_platform_name km @ '' to '' @
     ''deliver this online course. By clicking LEARN MORE, you will be taken to '' @
     ''a page where you can download the brochure and apply to the program via '' @ km_platform_name km @ ''.''"

definition emeritus_keymap :: keymap where
  "emeritus_keymap = \<lparr>km_platform_name = EMERITUS_PLATFORM_NAME, km_report_names = [''Batch'']\<rparr>"

definition global_alumni_keymap :: keymap where
  "global_alumni_keymap = \<lparr>km_platform_name = GLOBAL_ALUMNI_PLATFORM_NAME, km_report_names = [''GA - Batch'']\<rparr>"

definition EXTERNAL_COURSE_VENDOR_KEYMAPS :: "(string \<times> keymap) list" where
  "EXTERNAL_COURSE_VENDOR_KEYMAPS =
     [(py_lower EMERITUS_PLATFORM_NAME, emeritus_keymap), (py_lower GLOBAL_ALUMNI_PLATFORM_NAME, global_alumni_keymap)]"

section \<open>Course records of a vendor\<close>

text \<open>
  The entries of a record that the code reads; a missing entry is \<open>None\<close>, and so is one that is null, but for the language, which is taken to be missing or a text. Numbers are given by their exact value, a price
  by the value of the floating-point number it is converted to.
\<close>

record external_course_json =
  xj_program_name :: "string option"
  xj_course_code :: "string option"
  xj_course_run_code :: "string option"
  xj_list_price :: "rat option"
  xj_list_currency :: "string option"
  xj_start_date :: "string option"
  xj_end_date :: "string option"
  xj_enrollment_end_date :: "string option"
  xj_landing_page_url :: "string option"
  xj_total_weeks :: "int option"
  xj_language :: "string option"
  xj_description :: "string option"
  xj_format :: "string option"
  xj_category :: "string option"
  xj_image_name :: "string option"
  xj_ceu :: "rat option"
  xj_learning_outcomes :: "string option"
  xj_program_for :: "string option"

record external_course =
  xc_course_title :: "string option"
  xc_course_code :: string
  xc_course_readable_id :: string
  xc_course_run_code :: string
  xc_course_run_tag :: string
  xc_price :: "rat option"
  xc_list_currency :: "string option"
  xc_start_date :: "int option"
  xc_end_date :: "int option"
  xc_enrollment_end :: int
  xc_marketing_url :: string
  xc_duration :: string
  xc_min_weeks :: int
  xc_max_weeks :: int
  xc_language :: string
  xc_description :: string
  xc_format :: "string option"
  xc_category :: "string option"
  xc_image_name :: "string option"
  xc_ceus :: "rat option"
  xc_learning_outcomes_list :: "string list"
  xc_who_should_enroll_list :: "string list"

definition truthy :: "string option \<Rightarrow> bool" where
  "truthy v \<longleftrightarrow> v \<noteq> None \<and> v \<noteq> Some []"

definition replace_char :: "char \<Rightarrow> char \<Rightarrow> string \<Rightarrow> string" where
  "replace_char a b s = map (\<lambda>c. if c = a then b else c) s"

definition is_digit_char :: "char \<Rightarrow> bool" where
  "is_digit_char c \<longleftrightarrow> CHR ''0'' \<le> c \<and> c \<le> CHR ''9''"

text \<open>
  \<open>re.search\<close> for two digits, a dash, two digits, a hash and digits up to the end; the end may be before a last line break.
\<close>

definition is_run_tag :: "string \<Rightarrow> bool" where
  "is_run_tag t \<longleftrightarrow>
     6 < length t \<and> list_all is_digit_char [t ! 0, t ! 1, t ! 3, t ! 4] \<and> t ! 2 = CHR ''-'' \<and> t ! 5 = CHR 0x23 \<and>
     list_all is_digit_char (drop 6 t)"

fun search_run_tag :: "string \<Rightarrow> string option" where
  "search_run_tag [] = None"
| "search_run_tag (c # cs) =
     (if is_run_tag (c # cs) then Some (c # cs)
      else if last (c # cs) = CHR 0x0A \<and> is_run_tag (butlast (c # cs)) then Some (butlast (c # cs))
      else search_run_tag cs)"

definition generate_external_course_run_tag :: "string option \<Rightarrow> exn + string" where
  "generate_external_course_run_tag course_run_code =
     (case course_run_code of
        None \<Rightarrow> Inl (TypeErr ''expected string'')
      | Some code \<Rightarrow>
          (case search_run_tag code of
             None \<Rightarrow> Inl (AttributeError ''group'') | Some run_tag \<Rightarrow> Inr (replace_char CHR 0x23 CHR ''-'' run_tag)))"

definition generate_external_course_run_courseware_id :: "string \<Rightarrow> string \<Rightarrow> string" where
  "generate_external_course_run_courseware_id tag readable_id = readable_id @ ''+'' @ tag"

text \<open>Splitting at \<open>\r\n\<close>; the bullet is written here as the byte \<open>0xB7\<close>.\<close>

fun split_crlf :: "string \<Rightarrow> string list" where
  "split_crlf [] = [[]]"
| "split_crlf [c] = [[c]]"
| "split_crlf (c # d # cs) =
     (if c = CHR 0x0D \<and> d = CHR 0x0A then [] # split_crlf cs
      else (case split_crlf (d # cs) of [] \<Rightarrow> [[c]] | s # ss \<Rightarrow> (c # s) # ss))"

definition parse_external_course_data_str :: "string \<Rightarrow> string list" where
  "parse_external_course_data_str items_str =
     drop 1 (map (\<lambda>item. py_strip (filter (\<lambda>c. c \<noteq> CHR 0xB7) item)) (split_crlf (py_strip items_str)))"

text \<open>\<open>strip_datetime\<close> with a format: \<open>strptime\<close> is a parameter that gives the instant of the date.\<close>

definition strip_datetime :: "(string \<Rightarrow> exn + int) \<Rightarrow> string option \<Rightarrow> exn + int option" where
  "strip_datetime strptime date_str =
     (if \<not> truthy date_str then Inr None else rbind (strptime (the date_str)) (\<lambda>d. Inr (Some d)))"

definition end_of_day :: "int \<Rightarrow> int" where
  "end_of_day t = t - t mod 86400 + 23 * 3600 + 59 * 60 + t mod 60"

definition course_code_tag :: "string option \<Rightarrow> exn + string" where
  "course_code_tag course_code =
     (case course_code of
        None \<Rightarrow> Inl (AttributeError ''split'')
      | Some code \<Rightarrow>
          (case py_split (CHR ''-'') code of
             _ # tag # _ \<Rightarrow> Inr (replace_char CHR ''.'' CHR ''_'' tag) | _ \<Rightarrow> Inl IndexError))"

definition parse_external_course :: "(string \<Rightarrow> exn + int) \<Rightarrow> external_course_json \<Rightarrow> exn + external_course" where
  "parse_external_course strptime j =
     rbind (rbind (course_code_tag (xj_course_code j)) generate_course_readable_id) (\<lambda>readable_id.
     rbind (generate_external_course_run_tag (xj_course_run_code j)) (\<lambda>course_run_tag.
     rbind (strip_datetime strptime (xj_start_date j)) (\<lambda>start_date.
     rbind (strip_datetime strptime (xj_end_date j)) (\<lambda>end_datetime.
     rbind (rbind (strip_datetime strptime (xj_enrollment_end_date j)) (\<lambda>d. case d of
         Some t \<Rightarrow> Inr t
       | None \<Rightarrow> (case start_date of None \<Rightarrow> Inl (TypeErr ''unsupported operand'') | Some t \<Rightarrow> Inr (t + 7 * 86400)))) (\<lambda>enrollment_end.
     rbind (case xj_total_weeks j of None \<Rightarrow> Inl (TypeErr ''int()'') | Some n \<Rightarrow> Inr n) (\<lambda>total_weeks.
     Inr \<lparr>xc_course_title = (if truthy (xj_program_name j) then Some (py_strip (the (xj_program_name j))) else None),
          xc_course_code = the (xj_course_code j), xc_course_readable_id = readable_id,
          xc_course_run_code = the (xj_course_run_code j), xc_course_run_tag = course_run_tag,
          xc_price = (if xj_list_price j = Some 0 then None else xj_list_price j), xc_list_currency = xj_list_currency j,
          xc_start_date = start_date, xc_end_date = map_option end_of_day end_datetime, xc_enrollment_end = enrollment_end,
          xc_marketing_url = clean_url (concat (the_list (xj_landing_page_url j))) False,
          xc_duration = (if total_weeks = 0 then [] else int_str total_weeks @ '' Weeks''),
          xc_min_weeks = total_weeks, xc_max_weeks = total_weeks,
          xc_language = py_strip (case xj_language j of None \<Rightarrow> ''English'' | Some l \<Rightarrow> l),
          xc_description = concat (the_list (xj_description j)), xc_format = xj_format j, xc_category = xj_category j,
          xc_image_name = xj_image_name j, xc_ceus = (if xj_ceu j = Some 0 then None else xj_ceu j),
          xc_learning_outcomes_list =
            (if truthy (xj_learning_outcomes j) then parse_external_course_data_str (the (xj_learning_outcomes j)) else []),
          xc_who_should_enroll_list =
            (if truthy (xj_program_for j) then parse_external_course_data_str (the (xj_program_for j)) else [])\<rparr>))))))"

text \<open>\<open>validate_required_fields\<close> and \<open>validate_list_currency\<close>: the message of the first failure.\<close>

definition validate_required_fields :: "external_course \<Rightarrow> string option" where
  "validate_required_fields c =
     map_option (\<lambda>(f, _). ''Missing required field '' @ f)
       (first_of (filter (\<lambda>(_, present). \<not> present)
         (zip required_fields
           [truthy (xc_course_title c), xc_course_code c \<noteq> [], xc_course_run_code c \<noteq> [], truthy (xc_list_currency c)])))"

definition validate_list_currency :: "external_course \<Rightarrow> string option" where
  "validate_list_currency c =
     (if xc_list_currency c \<noteq> Some ''USD''
      then Some (''Invalid currency: '' @ (case xc_list_currency c of None \<Rightarrow> ''None'' | Some l \<Rightarrow> l) @ ''.'') else None)"


section \<open>Runs and products\<close>

text \<open>\<open>deactivate_missing_course_runs\<close>: the codes of the runs that were switched off.\<close>

definition missing_runs :: "'z shop_db_scheme \<Rightarrow> int \<Rightarrow> string list \<Rightarrow> nat \<Rightarrow> nat list" where
  "missing_runs s now codes platform =
     filter (\<lambda>k. is_unexpired now (row (course_runs s) k))
       (matching (course_runs s) (\<lambda>_ r. course_platform (row (courses s) (run_course r)) = platform \<and> run_live r \<and>
          run_external_course_run_id r \<notin> set codes))"

definition deactivate_missing_course_runs ::
  "int \<Rightarrow> string list \<Rightarrow> nat \<Rightarrow> ('z shop_db_scheme, string list) prog" where
  "deactivate_missing_course_runs now codes platform =
     bindp (asks (\<lambda>s. missing_runs s now codes platform)) (\<lambda>runs.
     bindp (asks (\<lambda>s. concat (map (\<lambda>k. the_list (first_of
         (active_products s (\<lambda>p. prod_content p = CourseRunContent k)))) runs))) (\<lambda>related_products.
     bindp (asks (\<lambda>s. unique (map (\<lambda>k. run_external_course_run_id (row (course_runs s) k)) runs))) (\<lambda>deactivated.
     thenp (db_update course_runs course_runs_update (\<lambda>k _. k \<in> set runs) (\<lambda>r. r\<lparr>run_live := False\<rparr>))
    (thenp (db_update products products_update (\<lambda>k _. k \<in> set related_products) (\<lambda>p. p\<lparr>prod_is_active := False\<rparr>))
       (ret deactivated)))))"

definition same_day :: "int \<Rightarrow> int \<Rightarrow> bool" where
  "same_day a b \<longleftrightarrow> a div 86400 = b div 86400"

definition date_changed :: "int option \<Rightarrow> int option \<Rightarrow> bool" where
  "date_changed old new =
     (case (old, new) of (None, Some _) \<Rightarrow> True | (Some a, Some b) \<Rightarrow> \<not> same_day a b | _ \<Rightarrow> False)"

text \<open>A run is created without a full validation, but with the check of its dates and the unique columns of the table.\<close>

definition course_run_create :: "int \<Rightarrow> course_run_row \<Rightarrow> ('z xpro_db_scheme, nat) prog" where
  "course_run_create now r =
     thenp (lift_result (course_run_clean now r))
       (bindp (asks (\<lambda>s. course_run_unique s (next_pk (course_runs s)) r)) (\<lambda>v.
        case v of
          Inl _ \<Rightarrow> raise (IntegrityError ''courses_courserun'')
        | Inr _ \<Rightarrow> db_create course_runs course_runs_update r))"

definition external_run_row :: "nat \<Rightarrow> string \<Rightarrow> external_course \<Rightarrow> course_run_row" where
  "external_run_row course courseware_id x =
     \<lparr>run_course = course, run_title = concat (the_list (xc_course_title x)), run_courseware_id = courseware_id,
      run_run_tag = xc_course_run_tag x, run_courseware_url_path = None,
      run_external_course_run_id = xc_course_run_code x, run_start_date = xc_start_date x, run_end_date = xc_end_date x,
      run_enrollment_start = None, run_enrollment_end = Some (xc_enrollment_end x), run_expiration_date = None,
      run_live = True\<rparr>"

definition external_run_changed :: "course_run_row \<Rightarrow> external_course \<Rightarrow> bool" where
  "external_run_changed r x \<longleftrightarrow>
     date_changed (run_start_date r) (xc_start_date x) \<or> date_changed (run_end_date r) (xc_end_date x) \<or>
     date_changed (run_enrollment_end r) (Some (xc_enrollment_end x)) \<or> \<not> run_live r"

definition create_or_update_external_course_run ::
  "int \<Rightarrow> nat \<Rightarrow> external_course \<Rightarrow> ('z xpro_db_scheme, nat \<times> bool \<times> bool) prog" where
  "create_or_update_external_course_run now course x =
     bindp (asks (\<lambda>s. t_first (course_runs s) (\<lambda>_ r. run_external_course_run_id r = xc_course_run_code x \<and> run_course r = course)))
       (\<lambda>found.
     case found of
       None \<Rightarrow>
         bindp (asks (\<lambda>s. generate_external_course_run_courseware_id (xc_course_run_tag x) (course_readable_id (row (courses s) course))))
           (\<lambda>courseware_id.
         bindp (course_run_create now (external_run_row course courseware_id x)) (\<lambda>k. ret (k, True, False)))
     | Some k \<Rightarrow>
         bindp (asks (\<lambda>s. external_run_changed (row (course_runs s) k) x)) (\<lambda>changed.
         if changed
         then thenp (course_run_save now k (\<lambda>r. r\<lparr>run_start_date := xc_start_date x, run_end_date := xc_end_date x,
                  run_enrollment_end := Some (xc_enrollment_end x), run_live := True\<rparr>)) (ret (k, False, True))
         else ret (k, False, False)))"

text \<open>
  \<open>Product.all_objects.update_or_create\<close> followed by a new version. The price is compared as it is with the stored one, a
  decimal number of two places; the database rounds it to cents when it stores it, a tie away from zero.
\<close>

definition update_or_create_product :: "nat \<Rightarrow> ('z shop_db_scheme, nat \<times> bool) prog" where
  "update_or_create_product course_run =
     bindp (asks (\<lambda>s. t_first (products s) (\<lambda>_ p. prod_content p = CourseRunContent course_run))) (\<lambda>found.
     case found of
       Some k \<Rightarrow>
         bindp (asks (\<lambda>s. product_clean s (row (products s) k))) (\<lambda>v.
         thenp (lift_result v)
        (thenp (db_save products products_update k (\<lambda>p. p\<lparr>prod_is_active := True\<rparr>)) (ret (k, False))))
     | None \<Rightarrow>
         bindp (product_save \<lparr>prod_content = CourseRunContent course_run, prod_is_active = True, prod_is_private = False\<rparr>)
           (\<lambda>k. ret (k, True)))"

definition create_or_update_product_and_product_version ::
  "int \<Rightarrow> rat \<Rightarrow> nat \<Rightarrow> ('z shop_db_scheme, bool \<times> bool) prog" where
  "create_or_update_product_and_product_version now price course_run =
     bindp (asks (\<lambda>s. run_current_price s course_run)) (\<lambda>current_price.
     if current_price = None \<or> current_price = Some 0 \<or> current_price \<noteq> Some price
     then
       bindp (update_or_create_product course_run) (\<lambda>(product, product_created).
       bindp (asks (\<lambda>s. run_courseware_id (row (course_runs s) course_run))) (\<lambda>courseware_id.
       bindp (product_version_save now
                \<lparr>pv_product = product, pv_price = round_cents_half_up price, pv_description = courseware_id, pv_text_id = None,
                 pv_requires_enrollment_code = False, pv_created_on = now\<rparr>) (\<lambda>_.
       ret (product_created, True))))
     else ret (False, False))"


section \<open>Course pages\<close>

definition contains_text :: "string \<Rightarrow> string \<Rightarrow> bool" where
  "contains_text s t \<longleftrightarrow> list_ex (\<lambda>i. take (length t) (drop i s) = t) [0..<Suc (length s)]"

text \<open>
  \<open>CourseLanguage.objects.get_or_create(name__icontains=\<dots>)\<close>: a lookup with a comparison is left out of the row that
  is created, so the new language has the blank name; names are unique whatever their case.
\<close>

definition get_or_create_language :: "string \<Rightarrow> ('z xpro_db_scheme, nat \<times> bool) prog" where
  "get_or_create_language language =
     bindp (asks (\<lambda>s. matching (course_languages s) (\<lambda>_ l. contains_text (py_lower (lang_name l)) (py_lower language)))) (\<lambda>found.
     case found of
       [k] \<Rightarrow> ret (k, False)
     | _ # _ \<Rightarrow> raise (MultipleObjectsReturned ''CourseLanguage'')
     | [] \<Rightarrow>
         bindp (asks (\<lambda>s. t_exists (course_languages s) (\<lambda>_ l. lang_name l = []))) (\<lambda>blank_exists.
         if blank_exists then raise (IntegrityError ''unique_language_name'')
         else bindp (db_create course_languages course_languages_update
                       \<lparr>lang_name = [], lang_priority = Some 100, lang_is_active = True\<rparr>) (\<lambda>k. ret (k, True))))"

text \<open>\<open>Path(name).stem\<close>\<close>

definition path_stem :: "string \<Rightarrow> string" where
  "path_stem name =
     (let base = last (py_split (CHR ''/'') name); parts = py_split (CHR ''.'') base
      in if length parts \<le> 1 \<or> py_join ''.'' (butlast parts) = [] \<or> last parts = [] then base
         else py_join ''.'' (butlast parts))"

definition newest_image :: "'z external_db_scheme \<Rightarrow> string \<Rightarrow> nat option" where
  "newest_image s title =
     first_of (order_by_desc (\<lambda>k. img_created_at (row (cms_images s) k)) (matching (cms_images s) (\<lambda>_ i. img_title i = title)))"

definition find_image :: "'z external_db_scheme \<Rightarrow> string option \<Rightarrow> nat option" where
  "find_image s image_name =
     (if \<not> truthy image_name then None
      else case newest_image s (the image_name) of
             Some k \<Rightarrow> Some k | None \<Rightarrow> newest_image s (path_stem (the image_name)))"

definition content_of_course :: "external_course \<Rightarrow> nat option \<Rightarrow> nat \<Rightarrow> page_content" where
  "content_of_course x img language =
     \<lparr>pc_external_marketing_url = xc_marketing_url x, pc_duration = xc_duration x, pc_min_weeks = xc_min_weeks x,
      pc_max_weeks = xc_max_weeks x, pc_description = xc_description x, pc_background_image = img,
      pc_thumbnail_image = img, pc_language = Some language\<rparr>"

text \<open>What an update makes of the latest revision: the link and the language as sent, the other fields where they were empty.\<close>

definition updated_content :: "external_course \<Rightarrow> nat option \<Rightarrow> nat \<Rightarrow> page_content \<Rightarrow> page_content" where
  "updated_content x img language c =
     \<lparr>pc_external_marketing_url = xc_marketing_url x,
      pc_duration = (if pc_duration c = [] then xc_duration x else pc_duration c),
      pc_min_weeks = (if pc_min_weeks c = 0 then xc_min_weeks x else pc_min_weeks c),
      pc_max_weeks = (if pc_max_weeks c = 0 then xc_max_weeks x else pc_max_weeks c),
      pc_description = (if pc_description c = [] then xc_description x else pc_description c),
      pc_background_image = (if pc_background_image c = None then img else pc_background_image c),
      pc_thumbnail_image = (if pc_thumbnail_image c = None then img else pc_thumbnail_image c),
      pc_language = Some language\<rparr>"

text \<open>\<open>save_page_revision\<close>: the revision is published unless the page had unpublished changes.\<close>

definition save_page_revision :: "nat \<Rightarrow> page_content \<Rightarrow> ('z external_db_scheme, bool) prog" where
  "save_page_revision page c =
     bindp (asks (\<lambda>s. xp_has_unpublished_changes (row (external_pages s) page))) (\<lambda>is_draft.
     thenp (db_save external_pages external_pages_update page (\<lambda>p. p\<lparr>xp_latest := c, xp_has_unpublished_changes := True\<rparr>))
    (thenp (whenp (\<not> is_draft) (db_save external_pages external_pages_update page
              (\<lambda>p. p\<lparr>xp_published := c, xp_has_unpublished_changes := False\<rparr>)))
       (ret (\<not> is_draft))))"

text \<open>
  \<open>create_or_update_external_course_page\<close>. The answer includes the page object the caller goes on with, as it is in memory: of
  a page that was there, it is the row as it was read, before the revision was saved and published; of a new
  page, it carries the mark of the saved revision, which publishing removes from the stored row only.
\<close>

record page_result =
  pr_page :: nat
  pr_object :: external_page_row
  pr_created :: bool
  pr_updated :: bool
  pr_published :: bool

definition create_or_update_external_course_page ::
  "keymap \<Rightarrow> nat \<Rightarrow> external_course \<Rightarrow> ('z external_db_scheme, page_result) prog" where
  "create_or_update_external_course_page km course x =
     bindp (asks (\<lambda>s. t_first (external_pages s) (\<lambda>_ p. xp_course p = course))) (\<lambda>found.
     bindp (get_or_create_language (xc_language x)) (\<lambda>(language, _).
     bindp (asks (\<lambda>s. find_image s (xc_image_name x))) (\<lambda>img.
     case found of
       None \<Rightarrow>
         let c = content_of_course x img language;
             p = \<lparr>xp_course = course, xp_title = concat (the_list (xc_course_title x)), xp_subhead = course_page_subhead km,
                  xp_format = xc_format x, xp_topics = [], xp_published = c, xp_latest = c, xp_has_unpublished_changes = False\<rparr>
         in bindp (db_create external_pages external_pages_update p) (\<lambda>k.
            ret \<lparr>pr_page = k, pr_object = p\<lparr>xp_has_unpublished_changes := True\<rparr>, pr_created = True, pr_updated = False,
                 pr_published = True\<rparr>)
     | Some k \<Rightarrow>
         bindp (asks (\<lambda>s. row (external_pages s) k)) (\<lambda>p.
         let c = updated_content x img language (xp_latest p)
         in if c = xp_latest p
            then ret \<lparr>pr_page = k, pr_object = p, pr_created = False, pr_updated = False, pr_published = True\<rparr>
            else bindp (save_page_revision k c) (\<lambda>is_published.
                 ret \<lparr>pr_page = k, pr_object = p, pr_created = False, pr_updated = True, pr_published = is_published\<rparr>)))))"

text \<open>The topic of the category: it is added to the page object, and the object is saved, all its columns included.\<close>

definition add_topic :: "external_course \<Rightarrow> page_result \<Rightarrow> ('z external_db_scheme, unit) prog" where
  "add_topic x r =
     (if \<not> truthy (xc_category x) then ret ()
      else
        bindp (asks (\<lambda>s. t_first (topics s) (\<lambda>_ t. case_insensitive_equal (topic_name t) (the (xc_category x))))) (\<lambda>topic.
        case topic of
          None \<Rightarrow> ret ()
        | Some t \<Rightarrow>
            db_save external_pages external_pages_update (pr_page r)
              (\<lambda>_. (pr_object r)\<lparr>xp_topics :=
                 (if t \<in> set (xp_topics (pr_object r)) then xp_topics (pr_object r) else xp_topics (pr_object r) @ [t])\<rparr>)))"

definition update_page_and_topic :: "keymap \<Rightarrow> nat \<Rightarrow> external_course \<Rightarrow> ('z external_db_scheme, page_result) prog" where
  "update_page_and_topic km course x =
     bindp (create_or_update_external_course_page km course x) (\<lambda>r. thenp (add_topic x r) (ret r))"

definition has_child_page :: "'z external_db_scheme \<Rightarrow> nat \<Rightarrow> child_page_type \<Rightarrow> bool" where
  "has_child_page s page t \<longleftrightarrow> t_exists (child_pages s) (\<lambda>_ c. chp_parent c = page \<and> chp_type c = t)"

text \<open>A child page is only added where there is none of its kind.\<close>

definition add_child_page ::
  "nat \<Rightarrow> child_page_type \<Rightarrow> bool \<Rightarrow> string \<Rightarrow> string list \<Rightarrow> ('z external_db_scheme, unit) prog" where
  "add_child_page page t wanted heading texts =
     bindp (asks (\<lambda>s. has_child_page s page t)) (\<lambda>exists.
     whenp (\<not> exists \<and> wanted)
       (bindp (db_create child_pages child_pages_update
          \<lparr>chp_parent = page, chp_type = t, chp_heading = heading, chp_texts = texts\<rparr>) (\<lambda>_. ret ())))"

definition create_learning_outcomes_page :: "keymap \<Rightarrow> nat \<Rightarrow> external_course \<Rightarrow> ('z external_db_scheme, unit) prog" where
  "create_learning_outcomes_page km page x =
     add_child_page page LearningOutcomesPage (xc_learning_outcomes_list x \<noteq> []) learning_outcomes_page_heading
       (learning_outcomes_page_subhead km # xc_learning_outcomes_list x)"

definition create_who_should_enroll_in_page :: "nat \<Rightarrow> external_course \<Rightarrow> ('z external_db_scheme, unit) prog" where
  "create_who_should_enroll_in_page page x =
     add_child_page page WhoShouldEnrollPage (xc_who_should_enroll_list x \<noteq> []) who_should_enroll_page_heading
       (xc_who_should_enroll_list x)"

definition create_course_overview_page :: "nat \<Rightarrow> external_course \<Rightarrow> ('z external_db_scheme, unit) prog" where
  "create_course_overview_page page x =
     add_child_page page CourseOverviewPage (xc_description x \<noteq> []) [] [xc_description x]"

text \<open>The common section of the platform comes before the one of all platforms.\<close>

definition common_page_for :: "'z external_db_scheme \<Rightarrow> child_page_type \<Rightarrow> string \<Rightarrow> nat option" where
  "common_page_for s t platform =
     first_of
       (matching (common_pages s) (\<lambda>_ p. cmp_type p = t \<and> cmp_live p \<and>
          (case cmp_platform p of None \<Rightarrow> False | Some k \<Rightarrow> case_insensitive_equal (plat_name (row (platforms s) k)) platform)) @
        matching (common_pages s) (\<lambda>_ p. cmp_type p = t \<and> cmp_live p \<and> cmp_platform p = None))"

definition create_and_add_section :: "child_page_type \<Rightarrow> nat \<Rightarrow> string \<Rightarrow> ('z external_db_scheme, unit) prog" where
  "create_and_add_section t page platform =
     bindp (asks (\<lambda>s. common_page_for s t platform)) (\<lambda>common_page.
     case common_page of
       None \<Rightarrow> ret ()
     | Some c \<Rightarrow>
         bindp (asks (\<lambda>s. row (common_pages s) c)) (\<lambda>p. add_child_page page t True (cmp_title p) (cmp_texts p)))"

definition create_common_child_pages :: "nat \<Rightarrow> nat \<Rightarrow> ('z external_db_scheme, unit) prog" where
  "create_common_child_pages page course =
     bindp (asks (\<lambda>s. plat_name (row (platforms s) (course_platform (row (courses s) course))))) (\<lambda>platform.
     thenp (create_and_add_section LearningTechniquesPage page platform) (create_and_add_section ForTeamsPage page platform))"

definition create_or_update_certificate_page :: "nat \<Rightarrow> external_course \<Rightarrow> ('z external_db_scheme, bool \<times> bool) prog" where
  "create_or_update_certificate_page page x =
     bindp (asks (\<lambda>s. t_first (certificate_pages s) (\<lambda>_ c. cpg_parent c = page))) (\<lambda>found.
     case found of
       None \<Rightarrow>
         bindp (db_create certificate_pages certificate_pages_update
            \<lparr>cpg_parent = page, cpg_product_name = ''Certificate for '' @ concat (the_list (xc_course_title x)),
             cpg_published_ceus = xc_ceus x, cpg_latest_ceus = xc_ceus x, cpg_has_unpublished_changes = False\<rparr>)
           (\<lambda>_. ret (True, False))
     | Some k \<Rightarrow>
         bindp (asks (\<lambda>s. row (certificate_pages s) k)) (\<lambda>c.
         if cpg_latest_ceus c = xc_ceus x then ret (False, False)
         else
           thenp (db_save certificate_pages certificate_pages_update k (\<lambda>c.
             if cpg_has_unpublished_changes c then c\<lparr>cpg_latest_ceus := xc_ceus x\<rparr>
             else c\<lparr>cpg_latest_ceus := xc_ceus x, cpg_published_ceus := xc_ceus x\<rparr>))
             (ret (False, True))))"


section \<open>The synchronisation\<close>

text \<open>
  The numbers that are reported: for every name the codes (with title and message) that were added; a code is in a
  collection once.
\<close>

record courseware_info =
  ci_code :: string
  ci_title :: "string option"
  ci_msg :: "string option"

type_synonym sync_stats = "(string \<times> courseware_info list) list"

definition stat_keys :: "string list" where
  "stat_keys = [''courses_created'', ''existing_courses'', ''course_runs_created'', ''course_runs_updated'',
     ''course_runs_without_prices'', ''course_runs_skipped'', ''course_runs_with_invalid_dates'', ''course_runs_deactivated'',
     ''course_pages_created'', ''course_pages_updated'', ''course_pages_kept_as_draft'', ''products_created'',
     ''product_versions_created'', ''certificates_created'', ''certificates_updated'']"

definition add_info :: "courseware_info list \<Rightarrow> courseware_info \<Rightarrow> courseware_info list" where
  "add_info items i = (if ci_code i \<in> ci_code ` set items then items else items @ [i])"

definition add_stat :: "sync_stats \<Rightarrow> string \<times> courseware_info \<Rightarrow> sync_stats" where
  "add_stat stats e = map (\<lambda>(key, items). (key, if key = fst e then add_info items (snd e) else items)) stats"

definition empty_stats :: sync_stats where "empty_stats = map (\<lambda>key. (key, [])) stat_keys"

definition remove_duplicates :: "string \<Rightarrow> string \<Rightarrow> sync_stats \<Rightarrow> sync_stats" where
  "remove_duplicates target_key reference_key stats =
     (let reference = ci_code ` set (concat (the_list (map_of stats reference_key)))
      in map (\<lambda>(key, items). (key, if key = target_key then filter (\<lambda>i. ci_code i \<notin> reference) items else items)) stats)"

definition get_email_stats :: "(string \<Rightarrow> string) \<Rightarrow> sync_stats \<Rightarrow> sync_stats" where
  "get_email_stats without_links stats = map (\<lambda>(key, items). (key, map (\<lambda>i. i\<lparr>ci_code := without_links (ci_code i)\<rparr>) items)) stats"

definition info :: "string \<Rightarrow> string \<Rightarrow> string option \<Rightarrow> string option \<Rightarrow> string \<times> courseware_info" where
  "info key code title msg = (key, \<lparr>ci_code = code, ci_title = title, ci_msg = msg\<rparr>)"

definition get_or_create_platform :: "string \<Rightarrow> ('z xpro_db_scheme, nat) prog" where
  "get_or_create_platform platform_name =
     bindp (db_get_or_create ''Platform'' platforms platforms_update (\<lambda>_ p. case_insensitive_equal (plat_name p) platform_name)
              \<lparr>plat_name = platform_name, plat_enable_sync = False\<rparr>) (\<lambda>(k, _). ret k)"

definition get_or_create_external_course :: "nat \<Rightarrow> external_course \<Rightarrow> ('z xpro_db_scheme, nat \<times> bool) prog" where
  "get_or_create_external_course platform x =
     bindp (asks (\<lambda>s. matching (courses s) (\<lambda>_ c.
         course_external_course_id c = xc_course_code x \<and> course_platform c = platform \<and> course_is_external c))) (\<lambda>found.
     case found of
       [k] \<Rightarrow> ret (k, False)
     | _ # _ \<Rightarrow> raise (MultipleObjectsReturned ''Course'')
     | [] \<Rightarrow>
         bindp (asks (\<lambda>s. t_exists (courses s) (\<lambda>_ c. course_readable_id c = xc_course_readable_id x))) (\<lambda>id_taken.
         if id_taken then raise (IntegrityError ''courses_course_readable_id_key'')
         else bindp (db_create courses courses_update
                \<lparr>course_program = None, course_position_in_program = None, course_title = concat (the_list (xc_course_title x)),
                 course_readable_id = xc_course_readable_id x, course_live = True, course_is_external = True,
                 course_external_course_id = xc_course_code x, course_platform = platform\<rparr>) (\<lambda>k. ret (k, True))))"

text \<open>The steps for one valid record, in a transaction; the numbers to report are collected in their order.\<close>

definition sync_price :: "int \<Rightarrow> external_course \<Rightarrow> nat \<Rightarrow> ('z shop_db_scheme, (string \<times> courseware_info) list) prog" where
  "sync_price now x course_run =
     bindp (asks (\<lambda>s. row (course_runs s) course_run)) (\<lambda>r.
     let run_id = run_external_course_run_id r; title = Some (run_title r)
     in case xc_price x of
          None \<Rightarrow> ret [info ''course_runs_without_prices'' (xc_course_run_code x) (xc_course_title x) None]
        | Some price \<Rightarrow>
            bindp (create_or_update_product_and_product_version now price course_run)
              (\<lambda>(product_created, product_version_created).
            ret ((if product_created then [info ''products_created'' run_id title None] else []) @
                 (if product_version_created then [info ''product_versions_created'' run_id title None] else []))))"

definition sync_pages ::
  "keymap \<Rightarrow> nat \<Rightarrow> external_course \<Rightarrow> ('z external_db_scheme, (string \<times> courseware_info) list) prog" where
  "sync_pages km course x =
     bindp (update_page_and_topic km course x) (\<lambda>r.
     let page = pr_page r
     in thenp (create_learning_outcomes_page km page x)
       (thenp (create_who_should_enroll_in_page page x)
       (bindp (if xc_ceus x \<noteq> None then create_or_update_certificate_page page x else ret (False, False))
          (\<lambda>(certificate_created, certificate_updated).
        thenp (create_course_overview_page page x)
       (thenp (create_common_child_pages page course)
       (bindp (asks (\<lambda>s. course_readable_id (row (courses s) course))) (\<lambda>readable_id.
        ret ((if pr_created r then [info ''course_pages_created'' (xc_course_code x) (xc_course_title x) None]
              else if pr_updated r \<and> pr_published r then [info ''course_pages_updated'' (xc_course_code x) (xc_course_title x) None]
              else if pr_updated r then [info ''course_pages_kept_as_draft'' (xc_course_code x) (xc_course_title x) None] else []) @
             (if certificate_created then [info ''certificates_created'' readable_id None None]
              else if certificate_updated then [info ''certificates_updated'' readable_id None None] else [])))))))))"

definition sync_course_run ::
  "int \<Rightarrow> keymap \<Rightarrow> nat \<Rightarrow> external_course \<Rightarrow> ('z external_db_scheme, (string \<times> courseware_info) list) prog" where
  "sync_course_run now km platform x =
     atomic
       (bindp (get_or_create_external_course platform x) (\<lambda>(course, course_created).
        bindp (create_or_update_external_course_run now course x) (\<lambda>(course_run, run_created, run_updated).
        bindp (asks (\<lambda>s. row (course_runs s) course_run)) (\<lambda>r.
        bindp (sync_price now x course_run) (\<lambda>price_stats.
        bindp (sync_pages km course x) (\<lambda>page_stats.
        ret ([info (if course_created then ''courses_created'' else ''existing_courses'') (xc_course_code x) (xc_course_title x) None] @
             (if run_created then [info ''course_runs_created'' (run_external_course_run_id r) (Some (run_title r)) None]
              else if run_updated then [info ''course_runs_updated'' (run_external_course_run_id r) (Some (run_title r)) None]
              else []) @ price_stats @ page_stats)))))))"

definition sync_record ::
  "int \<Rightarrow> (string \<Rightarrow> exn + int) \<Rightarrow> keymap \<Rightarrow> nat \<Rightarrow> external_course_json \<Rightarrow>
     ('z external_db_scheme, (string \<times> courseware_info) list) prog" where
  "sync_record now strptime km platform j =
     bindp (lift_result (parse_external_course strptime j)) (\<lambda>x.
     case (validate_required_fields x, validate_list_currency x) of
       (Some msg, _) \<Rightarrow> ret [info ''course_runs_skipped'' (xc_course_run_code x) (xc_course_title x) (Some msg)]
     | (None, Some msg) \<Rightarrow> ret [info ''course_runs_skipped'' (xc_course_run_code x) (xc_course_title x) (Some msg)]
     | (None, None) \<Rightarrow>
         if \<not> fst (validate_courserun_dates now (xc_start_date x) (xc_end_date x) (Some (xc_enrollment_end x)) None None)
         then ret [info ''course_runs_with_invalid_dates'' (xc_course_run_code x) (xc_course_title x) None]
         else sync_course_run now km platform x)"

definition update_external_course_runs ::
  "int \<Rightarrow> (string \<Rightarrow> exn + int) \<Rightarrow> keymap \<Rightarrow> external_course_json list option \<Rightarrow> ('z external_db_scheme, sync_stats) prog" where
  "update_external_course_runs now strptime km external_courses =
     bindp (get_or_create_platform (km_platform_name km)) (\<lambda>platform.
     case external_courses of
       None \<Rightarrow> raise (TypeErr ''NoneType'')
     | Some js \<Rightarrow>
         bindp (deactivate_missing_course_runs now (concat (map (\<lambda>j. the_list (xj_course_run_code j)) js)) platform)
           (\<lambda>deactivated.
         bindp (collect_each js (sync_record now strptime km platform)) (\<lambda>events.
         ret (remove_duplicates ''course_pages_kept_as_draft'' ''course_pages_created''
               (remove_duplicates ''course_pages_updated'' ''course_pages_created''
                 (remove_duplicates ''existing_courses'' ''courses_created''
                   (foldl add_stat empty_stats
                     (map (\<lambda>code. info ''course_runs_deactivated'' code None None) deactivated @ concat events))))))))"


section \<open>Fetching the reports of a vendor\<close>

text \<open>
  The client of the vendor's API: its answers are parameters, an HTTP error among them. An answer to a query holds a job, or
  the rows of the result, or neither; the state of a job is asked for again and again, so it is given for every poll.
\<close>

definition job_ready :: nat where "job_ready = 3"
definition job_failed :: nat where "job_failed = 4"
definition job_cancelled :: nat where "job_cancelled = 5"

record query_response =
  qr_job :: "nat option"
  qr_rows :: "external_course_json list option"

record sync_client =
  get_queries_list :: "exn + (string \<times> nat) list"
  get_query_response :: "nat \<Rightarrow> exn + query_response"
  get_job_status :: "nat \<Rightarrow> nat \<Rightarrow> exn + nat \<times> nat"
  get_query_result :: "nat \<Rightarrow> exn + query_response"

text \<open>A job that never ends keeps the code waiting: then the value is \<open>None\<close>.\<close>

partial_function (option) poll_job ::
  "sync_client \<Rightarrow> nat \<Rightarrow> query_response \<Rightarrow> nat \<Rightarrow> (exn + query_response) option" where
  "poll_job client job_id response n =
     (case get_job_status client job_id n of
        Inl e \<Rightarrow> Some (Inl e)
      | Inr (status, query_result_id) \<Rightarrow>
          if status = job_ready then Some (get_query_result client query_result_id)
          else if status = job_failed \<or> status = job_cancelled then Some (Inr response)
          else poll_job client job_id response (Suc n))"

definition query_report :: "sync_client \<Rightarrow> nat \<Rightarrow> (exn + query_response) option" where
  "query_report client query_id =
     (case get_query_response client query_id of
        Inl e \<Rightarrow> Some (Inl e)
      | Inr response \<Rightarrow>
          (case qr_job response of None \<Rightarrow> Some (Inr response) | Some job_id \<Rightarrow> poll_job client job_id response 0))"

fun fetch_reports :: "sync_client \<Rightarrow> keymap \<Rightarrow> (string \<times> nat) list \<Rightarrow> (exn + external_course_json list option) option" where
  "fetch_reports client km [] = Some (Inr None)"
| "fetch_reports client km ((name, query_id) # queries) =
     (if name \<notin> set (km_report_names km) then fetch_reports client km queries
      else (case query_report client query_id of
              None \<Rightarrow> None
            | Some (Inl e) \<Rightarrow> Some (Inl e)
            | Some (Inr response) \<Rightarrow>
                (case qr_rows response of
                   Some rows \<Rightarrow> Some (Inr (Some rows)) | None \<Rightarrow> fetch_reports client km queries)))"

definition fetch_external_courses :: "sync_client \<Rightarrow> keymap \<Rightarrow> (exn + external_course_json list option) option" where
  "fetch_external_courses client km =
     (case get_queries_list client of Inl e \<Rightarrow> Some (Inl e) | Inr queries \<Rightarrow> fetch_reports client km queries)"

text \<open>
  The report that is mailed to the operators. A platform is fetched with a fresh client; \<open>None\<close> as the answer of the whole
  task means that it waits for a job for ever.
\<close>

record sync_env =
  se_now :: int
  se_strptime :: "string \<Rightarrow> exn + int"
  se_without_links :: "string \<Rightarrow> string"
  se_recipients :: "string list"
  se_client :: "string \<Rightarrow> sync_client"

definition send_external_data_sync_email :: "sync_env \<Rightarrow> sync_stats \<Rightarrow> string \<Rightarrow> ('z users_db_scheme, unit) prog" where
  "send_external_data_sync_email env stats vendor_name =
     (if se_recipients env = [] then ret ()
      else emit (SendMail ''external_data_sync'' (map (\<lambda>(_, items). length items) stats)
             (vendor_name # se_recipients env @ concat (map (\<lambda>(_, items). map ci_code items) stats))))"

definition sync_vendor ::
  "sync_env \<Rightarrow> keymap \<Rightarrow> string \<Rightarrow> exn + external_course_json list option \<Rightarrow> ('z external_db_scheme, sync_stats) prog" where
  "sync_vendor env km vendor_name fetched =
     bindp (lift_result fetched) (\<lambda>external_course_runs.
     bindp (update_external_course_runs (se_now env) (se_strptime env) km external_course_runs) (\<lambda>stats.
     thenp (send_external_data_sync_email env (get_email_stats (se_without_links env) stats) vendor_name) (ret stats)))"

fun sync_platforms :: "sync_env \<Rightarrow> nat list \<Rightarrow> 'z external_db_scheme \<Rightarrow> ((exn + unit) \<times> 'z external_db_scheme) option" where
  "sync_platforms env [] s = Some (Inr (), s)"
| "sync_platforms env (k # ks) s =
     (let name = py_lower (plat_name (row (platforms s) k))
      in case map_of EXTERNAL_COURSE_VENDOR_KEYMAPS name of
           None \<Rightarrow> sync_platforms env ks s
         | Some km \<Rightarrow>
             (case fetch_external_courses (se_client env name) km of
                None \<Rightarrow> None
              | Some fetched \<Rightarrow>
                  sync_platforms env ks (snd (try_catch (bindp (sync_vendor env km name fetched) (\<lambda>_. ret ())) (\<lambda>_. ret ()) s))))"

definition task_sync_external_course_runs ::
  "sync_env \<Rightarrow> 'z external_db_scheme \<Rightarrow> ((exn + unit) \<times> 'z external_db_scheme) option" where
  "task_sync_external_course_runs env s =
     sync_platforms env (matching (platforms s) (\<lambda>_. plat_enable_sync)) s"

text \<open>The management command: it answers with a message where it does not start.\<close>

definition sync_external_course_runs_command ::
  "sync_env \<Rightarrow> string \<Rightarrow> bool \<Rightarrow> 'z external_db_scheme \<Rightarrow> ((exn + string + sync_stats) \<times> 'z external_db_scheme) option" where
  "sync_external_course_runs_command env vendor_name force s =
     (case t_first (platforms s) (\<lambda>_ p. case_insensitive_equal (plat_name p) vendor_name) of
        None \<Rightarrow> Some (Inr (Inl (''Unknown vendor name '' @ vendor_name @ ''.'')), s)
      | Some platform \<Rightarrow>
          (case map_of EXTERNAL_COURSE_VENDOR_KEYMAPS (py_lower vendor_name) of
             None \<Rightarrow> Some (Inr (Inl (''Mapping does not exist for '' @ vendor_name @ ''.'')), s)
           | Some km \<Rightarrow>
               if \<not> plat_enable_sync (row (platforms s) platform) \<and> \<not> force
               then Some (Inr (Inl (''Course sync is off for '' @ vendor_name @ ''. Please enable it before syncing.'')), s)
               else
                 (case fetch_external_courses (se_client env (py_lower vendor_name)) km of
                    None \<Rightarrow> None
                  | Some fetched \<Rightarrow>
                      Some (bindp (sync_vendor env km vendor_name fetched) (\<lambda>stats. ret (Inr stats)) s))))"

section \<open>Waiting for a job\<close>

definition poll_is_final :: "sync_client \<Rightarrow> nat \<Rightarrow> nat \<Rightarrow> bool" where
  "poll_is_final client job_id n =
     (case get_job_status client job_id n of
        Inl _ \<Rightarrow> True | Inr (status, _) \<Rightarrow> status = job_ready \<or> status = job_failed \<or> status = job_cancelled)"

lemma poll_job_final: "poll_is_final client job_id n \<Longrightarrow> poll_job client job_id response n \<noteq> None"
  by (subst poll_job.simps) (auto simp: poll_is_final_def split: sum.splits)

lemma poll_job_step:
  "\<not> poll_is_final client job_id n \<Longrightarrow> poll_job client job_id response n = poll_job client job_id response (Suc n)"
  by (subst poll_job.simps) (auto simp: poll_is_final_def split: sum.splits)

lemma poll_job_skip:
  assumes "\<forall>i < m. \<not> poll_is_final client job_id (n + i)"
  shows "poll_job client job_id response n = poll_job client job_id response (n + m)"
  using assms
proof (induction m)
  case (Suc m)
  then show ?case using poll_job_step [of client job_id "n + m" response] by simp
qed simp

lemma poll_job_result_final:
  "poll_job client job_id response n = Some r \<Longrightarrow> \<exists>m \<ge> n. poll_is_final client job_id m"
proof (induction rule: poll_job.raw_induct [rotated, consumes 1])
  case (1 poll client job_id response n r)
  note step = 1(2) and hyp = 1(1)
  show ?case
  proof (cases "poll_is_final client job_id n")
    case False
    then obtain st q where "get_job_status client job_id n = Inr (st, q)"
      and "st \<noteq> job_ready" "st \<noteq> job_failed" "st \<noteq> job_cancelled"
      by (auto simp: poll_is_final_def split: sum.splits)
    with step have "poll client job_id response (Suc n) = Some r" by simp
    from hyp [OF this] show ?thesis using Suc_leD by blast
  qed auto
qed

text \<open>
  Waiting for a job of the vendor's API ends exactly when some poll from this one on is final: an HTTP error, or the status ready, failed or
  cancelled. A job that stays in progress keeps the task waiting for ever; there is no limit and no timeout.
\<close>

theorem poll_job_waits_forever:
  "poll_job client job_id response n = None \<longleftrightarrow> (\<forall>m \<ge> n. \<not> poll_is_final client job_id m)"
proof
  assume "poll_job client job_id response n = None"
  show "\<forall>m \<ge> n. \<not> poll_is_final client job_id m"
  proof (rule ccontr)
    assume "\<not> ?thesis"
    then obtain m where "n \<le> m" "poll_is_final client job_id m" by auto
    then have ex: "\<exists>i. poll_is_final client job_id (n + i)" using le_Suc_ex by blast
    define i where "i = (LEAST i. poll_is_final client job_id (n + i))"
    from ex have "poll_is_final client job_id (n + i)" unfolding i_def by (rule LeastI_ex)
    moreover have "\<forall>j < i. \<not> poll_is_final client job_id (n + j)" unfolding i_def by (meson not_less_Least)
    ultimately show False
      using \<open>poll_job client job_id response n = None\<close> poll_job_skip [of i client job_id n response] poll_job_final by metis
  qed
next
  assume "\<forall>m \<ge> n. \<not> poll_is_final client job_id m"
  then show "poll_job client job_id response n = None"
    using poll_job_result_final [of client job_id response n] by (cases "poll_job client job_id response n") auto
qed

section \<open>Runs\<close>

lemma same_day_refl [simp]: "same_day a a"
  by (simp add: same_day_def)

lemma date_changed_refl [simp]: "\<not> date_changed d d"
  by (simp add: date_changed_def split: option.splits)

lemma external_run_current:
  assumes "t_first (course_runs s) (\<lambda>_ r. run_external_course_run_id r = xc_course_run_code x \<and> run_course r = course) = Some k"
    and "\<not> external_run_changed (row (course_runs s) k) x"
  shows "create_or_update_external_course_run now course x s = (Inr (k, False, False), s)"
  using assms by (simp add: create_or_update_external_course_run_def bindp_run)

lemma fresh_run_current: "\<not> external_run_changed (external_run_row course cid x) x"
  by (simp add: external_run_changed_def external_run_row_def)

text \<open>\<open>only_touches t t' K\<close>: of the rows of a table only those in \<open>K\<close> may be new or different afterwards.\<close>

definition only_touches :: "'r table \<Rightarrow> 'r table \<Rightarrow> nat set \<Rightarrow> bool" where
  "only_touches t t' K \<longleftrightarrow>
     set (pks t) \<subseteq> set (pks t') \<and> set (pks t') \<subseteq> set (pks t) \<union> K \<and> (\<forall>j \<in> set (pks t) - K. row t' j = row t j)"

lemma only_touches_refl [simp]: "only_touches t t K"
  by (simp add: only_touches_def)

lemma only_touches_create: "wf_table t \<Longrightarrow> next_pk t \<in> K \<Longrightarrow> only_touches t (snd (t_create t r)) K"
  by (auto simp: only_touches_def row_t_create wf_table_fresh)

lemma only_touches_save: "k \<in> K \<Longrightarrow> only_touches t (t_save t k f) K"
  by (auto simp: only_touches_def row_t_save)


definition record_run :: "'z xpro_db_scheme \<Rightarrow> nat \<Rightarrow> external_course \<Rightarrow> nat option" where
  "record_run s course x = t_first (course_runs s) (\<lambda>_ r. run_external_course_run_id r = xc_course_run_code x \<and> run_course r = course)"


lemma run_sync_InrD:
  assumes wf: "wf_table (course_runs s)"
    and run: "create_or_update_external_course_run now course x s = (Inr (k, created, updated), s')"
  shows "s' = course_runs_update (\<lambda>_. course_runs s') s \<and> record_run s' course x = Some k \<and>
    \<not> external_run_changed (row (course_runs s') k) x \<and> only_touches (course_runs s) (course_runs s') {k} \<and>
    \<not> (created \<and> updated) \<and> (\<not> created \<and> \<not> updated \<longrightarrow> s' = s)"
proof (cases "record_run s course x")
  case None
  let ?r = "external_run_row course (generate_external_course_run_courseware_id (xc_course_run_tag x)
    (course_readable_id (row (courses s) course))) x"
  from None run have "k = next_pk (course_runs s)" "created" "\<not> updated"
    and s': "s' = course_runs_update (\<lambda>_. snd (t_create (course_runs s) ?r)) s"
    by (auto simp: create_or_update_external_course_run_def course_run_create_def record_run_def bindp_run thenp_run split: sum.splits prod.splits)
  moreover have "matching (course_runs s) (\<lambda>_ r. run_external_course_run_id r = xc_course_run_code x \<and> run_course r = course) = []"
    using None by (simp add: t_first_def record_run_def)
  ultimately show ?thesis
    using assms(1) fresh_run_current [of course _ x]
    by (simp add: t_first_def record_run_def matching_t_create row_t_create only_touches_create) (simp add: external_run_row_def)
next
  case (Some j)
  then have j: "run_external_course_run_id (row (course_runs s) j) = xc_course_run_code x \<and> run_course (row (course_runs s) j) = course"
    by (auto simp: record_run_def dest: t_first_SomeD)
  show ?thesis
  proof (cases "external_run_changed (row (course_runs s) j) x")
    case False
    with Some external_run_current [OF Some [unfolded record_run_def]] run show ?thesis by simp
  next
    case True
    let ?f = "\<lambda>r. r\<lparr>run_start_date := xc_start_date x, run_end_date := xc_end_date x,
       run_enrollment_end := Some (xc_enrollment_end x), run_live := True\<rparr>"
    from Some True run have "k = j" "\<not> created" "updated" and s': "s' = course_runs_update (\<lambda>_. t_save (course_runs s) j ?f) s"
      by (auto simp: create_or_update_external_course_run_def course_run_save_def record_run_def bindp_run thenp_run split: sum.splits prod.splits)
    moreover have "matching (t_save (course_runs s) j ?f) (\<lambda>_ r. run_external_course_run_id r = xc_course_run_code x \<and> run_course r = course) =
        matching (course_runs s) (\<lambda>_ r. run_external_course_run_id r = xc_course_run_code x \<and> run_course r = course)"
      using j by (intro matching_t_save) simp
    ultimately show ?thesis
      using Some by (simp add: t_first_def record_run_def external_run_changed_def only_touches_save)
  qed
qed

text \<open>
  After a synchronisation of a run with a record of the vendor, the run the answer names is live and has the code and the course of the record,
  it was not both created and updated, nothing changed if it was neither, and synchronising the same record again, at any time, finds that run and changes nothing.
\<close>

theorem external_run_sync_idempotent:
  assumes "wf_table (course_runs s)"
    and run: "create_or_update_external_course_run now course x s = (Inr (k, created, updated), s')"
  shows "create_or_update_external_course_run later course x s' = (Inr (k, False, False), s') \<and>
    run_live (row (course_runs s') k) \<and> run_external_course_run_id (row (course_runs s') k) = xc_course_run_code x \<and>
    run_course (row (course_runs s') k) = course \<and> \<not> (created \<and> updated) \<and> (\<not> created \<and> \<not> updated \<longrightarrow> s' = s)"
proof -
  note R = run_sync_InrD [OF assms]
  then have first: "t_first (course_runs s') (\<lambda>_ r. run_external_course_run_id r = xc_course_run_code x \<and> run_course r = course) = Some k"
    by (simp add: record_run_def)
  with R external_run_current [OF first] t_first_SomeD [OF first] show ?thesis
    by (auto simp: external_run_changed_def)
qed

section \<open>Runs that are no longer reported\<close>

lemma deactivate_missing_run:
  "deactivate_missing_course_runs now codes platform s =
     (Inr (unique (map (\<lambda>k. run_external_course_run_id (row (course_runs s) k)) (missing_runs s now codes platform))),
      products_update
        (\<lambda>_. t_update (products s) (\<lambda>k _. \<exists>j \<in> set (missing_runs s now codes platform).
           first_of (active_products s (\<lambda>p. prod_content p = CourseRunContent j)) = Some k) (\<lambda>p. p\<lparr>prod_is_active := False\<rparr>))
        (course_runs_update (\<lambda>_. t_update (course_runs s) (\<lambda>k _. k \<in> set (missing_runs s now codes platform))
           (\<lambda>r. r\<lparr>run_live := False\<rparr>)) s))"
proof -
  have "(\<lambda>k (_ :: product_row). k \<in> (\<Union>j \<in> set (missing_runs s now codes platform).
      set (the_list (first_of (active_products s (\<lambda>p. prod_content p = CourseRunContent j)))))) =
    (\<lambda>k _. \<exists>j \<in> set (missing_runs s now codes platform).
       first_of (active_products s (\<lambda>p. prod_content p = CourseRunContent j)) = Some k)"
    by (intro ext) (force simp: the_list_def split: option.splits)
  then show ?thesis
    by (simp add: deactivate_missing_course_runs_def bindp_run thenp_run)
qed

definition is_missing :: "'z shop_db_scheme \<Rightarrow> int \<Rightarrow> string list \<Rightarrow> nat \<Rightarrow> nat \<Rightarrow> bool" where
  "is_missing s now codes platform k \<longleftrightarrow>
     (let r = row (course_runs s) k
      in course_platform (row (courses s) (run_course r)) = platform \<and> run_live r \<and> is_unexpired now r \<and>
         run_external_course_run_id r \<notin> set codes)"

lemma set_missing_runs: "set (missing_runs s now codes platform) = {k \<in> set (pks (course_runs s)). is_missing s now codes platform k}"
  by (auto simp: missing_runs_def is_missing_def Let_def)

lemma not_missing_after:
  assumes "row (course_runs s') k = (row (course_runs s) k)\<lparr>run_live := run_live (row (course_runs s) k) \<and> \<not> is_missing s now codes platform k\<rparr>"
    and "courses s' = courses s"
  shows "\<not> is_missing s' now codes platform k"
  using assms by (cases "is_missing s now codes platform k") (auto simp: is_missing_def Let_def)

lemma deactivated_codes:
  "set (unique (map (\<lambda>k. run_external_course_run_id (row (course_runs s) k)) (missing_runs s now codes platform))) =
    {run_external_course_run_id (row (course_runs s) k) |k. k \<in> set (pks (course_runs s)) \<and> is_missing s now codes platform k}"
  by (simp only: unique_def set_unique_from set_map set_missing_runs) blast


lemma deactivate_frame:
  "course_runs_update (\<lambda>_. course_runs s) (products_update (\<lambda>_. products s) (snd (deactivate_missing_course_runs now codes platform s))) = (s :: 'z shop_db_scheme)"
  by (simp add: deactivate_missing_run)

lemma deactivate_tables:
  "pks (course_runs (snd (deactivate_missing_course_runs now codes platform s))) = pks (course_runs s)"
  "courses (snd (deactivate_missing_course_runs now codes platform s)) = courses s"
  "pks (products (snd (deactivate_missing_course_runs now codes platform s))) = pks (products s)"
  by (simp_all add: deactivate_missing_run)

lemma deactivate_runs:
  "k \<in> set (pks (course_runs s)) \<Longrightarrow> row (course_runs (snd (deactivate_missing_course_runs now codes platform s))) k =
       (row (course_runs s) k)\<lparr>run_live := run_live (row (course_runs s) k) \<and> \<not> is_missing s now codes platform k\<rparr>"
  by (simp add: deactivate_missing_run row_t_update set_missing_runs)

lemma deactivate_products:
  "k \<in> set (pks (products s)) \<Longrightarrow> prod_is_active (row (products (snd (deactivate_missing_course_runs now codes platform s))) k) =
     (prod_is_active (row (products s) k) \<and>
       \<not> (\<exists>j \<in> set (pks (course_runs s)). is_missing s now codes platform j \<and>
            first_of (active_products s (\<lambda>p. prod_content p = CourseRunContent j)) = Some k))"
  by (auto simp: deactivate_missing_run row_t_update set_missing_runs)

lemma deactivate_again:
  assumes "s' = snd (deactivate_missing_course_runs now codes platform s)"
  shows "deactivate_missing_course_runs now codes platform s' = (Inr [], s')"
proof -
  have "\<not> is_missing s' now codes platform k" if "k \<in> set (pks (course_runs s'))" for k
    using that unfolding assms deactivate_tables
    by (intro not_missing_after [OF deactivate_runs deactivate_tables(2)])
  then have "set (missing_runs s' now codes platform) = {}"
    by (auto simp: set_missing_runs)
  then have none: "missing_runs s' now codes platform = []"
    by simp
  show ?thesis
    unfolding deactivate_missing_run none by (simp add: t_update_def unique_def)
qed

text \<open>
  C40: Switching off missing runs: exactly the runs of the platform that are live, not expired and not reported are switched off (with nothing else of any
  run changed), the first active product of each is deactivated and no other, the codes of the runs are the answer, no other table changes, and doing it again does nothing.
\<close>

theorem deactivate_missing_spec:
  fixes s :: "'z shop_db_scheme"
  assumes "deactivate_missing_course_runs now codes platform s = (r, s')"
  shows "(\<exists>deactivated. r = Inr deactivated \<and> set deactivated =
           {run_external_course_run_id (row (course_runs s) k) |k. k \<in> set (pks (course_runs s)) \<and> is_missing s now codes platform k}) \<and>
    (\<forall>k \<in> set (pks (course_runs s)). row (course_runs s') k =
       (row (course_runs s) k)\<lparr>run_live := run_live (row (course_runs s) k) \<and> \<not> is_missing s now codes platform k\<rparr>) \<and>
    (\<forall>k \<in> set (pks (products s)). prod_is_active (row (products s') k) = (prod_is_active (row (products s) k) \<and>
       \<not> (\<exists>j \<in> set (pks (course_runs s)). is_missing s now codes platform j \<and>
            first_of (active_products s (\<lambda>p. prod_content p = CourseRunContent j)) = Some k))) \<and>
    course_runs_update (\<lambda>_. course_runs s) (products_update (\<lambda>_. products s) s') = s \<and>
    deactivate_missing_course_runs now codes platform s' = (Inr [], s')"
proof -
  from assms have s': "s' = snd (deactivate_missing_course_runs now codes platform s)" by simp
  have r: "r = Inr (unique (map (\<lambda>k. run_external_course_run_id (row (course_runs s) k)) (missing_runs s now codes platform)))"
    using assms by (simp add: deactivate_missing_run)
  show ?thesis
    unfolding r deactivate_again [OF s']
    using deactivated_codes [of s now codes platform] deactivate_frame [of s now codes platform, folded s']
    by (simp add: s' deactivate_runs deactivate_products)
qed

section \<open>Prices\<close>

text \<open>The only product of a run, active: what a synchronisation of its price leaves behind.\<close>

definition run_sold_as :: "'z shop_db_scheme \<Rightarrow> nat \<Rightarrow> nat \<Rightarrow> bool" where
  "run_sold_as s run k \<longleftrightarrow>
     matching (products s) (\<lambda>_ p. prod_content p = CourseRunContent run) = [k] \<and> prod_is_active (row (products s) k) \<and>
     product_clean s (row (products s) k) = Inr ()"

lemma product_clean_content:
  "product_clean s p = product_clean s' p'" if "prod_content p = prod_content p'" "programs s' = programs s" "courses s' = courses s" "course_runs s' = course_runs s"
  using that by (simp add: product_clean_def content_exists_def split: content.split)

lemma unique_content_one:
  assumes "wf_table (products s)" "unique_on (products s) prod_content" "matching (products s) (\<lambda>_ p. prod_content p = c) = k # ks"
  shows "ks = []"
proof (rule ccontr)
  assume "ks \<noteq> []"
  then obtain j js where ks: "ks = j # js" by (cases ks) auto
  have "distinct (k # ks)" using assms(1,3) distinct_matching by metis
  moreover have "k \<in> set (matching (products s) (\<lambda>_ p. prod_content p = c))" "j \<in> set (matching (products s) (\<lambda>_ p. prod_content p = c))"
    by (simp_all add: assms(3) ks del: set_matching)
  ultimately show False
    using assms(2) ks by (auto simp: unique_on_def inj_on_def)
qed

lemma update_or_create_product_sells:
  fixes s :: "'z shop_db_scheme"
  assumes "wf_table (products s)" and "unique_on (products s) prod_content"
    and run: "update_or_create_product run s = (Inr (k, created), s')"
  shows "run_sold_as s' run k" and "s' = products_update (\<lambda>_. products s') s"
proof -
  let ?P = "\<lambda>(_::nat) p. prod_content p = CourseRunContent run"
  show "run_sold_as s' run k"
  proof (cases "t_first (products s) ?P")
    case (Some j)
    then obtain js where m: "matching (products s) ?P = j # js" by (cases "matching (products s) ?P") (auto simp: t_first_def)
    with unique_content_one [OF assms(1,2)] have "js = []" by blast
    from Some have c: "prod_content (row (products s) j) = CourseRunContent run" by (auto dest: t_first_SomeD)
    from Some run have s': "s' = products_update (\<lambda>_. t_save (products s) j (\<lambda>p. p\<lparr>prod_is_active := True\<rparr>)) s" "k = j"
      and ok: "product_clean s (row (products s) j) = Inr ()"
      by (auto simp: update_or_create_product_def bindp_run thenp_run split: sum.splits)
    have "matching (t_save (products s) j (\<lambda>p. p\<lparr>prod_is_active := True\<rparr>)) ?P = matching (products s) ?P"
      by (rule matching_t_save) simp
    moreover have "product_clean s' (row (products s') j) = product_clean s (row (products s) j)"
      by (rule product_clean_content) (simp_all add: s')
    ultimately show ?thesis using m \<open>js = []\<close> ok by (simp add: run_sold_as_def s')
  next
    case None
    let ?p = "\<lparr>prod_content = CourseRunContent run, prod_is_active = True, prod_is_private = False\<rparr>"
    from None run have s': "s' = products_update (\<lambda>_. snd (t_create (products s) ?p)) s" "k = next_pk (products s)"
      and ok: "product_clean s ?p = Inr ()"
      by (auto simp: update_or_create_product_def product_save_def bindp_run thenp_run split: sum.splits if_splits)
    have "product_clean s' ?p = product_clean s ?p"
      by (rule product_clean_content) (simp_all add: s')
    moreover have "matching (products s) ?P = []" using None by (simp add: t_first_def)
    ultimately show ?thesis using ok assms(1) by (simp add: run_sold_as_def s' matching_t_create row_t_create)
  qed
  show "s' = products_update (\<lambda>_. products s') s"
    using run by (auto simp: update_or_create_product_def product_save_def bindp_run thenp_run split: sum.splits if_splits option.splits)
qed

lemma sold_run_product:
  "run_sold_as s run k \<Longrightarrow> update_or_create_product run s =
     (Inr (k, False), products_update (\<lambda>_. t_save (products s) k (\<lambda>p. p\<lparr>prod_is_active := True\<rparr>)) s)"
  by (simp add: run_sold_as_def update_or_create_product_def t_first_def bindp_run thenp_run)

lemma sold_run_price:
  assumes "run_sold_as s run k"
  shows "run_current_price s run = product_price s k"
proof -
  have "active_products s (\<lambda>p. prod_content p = CourseRunContent run) =
      filter (\<lambda>k. prod_is_active (row (products s) k)) (matching (products s) (\<lambda>_ p. prod_content p = CourseRunContent run))"
    by (auto simp: active_products_def matching_def intro!: filter_cong)
  with assms show ?thesis
    by (simp add: run_current_price_def content_current_price_def product_price_def run_sold_as_def)
qed

lemma newest_version:
  assumes wf: "wf_table (product_versions s)" and new: "\<forall>k \<in> set (pks (product_versions s)). pv_created_on (row (product_versions s) k) < pv_created_on v"
  shows "product_price (product_versions_update (\<lambda>_. snd (t_create (product_versions s) v)) s) (pv_product v) = Some (pv_price v)"
proof -
  let ?s = "product_versions_update (\<lambda>_. snd (t_create (product_versions s) v)) s"
  let ?n = "next_pk (product_versions s)"
  have "latest_version ?s (pv_product v) \<noteq> None"
    using wf by (simp add: latest_version_def ordered_versions_def first_or_none_def matching_t_create)
  then obtain w where w: "latest_version ?s (pv_product v) = Some w" by blast
  have "pv_created_on (row (product_versions ?s) ?n) \<le> pv_created_on (row (product_versions ?s) w)"
    by (rule latest_version_newest [OF w]) (simp_all add: row_t_create)
  with latest_version_in [OF w] new have "w = ?n"
    by (auto simp: row_t_create split: if_splits)
  with w show ?thesis by (simp add: product_price_def row_t_create)
qed

lemma price_version_made:
  fixes s :: "'z shop_db_scheme"
  assumes sold: "run_sold_as s run k" and d: "run_courseware_id (row (course_runs s) run) \<noteq> []"
    and stale: "run_current_price s run = None \<or> run_current_price s run = Some 0 \<or> run_current_price s run \<noteq> Some price"
  obtains s' where "create_or_update_product_and_product_version now price run s = (Inr (False, True), s')"
    and "length (pks (product_versions s')) = Suc (length (pks (product_versions s)))"
proof -
  let ?s = "products_update (\<lambda>_. t_save (products s) k (\<lambda>p. p\<lparr>prod_is_active := True\<rparr>)) s"
  from sold have "k \<in> set (matching (products s) (\<lambda>_ p. prod_content p = CourseRunContent run))"
    by (simp add: run_sold_as_def del: set_matching)
  then have c: "prod_content (row (products s) k) = CourseRunContent run" by simp
  from stale d c show ?thesis
    by (intro that)
       (auto simp: create_or_update_product_and_product_version_def sold_run_product [OF sold] product_version_save_def
         content_text_id_def bindp_run)
qed

lemma price_sync_sells:
  fixes s :: "'z shop_db_scheme"
  assumes wf: "wf_table (products s)" "wf_table (product_versions s)" "unique_on (products s) prod_content"
    and old: "\<forall>k \<in> set (pks (product_versions s)). pv_created_on (row (product_versions s) k) < now"
    and run: "create_or_update_product_and_product_version now price run s = (Inr (created, True), s')"
  obtains k where "run_sold_as s' run k" and "run_current_price s' run = Some (round_cents_half_up price)"
    and "run_courseware_id (row (course_runs s') run) \<noteq> []"
proof -
  from run obtain k s1 where up: "update_or_create_product run s = (Inr (k, created), s1)"
    and v: "bindp (asks (\<lambda>s. run_courseware_id (row (course_runs s) run))) (\<lambda>courseware_id.
       bindp (product_version_save now
                \<lparr>pv_product = k, pv_price = round_cents_half_up price, pv_description = courseware_id, pv_text_id = None,
                 pv_requires_enrollment_code = False, pv_created_on = now\<rparr>) (\<lambda>_. ret (created, True))) s1 = (Inr (created, True), s')"
    unfolding create_or_update_product_and_product_version_def
    by (auto elim!: bindp_InrE split: if_splits)
  note sells = update_or_create_product_sells [OF wf(1,3) up]
  from v obtain t where s': "s' = product_versions_update (\<lambda>_. snd (t_create (product_versions s1)
      \<lparr>pv_product = k, pv_price = round_cents_half_up price, pv_description = run_courseware_id (row (course_runs s1) run),
       pv_text_id = Some t, pv_requires_enrollment_code = False, pv_created_on = now\<rparr>)) s1"
    and d: "run_courseware_id (row (course_runs s1) run) \<noteq> []"
    by (auto simp: product_version_save_def bindp_run split: sum.splits if_splits)
  have pv: "product_versions s1 = product_versions s" by (subst sells(2)) simp
  have "product_clean s' p = product_clean s1 p" for p
    by (rule product_clean_content) (simp_all add: s')
  then have sold: "run_sold_as s' run k" using sells(1) by (simp add: run_sold_as_def s')
  have "product_price s' k = Some (round_cents_half_up price)"
    unfolding s' using newest_version [of s1 "\<lparr>pv_product = k, pv_price = round_cents_half_up price,
       pv_description = run_courseware_id (row (course_runs s1) run),
       pv_text_id = Some t, pv_requires_enrollment_code = False, pv_created_on = now\<rparr>"] wf(2) old
    by (simp add: pv)
  with sold d show ?thesis by (intro that) (simp_all add: sold_run_price s')
qed

text \<open>
  A synchronised price is stored rounded to cents, while the number that was sent is compared as it is: if the number is not a whole number of cents, as of most
  floating-point prices, the next synchronisation of the same price makes another product version; if it is, the next one changes nothing.
\<close>

theorem price_version_on_every_sync:
  fixes s :: "'z shop_db_scheme"
  assumes "wf_table (products s)" "wf_table (product_versions s)" "unique_on (products s) prod_content" and "price \<noteq> 0"
    and "\<forall>k \<in> set (pks (product_versions s)). pv_created_on (row (product_versions s) k) < now"
    and "create_or_update_product_and_product_version now price run s = (Inr (created, True), s')"
  shows "run_current_price s' run = Some (round_cents_half_up price) \<and>
    (if is_cents price
     then create_or_update_product_and_product_version later price run s' = (Inr (False, False), s')
     else \<exists>s''. create_or_update_product_and_product_version later price run s' = (Inr (False, True), s'') \<and>
            length (pks (product_versions s'')) = Suc (length (pks (product_versions s'))))"
proof -
  from price_sync_sells [OF assms(1,2,3,5,6)] obtain k where k: "run_sold_as s' run k"
    "run_current_price s' run = Some (round_cents_half_up price)" "run_courseware_id (row (course_runs s') run) \<noteq> []" .
  show ?thesis
  proof (cases "is_cents price")
    case True
    with k(2) assms(4) show ?thesis
      by (simp add: create_or_update_product_and_product_version_def half_up_of_cents bindp_run)
  next
    case False
    then have "round_cents_half_up price \<noteq> price" by (metis is_cents_half_up)
    with k(2) have "run_current_price s' run \<noteq> Some price" by simp
    with price_version_made [OF k(1,3), of price later] obtain s'' where
      "create_or_update_product_and_product_version later price run s' = (Inr (False, True), s'')"
      "length (pks (product_versions s'')) = Suc (length (pks (product_versions s')))" by blast
    with k(2) False show ?thesis by simp
  qed
qed

section \<open>Languages\<close>

definition named_like :: "'z xpro_db_scheme \<Rightarrow> string \<Rightarrow> nat list" where
  "named_like s language = matching (course_languages s) (\<lambda>_ l. contains_text (py_lower (lang_name l)) (py_lower language))"

lemma contains_blank [simp]: "contains_text [] t \<longleftrightarrow> t = []"
  by (auto simp: contains_text_def)

lemma py_lower_Nil [simp]: "py_lower s = [] \<longleftrightarrow> s = []" "py_lower [] = []"
  by (simp_all add: py_lower_def)

lemma known_language: "named_like s language = [k] \<Longrightarrow> get_or_create_language language s = (Inr (k, False), s)"
  by (simp add: get_or_create_language_def named_like_def bindp_run)

text \<open>
  A language that no stored name contains is created with a blank name (the name is not among the columns that are written), and from then on any language that
  is not contained in the stored names, the same one included, raises an integrity error. A known language changes nothing.
\<close>

theorem unknown_language_named_blank:
  assumes "wf_table (course_languages s)"
    and run: "get_or_create_language language s = (Inr (k, created), s')"
  shows "(created \<longrightarrow> lang_name (row (course_languages s') k) = []) \<and>
    (created \<longrightarrow> (\<forall>other. other \<noteq> [] \<and> named_like s other = [] \<longrightarrow>
       get_or_create_language other s' = (Inl (IntegrityError ''unique_language_name''), s'))) \<and>
    (created \<longleftrightarrow> named_like s language = []) \<and> (\<not> created \<longrightarrow> s' = s)"
proof (cases "named_like s language")
  case Nil
  let ?l = "\<lparr>lang_name = [], lang_priority = Some 100, lang_is_active = True\<rparr>"
  from Nil run have created: "created" "k = next_pk (course_languages s)"
    and s': "s' = course_languages_update (\<lambda>_. snd (t_create (course_languages s) ?l)) s"
    by (auto simp: get_or_create_language_def named_like_def bindp_run split: if_splits)
  have "get_or_create_language other s' = (Inl (IntegrityError ''unique_language_name''), s')"
    if "other \<noteq> []" "named_like s other = []" for other
  proof -
    have "t_exists (course_languages s') (\<lambda>_ l. lang_name l = [])"
      by (auto simp: t_exists_iff s' row_t_create)
    moreover have "matching (course_languages s') (\<lambda>_ l. contains_text (py_lower (lang_name l)) (py_lower other)) = []"
      using that assms(1) by (simp add: s' matching_t_create named_like_def)
    ultimately show ?thesis by (simp add: get_or_create_language_def bindp_run)
  qed
  with created Nil show ?thesis by (simp add: s' row_t_create)
next
  case (Cons j js)
  with run show ?thesis
    by (cases js) (auto simp: get_or_create_language_def named_like_def bindp_run)
qed

section \<open>Topics\<close>

definition topic_of :: "'z xpro_db_scheme \<Rightarrow> external_course \<Rightarrow> nat option" where
  "topic_of s x = t_first (topics s) (\<lambda>_ t. case_insensitive_equal (topic_name t) (the (xc_category x)))"

lemma page_update_run:
  fixes s :: "'z external_db_scheme"
  assumes "t_first (external_pages s) (\<lambda>_ p. xp_course p = course) = Some k" and "named_like s (xc_language x) = [l]"
    and "c = updated_content x (find_image s (xc_image_name x)) l (xp_latest (row (external_pages s) k))"
  shows "create_or_update_external_course_page km course x s =
    (let p = row (external_pages s) k
     in if c = xp_latest p
        then (Inr \<lparr>pr_page = k, pr_object = p, pr_created = False, pr_updated = False, pr_published = True\<rparr>, s)
        else (Inr \<lparr>pr_page = k, pr_object = p, pr_created = False, pr_updated = True, pr_published = \<not> xp_has_unpublished_changes p\<rparr>,
              external_pages_update (\<lambda>_. t_save (external_pages s) k (\<lambda>p. if xp_has_unpublished_changes p
                then p\<lparr>xp_latest := c, xp_has_unpublished_changes := True\<rparr>
                else p\<lparr>xp_latest := c, xp_published := c, xp_has_unpublished_changes := False\<rparr>)) s))"
  using assms
  by (simp add: create_or_update_external_course_page_def known_language bindp_run thenp_run save_page_revision_def Let_def t_save_def comp_def)

lemma find_image_images: "cms_images s' = cms_images s \<Longrightarrow> find_image s' n = find_image s n"
  by (simp add: find_image_def newest_image_def cong: option.case_cong)

definition with_topic :: "nat \<Rightarrow> external_page_row \<Rightarrow> external_page_row" where
  "with_topic t p = p\<lparr>xp_topics := if t \<in> set (xp_topics p) then xp_topics p else xp_topics p @ [t]\<rparr>"

lemma page_topic_run:
  fixes s :: "'z external_db_scheme"
  assumes "t_first (external_pages s) (\<lambda>_ p. xp_course p = course) = Some k" and "named_like s (xc_language x) = [l]"
    and "truthy (xc_category x)" "topic_of s x = Some t"
  shows "\<exists>r. update_page_and_topic km course x s = (Inr r, external_pages_update (\<lambda>_. t_save (external_pages s) k (with_topic t)) s) \<and>
    pr_updated r = (updated_content x (find_image s (xc_image_name x)) l (xp_latest (row (external_pages s) k)) \<noteq> xp_latest (row (external_pages s) k))"
  using assms(3,4)
  by (auto simp: update_page_and_topic_def bindp_run thenp_run page_update_run [OF assms(1,2) refl] Let_def add_topic_def topic_of_def t_save_def with_topic_def)

text \<open>
  For a course with a page and a category that is a topic, saving the topic writes back the page as it was read before its update: of the update nothing is left, neither
  published nor in the latest revision, only the topic is added; and the next synchronisation makes, and reports, the same update again.
\<close>

theorem topic_undoes_page_update:
  fixes s :: "'z external_db_scheme"
  assumes page: "t_first (external_pages s) (\<lambda>_ p. xp_course p = course) = Some k" and lang: "named_like s (xc_language x) = [l]"
    and topic: "truthy (xc_category x)" "topic_of s x = Some t"
    and run: "update_page_and_topic km course x s = (Inr r, s')"
  shows "row (external_pages s') k = with_topic t (row (external_pages s) k) \<and>
    (\<exists>r' s''. update_page_and_topic km course x s' = (Inr r', s'') \<and> pr_updated r' = pr_updated r)"
proof -
  from page_topic_run [OF page lang topic, of km] run
  have s': "s' = external_pages_update (\<lambda>_. t_save (external_pages s) k (with_topic t)) s"
    and upd: "pr_updated r \<longleftrightarrow> updated_content x (find_image s (xc_image_name x)) l (xp_latest (row (external_pages s) k)) \<noteq>
      xp_latest (row (external_pages s) k)" by auto
  have "matching (external_pages s') (\<lambda>_ p. xp_course p = course) = matching (external_pages s) (\<lambda>_ p. xp_course p = course)"
    unfolding s' by (simp add: matching_t_save with_topic_def)
  then have page': "t_first (external_pages s') (\<lambda>_ p. xp_course p = course) = Some k"
    using page by (simp add: t_first_def)
  have lang': "named_like s' (xc_language x) = [l]" and topic': "topic_of s' x = Some t"
    using lang topic by (simp_all add: s' named_like_def topic_of_def)
  have "find_image s' (xc_image_name x) = find_image s (xc_image_name x)"
    by (rule find_image_images) (simp add: s')
  moreover have "xp_latest (row (external_pages s') k) = xp_latest (row (external_pages s) k)"
    by (simp add: s' with_topic_def)
  ultimately show ?thesis
    using page_topic_run [OF page' lang' topic(1) topic', of km] upd by (auto simp: s')
qed

section \<open>Records without a code\<close>

definition lacks_code :: "external_course_json \<Rightarrow> bool" where
  "lacks_code j \<longleftrightarrow> \<not> truthy (xj_course_code j) \<or> \<not> truthy (xj_course_run_code j)"

lemma lacking_code_raises: "lacks_code j \<Longrightarrow> \<exists>e. parse_external_course strptime j = Inl e"
  by (auto simp: lacks_code_def truthy_def parse_external_course_def course_code_tag_def generate_external_course_run_tag_def
      rbind_def py_split.simps split: sum.splits)

lemma collect_each_append:
  "collect_each (xs @ ys) f s =
     (case collect_each xs f s of
        (Inl e, t) \<Rightarrow> (Inl e, t)
      | (Inr a, t) \<Rightarrow> (case collect_each ys f t of (Inl e, t) \<Rightarrow> (Inl e, t) | (Inr b, t) \<Rightarrow> (Inr (a @ b), t)))"
  by (induction xs arbitrary: s) (simp_all add: bindp_run split: sum.split prod.split)

lemma collect_each_stops:
  assumes "\<And>t. f j t = (Inl e, t)"
  shows "collect_each (pre @ j # post) f s = (case collect_each pre f s of (Inl e', t) \<Rightarrow> (Inl e', t) | (Inr _, t) \<Rightarrow> (Inl e, t))"
  by (simp add: collect_each_append bindp_run assms split: prod.split sum.split)

text \<open>
  A record without its course code or its run code, though both are required fields whose absence is to be reported, raises while it is parsed: the synchronisation stops with
  that exception, with the missing runs already switched off and the earlier records kept, and without any of the later records.
\<close>

theorem record_without_code_stops_sync:
  fixes s :: "'z external_db_scheme"
  assumes "lacks_code j"
    and run: "update_external_course_runs now strptime km (Some (pre @ j # post)) s = (r, s')"
  shows "(\<exists>e. r = Inl e) \<and>
    (\<forall>platform s1 deactivated s2 stats t.
       get_or_create_platform (km_platform_name km) s = (Inr platform, s1) \<and>
       deactivate_missing_course_runs now (concat (map (\<lambda>j. the_list (xj_course_run_code j)) (pre @ j # post))) platform s1 = (Inr deactivated, s2) \<and>
       collect_each pre (sync_record now strptime km platform) s2 = (Inr stats, t) \<longrightarrow>
         parse_external_course strptime j = Inl (projl r) \<and> s' = t)"
proof -
  from lacking_code_raises [OF assms(1)] obtain e where e: "parse_external_course strptime j = Inl e" ..
  have stop: "sync_record now strptime km platform j t = (Inl e, t)" for platform and t :: "'z external_db_scheme"
    by (simp add: sync_record_def e bindp_run)
  note stops = collect_each_stops [where f = "sync_record now strptime km p" for p, OF stop]
  show ?thesis
    using run e by (auto simp: update_external_course_runs_def bindp_run stops split: prod.splits sum.splits)
qed

section \<open>Integrity\<close>

definition catalog_ok :: "'z shop_db_scheme \<Rightarrow> bool" where
  "catalog_ok s \<longleftrightarrow>
     wf_table (courses s) \<and> wf_table (course_runs s) \<and> wf_table (products s) \<and> wf_table (product_versions s) \<and>
     unique_on (courses s) course_readable_id \<and> unique_on (course_runs s) run_courseware_id \<and>
     unique_on (course_runs s) (\<lambda>r. (run_course r, run_run_tag r)) \<and> unique_on (products s) prod_content \<and>
     (\<forall>k \<in> set (pks (product_versions s)). is_cents (pv_price (row (product_versions s) k)))"

lemma catalog_ok_tables:
  assumes "courses s' = courses s" "course_runs s' = course_runs s" "products s' = products s" "product_versions s' = product_versions s"
  shows "catalog_ok s' = catalog_ok s"
  using assms by (simp add: catalog_ok_def)

lemma unique_on_update:
  assumes "unique_on t f" and "\<And>r. f (h r) = f r"
  shows "unique_on (t_update t P h) f"
proof -
  have "f (row (t_update t P h) k) = f (row t k)" for k
    by (simp add: row_t_update assms(2))
  with assms(1) show ?thesis by (simp add: unique_on_def)
qed

text \<open>A table the invariant does not speak of.\<close>

lemma keeps_other_table:
  assumes "\<And>f s. catalog_ok (u f s) = catalog_ok s"
  shows "keeps catalog_ok (db_create g u r)" "keeps catalog_ok (db_save g u k h)" "keeps catalog_ok (db_get_or_create m g u P r)"
  by (simp_all add: keeps_def assms db_get_or_create_run)

lemma other_tables [simp]:
  "catalog_ok (s\<lparr>platforms := a\<rparr>) = catalog_ok s" "catalog_ok (s\<lparr>course_languages := b\<rparr>) = catalog_ok s"
  by (rule catalog_ok_tables; simp)+

lemma keeps_get_platform: "keeps catalog_ok (get_or_create_platform name)"
  unfolding get_or_create_platform_def
  by (intro keeps_intros keeps_other_table catalog_ok_tables) simp_all

lemma keeps_deactivate: "keeps catalog_ok (deactivate_missing_course_runs now codes platform)"
  by (rule keepsI) (simp add: deactivate_missing_run catalog_ok_def unique_on_update)

lemma keeps_get_course: "keeps catalog_ok (get_or_create_external_course platform x)"
proof (rule keepsI)
  fix s :: "'a shop_db_scheme" assume ok: "catalog_ok s"
  show "catalog_ok (snd (get_or_create_external_course platform x s))"
  proof (cases "matching (courses s) (\<lambda>_ c. course_external_course_id c = xc_course_code x \<and> course_platform c = platform \<and> course_is_external c)")
    case Nil
    with ok show ?thesis
      by (auto simp: get_or_create_external_course_def bindp_run catalog_ok_def t_exists_iff intro!: unique_on_create)
  next
    case (Cons k ks)
    with ok show ?thesis by (cases ks) (simp_all add: get_or_create_external_course_def bindp_run)
  qed
qed

lemma keeps_run_create: "keeps catalog_ok (course_run_create now r)"
proof (rule keepsI)
  fix s :: "'a shop_db_scheme" assume ok: "catalog_ok s"
  show "catalog_ok (snd (course_run_create now r s))"
  proof (cases "course_run_clean now r")
    case (Inr u)
    show ?thesis
    proof (cases "course_run_unique s (next_pk (course_runs s)) r")
      case (Inr v)
      then have "\<forall>k \<in> set (pks (course_runs s)). run_courseware_id (row (course_runs s) k) \<noteq> run_courseware_id r"
        "\<forall>k \<in> set (pks (course_runs s)). (run_course (row (course_runs s) k), run_run_tag (row (course_runs s) k)) \<noteq> (run_course r, run_run_tag r)"
        using ok wf_table_fresh [of "course_runs s"]
        by (auto simp: course_run_unique_def t_exists_iff catalog_ok_def split: if_splits)
      with ok have "unique_on (snd (t_create (course_runs s) r)) run_courseware_id"
        "unique_on (snd (t_create (course_runs s) r)) (\<lambda>r. (run_course r, run_run_tag r))"
        unfolding catalog_ok_def by (intro unique_on_create; blast)+
      with ok \<open>course_run_clean now r = Inr u\<close> Inr show ?thesis
        by (simp add: course_run_create_def bindp_run thenp_run catalog_ok_def)
    qed (use ok Inr in \<open>simp add: course_run_create_def bindp_run thenp_run\<close>)
  qed (use ok in \<open>simp add: course_run_create_def bindp_run thenp_run\<close>)
qed

lemma keeps_run_save:
  assumes "\<And>r. (run_courseware_id (f r), run_course (f r), run_run_tag (f r)) = (run_courseware_id r, run_course r, run_run_tag r)"
  shows "keeps catalog_ok (course_run_save now k f)"
  using assms
  by (auto simp: keeps_def course_run_save_def bindp_run thenp_run catalog_ok_def unique_on_t_save split: sum.split)

lemma keeps_run: "keeps catalog_ok (create_or_update_external_course_run now course x)"
  unfolding create_or_update_external_course_run_def
  by (intro keeps_intros keeps_run_create keeps_run_save) simp

lemma keeps_product: "keeps catalog_ok (update_or_create_product run)"
proof (rule keepsI)
  fix s :: "'a shop_db_scheme" assume ok: "catalog_ok s"
  show "catalog_ok (snd (update_or_create_product run s))"
  proof (cases "t_first (products s) (\<lambda>_ p. prod_content p = CourseRunContent run)")
    case None
    with ok show ?thesis
      by (auto simp: update_or_create_product_def product_save_def bindp_run thenp_run catalog_ok_def t_exists_iff
          intro!: unique_on_create split: sum.split)
  next
    case (Some k)
    with ok show ?thesis
      by (auto simp: update_or_create_product_def bindp_run thenp_run catalog_ok_def unique_on_t_save split: sum.split)
  qed
qed

lemma keeps_version: "is_cents (pv_price v) \<Longrightarrow> keeps catalog_ok (product_version_save now v)"
  by (auto simp: keeps_def product_version_save_def bindp_run catalog_ok_def row_t_create split: sum.split)

lemma keeps_price: "keeps catalog_ok (sync_price now x run)"
  unfolding sync_price_def create_or_update_product_and_product_version_def Let_def
  by (intro keeps_intros keeps_product keeps_version) simp_all


text \<open>The steps for the pages write none of the tables of the catalogue.\<close>

definition catalog_tables where
  "catalog_tables s = (courses s, course_runs s, products s, product_versions s)"

definition reads_catalog :: "('z shop_db_scheme \<Rightarrow> bool) \<Rightarrow> bool" where
  "reads_catalog I \<longleftrightarrow> (\<forall>s s'. catalog_tables s' = catalog_tables s \<longrightarrow> I s' = I s)"

lemma reads_catalog_other:
  assumes "reads_catalog I" and "\<And>f s. catalog_tables (u f s) = catalog_tables s"
  shows "keeps I (db_create g u r)" "keeps I (db_save g u k h)" "keeps I (db_get_or_create m g u P r)"
proof -
  have "I (u f s) = I s" for f s
    by (rule assms(1) [unfolded reads_catalog_def, rule_format]) (rule assms(2))
  then show "keeps I (db_create g u r)" "keeps I (db_save g u k h)" "keeps I (db_get_or_create m g u P r)"
    by (simp_all add: keeps_def db_get_or_create_run)
qed

lemma catalog_tables_other [simp]:
  fixes s :: "'z external_db_scheme"
  shows "catalog_tables (external_pages_update a s) = catalog_tables s" "catalog_tables (child_pages_update b s) = catalog_tables s"
    "catalog_tables (certificate_pages_update c s) = catalog_tables s" "catalog_tables (course_languages_update d s) = catalog_tables s"
    "catalog_tables (platforms_update e s) = catalog_tables s"
  by (simp_all add: catalog_tables_def)

lemma keeps_language_catalog: "reads_catalog I \<Longrightarrow> keeps I (get_or_create_language language)"
  for I :: "'z external_db_scheme \<Rightarrow> bool"
  unfolding get_or_create_language_def by (intro keeps_intros reads_catalog_other) simp_all

lemma keeps_page_catalog: "reads_catalog I \<Longrightarrow> keeps I (update_page_and_topic km course x)"
  for I :: "'z external_db_scheme \<Rightarrow> bool"
  unfolding update_page_and_topic_def create_or_update_external_course_page_def add_topic_def save_page_revision_def Let_def
  by (intro keeps_intros reads_catalog_other keeps_language_catalog) simp_all

lemma keeps_child_catalog: "reads_catalog I \<Longrightarrow> keeps I (add_child_page page t wanted heading texts)"
  for I :: "'z external_db_scheme \<Rightarrow> bool"
  unfolding add_child_page_def by (intro keeps_intros reads_catalog_other) simp_all

lemma keeps_certificate_catalog: "reads_catalog I \<Longrightarrow> keeps I (create_or_update_certificate_page page x)"
  for I :: "'z external_db_scheme \<Rightarrow> bool"
  unfolding create_or_update_certificate_page_def by (intro keeps_intros reads_catalog_other) simp_all

lemma keeps_pages_catalog: "reads_catalog I \<Longrightarrow> keeps I (sync_pages km course x)"
  for I :: "'z external_db_scheme \<Rightarrow> bool"
  unfolding sync_pages_def Let_def create_learning_outcomes_page_def create_who_should_enroll_in_page_def
    create_course_overview_page_def create_common_child_pages_def create_and_add_section_def
  by (intro keeps_intros keeps_page_catalog keeps_child_catalog keeps_certificate_catalog)

lemma keeps_pages: "keeps (catalog_ok :: 'z external_db_scheme \<Rightarrow> bool) (sync_pages km course x)"
  by (rule keeps_pages_catalog) (simp add: reads_catalog_def catalog_tables_def catalog_ok_def)

lemma keeps_record: "keeps (catalog_ok :: 'z external_db_scheme \<Rightarrow> bool) (sync_record now strptime km platform j)"
  unfolding sync_record_def sync_course_run_def
  by (intro keeps_intros keeps_get_course keeps_run keeps_price keeps_pages)

lemma keeps_external_sync: "keeps (catalog_ok :: 'z external_db_scheme \<Rightarrow> bool) (update_external_course_runs now strptime km js)"
  unfolding update_external_course_runs_def
  by (intro keeps_intros keeps_get_platform keeps_deactivate keeps_record)

lemma keeps_vendor: "keeps (catalog_ok :: 'z external_db_scheme \<Rightarrow> bool) (sync_vendor env km vendor_name fetched)"
  unfolding sync_vendor_def send_external_data_sync_email_def emit_def
  by (intro keeps_intros keeps_external_sync catalog_ok_tables) (simp add: catalog_ok_def)

lemma sync_platforms_ok:
  "sync_platforms env ks s = Some (r, s') \<Longrightarrow> catalog_ok s \<Longrightarrow> r = Inr () \<and> catalog_ok s'"
proof (induction env ks s arbitrary: r s' rule: sync_platforms.induct)
  case (2 env k ks s)
  let ?run = "\<lambda>km name fetched. try_catch (bindp (sync_vendor env km name fetched) (\<lambda>_. ret ())) (\<lambda>_. ret ())"
  have "catalog_ok (snd (?run km name fetched s))" for km name fetched
  proof -
    have "keeps catalog_ok (?run km name fetched)" by (intro keeps_intros keeps_vendor)
    with 2(4) show ?thesis unfolding keeps_def by blast
  qed
  with 2 show ?case
    by (auto simp: Let_def split: option.splits)
qed simp


text \<open>
  The task that synchronises all vendors, if it does not wait for ever, returns (the exceptions of a vendor end the work on that vendor only), and
  whatever the reports of the vendors hold and wherever a synchronisation breaks off, the catalogue stays sound: readable ids of courses, ids of
  runs and run tags of a course stay unique, no run or program gets a second product, and prices are whole cents.
\<close>

theorem external_sync_keeps_catalog:
  fixes s :: "'z external_db_scheme"
  assumes "catalog_ok s" and "task_sync_external_course_runs env s = Some (r, s')"
  shows "r = Inr () \<and> catalog_ok s'"
  using assms sync_platforms_ok unfolding task_sync_external_course_runs_def by blast

section \<open>What one record leaves behind\<close>














section \<open>Concrete inputs\<close>

text \<open>
  The platform Emeritus with an external course, its run (live, not reported any more), the run's product, and a page of the course
  whose topic is known; the record reports another run of the course.
\<close>

definition example_content :: page_content where
  "example_content = \<lparr>pc_external_marketing_url = ''old'', pc_duration = ''5 Weeks'', pc_min_weeks = 5, pc_max_weeks = 5,
     pc_description = ''d'', pc_background_image = None, pc_thumbnail_image = None, pc_language = Some 1\<rparr>"

definition example_page :: external_page_row where
  "example_page = \<lparr>xp_course = 3, xp_title = ''T'', xp_subhead = [], xp_format = None, xp_topics = [], xp_published = example_content,
     xp_latest = example_content, xp_has_unpublished_changes = False\<rparr>"

definition example_record :: external_course_json where
  "example_record = \<lparr>xj_program_name = Some ''T'', xj_course_code = Some ''MO-DBIP'', xj_course_run_code = Some ''MO-DBIP.ELE-99-07#1'',
     xj_list_price = Some (9999 / 1000), xj_list_currency = Some ''USD'', xj_start_date = Some ''s'', xj_end_date = Some ''e'', xj_enrollment_end_date = None,
     xj_landing_page_url = Some ''new'', xj_total_weeks = Some 5, xj_language = None, xj_description = None, xj_format = None,
     xj_category = Some ''tech'', xj_image_name = None, xj_ceu = None, xj_learning_outcomes = None, xj_program_for = None\<rparr>"

definition example_strptime :: "string \<Rightarrow> exn + int" where
  "example_strptime d = (if d = ''s'' then Inr 1000000 else if d = ''e'' then Inr 2000000 else Inl (ValueError ''strptime''))"

definition example_external :: "unit external_db_scheme" where
  "example_external = shop_db.extend
     (example_shop\<lparr>
        platforms := table_of \<lparr>plat_name = [], plat_enable_sync = False\<rparr>
          [\<lparr>plat_name = ''xPRO'', plat_enable_sync = False\<rparr>, \<lparr>plat_name = ''Emeritus'', plat_enable_sync = True\<rparr>],
        course_languages := table_of \<lparr>lang_name = [], lang_priority = None, lang_is_active = True\<rparr>
          [\<lparr>lang_name = ''English'', lang_priority = Some 1, lang_is_active = True\<rparr>],
        topics := table_of \<lparr>topic_name = [], topic_parent = None\<rparr> [\<lparr>topic_name = ''Tech'', topic_parent = None\<rparr>],
        courses := table_of (example_course [] None None)
          [example_course ''c1'' (Some 1) (Some 1), example_course ''c2'' (Some 1) (Some 2),
           (example_course ''course-v1:xPRO+DBIP'' None None)\<lparr>course_is_external := True, course_external_course_id := ''MO-DBIP'', course_platform := 2\<rparr>],
        course_runs := table_of (example_run 0 [] [])
          [example_run 1 ''c1-R1'' ''R1'', example_run 2 ''c2-R1'' ''R1'',
           (example_run 3 ''course-v1:xPRO+DBIP+98-07-1'' ''98-07-1'')\<lparr>run_external_course_run_id := ''MO-DBIP.ELE-98-07#1''\<rparr>],
        products := table_of (example_product (OtherContent [] 0))
          [example_product (CourseRunContent 2), example_product (ProgramContent 1), example_product (CourseRunContent 3)]\<rparr>)
     (external_db.fields (table_of example_page [example_page])
        (empty_table \<lparr>chp_parent = 0, chp_type = ForTeamsPage, chp_heading = [], chp_texts = []\<rparr>)
        (empty_table \<lparr>cpg_parent = 0, cpg_product_name = [], cpg_published_ceus = None, cpg_latest_ceus = None,
           cpg_has_unpublished_changes = False\<rparr>)
        (empty_table \<lparr>cmp_type = ForTeamsPage, cmp_platform = None, cmp_live = False, cmp_title = [], cmp_texts = []\<rparr>)
        (empty_table \<lparr>img_title = [], img_created_at = 0\<rparr>))"

definition example_external_course :: external_course where
  "example_external_course = projr (parse_external_course example_strptime example_record)"

definition example_sync_client :: sync_client where
  "example_sync_client =
     \<lparr>get_queries_list = Inr [(''Other'', 1), (''Batch'', 2)],
      get_query_response = (\<lambda>_. Inr \<lparr>qr_job = Some 7, qr_rows = None\<rparr>),
      get_job_status = (\<lambda>_ n. Inr (if n = 0 then 1 else job_ready, 5)),
      get_query_result = (\<lambda>_. Inr \<lparr>qr_job = None, qr_rows = Some [example_record]\<rparr>)\<rparr>"

definition example_sync_env :: sync_env where
  "example_sync_env = \<lparr>se_now = 100, se_strptime = example_strptime, se_without_links = (\<lambda>c. c), se_recipients = [''r@x.org''],
     se_client = (\<lambda>_. example_sync_client)\<rparr>"

lemma example_external_tables:
  "wf_table (courses example_external)" "wf_table (course_runs example_external)" "wf_table (products example_external)"
  "wf_table (product_versions example_external)" "wf_table (course_languages example_external)"
  by (simp_all add: example_external_def shop_db.extend_def external_db.fields_def example_shop_def example_xpro_def)

lemma example_catalog_ok: "catalog_ok example_external"
proof -
  have "unique_on (courses example_external) course_readable_id" "unique_on (course_runs example_external) run_courseware_id"
    "unique_on (course_runs example_external) (\<lambda>r. (run_course r, run_run_tag r))" "unique_on (products example_external) prod_content"
    unfolding unique_on_def inj_on_def by code_simp+
  moreover have "\<forall>k \<in> set (pks (product_versions example_external)). is_cents (pv_price (row (product_versions example_external) k))"
    by code_simp
  ultimately show ?thesis by (simp add: catalog_ok_def example_external_tables)
qed

lemma poll_job_waits_forever_witness:
  "poll_job (example_sync_client\<lparr>get_job_status := (\<lambda>_ _. Inr (1, 5))\<rparr>) 7 \<lparr>qr_job = Some 7, qr_rows = None\<rparr> 0 = None"
  unfolding poll_job_waits_forever by (simp add: poll_is_final_def job_ready_def job_failed_def job_cancelled_def)

lemma external_run_sync_idempotent_witness:
  "fst (create_or_update_external_course_run 200 3 example_external_course
      (snd (create_or_update_external_course_run 100 3 example_external_course example_external))) = Inr (4, False, False)"
proof -
  have "fst (create_or_update_external_course_run 100 3 example_external_course example_external) = Inr (4, True, False)"
    by code_simp
  then have "create_or_update_external_course_run 100 3 example_external_course example_external =
      (Inr (4, True, False), snd (create_or_update_external_course_run 100 3 example_external_course example_external))"
    by (metis prod.collapse)
  from external_run_sync_idempotent [OF example_external_tables(2) this, of 200] show ?thesis by simp
qed

lemma deactivate_missing_spec_witness:
  "\<not> run_live (row (course_runs (snd (deactivate_missing_course_runs 100 [''MO-DBIP.ELE-99-07#1''] 2 example_external))) 3)"
proof -
  have "is_missing example_external 100 [''MO-DBIP.ELE-99-07#1''] 2 3" "3 \<in> set (pks (course_runs example_external))" by code_simp+
  with deactivate_missing_spec [OF prod.collapse [symmetric], of 100 "[''MO-DBIP.ELE-99-07#1'']" 2 example_external]
  show ?thesis by simp
qed

lemma price_version_on_every_sync_witness:
  "\<exists>s''. create_or_update_product_and_product_version 200 (9999 / 1000) 1
      (snd (create_or_update_product_and_product_version 100 (9999 / 1000) 1 example_external)) = (Inr (False, True), s'')"
proof -
  have "fst (create_or_update_product_and_product_version 100 (9999 / 1000) 1 example_external) = Inr (True, True)" by code_simp
  then have run: "create_or_update_product_and_product_version 100 (9999 / 1000) 1 example_external =
      (Inr (True, True), snd (create_or_update_product_and_product_version 100 (9999 / 1000) 1 example_external))"
    by (metis prod.collapse)
  have "\<forall>k \<in> set (pks (product_versions example_external)). pv_created_on (row (product_versions example_external) k) < 100"
    "\<not> is_cents (9999 / 1000)" by code_simp+
  with price_version_on_every_sync [OF example_external_tables(3,4) _ _ _ run, of 200] example_catalog_ok show ?thesis
    by (auto simp: catalog_ok_def)
qed

lemma unknown_language_named_blank_witness:
  "fst (get_or_create_language ''French'' (snd (get_or_create_language ''French'' example_external))) =
     Inl (IntegrityError ''unique_language_name'')"
proof -
  have f: "fst (get_or_create_language ''French'' example_external) = Inr (2, True)" "named_like example_external ''French'' = []"
    by code_simp+
  then have run: "get_or_create_language ''French'' example_external = (Inr (2, True), snd (get_or_create_language ''French'' example_external))"
    by (metis prod.collapse)
  from unknown_language_named_blank [OF example_external_tables(5) run] f(2) show ?thesis by simp
qed

lemma topic_undoes_page_update_witness:
  "xp_published (row (external_pages (snd (update_page_and_topic emeritus_keymap 3 example_external_course example_external))) 1) = example_content"
proof -
  have "t_first (external_pages example_external) (\<lambda>_ p. xp_course p = 3) = Some 1"
    "named_like example_external (xc_language example_external_course) = [1]" "truthy (xc_category example_external_course)"
    "topic_of example_external example_external_course = Some 1" by code_simp+
  note here = this
  from page_topic_run [OF here, of emeritus_keymap] obtain r where
    "update_page_and_topic emeritus_keymap 3 example_external_course example_external =
      (Inr r, snd (update_page_and_topic emeritus_keymap 3 example_external_course example_external))" by auto
  from topic_undoes_page_update [OF here this] have "row (external_pages (snd (update_page_and_topic emeritus_keymap 3 example_external_course example_external))) 1 =
      with_topic 1 (row (external_pages example_external) 1)" by simp
  moreover have "row (external_pages example_external) 1 = example_page" by code_simp
  ultimately show ?thesis by (simp add: with_topic_def example_page_def)
qed

lemma record_without_code_stops_sync_witness:
  "\<exists>e. fst (update_external_course_runs 100 example_strptime emeritus_keymap
      (Some ([] @ example_record\<lparr>xj_course_code := None\<rparr> # [example_record])) example_external) = Inl e"
proof -
  have "lacks_code (example_record\<lparr>xj_course_code := None\<rparr>)" by (simp add: lacks_code_def truthy_def)
  from record_without_code_stops_sync [OF this prod.collapse [symmetric]] show ?thesis by blast
qed


lemma external_sync_keeps_catalog_witness:
  "catalog_ok (snd (the (task_sync_external_course_runs example_sync_env example_external)))"
proof -
  have "matching (platforms example_external) (\<lambda>_. plat_enable_sync) = [2]"
    "py_lower (plat_name (row (platforms example_external) 2)) = ''emeritus''"
    "map_of EXTERNAL_COURSE_VENDOR_KEYMAPS ''emeritus'' = Some emeritus_keymap" by code_simp+
  moreover have "fetch_external_courses example_sync_client emeritus_keymap = Some (Inr (Some [example_record]))"
    by (simp add: fetch_external_courses_def example_sync_client_def emeritus_keymap_def query_report_def poll_job.simps job_ready_def
        job_failed_def job_cancelled_def)
  ultimately obtain r s' where "task_sync_external_course_runs example_sync_env example_external = Some (r, s')"
    by (simp add: task_sync_external_course_runs_def example_sync_env_def Let_def)
  with external_sync_keeps_catalog [OF example_catalog_ok this] show ?thesis by simp
qed

end
