(* ===== verification/Accounts.thy ===== *)
theory Accounts
  imports Courseware
begin

text \<open>
  Registration, login and accounts (\<open>authentication/\<close>, \<open>compliance/\<close>, \<open>users/serializers.py\<close>, \<open>users/utils.py\<close> and the
  commands of \<open>users/management\<close>): the export check, the validation of addresses and profiles, the
  steps of the login pipeline in their order, the states that are reported to the browser, changing an
  address, blocking and retiring users. The steps of the pipeline that belong to social-auth, the generation of free user
  names, pycountry, the hash and encryption functions and the Cybersource service are parameters.
\<close>

section \<open>Tables\<close>

record exports_inquiry_row =
  ei_user :: nat
  ei_computed_result :: string
  ei_reason_code :: int
  ei_info_code :: "string option"
  ei_encrypted_request :: string
  ei_encrypted_response :: string
  ei_created_on :: int

record change_email_row =
  cer_user :: nat
  cer_new_email :: string
  cer_code :: string
  cer_confirmed :: bool
  cer_expires_on :: int

record social_auth_row =
  sa_user :: nat
  sa_provider :: string
  sa_uid :: string

record auth_db = users_db +
  exports_inquiries :: "exports_inquiry_row table"
  block_list :: "string table"
  change_email_requests :: "change_email_row table"
  social_auths :: "social_auth_row table"

interpretation exports_inquiries_tb: db_table exports_inquiries exports_inquiries_update by unfold_locales simp_all
interpretation block_list_tb: db_table block_list block_list_update by unfold_locales simp_all
interpretation change_email_requests_tb: db_table change_email_requests change_email_requests_update by unfold_locales simp_all
interpretation social_auths_tb: db_table social_auths social_auths_update by unfold_locales simp_all

section \<open>The export check\<close>

definition RESULT_SUCCESS :: string where "RESULT_SUCCESS = ''SUCCESS''"
definition RESULT_MANUALLY_APPROVED :: string where "RESULT_MANUALLY_APPROVED = ''MANUALLY_APPROVED''"
definition RESULT_DENIED :: string where "RESULT_DENIED = ''DENIED''"
definition RESULT_UNKNOWN :: string where "RESULT_UNKNOWN = ''UNKNOWN''"

definition REASON_CODE_SUCCESS :: int where "REASON_CODE_SUCCESS = 100"

definition INVALID_REQUEST_REASON_CODES :: "int list" where "INVALID_REQUEST_REASON_CODES = [101, 102]"
definition CYBERSOURCE_BACKEND_FAILURE_REASON_CODES :: "int list" where
  "CYBERSOURCE_BACKEND_FAILURE_REASON_CODES = [150, 151, 152]"
definition CYBERSOURCE_CONFIG_ERROR_REASON_CODES :: "int list" where "CYBERSOURCE_CONFIG_ERROR_REASON_CODES = [234]"

definition TEMPORARY_FAILURE_REASON_CODES :: "int list" where
  "TEMPORARY_FAILURE_REASON_CODES =
     INVALID_REQUEST_REASON_CODES @ CYBERSOURCE_BACKEND_FAILURE_REASON_CODES @ CYBERSOURCE_CONFIG_ERROR_REASON_CODES"

definition EXPORTS_BLOCKED_REASON_CODES :: "int list" where "EXPORTS_BLOCKED_REASON_CODES = [700, 701, 702, 703]"

definition is_denied :: "exports_inquiry_row \<Rightarrow> bool" where
  "is_denied i \<longleftrightarrow> ei_computed_result i = RESULT_DENIED"

definition is_success :: "exports_inquiry_row \<Rightarrow> bool" where
  "is_success i \<longleftrightarrow> ei_computed_result i \<in> {RESULT_SUCCESS, RESULT_MANUALLY_APPROVED}"

definition is_unknown :: "exports_inquiry_row \<Rightarrow> bool" where
  "is_unknown i \<longleftrightarrow> ei_computed_result i = RESULT_UNKNOWN"

text \<open>
  What the check is made with: the four settings it requires, the answer of the service to a payload (the texts of the request and the
  answer as they were sent, the reason code and the export reply with its info code, if there is one, or an exception of the client), and the encryption of texts.
\<close>

record export_reply =
  er_request :: string
  er_response :: string
  er_reason_code :: int
  er_export_reply :: "string option option"

record export_service =
  ex_settings :: "string list"
  ex_run_transaction :: "nat \<Rightarrow> (string \<times> string) list \<Rightarrow> exn + export_reply"
  ex_encrypt :: "string \<Rightarrow> exn + string"

definition is_exports_verification_enabled :: "export_service \<Rightarrow> bool" where
  "is_exports_verification_enabled ex \<longleftrightarrow> list_all (\<lambda>v. v \<noteq> []) (ex_settings ex)"

definition compute_result_from_codes :: "int \<Rightarrow> string option \<Rightarrow> string" where
  "compute_result_from_codes reason_code info_code =
     (if reason_code \<in> set EXPORTS_BLOCKED_REASON_CODES \<or> info_code \<noteq> None \<and> info_code \<noteq> Some [] then RESULT_DENIED
      else if reason_code = REASON_CODE_SUCCESS then RESULT_SUCCESS else RESULT_UNKNOWN)"

definition log_exports_inquiry ::
  "export_service \<Rightarrow> int \<Rightarrow> nat \<Rightarrow> export_reply \<Rightarrow> ('z auth_db_scheme, nat option) prog" where
  "log_exports_inquiry ex now user r =
     (if er_reason_code r \<in> set TEMPORARY_FAILURE_REASON_CODES then ret None
      else
        bindp (lift_result (case er_export_reply r of None \<Rightarrow> Inl (AttributeError ''infoCode'') | Some i \<Rightarrow> Inr i)) (\<lambda>info_code.
        bindp (lift_result (ex_encrypt ex (er_request r))) (\<lambda>encrypted_request.
        bindp (lift_result (ex_encrypt ex (er_response r))) (\<lambda>encrypted_response.
        bindp (db_create exports_inquiries exports_inquiries_update
          \<lparr>ei_user = user, ei_computed_result = compute_result_from_codes (er_reason_code r) info_code,
           ei_reason_code = er_reason_code r, ei_info_code = info_code, ei_encrypted_request = encrypted_request,
           ei_encrypted_response = encrypted_response, ei_created_on = now\<rparr>) (\<lambda>k. ret (Some k))))))"

definition legal_address_of :: "'z users_db_scheme \<Rightarrow> nat \<Rightarrow> exn + nat" where
  "legal_address_of s user = t_get ''LegalAddress'' (legal_addresses s) (\<lambda>_ a. la_user a = user)"

definition profile_of :: "'z users_db_scheme \<Rightarrow> nat \<Rightarrow> exn + nat" where
  "profile_of s user = t_get ''Profile'' (profiles s) (\<lambda>_ p. prof_user p = user)"

text \<open>The state of an address is kept as in \<open>US-MA\<close>; the part after the dash is sent.\<close>

definition get_bill_to_address :: "string \<Rightarrow> legal_address_row \<Rightarrow> exn + (string \<times> string) list" where
  "get_bill_to_address email a =
     rbind (if la_state_or_territory a = [] then Inr []
            else (case py_split (CHR ''-'') (la_state_or_territory a) of
                    _ # state # _ \<Rightarrow> Inr [(''state'', state)] | _ \<Rightarrow> Inl IndexError)) (\<lambda>state.
     Inr ([(''firstName'', la_first_name a), (''lastName'', la_last_name a), (''email'', email),
           (''street1'', la_street_address_1 a), (''street2'', la_street_address_2 a), (''street3'', la_street_address_3 a),
           (''street4'', la_street_address_4 a), (''city'', la_city a), (''country'', la_country a)] @ state @
          (if la_postal_code a = [] then [] else [(''postalCode'', la_postal_code a)])))"

definition verify_user_with_exports :: "export_service \<Rightarrow> int \<Rightarrow> nat \<Rightarrow> ('z auth_db_scheme, nat option) prog" where
  "verify_user_with_exports ex now user =
     bindp (asks (\<lambda>s. rbind (legal_address_of s user) (\<lambda>a.
         get_bill_to_address (user_email (row (users s) user)) (row (legal_addresses s) a)))) (\<lambda>bill_to.
     bindp (lift_result bill_to) (\<lambda>bill_to.
     bindp (lift_result (ex_run_transaction ex user bill_to)) (log_exports_inquiry ex now user)))"

definition get_latest_exports_inquiry :: "'z auth_db_scheme \<Rightarrow> nat \<Rightarrow> nat option" where
  "get_latest_exports_inquiry s user =
     first_of (order_by_desc (\<lambda>k. ei_created_on (row (exports_inquiries s) k))
       (matching (exports_inquiries s) (\<lambda>_ i. ei_user i = user)))"

text \<open>\<open>ensure_active_user\<close>; a failing repair is logged.\<close>

definition ensure_active_user :: "edx_service \<Rightarrow> int \<Rightarrow> nat \<Rightarrow> ('z users_db_scheme, unit) prog" where
  "ensure_active_user sv now user =
     bindp (asks (\<lambda>s. user_is_active (row (users s) user))) (\<lambda>is_active.
     thenp (whenp (\<not> is_active) (db_save users users_update user (\<lambda>u. u\<lparr>user_is_active := True\<rparr>)))
    (bindp (asks (\<lambda>s. user \<in> set (faulty_courseware_users s))) (\<lambda>faulty.
     whenp faulty (try_catch (bindp (repair_faulty_edx_user sv now user) (\<lambda>_. ret ())) (\<lambda>_. ret ())))))"

definition manually_approve_inquiry :: "edx_service \<Rightarrow> int \<Rightarrow> nat list \<Rightarrow> ('z auth_db_scheme, unit) prog" where
  "manually_approve_inquiry sv now queryset =
     bindp (asks (\<lambda>s. filter (\<lambda>k. ei_computed_result (row (exports_inquiries s) k) \<notin> {RESULT_MANUALLY_APPROVED, RESULT_SUCCESS})
         queryset)) (\<lambda>eligible_objects.
     thenp (for_each eligible_objects (\<lambda>k.
              bindp (asks (\<lambda>s. ei_user (row (exports_inquiries s) k))) (ensure_active_user sv now)))
       (db_update exports_inquiries exports_inquiries_update
          (\<lambda>k i. k \<in> set queryset \<and> ei_computed_result i \<notin> {RESULT_MANUALLY_APPROVED, RESULT_SUCCESS})
          (\<lambda>i. i\<lparr>ei_computed_result := RESULT_MANUALLY_APPROVED\<rparr>)))"

section \<open>Addresses and profiles\<close>

text \<open>
  What the fields of a serializer make of a value: it may be missing or blank only where the field allows it, the
  spaces around it are dropped, and its length is limited. An error is a field with a message; all fields are checked.
\<close>

type_synonym field_errors = "(string \<times> string) list"

definition char_field :: "bool \<Rightarrow> bool \<Rightarrow> nat \<Rightarrow> string \<Rightarrow> string option \<Rightarrow> field_errors + string option" where
  "char_field required allow_blank max_length name v =
     (case v of
        None \<Rightarrow> if required then Inl [(name, ''This field is required.'')] else Inr None
      | Some value \<Rightarrow>
          (let value = py_strip value
           in if value = [] \<and> \<not> allow_blank then Inl [(name, ''This field may not be blank.'')]
              else if max_length < length value then Inl [(name, ''Ensure this field has no more characters.'')]
              else Inr (Some value)))"

definition errors_of :: "field_errors + 'a \<Rightarrow> field_errors" where
  "errors_of r = (case r of Inl e \<Rightarrow> e | Inr _ \<Rightarrow> [])"

definition newline :: char where "newline = CHR 0x0A"

definition name_start_forbidden :: "char list" where
  "name_start_forbidden = ''~!@&)(+:'' @ [CHR 0x27] @ ''.?/,`-''"

definition name_forbidden :: "char list" where
  "name_forbidden = ''/^$#*=[]`%_;<>{}'' @ [CHR 0x22] @ ''|''"

text \<open>
  \<open>USER_NAME_RE.match\<close>: some beginning of the value, up to its end or to a line break (the expression is a multi-line one), holds no
  forbidden character; a line break is not a forbidden one.
\<close>

definition USER_NAME_RE_match :: "string \<Rightarrow> bool" where
  "USER_NAME_RE_match value \<longleftrightarrow>
     value \<noteq> [] \<and> hd value \<notin> set name_start_forbidden \<and>
     list_ex (\<lambda>n. list_all (\<lambda>c. c \<notin> set name_forbidden) (take n value) \<and> (n = length value \<or> value ! n = newline))
       [1..<Suc (length value)]"

definition digit_char :: "char \<Rightarrow> bool" where "digit_char c \<longleftrightarrow> CHR ''0'' \<le> c \<and> c \<le> CHR ''9''"

definition letter_char :: "char \<Rightarrow> bool" where
  "letter_char c \<longleftrightarrow> CHR ''A'' \<le> c \<and> c \<le> CHR ''Z'' \<or> CHR ''a'' \<le> c \<and> c \<le> CHR ''z''"

text \<open>The expression for US postal codes is not tied to the end of the text.\<close>

definition US_POSTAL_RE_match :: "string \<Rightarrow> bool" where
  "US_POSTAL_RE_match s \<longleftrightarrow> 5 \<le> length s \<and> list_all digit_char (take 5 s)"

definition CA_POSTAL_RE_match :: "string \<Rightarrow> bool" where
  "CA_POSTAL_RE_match s \<longleftrightarrow>
     (length s = 7 \<or> length s = 8 \<and> s ! 7 = newline) \<and> letter_char (s ! 0) \<and> digit_char (s ! 1) \<and> letter_char (s ! 2) \<and>
     s ! 3 = CHR '' '' \<and> digit_char (s ! 4) \<and> letter_char (s ! 5) \<and> digit_char (s ! 6)"

text \<open>
  The address of a request: for each field whether it was sent. The street comes as a list of lines, or as something else (\<open>Some None\<close>).
  \<open>pycountry\<close> gives the code and name of a country, and the country and name of a subdivision.
\<close>

record address_data =
  ad_first_name :: "string option"
  ad_last_name :: "string option"
  ad_street_address :: "string list option option"
  ad_lines :: "string option list"
  ad_city :: "string option"
  ad_country :: "string option"
  ad_vat_id :: "string option"
  ad_state_or_territory :: "string option"
  ad_postal_code :: "string option"

record geo_names =
  country_of_code :: "string \<Rightarrow> (string \<times> string) option"
  subdivision_of_code :: "string \<Rightarrow> (string \<times> string) option"

definition validate_user_name :: "string \<Rightarrow> string \<Rightarrow> field_errors + string option \<Rightarrow> field_errors + string option" where
  "validate_user_name name label r =
     (case r of
        Inr (Some value) \<Rightarrow> if value \<noteq> [] \<and> \<not> USER_NAME_RE_match value then Inl [(name, label @ '' is not valid'')] else r
      | _ \<Rightarrow> r)"

definition validate_street_address :: "string list option option \<Rightarrow> field_errors + string list option" where
  "validate_street_address v =
     (case v of
        None \<Rightarrow> Inr None
      | Some None \<Rightarrow> Inl [(''street_address'', ''street_address must be a list of street lines'')]
      | Some (Some value) \<Rightarrow>
          if value = [] then Inl [(''street_address'', ''street_address must be a list of street lines'')]
          else if 5 < length value then Inl [(''street_address'', ''street_address list must be 5 items or less'')]
          else if list_ex (\<lambda>line. 60 < length line) value
          then Inl [(''street_address'', ''street_address lines must be 60 characters or less'')]
          else Inr (Some value))"

text \<open>\<open>LegalAddressSerializer.validate\<close>, for the fields that passed. A country or state that is missing (in a partial update) is a \<open>KeyError\<close>.\<close>

definition validate_address_region :: "geo_names \<Rightarrow> string option \<Rightarrow> string option \<Rightarrow> string option \<Rightarrow> exn + field_errors" where
  "validate_address_region g country state_or_territory postal_code =
     (case country of
        None \<Rightarrow> Inl (KeyError ''country'')
      | Some country_code \<Rightarrow>
          (case country_of_code g country_code of
             None \<Rightarrow> Inr []
           | Some (alpha_2, country_name) \<Rightarrow>
               if alpha_2 \<notin> {''US'', ''CA''} then Inr []
               else (case state_or_territory of
                       None \<Rightarrow> Inl (KeyError ''state_or_territory'')
                     | Some code \<Rightarrow>
                         Inr ((case subdivision_of_code g code of
                                 None \<Rightarrow> [(''state_or_territory'', ''State/territory is required for '' @ country_name)]
                               | Some (c, name) \<Rightarrow>
                                   if c \<noteq> alpha_2
                                   then [(''state_or_territory'', name @ '' is not a valid state or territory of '' @ country_name)]
                                   else []) @
                              (if postal_code = None \<or> postal_code = Some []
                               then [(''postal_code'', ''Postal Code is required for '' @ country_name)]
                               else if alpha_2 = ''US'' \<and> \<not> US_POSTAL_RE_match (the postal_code)
                               then [(''postal_code'', ''Postal Code must be in the format NNNNN or NNNNN-NNNNN'')]
                               else if alpha_2 = ''CA'' \<and> \<not> CA_POSTAL_RE_match (the postal_code)
                               then [(''postal_code'', ''Postal Code must be in the format ANA NAN'')] else [])))))"

text \<open>The validated address: what was sent, with the street lines under their numbers; a line sent under its number counts more.\<close>

definition legal_address_is_valid :: "geo_names \<Rightarrow> bool \<Rightarrow> address_data \<Rightarrow> exn + field_errors + address_data" where
  "legal_address_is_valid g partial d =
     (let req = \<not> partial;
          first_name = validate_user_name ''first_name'' ''First name'' (char_field req False 60 ''first_name'' (ad_first_name d));
          last_name = validate_user_name ''last_name'' ''Last name'' (char_field req False 60 ''last_name'' (ad_last_name d));
          street = validate_street_address (ad_street_address d);
          line_fields = map (char_field False True 60 ''street_address_n'') (ad_lines d);
          city = char_field req False 50 ''city'' (ad_city d);
          country = char_field req False 2 ''country'' (ad_country d);
          vat_id = char_field False True 255 ''vat_id'' (ad_vat_id d);
          state = char_field req True 255 ''state_or_territory'' (ad_state_or_territory d);
          postal_code = char_field req True 10 ''postal_code'' (ad_postal_code d);
          errors = errors_of first_name @ errors_of last_name @ errors_of street @ concat (map errors_of line_fields) @ errors_of city @
            errors_of country @ errors_of vat_id @ errors_of state @ errors_of postal_code
      in if errors \<noteq> [] then Inr (Inl errors)
         else
           rbind (validate_address_region g (projr country) (projr state) (projr postal_code)) (\<lambda>errors.
           if errors \<noteq> [] then Inr (Inl errors)
           else Inr (Inr
             \<lparr>ad_first_name = projr first_name, ad_last_name = projr last_name, ad_street_address = None,
              ad_lines = map (\<lambda>i. case (projr (line_fields ! i), projr street) of
                  (None, Some value) \<Rightarrow> if i < length value then Some (value ! i) else None
                | (line, _) \<Rightarrow> line) [0..<5],
              ad_city = projr city, ad_country = projr country, ad_vat_id = projr vat_id,
              ad_state_or_territory = projr state, ad_postal_code = projr postal_code\<rparr>)))"

definition given :: "string option \<Rightarrow> string \<Rightarrow> string" where
  "given v old = (case v of None \<Rightarrow> old | Some x \<Rightarrow> x)"

definition apply_address :: "address_data \<Rightarrow> legal_address_row \<Rightarrow> legal_address_row" where
  "apply_address d a =
     a\<lparr>la_first_name := given (ad_first_name d) (la_first_name a), la_last_name := given (ad_last_name d) (la_last_name a),
       la_street_address_1 := given (ad_lines d ! 0) (la_street_address_1 a),
       la_street_address_2 := given (ad_lines d ! 1) (la_street_address_2 a),
       la_street_address_3 := given (ad_lines d ! 2) (la_street_address_3 a),
       la_street_address_4 := given (ad_lines d ! 3) (la_street_address_4 a),
       la_street_address_5 := given (ad_lines d ! 4) (la_street_address_5 a),
       la_city := given (ad_city d) (la_city a), la_country := given (ad_country d) (la_country a),
       la_vat_id := given (ad_vat_id d) (la_vat_id a),
       la_state_or_territory := given (ad_state_or_territory d) (la_state_or_territory a),
       la_postal_code := given (ad_postal_code d) (la_postal_code a)\<rparr>"

text \<open>Profiles: \<open>Some None\<close> is a null that was sent.\<close>

record profile_data =
  pd_gender :: "string option"
  pd_birth_year :: "int option option"
  pd_company :: "string option"
  pd_job_title :: "string option"
  pd_industry :: "string option"
  pd_job_function :: "string option"
  pd_company_size :: "int option option"
  pd_years_experience :: "int option option"
  pd_leadership_level :: "string option"
  pd_highest_education :: "string option"

definition GENDER_CHOICES :: "string list" where "GENDER_CHOICES = [''m'', ''f'', ''o'']"

definition COMPANY_SIZE_CHOICES :: "int list" where "COMPANY_SIZE_CHOICES = [1, 9, 99, 999, 9999, 10000, 0]"

definition YRS_EXPERIENCE_CHOICES :: "int list" where "YRS_EXPERIENCE_CHOICES = [2, 5, 10, 15, 20, 21, 0]"

definition HIGHEST_EDUCATION_CHOICES :: "string list" where
  "HIGHEST_EDUCATION_CHOICES =
     [''Doctorate'', ''Master'' @ [CHR 0x27] @ ''s or professional degree'', ''Bachelor'' @ [CHR 0x27] @ ''s degree'',
      ''Associate degree'', ''Secondary/high school'', ''Junior secondary/junior high/middle school'',
      ''Elementary/primary school'', ''No formal education'', ''Other education'']"

definition choice_field :: "bool \<Rightarrow> bool \<Rightarrow> string list \<Rightarrow> string \<Rightarrow> string option \<Rightarrow> field_errors + string option" where
  "choice_field required allow_blank choices name v =
     (case v of
        None \<Rightarrow> if required then Inl [(name, ''This field is required.'')] else Inr None
      | Some value \<Rightarrow>
          if value = [] \<and> \<not> allow_blank then Inl [(name, ''This field may not be blank.'')]
          else if value \<noteq> [] \<and> value \<notin> set choices then Inl [(name, ''Not a valid choice.'')] else Inr (Some value))"

definition int_field ::
  "bool \<Rightarrow> bool \<Rightarrow> int list option \<Rightarrow> string \<Rightarrow> int option option \<Rightarrow> field_errors + int option option" where
  "int_field required allow_null choices name v =
     (case v of
        None \<Rightarrow> if required then Inl [(name, ''This field is required.'')] else Inr None
      | Some None \<Rightarrow> if allow_null then Inr v else Inl [(name, ''This field may not be null.'')]
      | Some (Some n) \<Rightarrow>
          if choices \<noteq> None \<and> n \<notin> set (the choices) then Inl [(name, ''Not a valid choice.'')] else Inr v)"

text \<open>\<open>ProfileSerializer\<close> requires the gender, the birth year, the company and the job title; \<open>UserProfileSerializer\<close> nothing.\<close>

definition profile_is_valid :: "bool \<Rightarrow> profile_data \<Rightarrow> field_errors + profile_data" where
  "profile_is_valid strict d =
     (let gender = choice_field strict (\<not> strict) GENDER_CHOICES ''gender'' (pd_gender d);
          birth_year = int_field strict (\<not> strict) None ''birth_year'' (pd_birth_year d);
          company = char_field strict (\<not> strict) 128 ''company'' (pd_company d);
          job_title = char_field strict (\<not> strict) 128 ''job_title'' (pd_job_title d);
          industry = char_field False True 60 ''industry'' (pd_industry d);
          job_function = char_field False True 60 ''job_function'' (pd_job_function d);
          company_size = int_field False True (Some COMPANY_SIZE_CHOICES) ''company_size'' (pd_company_size d);
          years_experience = int_field False True (Some YRS_EXPERIENCE_CHOICES) ''years_experience'' (pd_years_experience d);
          leadership_level = char_field False True 60 ''leadership_level'' (pd_leadership_level d);
          highest_education = choice_field False True HIGHEST_EDUCATION_CHOICES ''highest_education'' (pd_highest_education d);
          errors = errors_of gender @ errors_of birth_year @ errors_of company @ errors_of job_title @ errors_of industry @
            errors_of job_function @ errors_of company_size @ errors_of years_experience @ errors_of leadership_level @
            errors_of highest_education
      in if errors \<noteq> [] then Inl errors
         else Inr \<lparr>pd_gender = projr gender, pd_birth_year = projr birth_year, pd_company = projr company,
                pd_job_title = projr job_title, pd_industry = projr industry, pd_job_function = projr job_function,
                pd_company_size = projr company_size, pd_years_experience = projr years_experience,
                pd_leadership_level = projr leadership_level, pd_highest_education = projr highest_education\<rparr>)"

definition given_value :: "'a option \<Rightarrow> 'a \<Rightarrow> 'a" where
  "given_value v old = (case v of None \<Rightarrow> old | Some x \<Rightarrow> x)"

definition apply_profile :: "profile_data \<Rightarrow> profile_row \<Rightarrow> profile_row" where
  "apply_profile d p =
     p\<lparr>prof_gender := given (pd_gender d) (prof_gender p), prof_birth_year := given_value (pd_birth_year d) (prof_birth_year p),
       prof_company := given (pd_company d) (prof_company p), prof_job_title := given (pd_job_title d) (prof_job_title p),
       prof_industry := given (pd_industry d) (prof_industry p), prof_job_function := given (pd_job_function d) (prof_job_function p),
       prof_company_size := given_value (pd_company_size d) (prof_company_size p),
       prof_years_experience := given_value (pd_years_experience d) (prof_years_experience p),
       prof_leadership_level := given (pd_leadership_level d) (prof_leadership_level p),
       prof_highest_education := given (pd_highest_education d) (prof_highest_education p)\<rparr>"

section \<open>Users\<close>

text \<open>
  What a user is saved with: the services and functions the serializer calls, and the data of a request. A missing
  email or address is \<open>None\<close>, a null one \<open>Some None\<close>.
\<close>

record account_env =
  ae_now :: int
  ae_edx :: edx_service
  ae_geo :: geo_names
  ae_exports :: export_service
  ae_normalize_email :: "string \<Rightarrow> string"
  ae_set_password :: "string \<Rightarrow> string"
  ae_check_password :: "string \<Rightarrow> string \<Rightarrow> bool"
  ae_md5 :: "string \<Rightarrow> string"
  ae_hubspot_token :: bool
  ae_change_email_ttl_minutes :: int
  ae_valid_email :: "string \<Rightarrow> bool"
  ae_unusable_password :: string
  ae_retired_email :: "string \<Rightarrow> string"

record user_data =
  ud_name :: "string option"
  ud_email :: "string option option"
  ud_username :: "string option"
  ud_password :: "string option"
  ud_legal_address :: "address_data option option"
  ud_profile :: "profile_data option option"

definition USER_REGISTRATION_FAILED_MSG :: string where
  "USER_REGISTRATION_FAILED_MSG = ''Unable to register at this time, please try again later''"

definition sync_hubspot_user :: "account_env \<Rightarrow> nat \<Rightarrow> ('z users_db_scheme, unit) prog" where
  "sync_hubspot_user env user = whenp (ae_hubspot_token env) (emit (HubspotSync ''user'' user))"

text \<open>The serializer's fields: the address is required unless the update is partial; the name is checked with the courseware.\<close>

definition nested_address_is_valid :: "geo_names \<Rightarrow> bool \<Rightarrow> address_data option option \<Rightarrow> exn + field_errors + address_data option option" where
  "nested_address_is_valid g partial v =
     (case v of
        None \<Rightarrow> Inr (if partial then Inr None else Inl [(''legal_address'', ''This field is required.'')])
      | Some None \<Rightarrow> Inr (Inr (Some None))
      | Some (Some d) \<Rightarrow>
          rbind (legal_address_is_valid g partial d) (\<lambda>r. Inr (case r of Inl errors \<Rightarrow> Inl errors | Inr a \<Rightarrow> Inr (Some (Some a)))))"

definition user_is_valid :: "account_env \<Rightarrow> bool \<Rightarrow> user_data \<Rightarrow> ('z users_db_scheme, field_errors + user_data) prog" where
  "user_is_valid env partial d =
     bindp (lift_result (nested_address_is_valid (ae_geo env) partial (ud_legal_address d))) (\<lambda>address.
     let name = char_field False True 255 ''name'' (ud_name d);
         password = char_field False False 1000000 ''password'' (ud_password d);
         profile = (case ud_profile d of
             Some (Some p) \<Rightarrow> (case profile_is_valid False p of Inl e \<Rightarrow> Inl e | Inr v \<Rightarrow> Inr (Some (Some v)))
           | v \<Rightarrow> Inr v);
         email = (if ud_email d = Some None then [(''email'', ''This field may not be null.'')] else []);
         errors = errors_of name @ email @ errors_of password @ errors_of address @ errors_of profile
     in if errors \<noteq> [] then ret (Inl errors)
        else
          bindp (if projr name = None \<or> projr name = Some [] then ret []
                 else try_catch
                   (bindp (validate_name_with_edx (ae_edx env) (the (projr name))) (\<lambda>openedx_validation_msg.
                    ret (if openedx_validation_msg = [] then [] else [(''non_field_errors'', USER_REGISTRATION_FAILED_MSG)])))
                   (\<lambda>e. if e = EdxRegistrationValidation then ret [(''non_field_errors'', USER_REGISTRATION_FAILED_MSG)] else raise e))
            (\<lambda>errors.
          if errors \<noteq> [] then ret (Inl errors)
          else ret (Inr \<lparr>ud_name = projr name, ud_email = map_option (map_option (\<lambda>e. py_lower (py_strip e))) (ud_email d),
                  ud_username = ud_username d, ud_password = projr password, ud_legal_address = projr address,
                  ud_profile = projr profile\<rparr>)))"

definition save_address :: "account_env \<Rightarrow> bool \<Rightarrow> nat \<Rightarrow> address_data \<Rightarrow> ('z users_db_scheme, unit) prog" where
  "save_address env raise_exception user d =
     bindp (asks (\<lambda>s. legal_address_of s user)) (\<lambda>a.
     bindp (lift_result a) (\<lambda>a.
     bindp (lift_result (legal_address_is_valid (ae_geo env) False d)) (\<lambda>r.
     case r of
       Inl errors \<Rightarrow> if raise_exception then raise (ValidationError [] ''legal_address'') else ret ()
     | Inr v \<Rightarrow> db_save legal_addresses legal_addresses_update a (apply_address v))))"

definition save_profile :: "bool \<Rightarrow> nat \<Rightarrow> profile_data \<Rightarrow> ('z users_db_scheme, unit) prog" where
  "save_profile raise_exception user d =
     bindp (asks (\<lambda>s. profile_of s user)) (\<lambda>p.
     bindp (lift_result p) (\<lambda>p.
     case profile_is_valid False d of
       Inl errors \<Rightarrow> if raise_exception then raise (ValidationError [] ''profile'') else ret ()
     | Inr v \<Rightarrow> db_save profiles profiles_update p (apply_profile v)))"

text \<open>\<open>UserSerializer.create\<close>: a missing user name, email or password of the validated data is a \<open>KeyError\<close>.\<close>

definition user_serializer_create :: "account_env \<Rightarrow> nat option \<Rightarrow> user_data \<Rightarrow> ('z users_db_scheme, nat) prog" where
  "user_serializer_create env affiliate_id d =
     (case (ud_legal_address d, ud_username d, ud_email d, ud_password d) of
        (Some address, Some username, Some (Some email), Some password) \<Rightarrow>
          bindp (atomic
            (bindp (create_user (ae_normalize_email env) (ae_set_password env) (ae_now env) (Some username) email password
                \<lparr>ef_name = ud_name d, ef_is_staff = None, ef_is_superuser = None, ef_is_active = None, ef_affiliate_id = affiliate_id\<rparr>)
              (\<lambda>user.
             thenp (case address of None \<Rightarrow> ret () | Some a \<Rightarrow> save_address env False user a)
            (thenp (case ud_profile d of Some (Some p) \<Rightarrow> save_profile False user p | _ \<Rightarrow> ret ())
               (ret user))))) (\<lambda>user.
          thenp (sync_hubspot_user env user) (ret user))
      | (None, _) \<Rightarrow> raise (KeyError ''legal_address'')
      | (_, None, _) \<Rightarrow> raise (KeyError ''username'')
      | (_, _, Some (Some _), None) \<Rightarrow> raise (KeyError ''password'')
      | _ \<Rightarrow> raise (KeyError ''email''))"

text \<open>\<open>UserSerializer.update\<close>: the columns sent are set on the user, the email and the user name among them; the saved row has to keep them unique.\<close>

definition apply_user :: "account_env \<Rightarrow> user_data \<Rightarrow> user_row \<Rightarrow> user_row" where
  "apply_user env d u =
     u\<lparr>user_password := (case ud_password d of None \<Rightarrow> user_password u | Some p \<Rightarrow> ae_set_password env p),
       user_name := given (ud_name d) (user_name u), user_email := (case ud_email d of Some (Some e) \<Rightarrow> e | _ \<Rightarrow> user_email u),
       user_username := given (ud_username d) (user_username u)\<rparr>"

definition user_save :: "nat \<Rightarrow> (user_row \<Rightarrow> user_row) \<Rightarrow> ('z users_db_scheme, unit) prog" where
  "user_save user f =
     bindp (asks (\<lambda>s. f (row (users s) user))) (\<lambda>u.
     bindp (asks (\<lambda>s. t_exists (users s) (\<lambda>k r. k \<noteq> user \<and> (user_username r = user_username u \<or> user_email r = user_email u)))) (\<lambda>dup.
     if dup then raise (IntegrityError ''users_user'') else db_save users users_update user f))"

definition user_serializer_update :: "account_env \<Rightarrow> nat \<Rightarrow> user_data \<Rightarrow> ('z users_db_scheme, unit) prog" where
  "user_serializer_update env user d =
     thenp (atomic
       (thenp (case ud_legal_address d of Some (Some a) \<Rightarrow> save_address env True user a | _ \<Rightarrow> ret ())
       (thenp (case ud_profile d of Some (Some p) \<Rightarrow> save_profile True user p | _ \<Rightarrow> ret ())
          (user_save user (apply_user env d)))))
       (sync_hubspot_user env user)"

text \<open>
  \<open>CurrentUserRetrieveUpdateViewSet.update\<close>: the user of the request is updated, and the courseware is told when the name sent is
  another one (or none was sent).
\<close>

definition current_user_update :: "account_env \<Rightarrow> nat \<Rightarrow> bool \<Rightarrow> user_data \<Rightarrow> ('z users_db_scheme, field_errors option) prog" where
  "current_user_update env user partial d =
     transaction
       (bindp (asks (\<lambda>s. user_name (row (users s) user))) (\<lambda>old_name.
        bindp (user_is_valid env partial d) (\<lambda>r.
        case r of
          Inl errors \<Rightarrow> ret (Some errors)
        | Inr v \<Rightarrow>
            thenp (user_serializer_update env user v)
           (thenp (whenp (Some old_name \<noteq> ud_name d) (emit (QueueTask ''change_edx_user_name_async'' [user])))
              (ret None)))))"

section \<open>Changing the email address\<close>

definition user_check_password :: "account_env \<Rightarrow> user_row \<Rightarrow> string \<Rightarrow> bool" where
  "user_check_password env u password = ae_check_password env (user_password u) password"

text \<open>Asking for the change; the code that goes out by mail is a fresh random text.\<close>

definition change_email_request_create ::
  "account_env \<Rightarrow> string \<Rightarrow> nat \<Rightarrow> string \<Rightarrow> string \<Rightarrow> ('z auth_db_scheme, field_errors + nat) prog" where
  "change_email_request_create env code user new_email password =
     bindp (asks (\<lambda>s. row (users s) user)) (\<lambda>u.
     bindp (asks (\<lambda>s. t_exists (users s) (\<lambda>_ r. user_email r = new_email))) (\<lambda>taken.
     if \<not> ae_valid_email env new_email then ret (Inl [(''new_email'', ''Enter a valid email address.'')])
     else if user_email u = new_email
     then ret (Inl [(''email'', ''Provided email address is same as your current one'')])
     else if taken then ret (Inl [(''email'', ''Invalid email address'')])
     else if \<not> user_check_password env u password then ret (Inl [(''non_field_errors'', ''Invalid Password'')])
     else
       bindp (db_create change_email_requests change_email_requests_update
          \<lparr>cer_user = user, cer_new_email = new_email, cer_code = code, cer_confirmed = False,
           cer_expires_on = ae_now env + ae_change_email_ttl_minutes env * 60\<rparr>) (\<lambda>k.
       thenp (emit (SendMail ''verify_email_change'' [k] [new_email, code])) (ret (Inr k)))))"

text \<open>\<open>ChangeEmailRequestUpdateSerializer.update\<close>\<close>

definition delete_social_auth :: "nat \<Rightarrow> string \<Rightarrow> ('z auth_db_scheme, unit) prog" where
  "delete_social_auth user uid =
     bindp (asks (\<lambda>s. t_get ''UserSocialAuth'' (social_auths s) (\<lambda>_ a. sa_uid a = uid \<and> sa_user a = user))) (\<lambda>found.
     case found of
       Inr k \<Rightarrow> db_delete social_auths social_auths_update (\<lambda>j _. j = k)
     | Inl e \<Rightarrow> if is_does_not_exist e then ret () else raise e)"

definition change_email_request_update :: "nat \<Rightarrow> bool option \<Rightarrow> ('z auth_db_scheme, unit) prog" where
  "change_email_request_update k confirmed =
     transaction
       (bindp (asks (\<lambda>s. row (change_email_requests s) k)) (\<lambda>r.
        bindp (asks (\<lambda>s. t_exists (users s) (\<lambda>_ u. user_email u = cer_new_email r))) (\<lambda>taken.
        if taken then raise (ValidationError [] ''Unable to change email'')
        else
          thenp (db_save change_email_requests change_email_requests_update k (\<lambda>r. r\<lparr>cer_confirmed := given_value confirmed (cer_confirmed r)\<rparr>))
         (bindp (asks (\<lambda>s. cer_confirmed (row (change_email_requests s) k))) (\<lambda>is_confirmed.
          if \<not> is_confirmed then ret ()
          else
            bindp (asks (\<lambda>s. user_email (row (users s) (cer_user r)))) (\<lambda>old_email.
            thenp (user_save (cer_user r) (\<lambda>u. u\<lparr>user_email := cer_new_email r\<rparr>))
           (thenp (delete_social_auth (cer_user r) old_email)
              (emit (QueueTask ''change_edx_user_email_async'' [cer_user r])))))))))"

text \<open>The view: a request is found by its code while it is neither expired nor confirmed.\<close>

definition confirm_email_change :: "account_env \<Rightarrow> string \<Rightarrow> bool option \<Rightarrow> ('z auth_db_scheme, unit) prog" where
  "confirm_email_change env code confirmed =
     bindp (asks (\<lambda>s. t_first (change_email_requests s) (\<lambda>_ r.
         ae_now env < cer_expires_on r \<and> \<not> cer_confirmed r \<and> cer_code r = code))) (\<lambda>found.
     case found of None \<Rightarrow> raise Http404 | Some k \<Rightarrow> change_email_request_update k confirmed)"

section \<open>Blocked addresses and retired users\<close>

definition get_md5_hash :: "account_env \<Rightarrow> string \<Rightarrow> string" where
  "get_md5_hash env value = ae_md5 env (py_lower value)"

definition is_user_email_blocked :: "account_env \<Rightarrow> 'z auth_db_scheme \<Rightarrow> string \<Rightarrow> bool" where
  "is_user_email_blocked env s email \<longleftrightarrow> t_exists (block_list s) (\<lambda>_ h. h = get_md5_hash env email)"

definition block_user_email :: "account_env \<Rightarrow> string \<Rightarrow> ('z auth_db_scheme, string option) prog" where
  "block_user_email env email =
     (if email = [] then ret None
      else
        bindp (db_get_or_create ''BlockList'' block_list block_list_update (\<lambda>_ h. h = get_md5_hash env email) (get_md5_hash env email))
          (\<lambda>(_, created).
        ret (Some (''Email '' @ email @ (if created then '' is added to the blocklist of MIT xPRO.''
                                         else '' is already marked blocked for MIT xPRO.'')))))"

text \<open>The commands answer with their exit code.\<close>

definition block_users :: "account_env \<Rightarrow> string list \<Rightarrow> ('z auth_db_scheme, nat) prog" where
  "block_users env emails =
     (if emails = [] then ret 1
      else (case validate_email_addresses (ae_valid_email env) emails of
              Inl _ \<Rightarrow> ret 2
            | Inr _ \<Rightarrow> thenp (for_each emails (\<lambda>email. bindp (block_user_email env email) (\<lambda>_. ret ()))) (ret 0)))"

definition unblock_users :: "account_env \<Rightarrow> string list \<Rightarrow> ('z auth_db_scheme, nat) prog" where
  "unblock_users env emails =
     (if emails = [] then ret 1
      else (case validate_email_addresses (ae_valid_email env) emails of
              Inl _ \<Rightarrow> ret 2
            | Inr _ \<Rightarrow>
                thenp (for_each emails (\<lambda>email. db_delete block_list block_list_update (\<lambda>_ h. h = get_md5_hash env email))) (ret 0)))"

definition retire_user :: "account_env \<Rightarrow> bool \<Rightarrow> nat \<Rightarrow> ('z auth_db_scheme, unit) prog" where
  "retire_user env block user =
     bindp (asks (\<lambda>s. row (users s) user)) (\<lambda>u.
     if \<not> user_is_active u then ret ()
     else
       thenp (whenp block (bindp (block_user_email env (user_email u)) (\<lambda>_. ret ())))
      (thenp (user_save user (\<lambda>u. u\<lparr>user_is_active := False, user_email := ae_retired_email env (user_email u),
                user_password := ae_unusable_password env\<rparr>))
         (db_delete social_auths social_auths_update (\<lambda>_ a. sa_user a = user))))"

definition retire_users :: "account_env \<Rightarrow> string list \<Rightarrow> bool \<Rightarrow> ('z auth_db_scheme, nat) prog" where
  "retire_users env names block =
     (if names = [] then ret 1
      else
        bindp (asks (\<lambda>s. fetch_users (ae_valid_email env) s names True)) (\<lambda>found.
        bindp (lift_result found) (\<lambda>found.
        case found of
          None \<Rightarrow> raise (TypeErr ''NoneType'')
        | Some ks \<Rightarrow> thenp (for_each ks (retire_user env block)) (ret 0))))"

section \<open>The login pipeline\<close>

text \<open>
  The arguments that travel along the pipeline, the request that is being processed (what was sent, the back end, and whether the
  session belongs to an administrator acting as another user), and the exceptions of the pipeline as values. A partial
  is the step to go on with and the arguments at that point.
\<close>

record pipe_args =
  pa_user :: "nat option"
  pa_flow :: "string option"
  pa_is_new :: bool
  pa_username :: "string option"
  pa_email :: "string option"

type_synonym auth_partial = "nat \<times> pipe_args"

record auth_request =
  ar_backend :: string
  ar_hijacked :: bool
  ar_affiliate :: affiliate_request
  ar_hubspotutk :: "string option"
  ar_flow :: "string option"
  ar_email :: "string option"
  ar_user_data :: user_data
  ar_profile_data :: profile_data
  ar_partial_token :: "nat option"
  ar_verification_code :: "string option"

datatype auth_exception =
    RequireProviderException string nat
  | InvalidPasswordException auth_partial
  | RequireRegistrationException auth_partial
  | RequirePasswordException auth_partial
  | EmailBlockedException auth_partial
  | RequirePasswordAndPersonalInfoException auth_partial "string list" field_errors
  | RequireProfileException auth_partial field_errors
  | UnexpectedExistingUserException auth_partial
  | UserCreationFailedException auth_partial
  | UserExportBlockedException int
  | UserTryAgainLaterException
  | InvalidEmail
  | AuthAlreadyAssociated
  | AuthException string

text \<open>A step answers with an exception of the pipeline, with a redirect that ends the run (\<open>None\<close>), or with the arguments for the next step.\<close>

type_synonym 's auth_step = "nat \<Rightarrow> auth_request \<Rightarrow> pipe_args \<Rightarrow> ('s, auth_exception + pipe_args option) prog"

definition FLOW_REGISTER :: string where "FLOW_REGISTER = ''register''"
definition FLOW_LOGIN :: string where "FLOW_LOGIN = ''login''"
definition EMAIL_BACKEND :: string where "EMAIL_BACKEND = ''email''"
definition NAME_MIN_LENGTH :: nat where "NAME_MIN_LENGTH = 2"

definition next_step :: "pipe_args \<Rightarrow> ('s, auth_exception + pipe_args option) prog" where
  "next_step a = ret (Inr (Some a))"

definition forbid_hijack :: "'s auth_step" where
  "forbid_hijack n req a =
     (if ar_hijacked req then ret (Inl (AuthException ''You are hijacking another user, do not try to login again'')) else next_step a)"

definition validate_email_auth_request :: "'s auth_step" where
  "validate_email_auth_request n req a =
     (if ar_backend req \<noteq> EMAIL_BACKEND then next_step a
      else if pa_user a \<noteq> None then next_step (a\<lparr>pa_flow := Some FLOW_LOGIN\<rparr>) else next_step a)"

definition validate_email :: "account_env \<Rightarrow> 'z auth_db_scheme auth_step" where
  "validate_email env n req a =
     (case ar_email req of
        None \<Rightarrow> next_step a
      | Some email \<Rightarrow>
          bindp (asks (\<lambda>s. is_user_email_blocked env s email)) (\<lambda>blocked.
          if ar_flow req = Some FLOW_REGISTER \<and> blocked then ret (Inl (EmailBlockedException (n, a))) else next_step a))"

definition validate_password :: "account_env \<Rightarrow> 'z auth_db_scheme auth_step" where
  "validate_password env n req a =
     (if ar_backend req \<noteq> EMAIL_BACKEND \<or> pa_flow a \<noteq> Some FLOW_LOGIN then next_step a
      else (case pa_user a of
              None \<Rightarrow> ret (Inl (RequireRegistrationException (n, a)))
            | Some user \<Rightarrow>
                (case ud_password (ar_user_data req) of
                   None \<Rightarrow> ret (Inl (RequirePasswordException (n, a)))
                 | Some password \<Rightarrow>
                     bindp (asks (\<lambda>s. user_check_password env (row (users s) user) password)) (\<lambda>ok.
                     if \<not> ok then ret (Inl (InvalidPasswordException (n, a))) else next_step a))))"

text \<open>\<open>send_user_to_hubspot\<close>, with the portal and form of the settings; the outcome of the request is a parameter.\<close>

definition send_user_to_hubspot :: "(string \<times> string) option \<Rightarrow> (string list \<Rightarrow> exn + unit) \<Rightarrow> 'z users_db_scheme auth_step" where
  "send_user_to_hubspot form post n req a =
     (case form of
        None \<Rightarrow> next_step a
      | Some (portal_id, form_id) \<Rightarrow>
          (let data = the_list (pa_email a) @ the_list (ar_hubspotutk req)
           in thenp (emit (HttpPost (''https://forms.hubspot.com/uploads/form/v2/'' @ portal_id @ ''/'' @ form_id @ ''?&'') data))
                (thenp (lift_result (post data)) (next_step a))))"

definition get_username :: "'z users_db_scheme auth_step" where
  "get_username n req a =
     bindp (asks (\<lambda>s. map_option (\<lambda>u. user_username (row (users s) u)) (pa_user a))) (\<lambda>username.
     next_step (a\<lparr>pa_username := username\<rparr>))"

text \<open>
  \<open>create_user_via_email\<close>. \<open>usernameify\<close> makes a user name of a name and an address, \<open>with_username\<close> is
  \<open>create_user_with_generated_username\<close>: it calls the saving function it is given with this user name, or with others until one is free. Any
  exception of it counts as a failed creation.
\<close>

definition create_user_via_email ::
  "account_env \<Rightarrow> (string \<Rightarrow> string \<Rightarrow> string) \<Rightarrow>
     ((string \<Rightarrow> ('z auth_db_scheme, nat) prog) \<Rightarrow> string \<Rightarrow> ('z auth_db_scheme, nat option) prog) \<Rightarrow> 'z auth_db_scheme auth_step" where
  "create_user_via_email env usernameify with_username n req a =
     (if ar_backend req \<noteq> EMAIL_BACKEND \<or> pa_flow a \<noteq> Some FLOW_REGISTER then next_step a
      else if pa_user a \<noteq> None then ret (Inl (UnexpectedExistingUserException (n, a)))
      else
        (case (ud_name (ar_user_data req), ud_password (ar_user_data req)) of
           (Some name, Some _) \<Rightarrow>
             if length name < NAME_MIN_LENGTH
             then ret (Inl (RequirePasswordAndPersonalInfoException (n, a) [''Full name must be at least 2 characters long.''] []))
             else
               bindp (asks (\<lambda>s. case pa_email a of None \<Rightarrow> False | Some email \<Rightarrow>
                   t_exists (users s) (\<lambda>_ u. case_insensitive_equal (user_email u) email))) (\<lambda>taken.
               if taken then ret (Inl AuthAlreadyAssociated)
               else
                 (let username = usernameify name (concat (the_list (pa_email a)));
                      data = (ar_user_data req)\<lparr>ud_email := Some (pa_email a), ud_username := Some username\<rparr>
                  in bindp (asks (\<lambda>s. get_affiliate_id_from_request s (ar_affiliate req))) (\<lambda>affiliate_id.
                     bindp (user_is_valid env False data) (\<lambda>r.
                     case r of
                       Inl errors \<Rightarrow>
                         ret (Inl (RequirePasswordAndPersonalInfoException (n, a)
                           (map snd (filter (\<lambda>(f, _). f = ''non_field_errors'') errors)) (filter (\<lambda>(f, _). f \<noteq> ''non_field_errors'') errors)))
                     | Inr v \<Rightarrow>
                         try_catch
                           (bindp (with_username (\<lambda>u. user_serializer_create env affiliate_id (v\<lparr>ud_username := Some u\<rparr>)) username) (\<lambda>created_user.
                            case created_user of
                              None \<Rightarrow> raise (IntegrityError ''Failed to create User with generated username'')
                            | Some k \<Rightarrow>
                                bindp (asks (\<lambda>s. user_username (row (users s) k))) (\<lambda>name.
                                next_step (a\<lparr>pa_is_new := True, pa_user := Some k, pa_username := Some name\<rparr>))))
                           (\<lambda>_. ret (Inl (UserCreationFailedException (n, a))))))))
         | _ \<Rightarrow> ret (Inl (RequirePasswordAndPersonalInfoException (n, a) [] []))))"

text \<open>The steps after it need a user: without one they raise an \<open>AttributeError\<close>.\<close>

definition with_user :: "pipe_args \<Rightarrow> (nat \<Rightarrow> ('s, 'a) prog) \<Rightarrow> ('s, 'a) prog" where
  "with_user a f = (case pa_user a of None \<Rightarrow> raise (AttributeError ''NoneType'') | Some user \<Rightarrow> f user)"

text \<open>The mail to the support about a denied user; a failure to make or send it is logged.\<close>

definition notify_denied :: "account_env \<Rightarrow> nat \<Rightarrow> ('z auth_db_scheme, unit) prog" where
  "notify_denied env user =
     bindp (asks (\<lambda>s. legal_address_of s user)) (\<lambda>a.
     bindp (asks (\<lambda>s. case a of Inl _ \<Rightarrow> False | Inr k \<Rightarrow> la_country (row (legal_addresses s) k) = [] \<or>
         country_of_code (ae_geo env) (la_country (row (legal_addresses s) k)) \<noteq> None)) (\<lambda>sendable.
     whenp sendable (emit (SendMail ''exports_denied'' [user] []))))"

definition verify_exports_compliance :: "account_env \<Rightarrow> 'z auth_db_scheme auth_step" where
  "verify_exports_compliance env n req a =
     (if \<not> is_exports_verification_enabled (ae_exports env) then next_step a
      else
        with_user a (\<lambda>user.
        bindp (asks (\<lambda>s. user_is_active (row (users s) user) \<and> t_exists (exports_inquiries s) (\<lambda>_ i. ei_user i = user))) (\<lambda>skip.
        if skip then next_step a
        else
          bindp (try_catch (bindp (verify_user_with_exports (ae_exports env) (ae_now env) user) (\<lambda>k. ret (Some k))) (\<lambda>_. ret None)) (\<lambda>r.
          case r of
            None \<Rightarrow> ret (Inl UserTryAgainLaterException)
          | Some None \<Rightarrow> ret (Inl UserTryAgainLaterException)
          | Some (Some k) \<Rightarrow>
              bindp (asks (\<lambda>s. row (exports_inquiries s) k)) (\<lambda>i.
              if is_denied i then thenp (notify_denied env user) (ret (Inl (UserExportBlockedException (ei_reason_code i))))
              else if is_unknown i then ret (Inl (AuthException ''Unable to authenticate, please contact support''))
              else next_step a)))))"

definition activate_user :: "account_env \<Rightarrow> 'z auth_db_scheme auth_step" where
  "activate_user env n req a =
     with_user a (\<lambda>user.
     bindp (asks (\<lambda>s. user_is_active (row (users s) user))) (\<lambda>is_active.
     if is_active then next_step a
     else
       bindp (asks (\<lambda>s. map_option (row (exports_inquiries s)) (get_latest_exports_inquiry s user))) (\<lambda>export_inquiry.
       thenp (whenp (\<not> is_exports_verification_enabled (ae_exports env) \<or> (case export_inquiry of None \<Rightarrow> False | Some i \<Rightarrow> is_success i))
                (db_save users users_update user (\<lambda>u. u\<lparr>user_is_active := True\<rparr>)))
         (next_step a))))"

definition create_courseware_user_step :: "account_env \<Rightarrow> 'z auth_db_scheme auth_step" where
  "create_courseware_user_step env n req a =
     (if \<not> pa_is_new a then next_step a
      else
        with_user a (\<lambda>user.
        bindp (asks (\<lambda>s. user_is_active (row (users s) user))) (\<lambda>is_active.
        if \<not> is_active then next_step a
        else
          thenp (try_catch (create_courseware_user (ae_edx env) (ae_now env) user)
                   (\<lambda>_. emit (QueueTask ''create_user_from_id'' [user])))
            (next_step a))))"

definition create_profile :: "account_env \<Rightarrow> 'z auth_db_scheme auth_step" where
  "create_profile env n req a =
     (if ar_backend req \<noteq> EMAIL_BACKEND then next_step a
      else
        with_user a (\<lambda>user.
        bindp (asks (\<lambda>s. profile_of s user)) (\<lambda>p.
        bindp (lift_result p) (\<lambda>p.
        bindp (asks (\<lambda>s. profile_is_complete (row (profiles s) p))) (\<lambda>is_complete.
        if is_complete then next_step a
        else
          (case profile_is_valid True (ar_profile_data req) of
             Inl errors \<Rightarrow> ret (Inl (RequireProfileException (n, a) errors))
           | Inr v \<Rightarrow>
               thenp (db_save profiles profiles_update p (apply_profile v))
              (thenp (sync_hubspot_user env user) (next_step a))))))))"

definition sync_user_to_hubspot :: "account_env \<Rightarrow> 'z auth_db_scheme auth_step" where
  "sync_user_to_hubspot env n req a =
     with_user a (\<lambda>user.
     bindp (asks (\<lambda>s. user_is_active (row (users s) user))) (\<lambda>is_active.
     thenp (whenp is_active (sync_hubspot_user env user)) (next_step a)))"

text \<open>
  \<open>SOCIAL_AUTH_PIPELINE\<close>: the own steps and those of social-auth, which are given by name. \<open>run_pipeline\<close> runs it from a step on; the
  steps are numbered from 0.
\<close>

record 's pipeline_env =
  pe_account :: account_env
  pe_core :: "string \<Rightarrow> 's auth_step"
  pe_usernameify :: "string \<Rightarrow> string \<Rightarrow> string"
  pe_with_username :: "(string \<Rightarrow> ('s, nat) prog) \<Rightarrow> string \<Rightarrow> ('s, nat option) prog"
  pe_hubspot_form :: "(string \<times> string) option"
  pe_hubspot_post :: "string list \<Rightarrow> exn + unit"

definition SOCIAL_AUTH_PIPELINE :: "'z auth_db_scheme pipeline_env \<Rightarrow> 'z auth_db_scheme auth_step list" where
  "SOCIAL_AUTH_PIPELINE pe =
     (let env = pe_account pe
      in [forbid_hijack, pe_core pe ''social_details'', pe_core pe ''social_uid'', pe_core pe ''auth_allowed'',
          pe_core pe ''social_user'', pe_core pe ''associate_by_email'', validate_email_auth_request, validate_email env,
          validate_password env, pe_core pe ''mail_validation'', send_user_to_hubspot (pe_hubspot_form pe) (pe_hubspot_post pe),
          get_username, create_user_via_email env (pe_usernameify pe) (pe_with_username pe), verify_exports_compliance env,
          pe_core pe ''associate_user'', activate_user env, create_courseware_user_step env, create_profile env,
          pe_core pe ''load_extra_data'', pe_core pe ''user_details'', sync_user_to_hubspot env])"

fun run_steps :: "'s auth_step list \<Rightarrow> nat \<Rightarrow> auth_request \<Rightarrow> pipe_args \<Rightarrow> ('s, auth_exception + pipe_args option) prog" where
  "run_steps [] n req a = next_step a"
| "run_steps (f # fs) n req a =
     bindp (f n req a) (\<lambda>r.
     case r of Inr (Some a') \<Rightarrow> run_steps fs (Suc n) req a' | _ \<Rightarrow> ret r)"

definition run_pipeline ::
  "'z auth_db_scheme pipeline_env \<Rightarrow> nat \<Rightarrow> auth_request \<Rightarrow> pipe_args \<Rightarrow> ('z auth_db_scheme, auth_exception + pipe_args option) prog" where
  "run_pipeline pe n req a = run_steps (drop n (SOCIAL_AUTH_PIPELINE pe)) n req a"

section \<open>The states that are reported\<close>

record social_auth_state =
  ss_state :: string
  ss_provider :: "string option"
  ss_partial :: "auth_partial option"
  ss_flow :: "string option"
  ss_errors :: "string list"
  ss_field_errors :: field_errors
  ss_user :: "nat option"

definition STATE_LOGIN_PASSWORD :: string where "STATE_LOGIN_PASSWORD = ''login/password''"
definition STATE_LOGIN_PROVIDER :: string where "STATE_LOGIN_PROVIDER = ''login/provider''"
definition STATE_REGISTER_EMAIL :: string where "STATE_REGISTER_EMAIL = ''register/email''"
definition STATE_REGISTER_CONFIRM_SENT :: string where "STATE_REGISTER_CONFIRM_SENT = ''register/confirm-sent''"
definition STATE_REGISTER_DETAILS :: string where "STATE_REGISTER_DETAILS = ''register/details''"
definition STATE_REGISTER_EXTRA_DETAILS :: string where "STATE_REGISTER_EXTRA_DETAILS = ''register/extra''"
definition STATE_REGISTER_REQUIRED :: string where "STATE_REGISTER_REQUIRED = ''register/required''"
definition STATE_SUCCESS :: string where "STATE_SUCCESS = ''success''"
definition STATE_ERROR :: string where "STATE_ERROR = ''error''"
definition STATE_ERROR_TEMPORARY :: string where "STATE_ERROR_TEMPORARY = ''error-temporary''"
definition STATE_INACTIVE :: string where "STATE_INACTIVE = ''inactive''"
definition STATE_INVALID_EMAIL :: string where "STATE_INVALID_EMAIL = ''invalid-email''"
definition STATE_USER_BLOCKED :: string where "STATE_USER_BLOCKED = ''user-blocked''"
definition STATE_INVALID_LINK :: string where "STATE_INVALID_LINK = ''invalid-link''"
definition STATE_EXISTING_ACCOUNT :: string where "STATE_EXISTING_ACCOUNT = ''existing-account''"

definition auth_state :: "string \<Rightarrow> social_auth_state" where
  "auth_state st = \<lparr>ss_state = st, ss_provider = None, ss_partial = None, ss_flow = None, ss_errors = [], ss_field_errors = [], ss_user = None\<rparr>"

text \<open>
  \<open>_authenticate\<close>: a request with the token of a stored partial goes on with it, under the arguments it gives; another
  one starts the pipeline, for the user of the session if there is one. \<open>find_partial\<close> is \<open>partial_pipeline_data\<close>, the step and the
  arguments of the partial once the user and the flow of the request are applied to it. The first
  part answers with a state or with what the pipeline gave; the answer \<open>None\<close> is a redirect that is passed on.
\<close>

definition resume_or_start ::
  "'z auth_db_scheme pipeline_env \<Rightarrow> (nat option \<Rightarrow> auth_partial option) \<Rightarrow> nat option \<Rightarrow> string \<Rightarrow> auth_request \<Rightarrow>
     ('z auth_db_scheme, auth_exception + social_auth_state + pipe_args option) prog" where
  "resume_or_start pe find_partial current_user flow req =
     (case find_partial (ar_partial_token req) of
        Some (n, a) \<Rightarrow>
          bindp (run_pipeline pe n req a) (\<lambda>r.
          case r of
            Inl InvalidEmail \<Rightarrow>
              bindp (asks (\<lambda>s. case pa_email a of None \<Rightarrow> False | Some email \<Rightarrow>
                  t_exists (users s) (\<lambda>_ u. case_insensitive_equal (user_email u) email))) (\<lambda>user_exists.
              ret (Inr (Inl (auth_state
                (if pa_flow a = Some FLOW_REGISTER
                 then (if user_exists then STATE_EXISTING_ACCOUNT else STATE_INVALID_LINK) else STATE_INVALID_EMAIL)))))
          | Inl AuthAlreadyAssociated \<Rightarrow> ret (Inr (Inl (auth_state STATE_EXISTING_ACCOUNT)))
          | Inl e \<Rightarrow> ret (Inl e)
          | Inr v \<Rightarrow> ret (Inr (Inr v)))
      | None \<Rightarrow>
          bindp (run_pipeline pe 0 req
             \<lparr>pa_user = current_user, pa_flow = Some flow, pa_is_new = False, pa_username = None, pa_email = ar_email req\<rparr>) (\<lambda>r.
          case r of Inl e \<Rightarrow> ret (Inl e) | Inr v \<Rightarrow> ret (Inr (Inr v))))"

definition authenticate ::
  "'z auth_db_scheme pipeline_env \<Rightarrow> (nat option \<Rightarrow> auth_partial option) \<Rightarrow> nat option \<Rightarrow> string \<Rightarrow> auth_request \<Rightarrow>
     ('z auth_db_scheme, auth_exception + social_auth_state option) prog" where
  "authenticate pe find_partial current_user flow req =
     bindp (resume_or_start pe find_partial current_user flow req) (\<lambda>r.
     case r of
       Inl e \<Rightarrow> ret (Inl e)
     | Inr (Inl answer) \<Rightarrow> ret (Inr (Some answer))
     | Inr (Inr None) \<Rightarrow> ret (Inr None)
     | Inr (Inr (Some a)) \<Rightarrow>
         if current_user \<noteq> None then ret (Inr (Some (auth_state STATE_SUCCESS)))
         else
           (case pa_user a of
              None \<Rightarrow> ret (Inr (Some ((auth_state STATE_ERROR)\<lparr>ss_errors := [''Unexpected authentication result'']\<rparr>)))
            | Some user \<Rightarrow>
                bindp (asks (\<lambda>s. user_is_active (row (users s) user))) (\<lambda>is_active.
                thenp (whenp is_active (emit (LogLine ''login'' [user])))
                  (ret (Inr (Some (auth_state (if is_active then STATE_SUCCESS else STATE_INACTIVE))))))))"

text \<open>The texts of the exceptions, and the states the serializers make of them: first their own, then the common ones.\<close>

definition auth_exception_str :: "auth_exception \<Rightarrow> string" where
  "auth_exception_str e =
     (case e of
        InvalidPasswordException _ \<Rightarrow> ''Unable to login with that email and password combination''
      | RequireRegistrationException _ \<Rightarrow> ''There is no account with that email''
      | RequirePasswordException _ \<Rightarrow> ''Password is required to login''
      | EmailBlockedException _ \<Rightarrow> ''Email address is marked blocked''
      | RequirePasswordAndPersonalInfoException _ _ _ \<Rightarrow> ''Password and address need to be filled out''
      | RequireProfileException _ _ \<Rightarrow> ''Profile needs to be filled out''
      | AuthException m \<Rightarrow> m | _ \<Rightarrow> [])"

datatype auth_serializer = LoginEmail | LoginPassword | RegisterEmail | RegisterConfirm | RegisterDetails | RegisterExtraDetails

definition serializer_flow :: "auth_serializer \<Rightarrow> string" where
  "serializer_flow ser = (if ser \<in> {LoginEmail, LoginPassword} then FLOW_LOGIN else FLOW_REGISTER)"

definition serializer_create ::
  "auth_serializer \<Rightarrow> 'z auth_db_scheme pipeline_env \<Rightarrow> (nat option \<Rightarrow> auth_partial option) \<Rightarrow> nat option \<Rightarrow> auth_request \<Rightarrow>
     ('z auth_db_scheme, auth_exception + social_auth_state option) prog" where
  "serializer_create ser pe find_partial current_user req =
     bindp (authenticate pe find_partial current_user (serializer_flow ser) req) (\<lambda>r.
     bindp (asks (\<lambda>s. t_first (social_auths s) (\<lambda>_ a. Some (sa_uid a) = ar_email req \<and> sa_provider a = EMAIL_BACKEND))) (\<lambda>social.
     bindp (asks (\<lambda>s. map_option (\<lambda>k. sa_user (row (social_auths s) k)) social)) (\<lambda>social_user.
     ret (case (ser, r) of
            (LoginEmail, Inl (RequireRegistrationException _)) \<Rightarrow>
              Inr (Some ((auth_state STATE_REGISTER_REQUIRED)\<lparr>ss_field_errors := [(''email'', ''Could not find your account'')]\<rparr>))
          | (LoginEmail, Inl (RequirePasswordException p)) \<Rightarrow>
              Inr (Some ((auth_state STATE_LOGIN_PASSWORD)\<lparr>ss_partial := Some p, ss_user := social_user\<rparr>))
          | (LoginPassword, Inl (InvalidPasswordException p)) \<Rightarrow>
              Inr (Some ((auth_state STATE_ERROR)\<lparr>ss_partial := Some p,
                ss_field_errors := [(''password'', auth_exception_str (InvalidPasswordException p))]\<rparr>))
          | (RegisterEmail, Inr None) \<Rightarrow> Inr (Some (auth_state STATE_REGISTER_CONFIRM_SENT))
          | (RegisterEmail, Inl (RequirePasswordException p)) \<Rightarrow>
              Inr (Some ((auth_state STATE_LOGIN_PASSWORD)\<lparr>ss_partial := Some p,
                ss_errors := [auth_exception_str (RequirePasswordException p)]\<rparr>))
          | (RegisterEmail, Inl (EmailBlockedException p)) \<Rightarrow>
              Inr (Some ((auth_state STATE_REGISTER_EMAIL)\<lparr>ss_partial := Some p, ss_errors := [auth_exception_str (EmailBlockedException p)]\<rparr>))
          | _ \<Rightarrow> r))))"

definition state_of_exception :: "auth_exception \<Rightarrow> social_auth_state" where
  "state_of_exception e =
     (case e of
        RequireProviderException provider user \<Rightarrow> (auth_state STATE_LOGIN_PROVIDER)\<lparr>ss_provider := Some provider, ss_user := Some user\<rparr>
      | InvalidEmail \<Rightarrow> auth_state STATE_INVALID_EMAIL
      | UserExportBlockedException reason_code \<Rightarrow>
          (auth_state STATE_USER_BLOCKED)\<lparr>ss_errors := [''Error code: CS_'' @ int_str reason_code]\<rparr>
      | RequireProfileException p errors \<Rightarrow> (auth_state STATE_REGISTER_EXTRA_DETAILS)\<lparr>ss_partial := Some p\<rparr>
      | RequirePasswordAndPersonalInfoException p errors field_errors \<Rightarrow>
          (auth_state STATE_REGISTER_DETAILS)\<lparr>ss_partial := Some p, ss_errors := errors, ss_field_errors := field_errors\<rparr>
      | UserTryAgainLaterException \<Rightarrow> (auth_state STATE_ERROR_TEMPORARY)\<lparr>ss_errors := [USER_REGISTRATION_FAILED_MSG]\<rparr>
      | _ \<Rightarrow> (auth_state STATE_ERROR)\<lparr>ss_errors := [auth_exception_str e]\<rparr>)"

text \<open>\<open>SocialAuthSerializer.save\<close>: the state with the flow of the request; a redirect that is left over is an error.\<close>

definition serializer_save ::
  "auth_serializer \<Rightarrow> 'z auth_db_scheme pipeline_env \<Rightarrow> (nat option \<Rightarrow> auth_partial option) \<Rightarrow> nat option \<Rightarrow> auth_request \<Rightarrow>
     ('z auth_db_scheme, social_auth_state) prog" where
  "serializer_save ser pe find_partial current_user req =
     bindp (serializer_create ser pe find_partial current_user req) (\<lambda>r.
     let result = (case r of
             Inl e \<Rightarrow> state_of_exception e | Inr None \<Rightarrow> auth_state STATE_ERROR | Inr (Some st) \<Rightarrow> st)
     in ret (result\<lparr>ss_flow := ar_flow req,
                    ss_provider := (if ss_provider result = None then Some EMAIL_BACKEND else ss_provider result)\<rparr>))"

text \<open>
  Which requests the serializers accept. The email serializer of a registration looks for a token under a name it is never stored under,
  so that the email is always required.
\<close>

definition not_blank :: "string option \<Rightarrow> bool" where
  "not_blank v \<longleftrightarrow> (case v of None \<Rightarrow> False | Some t \<Rightarrow> py_strip t \<noteq> [])"

definition long_enough :: "string option \<Rightarrow> bool" where
  "long_enough v \<longleftrightarrow> (case v of None \<Rightarrow> False | Some t \<Rightarrow> 8 \<le> length (py_strip t))"

definition serializer_is_valid :: "account_env \<Rightarrow> auth_serializer \<Rightarrow> auth_request \<Rightarrow> bool" where
  "serializer_is_valid env ser req \<longleftrightarrow>
     ar_flow req \<in> {Some FLOW_LOGIN, Some FLOW_REGISTER} \<and>
     (case ser of
        LoginEmail \<Rightarrow> (case ar_email req of None \<Rightarrow> False | Some e \<Rightarrow> ae_valid_email env (py_strip e))
      | LoginPassword \<Rightarrow> long_enough (ud_password (ar_user_data req))
      | RegisterEmail \<Rightarrow> (case ar_email req of None \<Rightarrow> False | Some e \<Rightarrow> ae_valid_email env (py_strip e))
      | RegisterConfirm \<Rightarrow> ar_partial_token req \<noteq> None \<and> not_blank (ar_verification_code req)
      | RegisterDetails \<Rightarrow> long_enough (ud_password (ar_user_data req)) \<and> not_blank (ud_name (ar_user_data req))
      | RegisterExtraDetails \<Rightarrow>
          not_blank (pd_gender (ar_profile_data req)) \<and> pd_birth_year (ar_profile_data req) \<notin> {None, Some None} \<and>
          not_blank (pd_company (ar_profile_data req)) \<and> not_blank (pd_job_title (ar_profile_data req)))"

text \<open>The view: sessions of administrators acting as another user are turned away; for a registration the captcha may have to be solved.\<close>

definition social_auth_view ::
  "auth_serializer \<Rightarrow> 'z auth_db_scheme pipeline_env \<Rightarrow> (nat option \<Rightarrow> auth_partial option) \<Rightarrow> (auth_request \<Rightarrow> exn + bool) option \<Rightarrow>
     nat option \<Rightarrow> auth_request \<Rightarrow> ('z auth_db_scheme, nat + social_auth_state) prog" where
  "social_auth_view ser pe find_partial recaptcha current_user req =
     (if ar_hijacked req then ret (Inl 403)
      else
        bindp (lift_result (case (ser, recaptcha) of (RegisterEmail, Some check) \<Rightarrow> check req | _ \<Rightarrow> Inr True)) (\<lambda>human.
        if \<not> human \<or> \<not> serializer_is_valid (pe_account pe) ser req then ret (Inl 400)
        else bindp (serializer_save ser pe find_partial current_user (req\<lparr>ar_backend := EMAIL_BACKEND\<rparr>)) (\<lambda>st. ret (Inr st))))"

section \<open>Users stay sound\<close>

lemma users_inv_tables:
  assumes "users s' = users s" "legal_addresses s' = legal_addresses s" "profiles s' = profiles s"
    "affiliates s' = affiliates s" "referral_actions s' = referral_actions s"
  shows "users_inv s' = users_inv s"
  using assms by (simp add: users_inv_def)

lemma users_inv_other [simp]:
  fixes s :: "'z auth_db_scheme"
  shows "users_inv (exports_inquiries_update a s) = users_inv s" "users_inv (block_list_update b s) = users_inv s"
    "users_inv (change_email_requests_update c s) = users_inv s" "users_inv (social_auths_update d s) = users_inv s"
  by (rule users_inv_tables; simp)+

lemma users_inv_users_other [simp]:
  "users_inv (effects_update e s) = users_inv s" "users_inv (courseware_users_update f s) = users_inv s"
  "users_inv (openedx_auths_update g s) = users_inv s"
  by (rule users_inv_tables; simp)+

lemma keeps_emit_inv: "keeps users_inv (emit e)"
  by (rule keepsI) simp

lemma keeps_save_row:
  assumes "\<And>u. user_username (f u) = user_username u" "\<And>u. user_email (f u) = user_email u"
  shows "keeps users_inv (db_save users users_update k f)"
  using assms by (auto simp: keeps_def users_inv_def unique_on_t_save)

lemma keeps_user_save: "keeps users_inv (user_save k f)"
proof (rule keepsI)
  fix s :: "'a users_db_scheme" assume ok: "users_inv s"
  show "users_inv (snd (user_save k f s))"
  proof (cases "t_exists (users s) (\<lambda>j r. j \<noteq> k \<and> (user_username r = user_username (f (row (users s) k)) \<or> user_email r = user_email (f (row (users s) k))))")
    case False
    then have "unique_on (t_save (users s) k f) user_username" "unique_on (t_save (users s) k f) user_email"
      using ok by (auto simp: users_inv_def unique_on_def inj_on_def row_t_save t_exists_iff)
    with False ok show ?thesis
      by (simp add: user_save_def bindp_run users_inv_def)
  qed (use ok in \<open>simp add: user_save_def bindp_run\<close>)
qed

lemma keeps_save_address_row: "keeps users_inv (db_save legal_addresses legal_addresses_update k (apply_address v))"
proof -
  have "la_user (apply_address v a) = la_user a" for a by (simp add: apply_address_def)
  then show ?thesis
    by (auto simp: keeps_def users_inv_def matching_t_save)
qed

lemma keeps_save_profile_row: "keeps users_inv (db_save profiles profiles_update k (apply_profile v))"
proof -
  have "prof_user (apply_profile v a) = prof_user a" for a by (simp add: apply_profile_def)
  then show ?thesis
    by (auto simp: keeps_def users_inv_def matching_t_save)
qed

lemma keeps_case_sum: "(\<And>e. keeps I (f e)) \<Longrightarrow> (\<And>x. keeps I (g x)) \<Longrightarrow> keeps I (case r of Inl e \<Rightarrow> f e | Inr x \<Rightarrow> g x)"
  by (simp split: sum.split)

lemma keeps_save_address: "keeps users_inv (save_address env b user d)"
  unfolding save_address_def by (intro keeps_intros keeps_case_sum keeps_save_address_row)

lemma keeps_save_profile: "keeps users_inv (save_profile b user d)"
  unfolding save_profile_def by (intro keeps_intros keeps_case_sum keeps_save_profile_row)

lemma keeps_sync_user: "keeps users_inv (sync_hubspot_user env user)"
  unfolding sync_hubspot_user_def by (intro keeps_intros keeps_emit_inv)

lemma keeps_serializer_create: "keeps users_inv (user_serializer_create env aff d)"
  unfolding user_serializer_create_def create_user_def
  by (cases "ud_legal_address d"; cases "ud_username d"; cases "ud_email d"; cases "ud_password d")
     (auto split: option.split intro!: keeps_intros keeps_create_user_priv keeps_save_address keeps_save_profile keeps_sync_user)

lemma keeps_serializer_update: "keeps users_inv (user_serializer_update env user d)"
  unfolding user_serializer_update_def
  by (intro keeps_intros keeps_save_address keeps_save_profile keeps_sync_user keeps_user_save)

lemma users_inv_effects: "users_inv (s\<lparr>effects := es\<rparr>) = users_inv s"
  by simp

lemma keeps_other_account_table:
  assumes "\<And>f s. I (u f s) = I s"
  shows "keeps I (db_create g u r)" "keeps I (db_save g u k h)" "keeps I (db_update g u P h)" "keeps I (db_delete g u P)"
    "keeps I (db_get_or_create m g u P r)"
  by (simp_all add: keeps_def assms db_get_or_create_run)

lemma keeps_update_username: "keeps users_inv (update_xpro_user_username user username)"
proof (rule keepsI)
  fix s :: "'a users_db_scheme" assume ok: "users_inv s"
  show "users_inv (snd (update_xpro_user_username user username s))"
  proof (cases "t_exists (users s) (\<lambda>j u. j \<noteq> user \<and> user_username u = username)")
    case False
    then have "unique_on (t_save (users s) user (\<lambda>u. u\<lparr>user_username := username\<rparr>)) user_username"
      using ok by (auto simp: users_inv_def unique_on_def inj_on_def row_t_save t_exists_iff)
    moreover have "unique_on (t_save (users s) user (\<lambda>u. u\<lparr>user_username := username\<rparr>)) user_email"
      using ok by (intro unique_on_t_save) (simp_all add: users_inv_def)
    ultimately show ?thesis
      using False ok by (simp add: update_xpro_user_username_def bindp_run thenp_run users_inv_def)
  qed (use ok in \<open>simp add: update_xpro_user_username_def bindp_run thenp_run\<close>)
qed

lemma keeps_case_bool: "keeps I f \<Longrightarrow> keeps I g \<Longrightarrow> keeps I (case b of True \<Rightarrow> f | False \<Rightarrow> g)"
  by (simp split: bool.split)

text \<open>What the courseware part does to users: it may take over a user name, and nothing else.\<close>

lemma keeps_auth_token:
  assumes "\<And>s es. I (s\<lparr>effects := es\<rparr>) = I s" "\<And>f s. I (openedx_auths_update f s) = I s"
  shows "keeps I (create_edx_auth_token sv now user)"
  unfolding create_edx_auth_token_def create_tokens_and_update_auth_def Let_def
  by (intro keeps_intros keeps_transaction keeps_call_edx keeps_other_account_table) (simp_all add: assms)

lemma keeps_courseware_user:
  assumes "\<And>s es. I (s\<lparr>effects := es\<rparr>) = I s" "\<And>f s. I (courseware_users_update f s) = I s" "\<And>f s. I (openedx_auths_update f s) = I s"
    and "\<And>user username. keeps I (update_xpro_user_username user username)"
  shows "keeps I (create_edx_user sv user)" "keeps I (create_courseware_user sv now user)" "keeps I (repair_faulty_edx_user sv now user)"
proof -
  show edx: "keeps I (create_edx_user sv user)"
    unfolding create_edx_user_def get_existing_openedx_user_def get_edx_api_service_client_def
    by (intro keeps_intros keeps_transaction keeps_call_edx keeps_emit keeps_other_account_table assms(4)) (simp_all add: assms(1-3))
  note auth = keeps_auth_token [of I, OF assms(1,3)]
  show "keeps I (create_courseware_user sv now user)"
    unfolding create_courseware_user_def by (intro keeps_intros edx auth)
  show "keeps I (repair_faulty_edx_user sv now user)"
    unfolding repair_faulty_edx_user_def by (intro keeps_intros edx auth)
qed

lemma keeps_validate_name:
  assumes "\<And>s es. I (s\<lparr>effects := es\<rparr>) = I s"
  shows "keeps I (validate_name_with_edx sv name)"
  unfolding validate_name_with_edx_def
  by (rule keeps_bindp) (auto intro!: keeps_call_edx keeps_intros simp: assms split: reply.split)

lemma keeps_user_is_valid:
  assumes "\<And>s es. I (s\<lparr>effects := es\<rparr>) = I s"
  shows "keeps I (user_is_valid env partial d)"
  unfolding user_is_valid_def Let_def
  by (intro keeps_intros keeps_validate_name) (simp_all add: assms)

text \<open>
  What is asked of the steps that are not the program's own: that they keep what is to be kept, and for the generation of user names that it
  does if every attempt does.
\<close>

definition core_keeps :: "('s \<Rightarrow> bool) \<Rightarrow> 's pipeline_env \<Rightarrow> bool" where
  "core_keeps I pe \<longleftrightarrow>
     (\<forall>name n req a. keeps I (pe_core pe name n req a)) \<and>
     (\<forall>save name. (\<forall>u. keeps I (save u)) \<longrightarrow> keeps I (pe_with_username pe save name))"

lemma keeps_next_step [keeps_intros]: "keeps I (next_step a)"
  by (simp add: next_step_def keeps_ret)

lemma keeps_with_user [keeps_intros]: "(\<And>k. keeps I (f k)) \<Longrightarrow> keeps I (with_user a f)"
  unfolding with_user_def by (intro keeps_intros)

lemma keeps_run_steps:
  "(\<And>f n a. f \<in> set fs \<Longrightarrow> keeps I (f n req a)) \<Longrightarrow> keeps I (run_steps fs n req a)"
proof (induction fs arbitrary: n a)
  case (Cons f fs)
  have "keeps I (case r of Inr (Some a') \<Rightarrow> run_steps fs (Suc n) req a' | _ \<Rightarrow> ret r)" for r
    using Cons by (auto intro: keeps_ret split: sum.split option.split)
  with Cons.prems [of f] show ?case by (auto intro!: keeps_bindp)
qed (simp add: keeps_next_step)

lemma keeps_create_user_step:
  fixes I :: "'z auth_db_scheme \<Rightarrow> bool"
  assumes "core_keeps I pe" and "\<And>s es. I (s\<lparr>effects := es\<rparr>) = I s" and "\<And>aff d. keeps I (user_serializer_create env aff d)"
  shows "keeps I (create_user_via_email env (pe_usernameify pe) (pe_with_username pe) n req a)"
  unfolding create_user_via_email_def Let_def
  using assms by (intro keeps_intros keeps_case_sum keeps_user_is_valid) (auto simp: core_keeps_def)

lemma keeps_verify_exports:
  fixes I :: "'z auth_db_scheme \<Rightarrow> bool"
  assumes "\<And>s es. I (s\<lparr>effects := es\<rparr>) = I s" and "\<And>r. keeps I (db_create exports_inquiries exports_inquiries_update r)"
  shows "keeps I (verify_exports_compliance env n req a)"
  unfolding verify_exports_compliance_def verify_user_with_exports_def log_exports_inquiry_def notify_denied_def
  by (intro keeps_intros keeps_case_sum keeps_emit assms)

lemma keeps_activate: "keeps users_inv (activate_user env n req a)"
  unfolding activate_user_def by (intro keeps_intros keeps_save_row) simp_all

lemma keeps_courseware_step: "keeps users_inv (create_courseware_user_step env n req a)"
  unfolding create_courseware_user_step_def
  by (intro keeps_intros keeps_courseware_user(2) keeps_update_username keeps_emit_inv) simp_all

lemma keeps_create_profile: "keeps users_inv (create_profile env n req a)"
  unfolding create_profile_def by (intro keeps_intros keeps_case_sum keeps_save_profile_row keeps_sync_user)

lemma keeps_simple_steps:
  fixes I :: "'z auth_db_scheme \<Rightarrow> bool"
  assumes "\<And>s es. I (s\<lparr>effects := es\<rparr>) = I s"
  shows "keeps I (forbid_hijack n req a)" "keeps I (validate_email_auth_request n req a)" "keeps I (validate_email env n req a)"
    "keeps I (validate_password env n req a)" "keeps I (send_user_to_hubspot form post n req a)" "keeps I (get_username n req a)"
    "keeps I (sync_user_to_hubspot env n req a)"
  unfolding forbid_hijack_def validate_email_auth_request_def validate_email_def validate_password_def send_user_to_hubspot_def
    get_username_def sync_user_to_hubspot_def sync_hubspot_user_def Let_def
  by (intro keeps_intros keeps_emit; simp add: assms)+

lemma keeps_pipeline:
  assumes "core_keeps users_inv pe"
  shows "keeps users_inv (run_pipeline pe n req a)"
proof -
  have core: "keeps users_inv (pe_core pe name n req a)" for name n a
    using assms by (simp add: core_keeps_def)
  have inq: "keeps users_inv (db_create exports_inquiries exports_inquiries_update r :: ('a auth_db_scheme, nat) prog)" for r
    by (intro keeps_other_account_table) simp
  have "keeps users_inv (f m req b)" if "f \<in> set (SOCIAL_AUTH_PIPELINE pe)" for f m b
    using that core keeps_simple_steps [OF users_inv_users_other(1)]
      keeps_create_user_step [OF assms users_inv_users_other(1) keeps_serializer_create]
      keeps_verify_exports [OF users_inv_users_other(1) inq] keeps_activate keeps_courseware_step keeps_create_profile
    by (auto simp: SOCIAL_AUTH_PIPELINE_def Let_def)
  then show ?thesis
    unfolding run_pipeline_def by (intro keeps_run_steps) (auto dest: in_set_dropD)
qed

lemma keeps_authenticate:
  fixes I :: "'z auth_db_scheme \<Rightarrow> bool"
  assumes "\<And>n a. keeps I (run_pipeline pe n req a)" and "\<And>s es. I (s\<lparr>effects := es\<rparr>) = I s"
  shows "keeps I (authenticate pe find_partial cur flow req)"
proof -
  have "keeps I (resume_or_start pe find_partial cur flow req)"
    unfolding resume_or_start_def
    by (auto intro!: keeps_intros assms(1) split: option.split sum.split auth_exception.split)
  then show ?thesis
    unfolding authenticate_def
    by (auto intro!: keeps_intros keeps_emit simp: assms(2) split: option.split sum.split)
qed

lemma keeps_auth_view:
  fixes I :: "'z auth_db_scheme \<Rightarrow> bool"
  assumes "\<And>req n a. keeps I (run_pipeline pe n req a)" and "\<And>s es. I (s\<lparr>effects := es\<rparr>) = I s"
  shows "keeps I (social_auth_view ser pe find_partial recaptcha cur req)"
  unfolding social_auth_view_def serializer_save_def serializer_create_def Let_def
  by (intro keeps_intros keeps_authenticate assms)

section \<open>Everything that happens to accounts\<close>

inductive account_step :: "'z auth_db_scheme pipeline_env \<Rightarrow> 'z auth_db_scheme \<Rightarrow> 'z auth_db_scheme \<Rightarrow> bool" for pe where
  auth_request: "account_step pe s (snd (social_auth_view ser pe find_partial recaptcha cur req s))"
| update_request: "account_step pe s (snd (current_user_update (pe_account pe) user partial d s))"
| change_request: "account_step pe s (snd (change_email_request_create (pe_account pe) code user new_email password s))"
| confirm_request: "account_step pe s (snd (confirm_email_change (pe_account pe) code confirmed s))"
| approve: "set ks \<subseteq> set (pks (exports_inquiries s)) \<Longrightarrow> account_step pe s (snd (manually_approve_inquiry (ae_edx (pe_account pe)) now ks s))"
| block: "account_step pe s (snd (block_users (pe_account pe) emails s))"
| unblock: "account_step pe s (snd (unblock_users (pe_account pe) emails s))"
| retire: "account_step pe s (snd (retire_users (pe_account pe) names blocked s))"

lemma account_step_keeps:
  assumes "account_step pe s s'" and "I s"
    and "\<And>ser fp rc cur req. keeps I (social_auth_view ser pe fp rc cur req)"
    and "\<And>user partial d. keeps I (current_user_update (pe_account pe) user partial d)"
    and "\<And>code user e p. keeps I (change_email_request_create (pe_account pe) code user e p)"
    and "\<And>code c. keeps I (confirm_email_change (pe_account pe) code c)"
    and "\<And>now ks. set ks \<subseteq> set (pks (exports_inquiries s)) \<Longrightarrow> I (snd (manually_approve_inquiry (ae_edx (pe_account pe)) now ks s))"
    and "\<And>es. keeps I (block_users (pe_account pe) es)" and "\<And>es. keeps I (unblock_users (pe_account pe) es)"
    and "\<And>ns b. keeps I (retire_users (pe_account pe) ns b)"
  shows "I s'"
  using assms(1)
  by cases (use assms(2-) in \<open>simp_all add: keeps_def\<close>)

lemma keeps_block_tables:
  fixes I :: "'z auth_db_scheme \<Rightarrow> bool"
  assumes "\<And>f s. I (block_list_update f s) = I s"
  shows "keeps I (block_user_email env e)" "keeps I (block_users env es)" "keeps I (unblock_users env es)"
proof -
  show "keeps I (block_user_email env e)" for e
    unfolding block_user_email_def by (intro keeps_intros keeps_other_account_table) (simp_all add: assms)
  then show "keeps I (block_users env es)"
    unfolding block_users_def by (intro keeps_intros keeps_case_sum)
  show "keeps I (unblock_users env es)"
    unfolding unblock_users_def by (intro keeps_intros keeps_case_sum keeps_other_account_table) (simp_all add: assms)
qed

lemma keeps_change_create:
  fixes I :: "'z auth_db_scheme \<Rightarrow> bool"
  assumes "\<And>s es. I (s\<lparr>effects := es\<rparr>) = I s" and "\<And>f s. I (change_email_requests_update f s) = I s"
  shows "keeps I (change_email_request_create env code user e p)"
  unfolding change_email_request_create_def
  by (intro keeps_intros keeps_emit keeps_other_account_table) (simp_all add: assms)

lemma keeps_confirm:
  fixes I :: "'z auth_db_scheme \<Rightarrow> bool"
  assumes "\<And>s es. I (s\<lparr>effects := es\<rparr>) = I s" and "\<And>f s. I (change_email_requests_update f s) = I s"
    and "\<And>f s. I (social_auths_update f s) = I s" and "\<And>k e. keeps I (user_save k (\<lambda>u. u\<lparr>user_email := e\<rparr>))"
  shows "keeps I (confirm_email_change env code c)"
  unfolding confirm_email_change_def change_email_request_update_def delete_social_auth_def
  by (intro keeps_intros keeps_case_sum keeps_transaction keeps_emit assms(4) keeps_other_account_table) (simp_all add: assms(1-3))

lemma keeps_retire:
  fixes I :: "'z auth_db_scheme \<Rightarrow> bool"
  assumes "\<And>f s. I (block_list_update f s) = I s" and "\<And>f s. I (social_auths_update f s) = I s"
    and "\<And>k. keeps I (user_save k (\<lambda>u. u\<lparr>user_is_active := False, user_email := ae_retired_email env (user_email u),
                user_password := ae_unusable_password env\<rparr>))"
  shows "keeps I (retire_users env ns b)"
  unfolding retire_users_def retire_user_def
  by (intro keeps_intros keeps_block_tables assms(3) keeps_other_account_table; simp add: assms(1,2))

lemma keeps_current_update:
  fixes I :: "'z auth_db_scheme \<Rightarrow> bool"
  assumes "\<And>s es. I (s\<lparr>effects := es\<rparr>) = I s" and "\<And>d. keeps I (user_serializer_update env user d)"
  shows "keeps I (current_user_update env user partial d)"
  unfolding current_user_update_def
  by (intro keeps_transaction keeps_intros keeps_case_sum keeps_user_is_valid keeps_emit assms)

lemma keeps_ensure_active:
  assumes "\<And>s es. I (s\<lparr>effects := es\<rparr>) = I s" "\<And>f s. I (courseware_users_update f s) = I s" "\<And>f s. I (openedx_auths_update f s) = I s"
    and "\<And>user username. keeps I (update_xpro_user_username user username)"
    and "keeps I (db_save users users_update user (\<lambda>u. u\<lparr>user_is_active := True\<rparr>))"
  shows "keeps I (ensure_active_user sv now user)"
  unfolding ensure_active_user_def
  by (intro keeps_intros keeps_courseware_user(3) assms)

lemma keeps_approve:
  "keeps users_inv (manually_approve_inquiry sv now ks)"
  unfolding manually_approve_inquiry_def
  by (intro keeps_intros keeps_ensure_active keeps_update_username keeps_save_row keeps_other_account_table) simp_all

text \<open>
  C30: Whatever requests, approvals, blocks and retirements happen, user names and addresses stay unique, and every user has at most one
  postal address and one profile.
\<close>

theorem account_step_users_inv:
  assumes "core_keeps users_inv pe" and "account_step pe s s'" and "users_inv s"
  shows "users_inv s'"
  using assms(2,3)
proof (rule account_step_keeps)
  show "users_inv (snd (manually_approve_inquiry (ae_edx (pe_account pe)) now ks s))" for now ks
    using keeps_approve assms(3) unfolding keeps_def by blast
qed (intro keeps_auth_view keeps_pipeline assms(1) keeps_current_update keeps_serializer_update keeps_change_create keeps_confirm
      keeps_user_save keeps_block_tables keeps_retire; simp)+

section \<open>Active users are cleared\<close>

text \<open>
  Every active user has an inquiry that succeeded or was approved, or one of the given ones, which are about to be approved.
\<close>

definition has_clearance :: "nat set \<Rightarrow> exports_inquiry_row table \<Rightarrow> nat \<Rightarrow> bool" where
  "has_clearance K t k \<longleftrightarrow> t_exists t (\<lambda>i r. ei_user r = k \<and> (is_success r \<or> i \<in> K))"

definition cleared_by :: "nat set \<Rightarrow> 'z auth_db_scheme \<Rightarrow> bool" where
  "cleared_by K s \<longleftrightarrow>
     wf_table (users s) \<and> wf_table (exports_inquiries s) \<and> K \<subseteq> set (pks (exports_inquiries s)) \<and>
     (\<forall>k \<in> set (pks (users s)). user_is_active (row (users s) k) \<longrightarrow> has_clearance K (exports_inquiries s) k)"

definition active_users_cleared :: "'z auth_db_scheme \<Rightarrow> bool" where
  "active_users_cleared s \<longleftrightarrow> cleared_by {} s"

lemma cleared_by_other [simp]:
  "cleared_by K (block_list_update b s) = cleared_by K s" "cleared_by K (change_email_requests_update c s) = cleared_by K s"
  "cleared_by K (social_auths_update d s) = cleared_by K s" "cleared_by K (effects_update e s) = cleared_by K s"
  "cleared_by K (courseware_users_update f s) = cleared_by K s" "cleared_by K (openedx_auths_update g s) = cleared_by K s"
  "cleared_by K (legal_addresses_update h s) = cleared_by K s" "cleared_by K (profiles_update p s) = cleared_by K s"
  "cleared_by K (affiliates_update q s) = cleared_by K s" "cleared_by K (referral_actions_update r s) = cleared_by K s"
  by (simp_all add: cleared_by_def)

lemma has_clearance_create: "wf_table t \<Longrightarrow> has_clearance K t k \<Longrightarrow> has_clearance K (snd (t_create t r)) k"
  using wf_table_fresh [of t] by (fastforce simp: has_clearance_def t_exists_iff row_t_create)

lemma keeps_cleared_inquiry: "keeps (cleared_by K) (db_create exports_inquiries exports_inquiries_update r)"
  by (rule keepsI) (auto simp: cleared_by_def has_clearance_create)

lemma keeps_cleared_save:
  assumes active: "\<And>u. user_is_active (f u) \<Longrightarrow> user_is_active u"
  shows "keeps (cleared_by K) (db_save users users_update k f)"
proof (rule keepsI)
  fix s :: "'a auth_db_scheme" assume ok: "cleared_by K s"
  have "user_is_active (row (users s) j)" if "user_is_active (row (t_save (users s) k f) j)" for j
  proof (cases "j = k")
    case True
    with that have "user_is_active (f (row (users s) k))" by simp
    with True show ?thesis by (blast intro: active)
  qed (use that in simp)
  then have "\<forall>j \<in> set (pks (users s)). user_is_active (row (t_save (users s) k f) j) \<longrightarrow> has_clearance K (exports_inquiries s) j"
    using ok unfolding cleared_by_def by blast
  with ok show "cleared_by K (snd (db_save users users_update k f s))"
    by (simp add: cleared_by_def)
qed

lemma keeps_cleared_user_save:
  assumes "\<And>u. user_is_active (f u) \<Longrightarrow> user_is_active u"
  shows "keeps (cleared_by K) (user_save k f)"
  unfolding user_save_def by (intro keeps_intros keeps_cleared_save) (rule assms)

lemma keeps_cleared_create:
  assumes "\<not> user_is_active u"
  shows "keeps (cleared_by K) (insert_user u)"
proof (rule keepsI)
  fix s :: "'a auth_db_scheme" assume ok: "cleared_by K s"
  then have "next_pk (users s) \<notin> set (pks (users s))"
    by (simp add: cleared_by_def wf_table_fresh)
  with ok assms show "cleared_by K (snd (insert_user u s))"
    by (simp add: insert_user_run cleared_by_def row_t_create)
qed

lemma keeps_cleared_serializer_create: "keeps (cleared_by K) (user_serializer_create env aff d)"
proof -
  have made: "keeps (cleared_by K) (create_user ne sp now un em pw
      \<lparr>ef_name = n, ef_is_staff = None, ef_is_superuser = None, ef_is_active = None, ef_affiliate_id = aff\<rparr> ::
        ('a auth_db_scheme, nat) prog)" for ne sp now un em pw n
    unfolding create_user_def create_user_priv_def post_create_user_def
    by (intro keeps_intros keeps_cleared_create keeps_other_account_table) (simp_all add: new_user_def)
  show ?thesis
    unfolding user_serializer_create_def save_address_def save_profile_def sync_hubspot_user_def
    by (cases "ud_legal_address d"; cases "ud_username d"; cases "ud_email d"; cases "ud_password d")
      (auto split: option.split intro!: keeps_intros made keeps_case_sum keeps_other_account_table keeps_emit)
qed

lemma keeps_cleared_serializer_update: "keeps (cleared_by K) (user_serializer_update env user d)"
  unfolding user_serializer_update_def save_address_def save_profile_def sync_hubspot_user_def
  by (intro keeps_intros keeps_case_sum keeps_cleared_user_save keeps_other_account_table keeps_emit) (simp_all add: apply_user_def)

lemma keeps_cleared_username: "keeps (cleared_by K) (update_xpro_user_username user name)"
  unfolding update_xpro_user_username_def by (intro keeps_intros keeps_cleared_save) simp

lemma get_latest_matching:
  assumes "get_latest_exports_inquiry s user = Some i"
  shows "i \<in> set (pks (exports_inquiries s))" "ei_user (row (exports_inquiries s) i) = user"
  using first_of_in_set [OF assms [unfolded get_latest_exports_inquiry_def]] by simp_all

text \<open>A user who is activated has to have the clearance.\<close>

lemma cleared_by_activate:
  assumes "cleared_by K s" and "has_clearance K (exports_inquiries s) user"
  shows "cleared_by K (s\<lparr>users := t_save (users s) user (\<lambda>u. u\<lparr>user_is_active := True\<rparr>)\<rparr>)"
  using assms by (auto simp: cleared_by_def row_t_save)

lemma keeps_cleared_activate:
  assumes "is_exports_verification_enabled (ae_exports env)"
  shows "keeps (cleared_by K) (activate_user env n req a)"
proof (rule keepsI)
  fix s :: "'a auth_db_scheme" assume ok: "cleared_by K s"
  show "cleared_by K (snd (activate_user env n req a s))"
  proof (cases "pa_user a")
    case (Some user)
    show ?thesis
    proof (cases "get_latest_exports_inquiry s user")
      case found: (Some i)
      then have "is_success (row (exports_inquiries s) i) \<Longrightarrow> has_clearance K (exports_inquiries s) user"
        using get_latest_matching [OF found] by (auto simp: has_clearance_def t_exists_iff)
      with found Some ok assms cleared_by_activate [OF ok, of user] show ?thesis
        by (simp add: activate_user_def with_user_def bindp_run thenp_run next_step_def)
    qed (use Some ok assms in \<open>simp add: activate_user_def with_user_def bindp_run thenp_run next_step_def\<close>)
  qed (use ok in \<open>simp add: activate_user_def with_user_def\<close>)
qed

lemma keeps_cleared_other_steps:
  "keeps (cleared_by K) (create_courseware_user_step env n req a)" "keeps (cleared_by K) (create_profile env n req a)"
  unfolding create_courseware_user_step_def create_profile_def sync_hubspot_user_def
  by (intro keeps_intros keeps_case_sum keeps_courseware_user(2) keeps_cleared_username keeps_emit keeps_other_account_table; simp)+

lemma keeps_cleared_pipeline:
  assumes "is_exports_verification_enabled (ae_exports (pe_account pe))" and "core_keeps (cleared_by K) pe"
  shows "keeps (cleared_by K) (run_pipeline pe n req a)"
proof -
  have core: "keeps (cleared_by K) (pe_core pe name n req a)" for name n a
    using assms by (simp add: core_keeps_def)
  have "keeps (cleared_by K) (f m req b)" if "f \<in> set (SOCIAL_AUTH_PIPELINE pe)" for f m b
    using that core keeps_simple_steps [of "cleared_by K", OF cleared_by_other(4)]
      keeps_create_user_step [of "cleared_by K", OF assms(2) cleared_by_other(4) keeps_cleared_serializer_create]
      keeps_verify_exports [of "cleared_by K", OF cleared_by_other(4) keeps_cleared_inquiry] keeps_cleared_activate [OF assms(1)] keeps_cleared_other_steps
    by (auto simp: SOCIAL_AUTH_PIPELINE_def Let_def)
  then show ?thesis
    unfolding run_pipeline_def by (intro keeps_run_steps) (auto dest: in_set_dropD)
qed

lemma keeps_cleared_repair: "keeps (cleared_by K) (repair_faulty_edx_user sv now user)"
  by (intro keeps_courseware_user(3) keeps_cleared_username) simp_all

lemma keeps_cleared_ensure:
  "cleared_by K s \<Longrightarrow> has_clearance K (exports_inquiries s) user \<Longrightarrow> cleared_by K (snd (ensure_active_user sv now user s))"
proof -
  have "keeps (cleared_by K) (bindp (asks (\<lambda>s. user \<in> set (faulty_courseware_users s))) (\<lambda>faulty.
     whenp faulty (try_catch (bindp (repair_faulty_edx_user sv now user) (\<lambda>_. ret ())) (\<lambda>_. ret ()))) :: ('a auth_db_scheme, unit) prog)"
    by (intro keeps_intros keeps_cleared_repair)
  moreover assume "cleared_by K s" "has_clearance K (exports_inquiries s) user"
  ultimately show ?thesis
    using cleared_by_activate [of K s user]
    by (cases "user_is_active (row (users s) user)") (simp_all add: ensure_active_user_def bindp_run thenp_run keeps_def)
qed

lemma ensure_active_returns: "fst (ensure_active_user sv now user s) = Inr ()"
proof -
  have caught: "fst (try_catch m (\<lambda>_. ret ()) t) = Inr ()" for m :: "('a users_db_scheme, unit) prog" and t
    by (simp add: try_catch_def split: prod.split sum.split)
  show ?thesis
    using caught by (simp add: ensure_active_user_def bindp_run thenp_run whenp_def)
qed

lemma for_each_returns:
  assumes "\<And>x s. fst (f x s) = Inr ()"
  shows "fst (for_each xs f s) = Inr ()"
proof (induction xs arbitrary: s)
  case (Cons x xs)
  with assms [of x s] show ?case by (cases "f x s") (simp add: thenp_run)
qed simp

lemma has_clearance_approved:
  "has_clearance (set ks) t k \<Longrightarrow>
   has_clearance {} (t_update t (\<lambda>i r. i \<in> set ks \<and> ei_computed_result r \<notin> {RESULT_MANUALLY_APPROVED, RESULT_SUCCESS})
     (\<lambda>r. r\<lparr>ei_computed_result := RESULT_MANUALLY_APPROVED\<rparr>)) k"
  by (auto simp: has_clearance_def t_exists_iff row_t_update is_success_def)

lemma manually_approve_cleared:
  fixes s :: "'z auth_db_scheme"
  assumes "set ks \<subseteq> set (pks (exports_inquiries s))" and "active_users_cleared s"
  shows "active_users_cleared (snd (manually_approve_inquiry sv now ks s))"
proof -
  let ?P = "\<lambda>k. ei_computed_result (row (exports_inquiries s) k) \<notin> {RESULT_MANUALLY_APPROVED, RESULT_SUCCESS}"
  let ?each = "\<lambda>k. bindp (asks (\<lambda>s. ei_user (row (exports_inquiries s) k))) (ensure_active_user sv now) :: ('z auth_db_scheme, unit) prog"
  have ok: "cleared_by (set ks) s"
    using assms by (auto simp: active_users_cleared_def cleared_by_def has_clearance_def t_exists_iff)
  have each: "keeps (cleared_by (set ks)) (?each k)" if "k \<in> set ks" for k
  proof (rule keepsI)
    fix s :: "'z auth_db_scheme" assume s: "cleared_by (set ks) s"
    with that have "has_clearance (set ks) (exports_inquiries s) (ei_user (row (exports_inquiries s) k))"
      by (auto simp: has_clearance_def t_exists_iff cleared_by_def)
    with s show "cleared_by (set ks) (snd (?each k s))"
      by (simp add: bindp_run keeps_cleared_ensure)
  qed
  have loop: "keeps (cleared_by (set ks)) (for_each es ?each)" if "set es \<subseteq> set ks" for es
    using that by (induction es) (auto intro!: keeps_ret keeps_thenp each)
  obtain s' where run: "for_each (filter ?P ks) ?each s = (Inr (), s')"
    using for_each_returns [of ?each "filter ?P ks" s] by (cases "for_each (filter ?P ks) ?each s") (auto simp: bindp_run ensure_active_returns)
  with loop [of "filter ?P ks"] ok have "cleared_by (set ks) s'"
    by (auto dest: keepsD)
  with run show ?thesis
    by (simp add: manually_approve_inquiry_def bindp_run thenp_run active_users_cleared_def cleared_by_def has_clearance_approved [simplified])
qed

text \<open>
  C29: Export control. Where the check is switched on, every active user has an inquiry that succeeded or that an administrator approved; every
  request, approval, block and retirement keeps it so, as long as the steps that are not the program's own do.
\<close>

theorem account_step_users_cleared:
  assumes "is_exports_verification_enabled (ae_exports (pe_account pe))" and "core_keeps active_users_cleared pe"
    and "account_step pe s s'" and "active_users_cleared s"
  shows "active_users_cleared s'"
  using assms(3,4)
proof (rule account_step_keeps)
  show "active_users_cleared (snd (manually_approve_inquiry (ae_edx (pe_account pe)) now ks s))"
    if "set ks \<subseteq> set (pks (exports_inquiries s))" for now ks
    using manually_approve_cleared that assms(4) by blast
  have eq: "active_users_cleared = cleared_by {}"
    by (rule ext) (simp add: active_users_cleared_def)
  show "keeps active_users_cleared (social_auth_view ser pe fp rc cur req)" for ser fp rc cur req
    using assms(1,2) unfolding eq by (intro keeps_auth_view keeps_cleared_pipeline) simp_all
  show "keeps active_users_cleared (current_user_update (pe_account pe) user partial d)" for user partial d
    unfolding eq by (intro keeps_current_update keeps_cleared_serializer_update) simp
  show "keeps active_users_cleared (change_email_request_create (pe_account pe) code user e p)" for code user e p
    unfolding eq by (intro keeps_change_create) simp_all
  show "keeps active_users_cleared (confirm_email_change (pe_account pe) code c)" for code c
    unfolding eq by (intro keeps_confirm keeps_cleared_user_save) simp_all
  show "keeps active_users_cleared (block_users (pe_account pe) es)" "keeps active_users_cleared (unblock_users (pe_account pe) es)" for es
    unfolding eq by (intro keeps_block_tables; simp)+
  show "keeps active_users_cleared (retire_users (pe_account pe) ns b)" for ns b
    unfolding eq by (intro keeps_retire keeps_cleared_user_save) simp_all
qed

section \<open>An example\<close>

text \<open>Two users: one is active and cleared, the other's inquiry was denied.\<close>

definition example_account_env :: account_env where
  "example_account_env =
     \<lparr>ae_now = 100, ae_edx = open_service,
      ae_geo = \<lparr>country_of_code = (\<lambda>c. if c \<in> {''US'', ''FR''} then Some (c, c) else None), subdivision_of_code = (\<lambda>_. None)\<rparr>,
      ae_exports = \<lparr>ex_settings = [''url'', ''merchant'', ''key'', ''nacl''],
        ex_run_transaction = (\<lambda>_ _. Inr \<lparr>er_request = [], er_response = [], er_reason_code = 100, er_export_reply = Some None\<rparr>),
        ex_encrypt = Inr\<rparr>,
      ae_normalize_email = id, ae_set_password = (\<lambda>p. p), ae_check_password = (\<lambda>h p. h = p), ae_md5 = id, ae_hubspot_token = False,
      ae_change_email_ttl_minutes = 60, ae_valid_email = (\<lambda>e. e \<noteq> []), ae_unusable_password = ''!'',
      ae_retired_email = (\<lambda>e. ''retired-'' @ e)\<rparr>"

definition find_social_user :: "string \<Rightarrow> auth_db auth_step" where
  "find_social_user name n req a =
     (if name = ''social_user''
      then bindp (asks (\<lambda>s. t_first (users s) (\<lambda>_ u. pa_email a = Some (user_email u)))) (\<lambda>user. next_step (a\<lparr>pa_user := user\<rparr>))
      else next_step a)"

definition example_pipeline :: "auth_db pipeline_env" where
  "example_pipeline =
     \<lparr>pe_account = example_account_env, pe_core = find_social_user, pe_usernameify = (\<lambda>name email. name),
      pe_with_username = (\<lambda>save name. bindp (save name) (\<lambda>k. ret (Some k))), pe_hubspot_form = None, pe_hubspot_post = (\<lambda>_. Inr ())\<rparr>"

definition bob :: user_row where
  "bob = example_user\<lparr>user_username := ''bob'', user_email := ''bob@x.org'', user_is_active := False, user_password := ''secret99''\<rparr>"

definition example_inquiry :: exports_inquiry_row where
  "example_inquiry = \<lparr>ei_user = 1, ei_computed_result = RESULT_SUCCESS, ei_reason_code = 100, ei_info_code = None,
     ei_encrypted_request = [], ei_encrypted_response = [], ei_created_on = 1\<rparr>"

definition example_accounts :: auth_db where
  "example_accounts =
     users_db.extend
       (example_users_db\<lparr>users := table_of example_user [example_user, bob],
          legal_addresses := table_of (blank_legal_address 1) [blank_legal_address 1, blank_legal_address 2],
          profiles := table_of (blank_profile 1) [blank_profile 1, blank_profile 2]\<rparr>)
       (auth_db.fields
          (table_of example_inquiry
            [example_inquiry, example_inquiry\<lparr>ei_user := 2, ei_computed_result := RESULT_DENIED, ei_reason_code := 700\<rparr>])
          (table_of [] [''eve@x.org'']) (empty_table \<lparr>cer_user = 0, cer_new_email = [], cer_code = [], cer_confirmed = False, cer_expires_on = 0\<rparr>)
          (table_of \<lparr>sa_user = 0, sa_provider = [], sa_uid = []\<rparr> [\<lparr>sa_user = 2, sa_provider = EMAIL_BACKEND, sa_uid = ''bob@x.org''\<rparr>]))"

lemmas example_account_defs = example_accounts_def example_users_db_def users_db.defs auth_db.defs

lemma example_accounts_users_inv: "users_inv example_accounts"
  by (simp add: example_account_defs users_inv_def unique_on_def inj_on_def matching_def table_of_def
      empty_table_def wf_table_def blank_legal_address_def blank_profile_def bob_def example_user_def)

lemma example_accounts_cleared: "active_users_cleared example_accounts"
  by (simp add: example_account_defs active_users_cleared_def cleared_by_def has_clearance_def t_exists_def table_of_def wf_table_def bob_def
      example_user_def example_inquiry_def is_success_def RESULT_SUCCESS_def)

lemma example_core_keeps: "core_keeps I example_pipeline"
  unfolding core_keeps_def example_pipeline_def
  by (auto simp: find_social_user_def intro!: keeps_intros)

lemma account_step_users_inv_witness:
  "users_inv (snd (retire_users example_account_env [''ann''] True example_accounts))"
proof (rule account_step_users_inv)
  show "account_step example_pipeline example_accounts (snd (retire_users example_account_env [''ann''] True example_accounts))"
    using account_step.retire [of example_pipeline example_accounts "[''ann'']" True] by (simp add: example_pipeline_def)
qed (rule example_core_keeps, rule example_accounts_users_inv)

lemma account_step_users_cleared_witness:
  "active_users_cleared (snd (manually_approve_inquiry open_service 100 [2] example_accounts))"
proof (rule account_step_users_cleared)
  have "set [2] \<subseteq> set (pks (exports_inquiries example_accounts))"
    by (simp add: example_account_defs table_of_def)
  then show "account_step example_pipeline example_accounts (snd (manually_approve_inquiry open_service 100 [2] example_accounts))"
    using account_step.approve [of "[2]" example_accounts example_pipeline 100] by (simp add: example_pipeline_def example_account_env_def)
  show "is_exports_verification_enabled (ae_exports (pe_account example_pipeline))"
    by (simp add: is_exports_verification_enabled_def example_pipeline_def example_account_env_def)
qed (rule example_core_keeps, rule example_accounts_cleared)

section \<open>Logging in takes the password\<close>

text \<open>
  \<open>answers R m\<close>: whatever \<open>m\<close> returns satisfies \<open>R\<close>. The steps of the pipeline that do not create a user go on with the user they were given.
\<close>

definition answers :: "('a \<Rightarrow> bool) \<Rightarrow> ('s, 'a) prog \<Rightarrow> bool" where
  "answers R m \<longleftrightarrow> triple (\<lambda>_. True) m (\<lambda>a _. R a)"

named_theorems answers_intros

lemma answers_basic [answers_intros]: "R a \<Longrightarrow> answers R (ret a)" "answers R (raise e)"
  by (simp_all add: answers_def triple_def)

lemma answers_bindp [answers_intros]: "(\<And>a. answers R (f a)) \<Longrightarrow> answers R (bindp m f)"
  unfolding answers_def by (rule triple_bindp [where R = "\<lambda>_ _. True"]) (simp_all add: triple_def)

lemma answers_thenp [answers_intros]: "answers R n \<Longrightarrow> answers R (thenp m n)"
  unfolding thenp_def by (rule answers_bindp)

lemma answers_if [answers_intros]: "answers R m \<Longrightarrow> answers R n \<Longrightarrow> answers R (if b then m else n)"
  by simp

lemma answers_option [answers_intros]: "answers R m \<Longrightarrow> (\<And>x. answers R (f x)) \<Longrightarrow> answers R (case v of None \<Rightarrow> m | Some x \<Rightarrow> f x)"
  by (simp split: option.split)

lemma answers_sum [answers_intros]: "(\<And>e. answers R (f e)) \<Longrightarrow> (\<And>x. answers R (g x)) \<Longrightarrow> answers R (case v of Inl e \<Rightarrow> f e | Inr x \<Rightarrow> g x)"
  by (simp split: sum.split)

lemma answers_prod [answers_intros]: "(\<And>x y. answers R (f x y)) \<Longrightarrow> answers R (case v of (x, y) \<Rightarrow> f x y)"
  by (simp split: prod.split)

lemma answers_with_user [answers_intros]: "(\<And>k. answers R (f k)) \<Longrightarrow> answers R (with_user a f)"
  unfolding with_user_def by (intro answers_intros)

lemma triple_keeps: "keeps I m \<Longrightarrow> answers R m \<Longrightarrow> triple I m (\<lambda>a s. I s \<and> R a)"
  unfolding keeps_def answers_def triple_def by (metis snd_conv)

definition same_user :: "pipe_args \<Rightarrow> auth_exception + pipe_args option \<Rightarrow> bool" where
  "same_user a r \<longleftrightarrow> (case r of Inr (Some a') \<Rightarrow> pa_user a' = pa_user a | _ \<Rightarrow> True)"

lemma same_user_simps [simp]: "same_user a (Inl e)" "same_user a (Inr None)" "same_user a (Inr (Some a')) \<longleftrightarrow> pa_user a' = pa_user a"
  by (simp_all add: same_user_def)

lemma answers_next [answers_intros]: "pa_user a' = pa_user a \<Longrightarrow> answers (same_user a) (next_step a')"
  by (simp add: next_step_def answers_basic)

lemma steps_same_user:
  fixes req :: auth_request
  shows "answers (same_user a) (forbid_hijack n req a)" "answers (same_user a) (validate_email_auth_request n req a)"
    "answers (same_user a) (validate_email env n req a)" "answers (same_user a) (validate_password env n req a)"
    "answers (same_user a) (send_user_to_hubspot form post n req a)" "answers (same_user a) (get_username n req a)"
    "answers (same_user a) (verify_exports_compliance env n req a)" "answers (same_user a) (activate_user env n req a)"
    "answers (same_user a) (create_courseware_user_step env n req a)" "answers (same_user a) (create_profile env n req a)"
    "answers (same_user a) (sync_user_to_hubspot env n req a)"
  unfolding forbid_hijack_def validate_email_auth_request_def validate_email_def validate_password_def send_user_to_hubspot_def
    get_username_def verify_exports_compliance_def activate_user_def create_courseware_user_step_def create_profile_def
    sync_user_to_hubspot_def Let_def
  by (intro answers_intros; simp)+

text \<open>Users are not deleted by the steps.\<close>

definition user_exists :: "nat \<Rightarrow> 'z users_db_scheme \<Rightarrow> bool" where
  "user_exists k s \<longleftrightarrow> wf_table (users s) \<and> k \<in> set (pks (users s))"

lemma user_exists_other [simp]:
  "user_exists k (effects_update e s) = user_exists k s" "user_exists k (courseware_users_update f s) = user_exists k s"
  "user_exists k (openedx_auths_update g s) = user_exists k s" "user_exists k (legal_addresses_update h s) = user_exists k s"
  "user_exists k (profiles_update p s) = user_exists k s" "user_exists k (affiliates_update q s) = user_exists k s"
  "user_exists k (referral_actions_update r s) = user_exists k s"
  by (simp_all add: user_exists_def)

lemma user_exists_auth [simp]: "user_exists k (exports_inquiries_update f s) = user_exists k s"
  by (simp add: user_exists_def)

lemma keeps_exists_save: "keeps (user_exists k) (db_save users users_update j f)"
  by (simp add: keeps_def user_exists_def)

lemma keeps_exists_username: "keeps (user_exists k) (update_xpro_user_username user name)"
  unfolding update_xpro_user_username_def by (intro keeps_intros keeps_exists_save)

lemma keeps_exists_insert: "keeps (user_exists k) (insert_user u)"
  by (auto simp: keeps_def user_exists_def insert_user_run)

lemma keeps_exists_create: "keeps (user_exists k) (user_serializer_create env aff d)"
proof -
  have "keeps (user_exists k) (create_user ne sp now un em pw ex)" for ne sp now un em pw ex
    unfolding create_user_def create_user_priv_def post_create_user_def db_create_def
    by (intro keeps_intros keeps_exists_insert) (auto simp: keeps_def)
  moreover have "keeps (user_exists k) (db_save legal_addresses legal_addresses_update j f)"
    "keeps (user_exists k) (db_save profiles profiles_update j g)" for j f g
    by (simp_all add: keeps_def)
  ultimately show ?thesis
    unfolding user_serializer_create_def save_address_def save_profile_def sync_hubspot_user_def
    by (cases "ud_legal_address d"; cases "ud_username d"; cases "ud_email d"; cases "ud_password d")
      (auto split: option.split intro!: keeps_intros keeps_case_sum keeps_emit)
qed

text \<open>
  What is asked of the foreign steps about a user \<open>k\<close> whose stored password is \<open>p\<close>: they delete no user, leave this password alone, the steps after the check of
  the password go on with the user they were given, the validation of the address also with the flow, and the generation of user names answers with users that
  did not exist.
\<close>

definition same_user_and_flow :: "pipe_args \<Rightarrow> auth_exception + pipe_args option \<Rightarrow> bool" where
  "same_user_and_flow a r \<longleftrightarrow> (case r of Inr (Some a') \<Rightarrow> pa_user a' = pa_user a \<and> pa_flow a' = pa_flow a | _ \<Rightarrow> True)"

lemma same_user_and_flow_simps [simp]:
  "same_user_and_flow a (Inl e)" "same_user_and_flow a (Inr None)"
  "same_user_and_flow a (Inr (Some a')) \<longleftrightarrow> pa_user a' = pa_user a \<and> pa_flow a' = pa_flow a"
  by (simp_all add: same_user_and_flow_def)

definition core_trusted :: "nat \<Rightarrow> string \<Rightarrow> 'z auth_db_scheme pipeline_env \<Rightarrow> bool" where
  "core_trusted k p pe \<longleftrightarrow>
     core_keeps (user_exists k) pe \<and> core_keeps (\<lambda>s. user_password (row (users s) k) = p) pe \<and>
     (\<forall>name \<in> {''mail_validation'', ''associate_user'', ''load_extra_data'', ''user_details''}. \<forall>n req a.
        answers (same_user a) (pe_core pe name n req a)) \<and>
     (\<forall>n req a. answers (same_user_and_flow a) (pe_core pe ''mail_validation'' n req a)) \<and>
     (\<forall>save name. (\<forall>u. keeps (user_exists k) (save u) \<and> triple (user_exists k) (save u) (\<lambda>j _. j \<noteq> k)) \<longrightarrow>
        triple (user_exists k) (pe_with_username pe save name) (\<lambda>r _. r \<noteq> Some k))"

text \<open>\<open>no_takeover k a r\<close>: a step that goes on with user \<open>k\<close> was given this user.\<close>

definition no_takeover :: "nat \<Rightarrow> pipe_args \<Rightarrow> auth_exception + pipe_args option \<Rightarrow> bool" where
  "no_takeover k a r \<longleftrightarrow> (case r of Inr (Some a') \<Rightarrow> pa_user a' = Some k \<longrightarrow> pa_user a = Some k | _ \<Rightarrow> True)"

lemma no_takeover_simps [simp]:
  "no_takeover k a (Inl e)" "no_takeover k a (Inr None)" "no_takeover k a (Inr (Some a')) \<longleftrightarrow> (pa_user a' = Some k \<longrightarrow> pa_user a = Some k)"
  by (simp_all add: no_takeover_def)

definition passes_on :: "nat \<Rightarrow> auth_request \<Rightarrow> 'z users_db_scheme auth_step \<Rightarrow> bool" where
  "passes_on k req f \<longleftrightarrow> (\<forall>n a. triple (user_exists k) (f n req a) (\<lambda>r s. user_exists k s \<and> no_takeover k a r))"

lemma passes_onI:
  assumes "\<And>n a. keeps (user_exists k) (f n req a)" and "\<And>n a. answers (same_user a) (f n req a)"
  shows "passes_on k req f"
proof -
  have "same_user a r \<Longrightarrow> no_takeover k a r" for a r
    by (auto simp: same_user_def no_takeover_def split: sum.splits option.splits)
  then show ?thesis
    unfolding passes_on_def by (intro allI triple_post [OF triple_keeps [OF assms]]) simp
qed

lemma triple_const: "(b \<Longrightarrow> answers R m) \<Longrightarrow> triple (\<lambda>_. b) m (\<lambda>a _. R a)"
  by (auto simp: answers_def triple_def)

lemma create_user_new: "triple (user_exists k) (create_user ne sp now un em pw ex) (\<lambda>j _. j \<noteq> k)"
  by (rule tripleI) (auto simp: create_user_def create_user_priv_run Let_def user_exists_def wf_table_fresh split: if_splits)

lemma serializer_create_new: "triple (user_exists k) (user_serializer_create env aff d) (\<lambda>j _. j \<noteq> k)"
proof (cases "(ud_legal_address d, ud_username d, ud_email d, ud_password d)")
  case (fields address username email password)
  have raised: "triple (user_exists k) (raise e) Q" for e and Q :: "nat \<Rightarrow> 'a users_db_scheme \<Rightarrow> bool"
    by (simp add: triple_def)
  show ?thesis
  proof (cases "address = None \<or> username = None \<or> email \<in> {None, Some None} \<or> password = None")
    case True
    then show ?thesis
      using fields by (auto simp: user_serializer_create_def raised split: option.split)
  next
    case False
    then obtain ad un em pw where ok: "address = Some ad" "username = Some un" "email = Some (Some em)" "password = Some pw"
      by (cases "the email"; cases email) fastforce+
    show ?thesis
      using fields unfolding user_serializer_create_def ok
      by (simp, intro triple_bindp [where R = "\<lambda>j _. j \<noteq> k"] triple_atomic create_user_new triple_const answers_intros) simp_all
  qed
qed

lemma triple_keeps_post: "triple I m Q \<Longrightarrow> keeps I m \<Longrightarrow> triple I m (\<lambda>a s. I s \<and> Q a s)"
  unfolding keeps_def triple_def by (metis snd_conv)

lemma triple_same: "keeps I m \<Longrightarrow> triple I m (\<lambda>_. I)"
  unfolding keeps_def triple_def by (metis snd_conv)

lemma triple_ask: "(\<And>x. triple P (f x) Q) \<Longrightarrow> triple P (bindp (asks g) f) Q"
  by (rule triple_bindp [where R = "\<lambda>_. P"]) (simp_all add: triple_def)

lemma triple_if: "triple P m Q \<Longrightarrow> triple P n Q \<Longrightarrow> triple P (if b then m else n) Q"
  by simp

lemma triple_catch:
  assumes "triple P m Q" and "\<And>e. triple (\<lambda>_. True) (h e) Q"
  shows "triple P (try_catch m h) Q"
  using assms by (fastforce simp: triple_def try_catch_def split: prod.splits sum.splits)

text \<open>Creating a user ends with another user than those that exist.\<close>

lemma core_trusted_username:
  assumes "core_trusted k p pe" and "\<And>u. keeps (user_exists k) (save u)" and "\<And>u. triple (user_exists k) (save u) (\<lambda>j _. j \<noteq> k)"
  shows "triple (user_exists k) (pe_with_username pe save name) (\<lambda>r _. r \<noteq> Some k)"
  using assms by (simp add: core_trusted_def)

lemma passes_on_create:
  assumes "core_trusted k p pe"
  shows "passes_on k req (create_user_via_email env (pe_usernameify pe) (pe_with_username pe))"
proof -
  have created: "triple (user_exists k)
      (try_catch
        (bindp (pe_with_username pe (\<lambda>u. user_serializer_create env aff (v\<lparr>ud_username := Some u\<rparr>)) username) (\<lambda>created_user.
          case created_user of
            None \<Rightarrow> raise (IntegrityError ''Failed to create User with generated username'')
          | Some j \<Rightarrow> bindp (asks (\<lambda>s. user_username (row (users s) j))) (\<lambda>name.
              next_step (a\<lparr>pa_is_new := True, pa_user := Some j, pa_username := Some name\<rparr>))))
        (\<lambda>_. ret (Inl (UserCreationFailedException (n, a)))))
      (\<lambda>r _. no_takeover k a r)" for aff v username n a
  proof (rule triple_catch)
    have "triple (user_exists k) (pe_with_username pe (\<lambda>u. user_serializer_create env aff (v\<lparr>ud_username := Some u\<rparr>)) username)
        (\<lambda>r _. r \<noteq> Some k)"
      by (rule core_trusted_username [OF assms keeps_exists_create serializer_create_new])
    then show "triple (user_exists k) (bindp (pe_with_username pe (\<lambda>u. user_serializer_create env aff (v\<lparr>ud_username := Some u\<rparr>)) username)
        (\<lambda>created_user. case created_user of
            None \<Rightarrow> raise (IntegrityError ''Failed to create User with generated username'')
          | Some j \<Rightarrow> bindp (asks (\<lambda>s. user_username (row (users s) j))) (\<lambda>name.
              next_step (a\<lparr>pa_is_new := True, pa_user := Some j, pa_username := Some name\<rparr>))))
      (\<lambda>r _. no_takeover k a r)"
      by (rule triple_bindp)
        (auto intro!: triple_const answers_intros split: option.split simp: next_step_def)
  qed (auto simp: triple_def)
  have valid: "keeps (user_exists k) (user_is_valid env False d)" for d
    by (rule keeps_user_is_valid) simp
  have steps: "triple (user_exists k) (create_user_via_email env (pe_usernameify pe) (pe_with_username pe) n req a) (\<lambda>r _. no_takeover k a r)" for n a
    unfolding create_user_via_email_def Let_def
    by (auto intro!: triple_if triple_ask triple_bindp [OF triple_same [OF valid]] created split: option.split sum.split)
      (auto simp: triple_def next_step_def)
  have kept: "keeps (user_exists k) (create_user_via_email env (pe_usernameify pe) (pe_with_username pe) n req a)" for n a
    using assms by (intro keeps_create_user_step keeps_exists_create) (simp_all add: core_trusted_def)
  show ?thesis
    unfolding passes_on_def using triple_keeps_post [OF steps kept] by blast
qed

lemma passes_on_run_steps: "(\<And>f. f \<in> set fs \<Longrightarrow> passes_on k req f) \<Longrightarrow> passes_on k req (\<lambda>n req. run_steps fs n req)"
proof (induction fs)
  case Nil
  then show ?case by (simp add: passes_on_def next_step_def triple_def)
next
  case (Cons f fs)
  then have first: "passes_on k req f" and rest: "passes_on k req (\<lambda>n req. run_steps fs n req)" by simp_all
  have "triple (\<lambda>s. user_exists k s \<and> no_takeover k a r) (case r of Inr (Some a') \<Rightarrow> run_steps fs (Suc n) req a' | _ \<Rightarrow> ret r)
      (\<lambda>r s. user_exists k s \<and> no_takeover k a r)" for r n a
  proof -
    have "triple (\<lambda>s. user_exists k s \<and> no_takeover k a (Inr (Some a'))) (run_steps fs (Suc n) req a')
        (\<lambda>r s. user_exists k s \<and> no_takeover k a r)" for a'
      using rest unfolding passes_on_def triple_def by (fastforce simp: no_takeover_def split: sum.split option.split)
    then show ?thesis
      by (auto simp: triple_def split: sum.split option.split)
  qed
  with first show ?case
    unfolding passes_on_def run_steps.simps
    by (intro allI triple_bindp [where R = "\<lambda>r s. user_exists k s \<and> no_takeover k a r" for a]) blast+
qed

lemma run_steps_append:
  "run_steps (fs @ gs) n req a =
     bindp (run_steps fs n req a) (\<lambda>r. case r of Inr (Some a') \<Rightarrow> run_steps gs (n + length fs) req a' | _ \<Rightarrow> ret r)"
proof (induction fs arbitrary: n a)
  case Nil
  then show ?case by (simp add: next_step_def)
next
  case (Cons f fs)
  have step: "bindp (case r of Inr (Some a') \<Rightarrow> run_steps fs (Suc n) req a' | _ \<Rightarrow> ret r)
        (\<lambda>r. case r of Inr (Some a') \<Rightarrow> run_steps gs (Suc (n + length fs)) req a' | _ \<Rightarrow> ret r) =
      (case r of Inr (Some a') \<Rightarrow> run_steps (fs @ gs) (Suc n) req a' | _ \<Rightarrow> ret r)" for r
    by (auto simp: Cons.IH [of "Suc n", unfolded add_Suc] split: sum.split option.split)
  have len: "n + length (f # fs) = Suc (n + length fs)" by simp
  show ?case
    by (simp only: append_Cons run_steps.simps bindp_assoc len step)
qed

text \<open>
  A run under the flow of a registration that starts with a user, between the check of the flow and the creation of the user, does not go through.
\<close>

lemma answers_next_flow [answers_intros]:
  "pa_user a' = pa_user a \<Longrightarrow> pa_flow a' = pa_flow a \<Longrightarrow> answers (same_user_and_flow a) (next_step a')"
  by (simp add: next_step_def answers_basic)

lemma steps_same_flow:
  "answers (same_user_and_flow a) (validate_email env n req a)" "answers (same_user_and_flow a) (validate_password env n req a)"
  "answers (same_user_and_flow a) (send_user_to_hubspot form post n req a)" "answers (same_user_and_flow a) (get_username n req a)"
  unfolding validate_email_def validate_password_def send_user_to_hubspot_def get_username_def Let_def
  by (intro answers_intros; simp)+

lemma run_steps_same_flow:
  assumes "\<And>f m b. f \<in> set fs \<Longrightarrow> answers (same_user_and_flow b) (f m req b)"
    and "run_steps fs n req a s = (Inr (Inr (Some a')), s')"
  shows "pa_user a' = pa_user a \<and> pa_flow a' = pa_flow a"
  using assms
proof (induction fs arbitrary: n a s)
  case Nil
  then show ?case by (simp add: next_step_def)
next
  case (Cons f fs)
  from Cons.prems(2) obtain b t where f: "f n req a s = (Inr (Inr (Some b)), t)"
    and rest: "run_steps fs (Suc n) req b t = (Inr (Inr (Some a')), s')"
    by (auto elim!: bindp_InrE split: sum.splits option.splits)
  have "same_user_and_flow a (Inr (Some b))"
    using Cons.prems(1) [of f a n] f unfolding answers_def by (auto dest: tripleD)
  with Cons.IH [OF _ rest] Cons.prems(1) show ?case by simp
qed

lemma registration_with_user_stops:
  fixes pe :: "'z auth_db_scheme pipeline_env"
  assumes "core_trusted k p pe" and "ar_backend req = EMAIL_BACKEND" and "n \<in> {7, 8}"
    and "pa_flow a = Some FLOW_REGISTER" and "pa_user a = Some j"
  shows "run_pipeline pe n req a s \<noteq> (Inr (Inr (Some a')), s')"
proof
  assume run: "run_pipeline pe n req a s = (Inr (Inr (Some a')), s')"
  let ?env = "pe_account pe"
  let ?create = "create_user_via_email ?env (pe_usernameify pe) (pe_with_username pe)"
  define fs where "fs = drop n (take 12 (SOCIAL_AUTH_PIPELINE pe))"
  define gs where "gs = drop 13 (SOCIAL_AUTH_PIPELINE pe)"
  have split: "drop n (SOCIAL_AUTH_PIPELINE pe) = fs @ ?create # gs"
    using assms(3) by (auto simp: fs_def gs_def SOCIAL_AUTH_PIPELINE_def Let_def)
  have same: "answers (same_user_and_flow b) (f m req b)" if "f \<in> set fs" for f m b
    using that assms(1,3) steps_same_flow by (auto simp: fs_def SOCIAL_AUTH_PIPELINE_def Let_def core_trusted_def)
  obtain b m t where fs: "run_steps fs n req a s = (Inr (Inr (Some b)), t)"
    and rest: "run_steps (?create # gs) m req b t = (Inr (Inr (Some a')), s')"
    using run unfolding run_pipeline_def split
    by (subst (asm) run_steps_append) (auto elim!: bindp_InrE simp del: run_steps.simps split: sum.splits option.splits)
  have "pa_user b = pa_user a \<and> pa_flow b = pa_flow a"
    by (rule run_steps_same_flow [OF _ fs]) (rule same)
  with assms(4,5) have "pa_user b = Some j" "pa_flow b = Some FLOW_REGISTER" by simp_all
  with assms(2) have "?create m req b t = (Inr (Inl (UnexpectedExistingUserException (m, b))), t)"
    by (simp add: create_user_via_email_def)
  with rest show False by (simp add: bindp_run)
qed

text \<open>The three steps that check a login, and the steps before and after them.\<close>

lemma check_login:
  assumes "run_steps fs n req a s = (Inr (Inr (Some a')), s')" and "fs \<in> {[validate_email env, validate_password env], [validate_password env]}"
    and "ar_backend req = EMAIL_BACKEND" and "pa_flow a = Some FLOW_LOGIN" and "pa_user a' = Some k"
  shows "s' = s" "\<exists>p. ud_password (ar_user_data req) = Some p \<and> user_check_password env (row (users s) k) p"
proof -
  have password: "s' = s \<and> (\<exists>p. ud_password (ar_user_data req) = Some p \<and> user_check_password env (row (users s) k) p)"
    if "run_steps [validate_password env] m req a s = (Inr (Inr (Some a')), s')" for m
    using that assms(3-5) by (auto simp: validate_password_def next_step_def bindp_run split: option.splits if_splits)
  have "\<exists>m. run_steps [validate_password env] m req a s = (Inr (Inr (Some a')), s')"
  proof (cases "fs = [validate_password env]")
    case False
    with assms(1,2) have "run_steps [validate_email env, validate_password env] n req a s = (Inr (Inr (Some a')), s')" by simp
    moreover have "validate_email env n req a s \<in> {(Inr (Inr (Some a)), s), (Inr (Inl (EmailBlockedException (n, a))), s)}"
      by (auto simp: validate_email_def next_step_def bindp_run split: option.split)
    ultimately have "run_steps [validate_password env] (Suc n) req a s = (Inr (Inr (Some a')), s')"
      unfolding run_steps.simps(2) [of "validate_email env"] by (auto simp only: bindp_run insert_iff empty_iff) simp_all
    then show ?thesis by blast
  qed (use assms(1) in blast)
  with password show "s' = s" "\<exists>p. ud_password (ar_user_data req) = Some p \<and> user_check_password env (row (users s) k) p"
    by blast+
qed


lemma check_steps:
  assumes "run_steps [validate_email_auth_request, validate_email env, validate_password env] n req a s = (Inr (Inr (Some a')), s')"
    and "ar_backend req = EMAIL_BACKEND" and "pa_user a' = Some k"
  shows "s' = s" "\<exists>p. ud_password (ar_user_data req) = Some p \<and> user_check_password env (row (users s) k) p"
proof -
  let ?a = "a\<lparr>pa_flow := Some FLOW_LOGIN\<rparr>"
  have auth: "validate_email_auth_request n req a s = (Inr (Inr (Some (if pa_user a = None then a else ?a))), s)"
    using assms(2) by (simp add: validate_email_auth_request_def next_step_def)
  have email: "validate_email env m req b s = (Inr (Inr (Some b)), s) \<or> validate_email env m req b s = (Inr (Inl (EmailBlockedException (m, b))), s)" for m b
    by (auto simp: validate_email_def next_step_def bindp_run split: option.split)
  have password: "validate_password env m req ?a s = (Inr (Inr (Some b)), t) \<Longrightarrow> pa_user a = Some k \<Longrightarrow>
      t = s \<and> (\<exists>p. ud_password (ar_user_data req) = Some p \<and> user_check_password env (row (users s) k) p)" for m b t
    using assms(2) by (auto simp: validate_password_def next_step_def bindp_run split: option.splits if_splits)
  let ?b = "if pa_user a = None then a else ?a"
  have "run_steps [validate_email env, validate_password env] (Suc n) req ?b s = (Inr (Inr (Some a')), s')"
    using assms(1) unfolding run_steps.simps(2) [of validate_email_auth_request] by (simp only: bindp_run auth) simp
  then have "run_steps [validate_password env] (Suc (Suc n)) req ?b s = (Inr (Inr (Some a')), s')"
    using email [of "Suc n" ?b] unfolding run_steps.simps(2) [of "validate_email env"] by (auto simp only: bindp_run) simp_all
  then have last: "validate_password env (Suc (Suc n)) req ?b s = (Inr (Inr (Some a')), s')"
    by (auto simp: bindp_def next_step_def split: sum.splits option.splits prod.splits)
  have same: "pa_user a' = pa_user ?b"
    using steps_same_user(4) [of ?b env "Suc (Suc n)" req] last unfolding answers_def triple_def by (metis same_user_simps(3))
  then have given: "pa_user a = Some k" "?b = ?a"
    using assms(3) by (auto split: if_splits)
  with last show "s' = s" "\<exists>p. ud_password (ar_user_data req) = Some p \<and> user_check_password env (row (users s) k) p"
    using password [of "Suc (Suc n)" a' s'] by auto
qed

lemma steps_before_check:
  assumes "core_trusted k p pe" and "f \<in> set (take 6 (SOCIAL_AUTH_PIPELINE pe))"
  shows "keeps (user_exists k) (f n req a)" "keeps (\<lambda>s. user_password (row (users s) k) = p) (f n req a)"
  using assms keeps_simple_steps(1) [of "user_exists k"] keeps_simple_steps(1) [of "\<lambda>s. user_password (row (users s) k) = p"]
  by (auto simp: SOCIAL_AUTH_PIPELINE_def Let_def core_trusted_def core_keeps_def)

lemma steps_after_check:
  assumes "core_trusted k p pe" and "f \<in> set (drop 9 (SOCIAL_AUTH_PIPELINE pe))"
  shows "passes_on k req f"
proof -
  have core: "passes_on k req (pe_core pe name)" if "name \<in> {''mail_validation'', ''associate_user'', ''load_extra_data'', ''user_details''}" for name
    using assms(1) that by (intro passes_onI) (auto simp: core_trusted_def core_keeps_def)
  note ex = user_exists_other(1)
  have inq: "keeps (user_exists k) (db_create exports_inquiries exports_inquiries_update r :: ('a auth_db_scheme, nat) prog)" for r
    by (intro keeps_other_account_table) simp
  have "passes_on k req (verify_exports_compliance (pe_account pe) :: 'a auth_db_scheme auth_step)"
    by (intro passes_onI steps_same_user keeps_verify_exports inq) simp
  moreover have "passes_on k req (send_user_to_hubspot (pe_hubspot_form pe) (pe_hubspot_post pe) :: 'a auth_db_scheme auth_step)"
    "passes_on k req (get_username :: 'a auth_db_scheme auth_step)"
    "passes_on k req (sync_user_to_hubspot (pe_account pe) :: 'a auth_db_scheme auth_step)"
    by (intro passes_onI steps_same_user keeps_simple_steps; simp)+
  moreover have "passes_on k req (activate_user (pe_account pe) :: 'a auth_db_scheme auth_step)"
    by (intro passes_onI steps_same_user) (unfold activate_user_def, intro keeps_intros keeps_exists_save)
  moreover have "passes_on k req (create_courseware_user_step (pe_account pe) :: 'a auth_db_scheme auth_step)"
    by (intro passes_onI steps_same_user)
      (unfold create_courseware_user_step_def, intro keeps_intros keeps_courseware_user(2) keeps_exists_username keeps_emit; simp)
  moreover have "passes_on k req (create_profile (pe_account pe) :: 'a auth_db_scheme auth_step)"
    by (intro passes_onI steps_same_user)
      (unfold create_profile_def sync_hubspot_user_def, intro keeps_intros keeps_case_sum keeps_emit keeps_other_account_table; simp)
  ultimately show ?thesis
    using assms core passes_on_create [OF assms(1)] by (auto simp: SOCIAL_AUTH_PIPELINE_def Let_def)
qed

lemma keeps_steps_before:
  assumes "core_trusted k p pe" and "set fs \<subseteq> set (take 6 (SOCIAL_AUTH_PIPELINE pe))"
  shows "keeps (user_exists k) (run_steps fs n req a)" "keeps (\<lambda>s. user_password (row (users s) k) = p) (run_steps fs n req a)"
  using assms steps_before_check by (blast intro: keeps_run_steps)+

text \<open>
  C25: Logging in takes the password. A run of the pipeline for a request to log in or to register with an address, started anew or resumed at any step up to and
  including the check of the password, that goes through for a user who existed before it has compared the password of the request with the one of this user. The
  flow of a run that is resumed after the step that decides on it must be one of the two that the serializers pass; it may differ from the one the run was stopped
  under: under the flow of a registration the check is passed over, but a run for an existing user is then stopped where the user would be created.
\<close>

theorem login_needs_password:
  fixes pe :: "'z auth_db_scheme pipeline_env"
  assumes "core_trusted k (user_password (row (users s) k)) pe" and "ar_backend req = EMAIL_BACKEND" and "user_exists k s"
    and "n \<le> 6 \<or> n \<le> 8 \<and> pa_flow a \<in> {Some FLOW_LOGIN, Some FLOW_REGISTER}"
    and "run_pipeline pe n req a s = (Inr (Inr (Some a')), s')" and "pa_user a' = Some k"
  shows "\<exists>p. ud_password (ar_user_data req) = Some p \<and> user_check_password (pe_account pe) (row (users s) k) p"
proof -
  let ?env = "pe_account pe"
  define pre where "pre = drop n (take 6 (SOCIAL_AUTH_PIPELINE pe))"
  define check where "check = drop (n - 6) [validate_email_auth_request :: 'z auth_db_scheme auth_step, validate_email ?env, validate_password ?env]"
  define post where "post = drop 9 (SOCIAL_AUTH_PIPELINE pe)"
  have split: "drop n (SOCIAL_AUTH_PIPELINE pe) = pre @ check @ post"
  proof -
    have "SOCIAL_AUTH_PIPELINE pe =
        take 6 (SOCIAL_AUTH_PIPELINE pe) @ [validate_email_auth_request, validate_email ?env, validate_password ?env] @ post"
      by (simp add: SOCIAL_AUTH_PIPELINE_def post_def Let_def)
    moreover have "length (take 6 (SOCIAL_AUTH_PIPELINE pe)) = 6"
      by (simp add: SOCIAL_AUTH_PIPELINE_def Let_def)
    moreover have "drop (n - 6 - 3) post = post" using assms(4) by auto
    ultimately show ?thesis
      unfolding pre_def check_def by (metis drop_append length_Cons list.size(3) numeral_3_eq_3)
  qed
  obtain b t where pre: "run_steps pre n req a s = (Inr (Inr (Some b)), t)"
    and rest: "run_steps (check @ post) (n + length pre) req b t = (Inr (Inr (Some a')), s')"
    using assms(5) unfolding run_pipeline_def split
    by (subst (asm) run_steps_append) (auto elim!: bindp_InrE split: sum.splits option.splits)
  obtain c u where check: "run_steps check (n + length pre) req b t = (Inr (Inr (Some c)), u)"
    and post: "run_steps post (n + length pre + length check) req c u = (Inr (Inr (Some a')), s')"
    using rest by (subst (asm) run_steps_append) (auto elim!: bindp_InrE split: sum.splits option.splits)
  have "set pre \<subseteq> set (take 6 (SOCIAL_AUTH_PIPELINE pe))"
    unfolding pre_def by (rule set_drop_subset)
  then have t: "user_exists k t" "user_password (row (users t) k) = user_password (row (users s) k)"
    using keeps_steps_before [OF assms(1), of pre n req a] assms(3) pre unfolding keeps_def by (metis snd_conv)+
  have checks: "set check \<subseteq> {validate_email_auth_request, validate_email ?env, validate_password ?env}"
    unfolding check_def by (rule order_trans [OF set_drop_subset]) simp
  then have steps: "f \<in> set check \<Longrightarrow> f = validate_email_auth_request \<or> f = validate_email ?env \<or> f = validate_password ?env" for f
    by blast
  then have keeps: "f \<in> set check \<Longrightarrow> keeps (user_exists k) (f m req d)" for f m d
    using keeps_simple_steps(2-4) [where I = "user_exists k :: 'z auth_db_scheme \<Rightarrow> bool"] by fastforce
  have "keeps (user_exists k) (run_steps check (n + length pre) req b)"
    by (rule keeps_run_steps) (rule keeps)
  then have "user_exists k u" using check t(1) by (auto dest: keepsD)
  moreover have "passes_on k req (\<lambda>n req. run_steps post n req)"
    unfolding post_def by (intro passes_on_run_steps steps_after_check [OF assms(1)])
  ultimately have c: "pa_user c = Some k"
    using post assms(6) unfolding passes_on_def by (fastforce dest: tripleD)
  consider (start) "n \<le> 6" | (login) "n \<in> {7, 8}" "pa_flow a = Some FLOW_LOGIN" | (register) "n \<in> {7, 8}" "pa_flow a = Some FLOW_REGISTER"
    using assms(4) by fastforce
  then have "\<exists>p. ud_password (ar_user_data req) = Some p \<and> user_check_password ?env (row (users t) k) p"
  proof cases
    case start
    then have "check = [validate_email_auth_request, validate_email ?env, validate_password ?env]" by (simp add: check_def)
    with check_steps [OF _ assms(2) c] check show ?thesis by metis
  next
    case login
    then have "pre = []" and "check \<in> {[validate_email ?env, validate_password ?env], [validate_password ?env]}"
      by (auto simp: pre_def check_def)
    with pre check_login(2) [OF check _ assms(2) _ c] login show ?thesis by (simp add: next_step_def)
  next
    case register
    then have "pre = []" by (auto simp: pre_def)
    with pre have "b = a" by (simp add: next_step_def)
    have "f \<in> set check \<Longrightarrow> passes_on k req f" for f
      using steps by (intro passes_onI keeps) (auto intro: steps_same_user)
    then have "passes_on k req (\<lambda>n req. run_steps check n req)" by (rule passes_on_run_steps)
    then have "pa_user a = Some k"
      using check t(1) c unfolding passes_on_def \<open>b = a\<close> by (fastforce dest: tripleD)
    with registration_with_user_stops [OF assms(1,2) register] assms(5) show ?thesis by blast
  qed
  with t show ?thesis by (simp add: user_check_password_def)
qed

definition ann :: user_row where
  "ann = example_user\<lparr>user_password := ''secret99''\<rparr>"

definition ann_profile :: profile_row where
  "ann_profile = (blank_profile 1)\<lparr>prof_gender := ''f'', prof_birth_year := Some 1980, prof_company := ''MIT'', prof_job_title := ''dean''\<rparr>"

definition login_db :: auth_db where
  "login_db = example_accounts\<lparr>users := table_of ann [ann, bob], profiles := table_of ann_profile [ann_profile]\<rparr>"

definition no_profile_data :: profile_data where
  "no_profile_data = \<lparr>pd_gender = None, pd_birth_year = None, pd_company = None, pd_job_title = None, pd_industry = None, pd_job_function = None,
     pd_company_size = None, pd_years_experience = None, pd_leadership_level = None, pd_highest_education = None\<rparr>"

definition login_request :: "string \<Rightarrow> string \<Rightarrow> auth_request" where
  "login_request email password =
     \<lparr>ar_backend = EMAIL_BACKEND, ar_hijacked = False,
      ar_affiliate = \<lparr>areq_method = ''POST'', areq_GET = Map.empty, areq_session = None, areq_affiliate_code = None\<rparr>,
      ar_hubspotutk = None, ar_flow = Some FLOW_LOGIN, ar_email = Some email,
      ar_user_data = \<lparr>ud_name = None, ud_email = None, ud_username = None, ud_password = Some password, ud_legal_address = None, ud_profile = None\<rparr>,
      ar_profile_data = no_profile_data, ar_partial_token = None, ar_verification_code = None\<rparr>"

definition login_args :: "string \<Rightarrow> pipe_args" where
  "login_args email = \<lparr>pa_user = None, pa_flow = Some FLOW_LOGIN, pa_is_new = False, pa_username = None, pa_email = Some email\<rparr>"

lemma login_run:
  "run_pipeline example_pipeline 8 (login_request ''ann@x.org'' ''secret99'') ((login_args ''ann@x.org'')\<lparr>pa_user := Some 1\<rparr>) login_db =
     (Inr (Inr (Some ((login_args ''ann@x.org'')\<lparr>pa_user := Some 1, pa_username := Some ''ann''\<rparr>))), login_db)"
proof -
  have facts: "row (users login_db) 1 = ann" "user_is_active ann" "user_username ann = ''ann''" "user_password ann = ''secret99''"
    "t_exists (exports_inquiries login_db) (\<lambda>_ i. ei_user i = 1)" "profile_of login_db 1 = Inr 1" "row (profiles login_db) 1 = ann_profile"
    by code_simp+
  have complete: "profile_is_complete ann_profile" by code_simp
  have strings: "FLOW_REGISTER \<noteq> FLOW_LOGIN"
    by (simp add: FLOW_LOGIN_def FLOW_REGISTER_def)
  note env = example_pipeline_def example_account_env_def
  have core: "pe_core example_pipeline = find_social_user" "pe_hubspot_form example_pipeline = None" "pe_account example_pipeline = example_account_env"
    "ae_hubspot_token example_account_env = False" "ae_check_password example_account_env = (\<lambda>h p. h = p)"
    by (simp_all add: env)
  show ?thesis
    by (simp add: run_pipeline_def SOCIAL_AUTH_PIPELINE_def Let_def core next_step_def find_social_user_def forbid_hijack_def login_request_def
        login_args_def bindp_run validate_email_auth_request_def validate_email_def validate_password_def send_user_to_hubspot_def
        get_username_def create_user_via_email_def verify_exports_compliance_def activate_user_def create_courseware_user_step_def
        create_profile_def sync_user_to_hubspot_def sync_hubspot_user_def with_user_def user_check_password_def facts
        facts [unfolded One_nat_def] complete strings thenp_run strings [symmetric])
qed

lemma login_needs_password_witness:
  "\<exists>p. ud_password (ar_user_data (login_request ''ann@x.org'' ''secret99'')) = Some p \<and>
     user_check_password example_account_env (row (users login_db) 1) p"
proof -
  have trusted: "core_trusted 1 (user_password (row (users login_db) 1)) example_pipeline"
  proof -
    have "triple (user_exists 1) (bindp (save name) (\<lambda>k. ret (Some k))) (\<lambda>r _. r \<noteq> Some 1)"
      if "\<And>u. triple (user_exists 1) (save u) (\<lambda>j _. j \<noteq> 1)" for save :: "string \<Rightarrow> (auth_db, nat) prog" and name
      by (rule triple_bindp [OF that]) (simp add: triple_def)
    moreover have "answers (same_user a) (find_social_user name n req a)"
      if "name \<in> {''mail_validation'', ''associate_user'', ''load_extra_data'', ''user_details''}" for name n req a
      using that by (auto simp: find_social_user_def intro: answers_intros)
    moreover have "answers (same_user_and_flow a) (find_social_user ''mail_validation'' n req a)" for n req a
      by (auto simp: find_social_user_def intro: answers_intros)
    moreover have "pe_core example_pipeline = find_social_user" "pe_with_username example_pipeline = (\<lambda>save name. bindp (save name) (\<lambda>k. ret (Some k)))"
      by (simp_all add: example_pipeline_def)
    ultimately show ?thesis
      unfolding core_trusted_def using example_core_keeps by simp
  qed
  have env: "pe_account example_pipeline = example_account_env"
    by (simp add: example_pipeline_def)
  have exists: "user_exists 1 login_db"
    by (simp add: user_exists_def login_db_def example_account_defs table_of_def wf_table_def)
  show ?thesis
    using login_needs_password [OF trusted _ exists _ login_run] by (simp add: env login_request_def login_args_def)
qed

section \<open>The block list\<close>

text \<open>
  C28: Blocked addresses. A registration by email for an address without a user is turned away for a blocked address only if the request itself
  names the registration as its flow: the endpoint of the registration accepts a request that names the login, which goes on to the
  confirmation of the address whatever the block list holds.
\<close>

theorem block_list_follows_sent_flow:
  assumes "\<And>name m. name \<in> {''social_details'', ''social_uid'', ''auth_allowed'', ''social_user'', ''associate_by_email''} \<Longrightarrow>
      pe_core pe name m req a s = (Inr (Inr (Some a)), s)"
    and "ar_backend req = EMAIL_BACKEND" and "\<not> ar_hijacked req" and "pa_user a = None" and "pa_flow a = Some FLOW_REGISTER"
  shows "run_pipeline pe 0 req a s =
    (if ar_flow req = Some FLOW_REGISTER \<and> (\<exists>email. ar_email req = Some email \<and> is_user_email_blocked (pe_account pe) s email)
     then (Inr (Inl (EmailBlockedException (7, a))), s)
     else run_steps (drop 9 (SOCIAL_AUTH_PIPELINE pe)) 9 req a s)"
proof -
  define B where "B \<longleftrightarrow> ar_flow req = Some FLOW_REGISTER \<and> (\<exists>email. ar_email req = Some email \<and> is_user_email_blocked (pe_account pe) s email)"
  have flows: "FLOW_REGISTER \<noteq> FLOW_LOGIN" by (simp add: FLOW_REGISTER_def FLOW_LOGIN_def)
  have core: "pe_core pe ''social_details'' m req a s = (Inr (Inr (Some a)), s)" "pe_core pe ''social_uid'' m req a s = (Inr (Inr (Some a)), s)"
    "pe_core pe ''auth_allowed'' m req a s = (Inr (Inr (Some a)), s)" "pe_core pe ''social_user'' m req a s = (Inr (Inr (Some a)), s)"
    "pe_core pe ''associate_by_email'' m req a s = (Inr (Inr (Some a)), s)" for m
    using assms(1) by simp_all
  have steps: "forbid_hijack m req a s = (Inr (Inr (Some a)), s)" "validate_email_auth_request m req a s = (Inr (Inr (Some a)), s)"
    "validate_password env m req a s = (Inr (Inr (Some a)), s)"
    "validate_email (pe_account pe) m req a s = ((if B then Inr (Inl (EmailBlockedException (m, a))) else Inr (Inr (Some a))), s)" for m env
    using assms(2-5) flows
    by (auto simp: B_def forbid_hijack_def validate_email_auth_request_def validate_password_def validate_email_def next_step_def bindp_run
        split: option.split)
  show ?thesis
    unfolding run_pipeline_def SOCIAL_AUTH_PIPELINE_def Let_def B_def [symmetric]
    by (simp add: bindp_run core steps eval_nat_numeral)
qed

lemma block_list_follows_sent_flow_witness:
  "let req = (login_request ''eve@x.org'' [])\<lparr>ar_flow := Some FLOW_REGISTER\<rparr>;
       a = (login_args ''eve@x.org'')\<lparr>pa_flow := Some FLOW_REGISTER\<rparr>
   in run_pipeline example_pipeline 0 req a example_accounts = (Inr (Inl (EmailBlockedException (7, a))), example_accounts)"
proof -
  let ?req = "(login_request ''eve@x.org'' [])\<lparr>ar_flow := Some FLOW_REGISTER\<rparr>"
  let ?a = "(login_args ''eve@x.org'')\<lparr>pa_flow := Some FLOW_REGISTER\<rparr>"
  have none: "t_first (users example_accounts) (\<lambda>_ u. ''eve@x.org'' = user_email u) = None" by code_simp
  have core: "pe_core example_pipeline name m ?req ?a example_accounts = (Inr (Inr (Some ?a)), example_accounts)" for name m
    by (simp add: example_pipeline_def find_social_user_def bindp_run next_step_def login_args_def none)
  have blocked: "is_user_email_blocked (pe_account example_pipeline) example_accounts ''eve@x.org''" by code_simp
  have req: "ar_backend ?req = EMAIL_BACKEND" "\<not> ar_hijacked ?req" "pa_user ?a = None" "pa_flow ?a = Some FLOW_REGISTER"
    "ar_flow ?req = Some FLOW_REGISTER" "ar_email ?req = Some ''eve@x.org''"
    by (simp_all add: login_request_def login_args_def)
  show ?thesis
    using block_list_follows_sent_flow [of example_pipeline ?req ?a example_accounts, OF core req(1-4)] blocked req
    by (simp add: Let_def)
qed

section \<open>Addresses change without confirmation\<close>

lemma user_is_valid_answer:
  "answers (\<lambda>r. \<forall>v. r = Inr v \<longrightarrow> ud_email v = map_option (map_option (\<lambda>e. py_lower (py_strip e))) (ud_email d) \<and> ud_username v = ud_username d)
     (user_is_valid env partial d)"
  unfolding user_is_valid_def Let_def by (intro answers_intros) simp_all

lemma update_saves_user:
  "triple (\<lambda>s. row (users s) user = u) (user_serializer_update env user v) (\<lambda>_ s. row (users s) user = apply_user env v u)"
proof -
  let ?I = "\<lambda>s. row (users s) user = u"
  have saved: "triple ?I (user_save user f) (\<lambda>_ s. row (users s) user = f u)" for f :: "user_row \<Rightarrow> user_row"
    by (rule tripleI) (auto simp: user_save_def bindp_run split: if_splits)
  have address: "keeps ?I (save_address env b user d)" and profile: "keeps ?I (save_profile b user p)" for b d p
    unfolding save_address_def save_profile_def by (intro keeps_intros keeps_case_sum; simp add: keeps_def)+
  have sync: "keeps (\<lambda>s. row (users s) user = w) (sync_hubspot_user env user)" for w
    unfolding sync_hubspot_user_def by (intro keeps_intros keeps_emit) simp
  show ?thesis
    unfolding user_serializer_update_def
    by (rule triple_thenp [OF triple_atomic [OF triple_thenp [OF triple_same triple_thenp [OF triple_same saved]]] triple_same [OF sync]])
      (intro keeps_case_option address profile keeps_ret)+
qed

lemma transaction_InrE:
  assumes "transaction m s = (Inr a, s')"
  obtains "m s = (Inr a, s')"
  using assms by (auto simp: transaction_def split: prod.splits sum.splits)

text \<open>
  C27: A profile update that carries an address or a user name sets it, whatever the user proves: no password is asked for, no request for a
  change is stored or looked up and no message goes to the new address. The declared fields are writable although
  the user name is listed as a read-only one.
\<close>

theorem profile_update_sets_email:
  fixes s :: "'z auth_db_scheme"
  assumes "current_user_update env user partial d s = (Inr None, s')"
  shows "\<exists>v. row (users s') user = apply_user env v (row (users s) user) \<and> ud_username v = ud_username d \<and>
    ud_email v = map_option (map_option (\<lambda>e. py_lower (py_strip e))) (ud_email d) \<and>
    change_email_requests s' = change_email_requests s \<and> social_auths s' = social_auths s"
proof -
  let ?T = "\<lambda>t :: 'z auth_db_scheme. change_email_requests t = change_email_requests s \<and> social_auths t = social_auths s"
  have tables: "keeps ?T (current_user_update env user partial d)"
  proof (rule keeps_current_update)
    show "keeps ?T (user_serializer_update env user v)" for v
      unfolding user_serializer_update_def save_address_def save_profile_def user_save_def sync_hubspot_user_def
      by (intro keeps_intros keeps_case_sum keeps_emit; simp add: keeps_def)
  qed simp
  have same: "keeps (\<lambda>t. row (users t) user = u) (user_is_valid env partial d)" for u
    by (rule keeps_user_is_valid) simp
  obtain r t where valid: "user_is_valid env partial d s = (Inr r, t)"
    and rest: "(case r of Inl errors \<Rightarrow> ret (Some errors)
        | Inr v \<Rightarrow> thenp (user_serializer_update env user v)
           (thenp (whenp (Some (user_name (row (users s) user)) \<noteq> ud_name d) (emit (QueueTask ''change_edx_user_name_async'' [user]))) (ret None))) t =
      (Inr None, s')"
    using assms unfolding current_user_update_def by (auto elim!: transaction_InrE bindp_InrE)
  have t: "row (users t) user = row (users s) user"
    using keepsD [OF same valid] by blast
  from rest obtain v t' where v: "r = Inr v" and saved: "user_serializer_update env user v t = (Inr (), t')"
    and last: "thenp (whenp (Some (user_name (row (users s) user)) \<noteq> ud_name d) (emit (QueueTask ''change_edx_user_name_async'' [user]))) (ret None) t' =
      (Inr None, s')"
    by (cases r) (auto elim!: thenp_InrE)
  have "row (users t') user = apply_user env v (row (users s) user)"
    using tripleD [OF update_saves_user saved t] .
  moreover have "users s' = users t'"
    using last by (auto simp: thenp_run whenp_def emit_def split: if_splits)
  moreover have "ud_email v = map_option (map_option (\<lambda>e. py_lower (py_strip e))) (ud_email d) \<and> ud_username v = ud_username d"
    using user_is_valid_answer [of d env partial] valid v unfolding answers_def triple_def by blast
  moreover have "?T s'"
    using keepsD [OF tables assms] by simp
  ultimately show ?thesis by auto
qed

definition new_address_data :: user_data where
  "new_address_data = \<lparr>ud_name = None, ud_email = Some (Some ''Other@x.org''), ud_username = None, ud_password = None,
     ud_legal_address = None, ud_profile = None\<rparr>"

lemma profile_update_sets_email_witness:
  "user_email (row (users (snd (current_user_update example_account_env 1 True new_address_data login_db))) 1) = ''other@x.org''"
proof -
  have run: "fst (current_user_update example_account_env 1 True new_address_data login_db) = Inr None"
  proof -
    have lower: "py_lower (py_strip ''Other@x.org'') = ''other@x.org''" by code_simp
    have free: "\<not> t_exists (users login_db) (\<lambda>k r. k \<noteq> 1 \<and> (user_username r = ''ann'' \<or> user_email r = ''other@x.org''))"
      by code_simp
    have ann: "row (users login_db) 1 = ann" "user_username ann = ''ann''" by code_simp+
    have env: "ae_hubspot_token example_account_env = False" by (simp add: example_account_env_def)
    show ?thesis
      by (simp add: current_user_update_def transaction_run bindp_run user_is_valid_def Let_def nested_address_is_valid_def char_field_def
          new_address_data_def errors_of_def user_serializer_update_def thenp_run atomic_run user_save_def apply_user_def given_def
          lower free ann free [unfolded One_nat_def] ann [unfolded One_nat_def] sync_hubspot_user_def env)
  qed
  then have "current_user_update example_account_env 1 True new_address_data login_db =
      (Inr None, snd (current_user_update example_account_env 1 True new_address_data login_db))"
    by (metis prod.collapse)
  note spec = profile_update_sets_email [OF this]
  have "py_lower (py_strip ''Other@x.org'') = ''other@x.org''" by code_simp
  with spec show ?thesis
    by (auto simp: apply_user_def new_address_data_def)
qed

section \<open>Confirming a new address\<close>

lemma delete_social_auth_ok:
  assumes "delete_social_auth user uid s = (Inr (), s')"
  shows "users s' = users s" "change_email_requests s' = change_email_requests s"
    "\<not> t_exists (social_auths s') (\<lambda>_ a. sa_uid a = uid \<and> sa_user a = user)"
proof -
  let ?P = "\<lambda>_ a. sa_uid a = uid \<and> sa_user a = user"
  consider (found) k where "matching (social_auths s) ?P = [k]" | (none) "matching (social_auths s) ?P = []" |
    (many) "\<exists>e. t_get ''UserSocialAuth'' (social_auths s) ?P = Inl e \<and> \<not> is_does_not_exist e"
    by (cases "matching (social_auths s) ?P" rule: remdups_adj.cases) (auto simp: t_get_def the_only_def is_does_not_exist_def)
  then have "users s' = users s \<and> change_email_requests s' = change_email_requests s \<and> \<not> t_exists (social_auths s') ?P"
  proof cases
    case found
    have "s' = s\<lparr>social_auths := t_delete (social_auths s) (\<lambda>j _. j = k)\<rparr>"
      using assms found by (simp add: delete_social_auth_def bindp_run t_get_def the_only_def)
    moreover have "{j \<in> set (pks (social_auths s)). ?P j (row (social_auths s) j)} = {k}"
      using arg_cong [OF found, of set] by simp
    ultimately show ?thesis by (auto simp: t_exists_iff)
  qed (use assms in \<open>auto simp: delete_social_auth_def bindp_run t_get_def the_only_def t_exists_matching\<close>)
  then show "users s' = users s" "change_email_requests s' = change_email_requests s" "\<not> t_exists (social_auths s') ?P"
    by simp_all
qed

text \<open>
  C26: Confirming a new address. If it goes through, the code was that of a request that was neither expired nor confirmed and nobody had the address; the
  request is then confirmed, its user has the address, no other user is touched, and the old address can no longer be used to log in by a social account. If
  it fails, nothing of this has changed.
\<close>

theorem confirm_email_change_spec:
  fixes s :: "'z auth_db_scheme"
  assumes "confirm_email_change env code (Some True) s = (r, s')"
  shows "case r of
      Inl _ \<Rightarrow> users s' = users s \<and> change_email_requests s' = change_email_requests s \<and> social_auths s' = social_auths s
    | Inr _ \<Rightarrow> \<exists>k \<in> set (pks (change_email_requests s)).
        (let q = row (change_email_requests s) k; u = cer_user q
         in cer_code q = code \<and> \<not> cer_confirmed q \<and> ae_now env < cer_expires_on q \<and>
            \<not> t_exists (users s) (\<lambda>_ v. user_email v = cer_new_email q) \<and>
            change_email_requests s' = t_save (change_email_requests s) k (\<lambda>q. q\<lparr>cer_confirmed := True\<rparr>) \<and>
            users s' = t_save (users s) u (\<lambda>v. v\<lparr>user_email := cer_new_email q\<rparr>) \<and>
            \<not> t_exists (social_auths s') (\<lambda>_ a. sa_uid a = user_email (row (users s) u) \<and> sa_user a = u))"
proof (cases r)
  case (Inl e)
  then show ?thesis
    using assms
    by (auto simp: confirm_email_change_def bindp_run change_email_request_update_def transaction_def split: option.splits prod.splits sum.splits)
next
  case (Inr x)
  obtain k where k: "t_first (change_email_requests s) (\<lambda>_ q. ae_now env < cer_expires_on q \<and> \<not> cer_confirmed q \<and> cer_code q = code) = Some k"
    and run: "change_email_request_update k (Some True) s = (Inr (), s')"
    using assms Inr by (auto simp: confirm_email_change_def bindp_run split: option.splits)
  let ?q = "row (change_email_requests s) k"
  have free: "\<not> t_exists (users s) (\<lambda>_ v. user_email v = cer_new_email ?q)"
    using run by (auto simp: change_email_request_update_def transaction_def bindp_run split: if_splits)
  let ?s1 = "s\<lparr>change_email_requests := t_save (change_email_requests s) k (\<lambda>q. q\<lparr>cer_confirmed := True\<rparr>)\<rparr>"
  have "thenp (user_save (cer_user ?q) (\<lambda>u. u\<lparr>user_email := cer_new_email ?q\<rparr>))
      (thenp (delete_social_auth (cer_user ?q) (user_email (row (users s) (cer_user ?q))))
        (emit (QueueTask ''change_edx_user_email_async'' [cer_user ?q]))) ?s1 = (Inr (), s')"
    using run free
    by (simp add: change_email_request_update_def transaction_run bindp_run thenp_run given_value_def split: prod.splits sum.splits)
  then obtain s2 s3 where saved: "user_save (cer_user ?q) (\<lambda>u. u\<lparr>user_email := cer_new_email ?q\<rparr>) ?s1 = (Inr (), s2)"
    and deleted: "delete_social_auth (cer_user ?q) (user_email (row (users s) (cer_user ?q))) s2 = (Inr (), s3)"
    and s': "s' = s3\<lparr>effects := effects s3 @ [QueueTask ''change_edx_user_email_async'' [cer_user ?q]]\<rparr>"
    by (auto elim!: thenp_InrE simp: emit_def)
  have "s2 = ?s1\<lparr>users := t_save (users s) (cer_user ?q) (\<lambda>v. v\<lparr>user_email := cer_new_email ?q\<rparr>)\<rparr>"
    using saved by (auto simp: user_save_def bindp_run split: if_splits)
  then show ?thesis
    using Inr t_first_SomeD [OF k] free delete_social_auth_ok [OF deleted] s' by (auto simp: Let_def)
qed

definition email_change_db :: auth_db where
  "email_change_db = login_db\<lparr>change_email_requests :=
     (let q = \<lparr>cer_user = 2, cer_new_email = ''robert@x.org'', cer_code = ''c0de'', cer_confirmed = False, cer_expires_on = 200\<rparr> in table_of q [q])\<rparr>"

lemma confirm_email_change_spec_witness:
  "\<not> t_exists (social_auths (snd (confirm_email_change example_account_env ''c0de'' (Some True) email_change_db)))
     (\<lambda>_ a. sa_uid a = ''bob@x.org'' \<and> sa_user a = 2)"
proof -
  let ?run = "confirm_email_change example_account_env ''c0de'' (Some True) email_change_db"
  have "fst ?run = Inr ()" by code_simp
  then have run: "?run = (Inr (), snd ?run)" by (metis prod.collapse)
  have pk: "pks (change_email_requests email_change_db) = [1]" and q: "cer_user (row (change_email_requests email_change_db) 1) = 2"
    and old: "user_email (row (users email_change_db) 2) = ''bob@x.org''"
    by code_simp+
  show ?thesis
    using confirm_email_change_spec [OF run] by (simp add: pk q old Let_def q [unfolded One_nat_def])
qed

end
