(* ===== verification/Spec2Isabelle.thy ===== *)
theory Spec2Isabelle
  imports Site_Utils Users Geo_Tax Coupons Cybersource Enrollments Orders Fulfilment B2b Basket_Update Order_Lifecycle Certificates Enrollment_Admin Sheet_Requests Sheet_Assignments External_Sync Accounts
begin

text \<open>
  A verification development of the MIT xPRO web site (\<open>mitxpro\<close>), a Django site that sells professional
  courses: learners and companies buy seats, the payment is made at CyberSource, and the courses run in Open edX.

  \<^bold>\<open>The program and its parts.\<close> A learner fills a basket with one product (a course run, or a program with a run for
  each of its courses) and at most one coupon. At check-out the basket is validated and mirrored into an
  unfulfilled order, and the browser is sent to the payment service with a signed payload. The service reports the decision
  to the fulfilment view; an accepted order is completed: the learner is enrolled in the runs, in the courseware and in the
  tables, vouchers and coupons are marked, the basket is cleared and a receipt is sent. Bulk orders buy enrollment
  codes instead, which are single-use coupons. Enrollments can be deactivated and deferred later.

  \<^bold>\<open>The model.\<close> The database is one record, built in layers that extend each other: \<open>users_db\<close> (theory
  Users), \<open>xpro_db\<close> (Course\_Models) and \<open>shop_db\<close> (Shop\_Models), with \<open>sheets_db\<close> (Sheet\_Handlers) around it; the geolocation tables are the separate
  \<open>geo_db\<close>. A table maps automatic primary keys to rows (theory Django\_Orm); a model object is its key, a model
  class the record of its columns. Code that reads and writes the database is a program \<open>'s \<Rightarrow> (exn + 'a) \<times> 's\<close>
  (theory Xpro\_Prelude): an exception keeps the state reached so far, \<open>atomic\<close> (a transaction block) goes back to the
  state it began with, and \<open>effects\<close> lists the messages and queued tasks in their order. Operations are polymorphic
  in the rest of the record, so a program on an inner layer is one of the whole site. Amounts are exact
  rationals with the rounding of \<open>decimal\<close> written out (theory Py\_Values); times are integers in seconds and \<open>now\<close> is
  an argument.

  \<^item> Xpro\_Prelude: exceptions, programs, the rules \<open>keeps_intros\<close> that carry an invariant through a program.
  \<^item> Py\_Values: strings, printing and parsing of integers, decimal rounding, and their laws.
  \<^item> Django\_Orm: tables, queries, \<open>create\<close>, \<open>save\<close>, \<open>delete\<close>, \<open>get_or_create\<close>, with
    locales \<open>object_store\<close> and \<open>db_table\<close> for what the callers rely on.
  \<^item> Site\_Utils: \<open>mitxpro/utils.py\<close>. Lemmas: accepted run dates, the retry loop ends within its bound, grouping.
  \<^item> Users: \<open>users/models.py\<close>, \<open>users/api.py\<close>, \<open>affiliate/\<close>. Lemmas: creating a user is all or
    nothing, looking up users answers once per value.
  \<^item> Course\_Models: \<open>courses/models.py\<close> and the audit trail of \<open>mitxpro/models.py\<close>. Lemmas: positions in a
    program, the first unexpired run, enrollments restored by reactivation.
  \<^item> Shop\_Models: \<open>ecommerce/models.py\<close>, \<open>ecommerce/utils.py\<close>, \<open>b2b_ecommerce/models.py\<close>,
    \<open>voucher/models.py\<close>. Lemmas: bounds of a discounted price, reference numbers name one order.
  \<^item> Geo\_Tax: \<open>maxmind/\<close> and the tax part of \<open>ecommerce/api.py\<close>. Lemmas: import of address blocks, which
    country is taxed.
  \<^item> Coupons: coupon search, best coupon, redemption, creation and assignment in \<open>ecommerce/api.py\<close>. Lemmas: what a
    valid coupon version satisfies, the best one is the cheapest, exactly the asked-for coupons are made.
  \<^item> Cybersource: the signed payloads of \<open>ecommerce/api.py\<close> and \<open>b2b_ecommerce/api.py\<close> and the check of
    notifications in \<open>ecommerce/permissions.py\<close>; the keyed hash is a parameter. Lemmas: a signed payload passes
    the check, the signed text fixes its fields, and the check-out payload passes as a notification.
  \<^item> Courseware: \<open>courseware/api.py\<close>; Open edX is a parameter (record \<open>edx_service\<close>). Lemmas: one
    accepted mode per run or an error, what a retry marks, and where it stops.
  \<^item> Enrollments: \<open>courses/api.py\<close> and the enrollment messages of \<open>ecommerce/mail_api.py\<close>. Lemmas: creating,
    deactivating and deferring enrollments, on every branch.
  \<^item> Basket: products named by a query string, validation of a basket, data consents, clearing of baskets
    (\<open>ecommerce/api.py\<close>). Lemmas: what a validated basket satisfies, what clearing removes.
  \<^item> Receipts: \<open>OrderReceiptSerializer\<close> and the serializers it uses, and the receipt message.
  \<^item> Orders: the unfulfilled order of a basket, its completion, payment notifications, and the check-out view
    (\<open>ecommerce/api.py\<close>, \<open>ecommerce/views.py\<close>). Locales \<open>sends_frame\<close>, \<open>run_enrollment_frame\<close>,
    \<open>after_enrollment_frame\<close> and \<open>completion_frame\<close> state which tables the steps of a completion may write; their
    interpretations give the frame conditions. Lemmas: the order mirrors the basket, synchronising is
    idempotent, one notification changes the status once.
  \<^item> Fulfilment: an accepted payment ends without error and enrolls the purchaser in every selected run.
  \<^item> B2b: bulk orders (\<open>b2b_ecommerce/api.py\<close>, \<open>b2b_ecommerce/views.py\<close>). Lemmas: price and discount, a
    fulfilled order has exactly its codes, and where a free order does not.
  \<^item> Basket\_Update: \<open>BasketSerializer\<close> (\<open>ecommerce/serializers.py\<close>) and \<open>BasketView\<close>: what a request may ask
    of a basket, its validation, the update, and the order kept in step. Lemmas: what the basket holds afterwards, all
    or nothing, the tables stay well typed, runs selected by themselves pass the check-out.
  \<^item> Certificates: grades, certificates, the task and the commands that make and revoke them, and the
    synchronisation of course runs (\<open>courses/utils.py\<close>, \<open>courses/tasks.py\<close>, \<open>courses/signals.py\<close>). Lemmas: when a certificate is made, found or refused,
    where a revoked one stops the task, synchronising twice changes nothing.
  \<^item> Enrollment\_Admin: the commands that refund, transfer, defer and create enrollments
    (\<open>courses/management/\<close>). Lemmas: what a refused transfer leaves behind, refunds, all or nothing.
  \<^item> Sheet\_Handlers: the spreadsheets in which staff ask for codes, refunds and deferrals (\<open>sheets/\<close>): cells,
    rows and dates, the generic handler, the three kinds of request, watched files and the webhook. The tables are
    \<open>sheets_db\<close>, Google is a parameter (\<open>sheets_config\<close>).
  \<^item> Sheet\_Requests: what the handlers do. Lemmas: which rows a reading in pages gives and when it ends, a completed request is not
    carried out again, what a refund row may change, where one malformed row stops the sheet.
  \<^item> Sheet\_Assignments: the sheets that assign codes to addresses (\<open>sheets/coupon_assign_api.py\<close>), the messages
    about them and the tasks of \<open>sheets/tasks.py\<close>. Lemmas: which assignments a sheet keeps and adds, when
    processing it twice changes nothing, unsent messages that count as delivered.
  \<^item> External\_Sync: courses of external vendors (\<open>courses/sync_external_courses/\<close>, \<open>courses/tasks.py\<close>, parts of \<open>cms/\<close>):
    the reports, parsing and checking of records, runs, products and pages, in \<open>external_db\<close>. Lemmas: what a record leaves behind and what it leaves alone, the catalogue stays
    sound whatever is reported, which runs are switched off, where a record stops the synchronisation, prices and page updates that are made again
    every time, how long a job is waited for.
  \<^item> Accounts: \<open>authentication/\<close>, \<open>compliance/\<close>, \<open>users/serializers.py\<close>, \<open>users/views.py\<close>, \<open>users/utils.py\<close> and the commands of
    \<open>users/management\<close>. \<open>SOCIAL_AUTH_PIPELINE\<close> is the list of steps in their order; the steps of social-auth
    are looked up by name in a parameter, and the partials they store and the session are left out. \<open>account_step\<close> is any request, command or approval
    that changes accounts. Lemmas: accounts stay sound, only cleared users are active, a login takes the password,
    what confirming an address does, addresses that change without it and blocked addresses that register.
  \<^item> Order\_Lifecycle: the fulfilment view (\<open>ecommerce/views.py\<close>), an abstract machine for the life of orders, the
    step relation \<open>shop_step\<close> of the requests, and the locale \<open>order_machine\<close> with its interpretation: the
    requests refine the machine, decided orders stay decided, and an order can be fulfilled that nobody paid for.

  \<^bold>\<open>Bounds and fuel.\<close> Loops of the code run over finite lists and are structural recursion, or
  \<open>function\<close>s with a measure (digit printing); the retry loop of \<open>request_get_with_timeout_retry\<close> counts its
  retries. Reading a worksheet or message events page by page, and waiting for a job of a vendor,
  are \<open>partial_function (option)\<close>, with lemmas that say when they end. No definition uses fuel.

  \<^bold>\<open>Conventions.\<close> A query without an order answers in the order of the keys; descending orders put the missing values
  first, as PostgreSQL does. Related managers of enrollments and products show the active objects only, as the
  code declares them. Requests are not run in a transaction of their own. Unique columns raise an \<open>IntegrityError\<close> where
  the code can run into them; the lengths of text columns are not modelled. Log lines are left out.

  \<^bold>\<open>Not modelled.\<close> CMS pages (\<open>cms/\<close>): what the catalog asks of them is the parameter \<open>cms_pages\<close>.
  Voucher uploads and the HubSpot messages are listed in the manifest as open parts; templates, settings, URL routing, the admin and the front end are glue or
  external code.
\<close>

end
